(* ===== verification/Prelude.thy ===== *)
theory Prelude
  imports Main "HOL-Library.Sublist"
begin

text \<open>
  Shared vocabulary of the development: Go's byte slices and strings, error values and
  results, the fault outcomes of an external call, and the generic facts on lists, maps and
  bytes the component theories use.

  A Go \<open>string\<close> and a Go \<open>[]byte\<close> are both sequences of bytes; Isabelle's \<^typ>\<open>char\<close> is an
  8-bit value, so both are \<^typ>\<open>string\<close>, and the conversions \<open>string(buf)\<close> and
  \<open>[]byte(s)\<close> of the source are the identity.  Go's \<open>int\<close> is 64 bits wide on every platform
  the gateway is built for.  It is modelled by \<^typ>\<open>int\<close>: the bitwise operations of \<^typ>\<open>int\<close> agree
  with those of two's complement words as long as values stay in range.
\<close>

section \<open>Bytes and strings\<close>

type_synonym byte = char
type_synonym bytes = "char list"

text \<open>The value of a byte, as Go's conversion \<open>int(b)\<close> reads it, and the conversion back.\<close>

definition byte_val :: "byte \<Rightarrow> int" where
  "byte_val b = of_char b"

definition to_byte :: "int \<Rightarrow> byte" where
  "to_byte v = char_of v"

section \<open>Errors and results\<close>

text \<open>
  The error values of the source.  Most errors carry a message only (\<open>errors.New\<close>,
  \<open>fmt.Errorf\<close>); the sentinel values the code compares with \<open>errors.Is\<close> are constructors of
  their own.  A run-time panic is \<open>Go_panic\<close>.  Messages are written without the names and values that
  \<open>fmt.Errorf\<close> prints into them, unless the code or a property reads them.
\<close>

datatype error =
    ErrorString string
  | Io_EOF
  | Io_ErrUnexpectedEOF
  | Io_ErrShortWrite
  | Io_ErrNoProgress
  | Io_ErrShortBuffer
  | Net_ErrClosed
  | Sql_ErrNoRows
  | Go_panic string

type_synonym 'a result = "error + 'a"

text \<open>The message \<open>err.Error()\<close> of an error.\<close>

fun Error :: "error \<Rightarrow> string" where
  "Error (ErrorString m) = m"
| "Error Io_EOF = ''EOF''"
| "Error Io_ErrUnexpectedEOF = ''unexpected EOF''"
| "Error Io_ErrShortWrite = ''short write''"
| "Error Io_ErrNoProgress = ''multiple Read calls return no data or error''"
| "Error Io_ErrShortBuffer = ''short buffer''"
| "Error Net_ErrClosed = ''use of closed network connection''"
| "Error Sql_ErrNoRows = ''sql: no rows in result set''"
| "Error (Go_panic m) = m"

section \<open>Automation\<close>

named_theorems go_simps \<open>characteristic equations of the modelled Go library functions\<close>
named_theorems proto_simps \<open>equations of the wire format on well-formed input\<close>
named_theorems table_simps \<open>equations of the keyed tables\<close>

section \<open>Facts on bytes and lists\<close>

lemma byte_val_bounds [simp]: "0 \<le> byte_val b" "byte_val b < 256"
proof -
  have eq: "byte_val b = byte_val b mod 256"
    by (simp add: byte_val_def)
  show "0 \<le> byte_val b" by (subst eq) simp
  show "byte_val b < 256" by (subst eq) simp
qed

lemma takeWhile_dropWhile_same [simp]: "takeWhile P (dropWhile P xs) = []"
  by (induction xs) auto

lemma byte_val_to_byte: "byte_val (to_byte v) = v mod 256"
  by (simp add: byte_val_def to_byte_def)

lemma to_byte_byte_val [simp]: "to_byte (byte_val b) = b"
  by (simp add: byte_val_def to_byte_def)

lemma byte_val_inject [simp]: "byte_val a = byte_val b \<longleftrightarrow> a = b"
  by (metis to_byte_byte_val)

end
