(* ===== verification/GoStd.thy ===== *)
theory GoStd
  imports Prelude
begin

text \<open>
  The parts of Go's standard library the gateway's logic depends on: \<open>strings\<close>,
  \<open>strconv.Atoi\<close>, \<open>net.SplitHostPort\<close>, \<open>net.JoinHostPort\<close>, \<open>path.Clean\<close> and the fixed-width
  integer conversions.  Every function computes; the facts below are the ones the component
  theories use.
\<close>

unbundle bit_operations_syntax

section \<open>Integer conversions\<close>

text \<open>\<open>uint32(v)\<close> keeps the low 32 bits, \<open>int32\<close> reads them as two's complement.\<close>

definition uint32 :: "int \<Rightarrow> int" where
  "uint32 v = take_bit 32 v"

definition int32 :: "int \<Rightarrow> int" where
  "int32 v = signed_take_bit 31 v"

lemma int32_uint32_small: "0 \<le> v \<Longrightarrow> v < 2 ^ 31 \<Longrightarrow> int32 (uint32 v) = v"
  by (simp add: int32_def uint32_def signed_take_bit_take_bit min_def
      take_bit_int_eq_self signed_take_bit_int_eq_self)

lemma int32_bounds: "- (2 ^ 31) \<le> int32 v" "int32 v < 2 ^ 31"
  using signed_take_bit_int_greater_eq_minus_exp [of 31 v] signed_take_bit_int_less_exp [of 31 v]
  by (simp_all add: int32_def)

section \<open>Package strings\<close>

abbreviation HasPrefix :: "string \<Rightarrow> string \<Rightarrow> bool" where
  "HasPrefix s p \<equiv> prefix p s"

abbreviation HasSuffix :: "string \<Rightarrow> string \<Rightarrow> bool" where
  "HasSuffix s p \<equiv> suffix p s"

definition TrimPrefix :: "string \<Rightarrow> string \<Rightarrow> string" where
  "TrimPrefix s p = (if HasPrefix s p then drop (length p) s else s)"

definition TrimSuffix :: "string \<Rightarrow> string \<Rightarrow> string" where
  "TrimSuffix s p = (if HasSuffix s p then take (length s - length p) s else s)"

text \<open>\<open>CutPrefix\<close> returns the rest and whether the prefix was found.\<close>

definition CutPrefix :: "string \<Rightarrow> string \<Rightarrow> string option" where
  "CutPrefix s p = (if HasPrefix s p then Some (drop (length p) s) else None)"

fun Contains :: "string \<Rightarrow> string \<Rightarrow> bool" where
  "Contains [] p = (p = [])"
| "Contains (c # s) p = (prefix p (c # s) \<or> Contains s p)"

definition ContainsAny :: "string \<Rightarrow> string \<Rightarrow> bool" where
  "ContainsAny s chars = list_ex (\<lambda>c. c \<in> set chars) s"

text \<open>\<open>Count s c\<close> for a separator of one byte.\<close>

definition CountByte :: "string \<Rightarrow> byte \<Rightarrow> nat" where
  "CountByte s c = length (filter (\<lambda>d. d = c) s)"

text \<open>\<open>IndexRune(s, 0)\<close>, \<open>IndexByte\<close>: the position of the first byte equal to \<open>c\<close>.\<close>

fun IndexByte :: "string \<Rightarrow> byte \<Rightarrow> nat option" where
  "IndexByte [] c = None"
| "IndexByte (d # s) c = (if d = c then Some 0 else map_option Suc (IndexByte s c))"

definition LastIndexByte :: "string \<Rightarrow> byte \<Rightarrow> nat option" where
  "LastIndexByte s c = map_option (\<lambda>k. length s - 1 - k) (IndexByte (rev s) c)"

definition TrimRightByte :: "string \<Rightarrow> byte \<Rightarrow> string" where
  "TrimRightByte s c = rev (dropWhile (\<lambda>d. d = c) (rev s))"

text \<open>
  \<open>TrimSpace\<close> removes Unicode white space at both ends.  The length of the white-space rune a
  string starts with, 0 when it starts with none: the six ASCII characters, U+0085, U+00A0,
  U+1680, U+2000 to U+200A, U+2028, U+2029, U+202F, U+205F and U+3000 in UTF-8.  No other byte
  sequence decodes to one of these runes, and each of them is found by its bytes from either end.
\<close>

definition space_runes :: "string \<Rightarrow> nat" where
  "space_runes s = (case map (of_char :: char \<Rightarrow> nat) (take 3 s) of
      [] \<Rightarrow> 0
    | a # r \<Rightarrow>
      (if a \<in> {9, 10, 11, 12, 13, 32} then 1
       else if a < 128 then 0
       else (case r of
           [] \<Rightarrow> 0
         | b # r' \<Rightarrow>
           (if a = 0xC2 \<and> (b = 0x85 \<or> b = 0xA0) then 2
            else (case r' of
                [] \<Rightarrow> 0
              | c # _ \<Rightarrow>
                (if a = 0xE1 \<and> b = 0x9A \<and> c = 0x80
                  \<or> a = 0xE2 \<and> b = 0x80 \<and> (0x80 \<le> c \<and> c \<le> 0x8A \<or> c \<in> {0xA8, 0xA9, 0xAF})
                  \<or> a = 0xE2 \<and> b = 0x81 \<and> c = 0x9F
                  \<or> a = 0xE3 \<and> b = 0x80 \<and> c = 0x80 then 3 else 0))))))"

function TrimLeftSpace :: "string \<Rightarrow> string" where
  "TrimLeftSpace s = (if space_runes s = 0 then s else TrimLeftSpace (drop (space_runes s) s))"
  by pat_completeness auto
termination
proof (relation "measure length")
  fix s :: string
  assume "space_runes s \<noteq> 0"
  then have "s \<noteq> []" by (auto simp: space_runes_def)
  with \<open>space_runes s \<noteq> 0\<close> show "(drop (space_runes s) s, s) \<in> measure length" by auto
qed simp

declare TrimLeftSpace.simps [simp del]

text \<open>The white-space rune a string ends with: the last one, two or three bytes.\<close>

definition space_runes_end :: "string \<Rightarrow> nat" where
  "space_runes_end s =
    (if s \<noteq> [] \<and> space_runes (drop (length s - 1) s) = 1 then 1
     else if 2 \<le> length s \<and> space_runes (drop (length s - 2) s) = 2 then 2
     else if 3 \<le> length s \<and> space_runes (drop (length s - 3) s) = 3 then 3 else 0)"

function TrimRightSpace :: "string \<Rightarrow> string" where
  "TrimRightSpace s = (if space_runes_end s = 0 then s
     else TrimRightSpace (take (length s - space_runes_end s) s))"
  by pat_completeness auto
termination
  by (relation "measure length") (auto simp: space_runes_end_def split: if_splits)

declare TrimRightSpace.simps [simp del]

definition TrimSpace :: "string \<Rightarrow> string" where
  "TrimSpace s = TrimRightSpace (TrimLeftSpace s)"

text \<open>
  \<open>ToLower\<close>: on ASCII strings it maps the letters A to Z; what the Unicode tables do to other
  strings is the parameter \<open>uni\<close>.
\<close>

definition lower_byte :: "byte \<Rightarrow> byte" where
  "lower_byte c = (let n = (of_char c :: nat) in if 65 \<le> n \<and> n \<le> 90 then char_of (n + 32) else c)"

definition ascii :: "string \<Rightarrow> bool" where
  "ascii s = list_all (\<lambda>c. (of_char c :: nat) < 128) s"

definition ToLower :: "(string \<Rightarrow> string) \<Rightarrow> string \<Rightarrow> string" where
  "ToLower uni s = (if ascii s then map lower_byte s else uni s)"

text \<open>\<open>Split s sep\<close> for a separator of one byte: never empty.\<close>

fun SplitByte :: "string \<Rightarrow> byte \<Rightarrow> string list" where
  "SplitByte [] c = [[]]"
| "SplitByte (d # s) c =
     (if d = c then [] # SplitByte s c
      else (case SplitByte s c of [] \<Rightarrow> [[d]] | w # ws \<Rightarrow> (d # w) # ws))"

fun JoinWith :: "string \<Rightarrow> string list \<Rightarrow> string" where
  "JoinWith sep [] = []"
| "JoinWith sep [w] = w"
| "JoinWith sep (w # v # ws) = w @ sep @ JoinWith sep (v # ws)"

section \<open>strconv.Atoi\<close>

definition is_digit :: "byte \<Rightarrow> bool" where
  "is_digit c = (let n = (of_char c :: nat) in 48 \<le> n \<and> n \<le> 57)"

definition digit_val :: "byte \<Rightarrow> int" where
  "digit_val c = byte_val c - 48"

fun digits_val :: "int \<Rightarrow> string \<Rightarrow> int" where
  "digits_val acc [] = acc"
| "digits_val acc (c # s) = digits_val (10 * acc + digit_val c) s"

text \<open>
  An optional sign, then at least one decimal digit and nothing else; a value outside the range of
  a 64-bit integer is an error too.
\<close>

definition Atoi :: "string \<Rightarrow> int option" where
  "Atoi s =
    (let (neg, ds) = (case s of
         [] \<Rightarrow> (False, [])
       | c # r \<Rightarrow> if c = CHR ''-'' then (True, r) else if c = CHR ''+'' then (False, r) else (False, s))
     in if ds = [] \<or> \<not> list_all is_digit ds then None
        else (let v = (if neg then - digits_val 0 ds else digits_val 0 ds)
              in if - (2 ^ 63) \<le> v \<and> v < 2 ^ 63 then Some v else None))"

section \<open>Digits\<close>

text \<open>A number in base 10 or 16, as \<open>%d\<close> and \<open>%x\<close> print it.\<close>

fun nat_digits :: "nat \<Rightarrow> nat \<Rightarrow> nat list" where
  "nat_digits b n = (if n < b \<or> b \<le> 1 then [n] else nat_digits b (n div b) @ [n mod b])"

declare nat_digits.simps [simp del]

definition digit_char :: "nat \<Rightarrow> char" where
  "digit_char d = (if d < 10 then char_of (48 + d) else char_of (87 + d))"

definition show_base :: "nat \<Rightarrow> nat \<Rightarrow> string" where
  "show_base b n = map digit_char (nat_digits b n)"

fun ReplaceAll_at :: "nat \<Rightarrow> string \<Rightarrow> string \<Rightarrow> string \<Rightarrow> string" where
  "ReplaceAll_at skip old new [] = []"
| "ReplaceAll_at (Suc skip) old new (c # s) = ReplaceAll_at skip old new s"
| "ReplaceAll_at 0 old new (c # s) =
    (if HasPrefix (c # s) old then new @ ReplaceAll_at (length old - 1) old new s else c # ReplaceAll_at 0 old new s)"

text \<open>\<open>strings.ReplaceAll\<close> for a non-empty old string: occurrences that do not overlap, from the left.\<close>

definition ReplaceAll :: "string \<Rightarrow> string \<Rightarrow> string \<Rightarrow> string" where
  "ReplaceAll s old new = ReplaceAll_at 0 old new s"

section \<open>Time\<close>

text \<open>A point in time and a \<open>Duration\<close> are counted in nanoseconds.\<close>

definition Second :: int where
  "Second = 1000000000"

definition Minute :: int where
  "Minute = 60 * Second"

text \<open>\<open>Time.Unix\<close>: the second a point in time lies in.\<close>

definition Unix :: "int \<Rightarrow> int" where
  "Unix t = t div Second"

text \<open>Go's integer division cuts off towards zero.\<close>

definition int_quot :: "int \<Rightarrow> int \<Rightarrow> int" where
  "int_quot a b = sgn a * sgn b * (\<bar>a\<bar> div \<bar>b\<bar>)"

section \<open>Package net: host and port\<close>

definition SplitHostPort :: "string \<Rightarrow> (string \<times> string) result" where
  "SplitHostPort hp = (case LastIndexByte hp CHR '':'' of
      None \<Rightarrow> Inl (ErrorString ''missing port in address'')
    | Some i \<Rightarrow>
      (let bad = (\<lambda>host j k.
         if CHR ''['' \<in> set (drop j hp) then Inl (ErrorString ''unexpected '[' in address'')
         else if CHR '']'' \<in> set (drop k hp) then Inl (ErrorString ''unexpected ']' in address'')
         else Inr (host, drop (i + 1) hp))
       in if hd hp = CHR ''['' then
            (case IndexByte hp CHR '']'' of
               None \<Rightarrow> Inl (ErrorString ''missing ']' in address'')
             | Some e \<Rightarrow>
               if e + 1 = length hp then Inl (ErrorString ''missing port in address'')
               else if e + 1 = i then bad (take (e - 1) (drop 1 hp)) 1 (e + 1)
               else if hp ! (e + 1) = CHR '':'' then Inl (ErrorString ''too many colons in address'')
               else Inl (ErrorString ''missing port in address''))
          else (let host = take i hp
                in if CHR '':'' \<in> set host then Inl (ErrorString ''too many colons in address'')
                   else bad host 0 0)))"

definition JoinHostPort :: "string \<Rightarrow> string \<Rightarrow> string" where
  "JoinHostPort host port =
    (if CHR '':'' \<in> set host then ''['' @ host @ '']:'' @ port else host @ '':'' @ port)"

section \<open>path.Clean\<close>

text \<open>
  The lexical path: empty and \<open>.\<close> elements go, an inner \<open>..\<close> removes the element before it, a
  rooted path drops leading \<open>..\<close>, and the empty result is \<open>.\<close>.
\<close>

fun clean_elems :: "bool \<Rightarrow> string list \<Rightarrow> string list \<Rightarrow> string list" where
  "clean_elems rooted acc [] = rev acc"
| "clean_elems rooted acc (e # es) =
    (if e = [] \<or> e = ''.'' then clean_elems rooted acc es
     else if e = ''..'' then
       (case acc of
          [] \<Rightarrow> clean_elems rooted (if rooted then [] else [''..'']) es
        | a # as \<Rightarrow> if a = ''..'' then clean_elems rooted (''..'' # acc) es
                    else clean_elems rooted as es)
     else clean_elems rooted (e # acc) es)"

definition path_Clean :: "string \<Rightarrow> string" where
  "path_Clean p =
    (let rooted = HasPrefix p ''/'';
         out = JoinWith ''/'' (clean_elems rooted [] (SplitByte p CHR ''/''))
     in if rooted then ''/'' @ out else if out = [] then ''.'' else out)"

text \<open>The elements a cleaned rooted path consists of.\<close>

definition clean_elem :: "string \<Rightarrow> bool" where
  "clean_elem e = (e \<noteq> [] \<and> e \<noteq> ''.'' \<and> e \<noteq> ''..'' \<and> CHR ''/'' \<notin> set e)"

definition path_elems :: "string \<Rightarrow> string list" where
  "path_elems p = clean_elems (HasPrefix p ''/'') [] (SplitByte p CHR ''/'')"

text \<open>\<open>filepath.Join\<close> on Unix, where \<open>filepath.Clean\<close> is \<open>path.Clean\<close>.\<close>

definition filepath_Join :: "string list \<Rightarrow> string" where
  "filepath_Join elem = (case dropWhile (\<lambda>e. e = []) elem of [] \<Rightarrow> [] | es \<Rightarrow> path_Clean (JoinWith ''/'' es))"

text \<open>
  \<open>filepath.Rel\<close> on Unix: the elements both paths begin with go, and each that is left of the base is one step up.  A base that leads out of
  an unknown directory, and a rooted path against one that is not, are errors.
\<close>

fun drop_common :: "string list \<Rightarrow> string list \<Rightarrow> string list \<times> string list" where
  "drop_common (a # as) (b # bs) = (if a = b then drop_common as bs else (a # as, b # bs))"
| "drop_common as bs = (as, bs)"

definition filepath_Rel :: "string \<Rightarrow> string \<Rightarrow> string option" where
  "filepath_Rel base targ =
    (if path_Clean targ = path_Clean base then Some ''.''
     else if HasPrefix base ''/'' \<noteq> HasPrefix targ ''/'' then None
     else (case drop_common (path_elems base) (path_elems targ) of
         (up, down) \<Rightarrow> if up \<noteq> [] \<and> hd up = ''..'' then None else Some (JoinWith ''/'' (map (\<lambda>_. ''..'') up @ down))))"

section \<open>Facts\<close>

lemma Unix_mono: "a \<le> b \<Longrightarrow> Unix a \<le> Unix b"
  by (simp add: Unix_def Second_def zdiv_mono1)

lemma CutPrefix_append [simp]: "CutPrefix (p @ s) p = Some s"
  by (simp add: CutPrefix_def)

lemma CutPrefix_Some: "CutPrefix s p = Some r \<longleftrightarrow> s = p @ r"
  by (auto simp: CutPrefix_def prefix_def)

lemma IndexByte_None: "IndexByte s c = None \<longleftrightarrow> c \<notin> set s"
  by (induction s) auto

lemma IndexByte_append: "c \<notin> set s \<Longrightarrow> IndexByte (s @ c # t) c = Some (length s)"
  by (induction s) auto

lemma IndexByte_Some:
  "IndexByte s c = Some i \<Longrightarrow> s = take i s @ c # drop (Suc i) s \<and> c \<notin> set (take i s) \<and> i < length s"
proof (induction s arbitrary: i)
  case Nil
  then show ?case by simp
next
  case (Cons d s)
  then show ?case by (cases i) (auto split: if_splits)
qed

lemma LastIndexByte_append: "c \<notin> set t \<Longrightarrow> LastIndexByte (s @ c # t) c = Some (length s)"
  by (simp add: LastIndexByte_def IndexByte_append)

lemma LastIndexByte_None: "LastIndexByte s c = None \<longleftrightarrow> c \<notin> set s"
  by (simp add: LastIndexByte_def IndexByte_None)

lemma Contains_iff: "Contains s p \<longleftrightarrow> (\<exists>u v. s = u @ p @ v)"
proof (induction s)
  case Nil
  show ?case by auto
next
  case (Cons c s)
  note IH = Cons.IH
  show ?case
  proof
    assume "Contains (c # s) p"
    then consider "prefix p (c # s)" | "Contains s p" by auto
    then show "\<exists>u v. c # s = u @ p @ v"
    proof cases
      case 1
      then show ?thesis by (auto simp: prefix_def intro: exI [of _ "[]"])
    next
      case 2
      then obtain u v where "s = u @ p @ v" using IH by blast
      then have "c # s = (c # u) @ p @ v" by simp
      then show ?thesis by blast
    qed
  next
    assume "\<exists>u v. c # s = u @ p @ v"
    then obtain u v where uv: "c # s = u @ p @ v" by blast
    show "Contains (c # s) p"
    proof (cases u)
      case Nil
      with uv have "prefix p (c # s)" by (auto simp: prefix_def)
      then show ?thesis by simp
    next
      case (Cons a u')
      with uv have "s = u' @ p @ v" by simp
      then have "Contains s p" using IH by blast
      then show ?thesis by simp
    qed
  qed
qed

text \<open>Splitting a plain \<open>host:port\<close>.\<close>

lemma SplitHostPort_plain:
  assumes "h \<noteq> []" "set h \<inter> {CHR '':'', CHR ''['', CHR '']''} = {}"
    and "set p \<inter> {CHR '':'', CHR ''['', CHR '']''} = {}"
  shows "SplitHostPort (h @ CHR '':'' # p) = Inr (h, p)"
proof -
  have "LastIndexByte (h @ CHR '':'' # p) CHR '':'' = Some (length h)"
    using assms by (intro LastIndexByte_append) auto
  moreover have "hd (h @ CHR '':'' # p) \<noteq> CHR ''[''"
    using assms by (cases h) auto
  ultimately show ?thesis
    using assms by (auto simp: SplitHostPort_def Let_def)
qed

lemma space_runes_prefix: "space_runes p \<noteq> 0 \<Longrightarrow> space_runes (p @ q) = space_runes p"
proof -
  assume nz: "space_runes p \<noteq> 0"
  have one: "space_runes [a] \<noteq> 0 \<Longrightarrow> space_runes (a # q') = space_runes [a]" for a q'
    by (auto simp: space_runes_def split: if_splits)
  have two: "space_runes [a, b] \<noteq> 0 \<Longrightarrow> space_runes (a # b # q') = space_runes [a, b]" for a b q'
    by (auto simp: space_runes_def split: if_splits)
  have three: "space_runes (a # b # c # r @ q) = space_runes (a # b # c # r)" for a b c r
    by (simp add: space_runes_def)
  consider "p = []" | a where "p = [a]" | a b where "p = [a, b]" | a b c r where "p = a # b # c # r"
    by (metis list.exhaust)
  then show ?thesis
  proof cases
    case 1
    with nz show ?thesis by (simp add: space_runes_def)
  next
    case (2 a)
    with nz one [of a q] show ?thesis by simp
  next
    case (3 a b)
    with nz two [of a b q] show ?thesis by simp
  next
    case (4 a b c r)
    with three [of a b c r] show ?thesis by simp
  qed
qed

lemma TrimLeftSpace_end: "space_runes (TrimLeftSpace s) = 0"
  by (induction s rule: TrimLeftSpace.induct) (subst TrimLeftSpace.simps, simp)

lemma TrimRightSpace_end: "space_runes_end (TrimRightSpace s) = 0"
  by (induction s rule: TrimRightSpace.induct) (subst TrimRightSpace.simps, simp)

lemma TrimRightSpace_prefix: "prefix (TrimRightSpace s) s"
proof (induction s rule: TrimRightSpace.induct)
  case (1 s)
  show ?case
  proof (cases "space_runes_end s = 0")
    case True
    then show ?thesis by (subst TrimRightSpace.simps) simp
  next
    case False
    with 1 have "prefix (TrimRightSpace (take (length s - space_runes_end s) s)) (take (length s - space_runes_end s) s)" by simp
    then have "prefix (TrimRightSpace (take (length s - space_runes_end s) s)) s"
      using take_is_prefix prefix_order.trans by blast
    with False show ?thesis by (subst TrimRightSpace.simps) simp
  qed
qed

text \<open>Trimming twice is trimming once.\<close>

lemma TrimSpace_idem [simp]: "TrimSpace (TrimSpace s) = TrimSpace s"
proof -
  let ?l = "TrimLeftSpace s"
  obtain q where q: "?l = TrimSpace s @ q"
    using TrimRightSpace_prefix [of ?l] by (auto simp: TrimSpace_def prefix_def)
  have "space_runes (TrimSpace s) = 0"
    using space_runes_prefix [of "TrimSpace s" q] TrimLeftSpace_end [of s] unfolding q by metis
  then have "TrimLeftSpace (TrimSpace s) = TrimSpace s" by (subst TrimLeftSpace.simps) simp
  moreover have "TrimRightSpace (TrimSpace s) = TrimSpace s"
    using TrimRightSpace_end [of ?l] by (subst TrimRightSpace.simps) (simp add: TrimSpace_def)
  ultimately show ?thesis by (simp add: TrimSpace_def)
qed

text \<open>A string that begins and ends with a printable ASCII byte is left alone.\<close>

definition solid :: "byte \<Rightarrow> bool" where
  "solid c = (32 < (of_char c :: nat) \<and> (of_char c :: nat) < 127)"

lemma space_runes_solid: "xs \<noteq> [] \<Longrightarrow> solid (last xs) \<Longrightarrow> length xs \<le> 3 \<Longrightarrow> space_runes xs \<noteq> length xs"
  by (cases xs rule: list.exhaust; cases "tl xs" rule: list.exhaust; cases "tl (tl xs)" rule: list.exhaust)
    (auto simp: space_runes_def solid_def Let_def split: list.splits if_splits)

lemma TrimSpace_solid:
  assumes "s \<noteq> []" "solid (hd s)" "solid (last s)"
  shows "TrimSpace s = s"
proof -
  have "space_runes s = 0" using assms(1,2) by (cases s) (auto simp: space_runes_def solid_def Let_def)
  then have l: "TrimLeftSpace s = s" by (subst TrimLeftSpace.simps) simp
  have "space_runes (drop (length s - n) s) \<noteq> n" if "1 \<le> n" "n \<le> 3" "n \<le> length s" for n
    using that assms(1,3) space_runes_solid [of "drop (length s - n) s"] by (simp add: last_drop)
  then have "space_runes_end s = 0" using assms(1) by (simp add: space_runes_end_def Suc_le_eq)
  then have "TrimRightSpace s = s" by (subst TrimRightSpace.simps) simp
  then show ?thesis by (simp add: TrimSpace_def l)
qed

section \<open>Facts on paths\<close>

lemma SplitByte_no_sep: "w \<in> set (SplitByte s c) \<Longrightarrow> c \<notin> set w"
  by (induction s arbitrary: w) (auto split: if_splits list.splits)

lemma SplitByte_not_Nil [simp]: "SplitByte s c \<noteq> []"
  by (induction s) (auto split: list.splits)

lemma SplitByte_append_sep: "SplitByte (s @ c # t) c = SplitByte s c @ SplitByte t c"
  by (induction s) (auto split: list.splits)

lemma SplitByte_elem: "c \<notin> set s \<Longrightarrow> SplitByte s c = [s]"
  by (induction s) auto

lemma SplitByte_JoinWith: "es \<noteq> [] \<Longrightarrow> \<forall>e \<in> set es. c \<notin> set e \<Longrightarrow> SplitByte (JoinWith [c] es) c = es"
proof (induction "[c]" es rule: JoinWith.induct)
  case (3 w v ws)
  then show ?case by (simp add: SplitByte_append_sep SplitByte_elem)
qed (simp_all add: SplitByte_elem)

lemma JoinWith_SplitByte: "JoinWith [c] (SplitByte s c) = s"
proof (induction s)
  case (Cons d s)
  obtain w ws where w: "SplitByte s c = w # ws" by (cases "SplitByte s c") simp_all
  show ?case using Cons.IH unfolding SplitByte.simps w by (cases ws) auto
qed simp

lemma clean_elems_append:
  "clean_elems r acc (xs @ ys) = clean_elems r (rev (clean_elems r acc xs)) ys"
  by (induction r acc xs rule: clean_elems.induct) (auto split: list.splits)

lemma clean_elems_clean: "list_all clean_elem es \<Longrightarrow> clean_elems r acc es = rev acc @ es"
  by (induction es arbitrary: acc) (auto simp: clean_elem_def)

lemma clean_elems_rooted:
  "list_all clean_elem acc \<Longrightarrow> \<forall>e \<in> set es. CHR ''/'' \<notin> set e \<Longrightarrow> list_all clean_elem (clean_elems True acc es)"
proof (induction es arbitrary: acc)
  case (Cons e es)
  then show ?case by (cases acc) (auto simp: clean_elem_def)
qed simp

lemma path_Clean_rooted:
  assumes "HasPrefix p ''/''"
  obtains es where "path_Clean p = CHR ''/'' # JoinWith ''/'' es" "list_all clean_elem es"
    "es = clean_elems True [] (SplitByte p CHR ''/'')"
proof -
  have "list_all clean_elem (clean_elems True [] (SplitByte p CHR ''/''))"
    by (rule clean_elems_rooted) (auto dest: SplitByte_no_sep)
  with assms that show ?thesis by (auto simp: path_Clean_def Let_def)
qed

lemma filepath_Join_two: "dir \<noteq> [] \<Longrightarrow> filepath_Join [dir, name] = path_Clean (dir @ ''/'' @ name)"
  by (simp add: filepath_Join_def)

lemma filepath_Join_elems:
  assumes "dir \<noteq> []" "list_all clean_elem (SplitByte name CHR ''/'')"
  shows "path_elems (dir @ ''/'' @ name) = path_elems dir @ SplitByte name CHR ''/''"
proof -
  have r: "HasPrefix (dir @ ''/'' @ name) ''/'' = HasPrefix dir ''/''" using assms(1) by (cases dir) auto
  have "SplitByte (dir @ ''/'' @ name) CHR ''/'' = SplitByte dir CHR ''/'' @ SplitByte name CHR ''/''"
    by (simp add: SplitByte_append_sep)
  then show ?thesis unfolding path_elems_def r
    by (simp only: clean_elems_append) (simp add: clean_elems_clean [OF assms(2)])
qed

lemma path_Clean_elems:
  "path_Clean p = (if HasPrefix p ''/'' then ''/'' @ JoinWith ''/'' (path_elems p)
     else if JoinWith ''/'' (path_elems p) = [] then ''.'' else JoinWith ''/'' (path_elems p))"
  by (simp add: path_Clean_def path_elems_def Let_def)

lemma JoinWith_last:
  "es \<noteq> [] \<Longrightarrow> \<forall>e \<in> set es. e \<noteq> [] \<Longrightarrow> JoinWith sep es \<noteq> [] \<and> last (JoinWith sep es) = last (last es)"
proof (induction sep es rule: JoinWith.induct)
  case (3 sep w v ws)
  then show ?case by auto
qed auto

lemma JoinWith_clean_last:
  assumes "list_all clean_elem es" "es \<noteq> []"
  shows "JoinWith ''/'' es \<noteq> []" "last (JoinWith ''/'' es) \<noteq> CHR ''/''"
proof -
  have ne: "\<forall>e \<in> set es. e \<noteq> []" and l: "clean_elem (last es)"
    using assms by (auto simp: clean_elem_def list_all_iff)
  from l have "last (last es) \<noteq> CHR ''/''" by (auto simp: clean_elem_def dest: last_in_set)
  with JoinWith_last [OF assms(2) ne, of "''/''"] show "JoinWith ''/'' es \<noteq> []" "last (JoinWith ''/'' es) \<noteq> CHR ''/''"
    by simp_all
qed

lemma TrimRightByte_keep: "s \<noteq> [] \<Longrightarrow> last s \<noteq> c \<Longrightarrow> TrimRightByte s c = s"
  by (cases s rule: rev_cases) (auto simp: TrimRightByte_def)

lemma TrimRightByte_snoc [simp]: "TrimRightByte (s @ [c]) c = TrimRightByte s c"
  by (simp add: TrimRightByte_def)

lemma TrimRightByte_Nil [simp]: "TrimRightByte [] c = []"
  by (simp add: TrimRightByte_def)

section \<open>Paths by their elements\<close>

text \<open>A cleaned path: steps up, unless it is rooted, and then plain elements.\<close>

definition dotted :: "bool \<Rightarrow> string list \<Rightarrow> bool" where
  "dotted rooted es = (\<exists>k cs. es = replicate k ''..'' @ cs \<and> list_all clean_elem cs \<and> (rooted \<longrightarrow> k = 0))"

lemma clean_elems_dotted:
  assumes "dotted rooted (rev acc)" "\<forall>e \<in> set es. CHR ''/'' \<notin> set e"
  shows "dotted rooted (clean_elems rooted acc es)"
  using assms
proof (induction es arbitrary: acc)
  case (Cons e es)
  obtain k cs where acc: "acc = rev cs @ replicate k ''..''" and cs: "list_all clean_elem cs" and k: "rooted \<longrightarrow> k = 0"
    using Cons.prems(1) unfolding dotted_def by (metis rev_append rev_replicate rev_rev_ident)
  have up: "dotted rooted (rev (''..'' # acc))" if "cs = []" "\<not> rooted"
    unfolding dotted_def acc using that by (intro exI [of _ "Suc k"] exI [of _ "[]"]) (simp add: replicate_append_same)
  have down: "dotted rooted (rev (e # acc))" if "clean_elem e"
    unfolding dotted_def acc using that cs k by (intro exI [of _ k] exI [of _ "cs @ [e]"]) simp
  have pop: "dotted rooted (rev as)" if "acc = a # as" "a \<noteq> ''..''" for a as
  proof -
    from that acc obtain cs' where "cs = cs' @ [a]" "as = rev cs' @ replicate k ''..''"
      by (cases cs rule: rev_cases) (auto, cases k, auto)
    then show ?thesis unfolding dotted_def using cs k by (intro exI [of _ k] exI [of _ cs']) simp
  qed
  have first: "cs = [] \<and> \<not> rooted" if "acc = ''..'' # as" for as
    using that acc cs k by (cases cs rule: rev_cases) (auto simp: clean_elem_def)
  have one: "dotted rooted (rev (if rooted then [] else [''..'']))"
    unfolding dotted_def by (intro exI [of _ "if rooted then 0 else 1"] exI [of _ "[]"]) simp
  have ce: "clean_elem e" if "e \<noteq> []" "e \<noteq> ''.''" "e \<noteq> ''..''" using that Cons.prems(2) by (simp add: clean_elem_def)
  have ih: "dotted rooted (clean_elems rooted acc' es)" if "dotted rooted (rev acc')" for acc'
    using Cons.IH [OF that] Cons.prems(2) by simp
  show ?case
  proof (cases "e = ''..''")
    case True
    then show ?thesis using ih [OF one] ih [OF up] ih [OF pop] first by (cases acc) auto
  next
    case False
    then show ?thesis using ih [OF Cons.prems(1)] ih [OF down] ce by auto
  qed
qed simp

lemma path_elems_dotted: "dotted (HasPrefix p ''/'') (path_elems p)"
  unfolding path_elems_def by (rule clean_elems_dotted) (auto simp: dotted_def dest: SplitByte_no_sep)

lemma dotted_elem: "dotted r es \<Longrightarrow> e \<in> set es \<Longrightarrow> e \<noteq> [] \<and> CHR ''/'' \<notin> set e"
  unfolding dotted_def by (elim exE conjE, simp) (elim disjE conjE, simp_all add: clean_elem_def list_all_iff)

lemma clean_elems_up: "clean_elems False (replicate k ''..'') (replicate n ''..'') = replicate (k + n) ''..''"
proof (induction n arbitrary: k)
  case (Suc n)
  show ?case using Suc.IH [of "Suc k"] Suc.IH [of 1] by (cases k) simp_all
qed simp

lemma clean_elems_fixed: "dotted r es \<Longrightarrow> clean_elems r [] es = es"
  using clean_elems_up [of 0] by (cases r) (auto simp: dotted_def clean_elems_append clean_elems_clean)

text \<open>The text of a path with given elements.\<close>

definition path_text :: "bool \<Rightarrow> string list \<Rightarrow> string" where
  "path_text rooted es = (if rooted then ''/'' @ JoinWith ''/'' es else if es = [] then ''.'' else JoinWith ''/'' es)"

lemma JoinWith_ne: "\<forall>e \<in> set es. e \<noteq> [] \<Longrightarrow> JoinWith ''/'' es = [] \<longleftrightarrow> es = []"
  using JoinWith_last [of es "''/''"] by (cases "es = []") auto

lemma path_Clean_text: "path_Clean p = path_text (HasPrefix p ''/'') (path_elems p)"
  using JoinWith_ne [of "path_elems p"] dotted_elem [OF path_elems_dotted [of p]]
  by (auto simp: path_Clean_elems path_text_def)

lemma JoinWith_no_slash: "dotted r es \<Longrightarrow> \<not> HasPrefix (JoinWith ''/'' es) ''/''"
proof (induction "''/''" es rule: JoinWith.induct)
  case (2 w)
  then show ?case using dotted_elem [of r "[w]" w] by (cases w) auto
next
  case (3 w v ws)
  then show ?case using dotted_elem [of r "w # v # ws" w] by (cases w) auto
qed simp

lemma path_text_elems:
  assumes "dotted r es"
  shows "HasPrefix (path_text r es) ''/'' = r" "path_elems (path_text r es) = es"
proof -
  show p: "HasPrefix (path_text r es) ''/'' = r" using JoinWith_no_slash [OF assms] by (auto simp: path_text_def)
  have "SplitByte (JoinWith ''/'' es) CHR ''/'' = es" if "es \<noteq> []"
    using that dotted_elem [OF assms] by (intro SplitByte_JoinWith) auto
  then have "SplitByte (path_text r es) CHR ''/'' = (if r then [[]] else []) @ (if es = [] then [if r then [] else ''.''] else es)"
    by (auto simp: path_text_def)
  then show "path_elems (path_text r es) = es" unfolding path_elems_def p using clean_elems_fixed [OF assms] by auto
qed

lemma path_text_inj: "dotted r es \<Longrightarrow> dotted r' es' \<Longrightarrow> path_text r es = path_text r' es' \<longleftrightarrow> r = r' \<and> es = es'"
  by (metis path_text_elems)

lemma path_Clean_idem [simp]: "path_Clean (path_Clean p) = path_Clean p"
  by (simp add: path_Clean_text path_text_elems [OF path_elems_dotted])

lemma dotted_append: "dotted r es \<Longrightarrow> list_all clean_elem cs \<Longrightarrow> dotted r (es @ cs)"
  unfolding dotted_def by (elim exE conjE) (rule_tac x = k in exI, rule_tac x = "csa @ cs" in exI, simp)

text \<open>Joining a path and clean elements below it.\<close>

lemma filepath_Join_below:
  assumes "dir \<noteq> []" "list_all clean_elem (concat (map (\<lambda>n. SplitByte n CHR ''/'') names))"
  shows "filepath_Join (dir # names) = path_text (HasPrefix dir ''/'') (path_elems dir @ concat (map (\<lambda>n. SplitByte n CHR ''/'') names))"
proof (cases names)
  case Nil
  then show ?thesis using assms(1) by (simp add: filepath_Join_def path_Clean_text)
next
  case (Cons n ns)
  have "SplitByte (JoinWith ''/'' (x # xs)) CHR ''/'' = concat (map (\<lambda>n. SplitByte n CHR ''/'') (x # xs))" for x xs
    by (induction xs arbitrary: x) (simp_all add: SplitByte_append_sep)
  then have s: "SplitByte (JoinWith ''/'' names) CHR ''/'' = concat (map (\<lambda>n. SplitByte n CHR ''/'') names)" using Cons by simp
  have j: "filepath_Join (dir # names) = path_Clean (dir @ ''/'' @ JoinWith ''/'' names)"
    using assms(1) Cons by (simp add: filepath_Join_def)
  have "HasPrefix (dir @ ''/'' @ JoinWith ''/'' names) ''/'' = HasPrefix dir ''/''" using assms(1) by (cases dir) auto
  then show ?thesis
    unfolding j path_Clean_text using filepath_Join_elems [OF assms(1), of "JoinWith ''/'' names"] assms(2) s by simp
qed

lemma drop_common_prefix: "drop_common xs (xs @ ys) = ([], ys)"
  by (induction xs) simp_all

lemma filepath_Rel_below:
  assumes "dotted r xs" "list_all clean_elem ys" "ys \<noteq> []"
  shows "filepath_Rel (path_text r xs) (path_text r (xs @ ys)) = Some (JoinWith ''/'' ys)"
  using path_text_elems [OF assms(1)] path_text_elems [OF dotted_append [OF assms(1,2)]]
    path_text_inj [OF assms(1) dotted_append [OF assms(1,2)]] assms(3)
  by (simp add: filepath_Rel_def path_Clean_text drop_common_prefix)

lemma clean_elem_split: "clean_elem e \<Longrightarrow> SplitByte e CHR ''/'' = [e]"
  by (simp add: clean_elem_def SplitByte_elem)

end
