(* ===== verification/Go_IO.thy ===== *)
theory Go_IO
  imports GoStd
begin

text \<open>
  Byte streams as the source uses them.  The network is a parameter: the reading side of a
  connection is the list of results its \<open>Read\<close> calls return, each a chunk of bytes and an error
  or nil; after the list the peer has closed and reads report EOF.  The writing side is the
  list of results of its \<open>Write\<close> calls, a count and an error or nil.  The functions of package
  \<open>io\<close> the gateway calls are modelled on these.
\<close>

type_synonym reads = "(bytes \<times> error option) list"
type_synonym writes = "(int \<times> error option) list"

text \<open>The bytes a reader of the connection sees.\<close>

definition stream_of :: "reads \<Rightarrow> bytes" where
  "stream_of rs = concat (map fst rs)"

text \<open>
  \<open>Read\<close> into a buffer of \<open>k > 0\<close> bytes: at most \<open>k\<close> bytes of the next chunk; the rest of the
  chunk, with its error, stays for the next call.
\<close>

fun conn_Read :: "nat \<Rightarrow> reads \<Rightarrow> bytes \<times> error option \<times> reads" where
  "conn_Read k [] = ([], Some Io_EOF, [])"
| "conn_Read k ((c, e) # rs) =
    (if k < length c then (take k c, None, (drop k c, e) # rs) else (c, e, rs))"

text \<open>
  \<open>io.ReadFull\<close>: read until \<open>k\<close> bytes are there or an error occurs; an error that comes with the
  last byte needed is dropped, and EOF after some bytes becomes \<open>ErrUnexpectedEOF\<close>.
\<close>

function ReadFull_loop :: "nat \<Rightarrow> bytes \<Rightarrow> reads \<Rightarrow> bytes \<times> error option \<times> reads" where
  "ReadFull_loop k acc rs =
    (if k \<le> length acc then (acc, None, rs)
     else (case conn_Read (k - length acc) rs of (c, e, rs') \<Rightarrow>
       (case e of
          None \<Rightarrow> ReadFull_loop k (acc @ c) rs'
        | Some err \<Rightarrow>
            (if k \<le> length (acc @ c) then (acc @ c, None, rs')
             else (acc @ c, Some (if acc @ c \<noteq> [] \<and> err = Io_EOF then Io_ErrUnexpectedEOF else err), rs')))))"
  by pat_completeness auto
termination
  apply (relation "measures [\<lambda>(k, acc, rs). length rs, \<lambda>(k, acc, rs). k - length acc]")
   apply simp
  subgoal for k acc rs by (cases rs) (auto split: if_splits)
  done

declare ReadFull_loop.simps [simp del]

definition ReadFull :: "nat \<Rightarrow> reads \<Rightarrow> bytes \<times> error option \<times> reads" where
  "ReadFull k rs = ReadFull_loop k [] rs"

text \<open>
  The loop of \<open>io.Copy\<close> and \<open>io.CopyBuffer\<close>: read a chunk, write it in one call, and stop at the
  first error.  The result is the bytes the destination got and the error; \<^const>\<open>None\<close> where
  the destination's write has not returned.
\<close>

fun copy_chunk :: "bytes \<Rightarrow> int \<times> error option \<Rightarrow> bytes \<times> error option" where
  "copy_chunk c (nw, ew) =
    (let bad = (nw < 0 \<or> int (length c) < nw);
         ew = (if bad \<and> ew = None then Some (ErrorString ''invalid write result'') else ew);
         nw = (if bad then 0 else nw)
     in (take (nat nw) c,
         (case ew of Some e \<Rightarrow> Some e | None \<Rightarrow> if nw \<noteq> int (length c) then Some Io_ErrShortWrite else None)))"

fun io_Copy :: "reads \<Rightarrow> writes \<Rightarrow> (bytes \<times> error option) option" where
  "io_Copy [] ws = Some ([], None)"
| "io_Copy ((c, er) # rs) ws =
    (if c = [] then
       (case er of None \<Rightarrow> io_Copy rs ws | Some e \<Rightarrow> Some ([], if e = Io_EOF then None else Some e))
     else (case ws of
        [] \<Rightarrow> None
      | w # ws' \<Rightarrow> (case copy_chunk c w of
          (out, Some e) \<Rightarrow> Some (out, Some e)
        | (out, None) \<Rightarrow> (case er of
            Some e \<Rightarrow> Some (out, if e = Io_EOF then None else Some e)
          | None \<Rightarrow> map_option (\<lambda>(out', e). (out @ out', e)) (io_Copy rs ws')))))"

section \<open>Lemmas\<close>

lemma stream_of_simps [simp]:
  "stream_of [] = []" "stream_of ((c, e) # rs) = c @ stream_of rs" "stream_of (rs @ rs') = stream_of rs @ stream_of rs'"
  by (simp_all add: stream_of_def)

lemma conn_Read_stream: "conn_Read k rs = (c, e, rs') \<Longrightarrow> c @ stream_of rs' = stream_of rs"
  by (cases rs) (auto split: if_splits)

lemma conn_Read_length: "conn_Read k rs = (c, e, rs') \<Longrightarrow> length c \<le> k"
  by (cases rs) (auto split: if_splits)

lemma ReadFull_loop_stream:
  "ReadFull_loop k acc rs = (bs, e, rest) \<Longrightarrow> bs @ stream_of rest = acc @ stream_of rs"
proof (induction k acc rs rule: ReadFull_loop.induct)
  case (1 k acc rs)
  obtain c er rs' where r: "conn_Read (k - length acc) rs = (c, er, rs')" by (metis prod_cases3)
  show ?case
  proof (cases "k \<le> length acc")
    case True
    with "1.prems" show ?thesis by (simp add: ReadFull_loop.simps)
  next
    case False
    show ?thesis
    proof (cases er)
      case None
      with False r "1.prems" have "ReadFull_loop k (acc @ c) rs' = (bs, e, rest)"
        by (simp add: ReadFull_loop.simps [of k acc])
      then have "bs @ stream_of rest = (acc @ c) @ stream_of rs'"
        using "1.IH" [OF False r [symmetric] refl None] by simp
      with conn_Read_stream [OF r] show ?thesis by simp
    next
      case (Some err)
      with False r "1.prems" have "bs = acc @ c" "rest = rs'"
        by (auto simp: ReadFull_loop.simps [of k acc] split: if_splits)
      with conn_Read_stream [OF r] show ?thesis by simp
    qed
  qed
qed

text \<open>With no read error before them, the bytes asked for are returned, however they were cut.\<close>

lemma ReadFull_loop_ok:
  assumes "\<forall>(c, e) \<in> set rs. e = None" "length acc \<le> k" "k \<le> length acc + length (stream_of rs)"
  shows "\<exists>rest. ReadFull_loop k acc rs = (acc @ take (k - length acc) (stream_of rs), None, rest)
    \<and> stream_of rest = drop (k - length acc) (stream_of rs) \<and> (\<forall>(c, e) \<in> set rest. e = None)"
  using assms
proof (induction k acc rs rule: ReadFull_loop.induct)
  case (1 k acc rs)
  show ?case
  proof (cases "k \<le> length acc")
    case True
    with "1.prems" show ?thesis by (simp add: ReadFull_loop.simps)
  next
    case False
    with "1.prems"(3) obtain c e rs0 where rs: "rs = (c, e) # rs0" by (cases rs) auto
    with "1.prems"(1) have e: "e = None" by simp
    show ?thesis
    proof (cases "k - length acc < length c")
      case True
      with False rs e "1.prems" show ?thesis
        by (simp add: ReadFull_loop.simps [of k acc] ReadFull_loop.simps [of k "acc @ _"])
    next
      case long: False
      have r: "conn_Read (k - length acc) rs = (c, None, rs0)" using rs e long by simp
      have "\<exists>rest. ReadFull_loop k (acc @ c) rs0 = ((acc @ c) @ take (k - length (acc @ c)) (stream_of rs0), None, rest)
          \<and> stream_of rest = drop (k - length (acc @ c)) (stream_of rs0) \<and> (\<forall>(c, e) \<in> set rest. e = None)"
        using "1.IH" [OF False r [symmetric] refl refl] "1.prems" rs long False by auto
      moreover have "ReadFull_loop k acc rs = ReadFull_loop k (acc @ c) rs0"
        using False r by (simp add: ReadFull_loop.simps [of k acc])
      ultimately show ?thesis using rs long by auto
    qed
  qed
qed

lemma ReadFull_ok:
  assumes "\<forall>(c, e) \<in> set rs. e = None" "k \<le> length (stream_of rs)"
  obtains rest where "ReadFull k rs = (take k (stream_of rs), None, rest)"
    "stream_of rest = drop k (stream_of rs)" "\<forall>(c, e) \<in> set rest. e = None"
  using ReadFull_loop_ok [OF assms(1), of "[]" k] assms(2) by (auto simp: ReadFull_def)

lemma ReadFull_stream: "ReadFull k rs = (bs, e, rest) \<Longrightarrow> bs @ stream_of rest = stream_of rs"
  using ReadFull_loop_stream [of k "[]" rs bs e rest] by (simp add: ReadFull_def)

lemma ReadFull_loop_length:
  "ReadFull_loop k acc rs = (bs, e, rest) \<Longrightarrow> length acc \<le> k \<Longrightarrow> length bs \<le> k \<and> (e = None \<longleftrightarrow> length bs = k)"
proof (induction k acc rs rule: ReadFull_loop.induct)
  case (1 k acc rs)
  obtain c er rs' where r: "conn_Read (k - length acc) rs = (c, er, rs')" by (metis prod_cases3)
  show ?case
  proof (cases "k \<le> length acc")
    case True
    with "1.prems" show ?thesis by (auto simp: ReadFull_loop.simps)
  next
    case False
    have c: "length (acc @ c) \<le> k" using conn_Read_length [OF r] False by simp
    show ?thesis
    proof (cases er)
      case None
      with False r "1.prems" have "ReadFull_loop k (acc @ c) rs' = (bs, e, rest)"
        by (simp add: ReadFull_loop.simps [of k acc])
      then show ?thesis using "1.IH" [OF False r [symmetric] refl None _ c] by simp
    next
      case (Some err)
      with False r "1.prems" c show ?thesis
        by (auto simp: ReadFull_loop.simps [of k acc] split: if_splits)
    qed
  qed
qed

lemma ReadFull_length: "ReadFull k rs = (bs, e, rest) \<Longrightarrow> length bs \<le> k \<and> (e = None \<longleftrightarrow> length bs = k)"
  using ReadFull_loop_length [of k "[]" rs bs e rest] by (simp add: ReadFull_def)

lemma copy_chunk_prefix: "copy_chunk c w = (out, e) \<Longrightarrow> prefix out c \<and> (e = None \<longrightarrow> out = c)"
  by (cases w) (auto simp: Let_def take_is_prefix split: if_splits option.splits)

text \<open>What is copied is a prefix of the stream, and all of it when no error is reported.\<close>

lemma io_Copy_prefix:
  "io_Copy rs ws = Some (out, e) \<Longrightarrow> prefix out (stream_of rs)"
proof (induction rs ws arbitrary: out e rule: io_Copy.induct)
  case (1 ws)
  then show ?case by simp
next
  case (2 c er rs ws)
  show ?case
  proof (cases "c = []")
    case True
    with 2 show ?thesis by (auto split: option.splits if_splits)
  next
    case False
    with "2.prems" obtain w ws' where ws: "ws = w # ws'" by (cases ws) auto
    obtain o1 e1 where k: "copy_chunk c w = (o1, e1)" by fastforce
    show ?thesis
      using "2.prems" False ws k copy_chunk_prefix [OF k] "2.IH"(2) [OF False ws k [symmetric]]
      by (auto split: option.splits if_splits)
  qed
qed

end
