(* ===== verification/Tcp_Http_Mux.thy ===== *)
theory Tcp_Http_Mux
  imports Go_IO
begin

text \<open>
  \<open>src/internal/tcphttpmux/mux.go\<close>: one listener serves both the Admin HTTP API and Minecraft TCP.
  The first bytes of a connection decide; what was read to decide is replayed to the handler.
\<close>

section \<open>Recognising HTTP\<close>

definition httpMethodPrefixes :: "bytes list" where
  "httpMethodPrefixes = [''GET '', ''POST '', ''HEAD '', ''PUT '', ''PATCH '', ''DELETE '', ''OPTIONS '',
     ''CONNECT '', ''TRACE '']"

definition maxHTTPMethodPrefixLen :: nat where
  "maxHTTPMethodPrefixLen = length ''OPTIONS ''"

definition IsHTTPInitialPacket :: "bytes \<Rightarrow> bool" where
  "IsHTTPInitialPacket buf = list_ex (\<lambda>p. HasPrefix buf p) httpMethodPrefixes"

definition IsPotentialHTTPInitialPacket :: "bytes \<Rightarrow> bool" where
  "IsPotentialHTTPInitialPacket buf =
    (buf = [] \<or> list_ex (\<lambda>p. length buf \<le> length p \<and> HasPrefix p buf) httpMethodPrefixes)"

text \<open>
  The read loop of \<open>ReadInitialPacket\<close>: the bytes peeked, the error, and the reads that remain.
\<close>

fun read_initial :: "bytes \<Rightarrow> reads \<Rightarrow> bytes \<times> error option \<times> reads" where
  "read_initial peeked [] = (if peeked \<noteq> [] then (peeked, None, []) else (peeked, Some Io_EOF, []))"
| "read_initial peeked ((chunk, err) # rs) =
    (let peeked' = peeked @ chunk in
     if chunk \<noteq> [] \<and> (IsHTTPInitialPacket peeked' \<or> \<not> IsPotentialHTTPInitialPacket peeked'
          \<or> maxHTTPMethodPrefixLen \<le> length peeked')
     then (peeked', None, rs)
     else (case err of
         Some e \<Rightarrow> if peeked' \<noteq> [] \<and> e = Io_EOF then (peeked', None, rs) else (peeked', Some e, rs)
       | None \<Rightarrow> if chunk = [] then (peeked', Some Io_ErrNoProgress, rs) else read_initial peeked' rs))"

text \<open>\<open>deadline\<close> is what \<open>SetReadDeadline\<close> returns; it is called for a positive timeout only.\<close>

definition ReadInitialPacket ::
  "int \<Rightarrow> error option \<Rightarrow> reads \<Rightarrow> bytes \<times> error option \<times> reads" where
  "ReadInitialPacket timeout deadline rs =
    (case (if 0 < timeout then deadline else None) of
       Some e \<Rightarrow> ([], Some e, rs)
     | None \<Rightarrow> read_initial [] rs)"

text \<open>\<open>NewReplayConn\<close>: an \<open>io.MultiReader\<close> of the peeked bytes and the connection.\<close>

definition NewReplayConn :: "reads \<Rightarrow> bytes \<Rightarrow> reads" where
  "NewReplayConn conn peeked = (peeked, None) # conn"

section \<open>The HTTP accept queue\<close>

record 'c ChanListener =
  cl_conns :: "'c list"
  cl_cap :: nat
  cl_closed :: bool

definition DefaultHTTPConnBacklog :: int where
  "DefaultHTTPConnBacklog = 128"

definition NewChanListener :: "int \<Rightarrow> 'c ChanListener" where
  "NewChanListener backlog =
    (let backlog = (if backlog \<le> 0 then DefaultHTTPConnBacklog else backlog)
     in \<lparr>cl_conns = [], cl_cap = nat backlog, cl_closed = False\<rparr>)"

text \<open>
  \<open>Accept\<close>: a select over the queue and the close signal.  When both are ready the runtime picks
  one (\<open>pick\<close>: take the connection); when neither is, the call blocks (\<^const>\<open>None\<close>).
\<close>

definition cl_Accept :: "bool \<Rightarrow> 'c ChanListener \<Rightarrow> ('c result \<times> 'c ChanListener) option" where
  "cl_Accept pick l = (case cl_conns l of
      [] \<Rightarrow> if cl_closed l then Some (Inl Net_ErrClosed, l) else None
    | c # cs \<Rightarrow> if cl_closed l \<and> \<not> pick then Some (Inl Net_ErrClosed, l)
               else Some (Inr c, l\<lparr>cl_conns := cs\<rparr>))"

definition cl_Close :: "'c ChanListener \<Rightarrow> 'c ChanListener" where
  "cl_Close l = l\<lparr>cl_closed := True\<rparr>"

text \<open>
  \<open>Deliver\<close> never blocks.  \<open>closing\<close>: another goroutine closes the listener between the two
  selects; then the second one may find both its cases ready and \<open>pick\<close> again decides.
\<close>

definition cl_Deliver :: "bool \<Rightarrow> bool \<Rightarrow> 'c \<Rightarrow> 'c ChanListener \<Rightarrow> bool \<times> 'c ChanListener" where
  "cl_Deliver closing pick c l =
    (if cl_closed l then (False, l)
     else (let l = (if closing then cl_Close l else l) in
       if length (cl_conns l) < cl_cap l \<and> (cl_closed l \<longrightarrow> pick)
       then (True, l\<lparr>cl_conns := cl_conns l @ [c]\<rparr>)
       else (False, l)))"

section \<open>Routing one connection\<close>

record mux_Options =
  mo_InitialPacketTimeout :: int
  mo_HTTPConnBacklog :: int
  mo_OnTCPConnection :: bool \<comment> \<open>whether the callback is set, as for the others\<close>
  mo_OnAcceptError :: bool
  mo_OnInitialPacketError :: bool
  mo_OnEmptyInitialPacket :: bool
  mo_OnHTTPDeliveryFailed :: bool
  mo_SetSocketOptions :: bool

definition normalizedInitialPacketTimeout :: "mux_Options \<Rightarrow> int" where
  "normalizedInitialPacketTimeout opts =
    (if mo_InitialPacketTimeout opts = 0 then 1000000000 else mo_InitialPacketTimeout opts)"

definition normalizedHTTPConnBacklog :: "mux_Options \<Rightarrow> int" where
  "normalizedHTTPConnBacklog opts =
    (if mo_HTTPConnBacklog opts \<le> 0 then DefaultHTTPConnBacklog else mo_HTTPConnBacklog opts)"

text \<open>What routing a connection does, in order.\<close>

datatype mux_event =
    EvInitialPacketError error
  | EvEmptyInitialPacket
  | EvHTTPDeliveryFailed
  | EvClose
  | EvTCPConnection
  | EvHandoff
  | EvTCPHandler reads

text \<open>
  \<open>handleConn\<close>.  The arguments \<open>deadline\<close>, \<open>closing\<close> and \<open>pick\<close> are the outcomes of the calls
  described above.
\<close>

definition handleConn ::
  "mux_Options \<Rightarrow> error option \<Rightarrow> bool \<Rightarrow> bool \<Rightarrow> reads \<Rightarrow> reads ChanListener
    \<Rightarrow> mux_event list \<times> reads ChanListener" where
  "handleConn opts deadline closing pick conn webListener =
    (case ReadInitialPacket (normalizedInitialPacketTimeout opts) deadline conn of
       (peeked, Some err, _) \<Rightarrow>
         ((if mo_OnInitialPacketError opts then [EvInitialPacketError err] else []) @ [EvClose], webListener)
     | (peeked, None, rest) \<Rightarrow>
       (if peeked = [] then
          ((if mo_OnEmptyInitialPacket opts then [EvEmptyInitialPacket] else []) @ [EvClose], webListener)
        else (let replayed = NewReplayConn rest peeked in
          if IsHTTPInitialPacket peeked then
            (case cl_Deliver closing pick replayed webListener of
               (True, l) \<Rightarrow> ([EvHandoff], l)
             | (False, l) \<Rightarrow>
                 ((if mo_OnHTTPDeliveryFailed opts then [EvHTTPDeliveryFailed] else []) @
                  [EvClose, EvHandoff], l))
          else
            ((if mo_OnTCPConnection opts then [EvTCPConnection] else []) @
             [EvHandoff, EvTCPHandler replayed], webListener))))"

text \<open>
  The goroutine \<open>Serve\<close> starts for an accepted connection: \<open>handoff\<close> marks the connection and
  calls \<open>routingWG.Done()\<close> the first time only, and runs again when the goroutine ends.  The
  result counts the \<open>Done\<close> calls.
\<close>

fun wg_done :: "bool \<Rightarrow> mux_event list \<Rightarrow> nat" where
  "wg_done handedOff [] = (if handedOff then 0 else 1)"
| "wg_done handedOff (EvHandoff # es) = (if handedOff then 0 else 1) + wg_done True es"
| "wg_done handedOff (_ # es) = wg_done handedOff es"

text \<open>
  The accept loop of \<open>Serve\<close> over the results \<open>listener.Accept\<close> returns: a connection starts a
  routing goroutine, a closed listener ends the loop, any other error is reported and the loop
  goes on.  \<^const>\<open>None\<close>: the loop is still waiting.
\<close>

datatype serve_event = SvAcceptError error | SvSetSocketOptions | SvRoute reads

fun serve_loop :: "mux_Options \<Rightarrow> reads result list \<Rightarrow> serve_event list \<times> error option" where
  "serve_loop opts [] = ([], None)"
| "serve_loop opts (Inl err # as) =
    (if err = Net_ErrClosed then ([], Some err)
     else (case serve_loop opts as of
         (evs, r) \<Rightarrow> ((if mo_OnAcceptError opts then [SvAcceptError err] else []) @ evs, r)))"
| "serve_loop opts (Inr conn # as) = (case serve_loop opts as of
     (evs, r) \<Rightarrow> ((if mo_SetSocketOptions opts then [SvSetSocketOptions] else []) @ SvRoute conn # evs, r))"

section \<open>Lemmas\<close>

subsection \<open>Deciding the protocol\<close>

lemma method_lengths: "p \<in> set httpMethodPrefixes \<Longrightarrow> length p \<le> maxHTTPMethodPrefixLen \<and> p \<noteq> []"
  by (auto simp: httpMethodPrefixes_def maxHTTPMethodPrefixLen_def)

lemma IsHTTP_append: "IsHTTPInitialPacket buf \<Longrightarrow> IsHTTPInitialPacket (buf @ ext)"
  unfolding IsHTTPInitialPacket_def list_ex_iff using prefix_prefix by blast

text \<open>Once the bytes are no prefix of a method, or long enough, more bytes change nothing.\<close>

lemma not_HTTP_final:
  assumes "\<not> IsHTTPInitialPacket buf"
    and "\<not> IsPotentialHTTPInitialPacket buf \<or> maxHTTPMethodPrefixLen \<le> length buf"
  shows "\<not> IsHTTPInitialPacket (buf @ ext)"
proof
  assume "IsHTTPInitialPacket (buf @ ext)"
  then obtain p where p: "p \<in> set httpMethodPrefixes" "prefix p (buf @ ext)"
    by (auto simp: IsHTTPInitialPacket_def list_ex_iff)
  with assms(1) have "\<not> prefix p buf" by (auto simp: IsHTTPInitialPacket_def list_ex_iff)
  with p(2) have pre: "prefix buf p" and len: "length buf < length p"
    using prefix_same_cases [OF p(2), of buf] prefix_length_less [of buf p]
    by (auto simp: strict_prefix_def)
  then have "IsPotentialHTTPInitialPacket buf"
    using p(1) by (auto simp: IsPotentialHTTPInitialPacket_def list_ex_iff)
  with assms(2) len method_lengths [OF p(1)] show False by simp
qed

lemma read_initial_stream:
  "read_initial peeked rs = (p, e, rest) \<Longrightarrow> p @ stream_of rest = peeked @ stream_of rs"
proof (induction peeked rs rule: read_initial.induct)
  case (1 peeked)
  then show ?case by (auto simp: stream_of_def split: if_splits)
next
  case (2 peeked chunk err rs)
  then show ?case by (auto simp: stream_of_def Let_def split: if_splits option.splits)
qed

lemma read_initial_decides:
  assumes "read_initial peeked rs = (p, None, rest)"
    and "\<forall>(chunk, err) \<in> set rs. err = None"
  shows "IsHTTPInitialPacket p = IsHTTPInitialPacket (peeked @ stream_of rs)"
  using assms
proof (induction peeked rs rule: read_initial.induct)
  case (1 peeked)
  then show ?case by (auto simp: stream_of_def split: if_splits)
next
  case (2 peeked chunk err rs)
  let ?p = "peeked @ chunk"
  show ?case
  proof (cases "chunk \<noteq> [] \<and> (IsHTTPInitialPacket ?p \<or> \<not> IsPotentialHTTPInitialPacket ?p
      \<or> maxHTTPMethodPrefixLen \<le> length ?p)")
    case True
    then have "p = ?p" using "2.prems"(1) by (auto simp: Let_def)
    moreover have "IsHTTPInitialPacket ?p = IsHTTPInitialPacket (?p @ stream_of rs)"
      using True IsHTTP_append [of ?p "stream_of rs"] not_HTTP_final [of ?p "stream_of rs"] by blast
    ultimately show ?thesis by (simp add: stream_of_def)
  next
    case False
    then have "read_initial ?p rs = (p, None, rest)" "err = None" "chunk \<noteq> []"
      using "2.prems" by (auto simp: Let_def split: if_splits)
    then have "IsHTTPInitialPacket p = IsHTTPInitialPacket (?p @ stream_of rs)"
      using "2.IH" [OF refl False] "2.prems"(2) by simp
    then show ?thesis by (simp add: stream_of_def)
  qed
qed

lemma read_initial_bounded:
  assumes "read_initial peeked rs = (p, e, rest)" "length peeked < maxHTTPMethodPrefixLen"
  shows "length rs - length rest \<le> maxHTTPMethodPrefixLen - length peeked"
  using assms
proof (induction peeked rs rule: read_initial.induct)
  case (1 peeked)
  then show ?case by (auto split: if_splits)
next
  case (2 peeked chunk err rs)
  let ?p = "peeked @ chunk"
  show ?case
  proof (cases "read_initial ?p rs = (p, e, rest) \<and> length ?p < maxHTTPMethodPrefixLen
      \<and> \<not> (chunk \<noteq> [] \<and> (IsHTTPInitialPacket ?p \<or> \<not> IsPotentialHTTPInitialPacket ?p
        \<or> maxHTTPMethodPrefixLen \<le> length ?p)) \<and> err = None \<and> chunk \<noteq> []")
    case True
    then have "length rs - length rest \<le> maxHTTPMethodPrefixLen - length ?p"
      using "2.IH" [OF refl] by blast
    moreover have "0 < length chunk" using True by simp
    ultimately show ?thesis using "2.prems"(2) unfolding length_append list.size by linarith
  next
    case False
    with "2.prems" have "rest = rs"
      by (auto simp: Let_def not_le split: if_splits option.splits)
    with "2.prems"(2) show ?thesis by simp
  qed
qed

subsection \<open>The accept queue as a bounded FIFO\<close>

text \<open>
  The interface the HTTP server and the routing goroutines share: a queue of at most \<open>cap\<close>
  entries.  \<open>enq\<close> reports whether it took the entry; \<open>deq\<close> gives the oldest entry or none.
\<close>

datatype ('o, 'p) qop = Enq 'o | Deq 'p | Shut

fun run_queue ::
  "('o \<Rightarrow> 'q \<Rightarrow> bool \<times> 'q) \<Rightarrow> ('p \<Rightarrow> 'q \<Rightarrow> ('x \<times> 'q) option) \<Rightarrow> ('q \<Rightarrow> 'q) \<Rightarrow> ('o, 'p) qop list \<Rightarrow> 'q
    \<Rightarrow> 'o list \<times> 'x list \<times> 'q" where
  "run_queue enq deq shut [] q = ([], [], q)"
| "run_queue enq deq shut (Enq x # ops) q = (case enq x q of (ok, q1) \<Rightarrow>
     (case run_queue enq deq shut ops q1 of (d, a, q2) \<Rightarrow> (if ok then x # d else d, a, q2)))"
| "run_queue enq deq shut (Deq y # ops) q = (case deq y q of
     None \<Rightarrow> run_queue enq deq shut ops q
   | Some (x, q1) \<Rightarrow> (case run_queue enq deq shut ops q1 of (d, a, q2) \<Rightarrow> (d, x # a, q2)))"
| "run_queue enq deq shut (Shut # ops) q = run_queue enq deq shut ops (shut q)"

locale bounded_fifo =
  fixes enq :: "'o \<Rightarrow> 'q \<Rightarrow> bool \<times> 'q"
    and deq :: "'p \<Rightarrow> 'q \<Rightarrow> ('x \<times> 'q) option"
    and shut :: "'q \<Rightarrow> 'q"
    and item :: "'o \<Rightarrow> 'x"
    and items :: "'q \<Rightarrow> 'x list"
    and cap :: "'q \<Rightarrow> nat"
    and invar :: "'q \<Rightarrow> bool"
  assumes enq_items: "invar q \<Longrightarrow> enq x q = (ok, q') \<Longrightarrow>
      items q' = items q @ (if ok then [item x] else []) \<and> cap q' = cap q \<and> invar q'"
    and deq_items: "invar q \<Longrightarrow> deq y q = Some (z, q') \<Longrightarrow> items q = z # items q' \<and> cap q' = cap q \<and> invar q'"
    and shut_items: "invar q \<Longrightarrow> items (shut q) = items q \<and> cap (shut q) = cap q \<and> invar (shut q)"
    and bounded: "invar q \<Longrightarrow> length (items q) \<le> cap q"
begin

text \<open>Nothing is lost, duplicated or reordered, and the bound holds throughout.\<close>

lemma run_fifo:
  assumes "invar q" "run_queue enq deq shut ops q = (d, a, q')"
  shows "items q @ map item d = a @ items q' \<and> invar q' \<and> cap q' = cap q \<and> length (items q') \<le> cap q"
  using assms
proof (induction ops arbitrary: q d a q')
  case Nil
  then show ?case by (simp add: bounded)
next
  case (Cons op ops)
  show ?case
  proof (cases op)
    case (Enq x)
    obtain ok q1 where e: "enq x q = (ok, q1)" by fastforce
    obtain d1 a1 q2 where r: "run_queue enq deq shut ops q1 = (d1, a1, q2)" by (metis prod_cases3)
    from Enq e r Cons.prems(2) have res: "d = (if ok then x # d1 else d1)" "a = a1" "q' = q2" by auto
    from enq_items [OF Cons.prems(1) e] Cons.IH [OF _ r] res show ?thesis by auto
  next
    case (Deq y)
    show ?thesis
    proof (cases "deq y q")
      case None
      with Deq Cons.prems Cons.IH [OF Cons.prems(1)] show ?thesis by simp
    next
      case (Some xq)
      obtain x q1 where xq: "xq = (x, q1)" by fastforce
      obtain d1 a1 q2 where r: "run_queue enq deq shut ops q1 = (d1, a1, q2)" by (metis prod_cases3)
      from Deq Some xq r Cons.prems(2) have res: "d = d1" "a = x # a1" "q' = q2" by auto
      from deq_items [OF Cons.prems(1) Some [unfolded xq]] Cons.IH [OF _ r] res show ?thesis by auto
    qed
  next
    case Shut
    with Cons.prems Cons.IH [of "shut q" d a q'] shut_items [of q] show ?thesis by simp
  qed
qed

end

text \<open>An enqueue on the channel: the interleaving choices and the connection.\<close>

definition cl_enq :: "bool \<times> bool \<times> 'c \<Rightarrow> 'c ChanListener \<Rightarrow> bool \<times> 'c ChanListener" where
  "cl_enq = (\<lambda>(closing, pick, c). cl_Deliver closing pick c)"

definition cl_deq :: "bool \<Rightarrow> 'c ChanListener \<Rightarrow> ('c \<times> 'c ChanListener) option" where
  "cl_deq pick l = (case cl_Accept pick l of Some (Inr c, l') \<Rightarrow> Some (c, l') | _ \<Rightarrow> None)"

interpretation web: bounded_fifo "cl_enq" "cl_deq" "cl_Close" "\<lambda>(closing, pick, c). c" cl_conns cl_cap
  "\<lambda>l. length (cl_conns l) \<le> cl_cap l"
  by unfold_locales
    (auto simp: cl_enq_def cl_deq_def cl_Deliver_def cl_Accept_def cl_Close_def Let_def
      split: if_splits list.splits prod.splits option.splits sum.splits)

subsection \<open>Properties\<close>

lemma read_initial_ok:
  assumes "\<forall>(chunk, err) \<in> set rs. chunk \<noteq> [] \<and> err = None" "rs \<noteq> [] \<or> peeked \<noteq> []"
  shows "\<exists>p rest. read_initial peeked rs = (p, None, rest) \<and> p \<noteq> []"
  using assms
proof (induction peeked rs rule: read_initial.induct)
  case (1 peeked)
  then show ?case by simp
next
  case (2 peeked chunk err rs)
  then show ?case by (auto simp: Let_def)
qed

text \<open>
  C14: when the peer sends any bytes, cut into non-empty reads in any way, the connection goes to the
  HTTP server exactly when the whole byte stream starts with a method of the list, and to the
  Minecraft handler otherwise; the chosen handler reads the whole stream from its first byte,
  and at most eight reads were needed to decide.
\<close>

theorem mux_routes_by_stream:
  assumes "conn \<noteq> []" and "\<forall>(chunk, err) \<in> set conn. chunk \<noteq> [] \<and> err = None"
  shows "\<exists>replayed rest p.
    ReadInitialPacket (normalizedInitialPacketTimeout opts) None conn = (p, None, rest)
    \<and> length conn - length rest \<le> 8 \<and> stream_of replayed = stream_of conn
    \<and> handleConn opts None closing pick conn l =
      (if IsHTTPInitialPacket (stream_of conn) then
         (case cl_Deliver closing pick replayed l of
            (True, l') \<Rightarrow> ([EvHandoff], l')
          | (False, l') \<Rightarrow> ((if mo_OnHTTPDeliveryFailed opts then [EvHTTPDeliveryFailed] else []) @
                [EvClose, EvHandoff], l'))
       else ((if mo_OnTCPConnection opts then [EvTCPConnection] else []) @
             [EvHandoff, EvTCPHandler replayed], l))"
proof -
  obtain p rest where r: "read_initial [] conn = (p, None, rest)" "p \<noteq> []"
    using read_initial_ok assms by blast
  have read: "ReadInitialPacket (normalizedInitialPacketTimeout opts) None conn = (p, None, rest)"
    by (simp add: ReadInitialPacket_def r)
  have "IsHTTPInitialPacket p = IsHTTPInitialPacket (stream_of conn)"
    using read_initial_decides [OF r(1)] assms(2) by auto
  moreover have "stream_of (NewReplayConn rest p) = stream_of conn"
    using read_initial_stream [OF r(1)] by (simp add: NewReplayConn_def stream_of_def)
  moreover have "length conn - length rest \<le> 8"
    using read_initial_bounded [OF r(1)] by (simp add: maxHTTPMethodPrefixLen_def)
  ultimately show ?thesis
    using read r(2) by (intro exI [of _ "NewReplayConn rest p"] exI [of _ rest] exI [of _ p]) (auto simp: handleConn_def Let_def)
qed

theorem mux_routes_by_stream_witness:
  "\<exists>replayed rest p. ReadInitialPacket 1000000000 None [(''G'', None), (''ET'', None), ('' / HTTP'', None)]
      = (p, None, rest)
    \<and> stream_of replayed = ''GET / HTTP''
    \<and> handleConn \<lparr>mo_InitialPacketTimeout = 0, mo_HTTPConnBacklog = 0, mo_OnTCPConnection = False,
        mo_OnAcceptError = False, mo_OnInitialPacketError = False, mo_OnEmptyInitialPacket = False,
        mo_OnHTTPDeliveryFailed = False, mo_SetSocketOptions = False\<rparr>
        None False True [(''G'', None), (''ET'', None), ('' / HTTP'', None)] (NewChanListener 0)
      = ([EvHandoff], (NewChanListener 0)\<lparr>cl_conns := [replayed]\<rparr>)"
proof -
  let ?o = "\<lparr>mo_InitialPacketTimeout = 0, mo_HTTPConnBacklog = 0, mo_OnTCPConnection = False,
        mo_OnAcceptError = False, mo_OnInitialPacketError = False, mo_OnEmptyInitialPacket = False,
        mo_OnHTTPDeliveryFailed = False, mo_SetSocketOptions = False\<rparr>"
  let ?c = "[(''G'', None), (''ET'', None), ('' / HTTP'', None)] :: reads"
  have "IsHTTPInitialPacket (stream_of ?c)" by code_simp
  moreover have "stream_of ?c = ''GET / HTTP''" by (simp add: stream_of_def)
  moreover have "normalizedInitialPacketTimeout ?o = 1000000000" by (simp add: normalizedInitialPacketTimeout_def)
  ultimately show ?thesis
    using mux_routes_by_stream [of ?c ?o False True "NewChanListener 0"]
    by (auto simp: cl_Deliver_def NewChanListener_def DefaultHTTPConnBacklog_def)
qed

text \<open>
  whatever the reads return and however the callbacks and the select choices fall, a routed
  connection ends in exactly one place: it is closed, or handed to the TCP handler, or queued for
  the HTTP server; and \<open>routingWG.Done\<close> is called exactly once.
\<close>

theorem handleConn_one_owner:
  "handleConn opts deadline closing pick conn l = (evs, l') \<Longrightarrow>
    of_bool (EvClose \<in> set evs) + of_bool (\<exists>c. EvTCPHandler c \<in> set evs)
      + (length (cl_conns l') - length (cl_conns l)) = (1::nat)
    \<and> wg_done False evs = 1 \<and> count_list evs EvClose \<le> 1"
  by (auto simp: handleConn_def cl_Deliver_def cl_Close_def Let_def
      split: prod.splits option.splits if_splits)

theorem handleConn_one_owner_witness:
  "\<exists>evs l'. handleConn \<lparr>mo_InitialPacketTimeout = 0, mo_HTTPConnBacklog = 0, mo_OnTCPConnection = True,
        mo_OnAcceptError = False, mo_OnInitialPacketError = False, mo_OnEmptyInitialPacket = False,
        mo_OnHTTPDeliveryFailed = False, mo_SetSocketOptions = False\<rparr>
        None False True [(''GE'', Some Io_EOF)] (NewChanListener 1) = (evs, l')
    \<and> wg_done False evs = 1 \<and> cl_conns l' = []"
proof -
  let ?o = "\<lparr>mo_InitialPacketTimeout = 0, mo_HTTPConnBacklog = 0, mo_OnTCPConnection = True,
        mo_OnAcceptError = False, mo_OnInitialPacketError = False, mo_OnEmptyInitialPacket = False,
        mo_OnHTTPDeliveryFailed = False, mo_SetSocketOptions = False\<rparr>"
  have "handleConn ?o None False True [(''GE'', Some Io_EOF)] (NewChanListener 1)
      = ([EvTCPConnection, EvHandoff, EvTCPHandler [(''GE'', None)]], NewChanListener 1)"
    by code_simp
  from handleConn_one_owner [OF this] this show ?thesis by (simp add: NewChanListener_def)
qed

text \<open>
  C15: over any interleaving of deliveries, accepts and closes on a fresh listener, the connections
  \<open>Accept\<close> returned followed by those still queued are exactly the ones \<open>Deliver\<close> reported as taken,
  in that order, and the queue never holds more than the backlog.
\<close>

theorem ChanListener_fifo:
  assumes "run_queue cl_enq cl_deq cl_Close ops (NewChanListener backlog) = (delivered, accepted, l)"
  shows "map (\<lambda>(closing, pick, c). c) delivered = accepted @ cl_conns l
    \<and> length (cl_conns l) \<le> nat (if backlog \<le> 0 then 128 else backlog)"
  using web.run_fifo [OF _ assms]
  by (simp add: NewChanListener_def Let_def DefaultHTTPConnBacklog_def split: if_splits)

theorem ChanListener_fifo_witness:
  "\<exists>delivered accepted (l :: nat ChanListener).
    run_queue cl_enq cl_deq cl_Close
      [Enq (False, True, 1), Enq (False, True, 2), Enq (False, True, 3), Deq True, Shut, Enq (False, True, 4),
       Deq False, Deq True] (NewChanListener 2) = (delivered, accepted, l)
    \<and> map (\<lambda>(closing, pick, c). c) delivered = accepted @ cl_conns l \<and> accepted = [1, 2]"
proof -
  have "run_queue cl_enq cl_deq cl_Close
      [Enq (False, True, 1), Enq (False, True, 2), Enq (False, True, 3), Deq True, Shut, Enq (False, True, 4),
       Deq False, Deq True] (NewChanListener 2)
    = ([(False, True, 1), (False, True, 2)], [1, 2],
       (NewChanListener 2 :: nat ChanListener)\<lparr>cl_closed := True\<rparr>)"
    by code_simp
  from ChanListener_fifo [OF this] this show ?thesis by simp
qed

end
