(* ===== verification/MC_Protocol.thy ===== *)
theory MC_Protocol
  imports GoStd "HOL-Library.Monad_Syntax"
begin

text \<open>
  The Minecraft wire format of \<open>src/protocol/mc.go\<close>: the VarInt codec, length-prefixed packets
  and strings, the handshake parser that yields the routing host, and the rewriting of the
  host in the first packet.  The packet builders of \<open>src/protocol/smoke/helper.go\<close> are modelled
  beside them, so that parser and builder can be proved inverse to each other.
\<close>

section \<open>Reading\<close>

record Handshake =
  RawServerHost :: string
  ServerHost :: string
  ProtocolVersion :: int
  NextState :: int

text \<open>The zero value \<open>Handshake{}\<close>, which every parse failure returns.\<close>

definition empty_handshake :: Handshake where
  "empty_handshake = \<lparr>RawServerHost = [], ServerHost = [], ProtocolVersion = 0, NextState = 0\<rparr>"

text \<open>The loop of \<open>readVarInt\<close>, at byte \<open>i\<close> with the value read so far.\<close>

function readVarInt_loop :: "nat \<Rightarrow> int \<Rightarrow> bytes \<Rightarrow> (int \<times> nat) result" where
  "readVarInt_loop i v buf =
    (if i < 5 then
       (if length buf \<le> i then Inl (ErrorString ''incomplete varint'')
        else (let b = byte_val (buf ! i);
                  v' = v OR push_bit (7 * i) (b AND 0x7f)
              in if b AND 0x80 = 0 then Inr (int32 (uint32 v'), i + 1)
                 else readVarInt_loop (i + 1) v' buf))
     else Inl (ErrorString ''varint too long''))"
  by pat_completeness auto
termination
  by (relation "measure (\<lambda>(i, _, _). 5 - i)") auto

declare readVarInt_loop.simps [simp del]

definition readVarInt :: "bytes \<Rightarrow> (int \<times> nat) result" where
  "readVarInt buf = readVarInt_loop 0 0 buf"

definition readPacket :: "bytes \<Rightarrow> (bytes \<times> nat) result" where
  "readPacket buf = (case readVarInt buf of
      Inl e \<Rightarrow> Inl e
    | Inr (len, n) \<Rightarrow>
        (if len < 0 \<or> int (length (drop n buf)) < len then Inl (ErrorString ''incomplete packet'')
         else Inr (take (nat len) (drop n buf), n + nat len)))"

definition readString :: "bytes \<Rightarrow> (string \<times> nat) result" where
  "readString buf = (case readVarInt buf of
      Inl e \<Rightarrow> Inl e
    | Inr (len, n) \<Rightarrow>
        (if len < 0 \<or> int (length (drop n buf)) < len then Inl (ErrorString ''incomplete string'')
         else Inr (take (nat len) (drop n buf), n + nat len)))"

definition readUnsignedShort :: "bytes \<Rightarrow> (int \<times> nat) result" where
  "readUnsignedShort buf =
    (if length buf < 2 then Inl (ErrorString ''incomplete unsigned short'')
     else Inr (push_bit 8 (byte_val (buf ! 0)) OR byte_val (buf ! 1), 2))"

text \<open>The exported wrappers \<open>ReadPacket\<close>, \<open>ReadVarInt\<close> and \<open>ReadString\<close>.\<close>

definition ReadPacket :: "bytes \<Rightarrow> (bytes \<times> nat) result" where
  "ReadPacket buf = readPacket buf"

definition ReadVarInt :: "bytes \<Rightarrow> (int \<times> nat) result" where
  "ReadVarInt buf = readVarInt buf"

definition ReadString :: "bytes \<Rightarrow> (string \<times> nat) result" where
  "ReadString buf = readString buf"

definition ParseHandshake :: "bytes \<Rightarrow> Handshake" where
  "ParseHandshake buf = (case readPacket buf of
      Inl _ \<Rightarrow> empty_handshake
    | Inr (packet, _) \<Rightarrow>
      (if packet = [] then empty_handshake else (case readVarInt packet of
        Inl _ \<Rightarrow> empty_handshake
      | Inr (packetID, n) \<Rightarrow>
        (if packetID \<noteq> 0 then empty_handshake else (case readVarInt (drop n packet) of
          Inl _ \<Rightarrow> empty_handshake
        | Inr (protocolVersion, n2) \<Rightarrow> (case readString (drop n2 (drop n packet)) of
            Inl _ \<Rightarrow> empty_handshake
          | Inr (host, n3) \<Rightarrow>
            (let packet = drop n3 (drop n2 (drop n packet)) in
            case readUnsignedShort packet of
              Inl _ \<Rightarrow> empty_handshake
            | Inr (_, n4) \<Rightarrow> (case readVarInt (drop n4 packet) of
                Inl _ \<Rightarrow> empty_handshake
              | Inr (nextState, _) \<Rightarrow>
                (let parsed = \<lparr>RawServerHost = host, ServerHost = [],
                               ProtocolVersion = protocolVersion, NextState = nextState\<rparr>
                 in case IndexByte host (CHR 0x00) of
                      Some spliterIndex \<Rightarrow> parsed\<lparr>ServerHost := take spliterIndex host\<rparr>
                    | None \<Rightarrow> parsed\<lparr>ServerHost := host\<rparr>)))))))))"

definition GetMcHost :: "bytes \<Rightarrow> string" where
  "GetMcHost buf = ServerHost (ParseHandshake buf)"

section \<open>Writing\<close>

text \<open>
  The loop of \<open>encodeVarInt\<close>.  Go's \<open>>>=\<close> on a signed integer is the arithmetic shift, so on a
  negative value the loop never reaches zero; \<^const>\<open>None\<close> is a call that does not return.
\<close>

partial_function (option) encodeVarInt_loop :: "int \<Rightarrow> bytes \<Rightarrow> bytes option" where
  "encodeVarInt_loop v out =
    (let b = v AND 0x7f; v' = drop_bit 7 v;
         b' = (if v' \<noteq> 0 then b OR 0x80 else b); out' = out @ [to_byte b']
     in if v' = 0 then Some out' else encodeVarInt_loop v' out')"

definition encodeVarInt :: "int \<Rightarrow> bytes option" where
  "encodeVarInt v = encodeVarInt_loop v []"

text \<open>
  \<open>ReplaceMcHost\<close>: the outer option is termination (through \<^const>\<open>encodeVarInt\<close>), the inner
  one Go's \<open>nil\<close>.
\<close>

definition ReplaceMcHost :: "bytes \<Rightarrow> string \<Rightarrow> bytes option option" where
  "ReplaceMcHost buf host = (case readPacket buf of
      Inl _ \<Rightarrow> Some None
    | Inr (packet, consumed) \<Rightarrow>
      (if packet = [] then Some None else (case readVarInt packet of
        Inl _ \<Rightarrow> Some None
      | Inr (packetID, n) \<Rightarrow>
        (if packetID \<noteq> 0 then Some None else (case readVarInt (drop n packet) of
          Inl _ \<Rightarrow> Some None
        | Inr (_, n2) \<Rightarrow>
          (let prefixEnd = n + n2 in
          case readString (drop prefixEnd packet) of
            Inl _ \<Rightarrow> Some None
          | Inr (rawHost, n3) \<Rightarrow>
            (let hostEnd = prefixEnd + n3;
                 host = (case IndexByte rawHost (CHR 0x00) of
                           Some spliterIndex \<Rightarrow> host @ drop spliterIndex rawHost
                         | None \<Rightarrow> host)
             in do {
               hostLen \<leftarrow> encodeVarInt (int (length host));
               let payload = take prefixEnd packet @ hostLen @ host @ drop hostEnd packet;
               payloadLen \<leftarrow> encodeVarInt (int (length payload));
               Some (Some (payloadLen @ payload @ drop consumed buf))
             })))))))"

text \<open>
  \<open>StatusResponsePacket\<close>, after \<open>json.Marshal\<close> has given \<open>data\<close> or an error.
\<close>

definition StatusResponsePacket :: "bytes result \<Rightarrow> (bytes result) option" where
  "StatusResponsePacket marshalled = (case marshalled of
      Inl err \<Rightarrow> Some (Inl err)
    | Inr data \<Rightarrow> do {
        z \<leftarrow> encodeVarInt 0;
        dataLen \<leftarrow> encodeVarInt (int (length data));
        let payload = z @ dataLen @ data;
        payloadLen \<leftarrow> encodeVarInt (int (length payload));
        Some (Inr (payloadLen @ payload))
      })"

section \<open>The packet builders of the smoke helper\<close>

text \<open>
  \<open>encodeVarInt\<close> of the helper repeats the loop above byte for byte; \<open>appendString\<close>,
  \<open>packet\<close> and the builders compose it.
\<close>

definition appendString :: "bytes \<Rightarrow> string \<Rightarrow> bytes option" where
  "appendString dst val = do {
     len \<leftarrow> encodeVarInt (int (length val));
     Some ((dst @ len) @ val)
   }"

definition smoke_packet :: "bytes \<Rightarrow> bytes option" where
  "smoke_packet payload = do {
     out \<leftarrow> encodeVarInt (int (length payload));
     Some (out @ payload)
   }"

definition MinecraftHandshakePacketVersion :: "int \<Rightarrow> string \<Rightarrow> bytes option" where
  "MinecraftHandshakePacketVersion protocolVersion host = do {
     version \<leftarrow> encodeVarInt protocolVersion;
     payload \<leftarrow> appendString ([to_byte 0] @ version) host;
     next \<leftarrow> encodeVarInt 2;
     smoke_packet (payload @ [to_byte 0x63, to_byte 0xdd] @ next)
   }"

definition MinecraftHandshakePacket :: "string \<Rightarrow> bytes option" where
  "MinecraftHandshakePacket host = MinecraftHandshakePacketVersion 763 host"

definition MinecraftLoginStartPacket :: "string \<Rightarrow> bytes option" where
  "MinecraftLoginStartPacket username = do {
     payload \<leftarrow> appendString [to_byte 0] username;
     smoke_packet payload
   }"

definition MinecraftPayloadPacket :: "int \<Rightarrow> bytes \<Rightarrow> bytes option" where
  "MinecraftPayloadPacket packetID data = do {
     payload \<leftarrow> encodeVarInt packetID;
     smoke_packet (payload @ data)
   }"

section \<open>The VarInt codec\<close>

text \<open>Reference encoding of a natural number: seven bits a byte, low bits first.\<close>

fun varint_bytes :: "nat \<Rightarrow> bytes" where
  "varint_bytes n = (if n < 128 then [to_byte (int n)]
     else to_byte (int (n mod 128 + 128)) # varint_bytes (n div 128))"

declare varint_bytes.simps [simp del]

lemma and_low7: "(v::int) AND 0x7f = v mod 128"
proof -
  have "v AND mask 7 = take_bit 7 v" by (simp add: take_bit_eq_mask)
  then show ?thesis by (simp add: take_bit_eq_mod mask_eq_exp_minus_1)
qed

lemma or_shifted: "0 \<le> v \<Longrightarrow> v < 2 ^ k \<Longrightarrow> v OR push_bit k d = v + 2 ^ k * (d::int)"
  using concat_bit_eq [of k v d]
  by (simp add: concat_bit_def take_bit_int_eq_self push_bit_eq_mult mult.commute)

lemma or_high: "0 \<le> b \<Longrightarrow> b < 128 \<Longrightarrow> b OR 0x80 = b + (128::int)"
  using or_shifted [of b 7 1] by (simp add: push_bit_eq_mult)

lemma and_high: "0 \<le> b \<Longrightarrow> b < 256 \<Longrightarrow> (b AND 0x80 = 0) = (b < (128::int))"
proof -
  assume b: "0 \<le> b" "b < 256"
  have "(b AND 2 ^ 7 = 0) = (\<not> bit b 7)" by (rule and_exp_eq_0_iff_not_bit)
  also have "\<dots> = even (b div 128)" by (simp add: bit_iff_odd)
  also have "\<dots> = (b < 128)"
  proof (cases "b < 128")
    case True
    with b show ?thesis by (simp add: div_pos_pos_trivial)
  next
    case False
    with b have "b div 128 = 1" by (simp add: div_pos_geq)
    with False show ?thesis by simp
  qed
  finally show ?thesis by simp
qed

lemma encodeVarInt_loop_nonneg:
  "encodeVarInt_loop (int n) out = Some (out @ varint_bytes n)"
proof (induction n arbitrary: out rule: less_induct)
  case (less n)
  show ?case
  proof (cases "n < 128")
    case True
    then show ?thesis
      by (subst encodeVarInt_loop.simps, subst varint_bytes.simps)
        (simp add: and_low7 drop_bit_eq_div)
  next
    case False
    then have d: "drop_bit 7 (int n) = int (n div 128)" "n div 128 < n" "n div 128 \<noteq> 0"
      by (simp_all add: drop_bit_eq_div zdiv_int div_eq_0_iff)
    have b: "int n AND 0x7f OR 0x80 = int (n mod 128 + 128)"
      by (simp add: and_low7 or_high zmod_int)
    have "int (n div 128) \<noteq> 0" using d by simp
    then show ?thesis
      using less.IH [OF d(2), of "out @ [to_byte (int (n mod 128 + 128))]"] False
      by (subst encodeVarInt_loop.simps, subst varint_bytes.simps)
        (simp only: Let_def d(1) b if_True if_False simp_thms append_assoc append_Cons append_Nil)
  qed
qed

lemma encodeVarInt_nat [proto_simps]: "encodeVarInt (int n) = Some (varint_bytes n)"
  by (simp add: encodeVarInt_def encodeVarInt_loop_nonneg)

lemma encodeVarInt_of_nonneg: "0 \<le> v \<Longrightarrow> encodeVarInt v = Some (varint_bytes (nat v))"
  using encodeVarInt_nat [of "nat v"] by simp

lemma encodeVarInt_0 [proto_simps]: "encodeVarInt 0 = Some [to_byte 0]"
  using encodeVarInt_nat [of 0] by (simp add: varint_bytes.simps)

text \<open>On a negative value the arithmetic shift stays negative, and the loop never ends.\<close>

lemma encodeVarInt_loop_returns:
  assumes "encodeVarInt_loop v out = Some r"
  shows "0 \<le> v"
proof (rule encodeVarInt_loop.raw_induct [where P = "\<lambda>v out r. 0 \<le> v", OF _ assms])
  fix f v out r
  assume IH: "\<And>v out r. f v out = Some r \<Longrightarrow> 0 \<le> v"
    and eq: "(let b = v AND 0x7f; v' = drop_bit 7 v;
         b' = (if v' \<noteq> 0 then b OR 0x80 else b); out' = out @ [to_byte b']
     in if v' = 0 then Some out' else f v' out') = Some r"
  have "0 \<le> drop_bit 7 v"
  proof (cases "drop_bit 7 v = 0")
    case False
    with eq show ?thesis by (simp only: Let_def if_False IH)
  qed simp
  then show "0 \<le> v" by simp
qed

lemma length_varint_bytes: "n < 128 ^ Suc k \<Longrightarrow> length (varint_bytes n) \<le> Suc k"
proof (induction k arbitrary: n)
  case 0
  then show ?case by (subst varint_bytes.simps) simp
next
  case (Suc k)
  then have "n div 128 < 128 ^ Suc k" by (simp add: less_mult_imp_div_less mult.commute)
  then have "length (varint_bytes (n div 128)) \<le> Suc k" by (rule Suc.IH)
  then show ?case by (subst varint_bytes.simps) simp
qed

lemma varint_bytes_not_Nil [simp]: "varint_bytes n \<noteq> []"
  by (subst varint_bytes.simps) simp

lemma readVarInt_loop_more:
  assumes "i < 5" "i < length buf" "\<not> byte_val (buf ! i) < 128"
  shows "readVarInt_loop i v buf =
    readVarInt_loop (Suc i) (v OR push_bit (7 * i) (byte_val (buf ! i) AND 0x7f)) buf"
  using assms by (subst readVarInt_loop.simps) (simp add: Let_def and_high del: push_bit_and)

lemma readVarInt_loop_last:
  assumes "i < 5" "i < length buf" "byte_val (buf ! i) < 128"
  shows "readVarInt_loop i v buf =
    Inr (int32 (uint32 (v OR push_bit (7 * i) (byte_val (buf ! i) AND 0x7f))), Suc i)"
  using assms by (subst readVarInt_loop.simps) (simp add: Let_def and_high del: push_bit_and)

lemma readVarInt_one [proto_simps]:
  "byte_val b < 128 \<Longrightarrow> readVarInt (b # rest) = Inr (byte_val b, 1)"
  by (simp add: readVarInt_def readVarInt_loop_last and_low7 int32_uint32_small)

lemma varint_digit:
  assumes "0 \<le> v" "v < 2 ^ (7 * i)"
  shows "0 \<le> v + 2 ^ (7 * i) * int (n mod 128)" "v + 2 ^ (7 * i) * int (n mod 128) < 2 ^ (7 * Suc i)"
    "v + 2 ^ (7 * i) * int (n mod 128) + 2 ^ (7 * Suc i) * int (n div 128) = v + 2 ^ (7 * i) * int n"
proof -
  let ?v = "v + 2 ^ (7 * i) * int (n mod 128)"
  have "2 ^ (7 * i) * int (n mod 128) \<le> 2 ^ (7 * i) * 127" by (simp add: zmod_int)
  with assms(2) have "?v < 2 ^ (7 * i) + 2 ^ (7 * i) * 127" by linarith
  then show "0 \<le> ?v" "?v < 2 ^ (7 * Suc i)" using assms by (simp_all add: power_add)
  have n: "128 * int (n div 128) + int (n mod 128) = int n"
    by (metis mult_div_mod_eq of_nat_add of_nat_mult of_nat_numeral)
  have "?v + 2 ^ (7 * Suc i) * int (n div 128) =
      v + 2 ^ (7 * i) * (128 * int (n div 128) + int (n mod 128))"
    by (simp add: power_add distrib_left)
  then show "?v + 2 ^ (7 * Suc i) * int (n div 128) = v + 2 ^ (7 * i) * int n" by (simp only: n)
qed

lemma readVarInt_loop_varint:
  assumes "length pre = i" "0 \<le> v" "v < 2 ^ (7 * i)" "i + length (varint_bytes n) \<le> 5"
  shows "readVarInt_loop i v (pre @ varint_bytes n @ rest) =
    Inr (int32 (uint32 (v + 2 ^ (7 * i) * int n)), i + length (varint_bytes n))"
  using assms
proof (induction n arbitrary: i v pre rule: varint_bytes.induct)
  case (1 n)
  have i: "i < 5" using "1.prems" by (cases "varint_bytes n") auto
  show ?case
  proof (cases "n < 128")
    case True
    then have vb: "varint_bytes n = [to_byte (int n)]" by (simp add: varint_bytes.simps)
    have "byte_val (to_byte (int n)) = int n" using True by (simp add: byte_val_to_byte)
    with True "1.prems" i show ?thesis
      by (simp add: readVarInt_loop_last vb nth_append and_low7 or_shifted del: push_bit_and)
  next
    case False
    let ?b = "int (n mod 128 + 128)"
    have vb: "varint_bytes n = to_byte ?b # varint_bytes (n div 128)"
      using False by (subst varint_bytes.simps) simp
    have b: "byte_val (to_byte ?b) = ?b"
      unfolding byte_val_to_byte by (rule mod_pos_pos_trivial) auto
    have low: "?b AND 0x7f = int (n mod 128)" by (simp add: and_low7 zmod_int)
    let ?v = "v + 2 ^ (7 * i) * int (n mod 128)"
    have vor: "v OR push_bit (7 * i) (int (n mod 128)) = ?v"
      using "1.prems" by (intro or_shifted) auto
    have v: "0 \<le> ?v" "?v < 2 ^ (7 * Suc i)"
      and sum: "?v + 2 ^ (7 * Suc i) * int (n div 128) = v + 2 ^ (7 * i) * int n"
      using varint_digit [of v i n] "1.prems"(2,3) by simp_all
    have IH: "readVarInt_loop (Suc i) ?v ((pre @ [to_byte ?b]) @ varint_bytes (n div 128) @ rest) =
      Inr (int32 (uint32 (?v + 2 ^ (7 * Suc i) * int (n div 128))), Suc i + length (varint_bytes (n div 128)))"
      using "1.prems" False v vb by (intro "1.IH") auto
    have nth: "(pre @ varint_bytes n @ rest) ! i = to_byte ?b"
      using "1.prems"(1) vb by (simp add: nth_append)
    have "readVarInt_loop i v (pre @ varint_bytes n @ rest) =
        readVarInt_loop (Suc i) ?v (pre @ varint_bytes n @ rest)"
      using i "1.prems"(1) by (subst readVarInt_loop_more) (simp_all only: nth b low vor, simp_all)
    with IH [unfolded sum] show ?thesis by (simp add: vb)
  qed
qed

lemma readVarInt_varint_bytes:
  assumes "n < 2 ^ 31"
  shows "readVarInt (varint_bytes n @ rest) = Inr (int n, length (varint_bytes n))"
proof -
  have "length (varint_bytes n) \<le> Suc 4" using assms by (intro length_varint_bytes) simp
  then have "readVarInt (varint_bytes n @ rest) = Inr (int32 (uint32 (int n)), length (varint_bytes n))"
    using readVarInt_loop_varint [of "[]" 0 0 n rest] by (simp add: readVarInt_def)
  moreover have "int32 (uint32 (int n)) = int n"
    using assms by (intro int32_uint32_small) auto
  ultimately show ?thesis by simp
qed

lemma readVarInt_loop_bounds:
  assumes "readVarInt_loop i v buf = Inr (r, n)"
  shows "i < n \<and> n \<le> 5 \<and> n \<le> length buf \<and> - (2 ^ 31) \<le> r \<and> r < 2 ^ 31"
  using assms
proof (induction i v buf rule: readVarInt_loop.induct)
  case (1 i v buf)
  from "1.prems" have i: "i < 5" "i < length buf"
    by (subst (asm) readVarInt_loop.simps, simp split: if_splits)+
  show ?case
  proof (cases "byte_val (buf ! i) < 128")
    case True
    with i "1.prems" show ?thesis by (auto simp: readVarInt_loop_last int32_bounds [simplified])
  next
    case False
    with i "1.prems" have "readVarInt_loop (i + 1)
        (v OR push_bit (7 * i) (byte_val (buf ! i) AND 0x7f)) buf = Inr (r, n)"
      by (simp add: readVarInt_loop_more)
    with "1.IH" [OF i(1) _ refl refl] i False show ?thesis
      by (simp add: and_high not_le)
  qed
qed

lemma readVarInt_bounds:
  "readVarInt buf = Inr (r, n) \<Longrightarrow>
    0 < n \<and> n \<le> 5 \<and> n \<le> length buf \<and> - (2 ^ 31) \<le> r \<and> r < 2 ^ 31"
  unfolding readVarInt_def by (drule readVarInt_loop_bounds) simp

text \<open>A VarInt is decided by the bytes it consumes.\<close>

lemma readVarInt_loop_local:
  assumes "readVarInt_loop i v buf = Inr (r, n)" "take n buf' = take n buf"
  shows "readVarInt_loop i v buf' = Inr (r, n)"
  using assms
proof (induction i v buf rule: readVarInt_loop.induct)
  case (1 i v buf)
  from readVarInt_loop_bounds [OF "1.prems"(1)]
  have n: "i < n" "n \<le> 5" "n \<le> length buf" by simp_all
  moreover from n "1.prems"(2) have "n \<le> length buf'"
    by (metis length_take min.absorb2 min.cobounded1)
  ultimately have i: "i < 5" "i < length buf" "i < length buf'" by simp_all
  have nth: "buf' ! i = buf ! i" using "1.prems"(2) n(1) by (metis nth_take)
  show ?case
  proof (cases "byte_val (buf ! i) < 128")
    case True
    with i "1.prems"(1) show ?thesis by (simp add: readVarInt_loop_last nth)
  next
    case False
    with i "1.prems"(1) have rec: "readVarInt_loop (i + 1)
        (v OR push_bit (7 * i) (byte_val (buf ! i) AND 0x7f)) buf = Inr (r, n)"
      by (simp add: readVarInt_loop_more)
    have "readVarInt_loop (i + 1) (v OR push_bit (7 * i) (byte_val (buf ! i) AND 0x7f)) buf' = Inr (r, n)"
      by (rule "1.IH" [OF i(1) _ refl refl _ rec "1.prems"(2)])
        (use i False in \<open>simp_all add: and_high\<close>)
    with False i show ?thesis by (simp add: readVarInt_loop_more nth)
  qed
qed

lemma readVarInt_local:
  "readVarInt buf = Inr (r, n) \<Longrightarrow> take n buf' = take n buf \<Longrightarrow> readVarInt buf' = Inr (r, n)"
  unfolding readVarInt_def by (rule readVarInt_loop_local)

lemma readVarInt_take_append:
  "readVarInt buf = Inr (r, n) \<Longrightarrow> readVarInt (take n buf @ rest) = Inr (r, n)"
  by (rule readVarInt_local, assumption) (auto dest: readVarInt_bounds)

section \<open>Packets and strings\<close>

lemma readPacket_varint [proto_simps]:
  assumes "length p < 2 ^ 31"
  shows "readPacket (varint_bytes (length p) @ p @ rest) =
    Inr (p, length (varint_bytes (length p)) + length p)"
  using readVarInt_varint_bytes [OF assms, of "p @ rest"] by (simp add: readPacket_def)

lemma readString_varint [proto_simps]:
  assumes "length s < 2 ^ 31"
  shows "readString (varint_bytes (length s) @ s @ rest) =
    Inr (s, length (varint_bytes (length s)) + length s)"
  using readVarInt_varint_bytes [OF assms, of "s @ rest"] by (simp add: readString_def)

lemma readPacket_consumed:
  "readPacket buf = Inr (p, c) \<Longrightarrow> \<exists>n. 0 < n \<and> n \<le> 5 \<and> c = n + length p \<and> c \<le> length buf
    \<and> p = take (length p) (drop n buf)"
  by (auto simp: readPacket_def dest!: readVarInt_bounds split: sum.splits prod.splits if_splits)

lemma readString_bounds:
  "readString buf = Inr (s, c) \<Longrightarrow> length s < c \<and> c \<le> length buf"
  by (auto simp: readString_def dest!: readVarInt_bounds split: sum.splits prod.splits if_splits)

section \<open>The handshake\<close>

text \<open>The routing host is what precedes the first NUL; the extension data starts there.\<close>

abbreviation not_nul :: "byte \<Rightarrow> bool" where
  "not_nul c \<equiv> c \<noteq> CHR 0x00"

lemma IndexByte_cut:
  "(case IndexByte s c of Some i \<Rightarrow> take i s | None \<Rightarrow> s) = takeWhile (\<lambda>d. d \<noteq> c) s"
  by (induction s) (auto split: option.splits)

lemma IndexByte_rest:
  "(case IndexByte s c of Some i \<Rightarrow> h @ drop i s | None \<Rightarrow> h) = h @ dropWhile (\<lambda>d. d \<noteq> c) s"
proof (induction s)
  case (Cons d s)
  then show ?case by (cases "IndexByte s c") auto
qed simp

lemma ParseHandshakeI:
  assumes "readPacket buf = Inr (packet, consumed)" "packet \<noteq> []"
    and "readVarInt packet = Inr (0, n)" "readVarInt (drop n packet) = Inr (pv, n2)"
    and "readString (drop n2 (drop n packet)) = Inr (host, n3)"
    and "2 \<le> length (drop n3 (drop n2 (drop n packet)))"
    and "readVarInt (drop 2 (drop n3 (drop n2 (drop n packet)))) = Inr (ns, n5)"
  shows "ParseHandshake buf = \<lparr>RawServerHost = host, ServerHost = takeWhile not_nul host,
    ProtocolVersion = pv, NextState = ns\<rparr>"
  using assms IndexByte_cut [of host "CHR 0x00"]
  by (simp add: ParseHandshake_def readUnsignedShort_def Let_def split: option.splits)

lemma ParseHandshake_success:
  assumes "ParseHandshake buf \<noteq> empty_handshake"
  obtains packet consumed n pv n2 host n3 ns n5
  where "readPacket buf = Inr (packet, consumed)" "packet \<noteq> []"
    and "readVarInt packet = Inr (0, n)" "readVarInt (drop n packet) = Inr (pv, n2)"
    and "readString (drop n2 (drop n packet)) = Inr (host, n3)"
    and "2 \<le> length (drop n3 (drop n2 (drop n packet)))"
    and "readVarInt (drop 2 (drop n3 (drop n2 (drop n packet)))) = Inr (ns, n5)"
  using assms
  by (auto simp: ParseHandshake_def readUnsignedShort_def Let_def
      split: sum.splits prod.splits if_splits)

lemma ReplaceMcHost_eq:
  fixes host :: string
  assumes "readPacket buf = Inr (packet, consumed)" "packet \<noteq> []"
    and "readVarInt packet = Inr (0, n)" "readVarInt (drop n packet) = Inr (pv, n2)"
    and "readString (drop n2 (drop n packet)) = Inr (raw, n3)"
  defines "host' \<equiv> host @ dropWhile not_nul raw"
  defines "payload \<equiv> take (n + n2) packet @ varint_bytes (length host') @ host' @
    drop n3 (drop n2 (drop n packet))"
  shows "ReplaceMcHost buf host =
    Some (Some (varint_bytes (length payload) @ payload @ drop consumed buf))"
  using assms(1-5) unfolding payload_def host'_def
  by (simp add: ReplaceMcHost_def IndexByte_rest encodeVarInt_nat Let_def add.commute
      add.left_commute add.assoc del: of_nat_add length_append)

lemma ReplaceMcHost_returns: "\<exists>r. ReplaceMcHost buf host = Some r"
  by (auto simp: ReplaceMcHost_def encodeVarInt_nat Let_def split: sum.splits prod.splits if_splits
      simp del: of_nat_add length_append)

lemma parse_rewritten:
  assumes "readVarInt packet = Inr (0, n)" "readVarInt (drop n packet) = Inr (pv, n2)"
    and "readString (drop n2 (drop n packet)) = Inr (raw, n3)"
    and tail: "2 \<le> length (drop n3 (drop n2 (drop n packet)))"
    and ns: "readVarInt (drop 2 (drop n3 (drop n2 (drop n packet)))) = Inr (ns, n5)"
    and len: "length host < 2 ^ 31" "length payload < 2 ^ 31"
    and payload: "payload = take (n + n2) packet @ varint_bytes (length host) @ host @
      drop n3 (drop n2 (drop n packet))"
  shows "ParseHandshake (varint_bytes (length payload) @ payload @ rest) =
    \<lparr>RawServerHost = host, ServerHost = takeWhile not_nul host, ProtocolVersion = pv, NextState = ns\<rparr>"
proof (rule ParseHandshakeI [OF readPacket_varint [OF len(2)]])
  let ?tail = "drop n3 (drop n2 (drop n packet))"
  from readVarInt_bounds [OF assms(1)] readVarInt_bounds [OF assms(2)]
  have b: "n \<le> length packet" "n + n2 \<le> length packet" by auto
  show "payload \<noteq> []" by (simp add: payload)
  show "readVarInt payload = Inr (0, n)"
    by (rule readVarInt_local [OF assms(1)]) (use b in \<open>simp add: payload\<close>)
  have d: "drop n payload = take n2 (drop n packet) @ varint_bytes (length host) @ host @ ?tail"
    using b by (simp add: payload drop_take)
  show "readVarInt (drop n payload) = Inr (pv, n2)"
    by (rule readVarInt_local [OF assms(2)]) (use b in \<open>simp add: d\<close>)
  have d2: "drop n2 (drop n payload) = varint_bytes (length host) @ host @ ?tail"
    unfolding d using b by simp
  show "readString (drop n2 (drop n payload)) =
      Inr (host, length (varint_bytes (length host)) + length host)"
    unfolding d2 by (rule readString_varint [OF len(1)])
  have d3: "drop (length (varint_bytes (length host)) + length host) (drop n2 (drop n payload)) = ?tail"
    unfolding d2 by simp
  show "2 \<le> length (drop (length (varint_bytes (length host)) + length host) (drop n2 (drop n payload)))"
    unfolding d3 by (rule tail)
  show "readVarInt (drop 2 (drop (length (varint_bytes (length host)) + length host)
      (drop n2 (drop n payload)))) = Inr (ns, n5)"
    unfolding d3 by (rule ns)
qed

section \<open>Properties\<close>

text \<open>
  the VarInt codec round-trips.  Every value a packet length, string length or protocol
  version can have is encoded in one to five bytes, and reading those bytes, whatever follows
  them, gives the value and consumes exactly them.
\<close>

theorem encode_read_VarInt:
  assumes "0 \<le> v" "v < 2 ^ 31"
  shows "\<exists>bs. encodeVarInt v = Some bs \<and> bs \<noteq> [] \<and> length bs \<le> 5
    \<and> (\<forall>rest. readVarInt (bs @ rest) = Inr (v, length bs))"
proof -
  have n: "nat v < 2 ^ 31" using assms by (simp add: nat_less_iff)
  have "length (varint_bytes (nat v)) \<le> Suc 4"
    using n by (intro length_varint_bytes) simp
  with assms(1) readVarInt_varint_bytes [OF n] show ?thesis
    by (intro exI [of _ "varint_bytes (nat v)"]) (simp add: encodeVarInt_of_nonneg)
qed

theorem encode_read_VarInt_witness:
  "\<exists>bs. encodeVarInt 763 = Some bs \<and> bs \<noteq> [] \<and> length bs \<le> 5
    \<and> (\<forall>rest. readVarInt (bs @ rest) = Inr (763, length bs))"
  using encode_read_VarInt [of 763] by simp

text \<open>
  C17: \<open>encodeVarInt\<close> returns exactly on the non-negative values; a negative one makes its
  loop run forever, since the arithmetic shift never reaches zero.
\<close>

theorem encodeVarInt_returns_iff: "(\<exists>bs. encodeVarInt v = Some bs) \<longleftrightarrow> 0 \<le> v"
  using encodeVarInt_of_nonneg [of v] encodeVarInt_loop_returns [of v "[]"]
  by (auto simp: encodeVarInt_def)

text \<open>
  reading a VarInt never looks past the buffer, consumes one to five bytes and yields a
  32-bit signed value; more than five continuation bytes are an error.
\<close>

theorem readVarInt_total:
  "case readVarInt buf of
     Inr (r, n) \<Rightarrow> 0 < n \<and> n \<le> 5 \<and> n \<le> length buf \<and> - (2 ^ 31) \<le> r \<and> r < 2 ^ 31
   | Inl e \<Rightarrow> e = ErrorString ''incomplete varint'' \<and> length buf < 5
       \<or> e = ErrorString ''varint too long'' \<and> 5 \<le> length buf"
proof -
  have "readVarInt_loop i v buf = Inl e \<Longrightarrow> i \<le> 5 \<Longrightarrow> i \<le> length buf \<Longrightarrow>
      e = ErrorString ''incomplete varint'' \<and> length buf < 5
      \<or> e = ErrorString ''varint too long'' \<and> 5 \<le> length buf" for i v e
  proof (induction i v buf rule: readVarInt_loop.induct)
    case (1 i v buf)
    show ?case
    proof (cases "i < 5 \<and> i < length buf \<and> \<not> byte_val (buf ! i) < 128")
      case True
      with "1.prems" have "readVarInt_loop (i + 1)
          (v OR push_bit (7 * i) (byte_val (buf ! i) AND 0x7f)) buf = Inl e"
        by (simp add: readVarInt_loop_more)
      with "1.IH" [OF _ _ refl refl] True show ?thesis by (simp add: and_high not_le)
    next
      case False
      have "\<not> (i < 5 \<and> i < length buf)"
      proof
        assume "i < 5 \<and> i < length buf"
        with False "1.prems"(1) show False by (simp add: readVarInt_loop_last)
      qed
      with "1.prems" show ?thesis by (auto simp: readVarInt_loop.simps [of i] split: if_splits)
    qed
  qed
  from this [of 0 0] show ?thesis
    using readVarInt_bounds [of buf] by (auto simp: readVarInt_def split: sum.splits)
qed

text \<open>
  C16: parser and builder agree.  The handshake packet built for a protocol version and a host,
  followed by any bytes, parses to exactly that version, that raw host and login intent, and
  the routing host is the part before the first NUL.
\<close>

theorem handshake_roundtrip:
  assumes "0 \<le> pv" "pv < 2 ^ 31" "length host < 2 ^ 30"
  shows "\<exists>pkt. MinecraftHandshakePacketVersion pv host = Some pkt \<and>
    (\<forall>rest. ParseHandshake (pkt @ rest) = \<lparr>RawServerHost = host,
      ServerHost = takeWhile not_nul host, ProtocolVersion = pv, NextState = 2\<rparr>)"
proof -
  let ?pre = "to_byte 0 # varint_bytes (nat pv)"
  let ?port = "[to_byte 0x63, to_byte 0xdd]"
  let ?tail = "?port @ varint_bytes 2"
  let ?payload = "?pre @ varint_bytes (length host) @ host @ ?tail"
  have pv: "nat pv < 2 ^ 31" "length host < 2 ^ 31" using assms by (simp_all add: nat_less_iff)
  have l: "length (varint_bytes (nat pv)) \<le> Suc 4" "length (varint_bytes (length host)) \<le> Suc 4"
    using pv length_varint_bytes [of "nat pv" 4] length_varint_bytes [of "length host" 4] by simp_all
  have v2: "varint_bytes 2 = [to_byte 2]" by (simp add: varint_bytes.simps)
  have len: "length ?payload < 2 ^ 31" using assms l by (simp add: v2)
  have enc: "MinecraftHandshakePacketVersion pv host = Some (varint_bytes (length ?payload) @ ?payload)"
    using assms(1) encodeVarInt_nat [of 2]
    by (simp add: MinecraftHandshakePacketVersion_def appendString_def smoke_packet_def
        encodeVarInt_of_nonneg encodeVarInt_nat del: of_nat_add length_append length_Cons)
  have z: "readVarInt (varint_bytes 0 @ rest) = Inr (0, 1)" for rest
    using readVarInt_varint_bytes [of 0 rest] by (simp add: varint_bytes.simps)
  have p0: "readVarInt (?pre @ rest) = Inr (0, 1)" for rest
    using z [of "varint_bytes (nat pv) @ rest"] by (simp add: varint_bytes.simps [of 0])
  have "ParseHandshake (varint_bytes (length ?payload) @ ?payload @ rest) =
      \<lparr>RawServerHost = host, ServerHost = takeWhile not_nul host, ProtocolVersion = pv, NextState = 2\<rparr>"
    for rest
  proof (rule ParseHandshakeI [OF readPacket_varint [OF len]])
    show "readVarInt ?payload = Inr (0, 1)" by (rule p0)
    show "readVarInt (drop 1 ?payload) = Inr (pv, length (varint_bytes (nat pv)))"
      using readVarInt_varint_bytes [OF pv(1)] assms(1) by simp
    show "readString (drop (length (varint_bytes (nat pv))) (drop 1 ?payload)) =
        Inr (host, length (varint_bytes (length host)) + length host)"
      using readString_varint [OF pv(2)] by simp
    show "readVarInt (drop 2 (drop (length (varint_bytes (length host)) + length host)
        (drop (length (varint_bytes (nat pv))) (drop 1 ?payload)))) = Inr (2, length (varint_bytes 2))"
      using readVarInt_varint_bytes [of 2 "[]"] by simp
  qed simp_all
  with enc show ?thesis by auto
qed

theorem handshake_roundtrip_witness:
  "\<exists>pkt. MinecraftHandshakePacketVersion 763 ''play.example'' = Some pkt \<and>
    (\<forall>rest. ParseHandshake (pkt @ rest) = \<lparr>RawServerHost = ''play.example'',
      ServerHost = ''play.example'', ProtocolVersion = 763, NextState = 2\<rparr>)"
  using handshake_roundtrip [of 763 "''play.example''"] by simp

text \<open>
  rewriting the host.  On a parsed handshake \<open>ReplaceMcHost\<close> returns a buffer whose
  handshake has the new routing host and is otherwise unchanged: protocol version, next state
  and the NUL-separated extension data are kept, and so are the bytes after the first packet.
\<close>

theorem ReplaceMcHost_handshake:
  assumes parsed: "ParseHandshake buf \<noteq> empty_handshake"
    and host: "CHR 0x00 \<notin> set host"
    and size: "length buf + length host < 2 ^ 29"
  shows "\<exists>out packet consumed packet' consumed'. ReplaceMcHost buf host = Some (Some out)
    \<and> ParseHandshake out = (ParseHandshake buf)\<lparr>ServerHost := host,
        RawServerHost := host @ dropWhile not_nul (RawServerHost (ParseHandshake buf))\<rparr>
    \<and> readPacket buf = Inr (packet, consumed) \<and> readPacket out = Inr (packet', consumed')
    \<and> drop consumed' out = drop consumed buf"
proof -
  from parsed obtain packet consumed n pv n2 raw n3 ns n5
    where p: "readPacket buf = Inr (packet, consumed)" "packet \<noteq> []"
      "readVarInt packet = Inr (0, n)" "readVarInt (drop n packet) = Inr (pv, n2)"
      "readString (drop n2 (drop n packet)) = Inr (raw, n3)"
      "2 \<le> length (drop n3 (drop n2 (drop n packet)))"
      "readVarInt (drop 2 (drop n3 (drop n2 (drop n packet)))) = Inr (ns, n5)"
    by (rule ParseHandshake_success)
  let ?host = "host @ dropWhile not_nul raw"
  let ?tail = "drop n3 (drop n2 (drop n packet))"
  let ?payload = "take (n + n2) packet @ varint_bytes (length ?host) @ ?host @ ?tail"
  let ?out = "varint_bytes (length ?payload) @ ?payload @ drop consumed buf"
  have raw: "length (dropWhile not_nul raw) \<le> length raw" by (rule length_dropWhile_le)
  from readPacket_consumed [OF p(1)] readString_bounds [OF p(5)] size raw
  have b: "length packet < length buf" "length raw < length packet" "length ?host < 2 ^ 30"
    by auto
  then have "length (varint_bytes (length ?host)) \<le> Suc 4" by (intro length_varint_bytes) simp
  then have len: "length ?host < 2 ^ 31" "length ?payload < 2 ^ 31" using b size by auto
  have out: "ReplaceMcHost buf host = Some (Some ?out)" by (rule ReplaceMcHost_eq [OF p(1-5)])
  have "ParseHandshake ?out = \<lparr>RawServerHost = ?host, ServerHost = takeWhile not_nul ?host,
      ProtocolVersion = pv, NextState = ns\<rparr>"
    by (rule parse_rewritten [OF p(3-7) len refl])
  moreover have "takeWhile not_nul ?host = host"
    using host by (subst takeWhile_append2) auto
  moreover have "ParseHandshake buf = \<lparr>RawServerHost = raw, ServerHost = takeWhile not_nul raw,
      ProtocolVersion = pv, NextState = ns\<rparr>"
    by (rule ParseHandshakeI [OF p])
  moreover have "readPacket ?out = Inr (?payload, length (varint_bytes (length ?payload)) + length ?payload)"
    by (rule readPacket_varint [OF len(2)])
  ultimately show ?thesis using out p(1) by fastforce
qed

theorem ReplaceMcHost_handshake_witness:
  "\<exists>buf. buf = [CHR 0x07, CHR 0x00, CHR 0x2F, CHR 0x01, CHR ''a'', CHR 0x63, CHR 0xDD, CHR 0x02]
    \<and> (\<exists>out packet consumed packet' consumed'. ReplaceMcHost buf ''bcd'' = Some (Some out)
    \<and> ParseHandshake out = (ParseHandshake buf)\<lparr>ServerHost := ''bcd'',
        RawServerHost := ''bcd'' @ dropWhile not_nul (RawServerHost (ParseHandshake buf))\<rparr>
    \<and> readPacket buf = Inr (packet, consumed) \<and> readPacket out = Inr (packet', consumed')
    \<and> drop consumed' out = drop consumed buf)"
proof -
  let ?buf = "[CHR 0x07, CHR 0x00, CHR 0x2F, CHR 0x01, CHR ''a'', CHR 0x63, CHR 0xDD, CHR 0x02]"
  have b: "byte_val CHR 0x07 = 7" "byte_val CHR 0x00 = 0" "byte_val CHR 0x2F = 47"
      "byte_val CHR 0x01 = 1" "byte_val CHR 0x02 = 2"
    by (simp_all add: byte_val_def)
  have "ParseHandshake ?buf = \<lparr>RawServerHost = ''a'', ServerHost = takeWhile not_nul ''a'',
      ProtocolVersion = 47, NextState = 2\<rparr>"
    by (rule ParseHandshakeI [where packet = "tl ?buf" and n = 1 and ?n2.0 = 1 and ?n3.0 = 2])
      (simp_all add: readPacket_def readString_def readVarInt_one b)
  then have "ParseHandshake ?buf \<noteq> empty_handshake" by (auto simp: empty_handshake_def)
  then show ?thesis
    by (rule exI [of _ ?buf, OF conjI [OF refl ReplaceMcHost_handshake]]) simp_all
qed

text \<open>
  the status answer is well framed.  Whatever JSON the status response marshals to (below
  the 31-bit length limit), the packet sent to the client reads back as packet id 0 followed
  by exactly that JSON string; a marshalling error is passed on.
\<close>

theorem StatusResponsePacket_roundtrip:
  assumes "length data < 2 ^ 30"
  shows "StatusResponsePacket (Inl e) = Some (Inl e) \<and>
    (\<exists>out payload c n. StatusResponsePacket (Inr data) = Some (Inr out)
      \<and> readPacket out = Inr (payload, length out)
      \<and> readVarInt payload = Inr (0, 1) \<and> readString (drop 1 payload) = Inr (data, c)
      \<and> 1 + c = length payload)"
proof -
  have len: "length data < 2 ^ 31" using assms by simp
  have l: "length (varint_bytes (length data)) \<le> Suc 4"
    using assms by (intro length_varint_bytes) simp
  let ?payload = "[to_byte 0] @ varint_bytes (length data) @ data"
  let ?out = "varint_bytes (length ?payload) @ ?payload"
  have plen: "length ?payload < 2 ^ 31" using assms l by simp
  have "StatusResponsePacket (Inr data) = Some (Inr ?out)"
    by (simp add: StatusResponsePacket_def encodeVarInt_0 encodeVarInt_nat
        del: of_nat_add of_nat_Suc length_append length_Cons)
  moreover have "readPacket ?out = Inr (?payload, length ?out)"
    using readPacket_varint [OF plen, of "[]"] by simp
  moreover have "readVarInt ?payload = Inr (0, 1)"
    using readVarInt_varint_bytes [of 0 "varint_bytes (length data) @ data"]
    by (simp add: varint_bytes.simps [of 0])
  moreover have "readString (drop 1 ?payload) = Inr (data, length (varint_bytes (length data)) + length data)"
    using readString_varint [OF len, of "[]"] by simp
  ultimately show ?thesis by (auto simp: StatusResponsePacket_def)
qed

theorem StatusResponsePacket_roundtrip_witness:
  "StatusResponsePacket (Inl Io_EOF) = Some (Inl Io_EOF) \<and>
    (\<exists>out payload c n. StatusResponsePacket (Inr ''{}'') = Some (Inr out)
      \<and> readPacket out = Inr (payload, length out)
      \<and> readVarInt payload = Inr (0, 1) \<and> readString (drop 1 payload) = Inr (''{}'', c)
      \<and> 1 + c = length payload)"
  by (rule StatusResponsePacket_roundtrip) simp

end
