(* ===== verification/Tables.thy ===== *)
theory Tables
  imports Prelude "HOL-Library.Char_ord" "HOL-Library.List_Lexorder"
begin

text \<open>
  The SQLite tables the gateway keeps: a table is the list of its rows, in insertion order, and
  a column is its primary key.  The statements the repositories send are the functions below:
  \<open>SELECT ... WHERE key = ?\<close>, \<open>INSERT\<close> (with or without \<open>ON CONFLICT\<close>), \<open>UPDATE ... WHERE\<close>,
  \<open>DELETE ... WHERE\<close> and \<open>ORDER BY\<close> (SQLite's BINARY collation compares bytes, as the
  lexicographic order on \<^typ>\<open>string\<close> does).  The database is a parameter of the program: any
  statement may fail, and the failure a call meets is an argument of the operation.

  The interface \<open>keyed_store\<close> states what a client of such a table relies on.
\<close>

section \<open>Statements\<close>

definition row_select :: "('r \<Rightarrow> 'k) \<Rightarrow> 'k \<Rightarrow> 'r list \<Rightarrow> 'r option" where
  "row_select key k rows = find (\<lambda>r. key r = k) rows"

definition row_update :: "('r \<Rightarrow> 'k) \<Rightarrow> 'k \<Rightarrow> ('r \<Rightarrow> 'r) \<Rightarrow> 'r list \<Rightarrow> 'r list" where
  "row_update key k upd rows = map (\<lambda>r. if key r = k then upd r else r) rows"

text \<open>\<open>INSERT ... ON CONFLICT(key) DO UPDATE\<close>: the update sees the row already stored.\<close>

definition row_upsert :: "('r \<Rightarrow> 'k) \<Rightarrow> 'r \<Rightarrow> ('r \<Rightarrow> 'r) \<Rightarrow> 'r list \<Rightarrow> 'r list" where
  "row_upsert key new upd rows =
    (case row_select key (key new) rows of
       None \<Rightarrow> rows @ [new]
     | Some _ \<Rightarrow> row_update key (key new) upd rows)"

text \<open>A plain \<open>INSERT\<close> fails on a key that is present.\<close>

definition row_insert :: "('r \<Rightarrow> 'k) \<Rightarrow> 'r \<Rightarrow> 'r list \<Rightarrow> 'r list option" where
  "row_insert key new rows =
    (case row_select key (key new) rows of None \<Rightarrow> Some (rows @ [new]) | Some _ \<Rightarrow> None)"

definition row_delete :: "('r \<Rightarrow> 'k) \<Rightarrow> 'k \<Rightarrow> 'r list \<Rightarrow> 'r list" where
  "row_delete key k rows = filter (\<lambda>r. key r \<noteq> k) rows"

text \<open>
  \<open>UPDATE ... WHERE key = ? AND P\<close> with its \<open>RowsAffected\<close>, and \<open>INSERT OR IGNORE\<close>, which leaves a
  key that is present alone.
\<close>

definition row_update_where :: "('r \<Rightarrow> 'k) \<Rightarrow> 'k \<Rightarrow> ('r \<Rightarrow> bool) \<Rightarrow> ('r \<Rightarrow> 'r) \<Rightarrow> 'r list \<Rightarrow> 'r list \<times> nat" where
  "row_update_where key k P upd rows =
    (map (\<lambda>r. if key r = k \<and> P r then upd r else r) rows, length (filter (\<lambda>r. key r = k \<and> P r) rows))"

definition row_insert_ignore :: "('r \<Rightarrow> 'k) \<Rightarrow> 'r \<Rightarrow> 'r list \<Rightarrow> 'r list \<times> nat" where
  "row_insert_ignore key new rows =
    (case row_select key (key new) rows of None \<Rightarrow> (rows @ [new], 1) | Some _ \<Rightarrow> (rows, 0))"

text \<open>The failures a write transaction can meet, in the order of its steps.\<close>

record tx_io =
  tx_begin :: "error option"
  tx_exec :: "error option"
  tx_commit :: "error option"

definition io_ok :: tx_io where
  "io_ok = \<lparr>tx_begin = None, tx_exec = None, tx_commit = None\<rparr>"

text \<open>
  \<open>BeginTx\<close>, one statement, \<open>Commit\<close>, with \<open>defer tx.Rollback()\<close>: the new table on success, the
  old one and the error otherwise.
\<close>

definition in_tx :: "tx_io \<Rightarrow> 't \<Rightarrow> 't \<Rightarrow> 't \<times> error option" where
  "in_tx io old new = (case tx_begin io of
      Some e \<Rightarrow> (old, Some e)
    | None \<Rightarrow> (case tx_exec io of
        Some e \<Rightarrow> (old, Some e)
      | None \<Rightarrow> (case tx_commit io of
          Some e \<Rightarrow> (old, Some e)
        | None \<Rightarrow> (new, None))))"

lemma in_tx_io_ok [simp]: "in_tx io_ok old new = (new, None)"
  by (simp add: in_tx_def io_ok_def)

lemma in_tx_cases: "in_tx io old new = (new, None) \<or> (\<exists>e. in_tx io old new = (old, Some e))"
  by (auto simp: in_tx_def split: option.splits)

lemma in_tx_result: "in_tx io old new = (t, r) \<Longrightarrow> (r = None \<longrightarrow> t = new) \<and> (r \<noteq> None \<longrightarrow> t = old)"
  using in_tx_cases [of io old new] by auto

text \<open>
  The same on the process's database handle, which is nil until the database is open; using
  the nil handle panics.
\<close>

definition in_tx_db :: "tx_io \<Rightarrow> 't option \<Rightarrow> ('t \<Rightarrow> 't) \<Rightarrow> 't option \<times> error option" where
  "in_tx_db io db f = (case db of
      None \<Rightarrow> (None, Some (Go_panic ''nil database''))
    | Some t \<Rightarrow> apfst Some (in_tx io t (f t)))"

lemma in_tx_db_ok [simp]: "in_tx_db io_ok (Some t) f = (Some (f t), None)"
  by (simp add: in_tx_db_def)

lemma in_tx_db_None:
  "in_tx_db io db f = (db', None) \<Longrightarrow> tx_begin io = None \<and> tx_exec io = None \<and> tx_commit io = None"
  by (auto simp: in_tx_db_def in_tx_def split: option.splits)

lemma in_tx_db_cases:
  "in_tx_db io (Some t) f = (db, r) \<Longrightarrow> r \<noteq> None \<and> db = Some t \<or> r = None \<and> db = Some (f t)"
  using in_tx_cases [of io t "f t"] by (auto simp: in_tx_db_def)

section \<open>What a client relies on\<close>

text \<open>
  A store of values under keys.  \<open>update\<close> overwrites, \<open>remove\<close> deletes, the invariant is kept,
  and \<open>lookup\<close> sees exactly the last write of its key.
\<close>

locale keyed_store =
  fixes lookup :: "'t \<Rightarrow> 'k \<Rightarrow> 'v option"
    and update :: "'v \<Rightarrow> 't \<Rightarrow> 't"
    and remove :: "'k \<Rightarrow> 't \<Rightarrow> 't"
    and key_of :: "'v \<Rightarrow> 'k"
    and merge :: "'v option \<Rightarrow> 'v \<Rightarrow> 'v"
    and invar :: "'t \<Rightarrow> bool"
  assumes lookup_update: "invar t \<Longrightarrow>
      lookup (update v t) k = (if k = key_of v then Some (merge (lookup t k) v) else lookup t k)"
    and lookup_remove: "invar t \<Longrightarrow> lookup (remove k t) k' = (if k' = k then None else lookup t k')"
    and invar_update: "invar t \<Longrightarrow> invar (update v t)"
    and invar_remove: "invar t \<Longrightarrow> invar (remove k t)"
begin

text \<open>Writes to different keys do not see each other, in either order.\<close>

lemma update_commute:
  assumes "invar t" "key_of v \<noteq> key_of w"
  shows "lookup (update v (update w t)) k = lookup (update w (update v t)) k"
  using assms by (simp add: lookup_update invar_update)

lemma remove_update:
  assumes "invar t"
  shows "lookup (remove (key_of v) (update v t)) k = lookup (remove (key_of v) t) k"
  using assms by (simp add: lookup_update lookup_remove invar_update)

text \<open>A run of writes and deletions leaves the invariant intact.\<close>

lemma run_invar:
  assumes "invar t"
  shows "invar (fold (\<lambda>op. case op of Inl v \<Rightarrow> update v | Inr k \<Rightarrow> remove k) ops t)"
  using assms
  by (induction ops arbitrary: t) (auto simp: invar_update invar_remove split: sum.splits)

end

section \<open>Facts on rows\<close>

abbreviation unique_keys :: "('r \<Rightarrow> 'k) \<Rightarrow> 'r list \<Rightarrow> bool" where
  "unique_keys key rows \<equiv> distinct (map key rows)"

lemma row_select_None: "row_select key k rows = None \<longleftrightarrow> k \<notin> key ` set rows"
  by (induction rows) (auto simp: row_select_def)

lemma row_select_Some: "row_select key k rows = Some r \<Longrightarrow> r \<in> set rows \<and> key r = k"
  by (auto simp: row_select_def find_Some_iff)

lemma row_select_unique:
  "unique_keys key rows \<Longrightarrow> row_select key k rows = Some r \<longleftrightarrow> r \<in> set rows \<and> key r = k"
  by (induction rows) (auto simp: row_select_def)

lemma row_select_append [table_simps]:
  "row_select key k (rows @ [r]) =
    (case row_select key k rows of Some x \<Rightarrow> Some x | None \<Rightarrow> if key r = k then Some r else None)"
  by (induction rows) (auto simp: row_select_def)

lemma row_select_update [table_simps]:
  assumes "\<And>r. key (upd r) = key r"
  shows "row_select key k (row_update key k' upd rows) =
    (if k = k' then map_option upd (row_select key k rows) else row_select key k rows)"
  using assms by (induction rows) (auto simp: row_select_def row_update_def)

lemma row_select_delete [table_simps]:
  "row_select key k (row_delete key k' rows) = (if k = k' then None else row_select key k rows)"
  by (induction rows) (auto simp: row_select_def row_delete_def)

lemma row_select_filter:
  "unique_keys key rows \<Longrightarrow> row_select key k (filter P rows) =
    (case row_select key k rows of None \<Rightarrow> None | Some r \<Rightarrow> if P r then Some r else None)"
proof (induction rows)
  case Nil
  then show ?case by (simp add: row_select_def)
next
  case (Cons a rows)
  then have "row_select key (key a) rows = None" "row_select key (key a) (filter P rows) = None"
    by (auto simp: row_select_None)
  with Cons show ?case by (auto simp: row_select_def split: option.splits)
qed

lemma filter_key_select:
  "unique_keys key rows \<Longrightarrow> filter (\<lambda>r. key r = k) rows = (case row_select key k rows of None \<Rightarrow> [] | Some r \<Rightarrow> [r])"
proof (induction rows)
  case (Cons a rows)
  have "filter (\<lambda>r. key r = key a) rows = []" using Cons.prems by (auto simp: filter_empty_conv image_iff)
  then show ?case using Cons by (auto simp: row_select_def)
qed (simp add: row_select_def)

lemma keys_row_update: "(\<And>r. key (upd r) = key r) \<Longrightarrow> map key (row_update key k upd rows) = map key rows"
  by (induction rows) (auto simp: row_update_def)

lemma unique_row_delete: "unique_keys key rows \<Longrightarrow> unique_keys key (row_delete key k rows)"
  by (simp add: row_delete_def distinct_map_filter)

lemma unique_row_append:
  "unique_keys key rows \<Longrightarrow> row_select key (key r) rows = None \<Longrightarrow> unique_keys key (rows @ [r])"
  by (simp add: row_select_None)

lemma unique_row_upsert:
  assumes "\<And>r. key (upd r) = key r" "unique_keys key rows"
  shows "unique_keys key (row_upsert key new upd rows)"
  using assms by (auto simp: row_upsert_def keys_row_update row_select_None split: option.splits)

lemma row_select_update_where:
  assumes "\<And>r. key (upd r) = key r"
  shows "row_select key k (fst (row_update_where key k' P upd rows)) =
    (case row_select key k rows of None \<Rightarrow> None | Some r \<Rightarrow> Some (if k = k' \<and> P r then upd r else r))"
  using assms by (induction rows) (auto simp: row_select_def row_update_where_def)

lemma keys_row_update_where:
  "(\<And>r. key (upd r) = key r) \<Longrightarrow> map key (fst (row_update_where key k P upd rows)) = map key rows"
  by (induction rows) (auto simp: row_update_where_def)

lemma affected_update_where:
  assumes "unique_keys key rows"
  shows "snd (row_update_where key k P upd rows) = (case row_select key k rows of None \<Rightarrow> 0 | Some r \<Rightarrow> if P r then 1 else 0)"
  using assms
proof (induction rows)
  case (Cons a rows)
  have "filter (\<lambda>r. key r = key a \<and> P r) rows = []"
    using Cons.prems by (auto simp: filter_empty_conv image_iff)
  then show ?case using Cons by (auto simp: row_select_def row_update_where_def)
qed (simp add: row_select_def row_update_where_def)

lemma row_select_upsert [table_simps]:
  assumes "\<And>r. key (upd r) = key r"
  shows "row_select key k (row_upsert key new upd rows) =
    (if k = key new then Some (case row_select key k rows of None \<Rightarrow> new | Some old \<Rightarrow> upd old)
     else row_select key k rows)"
  using assms by (auto simp: row_upsert_def table_simps split: option.splits)

text \<open>How an upsert and a deletion change the total size of the rows of one owner.\<close>

lemma sum_filter_update:
  fixes f :: "'r \<Rightarrow> int"
  assumes "unique_keys key rows" "row_select key k rows = Some old" "P old" "P (upd old)"
  shows "(\<Sum>r\<leftarrow>filter P (row_update key k upd rows). f r) = (\<Sum>r\<leftarrow>filter P rows. f r) - f old + f (upd old)"
  using assms
proof (induction rows)
  case (Cons a rows)
  show ?case
  proof (cases "key a = k")
    case True
    then have "k \<notin> key ` set rows" using Cons.prems(1) by auto
    then have "row_update key k upd rows = rows" by (induction rows) (auto simp: row_update_def)
    moreover have "old = a" using True Cons.prems(2) by (simp add: row_select_def)
    ultimately show ?thesis using True Cons.prems(3,4) by (simp add: row_update_def)
  next
    case False
    then have "row_select key k rows = Some old" using Cons.prems(2) by (simp add: row_select_def)
    with Cons.IH Cons.prems have "(\<Sum>r\<leftarrow>filter P (row_update key k upd rows). f r) = (\<Sum>r\<leftarrow>filter P rows. f r) - f old + f (upd old)" by simp
    then show ?thesis using False by (simp add: row_update_def)
  qed
qed (simp add: row_select_def)

lemma sum_filter_upsert:
  fixes f :: "'r \<Rightarrow> int"
  assumes "unique_keys key rows" "\<And>r. key r = key new \<Longrightarrow> P r = P new" "\<And>r. key (upd r) = key r" "\<And>r. f (upd r) = f new"
  shows "(\<Sum>r\<leftarrow>filter P (row_upsert key new upd rows). f r) = (\<Sum>r\<leftarrow>filter P rows. f r)
    + (if P new then f new - (case row_select key (key new) rows of None \<Rightarrow> 0 | Some old \<Rightarrow> f old) else 0)"
proof (cases "row_select key (key new) rows")
  case None
  then show ?thesis by (simp add: row_upsert_def)
next
  case (Some old)
  then have old: "key old = key new" "P (upd old) = P new" "P old = P new"
    using row_select_Some [OF Some] assms(2) [of old] assms(2) [of "upd old"] assms(3) [of old] by auto
  show ?thesis
  proof (cases "P new")
    case True
    then show ?thesis using Some old assms(4) sum_filter_update [OF assms(1) Some, of P upd f] by (simp add: row_upsert_def)
  next
    case False
    have "\<not> P r \<and> \<not> P (upd r)" if "key r = key new" for r
      using False that assms(2) [of r] assms(2) [of "upd r"] assms(3) [of r] by simp
    then have "filter P (row_update key (key new) upd rows) = filter P rows"
      by (induction rows) (simp_all add: row_update_def)
    then show ?thesis using Some False by (simp add: row_upsert_def)
  qed
qed

lemma sum_filter_delete_le:
  fixes f :: "'r \<Rightarrow> int"
  assumes "\<forall>r \<in> set rows. 0 \<le> f r"
  shows "(\<Sum>r\<leftarrow>filter P (row_delete key k rows). f r) \<le> (\<Sum>r\<leftarrow>filter P rows. f r)"
  using assms by (induction rows) (auto simp: row_delete_def)

lemma set_row_upsert: "r \<in> set (row_upsert key new upd rows) \<Longrightarrow> r = new \<or> r \<in> set rows \<or> (\<exists>old \<in> set rows. key old = key new \<and> r = upd old)"
  by (auto simp: row_upsert_def row_update_def split: option.splits if_splits)

end
