(* ===== verification/Upstream_Target.thy ===== *)
theory Upstream_Target
  imports GoStd
begin

text \<open>
  \<open>src/internal/upstreamtarget/target.go\<close>: the upstream string of a route selects the
  transport by its prefix.
\<close>

datatype Protocol = ProtocolTCP | ProtocolQUIC | ProtocolKCP | ProtocolHAProxy

record Target =
  tg_Protocol :: Protocol
  tg_Address :: string

definition target_Parse :: "string \<Rightarrow> Target" where
  "target_Parse raw = (case CutPrefix raw ''quic://'' of
      Some address \<Rightarrow> \<lparr>tg_Protocol = ProtocolQUIC, tg_Address = address\<rparr>
    | None \<Rightarrow> (case CutPrefix raw ''kcp://'' of
        Some address \<Rightarrow> \<lparr>tg_Protocol = ProtocolKCP, tg_Address = address\<rparr>
      | None \<Rightarrow> (case CutPrefix raw ''haproxy://'' of
          Some address \<Rightarrow> \<lparr>tg_Protocol = ProtocolHAProxy, tg_Address = address\<rparr>
        | None \<Rightarrow> \<lparr>tg_Protocol = ProtocolTCP, tg_Address = raw\<rparr>)))"

text \<open>The prefix that selects a transport, as routes write it.\<close>

fun scheme :: "Protocol \<Rightarrow> string" where
  "scheme ProtocolTCP = []"
| "scheme ProtocolQUIC = ''quic://''"
| "scheme ProtocolKCP = ''kcp://''"
| "scheme ProtocolHAProxy = ''haproxy://''"

lemma target_Parse_inverse: "scheme (tg_Protocol (target_Parse raw)) @ tg_Address (target_Parse raw) = raw"
  by (auto simp: target_Parse_def CutPrefix_Some split: option.splits)

lemma target_Parse_scheme:
  assumes "p = ProtocolTCP \<Longrightarrow> (\<forall>q. q \<noteq> ProtocolTCP \<longrightarrow> \<not> HasPrefix a (scheme q))"
  shows "target_Parse (scheme p @ a) = \<lparr>tg_Protocol = p, tg_Address = a\<rparr>"
proof (cases p)
  case ProtocolTCP
  with assms have "\<not> HasPrefix a (scheme ProtocolQUIC)" "\<not> HasPrefix a (scheme ProtocolKCP)"
    "\<not> HasPrefix a (scheme ProtocolHAProxy)" by blast+
  with ProtocolTCP show ?thesis by (simp add: target_Parse_def CutPrefix_def)
qed (simp_all add: target_Parse_def CutPrefix_def)

end
