(* ===== verification/Route.thy ===== *)
theory Route
  imports Tables Upstream_Target
begin

text \<open>
  Host routes: the validation of \<open>src/internal/adminroute/validate.go\<close>, the SQLite repository of
  \<open>repository.go\<close>, the in-memory snapshot of \<open>snapshot.go\<close> the connection path reads, and the
  write operations of \<open>src/cmd/gateway/admin_routes.go\<close> that keep the two together.
\<close>

section \<open>Validation\<close>

definition ValidateHost :: "string \<Rightarrow> error option" where
  "ValidateHost host =
    (let host = TrimSpace host in
     if host = [] then Some (ErrorString ''host is required'')
     else if ContainsAny host [CHR '' '', CHR 0x09, CHR 0x0D, CHR 0x0A]
       then Some (ErrorString ''host must not contain whitespace'')
     else if Contains host ''/'' then Some (ErrorString ''host must not contain /'')
     else None)"

definition ValidateUpstream :: "string \<Rightarrow> error option" where
  "ValidateUpstream upstream =
    (let upstream = TrimSpace upstream in
     if upstream = [] then Some (ErrorString ''upstream is required'')
     else (let upstream = foldl TrimPrefix upstream [''kcp://'', ''quic://'', ''haproxy://''] in
       case SplitHostPort upstream of
         Inl _ \<Rightarrow> Some (ErrorString ''upstream must be host:port'')
       | Inr (host, portValue) \<Rightarrow>
         (if TrimSpace host = [] then Some (ErrorString ''upstream host is required'')
          else (case Atoi portValue of
              None \<Rightarrow> Some (ErrorString ''upstream port must be an integer from 1 to 65535'')
            | Some port \<Rightarrow>
              if port < 1 \<or> 65535 < port
              then Some (ErrorString ''upstream port must be an integer from 1 to 65535'')
              else None))))"

section \<open>The repository\<close>

text \<open>A row of table \<open>routes\<close>, and the record the repository returns for it.\<close>

record RouteRow =
  rt_host :: string
  rt_upstream :: string
  rt_enabled :: int
  rt_note :: string
  rt_created_at :: int
  rt_updated_at :: int
  rt_updated_by :: string

record RouteRecord =
  rr_Host :: string
  rr_Upstream :: string
  rr_Enabled :: bool
  rr_Note :: string
  rr_CreatedAt :: int
  rr_UpdatedAt :: int
  rr_UpdatedBy :: string

definition boolToInt :: "bool \<Rightarrow> int" where
  "boolToInt b = (if b then 1 else 0)"

fun scan_routes :: "(string \<rightharpoonup> string) \<Rightarrow> RouteRow list \<Rightarrow> (string \<rightharpoonup> string)" where
  "scan_routes m [] = m"
| "scan_routes m (r # rows) = scan_routes (m(rt_host r \<mapsto> rt_upstream r)) rows"

text \<open>\<open>qerr\<close> is the failure of the query, of a scan or of the iteration, if any.\<close>

definition EnabledMap :: "error option \<Rightarrow> RouteRow list \<Rightarrow> (string \<rightharpoonup> string) result" where
  "EnabledMap qerr rows = (case qerr of
      Some e \<Rightarrow> Inl e
    | None \<Rightarrow> Inr (scan_routes Map.empty (filter (\<lambda>r. rt_enabled r = 1) rows)))"

definition route_record :: "RouteRow \<Rightarrow> RouteRecord" where
  "route_record r = \<lparr>rr_Host = rt_host r, rr_Upstream = rt_upstream r, rr_Enabled = rt_enabled r \<noteq> 0,
     rr_Note = rt_note r, rr_CreatedAt = rt_created_at r, rr_UpdatedAt = rt_updated_at r,
     rr_UpdatedBy = rt_updated_by r\<rparr>"

text \<open>\<open>like\<close> is SQLite's LIKE operator, pattern second.\<close>

definition route_List ::
  "(string \<Rightarrow> string \<Rightarrow> bool) \<Rightarrow> error option \<Rightarrow> RouteRow list \<Rightarrow> string \<Rightarrow> (RouteRecord list) result" where
  "route_List like qerr rows query =
    (let query = TrimSpace query;
         pat = ''%'' @ query @ ''%'';
         hits = (if query \<noteq> []
                 then filter (\<lambda>r. like (rt_host r) pat \<or> like (rt_upstream r) pat \<or> like (rt_note r) pat) rows
                 else rows)
     in case qerr of
          Some e \<Rightarrow> Inl e
        | None \<Rightarrow> Inr (map route_record (sort_key rt_host hits)))"

definition route_upsert_row :: "RouteRow \<Rightarrow> RouteRow list \<Rightarrow> RouteRow list" where
  "route_upsert_row new rows = row_upsert rt_host new
     (\<lambda>old. old\<lparr>rt_upstream := rt_upstream new, rt_enabled := rt_enabled new, rt_note := rt_note new,
        rt_updated_at := rt_updated_at new, rt_updated_by := rt_updated_by new\<rparr>) rows"

definition route_Upsert ::
  "tx_io \<Rightarrow> int \<Rightarrow> RouteRow list option \<Rightarrow> string \<Rightarrow> string \<Rightarrow> string \<Rightarrow> bool \<Rightarrow> string
    \<Rightarrow> RouteRow list option \<times> error option" where
  "route_Upsert io now db actor host upstream enabled note = (case ValidateHost host of
      Some e \<Rightarrow> (db, Some e)
    | None \<Rightarrow> (case ValidateUpstream upstream of
        Some e \<Rightarrow> (db, Some e)
      | None \<Rightarrow> in_tx_db io db (route_upsert_row
          \<lparr>rt_host = host, rt_upstream = upstream, rt_enabled = boolToInt enabled, rt_note = note,
           rt_created_at = now, rt_updated_at = now, rt_updated_by = actor\<rparr>)))"

definition route_Delete ::
  "tx_io \<Rightarrow> RouteRow list option \<Rightarrow> string \<Rightarrow> RouteRow list option \<times> error option" where
  "route_Delete io db host = (case ValidateHost host of
      Some e \<Rightarrow> (db, Some e)
    | None \<Rightarrow> in_tx_db io db (row_delete rt_host host))"

section \<open>The snapshot\<close>

text \<open>
  Go maps are references.  The heap holds the maps; \<open>Store\<close> and \<open>Clone\<close> copy into a fresh one.
  The value of \<open>atomic.Value\<close> is the reference last stored, or nothing.
\<close>

record map_heap =
  hp_maps :: "nat \<Rightarrow> (string \<rightharpoonup> string)"
  hp_next :: nat

type_synonym Snapshot = "nat option"

definition NewSnapshot :: Snapshot where
  "NewSnapshot = None"

definition copy_map :: "map_heap \<Rightarrow> (string \<rightharpoonup> string) \<Rightarrow> map_heap \<times> nat" where
  "copy_map h m = (h\<lparr>hp_maps := (hp_maps h)(hp_next h := m), hp_next := Suc (hp_next h)\<rparr>, hp_next h)"

text \<open>\<open>routes = None\<close> is the nil map.\<close>

definition snapshot_Store :: "map_heap \<Rightarrow> nat option \<Rightarrow> map_heap \<times> Snapshot" where
  "snapshot_Store h routes =
    (let m = (case routes of None \<Rightarrow> Map.empty | Some r \<Rightarrow> hp_maps h r);
         (h', copied) = copy_map h m
     in (h', Some copied))"

definition snapshot_Clone :: "map_heap \<Rightarrow> Snapshot \<Rightarrow> map_heap \<times> nat option" where
  "snapshot_Clone h s = (case s of
      None \<Rightarrow> (h, None)
    | Some r \<Rightarrow> (let (h', copied) = copy_map h (hp_maps h r) in (h', Some copied)))"

text \<open>The lookup on the published map: exact host first, then the explicit \<open>default\<close> route.\<close>

definition lookup_routes :: "(string \<rightharpoonup> string) option \<Rightarrow> string \<Rightarrow> string \<times> bool" where
  "lookup_routes v host = (case v of
      None \<Rightarrow> ([], False)
    | Some routes \<Rightarrow> (case routes host of
        Some upstream \<Rightarrow> (upstream, True)
      | None \<Rightarrow> (case routes ''default'' of
          Some upstream \<Rightarrow> (upstream, True)
        | None \<Rightarrow> ([], False))))"

definition snapshot_Lookup :: "map_heap \<Rightarrow> Snapshot \<Rightarrow> string \<Rightarrow> string \<times> bool" where
  "snapshot_Lookup h s host = lookup_routes (map_option (hp_maps h) s) host"

section \<open>Repository and snapshot together\<close>

text \<open>
  The routing state of the process: the table of \<open>adminDB\<close> (nothing before the database is
  open) and the value of the published snapshot.
\<close>

record route_state =
  rs_db :: "RouteRow list option"
  rs_snap :: "(string \<rightharpoonup> string) option"

definition publishRouteSnapshot :: "route_state \<Rightarrow> (string \<rightharpoonup> string) \<Rightarrow> route_state" where
  "publishRouteSnapshot st routes = st\<lparr>rs_snap := Some routes\<rparr>"

definition refreshRouteSnapshot :: "error option \<Rightarrow> route_state \<Rightarrow> route_state \<times> error option" where
  "refreshRouteSnapshot qerr st = (case rs_db st of
      None \<Rightarrow> (publishRouteSnapshot st Map.empty, None)
    | Some rows \<Rightarrow> (case EnabledMap qerr rows of
        Inl e \<Rightarrow> (st, Some e)
      | Inr routes \<Rightarrow> (publishRouteSnapshot st routes, None)))"

definition lookupRoute :: "route_state \<Rightarrow> string \<Rightarrow> string \<times> bool" where
  "lookupRoute st host = lookup_routes (rs_snap st) host"

definition listRoutes ::
  "(string \<Rightarrow> string \<Rightarrow> bool) \<Rightarrow> error option \<Rightarrow> route_state \<Rightarrow> string \<Rightarrow> (RouteRecord list) result" where
  "listRoutes like qerr st query = (case rs_db st of
      None \<Rightarrow> Inl (Go_panic ''nil database'')
    | Some rows \<Rightarrow> route_List like qerr rows query)"

definition upsertRoute ::
  "tx_io \<Rightarrow> error option \<Rightarrow> int \<Rightarrow> route_state \<Rightarrow> string \<Rightarrow> string \<Rightarrow> string \<Rightarrow> bool \<Rightarrow> string
    \<Rightarrow> route_state \<times> error option" where
  "upsertRoute io qerr now st actor host upstream enabled note =
    (case route_Upsert io now (rs_db st) actor host upstream enabled note of
       (db, Some e) \<Rightarrow> (st\<lparr>rs_db := db\<rparr>, Some e)
     | (db, None) \<Rightarrow> refreshRouteSnapshot qerr (st\<lparr>rs_db := db\<rparr>))"

definition deleteRoute ::
  "tx_io \<Rightarrow> error option \<Rightarrow> route_state \<Rightarrow> string \<Rightarrow> string \<Rightarrow> route_state \<times> error option" where
  "deleteRoute io qerr st actor host = (case route_Delete io (rs_db st) host of
      (db, Some e) \<Rightarrow> (st\<lparr>rs_db := db\<rparr>, Some e)
    | (db, None) \<Rightarrow> refreshRouteSnapshot qerr (st\<lparr>rs_db := db\<rparr>))"

section \<open>Lemmas\<close>

subsection \<open>The table\<close>

abbreviation "routes_invar \<equiv> unique_keys rt_host"

definition route_merge :: "RouteRow option \<Rightarrow> RouteRow \<Rightarrow> RouteRow" where
  "route_merge old new = (case old of None \<Rightarrow> new | Some r \<Rightarrow> new\<lparr>rt_created_at := rt_created_at r\<rparr>)"

interpretation routes: keyed_store "\<lambda>rows host. row_select rt_host host rows" route_upsert_row
  "row_delete rt_host" rt_host route_merge routes_invar
proof unfold_locales
  fix t v k
  show "row_select rt_host k (route_upsert_row v t) =
      (if k = rt_host v then Some (route_merge (row_select rt_host k t) v) else row_select rt_host k t)"
    by (auto simp: route_upsert_row_def row_select_upsert route_merge_def
        dest!: row_select_Some split: option.splits)
qed (simp_all add: route_upsert_row_def row_select_delete unique_row_upsert unique_row_delete)

lemma scan_routes_eq:
  "unique_keys rt_host rows \<Longrightarrow> scan_routes m rows h =
    (case row_select rt_host h rows of None \<Rightarrow> m h | Some r \<Rightarrow> Some (rt_upstream r))"
proof (induction rows arbitrary: m)
  case Nil
  then show ?case by (simp add: row_select_def)
next
  case (Cons r rows)
  then have "row_select rt_host (rt_host r) rows = None" by (simp add: row_select_None)
  with Cons show ?case by (auto simp: row_select_def split: option.splits)
qed

text \<open>The route table as the specification sees it: the upstream of each enabled host.\<close>

definition enabled_routes :: "RouteRow list \<Rightarrow> (string \<rightharpoonup> string)" where
  "enabled_routes rows h = (case row_select rt_host h rows of
      None \<Rightarrow> None | Some r \<Rightarrow> if rt_enabled r = 1 then Some (rt_upstream r) else None)"

lemma EnabledMap_eq:
  assumes "routes_invar rows"
  shows "EnabledMap None rows = Inr (enabled_routes rows)"
proof -
  have "unique_keys rt_host (filter (\<lambda>r. rt_enabled r = 1) rows)"
    using assms by (rule distinct_map_filter)
  then show ?thesis
    using assms
    by (auto simp: EnabledMap_def enabled_routes_def scan_routes_eq row_select_filter fun_eq_iff
        split: option.splits)
qed

lemma enabled_routes_upsert:
  assumes "routes_invar rows"
  shows "enabled_routes (route_upsert_row new rows) =
    (enabled_routes rows)(rt_host new := (if rt_enabled new = 1 then Some (rt_upstream new) else None))"
  using routes.lookup_update [OF assms]
  by (auto simp: enabled_routes_def fun_eq_iff route_merge_def split: option.splits)

lemma enabled_routes_delete:
  "enabled_routes (row_delete rt_host host rows) = (enabled_routes rows)(host := None)"
  by (auto simp: enabled_routes_def fun_eq_iff row_select_delete)

subsection \<open>The snapshot in step with the table\<close>

text \<open>The table has unique hosts and the published map is the table's enabled routes.\<close>

definition route_inv :: "route_state \<Rightarrow> bool" where
  "route_inv st = (case rs_db st of
      None \<Rightarrow> rs_snap st = None \<or> rs_snap st = Some Map.empty
    | Some rows \<Rightarrow> routes_invar rows \<and> rs_snap st = Some (enabled_routes rows))"

lemma refreshRouteSnapshot_inv:
  "rs_db st = Some rows \<Longrightarrow> routes_invar rows \<Longrightarrow>
    refreshRouteSnapshot None st = (st\<lparr>rs_snap := Some (enabled_routes rows)\<rparr>, None)"
  by (simp add: refreshRouteSnapshot_def EnabledMap_eq publishRouteSnapshot_def)

lemma route_Upsert_cases:
  assumes "route_Upsert io now (Some rows) actor host upstream enabled note = (db, r)"
  shows "r \<noteq> None \<and> db = Some rows \<or>
    r = None \<and> ValidateHost host = None \<and> ValidateUpstream upstream = None \<and>
    db = Some (route_upsert_row \<lparr>rt_host = host, rt_upstream = upstream,
      rt_enabled = boolToInt enabled, rt_note = note, rt_created_at = now, rt_updated_at = now,
      rt_updated_by = actor\<rparr> rows)"
  using assms by (auto simp: route_Upsert_def dest!: in_tx_db_cases split: option.splits)

lemma route_Delete_cases:
  assumes "route_Delete io (Some rows) host = (db, r)"
  shows "r \<noteq> None \<and> db = Some rows \<or>
    r = None \<and> ValidateHost host = None \<and> db = Some (row_delete rt_host host rows)"
  using assms by (auto simp: route_Delete_def dest!: in_tx_db_cases split: option.splits)

section \<open>Concurrent writers\<close>

text \<open>
  The write operations run on HTTP goroutines.  \<open>routeWriteLock\<close> brackets the transaction and the
  refresh, which itself reads the table and then publishes: three steps other writers may
  interleave with.  A writer is idle, has the lock and is about to commit, has committed and
  is about to read the enabled routes, or has read them and is about to publish.
\<close>

datatype route_pc = RIdle | RWrite | RRead | RPublish "string \<rightharpoonup> string"

record route_sys =
  sy_rows :: "RouteRow list"
  sy_snap :: "string \<rightharpoonup> string"
  sy_lock :: "nat option"
  sy_pc :: "nat \<Rightarrow> route_pc"
  sy_stale :: bool \<comment> \<open>the last committed write was not published: its refresh failed\<close>

inductive route_step :: "route_sys \<Rightarrow> route_sys \<Rightarrow> bool" where
  lock: "sy_pc s t = RIdle \<Longrightarrow> sy_lock s = None \<Longrightarrow>
    route_step s (s\<lparr>sy_lock := Some t, sy_pc := (sy_pc s)(t := RWrite)\<rparr>)"
| upsert: "sy_pc s t = RWrite \<Longrightarrow>
    route_Upsert io now (Some (sy_rows s)) actor host upstream enabled nt = (Some rows', None) \<Longrightarrow>
    route_step s (s\<lparr>sy_rows := rows', sy_stale := True, sy_pc := (sy_pc s)(t := RRead)\<rparr>)"
| delete: "sy_pc s t = RWrite \<Longrightarrow>
    route_Delete io (Some (sy_rows s)) host = (Some rows', None) \<Longrightarrow>
    route_step s (s\<lparr>sy_rows := rows', sy_stale := True, sy_pc := (sy_pc s)(t := RRead)\<rparr>)"
| write_fails: "sy_pc s t = RWrite \<Longrightarrow>
    route_step s (s\<lparr>sy_lock := None, sy_pc := (sy_pc s)(t := RIdle)\<rparr>)"
| read: "sy_pc s t = RRead \<Longrightarrow> EnabledMap None (sy_rows s) = Inr m \<Longrightarrow>
    route_step s (s\<lparr>sy_pc := (sy_pc s)(t := RPublish m)\<rparr>)"
| read_fails: "sy_pc s t = RRead \<Longrightarrow>
    route_step s (s\<lparr>sy_lock := None, sy_pc := (sy_pc s)(t := RIdle)\<rparr>)"
| publish: "sy_pc s t = RPublish m \<Longrightarrow>
    route_step s (s\<lparr>sy_snap := m, sy_stale := False, sy_lock := None, sy_pc := (sy_pc s)(t := RIdle)\<rparr>)"

inductive route_reachable :: "RouteRow list \<Rightarrow> route_sys \<Rightarrow> bool" for rows0 where
  init: "routes_invar rows0 \<Longrightarrow> route_reachable rows0 \<lparr>sy_rows = rows0, sy_snap = enabled_routes rows0,
    sy_lock = None, sy_pc = (\<lambda>_. RIdle), sy_stale = False\<rparr>"
| step: "route_reachable rows0 s \<Longrightarrow> route_step s s' \<Longrightarrow> route_reachable rows0 s'"

definition route_sys_inv :: "route_sys \<Rightarrow> bool" where
  "route_sys_inv s \<longleftrightarrow> routes_invar (sy_rows s)
    \<and> (\<forall>t. sy_pc s t \<noteq> RIdle \<longleftrightarrow> sy_lock s = Some t)
    \<and> (\<forall>t m. sy_pc s t = RPublish m \<longrightarrow> m = enabled_routes (sy_rows s))
    \<and> (sy_stale s \<or> sy_snap s = enabled_routes (sy_rows s))"

lemma route_Upsert_invar:
  "route_Upsert io now (Some rows) actor host upstream enabled note = (Some rows', None) \<Longrightarrow>
    routes_invar rows \<Longrightarrow> routes_invar rows'"
  by (drule route_Upsert_cases) (auto simp: routes.invar_update)

lemma route_Delete_invar:
  "route_Delete io (Some rows) host = (Some rows', None) \<Longrightarrow> routes_invar rows \<Longrightarrow> routes_invar rows'"
  by (drule route_Delete_cases) (auto simp: routes.invar_remove)

lemma route_holder:
  "route_sys_inv s \<Longrightarrow> sy_pc s t \<noteq> RIdle \<Longrightarrow>
    sy_lock s = Some t \<and> (\<forall>u. u \<noteq> t \<longrightarrow> sy_pc s u = RIdle)"
  by (auto simp: route_sys_inv_def)

lemma route_step_inv: "route_step s s' \<Longrightarrow> route_sys_inv s \<Longrightarrow> route_sys_inv s'"
proof (induction rule: route_step.induct)
  case (lock s t)
  then show ?case by (auto simp: route_sys_inv_def)
next
  case (upsert s t io now actor host upstream enabled nt rows')
  then have "sy_lock s = Some t \<and> (\<forall>u. u \<noteq> t \<longrightarrow> sy_pc s u = RIdle)" by (intro route_holder) simp_all
  with upsert show ?case by (auto simp: route_sys_inv_def dest: route_Upsert_invar)
next
  case (delete s t io host rows')
  then have "sy_lock s = Some t \<and> (\<forall>u. u \<noteq> t \<longrightarrow> sy_pc s u = RIdle)" by (intro route_holder) simp_all
  with delete show ?case by (auto simp: route_sys_inv_def dest: route_Delete_invar)
next
  case (write_fails s t)
  then have "sy_lock s = Some t \<and> (\<forall>u. u \<noteq> t \<longrightarrow> sy_pc s u = RIdle)" by (intro route_holder) simp_all
  with write_fails show ?case by (auto simp: route_sys_inv_def)
next
  case (read s t m)
  then show ?case by (auto simp: route_sys_inv_def EnabledMap_eq)
next
  case (read_fails s t)
  then have "sy_lock s = Some t \<and> (\<forall>u. u \<noteq> t \<longrightarrow> sy_pc s u = RIdle)" by (intro route_holder) simp_all
  with read_fails show ?case by (auto simp: route_sys_inv_def)
next
  case (publish s t m)
  then have "sy_lock s = Some t \<and> (\<forall>u. u \<noteq> t \<longrightarrow> sy_pc s u = RIdle)" by (intro route_holder) simp_all
  with publish show ?case by (auto simp: route_sys_inv_def)
qed

lemma route_reachable_inv: "route_reachable rows0 s \<Longrightarrow> route_sys_inv s"
proof (induction rule: route_reachable.induct)
  case init
  then show ?case by (simp add: route_sys_inv_def)
next
  case (step s s')
  then show ?case by (blast intro: route_step_inv)
qed

lemma mutual_write: "route_sys_inv s \<Longrightarrow> sy_pc s t \<noteq> RIdle \<Longrightarrow> sy_pc s u \<noteq> RIdle \<Longrightarrow> t = u"
  using route_holder by blast

section \<open>Properties\<close>

text \<open>
  a saved route takes effect at once.  When \<open>upsertRoute\<close> reports success, the next lookup
  of that host gives the new upstream if the route is enabled and the \<open>default\<close> route (if
  any) otherwise, every other host is looked up in the updated set of enabled routes, and the
  published snapshot is again exactly the enabled rows of the table.
\<close>

theorem upsertRoute_effective:
  assumes "route_inv st" "rs_db st = Some rows"
    and "upsertRoute io qerr now st actor host upstream enabled note = (st', None)"
  shows "route_inv st' \<and> lookupRoute st' h = lookup_routes
    (Some ((enabled_routes rows)(host := if enabled then Some upstream else None))) h
    \<and> (enabled \<longrightarrow> lookupRoute st' host = (upstream, True))"
proof -
  obtain db r where up: "route_Upsert io now (Some rows) actor host upstream enabled note = (db, r)"
    by fastforce
  have inv: "routes_invar rows" using assms(1,2) by (simp add: route_inv_def)
  let ?new = "\<lparr>rt_host = host, rt_upstream = upstream, rt_enabled = boolToInt enabled,
    rt_note = note, rt_created_at = now, rt_updated_at = now, rt_updated_by = actor\<rparr>"
  from assms(2,3) up have r: "r = None" and q: "qerr = None"
    by (auto simp: upsertRoute_def refreshRouteSnapshot_def EnabledMap_def publishRouteSnapshot_def
        dest!: route_Upsert_cases split: option.splits)
  with route_Upsert_cases [OF up] have db: "db = Some (route_upsert_row ?new rows)" by simp
  have st': "st' = st\<lparr>rs_db := db, rs_snap := Some (enabled_routes (route_upsert_row ?new rows))\<rparr>"
    using assms(2,3) up inv by (simp add: upsertRoute_def r q db refreshRouteSnapshot_inv routes.invar_update)
  have "enabled_routes (route_upsert_row ?new rows) =
      (enabled_routes rows)(host := if enabled then Some upstream else None)"
    by (simp add: enabled_routes_upsert [OF inv] boolToInt_def)
  then have snap: "rs_snap st' = Some ((enabled_routes rows)(host := if enabled then Some upstream else None))"
    by (simp add: st')
  have "route_inv st'" using inv by (simp add: st' db route_inv_def routes.invar_update)
  then show ?thesis by (simp add: lookupRoute_def lookup_routes_def snap)
qed

definition route_demo :: route_state where
  "route_demo = \<lparr>rs_db = Some [], rs_snap = Some Map.empty\<rparr>"

lemma route_demo_inv: "route_inv route_demo"
  by (simp add: route_demo_def route_inv_def enabled_routes_def row_select_def fun_eq_iff)

lemma demo_valid: "ValidateHost ''a'' = None" "ValidateUpstream ''h:25565'' = None"
  by code_simp+

theorem upsertRoute_effective_witness:
  "\<exists>st'. upsertRoute io_ok None 7 route_demo ''admin'' ''a'' ''h:25565'' True [] = (st', None)
    \<and> route_inv st' \<and> lookupRoute st' ''a'' = (''h:25565'', True)"
proof -
  obtain st' where st': "upsertRoute io_ok None 7 route_demo ''admin'' ''a'' ''h:25565'' True [] = (st', None)"
    by (simp add: upsertRoute_def route_Upsert_def demo_valid route_demo_def refreshRouteSnapshot_def
        EnabledMap_def)
  have "rs_db route_demo = Some []" by (simp add: route_demo_def)
  from upsertRoute_effective [OF route_demo_inv this st', of "''b''"] st' show ?thesis by blast
qed

text \<open>
  a deleted route stops routing at once, and no other host is affected.  When
  \<open>deleteRoute\<close> reports success the host has no route of its own any more and every other
  host is looked up as before; when it or \<open>upsertRoute\<close> reports an error before the commit,
  table and snapshot are unchanged.
\<close>

theorem deleteRoute_effective:
  assumes "route_inv st" "rs_db st = Some rows" "deleteRoute io qerr st actor host = (st', r)"
  shows "(r = None \<longrightarrow> route_inv st' \<and>
      lookupRoute st' h = lookup_routes (Some ((enabled_routes rows)(host := None))) h)
    \<and> (tx_begin io \<noteq> None \<or> tx_exec io \<noteq> None \<or> tx_commit io \<noteq> None \<or> ValidateHost host \<noteq> None
      \<longrightarrow> r \<noteq> None \<and> st' = st)"
proof -
  obtain db e where del: "route_Delete io (Some rows) host = (db, e)" by fastforce
  have inv: "routes_invar rows" using assms(1,2) by (simp add: route_inv_def)
  have db: "e = None \<Longrightarrow> db = Some (row_delete rt_host host rows)" "e \<noteq> None \<Longrightarrow> db = Some rows"
    using route_Delete_cases [OF del] by auto
  have fails: "tx_begin io \<noteq> None \<or> tx_exec io \<noteq> None \<or> tx_commit io \<noteq> None \<or> ValidateHost host \<noteq> None
      \<Longrightarrow> e \<noteq> None"
    using del by (cases e) (auto simp: route_Delete_def dest: in_tx_db_None split: option.splits)
  show ?thesis
  proof (cases e)
    case None
    then have st: "(st', r) = refreshRouteSnapshot qerr (st\<lparr>rs_db := Some (row_delete rt_host host rows)\<rparr>)"
      using assms(2,3) del db(1) by (simp add: deleteRoute_def)
    then have "r = None \<Longrightarrow> st' = st\<lparr>rs_db := Some (row_delete rt_host host rows),
        rs_snap := Some ((enabled_routes rows)(host := None))\<rparr>"
      using inv by (cases qerr)
        (auto simp: refreshRouteSnapshot_inv routes.invar_remove enabled_routes_delete,
         auto simp: refreshRouteSnapshot_def EnabledMap_def)
    with None fails inv show ?thesis
      by (auto simp: route_inv_def routes.invar_remove enabled_routes_delete lookupRoute_def)
  next
    case (Some a)
    with assms(2,3) del db(2) show ?thesis by (auto simp: deleteRoute_def)
  qed
qed

theorem deleteRoute_effective_witness:
  "\<exists>st'. deleteRoute io_ok None route_demo ''admin'' ''a'' = (st', None) \<and> route_inv st'
    \<and> lookupRoute st' ''b'' = lookup_routes (Some ((enabled_routes [])(''a'' := None))) ''b''"
proof -
  obtain st' where st': "deleteRoute io_ok None route_demo ''admin'' ''a'' = (st', None)"
    by (simp add: deleteRoute_def route_Delete_def demo_valid route_demo_def refreshRouteSnapshot_def
        EnabledMap_def)
  have "rs_db route_demo = Some []" by (simp add: route_demo_def)
  from deleteRoute_effective [OF route_demo_inv this st', of "''b''"] st' show ?thesis by blast
qed



text \<open>
  \<open>Store\<close> and \<open>Clone\<close> isolate the snapshot.  After \<open>Store\<close>, writing to the map that was
  passed in does not change what \<open>Lookup\<close> answers, and neither does writing to the map
  \<open>Clone\<close> returned; \<open>Lookup\<close> answers from the stored content.
\<close>

theorem snapshot_isolated:
  assumes "r < hp_next h" "snapshot_Store h (Some r) = (h1, s)" "snapshot_Clone h1 s = (h2, c)"
    and "w = r \<or> Some w = c"
  shows "snapshot_Lookup (h2\<lparr>hp_maps := (hp_maps h2)(w := m)\<rparr>) s host
    = lookup_routes (Some (hp_maps h r)) host"
  using assms
  by (auto simp: snapshot_Store_def snapshot_Clone_def copy_map_def snapshot_Lookup_def Let_def)

theorem snapshot_isolated_witness:
  "\<exists>h h1 s h2 c. hp_maps h 0 = [''a'' \<mapsto> ''h:1''] \<and> snapshot_Store h (Some 0) = (h1, s)
    \<and> snapshot_Clone h1 s = (h2, c)
    \<and> snapshot_Lookup (h2\<lparr>hp_maps := (hp_maps h2)(0 := Map.empty)\<rparr>) s ''a'' = (''h:1'', True)"
proof -
  let ?h = "\<lparr>hp_maps = (\<lambda>_. [''a'' \<mapsto> ''h:1'']), hp_next = 1\<rparr>"
  obtain h1 s where st: "snapshot_Store ?h (Some 0) = (h1, s)" by fastforce
  obtain h2 c where cl: "snapshot_Clone h1 s = (h2, c)" by fastforce
  have "snapshot_Lookup (h2\<lparr>hp_maps := (hp_maps h2)(0 := Map.empty)\<rparr>) s ''a'' = (''h:1'', True)"
    using snapshot_isolated [OF _ st cl, of 0 Map.empty "''a''"] by (simp add: lookup_routes_def)
  with st cl show ?thesis by (intro exI [of _ ?h] exI conjI) simp_all
qed

text \<open>The heap model of the snapshot refines the value the rest of the program works with.\<close>

lemma snapshot_Store_value: "snapshot_Store h r = (h', s) \<Longrightarrow>
    map_option (hp_maps h') s = Some (case r of None \<Rightarrow> Map.empty | Some a \<Rightarrow> hp_maps h a)"
  by (auto simp: snapshot_Store_def copy_map_def Let_def)

lemma strip_schemes:
  assumes "\<forall>q. q \<noteq> ProtocolTCP \<longrightarrow> \<not> HasPrefix a (scheme q)"
  shows "foldl TrimPrefix (scheme p @ a) [''kcp://'', ''quic://'', ''haproxy://''] = a"
proof -
  have "\<not> HasPrefix a (scheme ProtocolQUIC)" "\<not> HasPrefix a (scheme ProtocolKCP)"
    "\<not> HasPrefix a (scheme ProtocolHAProxy)" using assms by blast+
  then show ?thesis by (cases p) (simp_all add: TrimPrefix_def)
qed



text \<open>
  validation and use disagree on two kinds of input.  Two transport prefixes in a row are
  accepted, yet the address left after the first is not a host and port; and a host padded with
  white space is accepted and stored as it is, so that the trimmed host still has no route.
\<close>

theorem validation_gaps:
  "ValidateUpstream ''kcp://quic://h:25565'' = None
    \<and> SplitHostPort (tg_Address (target_Parse ''kcp://quic://h:25565''))
      = Inl (ErrorString ''too many colons in address'')
    \<and> ValidateHost '' a'' = None
    \<and> (\<exists>st'. upsertRoute io_ok None 7 route_demo ''admin'' '' a'' ''h:25565'' True [] = (st', None)
      \<and> lookupRoute st' '' a'' = (''h:25565'', True) \<and> lookupRoute st' ''a'' = ([], False))"
proof (intro conjI)
  show "ValidateUpstream ''kcp://quic://h:25565'' = None" by code_simp
  show "SplitHostPort (tg_Address (target_Parse ''kcp://quic://h:25565''))
      = Inl (ErrorString ''too many colons in address'')" by code_simp
  show v: "ValidateHost '' a'' = None" by code_simp
  show "\<exists>st'. upsertRoute io_ok None 7 route_demo ''admin'' '' a'' ''h:25565'' True [] = (st', None)
      \<and> lookupRoute st' '' a'' = (''h:25565'', True) \<and> lookupRoute st' ''a'' = ([], False)"
    by (simp add: upsertRoute_def route_Upsert_def v demo_valid route_demo_def refreshRouteSnapshot_def
        EnabledMap_def route_upsert_row_def row_upsert_def row_select_def boolToInt_def
        publishRouteSnapshot_def lookupRoute_def lookup_routes_def)
qed

end
