(* ===== verification/Relay.thy ===== *)
theory Relay
  imports Go_IO
begin

text \<open>
  \<open>src/cmd/gateway/relay.go\<close>: writing a whole buffer, and the two copy loops that forward between
  client and upstream, each closing its direction when it ends.
\<close>

definition proxyBufferSize :: nat where
  "proxyBufferSize = 64 * 1024"

text \<open>
  \<open>writeAll\<close> over the results of the writer's \<open>Write\<close> calls: the bytes that went out, the error, and
  the results not yet used.  A count beyond the buffer makes \<open>buf[n:]\<close> panic.  \<^const>\<open>None\<close>: the
  next \<open>Write\<close> has not returned.
\<close>

fun writeAll :: "writes \<Rightarrow> bytes \<Rightarrow> (bytes \<times> error option \<times> writes) option" where
  "writeAll ws [] = Some ([], None, ws)"
| "writeAll [] (b # bs) = None"
| "writeAll ((n, err) # ws) (b # bs) =
    (let buf = b # bs in
     if int (length buf) < n then Some (buf, Some (Go_panic ''slice bounds out of range''), ws)
     else (let out = (if 0 < n then take (nat n) buf else []);
               rest = (if 0 < n then drop (nat n) buf else buf) in
       case err of
         Some e \<Rightarrow> Some (out, Some e, ws)
       | None \<Rightarrow> (if n = 0 then Some (out, Some Io_ErrShortWrite, ws)
                 else map_option (\<lambda>(o', r). (out @ o', r)) (writeAll ws rest))))"

text \<open>
  What the end of a connection can do: \<open>CloseWrite\<close> and \<open>CloseRead\<close> of its own, or only \<open>Close\<close>,
  or neither.
\<close>

record endpoint =
  ep_closeWriter :: bool
  ep_closeReader :: bool
  ep_closer :: bool

datatype relay_event = Forwarded bytes | CloseWrite | CloseRead | CloseConn

definition closeWrite :: "endpoint \<Rightarrow> relay_event list" where
  "closeWrite conn = (if ep_closeWriter conn then [CloseWrite] else if ep_closer conn then [CloseConn] else [])"

definition closeRead :: "endpoint \<Rightarrow> relay_event list" where
  "closeRead conn = (if ep_closeReader conn then [CloseRead] else [])"

text \<open>
  \<open>copyForward\<close>: \<open>io.Copy\<close> where source or destination has an optimised path, \<open>io.CopyBuffer\<close>
  otherwise; the three paths differ in buffering only.
\<close>

definition copyForward :: "reads \<Rightarrow> writes \<Rightarrow> (bytes \<times> error option) option" where
  "copyForward src dst = io_Copy src dst"

text \<open>
  \<open>proxyCopy\<close>: the events at the destination and at the source, in order; the deferred calls run
  in reverse.
\<close>

definition proxyCopy ::
  "endpoint \<Rightarrow> endpoint \<Rightarrow> reads \<Rightarrow> writes \<Rightarrow> (relay_event list \<times> relay_event list) option" where
  "proxyCopy dst src rs ws = (case copyForward rs ws of
      None \<Rightarrow> None
    | Some (out, err) \<Rightarrow> Some (Forwarded out # closeWrite dst, closeRead src))"

text \<open>
  \<open>proxyConnections\<close>: both directions run at once and the call returns when both have ended.  The
  result is what connection \<open>a\<close> and connection \<open>b\<close> see on their writing and reading sides.
\<close>

record relay_end =
  re_written :: "relay_event list"
  re_read :: "relay_event list"

definition proxyConnections ::
  "endpoint \<Rightarrow> endpoint \<Rightarrow> reads \<Rightarrow> writes \<Rightarrow> reads \<Rightarrow> writes \<Rightarrow> (relay_end \<times> relay_end) option" where
  "proxyConnections a b a_reads a_writes b_reads b_writes =
    (case (proxyCopy b a a_reads b_writes, proxyCopy a b b_reads a_writes) of
       (Some (b_written, a_read), Some (a_written, b_read)) \<Rightarrow>
         Some (\<lparr>re_written = a_written, re_read = a_read\<rparr>, \<lparr>re_written = b_written, re_read = b_read\<rparr>)
     | _ \<Rightarrow> None)"

section \<open>Lemmas\<close>

lemma writeAll_step:
  assumes "n \<le> int (length (b # bs))" "n \<noteq> 0"
  shows "\<exists>out rest. out @ rest = b # bs \<and>
    writeAll ((n, None) # ws) (b # bs) = map_option (\<lambda>(o', r). (out @ o', r)) (writeAll ws rest)"
  using assms
  by (intro exI [of _ "if 0 < n then take (nat n) (b # bs) else []"]
      exI [of _ "if 0 < n then drop (nat n) (b # bs) else b # bs"]) (auto simp: Let_def)

lemma writeAll_prefix:
  "writeAll ws buf = Some (out, e, ws') \<Longrightarrow> prefix out buf \<and> (e = None \<longrightarrow> out = buf)"
proof (induction ws arbitrary: buf out)
  case Nil
  then show ?case by (cases buf) auto
next
  case (Cons w ws)
  obtain n err where w: "w = (n, err)" by fastforce
  show ?case
  proof (cases buf)
    case Nil
    with Cons.prems show ?thesis by simp
  next
    case buf: (Cons b bs)
    show ?thesis
    proof (cases "int (length (b # bs)) < n \<or> err \<noteq> None \<or> n = 0")
      case True
      with Cons.prems w buf show ?thesis
        by (auto simp: Let_def take_is_prefix split: if_splits option.splits)
    next
      case False
      then obtain o1 rest where *: "o1 @ rest = b # bs"
        "writeAll ((n, None) # ws) (b # bs) = map_option (\<lambda>(o', r). (o1 @ o', r)) (writeAll ws rest)"
        using writeAll_step [of n b bs ws] by force
      have "map_option (\<lambda>(o', r). (o1 @ o', r)) (writeAll ws rest) = Some (out, e, ws')"
        using False Cons.prems w buf *(2) by simp
      then obtain o2 where o2: "writeAll ws rest = Some (o2, e, ws')" "out = o1 @ o2" by auto
      with Cons.IH [OF o2(1)] *(1) buf show ?thesis by (metis same_prefix_prefix)
    qed
  qed
qed

lemma writeAll_complete: "writeAll ws buf = Some (out, None, ws') \<Longrightarrow> out = buf"
  using writeAll_prefix [of ws buf out None ws'] by simp

text \<open>Every write that makes progress keeps the loop going to the end of the buffer.\<close>

lemma writeAll_progress:
  assumes "\<forall>(n, e) \<in> set ws. e = None \<and> n = 1" "length buf \<le> length ws"
  shows "\<exists>ws'. writeAll ws buf = Some (buf, None, ws')"
  using assms
proof (induction ws buf rule: writeAll.induct)
  case (3 n err ws b bs)
  then show ?case by (auto simp: Let_def)
qed auto

text \<open>A writer that takes everything in one call.\<close>

lemma writeAll_once [simp]:
  "writeAll ((int (length buf), None) # ws) buf =
    Some (buf, None, if buf = [] then (int (length buf), None) # ws else ws)"
  by (cases buf) (auto simp: Let_def nat_add_distrib)



end
