(* ===== verification/Plugin_Api.thy ===== *)
theory Plugin_Api
  imports GoStd
begin

text \<open>
  The request and decision types of \<open>src/plugin/api/hook.go\<close>.  Plugins are code loaded at run time:
  a hook is a parameter, a function from the request to what the host observes of the call.

  A \<open>map[string]string\<close> is a map; nil and the empty map read alike.  The \<open>Context\<close> fields are
  left out: the host observes a context only when a call outlives it, which is an outcome of
  the call (\<open>CallContextDone\<close>).
\<close>

type_synonym string_map = "string \<rightharpoonup> string"

definition ErrPass :: error where
  "ErrPass = ErrorString ''plugin handler pass''"

definition ErrContinuationUsed :: error where
  "ErrContinuationUsed = ErrorString ''upstream continuation already used''"

definition "RouteDecisionPass = ''pass''"
definition "RouteDecisionOverride = ''override''"
definition "RouteDecisionFallback = ''fallback''"
definition "RouteDecisionReject = ''reject''"
definition "DeliveryBestEffort = ''best_effort''"
definition "DeliveryAtLeastOnce = ''at_least_once''"
definition "FailPolicyOpen = ''fail_open''"
definition "FailPolicyClose = ''fail_closed''"

lemmas api_consts = ErrPass_def RouteDecisionPass_def RouteDecisionOverride_def RouteDecisionFallback_def
  RouteDecisionReject_def DeliveryBestEffort_def DeliveryAtLeastOnce_def FailPolicyOpen_def FailPolicyClose_def

record UpstreamHandshakeRef =
  uh_ServerHost :: string
  uh_RawServerHost :: string
  uh_ProtocolVersion :: int
  uh_NextState :: int

record RouteResolveRequest =
  rq_Host :: string
  rq_RawServerHost :: string
  rq_SourceAddr :: string
  rq_ProtocolVersion :: int
  rq_NextState :: int
  rq_FallbackUpstream :: string
  rq_FallbackHit :: bool
  rq_Refresh :: bool
  rq_Metadata :: string_map
  rq_Handshake :: UpstreamHandshakeRef

record RouteDecision =
  rd_Action :: string
  rd_Upstream :: string
  rd_Host :: string
  rd_Reason :: string
  rd_ProviderID :: string
  rd_CacheTTL :: int \<comment> \<open>nanoseconds\<close>
  rd_Metadata :: string_map
  rd_Explanation :: string

record RuleEvaluateRequest =
  ru_Subject :: string
  ru_Action :: string
  ru_Resource :: string
  ru_Host :: string
  ru_SourceAddr :: string
  ru_Metadata :: string_map

record RuleEvaluateDecision =
  re_Allow :: bool
  re_Deny :: bool
  re_Reject :: bool
  re_Reason :: string
  re_ProviderID :: string
  re_Metadata :: string_map

record StatusPingRequest =
  sp_Host :: string
  sp_RawServerHost :: string
  sp_SourceAddr :: string
  sp_ProtocolVersion :: int
  sp_Metadata :: string_map

record StatusPingResponse =
  st_MOTD :: string
  st_Favicon :: string
  st_OnlinePlayers :: int
  st_MaxPlayers :: int
  st_VersionText :: string
  st_ProtocolVersion :: int
  st_Maintenance :: bool
  st_MaintenanceWindow :: string
  st_Metadata :: string_map

record FilterDecision =
  fd_Allow :: bool
  fd_Reject :: bool
  fd_Reason :: string
  fd_FailPolicy :: string
  fd_Metadata :: string_map

record HandshakeFilterDecision = FilterDecision +
  hd_RewriteHost :: string

record ConnectionFilterRequest =
  cf_SourceAddr :: string
  cf_Transport :: string
  cf_Metadata :: string_map

record HandshakeFilterRequest =
  hf_SourceAddr :: string
  hf_ServerHost :: string
  hf_RawServerHost :: string
  hf_ProtocolVersion :: int
  hf_NextState :: int
  hf_Metadata :: string_map

section \<open>Ingress\<close>

record HTTPIngressContext =
  hi_Method :: string
  hi_Host :: string
  hi_Path :: string
  hi_Headers :: "(string \<times> string list) list"

record QUICIngressContext =
  qi_ApplicationProtocol :: string

record IngressContext =
  ic_Transport :: string
  ic_ServiceName :: string
  ic_ListenerPort :: int
  ic_HTTP :: "HTTPIngressContext option"
  ic_QUIC :: "QUICIngressContext option"

text \<open>
  What the host observes of a call of plugin code: a value, an error, a panic, or the context
  ending first (the handler's time limit, or the end of the connection session).
\<close>

datatype 'a call =
    CallReturns 'a
  | CallFails error
  | CallPanics string
  | CallContextDone error

end
