(* ===== verification/Metrics.thy ===== *)
theory Metrics
  imports GoStd "HOL-Library.Word" "HOL-Library.AList"
begin

text \<open>
  \<open>src/internal/gatewaymetrics/metrics.go\<close>: the atomic counters of the gateway, at the width the
  code gives them.
\<close>

type_synonym uint64 = "64 word"

record Counters =
  totalConnections :: uint64
  activeConnections :: uint64 \<comment> \<open>an \<open>atomic.Int64\<close>, read by \<^const>\<open>sint\<close>\<close>
  tcpConnections :: uint64
  webSocketConns :: uint64
  routeMisses :: uint64
  upstreamDialErrs :: uint64
  routeHits :: "(string \<times> uint64) list"

definition metrics_New :: Counters where
  "metrics_New = \<lparr>totalConnections = 0, activeConnections = 0, tcpConnections = 0, webSocketConns = 0,
     routeMisses = 0, upstreamDialErrs = 0, routeHits = []\<rparr>"

definition ConnectionStarted :: "Counters \<Rightarrow> Counters" where
  "ConnectionStarted m = m\<lparr>totalConnections := totalConnections m + 1,
     activeConnections := activeConnections m + 1\<rparr>"

definition ConnectionFinished :: "Counters \<Rightarrow> Counters" where
  "ConnectionFinished m = m\<lparr>activeConnections := activeConnections m - 1\<rparr>"

definition TCPConnectionStarted :: "Counters \<Rightarrow> Counters" where
  "TCPConnectionStarted m = m\<lparr>tcpConnections := tcpConnections m + 1\<rparr>"

definition WebSocketConnectionStarted :: "Counters \<Rightarrow> Counters" where
  "WebSocketConnectionStarted m = m\<lparr>webSocketConns := webSocketConns m + 1\<rparr>"

definition RouteHit :: "string \<Rightarrow> Counters \<Rightarrow> Counters" where
  "RouteHit host m = m\<lparr>routeHits := AList.update host
     ((case map_of (routeHits m) host of None \<Rightarrow> 0 | Some n \<Rightarrow> n) + 1) (routeHits m)\<rparr>"

definition RouteMiss :: "Counters \<Rightarrow> Counters" where
  "RouteMiss m = m\<lparr>routeMisses := routeMisses m + 1\<rparr>"

definition UpstreamDialError :: "Counters \<Rightarrow> Counters" where
  "UpstreamDialError m = m\<lparr>upstreamDialErrs := upstreamDialErrs m + 1\<rparr>"

datatype metric_value = MCount uint64 | MGauge int | MHits "(string \<times> uint64) list"

definition metrics_Snapshot :: "Counters \<Rightarrow> (string \<times> metric_value) list" where
  "metrics_Snapshot m = [(''total_connections'', MCount (totalConnections m)),
     (''active_connections'', MGauge (sint (activeConnections m))),
     (''tcp_connections'', MCount (tcpConnections m)),
     (''websocket_connections'', MCount (webSocketConns m)),
     (''route_hits'', MHits (routeHits m)),
     (''route_misses'', MCount (routeMisses m)),
     (''upstream_dial_errors'', MCount (upstreamDialErrs m))]"

text \<open>\<open>Describe\<close>, and \<open>Collect\<close>: the hits of all hosts are summed, so that no host becomes a label.\<close>

definition metrics_Describe :: "string list" where
  "metrics_Describe = [''mc_gateway_connections_total'', ''mc_gateway_active_connections'',
     ''mc_gateway_tcp_connections_total'', ''mc_gateway_websocket_connections_total'',
     ''mc_gateway_route_hits_total'', ''mc_gateway_route_misses_total'',
     ''mc_gateway_upstream_dial_errors_total'']"

definition metrics_Collect :: "Counters \<Rightarrow> (string \<times> metric_value) list" where
  "metrics_Collect m =
    (let hits = foldl (\<lambda>s (_, count). s + count) 0 (routeHits m) in
     [(''mc_gateway_connections_total'', MCount (totalConnections m)),
      (''mc_gateway_active_connections'', MGauge (sint (activeConnections m))),
      (''mc_gateway_tcp_connections_total'', MCount (tcpConnections m)),
      (''mc_gateway_websocket_connections_total'', MCount (webSocketConns m)),
      (''mc_gateway_route_hits_total'', MCount hits),
      (''mc_gateway_route_misses_total'', MCount (routeMisses m)),
      (''mc_gateway_upstream_dial_errors_total'', MCount (upstreamDialErrs m))])"

section \<open>Lemmas\<close>

definition hits_total :: "Counters \<Rightarrow> uint64" where
  "hits_total m = sum_list (map snd (routeHits m))"

lemma foldl_hits: "foldl (\<lambda>s (_, count). s + count) a xs = a + sum_list (map snd (xs :: (string \<times> uint64) list))"
  by (induction xs arbitrary: a) (auto simp: add.assoc)

lemma sum_update:
  "sum_list (map snd (AList.update k v xs)) =
    sum_list (map snd xs) + v - (case map_of xs k of None \<Rightarrow> 0 | Some n \<Rightarrow> (n :: uint64))"
  by (induction xs) (auto simp: algebra_simps split: option.splits)

lemma hits_total_RouteHit: "hits_total (RouteHit host m) = hits_total m + 1"
  by (simp add: hits_total_def RouteHit_def sum_update split: option.splits)

end
