(* ===== verification/Extensions.thy ===== *)
theory Extensions
  imports Plugin_Api Metrics
begin

text \<open>
  \<open>src/internal/pluginmanager/extensions.go\<close>: the chains of plugin handlers the gateway consults on
  a connection (connection filters, handshake filters, status responders, route resolvers,
  rule evaluators), the statistics each handler keeps, the snapshot the chains are taken from,
  and the cache of route decisions.
\<close>

section \<open>Handlers\<close>

text \<open>
  The statistics fields every handler struct has.
\<close>

record HandlerStats =
  hs_calls :: uint64
  hs_errors :: uint64
  hs_panics :: uint64
  hs_timeouts :: uint64
  hs_blocked :: uint64
  hs_durationCount :: uint64
  hs_durationSumMS :: uint64
  hs_durationMaxMS :: uint64

text \<open>
  The handler structs have the same fields and differ in the types of their two functions.  A
  handle function gives the outcome of the call and the milliseconds it took; a nil acceptor is
  \<^const>\<open>None\<close>.
\<close>

record ('req, 'dec) handler =
  h_pluginID :: string
  h_artifactID :: string
  h_priority :: int
  h_handlerID :: string
  h_extensionPoint :: string
  h_timeout :: int
  h_accept :: "('req \<Rightarrow> bool call) option"
  h_handle :: "'req \<Rightarrow> 'dec call \<times> nat"
  h_stats :: HandlerStats

type_synonym routeHandler = "(RouteResolveRequest, RouteDecision) handler"
type_synonym ruleHandler = "(RuleEvaluateRequest, RuleEvaluateDecision) handler"
type_synonym statusHandler = "(StatusPingRequest, StatusPingResponse) handler"

record middlewareHandler =
  mw_pluginID :: string
  mw_artifactID :: string
  mw_priority :: int
  mw_handlerID :: string
  mw_extensionPoint :: string
  mw_timeout :: int
  mw_failPolicy :: string
  mw_connectionAccept :: "(ConnectionFilterRequest \<Rightarrow> bool call) option"
  mw_connectionHandle :: "(ConnectionFilterRequest \<Rightarrow> FilterDecision call \<times> nat) option"
  mw_handshakeAccept :: "(HandshakeFilterRequest \<Rightarrow> bool call) option"
  mw_handshakeHandle :: "(HandshakeFilterRequest \<Rightarrow> HandshakeFilterDecision call \<times> nat) option"
  mw_stats :: HandlerStats

text \<open>
  \<open>recordExtensionDuration\<close>: the compare-and-swap loop leaves the larger of the two values.
\<close>

definition recordExtensionDuration :: "nat \<Rightarrow> HandlerStats \<Rightarrow> HandlerStats" where
  "recordExtensionDuration ms s = s\<lparr>hs_durationCount := hs_durationCount s + 1,
     hs_durationSumMS := hs_durationSumMS s + of_nat ms,
     hs_durationMaxMS := (if of_nat ms \<le> hs_durationMaxMS s then hs_durationMaxMS s else of_nat ms)\<rparr>"

text \<open>
  \<open>invokeWithTimeout\<close>.  A panic is counted by the goroutine and arrives as an error, so it is
  counted as an error too; an error that is \<open>ErrPass\<close> is not.
\<close>

definition invokeWithTimeout ::
  "string \<Rightarrow> string \<Rightarrow> 'a call \<Rightarrow> HandlerStats \<Rightarrow> HandlerStats \<times> 'a result" where
  "invokeWithTimeout pluginID nm outcome s = (case outcome of
      CallReturns v \<Rightarrow> (s, Inr v)
    | CallFails e \<Rightarrow> ((if e \<noteq> ErrPass then s\<lparr>hs_errors := hs_errors s + 1\<rparr> else s), Inl e)
    | CallPanics rec \<Rightarrow> (s\<lparr>hs_panics := hs_panics s + 1, hs_errors := hs_errors s + 1\<rparr>,
        Inl (ErrorString (''plugin '' @ pluginID @ '' '' @ nm @ '' panic: '' @ rec)))
    | CallContextDone e \<Rightarrow> (s\<lparr>hs_timeouts := hs_timeouts s + 1\<rparr>, Inl e))"

text \<open>
  \<open>accepts\<close> of every handler kind, and \<open>recoverBool\<close>: a panic of the acceptor is counted and
  becomes an error.  The acceptor is a plain function: it returns or panics.
\<close>

definition call_accept ::
  "string \<Rightarrow> string \<Rightarrow> ('req \<Rightarrow> bool call) option \<Rightarrow> 'req \<Rightarrow> HandlerStats \<Rightarrow> HandlerStats \<times> bool result" where
  "call_accept pluginID nm acc req s = (case acc of
      None \<Rightarrow> (s, Inr True)
    | Some f \<Rightarrow> (case f req of
        CallReturns b \<Rightarrow> (s, Inr b)
      | CallPanics rec \<Rightarrow> (s\<lparr>hs_panics := hs_panics s + 1\<rparr>,
          Inl (ErrorString (''plugin '' @ pluginID @ '' '' @ nm @ '' panic: '' @ rec)))
      | CallFails e \<Rightarrow> (s, Inr False)
      | CallContextDone e \<Rightarrow> (s, Inr False)))"

definition call_handle ::
  "string \<Rightarrow> string \<Rightarrow> ('req \<Rightarrow> 'dec call \<times> nat) \<Rightarrow> 'req \<Rightarrow> HandlerStats \<Rightarrow> HandlerStats \<times> 'dec result" where
  "call_handle pluginID nm f req s = (case f req of (outcome, ms) \<Rightarrow>
     (case invokeWithTimeout pluginID nm outcome (s\<lparr>hs_calls := hs_calls s + 1\<rparr>) of
        (s', r) \<Rightarrow> (recordExtensionDuration ms s', r)))"

definition handler_accepts ::
  "string \<Rightarrow> ('req, 'dec) handler \<Rightarrow> 'req \<Rightarrow> ('req, 'dec) handler \<times> bool result" where
  "handler_accepts nm h req = (case call_accept (h_pluginID h) nm (h_accept h) req (h_stats h) of
     (s, r) \<Rightarrow> (h\<lparr>h_stats := s\<rparr>, r))"

definition handler_invoke ::
  "string \<Rightarrow> ('req, 'dec) handler \<Rightarrow> 'req \<Rightarrow> ('req, 'dec) handler \<times> 'dec result" where
  "handler_invoke nm h req = (case call_handle (h_pluginID h) nm (h_handle h) req (h_stats h) of
     (s, r) \<Rightarrow> (h\<lparr>h_stats := s\<rparr>, r))"

definition route_accepts :: "routeHandler \<Rightarrow> RouteResolveRequest \<Rightarrow> routeHandler \<times> bool result" where
  "route_accepts = handler_accepts ''route acceptor''"

definition route_invoke :: "routeHandler \<Rightarrow> RouteResolveRequest \<Rightarrow> routeHandler \<times> RouteDecision result" where
  "route_invoke = handler_invoke ''route resolver''"

definition rule_accepts :: "ruleHandler \<Rightarrow> RuleEvaluateRequest \<Rightarrow> ruleHandler \<times> bool result" where
  "rule_accepts = handler_accepts ''rule acceptor''"

definition rule_invoke :: "ruleHandler \<Rightarrow> RuleEvaluateRequest \<Rightarrow> ruleHandler \<times> RuleEvaluateDecision result" where
  "rule_invoke = handler_invoke ''rule evaluator''"

definition status_accepts :: "statusHandler \<Rightarrow> StatusPingRequest \<Rightarrow> statusHandler \<times> bool result" where
  "status_accepts = handler_accepts ''status acceptor''"

definition status_invoke :: "statusHandler \<Rightarrow> StatusPingRequest \<Rightarrow> statusHandler \<times> StatusPingResponse result" where
  "status_invoke = handler_invoke ''status ping''"

definition acceptsConnection ::
  "middlewareHandler \<Rightarrow> ConnectionFilterRequest \<Rightarrow> middlewareHandler \<times> bool result" where
  "acceptsConnection h req =
    (case call_accept (mw_pluginID h) ''connection filter acceptor'' (mw_connectionAccept h) req (mw_stats h) of
       (s, r) \<Rightarrow> (h\<lparr>mw_stats := s\<rparr>, r))"

definition acceptsHandshake ::
  "middlewareHandler \<Rightarrow> HandshakeFilterRequest \<Rightarrow> middlewareHandler \<times> bool result" where
  "acceptsHandshake h req =
    (case call_accept (mw_pluginID h) ''handshake filter acceptor'' (mw_handshakeAccept h) req (mw_stats h) of
       (s, r) \<Rightarrow> (h\<lparr>mw_stats := s\<rparr>, r))"

definition invokeConnection ::
  "(ConnectionFilterRequest \<Rightarrow> FilterDecision call \<times> nat) \<Rightarrow> middlewareHandler \<Rightarrow> ConnectionFilterRequest
    \<Rightarrow> middlewareHandler \<times> FilterDecision result" where
  "invokeConnection handle h req = (case call_handle (mw_pluginID h) ''connection filter'' handle req (mw_stats h) of
     (s, r) \<Rightarrow> (h\<lparr>mw_stats := s\<rparr>, r))"

definition invokeHandshake ::
  "(HandshakeFilterRequest \<Rightarrow> HandshakeFilterDecision call \<times> nat) \<Rightarrow> middlewareHandler \<Rightarrow> HandshakeFilterRequest
    \<Rightarrow> middlewareHandler \<times> HandshakeFilterDecision result" where
  "invokeHandshake handle h req = (case call_handle (mw_pluginID h) ''handshake filter'' handle req (mw_stats h) of
     (s, r) \<Rightarrow> (h\<lparr>mw_stats := s\<rparr>, r))"

definition count_blocked :: "middlewareHandler \<Rightarrow> middlewareHandler" where
  "count_blocked h = h\<lparr>mw_stats := (mw_stats h)\<lparr>hs_blocked := hs_blocked (mw_stats h) + 1\<rparr>\<rparr>"

section \<open>Filters\<close>

record ConnectionFilterResult =
  cr_Allowed :: bool
  cr_PluginID :: string
  cr_Reason :: string

record HandshakeFilterResult = ConnectionFilterResult +
  hr_RewriteHost :: string

text \<open>The loop of \<open>FilterConnection\<close>: result, error, and the handlers with their new statistics.\<close>

fun FilterConnection_loop ::
  "ConnectionFilterRequest \<Rightarrow> middlewareHandler list
    \<Rightarrow> (ConnectionFilterResult \<times> error option) \<times> middlewareHandler list" where
  "FilterConnection_loop req [] = ((\<lparr>cr_Allowed = True, cr_PluginID = [], cr_Reason = []\<rparr>, None), [])"
| "FilterConnection_loop req (h # hs) =
    (let continue = (\<lambda>h'. case FilterConnection_loop req hs of (r, hs') \<Rightarrow> (r, h' # hs'));
         fail = (\<lambda>h' err. if mw_failPolicy h = FailPolicyClose
            then ((\<lparr>cr_Allowed = False, cr_PluginID = mw_pluginID h, cr_Reason = Error err\<rparr>, Some err), h' # hs)
            else continue h') in
     case mw_connectionHandle h of
       None \<Rightarrow> continue h
     | Some handle \<Rightarrow> (case acceptsConnection h req of
         (h1, Inl err) \<Rightarrow> fail h1 err
       | (h1, Inr False) \<Rightarrow> continue h1
       | (h1, Inr True) \<Rightarrow> (case invokeConnection handle h1 req of
           (h2, Inl err) \<Rightarrow> fail h2 err
         | (h2, Inr decision) \<Rightarrow>
             (if fd_Reject decision \<or> \<not> fd_Allow decision
              then ((\<lparr>cr_Allowed = False, cr_PluginID = mw_pluginID h, cr_Reason = fd_Reason decision\<rparr>, None),
                    count_blocked h2 # hs)
              else continue h2))))"

fun FilterHandshake_loop ::
  "HandshakeFilterResult \<Rightarrow> HandshakeFilterRequest \<Rightarrow> middlewareHandler list
    \<Rightarrow> (HandshakeFilterResult \<times> error option) \<times> middlewareHandler list" where
  "FilterHandshake_loop result req [] = ((result, None), [])"
| "FilterHandshake_loop result req (h # hs) =
    (let continue = (\<lambda>result' req' h'. case FilterHandshake_loop result' req' hs of (r, hs') \<Rightarrow> (r, h' # hs'));
         fail = (\<lambda>h' err. if mw_failPolicy h = FailPolicyClose
            then ((\<lparr>cr_Allowed = False, cr_PluginID = mw_pluginID h, cr_Reason = Error err, hr_RewriteHost = []\<rparr>,
                   Some err), h' # hs)
            else continue result req h') in
     case mw_handshakeHandle h of
       None \<Rightarrow> continue result req h
     | Some handle \<Rightarrow> (case acceptsHandshake h req of
         (h1, Inl err) \<Rightarrow> fail h1 err
       | (h1, Inr False) \<Rightarrow> continue result req h1
       | (h1, Inr True) \<Rightarrow> (case invokeHandshake handle h1 req of
           (h2, Inl err) \<Rightarrow> fail h2 err
         | (h2, Inr decision) \<Rightarrow>
             (if fd_Reject decision \<or> \<not> fd_Allow decision
              then ((\<lparr>cr_Allowed = False, cr_PluginID = mw_pluginID h, cr_Reason = fd_Reason decision,
                      hr_RewriteHost = []\<rparr>, None), count_blocked h2 # hs)
              else if hd_RewriteHost decision \<noteq> []
              then continue (result\<lparr>hr_RewriteHost := hd_RewriteHost decision, cr_PluginID := mw_pluginID h\<rparr>)
                     (req\<lparr>hf_ServerHost := hd_RewriteHost decision\<rparr>) h2
              else continue result req h2))))"

section \<open>The manager's extension state\<close>

record RouteDecisionSummary =
  rs_Host :: string
  rs_Action :: string
  rs_Upstream :: string
  rs_ProviderID :: string
  rs_Source :: string
  rs_Reason :: string
  rs_Metadata :: string_map
  rs_CreatedAt :: int
  rs_ExpiresAt :: int

record routeCacheEntry =
  rc_summary :: RouteDecisionSummary
  rc_decision :: RouteDecision

record ext_state =
  es_routes :: "routeHandler list"
  es_rules :: "ruleHandler list"
  es_statuses :: "statusHandler list"
  es_middleware :: "middlewareHandler list"
  es_routeCache :: "(string \<times> routeCacheEntry) list"

definition FilterConnection ::
  "ext_state \<Rightarrow> ConnectionFilterRequest \<Rightarrow> (ConnectionFilterResult \<times> error option) \<times> ext_state" where
  "FilterConnection m req = (case FilterConnection_loop req (es_middleware m) of
     (r, hs) \<Rightarrow> (r, m\<lparr>es_middleware := hs\<rparr>))"

definition FilterHandshake ::
  "ext_state \<Rightarrow> HandshakeFilterRequest \<Rightarrow> (HandshakeFilterResult \<times> error option) \<times> ext_state" where
  "FilterHandshake m req = (case FilterHandshake_loop
       \<lparr>cr_Allowed = True, cr_PluginID = [], cr_Reason = [], hr_RewriteHost = []\<rparr> req (es_middleware m) of
     (r, hs) \<Rightarrow> (r, m\<lparr>es_middleware := hs\<rparr>))"

section \<open>Status responders\<close>

record StatusPingResult =
  sr_Handled :: bool
  sr_Response :: "StatusPingResponse option" \<comment> \<open>\<^const>\<open>None\<close>: the zero value\<close>
  sr_PluginID :: string
  sr_Source :: string

definition empty_status :: StatusPingResult where
  "empty_status = \<lparr>sr_Handled = False, sr_Response = None, sr_PluginID = [], sr_Source = []\<rparr>"

fun StatusPing_loop ::
  "StatusPingRequest \<Rightarrow> statusHandler list \<Rightarrow> (error + StatusPingResult) \<times> statusHandler list" where
  "StatusPing_loop req [] = (Inr empty_status, [])"
| "StatusPing_loop req (h # hs) =
    (let continue = (\<lambda>h'. case StatusPing_loop req hs of (r, hs') \<Rightarrow> (r, h' # hs')) in
     case status_accepts h req of
       (h1, Inl err) \<Rightarrow> (Inl err, h1 # hs)
     | (h1, Inr False) \<Rightarrow> continue h1
     | (h1, Inr True) \<Rightarrow> (case status_invoke h1 req of
         (h2, Inl err) \<Rightarrow> if err = ErrPass then continue h2 else (Inl err, h2 # hs)
       | (h2, Inr resp) \<Rightarrow> (Inr \<lparr>sr_Handled = True, sr_Response = Some resp, sr_PluginID = h_pluginID h,
           sr_Source = ''plugin''\<rparr>, h2 # hs)))"

definition StatusPing :: "ext_state \<Rightarrow> StatusPingRequest \<Rightarrow> StatusPingResult result \<times> ext_state" where
  "StatusPing m req = (case StatusPing_loop req (es_statuses m) of (r, hs) \<Rightarrow> (r, m\<lparr>es_statuses := hs\<rparr>))"

section \<open>Rule evaluators\<close>

record RuleEvaluateResult =
  rr_Handled :: bool
  rr_Decision :: RuleEvaluateDecision
  rr_PluginID :: string
  rr_Source :: string

definition normalizeRuleDecision :: "RuleEvaluateDecision \<Rightarrow> string \<Rightarrow> RuleEvaluateDecision" where
  "normalizeRuleDecision decision providerID =
    (let decision = (if re_ProviderID decision = [] then decision\<lparr>re_ProviderID := providerID\<rparr> else decision)
     in if re_Deny decision \<or> re_Reject decision then decision\<lparr>re_Allow := False\<rparr>
        else if \<not> re_Allow decision \<and> re_Reason decision = [] then decision\<lparr>re_Allow := True\<rparr>
        else decision)"

definition no_rule_decision :: RuleEvaluateDecision where
  "no_rule_decision = \<lparr>re_Allow = True, re_Deny = False, re_Reject = False,
     re_Reason = ''no rule evaluator handled request'', re_ProviderID = [], re_Metadata = Map.empty\<rparr>"

fun EvaluateRule_loop ::
  "RuleEvaluateRequest \<Rightarrow> ruleHandler list \<Rightarrow> (error + RuleEvaluateResult) \<times> ruleHandler list" where
  "EvaluateRule_loop req [] =
    (Inr \<lparr>rr_Handled = False, rr_Decision = no_rule_decision, rr_PluginID = [], rr_Source = []\<rparr>, [])"
| "EvaluateRule_loop req (h # hs) =
    (let continue = (\<lambda>h'. case EvaluateRule_loop req hs of (r, hs') \<Rightarrow> (r, h' # hs')) in
     case rule_accepts h req of
       (h1, Inl err) \<Rightarrow> (Inl err, h1 # hs)
     | (h1, Inr False) \<Rightarrow> continue h1
     | (h1, Inr True) \<Rightarrow> (case rule_invoke h1 req of
         (h2, Inl err) \<Rightarrow> if err = ErrPass then continue h2 else (Inl err, h2 # hs)
       | (h2, Inr decision) \<Rightarrow>
           (let decision = normalizeRuleDecision decision (h_pluginID h) in
            if \<not> re_Allow decision \<and> \<not> re_Deny decision \<and> \<not> re_Reject decision then continue h2
            else (Inr \<lparr>rr_Handled = True, rr_Decision = decision, rr_PluginID = h_pluginID h,
                    rr_Source = ''plugin''\<rparr>,
                  (if re_Deny decision \<or> re_Reject decision \<or> \<not> re_Allow decision
                   then h2\<lparr>h_stats := (h_stats h2)\<lparr>hs_blocked := hs_blocked (h_stats h2) + 1\<rparr>\<rparr>
                   else h2) # hs))))"

definition EvaluateRule :: "ext_state \<Rightarrow> RuleEvaluateRequest \<Rightarrow> RuleEvaluateResult result \<times> ext_state" where
  "EvaluateRule m req = (case EvaluateRule_loop req (es_rules m) of (r, hs) \<Rightarrow> (r, m\<lparr>es_rules := hs\<rparr>))"

section \<open>Route resolvers and the decision cache\<close>

text \<open>Times are nanoseconds since the epoch; \<open>Unix()\<close> is the whole seconds.\<close>

definition unix :: "int \<Rightarrow> int" where
  "unix t = t div 1000000000"

definition normalizeRouteDecision :: "RouteDecision \<Rightarrow> string \<Rightarrow> RouteDecision" where
  "normalizeRouteDecision decision providerID =
    (let decision = (if rd_ProviderID decision = [] then decision\<lparr>rd_ProviderID := providerID\<rparr> else decision);
         decision = (if rd_Action decision \<in> {RouteDecisionOverride, RouteDecisionFallback, RouteDecisionReject,
                           RouteDecisionPass} then decision
                     else if rd_Upstream decision \<noteq> [] then decision\<lparr>rd_Action := RouteDecisionOverride\<rparr>
                     else decision\<lparr>rd_Action := RouteDecisionPass\<rparr>)
     in if rd_CacheTTL decision = 0 then decision\<lparr>rd_CacheTTL := 60 * 1000000000\<rparr> else decision)"

definition routeDecisionSummary :: "int \<Rightarrow> string \<Rightarrow> RouteDecision \<Rightarrow> string \<Rightarrow> RouteDecisionSummary" where
  "routeDecisionSummary now host decision source =
    \<lparr>rs_Host = (if rd_Host decision \<noteq> [] then rd_Host decision else host),
     rs_Action = rd_Action decision, rs_Upstream = rd_Upstream decision, rs_ProviderID = rd_ProviderID decision,
     rs_Source = source, rs_Reason = rd_Reason decision,
     rs_Metadata = (if rd_Explanation decision \<noteq> []
        then (rd_Metadata decision)(''explanation'' \<mapsto> rd_Explanation decision) else rd_Metadata decision),
     rs_CreatedAt = unix now,
     rs_ExpiresAt = (if 0 < rd_CacheTTL decision then unix (now + rd_CacheTTL decision) else 0)\<rparr>"

definition cacheRoute :: "string \<Rightarrow> RouteDecision \<Rightarrow> RouteDecisionSummary \<Rightarrow> ext_state \<Rightarrow> ext_state" where
  "cacheRoute host decision summary m =
    (if host = [] \<or> rd_Action decision = RouteDecisionPass then m
     else m\<lparr>es_routeCache := AList.update host \<lparr>rc_summary = summary, rc_decision = decision\<rparr> (es_routeCache m)\<rparr>)"

definition expired :: "int \<Rightarrow> RouteDecisionSummary \<Rightarrow> bool" where
  "expired now s = (0 < rs_ExpiresAt s \<and> rs_ExpiresAt s \<le> unix now)"

definition cachedRoute :: "int \<Rightarrow> string \<Rightarrow> ext_state \<Rightarrow> RouteDecisionSummary option \<times> ext_state" where
  "cachedRoute now host m = (case map_of (es_routeCache m) host of
      None \<Rightarrow> (None, m)
    | Some entry \<Rightarrow> (if expired now (rc_summary entry)
        then (None, m\<lparr>es_routeCache := AList.delete host (es_routeCache m)\<rparr>)
        else (Some (rc_summary entry), m)))"

definition cachedDecision :: "RouteDecisionSummary \<Rightarrow> RouteDecision" where
  "cachedDecision summary = \<lparr>rd_Action = rs_Action summary, rd_Upstream = rs_Upstream summary,
     rd_Host = rs_Host summary, rd_Reason = rs_Reason summary, rd_ProviderID = rs_ProviderID summary,
     rd_CacheTTL = 0, rd_Metadata = rs_Metadata summary, rd_Explanation = []\<rparr>"

record RouteResolveResult =
  rv_Decision :: RouteDecision
  rv_Source :: string
  rv_Summary :: RouteDecisionSummary

text \<open>What the loop over the resolvers of \<open>ResolveRoute\<close> ends with.\<close>

datatype resolve_outcome =
    ResolveError error
  | ResolveDecision RouteDecision
  | ResolveFailed \<comment> \<open>a resolver failed: the cache if it has the host, else the fallback\<close>
  | ResolveNone

fun ResolveRoute_loop :: "RouteResolveRequest \<Rightarrow> routeHandler list \<Rightarrow> resolve_outcome \<times> routeHandler list" where
  "ResolveRoute_loop req [] = (ResolveNone, [])"
| "ResolveRoute_loop req (h # hs) =
    (let continue = (\<lambda>h'. case ResolveRoute_loop req hs of (r, hs') \<Rightarrow> (r, h' # hs')) in
     case route_accepts h req of
       (h1, Inl err) \<Rightarrow> (ResolveError err, h1 # hs)
     | (h1, Inr False) \<Rightarrow> continue h1
     | (h1, Inr True) \<Rightarrow> (case route_invoke h1 req of
         (h2, Inl err) \<Rightarrow> if err = ErrPass then continue h2 else (ResolveFailed, h2 # hs)
       | (h2, Inr decision) \<Rightarrow>
           (let decision = normalizeRouteDecision decision (h_pluginID h) in
            if rd_Action decision = RouteDecisionPass \<or> rd_Action decision = [] then continue h2
            else (ResolveDecision decision, h2 # hs))))"

definition cached_result :: "RouteDecisionSummary \<Rightarrow> RouteResolveResult" where
  "cached_result cached = (let cached = cached\<lparr>rs_Source := ''cache''\<rparr> in
     \<lparr>rv_Decision = cachedDecision cached, rv_Source = ''cache'', rv_Summary = cached\<rparr>)"

definition fallback_result :: "int \<Rightarrow> RouteResolveRequest \<Rightarrow> RouteResolveResult" where
  "fallback_result now req =
    (let upstream = rq_FallbackUpstream req;
         source = (if upstream = [] then ''fallback_miss'' else ''sqlite_fallback'');
         decision = \<lparr>rd_Action = (if upstream = [] then RouteDecisionReject else RouteDecisionFallback),
           rd_Upstream = upstream, rd_Host = [],
           rd_Reason = (if upstream = [] then ''no route provider decision and no sqlite fallback''
             else ''sqlite route snapshot fallback''),
           rd_ProviderID = ''sqlite'', rd_CacheTTL = 0, rd_Metadata = Map.empty, rd_Explanation = []\<rparr>
     in \<lparr>rv_Decision = decision, rv_Source = source,
         rv_Summary = routeDecisionSummary now (rq_Host req) decision source\<rparr>)"

text \<open>\<open>now\<close> is the time; \<open>fallback\<close> the callback into the route snapshot, or nil.\<close>

definition ResolveRoute ::
  "int \<Rightarrow> (RouteResolveRequest \<Rightarrow> string \<times> bool) option \<Rightarrow> ext_state \<Rightarrow> RouteResolveRequest
    \<Rightarrow> RouteResolveResult result \<times> ext_state" where
  "ResolveRoute now fallback m req =
    (let req = (case fallback of
           Some f \<Rightarrow> if rq_FallbackUpstream req = []
             then req\<lparr>rq_FallbackUpstream := fst (f req), rq_FallbackHit := snd (f req)\<rparr> else req
         | None \<Rightarrow> req)
     in case ResolveRoute_loop req (es_routes m) of
       (outcome, hs) \<Rightarrow> (let m = m\<lparr>es_routes := hs\<rparr> in (case outcome of
           ResolveError err \<Rightarrow> (Inl err, m)
         | ResolveDecision decision \<Rightarrow>
             (let summary = routeDecisionSummary now (rq_Host req) decision ''provider'' in
              (Inr \<lparr>rv_Decision = decision, rv_Source = ''provider'', rv_Summary = summary\<rparr>,
               cacheRoute (rq_Host req) decision summary m))
         | _ \<Rightarrow> (case cachedRoute now (rq_Host req) m of
             (Some cached, m) \<Rightarrow> if (case outcome of ResolveFailed \<Rightarrow> True | _ \<Rightarrow> False) \<or> \<not> rq_Refresh req then (Inr (cached_result cached), m)
                                else (Inr (fallback_result now req), m)
           | (None, m) \<Rightarrow> (Inr (fallback_result now req), m)))))"

definition RouteCacheSnapshot_unsorted :: "int \<Rightarrow> ext_state \<Rightarrow> RouteDecisionSummary list" where
  "RouteCacheSnapshot_unsorted now m =
    filter (\<lambda>s. \<not> expired now s) (map (\<lambda>(_, e). rc_summary e) (es_routeCache m))"

section \<open>Lemmas\<close>

text \<open>
  What a handler would answer, apart from its statistics.  The statistics never influence a
  decision, so each chain is determined by the first handler whose answer is not to pass.
\<close>

lemma call_accept_snd: "snd (call_accept p n a req s) = snd (call_accept p n a req s')"
  by (auto simp: call_accept_def split: option.splits call.splits)

lemma call_handle_snd: "snd (call_handle p n f req s) = snd (call_handle p n f req s')"
  by (auto simp: call_handle_def invokeWithTimeout_def split: prod.splits call.splits)

datatype verdict = VPass | VReject string | VFailClosed error

definition zero_stats :: HandlerStats where
  "zero_stats = \<lparr>hs_calls = 0, hs_errors = 0, hs_panics = 0, hs_timeouts = 0, hs_blocked = 0,
     hs_durationCount = 0, hs_durationSumMS = 0, hs_durationMaxMS = 0\<rparr>"

definition connection_verdict :: "ConnectionFilterRequest \<Rightarrow> middlewareHandler \<Rightarrow> verdict" where
  "connection_verdict req h = (case mw_connectionHandle h of
      None \<Rightarrow> VPass
    | Some handle \<Rightarrow> (case snd (acceptsConnection (h\<lparr>mw_stats := zero_stats\<rparr>) req) of
        Inl err \<Rightarrow> if mw_failPolicy h = FailPolicyClose then VFailClosed err else VPass
      | Inr False \<Rightarrow> VPass
      | Inr True \<Rightarrow> (case snd (invokeConnection handle (h\<lparr>mw_stats := zero_stats\<rparr>) req) of
          Inl err \<Rightarrow> if mw_failPolicy h = FailPolicyClose then VFailClosed err else VPass
        | Inr d \<Rightarrow> if fd_Reject d \<or> \<not> fd_Allow d then VReject (fd_Reason d) else VPass)))"

lemma acceptsConnection_snd:
  "snd (acceptsConnection (h\<lparr>mw_stats := s\<rparr>) req) = snd (acceptsConnection h req)"
  by (simp add: acceptsConnection_def case_prod_beta) (rule call_accept_snd)

lemma invokeConnection_snd:
  "snd (invokeConnection f (h\<lparr>mw_stats := s\<rparr>) req) = snd (invokeConnection f h req)"
  by (simp add: invokeConnection_def case_prod_beta) (rule call_handle_snd)

lemma acceptsConnection_same: "fst (acceptsConnection h req) = h\<lparr>mw_stats := mw_stats (fst (acceptsConnection h req))\<rparr>"
  by (simp add: acceptsConnection_def split: prod.splits)

lemma FilterConnection_loop_Cons:
  "fst (FilterConnection_loop req (h # hs)) = (case connection_verdict req h of
      VPass \<Rightarrow> fst (FilterConnection_loop req hs)
    | VReject r \<Rightarrow> (\<lparr>cr_Allowed = False, cr_PluginID = mw_pluginID h, cr_Reason = r\<rparr>, None)
    | VFailClosed e \<Rightarrow> (\<lparr>cr_Allowed = False, cr_PluginID = mw_pluginID h, cr_Reason = Error e\<rparr>, Some e))"
proof (cases "mw_connectionHandle h")
  case None
  then show ?thesis by (simp add: connection_verdict_def Let_def split: prod.splits)
next
  case (Some handle)
  obtain h1 a where a: "acceptsConnection h req = (h1, a)" by fastforce
  have h1: "h1 = h\<lparr>mw_stats := mw_stats h1\<rparr>" using acceptsConnection_same [of h req] a by simp
  obtain h2 d where d: "invokeConnection handle h1 req = (h2, d)" by fastforce
  have av: "snd (acceptsConnection (h\<lparr>mw_stats := zero_stats\<rparr>) req) = a"
    using acceptsConnection_snd [where h = h and s = zero_stats and req = req] a by simp
  have dv: "snd (invokeConnection handle (h\<lparr>mw_stats := zero_stats\<rparr>) req) = d"
    using invokeConnection_snd [where f = handle and h = h and s = zero_stats and req = req]
      invokeConnection_snd [where f = handle and h = h and s = "mw_stats h1" and req = req]
      h1 d by simp
  show ?thesis
    using Some a d av dv
    by (auto simp: connection_verdict_def Let_def split: prod.splits sum.splits bool.splits)
qed

lemma FilterConnection_find:
  "fst (FilterConnection_loop req hs) = (case find (\<lambda>h. connection_verdict req h \<noteq> VPass) hs of
      None \<Rightarrow> (\<lparr>cr_Allowed = True, cr_PluginID = [], cr_Reason = []\<rparr>, None)
    | Some h \<Rightarrow> (case connection_verdict req h of
        VFailClosed e \<Rightarrow> (\<lparr>cr_Allowed = False, cr_PluginID = mw_pluginID h, cr_Reason = Error e\<rparr>, Some e)
      | VReject r \<Rightarrow> (\<lparr>cr_Allowed = False, cr_PluginID = mw_pluginID h, cr_Reason = r\<rparr>, None)
      | VPass \<Rightarrow> (\<lparr>cr_Allowed = True, cr_PluginID = [], cr_Reason = []\<rparr>, None)))"
proof (induction hs)
  case Nil
  then show ?case by simp
next
  case (Cons h hs)
  then show ?case
    unfolding FilterConnection_loop_Cons by (cases "connection_verdict req h") simp_all
qed

text \<open>The handshake chain: a handler may also rewrite the host later handlers and the router see.\<close>

datatype hs_verdict = HPass | HRewrite string | HReject string | HFailClosed error

definition handshake_verdict :: "HandshakeFilterRequest \<Rightarrow> middlewareHandler \<Rightarrow> hs_verdict" where
  "handshake_verdict req h = (case mw_handshakeHandle h of
      None \<Rightarrow> HPass
    | Some handle \<Rightarrow> (case snd (acceptsHandshake (h\<lparr>mw_stats := zero_stats\<rparr>) req) of
        Inl err \<Rightarrow> if mw_failPolicy h = FailPolicyClose then HFailClosed err else HPass
      | Inr False \<Rightarrow> HPass
      | Inr True \<Rightarrow> (case snd (invokeHandshake handle (h\<lparr>mw_stats := zero_stats\<rparr>) req) of
          Inl err \<Rightarrow> if mw_failPolicy h = FailPolicyClose then HFailClosed err else HPass
        | Inr d \<Rightarrow> if fd_Reject d \<or> \<not> fd_Allow d then HReject (fd_Reason d)
                   else if hd_RewriteHost d \<noteq> [] then HRewrite (hd_RewriteHost d) else HPass)))"

lemma acceptsHandshake_snd: "snd (acceptsHandshake (h\<lparr>mw_stats := s\<rparr>) req) = snd (acceptsHandshake h req)"
  by (simp add: acceptsHandshake_def case_prod_beta) (rule call_accept_snd)

lemma invokeHandshake_snd: "snd (invokeHandshake f (h\<lparr>mw_stats := s\<rparr>) req) = snd (invokeHandshake f h req)"
  by (simp add: invokeHandshake_def case_prod_beta) (rule call_handle_snd)

lemma acceptsHandshake_same: "fst (acceptsHandshake h req) = h\<lparr>mw_stats := mw_stats (fst (acceptsHandshake h req))\<rparr>"
  by (simp add: acceptsHandshake_def split: prod.splits)

lemma FilterHandshake_loop_Cons:
  "fst (FilterHandshake_loop result req (h # hs)) = (case handshake_verdict req h of
      HPass \<Rightarrow> fst (FilterHandshake_loop result req hs)
    | HRewrite host \<Rightarrow> fst (FilterHandshake_loop
        (result\<lparr>hr_RewriteHost := host, cr_PluginID := mw_pluginID h\<rparr>) (req\<lparr>hf_ServerHost := host\<rparr>) hs)
    | HReject r \<Rightarrow> (\<lparr>cr_Allowed = False, cr_PluginID = mw_pluginID h, cr_Reason = r, hr_RewriteHost = []\<rparr>, None)
    | HFailClosed e \<Rightarrow>
        (\<lparr>cr_Allowed = False, cr_PluginID = mw_pluginID h, cr_Reason = Error e, hr_RewriteHost = []\<rparr>, Some e))"
proof (cases "mw_handshakeHandle h")
  case None
  then show ?thesis by (simp add: handshake_verdict_def Let_def split: prod.splits)
next
  case (Some handle)
  obtain h1 a where a: "acceptsHandshake h req = (h1, a)" by fastforce
  have h1: "h1 = h\<lparr>mw_stats := mw_stats h1\<rparr>" using acceptsHandshake_same [of h req] a by simp
  obtain h2 d where d: "invokeHandshake handle h1 req = (h2, d)" by fastforce
  have av: "snd (acceptsHandshake (h\<lparr>mw_stats := zero_stats\<rparr>) req) = a"
    using acceptsHandshake_snd [where h = h and s = zero_stats and req = req] a by simp
  have dv: "snd (invokeHandshake handle (h\<lparr>mw_stats := zero_stats\<rparr>) req) = d"
    using invokeHandshake_snd [where f = handle and h = h and s = zero_stats and req = req]
      invokeHandshake_snd [where f = handle and h = h and s = "mw_stats h1" and req = req] h1 d by simp
  show ?thesis
    using Some a d av dv
    by (auto simp: handshake_verdict_def Let_def split: prod.splits sum.splits bool.splits)
qed

text \<open>The resolver chain.\<close>

datatype route_verdict = RPass | RAcceptPanic error | RFailed | RDecide RouteDecision

definition route_verdict_of :: "RouteResolveRequest \<Rightarrow> routeHandler \<Rightarrow> route_verdict" where
  "route_verdict_of req h = (case snd (route_accepts (h\<lparr>h_stats := zero_stats\<rparr>) req) of
      Inl err \<Rightarrow> RAcceptPanic err
    | Inr False \<Rightarrow> RPass
    | Inr True \<Rightarrow> (case snd (route_invoke (h\<lparr>h_stats := zero_stats\<rparr>) req) of
        Inl err \<Rightarrow> if err = ErrPass then RPass else RFailed
      | Inr d \<Rightarrow> (let d = normalizeRouteDecision d (h_pluginID h) in
          if rd_Action d = RouteDecisionPass \<or> rd_Action d = [] then RPass else RDecide d)))"

lemma handler_accepts_snd: "snd (handler_accepts n (h\<lparr>h_stats := s\<rparr>) req) = snd (handler_accepts n h req)"
  by (simp add: handler_accepts_def case_prod_beta) (rule call_accept_snd)

lemma handler_invoke_snd: "snd (handler_invoke n (h\<lparr>h_stats := s\<rparr>) req) = snd (handler_invoke n h req)"
  by (simp add: handler_invoke_def case_prod_beta) (rule call_handle_snd)

lemma handler_accepts_same:
  "fst (handler_accepts n h req) = h\<lparr>h_stats := h_stats (fst (handler_accepts n h req))\<rparr>"
  by (simp add: handler_accepts_def split: prod.splits)

lemma ResolveRoute_loop_Cons:
  "fst (ResolveRoute_loop req (h # hs)) = (case route_verdict_of req h of
      RPass \<Rightarrow> fst (ResolveRoute_loop req hs)
    | RAcceptPanic e \<Rightarrow> ResolveError e
    | RFailed \<Rightarrow> ResolveFailed
    | RDecide d \<Rightarrow> ResolveDecision d)"
proof -
  obtain h1 a where a: "route_accepts h req = (h1, a)" by fastforce
  have h1: "h1 = h\<lparr>h_stats := h_stats h1\<rparr>"
    using handler_accepts_same [of "''route acceptor''" h req] a by (simp add: route_accepts_def)
  obtain h2 d where d: "route_invoke h1 req = (h2, d)" by fastforce
  have av: "snd (route_accepts (h\<lparr>h_stats := zero_stats\<rparr>) req) = a"
    using handler_accepts_snd [where h = h and s = zero_stats and req = req] a by (simp add: route_accepts_def)
  have dv: "snd (route_invoke (h\<lparr>h_stats := zero_stats\<rparr>) req) = d"
    using handler_invoke_snd [where h = h and s = zero_stats and req = req]
      handler_invoke_snd [where n = "''route resolver''" and h = h and s = "h_stats h1" and req = req] h1 d
    by (simp add: route_invoke_def)
  show ?thesis
    using a d av dv
    by (auto simp: route_verdict_of_def Let_def split: prod.splits sum.splits bool.splits)
qed

lemma ResolveRoute_find:
  "fst (ResolveRoute_loop req hs) = (case find (\<lambda>h. route_verdict_of req h \<noteq> RPass) hs of
      None \<Rightarrow> ResolveNone
    | Some h \<Rightarrow> (case route_verdict_of req h of
        RAcceptPanic e \<Rightarrow> ResolveError e | RDecide d \<Rightarrow> ResolveDecision d | RFailed \<Rightarrow> ResolveFailed
      | RPass \<Rightarrow> ResolveNone))"
proof (induction hs)
  case Nil
  then show ?case by simp
next
  case (Cons h hs)
  then show ?case
    unfolding ResolveRoute_loop_Cons by (cases "route_verdict_of req h") simp_all
qed

section \<open>Properties\<close>

text \<open>
  a connection is let through exactly when every connection filter passes it; the first filter
  in the published order that rejects, or fails while declared fail-closed, decides and is
  named; a filter that panics, errs or times out while fail-open changes nothing.
\<close>

theorem FilterConnection_decides:
  "fst (FilterConnection m req) = (case find (\<lambda>h. connection_verdict req h \<noteq> VPass) (es_middleware m) of
      None \<Rightarrow> (\<lparr>cr_Allowed = True, cr_PluginID = [], cr_Reason = []\<rparr>, None)
    | Some h \<Rightarrow> (\<lparr>cr_Allowed = False, cr_PluginID = mw_pluginID h,
        cr_Reason = (case connection_verdict req h of VReject r \<Rightarrow> r | VFailClosed e \<Rightarrow> Error e | VPass \<Rightarrow> [])\<rparr>,
        (case connection_verdict req h of VFailClosed e \<Rightarrow> Some e | _ \<Rightarrow> None)))"
proof (cases "find (\<lambda>h. connection_verdict req h \<noteq> VPass) (es_middleware m)")
  case None
  then show ?thesis
    using FilterConnection_find [of req "es_middleware m"] by (simp add: FilterConnection_def case_prod_beta)
next
  case (Some h)
  then have "connection_verdict req h \<noteq> VPass" by (auto simp: find_Some_iff)
  with Some show ?thesis
    using FilterConnection_find [of req "es_middleware m"]
    by (cases "connection_verdict req h") (simp_all add: FilterConnection_def case_prod_beta)
qed

text \<open>
  a handshake filter that accepts every request but always fails blocks every handshake that reaches it when it
  is fail-closed, wherever it stands in the chain, and is invisible when it is not.
\<close>

theorem FilterHandshake_fail_policy:
  assumes "mw_handshakeHandle h = Some handle" and "mw_handshakeAccept h = None"
    and "\<forall>req. \<exists>ms e. handle req = (CallFails e, ms) \<or> handle req = (CallContextDone e, ms)"
  shows "(mw_failPolicy h = FailPolicyClose \<longrightarrow>
      \<not> cr_Allowed (fst (fst (FilterHandshake (m\<lparr>es_middleware := before @ h # after\<rparr>) req))))
    \<and> (mw_failPolicy h \<noteq> FailPolicyClose \<longrightarrow>
      fst (FilterHandshake (m\<lparr>es_middleware := before @ h # after\<rparr>) req) =
      fst (FilterHandshake (m\<lparr>es_middleware := before @ after\<rparr>) req))"
proof -
  have v: "\<exists>e. handshake_verdict req h = (if mw_failPolicy h = FailPolicyClose then HFailClosed e else HPass)" for req
    using assms(3) [rule_format, of req] assms(1,2)
    by (auto simp: handshake_verdict_def acceptsHandshake_def call_accept_def invokeHandshake_def call_handle_def
        invokeWithTimeout_def split: prod.splits)
  have "mw_failPolicy h = FailPolicyClose \<longrightarrow>
      \<not> cr_Allowed (fst (fst (FilterHandshake_loop result req (before @ h # after))))" for result req
  proof (induction before arbitrary: result req)
    case Nil
    then show ?case
      unfolding append_Nil FilterHandshake_loop_Cons using v [of req] by (auto split: if_splits)
  next
    case (Cons b bs)
    then show ?case
      unfolding append_Cons FilterHandshake_loop_Cons by (auto split: hs_verdict.split)
  qed
  moreover have "mw_failPolicy h \<noteq> FailPolicyClose \<longrightarrow>
      fst (FilterHandshake_loop result req (before @ h # after)) =
      fst (FilterHandshake_loop result req (before @ after))" for result req
  proof (induction before arbitrary: result req)
    case Nil
    then show ?case
      unfolding append_Nil FilterHandshake_loop_Cons using v [of req] by (auto split: if_splits)
  next
    case (Cons b bs)
    then show ?case
      unfolding append_Cons FilterHandshake_loop_Cons by (auto split: hs_verdict.split)
  qed
  ultimately show ?thesis by (simp add: FilterHandshake_def case_prod_beta)
qed

theorem FilterHandshake_fail_policy_witness:
  "\<not> cr_Allowed (fst (fst (FilterHandshake
      \<lparr>es_routes = [], es_rules = [], es_statuses = [], es_middleware = [] @ \<lparr>mw_pluginID = ''p'',
        mw_artifactID = [], mw_priority = 0, mw_handlerID = [], mw_extensionPoint = [], mw_timeout = 3,
        mw_failPolicy = ''fail_closed'', mw_connectionAccept = None, mw_connectionHandle = None,
        mw_handshakeAccept = None, mw_handshakeHandle = Some (\<lambda>_. (CallContextDone (ErrorString ''deadline''), 3)),
        mw_stats = zero_stats\<rparr> # [], es_routeCache = []\<rparr>
      \<lparr>hf_SourceAddr = ''1.2.3.4:5'', hf_ServerHost = ''h'', hf_RawServerHost = ''h'', hf_ProtocolVersion = 765,
        hf_NextState = 2, hf_Metadata = Map.empty\<rparr>)))"
  using FilterHandshake_fail_policy [of "\<lparr>mw_pluginID = ''p'',
        mw_artifactID = [], mw_priority = 0, mw_handlerID = [], mw_extensionPoint = [], mw_timeout = 3,
        mw_failPolicy = ''fail_closed'', mw_connectionAccept = None, mw_connectionHandle = None,
        mw_handshakeAccept = None, mw_handshakeHandle = Some (\<lambda>_. (CallContextDone (ErrorString ''deadline''), 3)),
        mw_stats = zero_stats\<rparr>" "\<lambda>_. (CallContextDone (ErrorString ''deadline''), 3)"
      "[]" "[]" "\<lparr>es_routes = [], es_rules = [], es_statuses = [], es_middleware = [], es_routeCache = []\<rparr>"
      "\<lparr>hf_SourceAddr = ''1.2.3.4:5'', hf_ServerHost = ''h'', hf_RawServerHost = ''h'', hf_ProtocolVersion = 765,
        hf_NextState = 2, hf_Metadata = Map.empty\<rparr>"]
  by (simp add: FailPolicyClose_def)

text \<open>
  a decision a route provider makes for a host is what a later lookup of that host gets when
  the providers fail or pass, as long as its lifetime has not run out; from then on the route
  table answers.  A decision without a lifetime lives one minute, one with a negative lifetime
  for ever.
\<close>

theorem route_cache_lifetime:
  assumes "ResolveRoute_loop req (es_routes m) = (ResolveDecision d, hs)" and "rq_Host req \<noteq> []"
    and "rd_Action d \<noteq> RouteDecisionPass" and "rq_FallbackUpstream req \<noteq> []"
    and "ResolveRoute now f m req = (r, m1)"
    and "fst (ResolveRoute_loop req' (es_routes m1)) \<in> {ResolveFailed, ResolveNone}"
    and "rq_Host req' = rq_Host req" and "\<not> rq_Refresh req'" and "rq_FallbackUpstream req' \<noteq> []"
  shows "\<exists>result. fst (ResolveRoute later g m1 req') = Inr result \<and>
    (if 0 < unix (now + rd_CacheTTL d) \<and> 0 < rd_CacheTTL d \<and> unix (now + rd_CacheTTL d) \<le> unix later
     then rv_Source result = ''sqlite_fallback'' \<and> rd_Upstream (rv_Decision result) = rq_FallbackUpstream req'
     else rv_Source result = ''cache'' \<and> rd_Upstream (rv_Decision result) = rd_Upstream d
       \<and> rd_Action (rv_Decision result) = rd_Action d)"
proof -
  have f: "(case f of None \<Rightarrow> req | Some f' \<Rightarrow> if rq_FallbackUpstream req = []
      then req\<lparr>rq_FallbackUpstream := fst (f' req), rq_FallbackHit := snd (f' req)\<rparr> else req) = req"
    using assms(4) by (simp split: option.split)
  have g: "(case g of None \<Rightarrow> req' | Some f' \<Rightarrow> if rq_FallbackUpstream req' = []
      then req'\<lparr>rq_FallbackUpstream := fst (f' req'), rq_FallbackHit := snd (f' req')\<rparr> else req') = req'"
    using assms(9) by (simp split: option.split)
  have cache: "map_of (es_routeCache m1) (rq_Host req') =
      Some \<lparr>rc_summary = routeDecisionSummary now (rq_Host req) d ''provider'', rc_decision = d\<rparr>"
    using assms(1-3,5,7) unfolding ResolveRoute_def f
    by (auto simp: cacheRoute_def Let_def update_conv')
  show ?thesis
  proof (cases "ResolveRoute_loop req' (es_routes m1)")
    case (Pair outcome hs')
    with assms(6) have "outcome = ResolveFailed \<or> outcome = ResolveNone" by simp
    then show ?thesis
      using Pair cache assms(7-9) unfolding ResolveRoute_def g
      by (auto simp: cachedRoute_def cached_result_def cachedDecision_def fallback_result_def expired_def
          routeDecisionSummary_def Let_def)
  qed
qed

theorem route_cache_lifetime_witness:
  "\<exists>result. fst (ResolveRoute 30000000000 None (snd (ResolveRoute 0 None
      \<lparr>es_routes = [\<lparr>h_pluginID = ''p'', h_artifactID = [], h_priority = 0, h_handlerID = [], h_extensionPoint = [],
        h_timeout = 3, h_accept = None, h_handle = (\<lambda>q. if rq_NextState q = 2
          then (CallReturns \<lparr>rd_Action = [], rd_Upstream = ''u:1'', rd_Host = [], rd_Reason = [],
                rd_ProviderID = [], rd_CacheTTL = 0, rd_Metadata = Map.empty, rd_Explanation = []\<rparr>, 1)
          else (CallFails (ErrorString ''down''), 1)), h_stats = zero_stats\<rparr>],
      es_rules = [], es_statuses = [], es_middleware = [], es_routeCache = []\<rparr>
      \<lparr>rq_Host = ''h'', rq_RawServerHost = ''h'', rq_SourceAddr = [], rq_ProtocolVersion = 765, rq_NextState = 2,
      rq_FallbackUpstream = ''f:1'', rq_FallbackHit = True, rq_Refresh = False, rq_Metadata = Map.empty,
      rq_Handshake = \<lparr>uh_ServerHost = ''h'', uh_RawServerHost = ''h'', uh_ProtocolVersion = 765, uh_NextState = 2\<rparr>\<rparr>))
      \<lparr>rq_Host = ''h'', rq_RawServerHost = ''h'', rq_SourceAddr = [], rq_ProtocolVersion = 765, rq_NextState = 1,
      rq_FallbackUpstream = ''f:1'', rq_FallbackHit = True, rq_Refresh = False, rq_Metadata = Map.empty,
      rq_Handshake = \<lparr>uh_ServerHost = ''h'', uh_RawServerHost = ''h'', uh_ProtocolVersion = 765, uh_NextState = 1\<rparr>\<rparr>) = Inr result
    \<and> rv_Source result = ''cache'' \<and> rd_Upstream (rv_Decision result) = ''u:1''"
proof -
  let ?m = "\<lparr>es_routes = [\<lparr>h_pluginID = ''p'', h_artifactID = [], h_priority = 0, h_handlerID = [], h_extensionPoint = [],
        h_timeout = 3, h_accept = None, h_handle = (\<lambda>q. if rq_NextState q = 2
          then (CallReturns \<lparr>rd_Action = [], rd_Upstream = ''u:1'', rd_Host = [], rd_Reason = [],
                rd_ProviderID = [], rd_CacheTTL = 0, rd_Metadata = Map.empty, rd_Explanation = []\<rparr>, 1)
          else (CallFails (ErrorString ''down''), 1)), h_stats = zero_stats\<rparr>],
      es_rules = [], es_statuses = [], es_middleware = [], es_routeCache = []\<rparr>"
  let ?r = "\<lparr>rq_Host = ''h'', rq_RawServerHost = ''h'', rq_SourceAddr = [], rq_ProtocolVersion = 765, rq_NextState = 2,
      rq_FallbackUpstream = ''f:1'', rq_FallbackHit = True, rq_Refresh = False, rq_Metadata = Map.empty,
      rq_Handshake = \<lparr>uh_ServerHost = ''h'', uh_RawServerHost = ''h'', uh_ProtocolVersion = 765, uh_NextState = 2\<rparr>\<rparr>"
  let ?r' = "\<lparr>rq_Host = ''h'', rq_RawServerHost = ''h'', rq_SourceAddr = [], rq_ProtocolVersion = 765, rq_NextState = 1,
      rq_FallbackUpstream = ''f:1'', rq_FallbackHit = True, rq_Refresh = False, rq_Metadata = Map.empty,
      rq_Handshake = \<lparr>uh_ServerHost = ''h'', uh_RawServerHost = ''h'', uh_ProtocolVersion = 765, uh_NextState = 1\<rparr>\<rparr>"
  obtain d hs where d: "ResolveRoute_loop ?r (es_routes ?m) = (ResolveDecision d, hs)"
    and u: "rd_Upstream d = ''u:1''" "rd_Action d = RouteDecisionOverride" "rd_CacheTTL d = 60000000000"
    by (simp add: route_accepts_def handler_accepts_def call_accept_def route_invoke_def handler_invoke_def
        call_handle_def invokeWithTimeout_def normalizeRouteDecision_def api_consts Let_def)
  obtain r m1 where r: "ResolveRoute 0 None ?m ?r = (r, m1)" by fastforce
  have "m1 = snd (ResolveRoute 0 None ?m ?r)" using r by simp
  then have "fst (ResolveRoute_loop ?r' (es_routes m1)) = ResolveFailed"
    by (simp add: ResolveRoute_def cacheRoute_def
        route_accepts_def handler_accepts_def call_accept_def route_invoke_def handler_invoke_def
        call_handle_def invokeWithTimeout_def normalizeRouteDecision_def api_consts Let_def)
  then have "\<exists>result. fst (ResolveRoute 30000000000 None m1 ?r') = Inr result \<and>
    (if 0 < unix (0 + rd_CacheTTL d) \<and> 0 < rd_CacheTTL d \<and> unix (0 + rd_CacheTTL d) \<le> unix 30000000000
     then rv_Source result = ''sqlite_fallback'' \<and> rd_Upstream (rv_Decision result) = rq_FallbackUpstream ?r'
     else rv_Source result = ''cache'' \<and> rd_Upstream (rv_Decision result) = rd_Upstream d
       \<and> rd_Action (rv_Decision result) = rd_Action d)"
    by (intro route_cache_lifetime [OF d _ _ _ r]) (simp_all add: u api_consts)
  then show ?thesis using r by (auto simp: u unix_def)
qed

end
