(* ===== verification/Takeover.thy ===== *)
theory Takeover
  imports Extensions
begin

text \<open>
  \<open>src/internal/pluginmanager/manager.go\<close>, \<open>HandleConnection\<close> and the one-shot continuation it hands
  to every plugin: a connection passes through the chain of takeover handlers, each of which
  handles it to the end, continues with the next handler, or jumps to the core pipeline.
\<close>

section \<open>Types\<close>

record ConnectionState =
  cs_Stream :: "nat option" \<comment> \<open>which stream; \<^const>\<open>None\<close> is nil\<close>
  cs_EffectiveSourceAddr :: string
  cs_Metadata :: string_map

record UpstreamConnectRequestV2 =
  uc_ConnectionID :: string
  uc_TraceID :: string
  uc_PeerAddr :: string
  uc_LocalAddr :: string
  uc_Connection :: ConnectionState
  uc_Ingress :: IngressContext

text \<open>
  What a plugin's takeover handler does with the connection: a tree of its calls of the
  continuation, each followed by what it does with the result, ending in a return or a panic.
\<close>

datatype takeover =
    TReturn "error option"
  | TPanic string
  | TNext ConnectionState "error option \<Rightarrow> takeover"
  | TCore ConnectionState "error option \<Rightarrow> takeover"

text \<open>How a call ended: it returned an error or nil, or panicked.\<close>

datatype outcome = Ret "error option" | Pan string

record upstreamHandler =
  up_pluginID :: string
  up_artifactID :: string
  up_priority :: int
  up_handlerID :: string
  up_draining :: bool
  up_handle :: "UpstreamConnectRequestV2 \<Rightarrow> takeover \<times> nat"

record UpStats =
  us_calls :: uint64
  us_errors :: uint64
  us_panics :: uint64
  us_sessionErrors :: uint64
  us_durationCount :: uint64
  us_durationSumMS :: uint64
  us_durationMaxMS :: uint64
  us_lastSessionError :: string

section \<open>The continuation\<close>

datatype connectionFlowState =
    connectionFlowAvailable
  | connectionFlowRunning
  | connectionFlowRunningAfterHandlerReturn
  | connectionFlowUsed
  | connectionFlowExpired

definition claim :: "connectionFlowState \<Rightarrow> error option \<times> connectionFlowState" where
  "claim f = (case f of
      connectionFlowRunning \<Rightarrow> (Some ErrContinuationUsed, f)
    | connectionFlowRunningAfterHandlerReturn \<Rightarrow> (Some ErrContinuationUsed, f)
    | connectionFlowUsed \<Rightarrow> (Some ErrContinuationUsed, f)
    | connectionFlowExpired \<Rightarrow> (Some (ErrorString ''upstream continuation is no longer available''), f)
    | connectionFlowAvailable \<Rightarrow> (None, connectionFlowRunning))"

text \<open>\<open>complete\<close>: the new state, and whether it closes the channel \<open>done\<close>.\<close>

definition complete :: "connectionFlowState \<Rightarrow> bool \<times> connectionFlowState" where
  "complete f = (if f = connectionFlowRunning \<or> f = connectionFlowRunningAfterHandlerReturn
     then (True, connectionFlowUsed) else (False, f))"

definition handlerReturned :: "connectionFlowState \<Rightarrow> bool \<times> connectionFlowState" where
  "handlerReturned f = (case f of
      connectionFlowAvailable \<Rightarrow> (False, connectionFlowExpired)
    | connectionFlowRunning \<Rightarrow> (True, connectionFlowRunningAfterHandlerReturn)
    | _ \<Rightarrow> (False, f))"

section \<open>Dispatch\<close>

datatype dispatch_event =
    EvTrack nat
  | EvReserve nat
  | EvParticipant nat
  | EvInvoke nat ConnectionState
  | EvCore ConnectionState
  | EvRelease nat
  | EvTrace nat string

record dispatch_state =
  ds_trace :: "dispatch_event list"
  ds_stats :: "nat \<Rightarrow> UpStats"

definition emit :: "dispatch_event \<Rightarrow> dispatch_state \<Rightarrow> dispatch_state" where
  "emit ev d = d\<lparr>ds_trace := ds_trace d @ [ev]\<rparr>"

definition err_nil_stream :: error where
  "err_nil_stream = ErrorString ''upstream connection stream is nil''"

text \<open>\<open>connectionFlow.Core\<close> after the claim.\<close>

definition flow_core ::
  "(ConnectionState \<Rightarrow> outcome) \<Rightarrow> ConnectionState \<Rightarrow> dispatch_state \<Rightarrow> outcome \<times> dispatch_state" where
  "flow_core core st d = (case cs_Stream st of
      None \<Rightarrow> (Ret (Some err_nil_stream), d)
    | Some s \<Rightarrow> (core st, emit (EvCore st) (emit (EvTrack s) d)))"

text \<open>
  A handler running with its continuation: \<open>run_next\<close> is \<open>dispatch.run\<close> from the next handler on.
  \<open>Next\<close> and \<open>Core\<close> claim the continuation first; a refused claim is an error the plugin sees.
  A panic below passes through the plugin (\<open>complete\<close> is deferred).
\<close>

primrec exec_handler ::
  "(ConnectionState \<Rightarrow> dispatch_state \<Rightarrow> outcome \<times> dispatch_state) \<Rightarrow> (ConnectionState \<Rightarrow> outcome) \<Rightarrow> takeover
    \<Rightarrow> connectionFlowState \<Rightarrow> dispatch_state \<Rightarrow> outcome \<times> connectionFlowState \<times> dispatch_state" where
  "exec_handler run_next core (TReturn e) flow d = (Ret e, flow, d)"
| "exec_handler run_next core (TPanic p) flow d = (Pan p, flow, d)"
| "exec_handler run_next core (TNext st k) flow d = (case claim flow of
      (Some err, flow) \<Rightarrow> exec_handler run_next core (k (Some err)) flow d
    | (None, flow) \<Rightarrow> (case run_next st d of
        (Ret e, d) \<Rightarrow> exec_handler run_next core (k e) (snd (complete flow)) d
      | (Pan p, d) \<Rightarrow> (Pan p, snd (complete flow), d)))"
| "exec_handler run_next core (TCore st k) flow d = (case claim flow of
      (Some err, flow) \<Rightarrow> exec_handler run_next core (k (Some err)) flow d
    | (None, flow) \<Rightarrow> (case flow_core core st d of
        (Ret e, d) \<Rightarrow> exec_handler run_next core (k e) (snd (complete flow)) d
      | (Pan p, d) \<Rightarrow> (Pan p, snd (complete flow), d)))"

text \<open>
  The wrapper \<open>upstreamHandler.invoke\<close>: a panic becomes an error; calls, errors, panics and
  durations are counted.
\<close>

definition finish_invoke :: "string \<Rightarrow> outcome \<Rightarrow> nat \<Rightarrow> UpStats \<Rightarrow> error option \<times> UpStats" where
  "finish_invoke pluginID oc ms s =
    (let s = s\<lparr>us_durationCount := us_durationCount s + 1, us_durationSumMS := us_durationSumMS s + of_nat ms,
           us_durationMaxMS := (if of_nat ms \<le> us_durationMaxMS s then us_durationMaxMS s else of_nat ms)\<rparr>
     in case oc of
        Ret None \<Rightarrow> (None, s)
      | Ret (Some e) \<Rightarrow> (Some e, s\<lparr>us_errors := us_errors s + 1\<rparr>)
      | Pan p \<Rightarrow> (Some (ErrorString (''plugin '' @ pluginID @ '' panic: '' @ p)),
                 s\<lparr>us_panics := us_panics s + 1, us_errors := us_errors s + 1\<rparr>))"

definition upd_stats :: "nat \<Rightarrow> (UpStats \<Rightarrow> UpStats) \<Rightarrow> dispatch_state \<Rightarrow> dispatch_state" where
  "upd_stats i f d = d\<lparr>ds_stats := (ds_stats d)(i := f (ds_stats d i))\<rparr>"

text \<open>
  \<open>connectionDispatch.run\<close> from a suffix of the handlers, each with its position.  \<open>draining\<close> is the
  manager's set of draining plugins; \<open>redact\<close> is \<open>redactSensitive(sanitizeLog(...))\<close>.
\<close>

fun dispatch_run ::
  "(string \<Rightarrow> string) \<Rightarrow> string set \<Rightarrow> (ConnectionState \<Rightarrow> outcome) \<Rightarrow> UpstreamConnectRequestV2
    \<Rightarrow> (nat \<times> upstreamHandler) list \<Rightarrow> ConnectionState \<Rightarrow> dispatch_state \<Rightarrow> outcome \<times> dispatch_state"
and dispatch_from ::
  "(string \<Rightarrow> string) \<Rightarrow> string set \<Rightarrow> (ConnectionState \<Rightarrow> outcome) \<Rightarrow> UpstreamConnectRequestV2
    \<Rightarrow> (nat \<times> upstreamHandler) list \<Rightarrow> ConnectionState \<Rightarrow> dispatch_state \<Rightarrow> outcome \<times> dispatch_state" where
  "dispatch_run redact draining core base hs st d = (case cs_Stream st of
      None \<Rightarrow> (Ret (Some err_nil_stream), d)
    | Some s \<Rightarrow> dispatch_from redact draining core base hs st (emit (EvTrack s) d))"
| "dispatch_from redact draining core base [] st d = (core st, emit (EvCore st) d)"
| "dispatch_from redact draining core base ((i, h) # hs) st d =
    (if up_pluginID h \<in> draining \<or> up_draining h then dispatch_from redact draining core base hs st d
     else (let d = emit (EvInvoke i st) (emit (EvParticipant i) (emit (EvReserve i) d));
               d = upd_stats i (\<lambda>s. s\<lparr>us_calls := us_calls s + 1\<rparr>) d in
       case up_handle h (base\<lparr>uc_Connection := st\<rparr>) of (prog, ms) \<Rightarrow>
       (case exec_handler (\<lambda>st' d'. dispatch_run redact draining core base hs st' d') core prog
               connectionFlowAvailable d of
          (oc, flow, d) \<Rightarrow> (case finish_invoke (up_pluginID h) oc ms (ds_stats d i) of
            (err, s) \<Rightarrow> (let d = emit (EvRelease i) (upd_stats i (\<lambda>_. s) d) in
              case err of
                None \<Rightarrow> (Ret None, emit (EvTrace i ''ok'') d)
              | Some e \<Rightarrow> (Ret (Some e), emit (EvTrace i ''error'')
                  (upd_stats i (\<lambda>s. s\<lparr>us_sessionErrors := us_sessionErrors s + 1,
                      us_lastSessionError := redact (Error e)\<rparr>) d)))))))"

declare dispatch_run.simps [simp del]

text \<open>\<open>HandleConnection\<close> on the published handlers.  \<^const>\<open>None\<close> for the core is nil.\<close>

definition HandleConnection ::
  "(string \<Rightarrow> string) \<Rightarrow> string set \<Rightarrow> upstreamHandler list \<Rightarrow> (ConnectionState \<Rightarrow> outcome) option
    \<Rightarrow> UpstreamConnectRequestV2 \<Rightarrow> (nat \<Rightarrow> UpStats) \<Rightarrow> outcome \<times> dispatch_state" where
  "HandleConnection redact draining handlers core req stats =
    (let d = \<lparr>ds_trace = [], ds_stats = stats\<rparr> in
     case core of
       None \<Rightarrow> (Ret (Some (ErrorString ''upstream core continuation is nil'')), d)
     | Some core \<Rightarrow> (if cs_Stream (uc_Connection req) = None then (Ret (Some err_nil_stream), d)
         else dispatch_run redact draining core req (List.enumerate 0 handlers) (uc_Connection req) d))"

section \<open>Lemmas\<close>

definition is_core :: "dispatch_event \<Rightarrow> bool" where
  "is_core ev = (case ev of EvCore _ \<Rightarrow> True | _ \<Rightarrow> False)"

lemma is_core_simps [simp]:
  "is_core (EvCore st)" "\<not> is_core (EvTrack s)" "\<not> is_core (EvReserve i)" "\<not> is_core (EvParticipant i)"
  "\<not> is_core (EvInvoke i st)" "\<not> is_core (EvRelease i)" "\<not> is_core (EvTrace i m)"
  by (simp_all add: is_core_def)

definition invoked :: "dispatch_event list \<Rightarrow> nat list" where
  "invoked tr = concat (map (\<lambda>ev. case ev of EvInvoke i _ \<Rightarrow> [i] | _ \<Rightarrow> []) tr)"

definition core_calls :: "dispatch_event list \<Rightarrow> nat" where
  "core_calls tr = length (filter is_core tr)"

lemma trace_simps [simp]:
  "ds_trace (emit ev d) = ds_trace d @ [ev]" "ds_trace (upd_stats i f d) = ds_trace d"
  "invoked [] = []" "invoked (tr @ tr') = invoked tr @ invoked tr'"
  "core_calls [] = 0" "core_calls (tr @ tr') = core_calls tr + core_calls tr'"
  by (simp_all add: emit_def upd_stats_def invoked_def core_calls_def)

lemma event_simps [simp]:
  "invoked (EvInvoke i st # tr) = i # invoked tr" "invoked (EvTrack s # tr) = invoked tr"
  "invoked (EvReserve i # tr) = invoked tr" "invoked (EvParticipant i # tr) = invoked tr"
  "invoked (EvCore st # tr) = invoked tr" "invoked (EvRelease i # tr) = invoked tr"
  "invoked (EvTrace i m # tr) = invoked tr"
  "core_calls (EvInvoke i st # tr) = core_calls tr" "core_calls (EvTrack s # tr) = core_calls tr"
  "core_calls (EvReserve i # tr) = core_calls tr" "core_calls (EvParticipant i # tr) = core_calls tr"
  "core_calls (EvCore st # tr) = Suc (core_calls tr)" "core_calls (EvRelease i # tr) = core_calls tr"
  "core_calls (EvTrace i m # tr) = core_calls tr"
  by (simp_all add: invoked_def core_calls_def is_core_def)

text \<open>What a run appends to the trace: the invoked positions form a sublist of the given ones.\<close>

definition run_ok :: "nat list \<Rightarrow> (outcome \<times> dispatch_state) \<Rightarrow> dispatch_state \<Rightarrow> bool" where
  "run_ok is r d = (\<exists>tr. ds_trace (snd r) = ds_trace d @ tr \<and> subseq (invoked tr) is \<and> core_calls tr \<le> 1)"

text \<open>Once the continuation is used or expired the handler can start nothing any more.\<close>

lemma exec_handler_closed:
  assumes "flow \<in> {connectionFlowUsed, connectionFlowExpired}"
  shows "\<exists>oc. exec_handler run_next core prog flow d = (oc, flow, d)"
  using assms by (induction prog arbitrary: flow d) (auto simp: claim_def)

lemma exec_handler_ok:
  assumes "\<And>st d. run_ok is (run_next st d) d"
  shows "\<exists>oc fl d' tr. exec_handler run_next core prog connectionFlowAvailable d = (oc, fl, d')
    \<and> ds_trace d' = ds_trace d @ tr \<and> subseq (invoked tr) is \<and> core_calls tr \<le> 1"
proof (cases prog)
  case (TNext st k)
  obtain r d1 where r: "run_next st d = (r, d1)" by fastforce
  with assms [of st d] obtain tr where tr: "ds_trace d1 = ds_trace d @ tr" "subseq (invoked tr) is" "core_calls tr \<le> 1"
    by (auto simp: run_ok_def)
  have u: "snd (complete connectionFlowRunning) = connectionFlowUsed" by (simp add: complete_def)
  show ?thesis
  proof (cases r)
    case (Ret e)
    obtain oc where "exec_handler run_next core (k e) connectionFlowUsed d1 = (oc, connectionFlowUsed, d1)"
      using exec_handler_closed by blast
    with TNext r Ret tr u show ?thesis by (auto simp: claim_def)
  next
    case (Pan p)
    with TNext r tr u show ?thesis by (auto simp: claim_def)
  qed
next
  case (TCore st k)
  obtain r d1 where r: "flow_core core st d = (r, d1)" by fastforce
  then obtain tr where tr: "ds_trace d1 = ds_trace d @ tr" "invoked tr = []" "core_calls tr \<le> 1"
    by (auto simp: flow_core_def split: option.splits)
  have u: "snd (complete connectionFlowRunning) = connectionFlowUsed" by (simp add: complete_def)
  show ?thesis
  proof (cases r)
    case (Ret e)
    obtain oc where "exec_handler run_next core (k e) connectionFlowUsed d1 = (oc, connectionFlowUsed, d1)"
      using exec_handler_closed by blast
    with TCore r Ret tr u show ?thesis by (auto simp: claim_def)
  next
    case (Pan p)
    with TCore r tr u show ?thesis by (auto simp: claim_def)
  qed
qed auto

lemma subseq_set: "subseq xs ys \<Longrightarrow> set xs \<subseteq> set ys"
  by (induction rule: list_emb.induct) auto

lemma sorted_wrt_subseq: "subseq xs ys \<Longrightarrow> sorted_wrt P ys \<Longrightarrow> sorted_wrt P xs"
  by (induction rule: list_emb.induct) (auto dest: subseq_set)

lemma dispatch_from_ok:
  "run_ok (map fst hs) (dispatch_from redact draining core base hs st d) d"
proof (induction hs arbitrary: st d)
  case Nil
  then show ?case by (simp add: run_ok_def)
next
  case (Cons ih hs)
  obtain i h where ih: "ih = (i, h)" by fastforce
  let ?next = "\<lambda>st' d'. dispatch_run redact draining core base hs st' d'"
  have next_ok: "run_ok (map fst hs) (?next st' d') d'" for st' d'
  proof (cases "cs_Stream st'")
    case None
    then show ?thesis by (simp add: run_ok_def dispatch_run.simps)
  next
    case (Some s)
    with Cons.IH [of st' "emit (EvTrack s) d'"] show ?thesis
      by (auto simp: run_ok_def dispatch_run.simps)
  qed
  show ?case
  proof (cases "up_pluginID h \<in> draining \<or> up_draining h")
    case True
    with Cons.IH [of st d] show ?thesis
      unfolding run_ok_def ih by (auto intro: subseq_Cons')
  next
    case False
    define d0 where "d0 = upd_stats i (\<lambda>s. s\<lparr>us_calls := us_calls s + 1\<rparr>)
      (emit (EvInvoke i st) (emit (EvParticipant i) (emit (EvReserve i) d)))"
    obtain prog ms where p: "up_handle h (base\<lparr>uc_Connection := st\<rparr>) = (prog, ms)" by fastforce
    obtain oc fl d1 tr where e: "exec_handler ?next core prog connectionFlowAvailable d0 = (oc, fl, d1)"
      and tr: "ds_trace d1 = ds_trace d0 @ tr" "subseq (invoked tr) (map fst hs)" "core_calls tr \<le> 1"
      using exec_handler_ok [of "map fst hs" ?next core prog d0, OF next_ok] by blast
    have d0: "ds_trace d0 = ds_trace d @ [EvReserve i, EvParticipant i, EvInvoke i st]" by (simp add: d0_def)
    have "\<exists>m. ds_trace (snd (dispatch_from redact draining core base (ih # hs) st d)) =
        ds_trace d1 @ [EvRelease i, EvTrace i m]"
      using False p e
      by (auto simp: ih d0_def [symmetric] Let_def split: prod.splits option.splits)
    then show ?thesis using tr d0 unfolding run_ok_def ih by auto
  qed
qed

section \<open>Properties\<close>

text \<open>
  C6: for every chain of plugins, whatever they do with their continuation (call it several times,
  call both of its methods, ignore it, or panic), the core pipeline is entered at most once per
  connection, and the handlers run are distinct handlers of the published chain in its order.
\<close>

theorem HandleConnection_once:
  "core_calls (ds_trace (snd (HandleConnection redact draining handlers core req stats))) \<le> 1
   \<and> sorted_wrt (<) (invoked (ds_trace (snd (HandleConnection redact draining handlers core req stats))))
   \<and> set (invoked (ds_trace (snd (HandleConnection redact draining handlers core req stats)))) \<subseteq> {..<length handlers}"
proof -
  let ?hs = "List.enumerate 0 handlers"
  have "run_ok (map fst ?hs) (HandleConnection redact draining handlers core req stats)
      \<lparr>ds_trace = [], ds_stats = stats\<rparr>"
  proof (cases "core = None \<or> cs_Stream (uc_Connection req) = None")
    case True
    then show ?thesis by (auto simp: HandleConnection_def run_ok_def Let_def split: option.splits)
  next
    case False
    then obtain c s where c: "core = Some c" "cs_Stream (uc_Connection req) = Some s" by auto
    then show ?thesis
      using dispatch_from_ok [of ?hs redact draining c req "uc_Connection req"
          "emit (EvTrack s) \<lparr>ds_trace = [], ds_stats = stats\<rparr>"]
      by (auto simp: HandleConnection_def run_ok_def dispatch_run.simps)
  qed
  then obtain tr where tr: "ds_trace (snd (HandleConnection redact draining handlers core req stats)) = tr"
    "subseq (invoked tr) [0..<length handlers]" "core_calls tr \<le> 1"
    by (auto simp: run_ok_def enumerate_eq_zip)
  then show ?thesis
    using subseq_set [OF tr(2)] sorted_wrt_subseq [OF tr(2) sorted_wrt_upt] by auto
qed

lemma dispatch_from_transparent:
  assumes "\<forall>h \<in> snd ` set hs. \<forall>req. \<exists>ms. up_handle h req = (TNext (g h (uc_Connection req)) TReturn, ms)"
    and "\<forall>h st. cs_Stream st \<noteq> None \<longrightarrow> cs_Stream (g h st) \<noteq> None" and "cs_Stream st \<noteq> None"
    and "\<forall>st. \<exists>e. core st = Ret e"
  shows "\<exists>tr. fst (dispatch_from redact draining core base hs st d) =
      core (fold g (filter (\<lambda>h. up_pluginID h \<notin> draining \<and> \<not> up_draining h) (map snd hs)) st)
    \<and> ds_trace (snd (dispatch_from redact draining core base hs st d)) = ds_trace d @ tr
    \<and> filter is_core tr =
        [EvCore (fold g (filter (\<lambda>h. up_pluginID h \<notin> draining \<and> \<not> up_draining h) (map snd hs)) st)]"
  using assms
proof (induction hs arbitrary: st d)
  case Nil
  then show ?case by (simp add: is_core_def)
next
  case (Cons ih hs)
  obtain i h where ih: "ih = (i, h)" by fastforce
  show ?case
  proof (cases "up_pluginID h \<in> draining \<or> up_draining h")
    case True
    with Cons.IH [of st d] Cons.prems show ?thesis by (auto simp: ih)
  next
    case False
    let ?fold = "fold g (filter (\<lambda>h. up_pluginID h \<notin> draining \<and> \<not> up_draining h) (map snd hs)) (g h st)"
    define d0 where "d0 = upd_stats i (\<lambda>s. s\<lparr>us_calls := us_calls s + 1\<rparr>)
      (emit (EvInvoke i st) (emit (EvParticipant i) (emit (EvReserve i) d)))"
    have "h \<in> snd ` set (ih # hs)" by (simp add: ih)
    from Cons.prems(1) [rule_format, OF this, of "base\<lparr>uc_Connection := st\<rparr>"]
    obtain ms where p: "up_handle h (base\<lparr>uc_Connection := st\<rparr>) = (TNext (g h st) TReturn, ms)" by auto
    obtain s where s: "cs_Stream (g h st) = Some s" using Cons.prems(2,3) by blast
    obtain e where e: "core ?fold = Ret e" using Cons.prems(4) by blast
    obtain tr where tr: "fst (dispatch_from redact draining core base hs (g h st) (emit (EvTrack s) d0)) = Ret e"
      "ds_trace (snd (dispatch_from redact draining core base hs (g h st) (emit (EvTrack s) d0))) =
        ds_trace (emit (EvTrack s) d0) @ tr" "filter is_core tr = [EvCore ?fold]"
      using Cons.IH [of "g h st" "emit (EvTrack s) d0"] Cons.prems s e by (auto simp: ih)
    obtain d1 where d1: "dispatch_run redact draining core base hs (g h st) d0 = (Ret e, d1)"
      "ds_trace d1 = ds_trace d0 @ EvTrack s # tr"
      using tr s by (cases "dispatch_from redact draining core base hs (g h st) (emit (EvTrack s) d0)")
        (simp add: dispatch_run.simps)
    have x: "exec_handler (\<lambda>st' d'. dispatch_run redact draining core base hs st' d') core (TNext (g h st) TReturn)
        connectionFlowAvailable d0 = (Ret e, connectionFlowUsed, d1)"
      using d1 by (simp add: claim_def complete_def)
    have "fst (dispatch_from redact draining core base (ih # hs) st d) = Ret e \<and>
       (\<exists>m. ds_trace (snd (dispatch_from redact draining core base (ih # hs) st d)) =
        ds_trace d1 @ [EvRelease i, EvTrace i m])"
      using False p x
      by (auto simp: ih d0_def [symmetric] Let_def finish_invoke_def split: prod.splits option.splits)
    moreover have "ds_trace d0 = ds_trace d @ [EvReserve i, EvParticipant i, EvInvoke i st]" by (simp add: d0_def)
    ultimately show ?thesis
      using d1 tr(3) e False by (auto simp: ih simp del: dispatch_from.simps)
  qed
qed

text \<open>
  when every plugin hands the connection on (possibly replacing the stream or the effective source
  address by \<open>g\<close>) and returns what it got back, the core runs exactly once, on the state all plugins
  that are not draining have transformed in order, and its result is the result of the call.
\<close>

theorem HandleConnection_transparent:
  assumes "\<forall>h \<in> set handlers. \<forall>req. \<exists>ms. up_handle h req = (TNext (g h (uc_Connection req)) TReturn, ms)"
    and "\<forall>h st. cs_Stream st \<noteq> None \<longrightarrow> cs_Stream (g h st) \<noteq> None"
    and "cs_Stream (uc_Connection req) \<noteq> None" and "\<forall>st. \<exists>e. core st = Ret e"
  shows "fst (HandleConnection redact draining handlers (Some core) req stats) =
      core (fold g (filter (\<lambda>h. up_pluginID h \<notin> draining \<and> \<not> up_draining h) handlers) (uc_Connection req))
    \<and> filter is_core (ds_trace (snd (HandleConnection redact draining handlers (Some core) req stats))) =
      [EvCore (fold g (filter (\<lambda>h. up_pluginID h \<notin> draining \<and> \<not> up_draining h) handlers) (uc_Connection req))]"
proof -
  let ?hs = "List.enumerate 0 handlers"
  have sn: "map snd ?hs = handlers" by (simp add: enumerate_eq_zip)
  have "snd ` set ?hs = set handlers" by (metis sn set_map)
  then have 1: "\<forall>h \<in> snd ` set ?hs. \<forall>req. \<exists>ms. up_handle h req = (TNext (g h (uc_Connection req)) TReturn, ms)"
    using assms(1) by simp
  obtain s where s: "cs_Stream (uc_Connection req) = Some s" using assms(3) by blast
  show ?thesis
    using dispatch_from_transparent [OF 1 assms(2-4), of redact draining req
        "emit (EvTrack s) \<lparr>ds_trace = [], ds_stats = stats\<rparr>"] s sn
    by (auto simp: HandleConnection_def dispatch_run.simps)
qed

theorem HandleConnection_transparent_witness:
  "let h = (\<lambda>i. \<lparr>up_pluginID = i, up_artifactID = [], up_priority = 0, up_handlerID = [], up_draining = False,
        up_handle = (\<lambda>req. (TNext (uc_Connection req\<lparr>cs_EffectiveSourceAddr := i\<rparr>) TReturn, 1))\<rparr>);
       st = \<lparr>cs_Stream = Some 7, cs_EffectiveSourceAddr = [], cs_Metadata = Map.empty\<rparr>
   in fst (HandleConnection id {''b''} [h ''a'', h ''b''] (Some (\<lambda>st. Ret (Some (ErrorString (cs_EffectiveSourceAddr st)))))
      \<lparr>uc_ConnectionID = [], uc_TraceID = [], uc_PeerAddr = [], uc_LocalAddr = [], uc_Connection = st,
        uc_Ingress = \<lparr>ic_Transport = [], ic_ServiceName = [], ic_ListenerPort = 0, ic_HTTP = None, ic_QUIC = None\<rparr>\<rparr>
      (\<lambda>_. \<lparr>us_calls = 0, us_errors = 0, us_panics = 0, us_sessionErrors = 0, us_durationCount = 0,
        us_durationSumMS = 0, us_durationMaxMS = 0, us_lastSessionError = []\<rparr>))
    = Ret (Some (ErrorString ''a''))"
  unfolding Let_def
  by (subst conjunct1 [OF HandleConnection_transparent
        [where g = "\<lambda>h st. st\<lparr>cs_EffectiveSourceAddr := up_pluginID h\<rparr>"]]) auto

section \<open>The continuation under concurrent use\<close>

text \<open>
  A plugin may call its continuation from several goroutines, and return while one of them is
  still inside.  The flow object serialises every access with its mutex; each of \<^const>\<open>claim\<close>,
  \<^const>\<open>complete\<close> and \<^const>\<open>handlerReturned\<close> is one step.
\<close>

record flow_sys =
  fs_state :: connectionFlowState
  fs_running :: nat \<comment> \<open>goroutines between a successful claim and their \<open>complete\<close>\<close>
  fs_started :: nat \<comment> \<open>successful claims so far\<close>
  fs_closed :: nat \<comment> \<open>how often \<open>done\<close> was closed\<close>
  fs_waiting :: bool \<comment> \<open>\<open>run\<close> is in \<open>flow.wait()\<close>\<close>
  fs_returned :: bool

definition flow_init :: flow_sys where
  "flow_init = \<lparr>fs_state = connectionFlowAvailable, fs_running = 0, fs_started = 0, fs_closed = 0,
     fs_waiting = False, fs_returned = False\<rparr>"

inductive flow_step :: "flow_sys \<Rightarrow> flow_sys \<Rightarrow> bool" where
  claim_ok: "claim (fs_state s) = (None, f) \<Longrightarrow>
    flow_step s (s\<lparr>fs_state := f, fs_running := fs_running s + 1, fs_started := fs_started s + 1\<rparr>)"
| claim_refused: "claim (fs_state s) = (Some e, f) \<Longrightarrow> flow_step s (s\<lparr>fs_state := f\<rparr>)"
| complete: "0 < fs_running s \<Longrightarrow> complete (fs_state s) = (b, f) \<Longrightarrow>
    flow_step s (s\<lparr>fs_state := f, fs_running := fs_running s - 1, fs_closed := fs_closed s + of_bool b\<rparr>)"
| return: "\<not> fs_returned s \<Longrightarrow> handlerReturned (fs_state s) = (b, f) \<Longrightarrow>
    flow_step s (s\<lparr>fs_state := f, fs_returned := True, fs_waiting := b\<rparr>)"
| wake: "fs_waiting s \<Longrightarrow> 0 < fs_closed s \<Longrightarrow> flow_step s (s\<lparr>fs_waiting := False\<rparr>)"

inductive flow_reach :: "flow_sys \<Rightarrow> bool" where
  init: "flow_reach flow_init"
| step: "flow_reach s \<Longrightarrow> flow_step s s' \<Longrightarrow> flow_reach s'"

definition flow_inv :: "flow_sys \<Rightarrow> bool" where
  "flow_inv s = (case fs_state s of
      connectionFlowAvailable \<Rightarrow> fs_running s = 0 \<and> fs_started s = 0 \<and> fs_closed s = 0 \<and> \<not> fs_returned s \<and> \<not> fs_waiting s
    | connectionFlowRunning \<Rightarrow> fs_running s = 1 \<and> fs_started s = 1 \<and> fs_closed s = 0 \<and> \<not> fs_returned s \<and> \<not> fs_waiting s
    | connectionFlowRunningAfterHandlerReturn \<Rightarrow> fs_running s = 1 \<and> fs_started s = 1 \<and> fs_closed s = 0 \<and> fs_returned s \<and> fs_waiting s
    | connectionFlowUsed \<Rightarrow> fs_running s = 0 \<and> fs_started s = 1 \<and> fs_closed s = 1
    | connectionFlowExpired \<Rightarrow> fs_running s = 0 \<and> fs_started s = 0 \<and> fs_closed s = 0 \<and> fs_returned s \<and> \<not> fs_waiting s)"

lemma flow_step_inv: "flow_step s s' \<Longrightarrow> flow_inv s \<Longrightarrow> flow_inv s'"
  by (induction rule: flow_step.induct)
    (auto simp: flow_inv_def claim_def complete_def handlerReturned_def split: connectionFlowState.splits if_splits)

lemma flow_reach_inv: "flow_reach s \<Longrightarrow> flow_inv s"
proof (induction rule: flow_reach.induct)
  case init
  then show ?case by (simp add: flow_inv_def flow_init_def)
qed (rule flow_step_inv)

text \<open>
  C7: however goroutines interleave, at most one continuation is ever started, the channel \<open>done\<close> is
  closed at most once (a second close would panic), a dispatcher waiting for a continuation that
  outlived its handler waits only while that continuation runs, and after the handler has
  returned no continuation can start.
\<close>

theorem flow_exclusive:
  "flow_reach s \<Longrightarrow> fs_started s \<le> 1 \<and> fs_running s \<le> 1 \<and> fs_closed s \<le> 1
    \<and> (fs_waiting s \<longrightarrow> fs_running s = 1 \<or> fs_closed s = 1)
    \<and> (fs_returned s \<longrightarrow> fst (claim (fs_state s)) \<noteq> None)"
  using flow_reach_inv [of s]
  by (auto simp: flow_inv_def claim_def split: connectionFlowState.splits)

theorem flow_exclusive_witness:
  "\<exists>s. flow_reach s \<and> fs_waiting s \<and> fs_started s \<le> 1 \<and> fs_running s = 1"
proof -
  have 1: "flow_step flow_init (flow_init\<lparr>fs_state := connectionFlowRunning, fs_running := 1, fs_started := 1\<rparr>)"
    using flow_step.claim_ok [of flow_init connectionFlowRunning] by (simp add: flow_init_def claim_def)
  let ?s = "flow_init\<lparr>fs_state := connectionFlowRunningAfterHandlerReturn, fs_running := 1, fs_started := 1,
    fs_returned := True, fs_waiting := True\<rparr>"
  have 2: "flow_step (flow_init\<lparr>fs_state := connectionFlowRunning, fs_running := 1, fs_started := 1\<rparr>) ?s"
    using flow_step.return [of "flow_init\<lparr>fs_state := connectionFlowRunning, fs_running := 1, fs_started := 1\<rparr>" True
        connectionFlowRunningAfterHandlerReturn]
    by (simp add: flow_init_def handlerReturned_def)
  have "flow_reach ?s" using 1 2 by (blast intro: flow_reach.intros)
  from this flow_exclusive [OF this] show ?thesis by (intro exI [of _ ?s]) simp
qed

end
