(* ===== verification/Gateway.thy ===== *)
theory Gateway
  imports MC_Protocol Route Upstream_Target Relay Takeover
begin

text \<open>
  \<open>src/cmd/gateway/main.go\<close> with the dialers of \<open>tcp.go\<close>, \<open>kcp.go\<close>, \<open>quic.go\<close> and \<open>haproxy.go\<close>: what
  happens to one client connection, from its first byte to the relay.

  The network and the third-party transports are parameters, collected in \<open>gw_env\<close>: what a dial,
  an address lookup, the PROXY header writer and the JSON encoder return.  A result of
  \<^const>\<open>None\<close> means that a call inside has not returned.
\<close>

section \<open>State and environment\<close>

datatype json = JStr string | JInt int | JObj "(string \<times> json) list"

record upstream =
  un_Protocol :: Protocol
  un_Address :: string
  un_writes :: writes
  un_sent :: bytes

record client =
  cl_reads :: reads
  cl_writes :: writes

record gw_env =
  ge_now :: int
  ge_dial_tcp :: "string \<Rightarrow> writes result"
  ge_dial_kcp :: "string \<Rightarrow> writes result"
  ge_dial_quic :: "string \<Rightarrow> unit result"
  ge_open_stream :: "string \<Rightarrow> writes result"
  ge_resolve_tcp :: "string \<Rightarrow> (string \<times> bool) result" \<comment> \<open>the address, and whether its IP is an IPv4 one\<close>
  ge_header_writer :: "bool \<Rightarrow> string \<Rightarrow> string \<Rightarrow> bytes \<times> error option" \<comment> \<open>\<open>header.WriteTo\<close>: bytes written\<close>
  ge_marshal :: "json \<Rightarrow> bytes result"
  ge_streams :: "nat \<Rightarrow> client" \<comment> \<open>the streams plugins and listeners hand over\<close>
  ge_upstream_reads :: "upstream \<Rightarrow> reads"
  ge_client_end :: endpoint
  ge_upstream_end :: "upstream \<Rightarrow> endpoint"
  ge_rand :: "nat \<Rightarrow> bytes result" \<comment> \<open>\<open>rand.Read\<close> of so many bytes\<close>
  ge_hex :: "bytes \<Rightarrow> string" \<comment> \<open>\<open>hex.EncodeToString\<close>\<close>
  ge_redact :: "string \<Rightarrow> string"

record gw_state =
  gs_metrics :: Counters
  gs_routes :: route_state
  gs_plugins :: "ext_state option" \<comment> \<open>\<open>pluginsManager\<close>, which may be nil\<close>
  gs_handlers :: "upstreamHandler list" \<comment> \<open>its published takeover handlers\<close>
  gs_draining :: "string set"
  gs_upstats :: "nat \<Rightarrow> UpStats"

definition upd_metrics :: "(Counters \<Rightarrow> Counters) \<Rightarrow> gw_state \<Rightarrow> gw_state" where
  "upd_metrics f st = st\<lparr>gs_metrics := f (gs_metrics st)\<rparr>"

section \<open>Dialers\<close>

definition upstreamTcp :: "gw_env \<Rightarrow> string \<Rightarrow> gw_state \<Rightarrow> upstream option \<times> gw_state" where
  "upstreamTcp env host st = (case ge_dial_tcp env host of
      Inl _ \<Rightarrow> (None, upd_metrics UpstreamDialError st)
    | Inr ws \<Rightarrow> (Some \<lparr>un_Protocol = ProtocolTCP, un_Address = host, un_writes = ws, un_sent = []\<rparr>, st))"

definition upstreamKcp :: "gw_env \<Rightarrow> string \<Rightarrow> gw_state \<Rightarrow> upstream option \<times> gw_state" where
  "upstreamKcp env host st = (case ge_dial_kcp env host of
      Inl _ \<Rightarrow> (None, upd_metrics UpstreamDialError st)
    | Inr ws \<Rightarrow> (Some \<lparr>un_Protocol = ProtocolKCP, un_Address = host, un_writes = ws, un_sent = []\<rparr>, st))"

definition upstreamQuic :: "gw_env \<Rightarrow> string \<Rightarrow> gw_state \<Rightarrow> upstream option \<times> gw_state" where
  "upstreamQuic env host st = (case ge_dial_quic env host of
      Inl _ \<Rightarrow> (None, upd_metrics UpstreamDialError st)
    | Inr _ \<Rightarrow> (case ge_open_stream env host of
        Inl _ \<Rightarrow> (None, upd_metrics UpstreamDialError st)
      | Inr ws \<Rightarrow> (Some \<lparr>un_Protocol = ProtocolQUIC, un_Address = host, un_writes = ws, un_sent = []\<rparr>, st)))"

definition haProxyUpstream :: "gw_env \<Rightarrow> string \<Rightarrow> string \<Rightarrow> gw_state \<Rightarrow> upstream option \<times> gw_state" where
  "haProxyUpstream env effectiveSourceAddr host st = (case ge_resolve_tcp env host of
      Inl _ \<Rightarrow> (None, upd_metrics UpstreamDialError st)
    | Inr (target, _) \<Rightarrow> (case ge_dial_tcp env target of
        Inl _ \<Rightarrow> (None, upd_metrics UpstreamDialError st)
      | Inr ws \<Rightarrow> (case ge_resolve_tcp env effectiveSourceAddr of
          Inl _ \<Rightarrow> (None, st)
        | Inr (source, v4) \<Rightarrow> (case ge_header_writer env v4 source target of
            (_, Some _) \<Rightarrow> (None, st)
          | (header, None) \<Rightarrow>
              (Some \<lparr>un_Protocol = ProtocolHAProxy, un_Address = target, un_writes = ws, un_sent = header\<rparr>, st)))))"

definition dial_upstream :: "gw_env \<Rightarrow> string \<Rightarrow> string \<Rightarrow> gw_state \<Rightarrow> upstream option \<times> gw_state" where
  "dial_upstream env effectiveSourceAddr host st =
    (let target = target_Parse host in
     case tg_Protocol target of
       ProtocolQUIC \<Rightarrow> upstreamQuic env (tg_Address target) st
     | ProtocolKCP \<Rightarrow> upstreamKcp env (tg_Address target) st
     | ProtocolHAProxy \<Rightarrow> haProxyUpstream env effectiveSourceAddr (tg_Address target) st
     | ProtocolTCP \<Rightarrow> upstreamTcp env (tg_Address target) st)"

section \<open>Reading the first packet\<close>

text \<open>
  The loop of \<open>readMinecraftPacket\<close> that reads the length prefix byte by byte: at byte \<open>i\<close>, with the
  length so far and the bytes read.  The loop leaves with the prefix length, or an error.
\<close>

fun read_prefix ::
  "nat \<Rightarrow> nat \<Rightarrow> nat \<Rightarrow> int \<Rightarrow> bytes \<Rightarrow> reads \<Rightarrow> (int \<times> bytes) result \<times> reads" where
  "read_prefix bufLen 0 i len acc rs = (Inl (ErrorString ''minecraft packet length VarInt is too long''), rs)"
| "read_prefix bufLen (Suc k) i len acc rs =
    (if bufLen \<le> i then (Inl Io_ErrShortBuffer, rs)
     else (case ReadFull 1 rs of
        (_, Some err, rs) \<Rightarrow> (Inl err, rs)
      | (b, None, rs) \<Rightarrow>
          (let current = byte_val (b ! 0); len = len OR push_bit (7 * i) (current AND 0x7f) in
           if current AND 0x80 = 0 then (Inr (len, acc @ b), rs)
           else read_prefix bufLen k (i + 1) len (acc @ b) rs)))"

definition readMinecraftPacket :: "nat \<Rightarrow> reads \<Rightarrow> bytes result \<times> reads" where
  "readMinecraftPacket bufLen rs = (case read_prefix bufLen 5 0 0 [] rs of
      (Inl err, rs) \<Rightarrow> (Inl err, rs)
    | (Inr (len, pre), rs) \<Rightarrow>
        (if len \<le> 0 then (Inl (ErrorString ''minecraft packet length must be positive''), rs)
         else if int bufLen - int (length pre) < len
         then (Inl (ErrorString ''minecraft packet length exceeds ingress buffer''), rs)
         else (case ReadFull (nat len) rs of
            (_, Some err, rs) \<Rightarrow> (Inl err, rs)
          | (body, None, rs) \<Rightarrow> (Inr (pre @ body), rs))))"

section \<open>Routing\<close>

definition zero_summary :: RouteDecisionSummary where
  "zero_summary = \<lparr>rs_Host = [], rs_Action = [], rs_Upstream = [], rs_ProviderID = [], rs_Source = [],
     rs_Reason = [], rs_Metadata = Map.empty, rs_CreatedAt = 0, rs_ExpiresAt = 0\<rparr>"

definition resolveGatewayRoute ::
  "gw_env \<Rightarrow> string \<Rightarrow> Handshake \<Rightarrow> gw_state \<Rightarrow> RouteResolveResult \<times> gw_state" where
  "resolveGatewayRoute env effectiveSourceAddr handshake st =
    (case lookupRoute (gs_routes st) (ServerHost handshake) of (upstream, hit) \<Rightarrow>
      (let req = \<lparr>rq_Host = ServerHost handshake, rq_RawServerHost = RawServerHost handshake,
             rq_SourceAddr = effectiveSourceAddr, rq_ProtocolVersion = ProtocolVersion handshake,
             rq_NextState = NextState handshake, rq_FallbackUpstream = upstream, rq_FallbackHit = hit,
             rq_Refresh = False, rq_Metadata = Map.empty,
             rq_Handshake = \<lparr>uh_ServerHost = ServerHost handshake, uh_RawServerHost = RawServerHost handshake,
               uh_ProtocolVersion = ProtocolVersion handshake, uh_NextState = NextState handshake\<rparr>\<rparr>;
           local = \<lparr>rv_Decision = \<lparr>rd_Action = (if upstream = [] then RouteDecisionReject else RouteDecisionFallback),
               rd_Upstream = upstream, rd_Host = [], rd_Reason = ''sqlite route snapshot fallback'',
               rd_ProviderID = ''sqlite'', rd_CacheTTL = 0, rd_Metadata = Map.empty, rd_Explanation = []\<rparr>,
             rv_Source = (if upstream = [] then ''fallback_miss'' else ''sqlite_fallback''),
             rv_Summary = zero_summary\<rparr>
       in case gs_plugins st of
            None \<Rightarrow> (local, st)
          | Some pm \<Rightarrow>
              (case ResolveRoute (ge_now env) (Some (\<lambda>req. lookupRoute (gs_routes st) (rq_Host req))) pm req of
                 (Inr result, pm) \<Rightarrow> (result, st\<lparr>gs_plugins := Some pm\<rparr>)
               | (Inl _, pm) \<Rightarrow> (local, st\<lparr>gs_plugins := Some pm\<rparr>))))"

text \<open>
  The status payload \<open>handleStatusPing\<close> builds.  Go's encoder writes the keys of a map in
  order, so the list is in key order.
\<close>

definition status_payload :: "StatusPingResponse \<Rightarrow> json" where
  "status_payload r = JObj (
     [(''description'', JObj [(''text'', JStr (st_MOTD r))])] @
     (if st_Favicon r \<noteq> [] then [(''favicon'', JStr (st_Favicon r))] else []) @
     (if st_Maintenance r then [(''maintenance'', JObj [(''window'', JStr (st_MaintenanceWindow r))])] else []) @
     [(''players'', JObj [(''max'', JInt (st_MaxPlayers r)), (''online'', JInt (st_OnlinePlayers r))]),
      (''version'', JObj [(''name'', JStr (st_VersionText r)), (''protocol'', JInt (st_ProtocolVersion r))])])"

definition zero_response :: StatusPingResponse where
  "zero_response = \<lparr>st_MOTD = [], st_Favicon = [], st_OnlinePlayers = 0, st_MaxPlayers = 0, st_VersionText = [],
     st_ProtocolVersion = 0, st_Maintenance = False, st_MaintenanceWindow = [], st_Metadata = Map.empty\<rparr>"

text \<open>\<open>handleStatusPing\<close>: whether it was handled, the bytes written to the client, and the state.\<close>

definition handleStatusPing ::
  "gw_env \<Rightarrow> string \<Rightarrow> Handshake \<Rightarrow> writes \<Rightarrow> gw_state \<Rightarrow> (bool \<times> bytes \<times> gw_state) option" where
  "handleStatusPing env effectiveSourceAddr handshake ws st = (case gs_plugins st of
      None \<Rightarrow> Some (False, [], st)
    | Some pm \<Rightarrow> (case StatusPing pm \<lparr>sp_Host = ServerHost handshake, sp_RawServerHost = RawServerHost handshake,
          sp_SourceAddr = effectiveSourceAddr, sp_ProtocolVersion = ProtocolVersion handshake,
          sp_Metadata = Map.empty\<rparr> of
        (Inl _, pm) \<Rightarrow> Some (False, [], st\<lparr>gs_plugins := Some pm\<rparr>)
      | (Inr result, pm) \<Rightarrow>
          (let st = st\<lparr>gs_plugins := Some pm\<rparr> in
           if \<not> sr_Handled result then Some (False, [], st)
           else (case StatusResponsePacket
                   (ge_marshal env (status_payload (case sr_Response result of Some r \<Rightarrow> r | None \<Rightarrow> zero_response))) of
               None \<Rightarrow> None
             | Some (Inl _) \<Rightarrow> Some (True, [], st)
             | Some (Inr packet) \<Rightarrow> (case writeAll ws packet of
                 None \<Rightarrow> None
               | Some (out, _, _) \<Rightarrow> Some (True, out, st))))))"

section \<open>From the connection to the upstream\<close>

record map_result =
  mr_client :: "upstream option" \<comment> \<open>the upstream connection, \<^const>\<open>None\<close> for nil\<close>
  mr_reads :: reads \<comment> \<open>what the client still has to say\<close>
  mr_replied :: bytes \<comment> \<open>what was written to the client\<close>
  mr_state :: gw_state

definition give_up :: "reads \<Rightarrow> bytes \<Rightarrow> gw_state \<Rightarrow> map_result option" where
  "give_up rs out st = Some \<lparr>mr_client = None, mr_reads = rs, mr_replied = out, mr_state = st\<rparr>"

text \<open>The last part of \<open>mapToHost\<close>: route, dial, replay the first packet.\<close>

definition route_and_dial ::
  "gw_env \<Rightarrow> string \<Rightarrow> Handshake \<Rightarrow> bytes \<Rightarrow> reads \<Rightarrow> gw_state \<Rightarrow> map_result option" where
  "route_and_dial env effectiveSourceAddr handshake initialData rs st =
    (case resolveGatewayRoute env effectiveSourceAddr handshake st of (routeResult, st) \<Rightarrow>
      (let host = rd_Upstream (rv_Decision routeResult) in
       if rd_Action (rv_Decision routeResult) = RouteDecisionReject \<or> host = []
       then give_up rs [] (upd_metrics RouteMiss st)
       else (let st = (if rv_Source routeResult \<noteq> ''fallback_miss''
                       then upd_metrics (RouteHit (ServerHost handshake)) st else st) in
         case dial_upstream env effectiveSourceAddr host st of
           (None, st) \<Rightarrow> give_up rs [] st
         | (Some up, st) \<Rightarrow> (case writeAll (un_writes up) initialData of
             None \<Rightarrow> None
           | Some (out, Some err, ws) \<Rightarrow> give_up rs [] st
           | Some (out, None, ws) \<Rightarrow> Some \<lparr>mr_client = Some (up\<lparr>un_writes := ws, un_sent := un_sent up @ out\<rparr>),
               mr_reads = rs, mr_replied = [], mr_state = st\<rparr>))))"

text \<open>The middle part: the handshake filters, which may rewrite the host, and the status answer.\<close>

definition filter_handshake ::
  "string \<Rightarrow> Handshake \<Rightarrow> bytes \<Rightarrow> gw_state \<Rightarrow> ((Handshake \<times> bytes) option \<times> gw_state) option" where
  "filter_handshake effectiveSourceAddr handshake initialData st = (case gs_plugins st of
      None \<Rightarrow> Some (Some (handshake, initialData), st)
    | Some pm \<Rightarrow> (case FilterHandshake pm \<lparr>hf_SourceAddr = effectiveSourceAddr, hf_ServerHost = ServerHost handshake,
          hf_RawServerHost = RawServerHost handshake, hf_ProtocolVersion = ProtocolVersion handshake,
          hf_NextState = NextState handshake, hf_Metadata = Map.empty\<rparr> of
        ((filt, err), pm) \<Rightarrow>
          (let st = st\<lparr>gs_plugins := Some pm\<rparr> in
           if err \<noteq> None then Some (None, st)
           else if \<not> cr_Allowed filt then Some (None, st)
           else if hr_RewriteHost filt \<noteq> [] \<and> hr_RewriteHost filt \<noteq> ServerHost handshake
           then map_option (\<lambda>replaced. let data = (case replaced of Some d \<Rightarrow> d | None \<Rightarrow> []) in
                  (Some (ParseHandshake data, data), st)) (ReplaceMcHost initialData (hr_RewriteHost filt))
           else Some (Some (handshake, initialData), st))))"

definition handle_packet ::
  "gw_env \<Rightarrow> string \<Rightarrow> writes \<Rightarrow> bytes \<Rightarrow> reads \<Rightarrow> gw_state \<Rightarrow> map_result option" where
  "handle_packet env effectiveSourceAddr ws initialData rs st =
    (let handshake = ParseHandshake initialData in
     if ServerHost handshake = [] then give_up rs [] st
     else (case filter_handshake effectiveSourceAddr handshake initialData st of
        None \<Rightarrow> None
      | Some (None, st) \<Rightarrow> give_up rs [] st
      | Some (Some (handshake, initialData), st) \<Rightarrow>
          (if NextState handshake = 1 then
             (case handleStatusPing env effectiveSourceAddr handshake ws st of
                None \<Rightarrow> None
              | Some (True, out, st) \<Rightarrow> give_up rs out st
              | Some (False, _, st) \<Rightarrow> route_and_dial env effectiveSourceAddr handshake initialData rs st)
           else route_and_dial env effectiveSourceAddr handshake initialData rs st)))"

text \<open>The first part of \<open>mapToHost\<close>: the connection filters.\<close>

definition filter_connection :: "string \<Rightarrow> string \<Rightarrow> gw_state \<Rightarrow> bool \<times> gw_state" where
  "filter_connection effectiveSourceAddr transport st = (case gs_plugins st of
      None \<Rightarrow> (True, st)
    | Some pm \<Rightarrow> (case FilterConnection pm
          \<lparr>cf_SourceAddr = effectiveSourceAddr, cf_Transport = transport, cf_Metadata = Map.empty\<rparr> of
        ((filt, err), pm) \<Rightarrow> (err = None \<and> cr_Allowed filt, st\<lparr>gs_plugins := Some pm\<rparr>)))"

definition mapToHost ::
  "gw_env \<Rightarrow> client \<Rightarrow> string \<Rightarrow> string \<Rightarrow> gw_state \<Rightarrow> map_result option" where
  "mapToHost env conn effectiveSourceAddr transport st =
    (case filter_connection effectiveSourceAddr transport st of
       (False, st) \<Rightarrow> give_up (cl_reads conn) [] st
     | (True, st) \<Rightarrow> (case readMinecraftPacket proxyBufferSize (cl_reads conn) of
         (Inl _, rs) \<Rightarrow> give_up rs [] st
       | (Inr initialData, rs) \<Rightarrow>
           (if initialData = [] then give_up rs [] st
            else handle_packet env effectiveSourceAddr (cl_writes conn) initialData rs st)))"

section \<open>The whole connection\<close>

definition "serviceNameTCPAdmin = ''tcp_admin''"
definition "serviceNameWebSocket = ''websocket''"

text \<open>
  What the code can find out about a \<open>net.Conn\<close> by type assertions: the interfaces it implements and
  the type of its local address.
\<close>

record conn_facts =
  cn_RemoteAddr :: string
  cn_LocalAddr :: string
  cn_IngressTransport :: "(string \<times> string) option"
  cn_QUICIngressContext :: "(QUICIngressContext option) option"
  cn_HTTPIngressContext :: "(HTTPIngressContext option) option"
  cn_LocalPort :: "int option" \<comment> \<open>of a \<open>*net.TCPAddr\<close> or \<open>*net.UDPAddr\<close>\<close>

definition connectionIngressContext :: "conn_facts \<Rightarrow> IngressContext" where
  "connectionIngressContext conn =
    (let ingress = \<lparr>ic_Transport = ''tcp'', ic_ServiceName = serviceNameTCPAdmin, ic_ListenerPort = 0,
           ic_HTTP = None, ic_QUIC = None\<rparr>;
         ingress = (case cn_IngressTransport conn of
             Some (tr, sv) \<Rightarrow> ingress\<lparr>ic_Transport := tr, ic_ServiceName := sv\<rparr> | None \<Rightarrow> ingress);
         ingress = (case cn_QUICIngressContext conn of Some q \<Rightarrow> ingress\<lparr>ic_QUIC := q\<rparr> | None \<Rightarrow> ingress);
         ingress = (case cn_LocalPort conn of Some p \<Rightarrow> ingress\<lparr>ic_ListenerPort := p\<rparr> | None \<Rightarrow> ingress)
     in case cn_HTTPIngressContext conn of
          None \<Rightarrow> ingress
        | Some h \<Rightarrow> (let ingress = ingress\<lparr>ic_HTTP := h\<rparr> in
            if cn_IngressTransport conn = None
            then ingress\<lparr>ic_Transport := ''websocket'', ic_ServiceName := serviceNameWebSocket\<rparr> else ingress))"

definition randomHexID :: "gw_env \<Rightarrow> nat \<Rightarrow> string" where
  "randomHexID env n = (case ge_rand env n of
      Inl _ \<Rightarrow> ge_hex env ''fallback'' | Inr buf \<Rightarrow> ge_hex env buf)"

text \<open>
  \<open>runCorePipeline\<close> on the stream a plugin, or the listener, handed over: the state afterwards, the
  result of \<^const>\<open>mapToHost\<close> and what the relay did.
\<close>

record core_result =
  co_map :: map_result
  co_relay :: "(relay_end \<times> relay_end) option" \<comment> \<open>\<^const>\<open>None\<close>: there was no upstream\<close>

definition runCorePipeline ::
  "gw_env \<Rightarrow> UpstreamConnectRequestV2 \<Rightarrow> ConnectionState \<Rightarrow> gw_state \<Rightarrow> core_result option" where
  "runCorePipeline env ingressReq cstate st =
    (let conn = (case cs_Stream cstate of Some s \<Rightarrow> ge_streams env s | None \<Rightarrow> \<lparr>cl_reads = [], cl_writes = []\<rparr>) in
     case mapToHost env conn (cs_EffectiveSourceAddr cstate) (ic_Transport (uc_Ingress ingressReq)) st of
       None \<Rightarrow> None
     | Some r \<Rightarrow> (case mr_client r of
         None \<Rightarrow> Some \<lparr>co_map = r, co_relay = None\<rparr>
       | Some up \<Rightarrow> (case proxyConnections (ge_client_end env) (ge_upstream_end env up)
             (mr_reads r) (cl_writes conn) (ge_upstream_reads env up) (un_writes up) of
           None \<Rightarrow> None
         | Some ends \<Rightarrow> Some \<lparr>co_map = r, co_relay = Some ends\<rparr>)))"

text \<open>
  \<open>handleRequest\<close>.  The core is entered at most once, so its effect on the state is that of the
  single call the dispatch trace records.
\<close>

definition handleRequest :: "gw_env \<Rightarrow> conn_facts \<Rightarrow> nat \<Rightarrow> gw_state \<Rightarrow> gw_state option" where
  "handleRequest env conn stream st =
    (let st = upd_metrics ConnectionStarted st;
         peerAddr = cn_RemoteAddr conn;
         req = \<lparr>uc_ConnectionID = randomHexID env 8, uc_TraceID = randomHexID env 16, uc_PeerAddr = peerAddr,
           uc_LocalAddr = cn_LocalAddr conn,
           uc_Connection = \<lparr>cs_Stream = Some stream, cs_EffectiveSourceAddr = peerAddr, cs_Metadata = Map.empty\<rparr>,
           uc_Ingress = connectionIngressContext conn\<rparr>
     in case gs_plugins st of
          None \<Rightarrow> (case runCorePipeline env req (uc_Connection req) st of
              None \<Rightarrow> None
            | Some r \<Rightarrow> Some (upd_metrics ConnectionFinished (mr_state (co_map r))))
        | Some _ \<Rightarrow> (case HandleConnection (ge_redact env) (gs_draining st) (gs_handlers st)
                        (Some (\<lambda>_. Ret None)) req (gs_upstats st) of
            (_, d) \<Rightarrow> (let st = st\<lparr>gs_upstats := ds_stats d\<rparr> in
              case filter is_core (ds_trace d) of
                EvCore cstate # _ \<Rightarrow> (case runCorePipeline env req cstate st of
                    None \<Rightarrow> None
                  | Some r \<Rightarrow> Some (upd_metrics ConnectionFinished (mr_state (co_map r))))
              | _ \<Rightarrow> Some (upd_metrics ConnectionFinished st))))"

section \<open>Lemmas\<close>

abbreviation clean_reads :: "reads \<Rightarrow> bool" where
  "clean_reads rs \<equiv> \<forall>(c, e) \<in> set rs. e = None"

lemma read_prefix_more:
  assumes "ReadFull 1 rs = ([b], None, rs')" "i < bufLen" "\<not> byte_val b < 128"
  shows "read_prefix bufLen (Suc k) i v acc rs =
    read_prefix bufLen k (Suc i) (v OR push_bit (7 * i) (byte_val b AND 0x7f)) (acc @ [b]) rs'"
  using assms by (simp add: Let_def and_high del: push_bit_and)

lemma read_prefix_last:
  assumes "ReadFull 1 rs = ([b], None, rs')" "i < bufLen" "byte_val b < 128"
  shows "read_prefix bufLen (Suc k) i v acc rs =
    (Inr (v OR push_bit (7 * i) (byte_val b AND 0x7f), acc @ [b]), rs')"
  using assms by (simp add: Let_def and_high del: push_bit_and)

lemma ReadFull_1:
  assumes "clean_reads rs" "stream_of rs = b # rest"
  obtains rs' where "ReadFull 1 rs = ([b], None, rs')" "stream_of rs' = rest" "clean_reads rs'"
  using ReadFull_ok [of rs 1] assms by auto

lemma read_prefix_varint:
  assumes "clean_reads rs" "stream_of rs = varint_bytes n @ rest" "0 \<le> v" "v < 2 ^ (7 * i)"
    "length (varint_bytes n) \<le> k" "i + length (varint_bytes n) \<le> bufLen"
  shows "\<exists>rs'. read_prefix bufLen k i v acc rs = (Inr (v + 2 ^ (7 * i) * int n, acc @ varint_bytes n), rs')
    \<and> stream_of rs' = rest \<and> clean_reads rs'"
  using assms
proof (induction n arbitrary: i v k acc rs rule: varint_bytes.induct)
  case (1 n)
  obtain k' where k: "k = Suc k'" using "1.prems"(5) by (cases k) auto
  show ?case
  proof (cases "n < 128")
    case True
    then have vb: "varint_bytes n = [to_byte (int n)]" by (simp add: varint_bytes.simps)
    have b: "byte_val (to_byte (int n)) = int n" using True by (simp add: byte_val_to_byte)
    obtain rs' where r: "ReadFull 1 rs = ([to_byte (int n)], None, rs')" "stream_of rs' = rest" "clean_reads rs'"
      using ReadFull_1 [of rs] "1.prems"(1,2) vb by auto
    have "read_prefix bufLen k i v acc rs = (Inr (v OR push_bit (7 * i) (int n AND 0x7f), acc @ varint_bytes n), rs')"
      using read_prefix_last [OF r(1), of i bufLen k' v acc] True "1.prems"(6) by (simp add: k vb b del: push_bit_and)
    moreover have "v OR push_bit (7 * i) (int n AND 0x7f) = v + 2 ^ (7 * i) * int n"
      using True "1.prems"(3,4) by (simp add: and_low7 or_shifted del: push_bit_and)
    ultimately show ?thesis using r by simp
  next
    case False
    let ?b = "int (n mod 128 + 128)"
    have vb: "varint_bytes n = to_byte ?b # varint_bytes (n div 128)"
      using False by (subst varint_bytes.simps) simp
    have b: "byte_val (to_byte ?b) = ?b"
      unfolding byte_val_to_byte by (rule mod_pos_pos_trivial) auto
    have low: "?b AND 0x7f = int (n mod 128)" by (simp add: and_low7 zmod_int)
    let ?v = "v + 2 ^ (7 * i) * int (n mod 128)"
    have vor: "v OR push_bit (7 * i) (int (n mod 128)) = ?v"
      using "1.prems" by (intro or_shifted) auto
    have v: "0 \<le> ?v" "?v < 2 ^ (7 * Suc i)" "?v + 2 ^ (7 * Suc i) * int (n div 128) = v + 2 ^ (7 * i) * int n"
      using varint_digit [of v i n] "1.prems"(3,4) by simp_all
    obtain rs1 where r: "ReadFull 1 rs = ([to_byte ?b], None, rs1)"
        "stream_of rs1 = varint_bytes (n div 128) @ rest" "clean_reads rs1"
      using ReadFull_1 [of rs] "1.prems"(1,2) vb by auto
    have "read_prefix bufLen k i v acc rs = read_prefix bufLen k' (Suc i) ?v (acc @ [to_byte ?b]) rs1"
      using read_prefix_more [OF r(1), of i bufLen k' v acc] "1.prems"(6)
      unfolding k by (simp only: b low vor vb) simp
    moreover have "\<exists>rs'. read_prefix bufLen k' (Suc i) ?v (acc @ [to_byte ?b]) rs1 =
        (Inr (?v + 2 ^ (7 * Suc i) * int (n div 128), (acc @ [to_byte ?b]) @ varint_bytes (n div 128)), rs')
        \<and> stream_of rs' = rest \<and> clean_reads rs'"
      using "1.prems"(5,6) r(2,3) v(1,2) False k vb by (intro "1.IH") auto
    ultimately show ?thesis unfolding v(3) vb by simp
  qed
qed

text \<open>A well-formed packet is read exactly, however the client's bytes are cut into reads.\<close>

lemma readMinecraftPacket_ok:
  assumes "clean_reads rs" "stream_of rs = varint_bytes (length body) @ body @ rest" "body \<noteq> []"
    "length (varint_bytes (length body)) \<le> 5" "length (varint_bytes (length body)) + length body \<le> bufLen"
  obtains rs' where "readMinecraftPacket bufLen rs = (Inr (varint_bytes (length body) @ body), rs')"
    "stream_of rs' = rest" "clean_reads rs'"
proof -
  obtain rs1 where r1: "read_prefix bufLen 5 0 0 [] rs = (Inr (int (length body), varint_bytes (length body)), rs1)"
    "stream_of rs1 = body @ rest" "clean_reads rs1"
    using read_prefix_varint [of rs "length body" "body @ rest" 0 0 5 bufLen "[]"] assms by auto
  obtain rs2 where r2: "ReadFull (length body) rs1 = (body, None, rs2)" "stream_of rs2 = rest" "clean_reads rs2"
    using ReadFull_ok [of rs1 "length body"] r1(2,3) by auto
  show ?thesis
    using that [of rs2] r1(1) r2 assms(3,5) by (simp add: readMinecraftPacket_def)
qed

lemma read_prefix_stream:
  "read_prefix bufLen k i v acc rs = (Inr (len, pre), rs') \<Longrightarrow>
    pre @ stream_of rs' = acc @ stream_of rs"
proof (induction bufLen k i v acc rs rule: read_prefix.induct)
  case (2 bufLen k i len0 acc rs)
  obtain b e rs1 where r: "ReadFull 1 rs = (b, e, rs1)" by (metis prod_cases3)
  then have "b @ stream_of rs1 = stream_of rs" by (rule ReadFull_stream)
  with 2 r show ?case by (auto simp: Let_def split: if_splits option.splits)
qed simp

text \<open>Whatever arrives, no byte after the packet is consumed, and the packet fits the buffer.\<close>

lemma readMinecraftPacket_exact:
  assumes "readMinecraftPacket bufLen rs = (Inr pkt, rs')"
  shows "pkt @ stream_of rs' = stream_of rs \<and> length pkt \<le> bufLen"
proof -
  obtain len pre rs1 where p: "read_prefix bufLen 5 0 0 [] rs = (Inr (len, pre), rs1)"
    and l: "0 < len" "len \<le> int bufLen - int (length pre)"
    and b: "readMinecraftPacket bufLen rs = (case ReadFull (nat len) rs1 of
            (_, Some err, rs) \<Rightarrow> (Inl err, rs)
          | (body, None, rs) \<Rightarrow> (Inr (pre @ body), rs))"
    using assms by (auto simp: readMinecraftPacket_def split: prod.splits sum.splits if_splits)
  obtain body e rs2 where r: "ReadFull (nat len) rs1 = (body, e, rs2)" by (metis prod_cases3)
  with assms b have e: "e = None" "pkt = pre @ body" "rs' = rs2" by (auto split: option.splits)
  show ?thesis
    using read_prefix_stream [OF p] ReadFull_stream [OF r] ReadFull_length [OF r] e l
    by auto
qed

text \<open>What dialling may have sent before the first packet: only an HAProxy header.\<close>

lemma dial_upstream_sent:
  "dial_upstream env src host st = (Some up, st') \<Longrightarrow> un_sent up = [] \<or> un_Protocol up = ProtocolHAProxy"
  by (auto simp: dial_upstream_def upstreamTcp_def upstreamKcp_def upstreamQuic_def haProxyUpstream_def Let_def
      split: Protocol.splits sum.splits prod.splits option.splits)

lemma route_and_dial_sent:
  assumes "route_and_dial env src hs data rs st = Some r" "mr_client r = Some up"
  shows "\<exists>hdr. un_sent up = hdr @ data \<and> (hdr = [] \<or> un_Protocol up = ProtocolHAProxy)
    \<and> mr_reads r = rs \<and> mr_replied r = []"
  using assms
  by (auto simp: route_and_dial_def give_up_def Let_def split: prod.splits option.splits if_splits
      dest!: dial_upstream_sent writeAll_complete)

lemma filter_handshake_data:
  assumes "filter_handshake src (ParseHandshake data) data st = Some (Some (hs', data'), st')"
    and "ServerHost (ParseHandshake data) \<noteq> []"
  shows "hs' = ParseHandshake data' \<and> (data' = data \<or> (\<exists>host. ReplaceMcHost data host = Some (Some data')))"
proof -
  have "ParseHandshake data \<noteq> empty_handshake" using assms(2) by (auto simp: empty_handshake_def)
  then have "\<exists>d. ReplaceMcHost data host = Some (Some d)" for host
    by (rule ParseHandshake_success) (use ReplaceMcHost_eq in blast)
  then obtain d where "\<And>host. ReplaceMcHost data host = Some (Some (d host))" by metis
  with assms(1) show ?thesis
    by (auto simp: filter_handshake_def Let_def split: option.splits prod.splits if_splits)
qed

section \<open>Properties\<close>


text \<open>A concrete instance: one TCP upstream that takes every byte, one route.\<close>

definition demo_env :: gw_env where
  "demo_env = \<lparr>ge_now = 0,
     ge_dial_tcp = (\<lambda>h. if h = ''mc:25565'' then Inr (replicate 64 (1, None)) else Inl Io_EOF),
     ge_dial_kcp = (\<lambda>_. Inl Io_EOF), ge_dial_quic = (\<lambda>_. Inl Io_EOF), ge_open_stream = (\<lambda>_. Inl Io_EOF),
     ge_resolve_tcp = (\<lambda>_. Inl Io_EOF), ge_header_writer = (\<lambda>_ _ _. ([], None)), ge_marshal = (\<lambda>_. Inr []),
     ge_streams = (\<lambda>_. \<lparr>cl_reads = [], cl_writes = []\<rparr>), ge_upstream_reads = (\<lambda>_. []),
     ge_client_end = \<lparr>ep_closeWriter = True, ep_closeReader = False, ep_closer = True\<rparr>,
     ge_upstream_end = (\<lambda>_. \<lparr>ep_closeWriter = True, ep_closeReader = False, ep_closer = True\<rparr>),
     ge_rand = (\<lambda>n. Inr (replicate n CHR 0x00)), ge_hex = id, ge_redact = id\<rparr>"

definition demo_state :: gw_state where
  "demo_state = \<lparr>gs_metrics = metrics_New,
     gs_routes = \<lparr>rs_db = None, rs_snap = Some [''play'' \<mapsto> ''mc:25565'']\<rparr>, gs_plugins = None,
     gs_handlers = [], gs_draining = {}, gs_upstats = (\<lambda>_. \<lparr>us_calls = 0, us_errors = 0, us_panics = 0,
       us_sessionErrors = 0, us_durationCount = 0, us_durationSumMS = 0, us_durationMaxMS = 0,
       us_lastSessionError = []\<rparr>)\<rparr>"

text \<open>The packet of a login to \<open>play\<close>: length, id 0, version 47, host, port, next state 2.\<close>

definition demo_packet :: bytes where
  "demo_packet = map to_byte [10, 0, 47, 4] @ ''play'' @ map to_byte [0x63, 0xdd, 2]"

abbreviation "demo_client \<equiv>
  \<lparr>cl_reads = [(take 3 demo_packet, None), (drop 3 demo_packet @ ''xyz'', None)], cl_writes = []\<rparr>"

abbreviation "demo_body \<equiv> drop 1 demo_packet"

abbreviation "demo_up \<equiv> \<lparr>un_Protocol = ProtocolTCP, un_Address = ''mc:25565'', un_writes = replicate 64 (1, None),
  un_sent = []\<rparr>"

lemma demo_facts:
  "varint_bytes (length demo_body) @ demo_body = demo_packet" "length demo_packet = 11" "demo_body \<noteq> []"
  "ParseHandshake demo_packet =
    \<lparr>RawServerHost = ''play'', ServerHost = ''play'', ProtocolVersion = 47, NextState = 2\<rparr>"
  "dial_upstream demo_env src ''mc:25565'' st = (Some demo_up, st)"
  "lookupRoute (gs_routes demo_state) ''play'' = (''mc:25565'', True)"
  "\<exists>ws. writeAll (replicate 64 (1, None)) demo_packet = Some (demo_packet, None, ws)"
  "stream_of (cl_reads demo_client) = demo_packet @ ''xyz''"
  "gs_plugins demo_state = None" "demo_packet \<noteq> []"
proof -
  show "varint_bytes (length demo_body) @ demo_body = demo_packet" by code_simp
  show len: "length demo_packet = 11" by (simp add: demo_packet_def)
  show "demo_body \<noteq> []" by (simp add: demo_packet_def)
  show "ParseHandshake demo_packet =
    \<lparr>RawServerHost = ''play'', ServerHost = ''play'', ProtocolVersion = 47, NextState = 2\<rparr>" by code_simp
  show "dial_upstream demo_env src ''mc:25565'' st = (Some demo_up, st)"
    by (simp add: dial_upstream_def target_Parse_def CutPrefix_def upstreamTcp_def demo_env_def Let_def)
  show "lookupRoute (gs_routes demo_state) ''play'' = (''mc:25565'', True)"
    by (simp add: demo_state_def lookupRoute_def lookup_routes_def)
  show "\<exists>ws. writeAll (replicate 64 (1, None)) demo_packet = Some (demo_packet, None, ws)"
    by (rule writeAll_progress) (simp_all add: len)
  show "stream_of (cl_reads demo_client) = demo_packet @ ''xyz''" by simp
  show "gs_plugins demo_state = None" by (simp add: demo_state_def)
  show "demo_packet \<noteq> []" by (simp add: demo_packet_def)
qed




text \<open>
  a connection some filter does not pass is dropped before any of its bytes is read: no upstream
  is dialled, nothing is written to the client, and no counter of the gateway moves.
\<close>

theorem rejected_unread:
  assumes "gs_plugins st = Some pm" and "h \<in> set (es_middleware pm)"
    and "connection_verdict \<lparr>cf_SourceAddr = src, cf_Transport = tr, cf_Metadata = Map.empty\<rparr> h \<noteq> VPass"
  shows "\<exists>pm'. mapToHost env conn src tr st = Some \<lparr>mr_client = None, mr_reads = cl_reads conn, mr_replied = [],
    mr_state = st\<lparr>gs_plugins := Some pm'\<rparr>\<rparr>"
proof -
  let ?req = "\<lparr>cf_SourceAddr = src, cf_Transport = tr, cf_Metadata = Map.empty\<rparr>"
  obtain res hs where l: "FilterConnection_loop ?req (es_middleware pm) = (res, hs)" by fastforce
  have "find (\<lambda>h. connection_verdict ?req h \<noteq> VPass) (es_middleware pm) \<noteq> None"
    using assms(2,3) by (auto simp: find_None_iff)
  then obtain h' where h': "find (\<lambda>h. connection_verdict ?req h \<noteq> VPass) (es_middleware pm) = Some h'" by blast
  then have "connection_verdict ?req h' \<noteq> VPass" by (auto simp: find_Some_iff)
  with h' have "\<not> cr_Allowed (fst res)"
    using FilterConnection_find [of ?req "es_middleware pm"] l by (cases "connection_verdict ?req h'") auto
  then show ?thesis
    using assms(1) l
    by (cases res) (auto simp: mapToHost_def filter_connection_def FilterConnection_def give_up_def)
qed

lemma dial_upstream_metrics:
  "dial_upstream env src host st = (up, st') \<Longrightarrow>
    activeConnections (gs_metrics st') = activeConnections (gs_metrics st)
    \<and> totalConnections (gs_metrics st') = totalConnections (gs_metrics st)"
  by (auto simp: dial_upstream_def upstreamTcp_def upstreamKcp_def upstreamQuic_def haProxyUpstream_def Let_def
      upd_metrics_def UpstreamDialError_def split: Protocol.splits sum.splits prod.splits option.splits)

lemma resolveGatewayRoute_metrics:
  "resolveGatewayRoute env src h st = (r, st') \<Longrightarrow> gs_metrics st' = gs_metrics st"
  by (auto simp: resolveGatewayRoute_def Let_def split: prod.splits option.splits sum.splits)

lemma route_and_dial_metrics:
  assumes "route_and_dial env src h d rs st = Some r"
  shows "activeConnections (gs_metrics (mr_state r)) = activeConnections (gs_metrics st)
    \<and> totalConnections (gs_metrics (mr_state r)) = totalConnections (gs_metrics st)"
proof -
  obtain rr st1 where rr: "resolveGatewayRoute env src h st = (rr, st1)" by fastforce
  let ?st2 = "if rv_Source rr \<noteq> ''fallback_miss'' then upd_metrics (RouteHit (ServerHost h)) st1 else st1"
  obtain up st3 where up: "dial_upstream env src (rd_Upstream (rv_Decision rr)) ?st2 = (up, st3)" by fastforce
  show ?thesis
    using assms rr up resolveGatewayRoute_metrics [OF rr] dial_upstream_metrics [OF up]
    by (auto simp: route_and_dial_def give_up_def Let_def upd_metrics_def RouteMiss_def RouteHit_def
        split: option.splits if_splits prod.splits)
qed

lemma mapToHost_metrics:
  assumes "mapToHost env conn src tr st = Some r"
  shows "activeConnections (gs_metrics (mr_state r)) = activeConnections (gs_metrics st)
    \<and> totalConnections (gs_metrics (mr_state r)) = totalConnections (gs_metrics st)"
proof -
  have fc: "filter_connection src tr st = (b, st1) \<Longrightarrow> gs_metrics st1 = gs_metrics st" for b st1
    by (auto simp: filter_connection_def split: option.splits prod.splits)
  have fh: "filter_handshake src h d st1 = Some (x, st2) \<Longrightarrow> gs_metrics st2 = gs_metrics st1" for h d st1 x st2
    by (auto simp: filter_handshake_def Let_def split: option.splits prod.splits if_splits)
  have sp: "handleStatusPing env src h ws st1 = Some (b, out, st2) \<Longrightarrow> gs_metrics st2 = gs_metrics st1" for h ws b out st1 st2
    by (auto simp: handleStatusPing_def Let_def split: option.splits prod.splits sum.splits if_splits)
  have hp: "handle_packet env src ws d rs st1 = Some r \<Longrightarrow>
      activeConnections (gs_metrics (mr_state r)) = activeConnections (gs_metrics st1)
      \<and> totalConnections (gs_metrics (mr_state r)) = totalConnections (gs_metrics st1)" for ws d rs st1
    by (auto simp: handle_packet_def give_up_def Let_def split: option.splits if_splits bool.splits
        dest!: fh sp route_and_dial_metrics)
  show ?thesis
    using assms by (auto simp: mapToHost_def give_up_def split: prod.splits bool.splits sum.splits if_splits
        dest!: fc hp)
qed

text \<open>
  a connection that has been handled, whatever path it took through the plugins and the network,
  leaves the active count where it was and adds one to the total, modulo the width of the counter.
\<close>

theorem handleRequest_counts:
  assumes "handleRequest env conn s st = Some st'"
  shows "activeConnections (gs_metrics st') = activeConnections (gs_metrics st)
    \<and> totalConnections (gs_metrics st') = totalConnections (gs_metrics st) + 1"
proof -
  have core: "runCorePipeline env req cst st1 = Some r \<Longrightarrow>
      activeConnections (gs_metrics (mr_state (co_map r))) = activeConnections (gs_metrics st1)
      \<and> totalConnections (gs_metrics (mr_state (co_map r))) = totalConnections (gs_metrics st1)" for req cst st1 r
    by (auto simp: runCorePipeline_def Let_def split: option.splits dest!: mapToHost_metrics)
  show ?thesis
    using assms
    by (auto simp: handleRequest_def Let_def upd_metrics_def ConnectionStarted_def ConnectionFinished_def
        split: option.splits prod.splits list.splits dispatch_event.splits dest!: core)
qed

theorem handleRequest_counts_witness:
  "\<exists>st'. handleRequest demo_env \<lparr>cn_RemoteAddr = ''1.2.3.4:5'', cn_LocalAddr = [], cn_IngressTransport = None,
      cn_QUICIngressContext = None, cn_HTTPIngressContext = None, cn_LocalPort = Some 25565\<rparr> 0 demo_state = Some st'
    \<and> totalConnections (gs_metrics st') = 1"
proof -
  have r: "readMinecraftPacket proxyBufferSize [] = (Inl Io_EOF, [])"
    using read_prefix.simps(2) [of proxyBufferSize 4 0 0 "[]" "[]"]
    by (simp add: readMinecraftPacket_def proxyBufferSize_def ReadFull_def ReadFull_loop.simps)
  have "\<exists>st'. handleRequest demo_env \<lparr>cn_RemoteAddr = ''1.2.3.4:5'', cn_LocalAddr = [], cn_IngressTransport = None,
      cn_QUICIngressContext = None, cn_HTTPIngressContext = None, cn_LocalPort = Some 25565\<rparr> 0 demo_state = Some st'"
    using r by (simp add: handleRequest_def runCorePipeline_def demo_env_def demo_state_def mapToHost_def
        filter_connection_def give_up_def upd_metrics_def Let_def)
  then obtain st' where st': "handleRequest demo_env \<lparr>cn_RemoteAddr = ''1.2.3.4:5'', cn_LocalAddr = [],
      cn_IngressTransport = None, cn_QUICIngressContext = None, cn_HTTPIngressContext = None,
      cn_LocalPort = Some 25565\<rparr> 0 demo_state = Some st'" by blast
  from st' handleRequest_counts [OF this] show ?thesis by (simp add: demo_state_def metrics_New_def)
qed

definition demo_filter :: middlewareHandler where
  "demo_filter = \<lparr>mw_pluginID = ''ban'', mw_artifactID = [], mw_priority = 0, mw_handlerID = [], mw_extensionPoint = [],
     mw_timeout = 3, mw_failPolicy = ''fail_open'', mw_connectionAccept = None,
     mw_connectionHandle = Some (\<lambda>_. (CallReturns \<lparr>fd_Allow = False, fd_Reject = True, fd_Reason = ''banned'',
       fd_FailPolicy = [], fd_Metadata = Map.empty\<rparr>, 1)), mw_handshakeAccept = None, mw_handshakeHandle = None,
     mw_stats = zero_stats\<rparr>"

theorem rejected_unread_witness:
  "\<exists>r. mapToHost demo_env demo_client ''1.2.3.4:5'' ''tcp'' (demo_state\<lparr>gs_plugins := Some \<lparr>es_routes = [],
      es_rules = [], es_statuses = [], es_middleware = [demo_filter], es_routeCache = []\<rparr>\<rparr>) = Some r
    \<and> mr_client r = None \<and> mr_reads r = cl_reads demo_client"
  using rejected_unread [of "demo_state\<lparr>gs_plugins := Some \<lparr>es_routes = [], es_rules = [], es_statuses = [],
      es_middleware = [demo_filter], es_routeCache = []\<rparr>\<rparr>" _ demo_filter "''1.2.3.4:5''" "''tcp''" demo_env demo_client]
  by (auto simp: connection_verdict_def demo_filter_def acceptsConnection_def call_accept_def invokeConnection_def
      call_handle_def invokeWithTimeout_def)

end
