(* ===== verification/Admin_Config.thy ===== *)
theory Admin_Config
  imports GoStd
begin

text \<open>
  \<open>src/internal/adminconfig/config.go\<close>: the start-up configuration read from the environment.
  The environment is a function from names to values, empty for an unset name; \<open>uni\<close> is the lower-casing
  of strings outside ASCII.
\<close>

section \<open>Data\<close>

datatype PrometheusMode = PrometheusModeShared | PrometheusModeDedicated | PrometheusModeDisabled

definition "DefaultDBPath = ''mc-gateway.sqlite3''"
definition "DefaultTCPAdminPort = (25565 :: int)"
definition "DefaultAdminPath = ''/admin/''"
definition "DefaultAdminAPIPrefix = ''/admin/api''"
definition "DefaultPrometheusListenAddr = ''127.0.0.1:9101''"
definition "PrometheusMetricsPath = ''/metrics''"

lemmas config_consts = DefaultDBPath_def DefaultTCPAdminPort_def DefaultAdminPath_def DefaultAdminAPIPrefix_def
  DefaultPrometheusListenAddr_def PrometheusMetricsPath_def

text \<open>Durations are in nanoseconds: the session lifetime is eight hours.\<close>

definition DefaultSessionTTL :: int where
  "DefaultSessionTTL = 8 * 3600 * 1000000000"

datatype env_name = EnvDB | EnvTCPAdminPort | EnvPath | EnvAPIPrefix | EnvInitialPassword
  | EnvPluginRequireConformanceFixture | EnvPrometheusMode | EnvPrometheusListenAddr | EnvPrometheusBearerToken

fun env_string :: "env_name \<Rightarrow> string" where
  "env_string EnvDB = ''MC_GATEWAY_DB''"
| "env_string EnvTCPAdminPort = ''MC_GATEWAY_TCP_ADMIN_PORT''"
| "env_string EnvPath = ''MC_GATEWAY_ADMIN_PATH''"
| "env_string EnvAPIPrefix = ''MC_GATEWAY_ADMIN_API_PREFIX''"
| "env_string EnvInitialPassword = ''MC_GATEWAY_ADMIN_PASSWORD''"
| "env_string EnvPluginRequireConformanceFixture = ''MC_GATEWAY_PLUGIN_REQUIRE_CONFORMANCE_FIXTURE''"
| "env_string EnvPrometheusMode = ''MC_GATEWAY_PROMETHEUS_MODE''"
| "env_string EnvPrometheusListenAddr = ''MC_GATEWAY_PROMETHEUS_LISTEN_ADDR''"
| "env_string EnvPrometheusBearerToken = ''MC_GATEWAY_PROMETHEUS_BEARER_TOKEN''"

record Config =
  cf_DBPath :: string
  cf_TCPAdminPort :: int
  cf_AdminPath :: string
  cf_AdminAPIPrefix :: string
  cf_SessionTTL :: int
  cf_PluginRequireConformanceFixture :: bool
  cf_PrometheusMode :: PrometheusMode
  cf_PrometheusListenAddr :: string
  cf_PrometheusBearerToken :: string

definition config_Default :: Config where
  "config_Default = \<lparr>cf_DBPath = DefaultDBPath, cf_TCPAdminPort = DefaultTCPAdminPort, cf_AdminPath = DefaultAdminPath,
     cf_AdminAPIPrefix = DefaultAdminAPIPrefix, cf_SessionTTL = DefaultSessionTTL,
     cf_PluginRequireConformanceFixture = False, cf_PrometheusMode = PrometheusModeShared,
     cf_PrometheusListenAddr = DefaultPrometheusListenAddr, cf_PrometheusBearerToken = []\<rparr>"

section \<open>The parsers of the single settings\<close>

definition validateListenAddr :: "string \<Rightarrow> string \<Rightarrow> error option" where
  "validateListenAddr value name = (case SplitHostPort value of
      Inl e \<Rightarrow> Some (ErrorString (name @ '' must be a host:port address: '' @ Error e))
    | Inr (_, portValue) \<Rightarrow> (case Atoi portValue of
        None \<Rightarrow> Some (ErrorString (name @ '' port must be an integer from 1 to 65535''))
      | Some port \<Rightarrow> if port < 1 \<or> 65535 < port
          then Some (ErrorString (name @ '' port must be an integer from 1 to 65535'')) else None))"

definition parseOptionalPort :: "string \<Rightarrow> int \<Rightarrow> string \<Rightarrow> int result" where
  "parseOptionalPort value fallback name =
    (let value = TrimSpace value in
     if value = [] then Inr fallback
     else (case Atoi value of
         None \<Rightarrow> Inl (ErrorString (name @ '' must be an integer from 1 to 65535''))
       | Some port \<Rightarrow> if port < 1 \<or> 65535 < port
           then Inl (ErrorString (name @ '' must be an integer from 1 to 65535'')) else Inr port))"

definition parseOptionalBool :: "(string \<Rightarrow> string) \<Rightarrow> string \<Rightarrow> bool \<Rightarrow> string \<Rightarrow> bool result" where
  "parseOptionalBool uni value fallback name =
    (let value = ToLower uni (TrimSpace value) in
     if value = [] then Inr fallback
     else if value \<in> {''1'', ''t'', ''true'', ''yes'', ''y'', ''on''} then Inr True
     else if value \<in> {''0'', ''f'', ''false'', ''no'', ''n'', ''off''} then Inr False
     else Inl (ErrorString (name @ '' must be a boolean'')))"

definition normalizeAdminPath :: "string \<Rightarrow> string result" where
  "normalizeAdminPath value =
    (let value = TrimSpace value;
         value = (if value = [] then DefaultAdminPath else value)
     in if \<not> HasPrefix value ''/'' then Inl (ErrorString (env_string EnvPath @ '' must start with /''))
        else (let cleaned = path_Clean value;
                  cleaned = (if cleaned = ''.'' then ''/'' else cleaned);
                  cleaned = (if HasPrefix cleaned ''/'' then cleaned else ''/'' @ cleaned);
                  cleaned = (if HasSuffix cleaned ''/'' then cleaned else cleaned @ ''/'')
              in Inr cleaned))"

definition normalizeAdminAPIPrefix :: "string \<Rightarrow> string result" where
  "normalizeAdminAPIPrefix value =
    (let value = TrimSpace value;
         value = (if value = [] then DefaultAdminAPIPrefix else value)
     in if \<not> HasPrefix value ''/'' then Inl (ErrorString (env_string EnvAPIPrefix @ '' must start with /''))
        else (let cleaned = path_Clean value
              in if cleaned = ''.'' \<or> cleaned = ''/'' then Inl (ErrorString (env_string EnvAPIPrefix @ '' must not be /''))
                 else (let cleaned = (if HasPrefix cleaned ''/'' then cleaned else ''/'' @ cleaned)
                       in Inr (TrimRightByte cleaned CHR ''/''))))"

definition admin_assets :: "string list" where
  "admin_assets = [''app.css'', ''config.js'', ''js'']"

definition validateAdminPaths :: "string \<Rightarrow> string \<Rightarrow> error option" where
  "validateAdminPaths adminPath apiPrefix =
    (if apiPrefix = TrimRightByte adminPath CHR ''/''
     then Some (ErrorString ''admin API prefix cannot equal admin page path'')
     else if list_ex (\<lambda>asset. let assetPath = TrimRightByte adminPath CHR ''/'' @ ''/'' @ asset in
            apiPrefix = assetPath \<or> HasPrefix (apiPrefix @ ''/'') (assetPath @ ''/'')) admin_assets
     then Some (ErrorString ''admin API prefix cannot be under static asset path'')
     else None)"

section \<open>Parse\<close>

definition parse_mode :: "string \<Rightarrow> PrometheusMode option" where
  "parse_mode mode =
    (if mode = [] \<or> mode = ''shared'' then Some PrometheusModeShared
     else if mode = ''dedicated'' then Some PrometheusModeDedicated
     else if mode = ''disabled'' then Some PrometheusModeDisabled else None)"

text \<open>The part of \<open>Parse\<close> that reads the Prometheus settings, into the configuration so far.\<close>

definition parse_prometheus :: "(string \<Rightarrow> string) \<Rightarrow> (string \<Rightarrow> string) \<Rightarrow> Config \<Rightarrow> Config result" where
  "parse_prometheus uni getenv cfg =
    (case parse_mode (ToLower uni (TrimSpace (getenv (env_string EnvPrometheusMode)))) of
       None \<Rightarrow> Inl (ErrorString (env_string EnvPrometheusMode @ '' must be one of shared, dedicated, or disabled''))
     | Some mode \<Rightarrow>
       (let cfg = cfg\<lparr>cf_PrometheusMode := mode\<rparr> in
        if mode = PrometheusModeShared \<and>
           (TrimRightByte (cf_AdminPath cfg) CHR ''/'' = PrometheusMetricsPath \<or> cf_AdminAPIPrefix cfg = PrometheusMetricsPath)
        then Inl (ErrorString (''shared Prometheus path '' @ PrometheusMetricsPath @ '' conflicts with Admin HTTP paths''))
        else
          (let listenAddr = TrimSpace (getenv (env_string EnvPrometheusListenAddr));
               cfg = (if listenAddr \<noteq> [] then cfg\<lparr>cf_PrometheusListenAddr := listenAddr\<rparr> else cfg)
           in case (if mode = PrometheusModeDedicated
                    then validateListenAddr (cf_PrometheusListenAddr cfg) (env_string EnvPrometheusListenAddr) else None) of
                Some e \<Rightarrow> Inl e
              | None \<Rightarrow> Inr (cfg\<lparr>cf_PrometheusBearerToken := getenv (env_string EnvPrometheusBearerToken)\<rparr>))))"

definition config_Parse :: "(string \<Rightarrow> string) \<Rightarrow> (string \<Rightarrow> string) \<Rightarrow> Config result" where
  "config_Parse uni getenv =
    (let cfg = config_Default;
         dbPath = TrimSpace (getenv (env_string EnvDB));
         cfg = (if dbPath \<noteq> [] then cfg\<lparr>cf_DBPath := dbPath\<rparr> else cfg)
     in case parseOptionalPort (getenv (env_string EnvTCPAdminPort)) DefaultTCPAdminPort (env_string EnvTCPAdminPort) of
       Inl e \<Rightarrow> Inl e
     | Inr port \<Rightarrow> (case normalizeAdminPath (getenv (env_string EnvPath)) of
         Inl e \<Rightarrow> Inl e
       | Inr adminPath \<Rightarrow> (case normalizeAdminAPIPrefix (getenv (env_string EnvAPIPrefix)) of
           Inl e \<Rightarrow> Inl e
         | Inr apiPrefix \<Rightarrow> (case validateAdminPaths adminPath apiPrefix of
             Some e \<Rightarrow> Inl e
           | None \<Rightarrow> (case parseOptionalBool uni (getenv (env_string EnvPluginRequireConformanceFixture)) False
                 (env_string EnvPluginRequireConformanceFixture) of
               Inl e \<Rightarrow> Inl e
             | Inr requireConformance \<Rightarrow>
                 parse_prometheus uni getenv (cfg\<lparr>cf_TCPAdminPort := port, cf_AdminPath := adminPath,
                   cf_AdminAPIPrefix := apiPrefix, cf_PluginRequireConformanceFixture := requireConformance\<rparr>))))))"

section \<open>Lemmas\<close>

lemma parseOptionalPort_range:
  "parseOptionalPort value fallback name = Inr port \<Longrightarrow> 1 \<le> fallback \<Longrightarrow> fallback \<le> 65535 \<Longrightarrow> 1 \<le> port \<and> port \<le> 65535"
  by (auto simp: parseOptionalPort_def Let_def split: if_splits option.splits)

text \<open>A page path is a slash, or a slash, clean elements and a final slash.\<close>

definition admin_path_ok :: "string \<Rightarrow> bool" where
  "admin_path_ok p = (HasPrefix p ''/'' \<and> HasSuffix p ''/'' \<and> TrimRightByte p CHR ''/'' @ ''/'' = p)"

definition api_prefix_ok :: "string \<Rightarrow> bool" where
  "api_prefix_ok p = (HasPrefix p ''/'' \<and> \<not> HasSuffix p ''/'' \<and> list_all clean_elem (SplitByte (tl p) CHR ''/''))"

lemma clean_path_last:
  assumes "list_all clean_elem es" "es \<noteq> []"
  shows "last (CHR ''/'' # JoinWith ''/'' es) \<noteq> CHR ''/''"
  using JoinWith_clean_last [OF assms] by simp

lemma suffix_byte [simp]: "suffix [c] s \<longleftrightarrow> s \<noteq> [] \<and> last s = c"
  by (cases s rule: rev_cases) (auto simp: suffix_def)

lemma normalizeAdminPath_ok:
  assumes "normalizeAdminPath value = Inr p" shows "admin_path_ok p"
proof -
  define v where "v = (if TrimSpace value = [] then DefaultAdminPath else TrimSpace value)"
  have v: "HasPrefix v ''/''"
    using assms unfolding normalizeAdminPath_def Let_def v_def [symmetric] by (simp split: if_splits)
  obtain es where es: "path_Clean v = CHR ''/'' # JoinWith ''/'' es" "list_all clean_elem es"
    using path_Clean_rooted [OF v] by metis
  from es(1) have "path_Clean v \<noteq> ''.''" "HasPrefix (path_Clean v) ''/''" by simp_all
  with assms v have p: "p = (if HasSuffix (path_Clean v) ''/'' then path_Clean v else path_Clean v @ ''/'')"
    unfolding normalizeAdminPath_def Let_def v_def [symmetric] by (auto split: if_splits)
  show ?thesis
  proof (cases "es = []")
    case True
    then show ?thesis using es p by (simp add: admin_path_ok_def TrimRightByte_def)
  next
    case False
    then have "p = (CHR ''/'' # JoinWith ''/'' es) @ ''/''"
      using es p clean_path_last [OF es(2) False] by simp
    then show ?thesis
      using TrimRightByte_keep [OF _ clean_path_last [OF es(2) False]] unfolding admin_path_ok_def
      by (simp only: TrimRightByte_snoc) simp
  qed
qed

lemma normalizeAdminAPIPrefix_ok:
  assumes "normalizeAdminAPIPrefix value = Inr p" shows "api_prefix_ok p"
proof -
  define v where "v = (if TrimSpace value = [] then DefaultAdminAPIPrefix else TrimSpace value)"
  have v: "HasPrefix v ''/''" and ne: "path_Clean v \<noteq> ''/''"
    using assms unfolding normalizeAdminAPIPrefix_def Let_def v_def [symmetric] by (simp_all split: if_splits)
  obtain es where es: "path_Clean v = CHR ''/'' # JoinWith ''/'' es" "list_all clean_elem es"
    using path_Clean_rooted [OF v] by metis
  from es(1) have "HasPrefix (path_Clean v) ''/''" by simp
  with assms v ne have p: "p = TrimRightByte (path_Clean v) CHR ''/''"
    unfolding normalizeAdminAPIPrefix_def Let_def v_def [symmetric] by (simp split: if_splits)
  from es ne have "es \<noteq> []" by auto
  note last = clean_path_last [OF es(2) this]
  have "SplitByte (JoinWith ''/'' es) CHR ''/'' = es"
    using es(2) by (intro SplitByte_JoinWith \<open>es \<noteq> []\<close>) (auto simp: list_all_iff clean_elem_def)
  moreover have "p = CHR ''/'' # JoinWith ''/'' es"
    using p es(1) TrimRightByte_keep [OF _ last] by simp
  ultimately show ?thesis using last es(2) by (simp add: api_prefix_ok_def)
qed

lemma parse_prometheus_cases:
  assumes "parse_prometheus uni getenv cfg = Inr cfg'"
  shows "cf_TCPAdminPort cfg' = cf_TCPAdminPort cfg" "cf_AdminPath cfg' = cf_AdminPath cfg"
    "cf_AdminAPIPrefix cfg' = cf_AdminAPIPrefix cfg" "cf_SessionTTL cfg' = cf_SessionTTL cfg"
    "cf_PrometheusMode cfg' = PrometheusModeShared \<Longrightarrow>
      TrimRightByte (cf_AdminPath cfg) CHR ''/'' \<noteq> PrometheusMetricsPath \<and> cf_AdminAPIPrefix cfg \<noteq> PrometheusMetricsPath"
    "cf_PrometheusMode cfg' = PrometheusModeDedicated \<Longrightarrow>
      validateListenAddr (cf_PrometheusListenAddr cfg') (env_string EnvPrometheusListenAddr) = None"
  using assms by (auto simp: parse_prometheus_def Let_def split: option.splits if_splits)

lemma config_Parse_cases:
  assumes "config_Parse uni getenv = Inr cfg"
  obtains cfg0 where "parse_prometheus uni getenv cfg0 = Inr cfg" "1 \<le> cf_TCPAdminPort cfg0" "cf_TCPAdminPort cfg0 \<le> 65535"
    "admin_path_ok (cf_AdminPath cfg0)" "api_prefix_ok (cf_AdminAPIPrefix cfg0)" "cf_SessionTTL cfg0 = DefaultSessionTTL"
    "validateAdminPaths (cf_AdminPath cfg0) (cf_AdminAPIPrefix cfg0) = None"
proof -
  from assms show ?thesis
    unfolding config_Parse_def Let_def
    by (auto split: sum.splits option.splits simp: config_Default_def DefaultTCPAdminPort_def
        dest!: parseOptionalPort_range normalizeAdminPath_ok normalizeAdminAPIPrefix_ok intro: that)
qed

section \<open>Property\<close>

definition config_ok :: "Config \<Rightarrow> bool" where
  "config_ok cfg =
    (1 \<le> cf_TCPAdminPort cfg \<and> cf_TCPAdminPort cfg \<le> 65535 \<and> cf_SessionTTL cfg = DefaultSessionTTL
     \<and> admin_path_ok (cf_AdminPath cfg) \<and> api_prefix_ok (cf_AdminAPIPrefix cfg)
     \<and> validateAdminPaths (cf_AdminPath cfg) (cf_AdminAPIPrefix cfg) = None
     \<and> (cf_PrometheusMode cfg = PrometheusModeShared \<longrightarrow>
         cf_AdminAPIPrefix cfg \<noteq> ''/metrics'' \<and> cf_AdminPath cfg \<noteq> ''/metrics/'')
     \<and> (cf_PrometheusMode cfg = PrometheusModeDedicated \<longrightarrow>
         (\<exists>host port n. SplitHostPort (cf_PrometheusListenAddr cfg) = Inr (host, port) \<and> Atoi port = Some n
            \<and> 1 \<le> n \<and> n \<le> 65535)))"

lemma config_Parse_ok: "config_Parse uni getenv = Inr cfg \<Longrightarrow> config_ok cfg"
proof (erule config_Parse_cases)
  fix cfg0
  assume p: "parse_prometheus uni getenv cfg0 = Inr cfg"
  note facts = parse_prometheus_cases [OF p]
  have "TrimRightByte ''/metrics/'' CHR ''/'' = ''/metrics''" by (simp add: TrimRightByte_def)
  then have "cf_PrometheusMode cfg = PrometheusModeShared \<Longrightarrow>
      cf_AdminAPIPrefix cfg \<noteq> ''/metrics'' \<and> cf_AdminPath cfg \<noteq> ''/metrics/''"
    using facts(2,3,5) unfolding PrometheusMetricsPath_def by metis
  moreover have "\<exists>host port n. SplitHostPort (cf_PrometheusListenAddr cfg) = Inr (host, port) \<and> Atoi port = Some n
      \<and> 1 \<le> n \<and> n \<le> 65535" if "cf_PrometheusMode cfg = PrometheusModeDedicated"
    using facts(6) [OF that] by (auto simp: validateListenAddr_def split: sum.splits option.splits if_splits)
  moreover assume "1 \<le> cf_TCPAdminPort cfg0" "cf_TCPAdminPort cfg0 \<le> 65535"
    "admin_path_ok (cf_AdminPath cfg0)" "api_prefix_ok (cf_AdminAPIPrefix cfg0)" "cf_SessionTTL cfg0 = DefaultSessionTTL"
    "validateAdminPaths (cf_AdminPath cfg0) (cf_AdminAPIPrefix cfg0) = None"
  ultimately show ?thesis using facts(1-4) by (simp add: config_ok_def)
qed

text \<open>
  whatever the environment holds, a configuration that is accepted has a port from 1 to 65535,
  an admin path between slashes, an API prefix of clean path elements (no dot elements, no final slash) that is
  neither the admin page nor under one of its assets, metrics that do not collide with either in
  shared mode, and a dialable metrics address in dedicated mode.
\<close>

theorem config_Parse_valid:
  assumes "config_Parse uni getenv = Inr cfg"
  shows "config_ok cfg"
  using assms by (rule config_Parse_ok)

definition demo_env :: "string \<Rightarrow> string" where
  "demo_env name = (if name = ''MC_GATEWAY_ADMIN_PATH'' then '' /console//x/../ '' else
     if name = ''MC_GATEWAY_TCP_ADMIN_PORT'' then ''443'' else [])"

lemma demo_env_parses: "\<not> isl (config_Parse id demo_env) \<and> cf_AdminPath (projr (config_Parse id demo_env)) = ''/console/''"
  by code_simp

theorem config_Parse_valid_witness:
  "\<exists>cfg. config_Parse id demo_env = Inr cfg \<and> config_ok cfg \<and> cf_AdminPath cfg = ''/console/''"
  using demo_env_parses config_Parse_valid [of id demo_env]
  by (cases "config_Parse id demo_env") auto

end
