(* ===== verification/Admin_Audit.thy ===== *)
theory Admin_Audit
  imports GoStd
begin

text \<open>
  \<open>src/internal/adminaudit/audit.go\<close> and \<open>src/cmd/gateway/admin_audit.go\<close>: the audit log of the admin
  API and the redaction every entry passes.
\<close>

text \<open>
  The values of Go's type \<open>any\<close> that the admin code passes around.  \<open>AOther\<close> is a value of another
  type, with what it decodes to after \<open>json.Marshal\<close> and \<open>json.Unmarshal\<close>, if both succeed.
\<close>

datatype any =
    ANil
  | ABool bool
  | AInt int
  | AFloat int \<comment> \<open>the integer part, which is all the code uses of a float\<close>
  | ANumber string \<comment> \<open>a \<open>json.Number\<close>\<close>
  | AStr string
  | AStrList "string list"
  | AList "any list"
  | AMap "(string \<times> any) list"
  | AStrMap "(string \<times> string) list"
  | AOther "any option"

section \<open>Redaction\<close>

definition redacted :: string where
  "redacted = ''[REDACTED]''"

definition text_markers :: "string list" where
  "text_markers = [''secret'', ''token'', ''password'', ''credential'', ''authorization'', ''session'', ''packet'']"

definition name_markers :: "string list" where
  "name_markers = [''secret'', ''token'', ''password'', ''credential'', ''authorization'']"

text \<open>\<open>uni\<close> is \<open>strings.ToLower\<close> on text that is not ASCII.\<close>

definition redactAuditText :: "(string \<Rightarrow> string) \<Rightarrow> string \<Rightarrow> string" where
  "redactAuditText uni text =
    (if text = [] then []
     else if list_ex (\<lambda>m. Contains (ToLower uni text) m) text_markers then redacted else text)"

definition isAuditSensitiveName :: "(string \<Rightarrow> string) \<Rightarrow> string \<Rightarrow> bool" where
  "isAuditSensitiveName uni name = list_ex (\<lambda>m. Contains (ToLower uni name) m) name_markers"

fun redactAuditValue :: "(string \<Rightarrow> string) \<Rightarrow> any \<Rightarrow> string \<Rightarrow> any" where
  "redactAuditValue uni value key =
    (if isAuditSensitiveName uni key then AStr redacted
     else (case value of
        AMap m \<Rightarrow> AMap (map (\<lambda>(childKey, child). (childKey, redactAuditValue uni child childKey)) m)
      | AStrMap m \<Rightarrow> AStrMap (map (\<lambda>(childKey, child). (childKey,
          if isAuditSensitiveName uni childKey then redacted else redactAuditText uni child)) m)
      | AList xs \<Rightarrow> AList (map (\<lambda>child. redactAuditValue uni child key) xs)
      | AStr s \<Rightarrow> AStr (redactAuditText uni s)
      | AStrList xs \<Rightarrow> AList (map (\<lambda>s. AStr (redactAuditText uni s)) xs)
      | AOther (Some decoded) \<Rightarrow> redactAuditValue uni decoded key
      | v \<Rightarrow> v))"

declare redactAuditValue.simps [simp del]

section \<open>The log\<close>

record AuditRecord =
  au_ID :: int
  au_Actor :: string
  au_SourceIP :: string
  au_Action :: string
  au_TargetType :: string
  au_TargetID :: string
  au_Success :: bool
  au_Message :: string
  au_MetadataJSON :: string
  au_CreatedAt :: int

text \<open>
  The table, oldest entry first.  \<open>AUTOINCREMENT\<close> gives an id above every id used so far.
  \<open>marshal\<close> is \<open>json.Marshal\<close>, \<open>xerr\<close> the failure of the statement; the database handle may be nil.
\<close>

record audit_log =
  al_rows :: "AuditRecord list"
  al_next :: int

definition RecordWithMetadata ::
  "(string \<Rightarrow> string) \<Rightarrow> (any \<Rightarrow> string result) \<Rightarrow> error option \<Rightarrow> int \<Rightarrow> audit_log option
    \<Rightarrow> string \<Rightarrow> string \<Rightarrow> string \<Rightarrow> string \<Rightarrow> string \<Rightarrow> bool \<Rightarrow> string \<Rightarrow> any \<Rightarrow> audit_log option \<times> error option" where
  "RecordWithMetadata uni marshal xerr now db actor sourceIP action targetType targetID success message metadata =
    (case db of
       None \<Rightarrow> (None, None)
     | Some log \<Rightarrow>
       (case (if metadata = ANil then Inr ''{}'' else marshal (redactAuditValue uni metadata [])) of
          Inl e \<Rightarrow> (db, Some e)
        | Inr metadataJSON \<Rightarrow> (case xerr of
            Some e \<Rightarrow> (db, Some e)
          | None \<Rightarrow> (Some \<lparr>al_rows = al_rows log @ [\<lparr>au_ID = al_next log, au_Actor = actor, au_SourceIP = sourceIP,
              au_Action = action, au_TargetType = targetType, au_TargetID = targetID, au_Success = success,
              au_Message = redactAuditText uni message, au_MetadataJSON = metadataJSON, au_CreatedAt = now\<rparr>],
              al_next = al_next log + 1\<rparr>, None))))"

definition audit_Record ::
  "(string \<Rightarrow> string) \<Rightarrow> error option \<Rightarrow> int \<Rightarrow> audit_log option
    \<Rightarrow> string \<Rightarrow> string \<Rightarrow> string \<Rightarrow> string \<Rightarrow> string \<Rightarrow> bool \<Rightarrow> string \<Rightarrow> audit_log option \<times> error option" where
  "audit_Record uni xerr now db actor sourceIP action targetType targetID success message =
    RecordWithMetadata uni (\<lambda>_. Inr []) xerr now db actor sourceIP action targetType targetID success message ANil"

definition DefaultListLimit :: int where
  "DefaultListLimit = 200"

definition audit_List :: "error option \<Rightarrow> audit_log \<Rightarrow> int \<Rightarrow> AuditRecord list result" where
  "audit_List qerr log limit =
    (let limit = (if limit \<le> 0 then DefaultListLimit else limit) in
     case qerr of
       Some e \<Rightarrow> Inl e
     | None \<Rightarrow> Inr (take (nat limit) (rev (sort_key au_ID (al_rows log)))))"

text \<open>The gateway drops the error of recording: a request never fails because its audit entry did.\<close>

definition recordAudit ::
  "(string \<Rightarrow> string) \<Rightarrow> error option \<Rightarrow> int \<Rightarrow> audit_log option
    \<Rightarrow> string \<Rightarrow> string \<Rightarrow> string \<Rightarrow> string \<Rightarrow> string \<Rightarrow> bool \<Rightarrow> string \<Rightarrow> audit_log option" where
  "recordAudit uni xerr now db actor sourceIP action targetType targetID success message =
    fst (audit_Record uni xerr now db actor sourceIP action targetType targetID success message)"

definition listAuditLogs :: "error option \<Rightarrow> audit_log \<Rightarrow> AuditRecord list result" where
  "listAuditLogs qerr log = audit_List qerr log DefaultListLimit"

section \<open>Lemmas\<close>

text \<open>
  What redaction guarantees of a value stored under a key: a text has no marker in it (or is the
  placeholder), and a sensitive name has nothing but the placeholder under it.
\<close>

definition clean_text :: "(string \<Rightarrow> string) \<Rightarrow> string \<Rightarrow> bool" where
  "clean_text uni s = (s = redacted \<or> \<not> list_ex (\<lambda>m. Contains (ToLower uni s) m) text_markers)"

fun audit_clean :: "(string \<Rightarrow> string) \<Rightarrow> any \<Rightarrow> string \<Rightarrow> bool" where
  "audit_clean uni v key =
    (if isAuditSensitiveName uni key then v = AStr redacted
     else (case v of
        AStr s \<Rightarrow> clean_text uni s
      | AStrList xs \<Rightarrow> list_all (clean_text uni) xs
      | AList xs \<Rightarrow> list_all (\<lambda>x. audit_clean uni x key) xs
      | AMap m \<Rightarrow> list_all (\<lambda>(k, x). audit_clean uni x k) m
      | AStrMap m \<Rightarrow> list_all (\<lambda>(k, s). if isAuditSensitiveName uni k then s = redacted else clean_text uni s) m
      | AOther d \<Rightarrow> d = None
      | _ \<Rightarrow> True))"

declare audit_clean.simps [simp del]

lemma Contains_Nil: "m \<in> set text_markers \<Longrightarrow> \<not> Contains [] m"
  by (auto simp: text_markers_def Contains_iff)

lemma redactAuditText_clean: "clean_text uni (redactAuditText uni s)"
proof (cases "s = []")
  case True
  then show ?thesis
    using Contains_Nil by (auto simp: redactAuditText_def clean_text_def list_ex_iff ToLower_def ascii_def)
next
  case False
  then show ?thesis by (auto simp: redactAuditText_def clean_text_def)
qed

section \<open>Properties\<close>

text \<open>
  redaction reaches every depth of the metadata: after it every text of the value, in nested maps
  and lists and behind values that only decode to them, is free of the markers, and what
  stands under a sensitive name is the placeholder.  Values that cannot be encoded are the only
  ones left as they are.
\<close>

theorem redactAuditValue_clean:
  "audit_clean uni (redactAuditValue uni v key) key"
proof (induction v arbitrary: key rule: any.induct)
  case (AStr s)
  then show ?case by (subst redactAuditValue.simps) (simp add: audit_clean.simps redactAuditText_clean)
next
  case (AStrList xs)
  then show ?case
    by (subst redactAuditValue.simps)
      (auto simp: audit_clean.simps redactAuditText_clean list_all_iff)
next
  case (AList xs)
  then show ?case by (subst redactAuditValue.simps) (auto simp: audit_clean.simps list_all_iff)
next
  case (AMap m)
  have "audit_clean uni (redactAuditValue uni x k) k" if "(k, x) \<in> set m" for k x
    using AMap [OF that, of x k] by (simp add: snds.intros)
  then show ?case
    by (subst redactAuditValue.simps)
      (auto simp: audit_clean.simps [of uni "AMap x" key for x] audit_clean.simps [of uni "AStr redacted" key] list_all_iff)
next
  case (AStrMap m)
  then show ?case by (subst redactAuditValue.simps) (auto simp: audit_clean.simps list_all_iff redactAuditText_clean)
next
  case (AOther d)
  show ?case
  proof (cases d)
    case None
    then show ?thesis by (subst redactAuditValue.simps) (simp add: audit_clean.simps)
  next
    case (Some v)
    with AOther have "audit_clean uni (redactAuditValue uni v key) key" by simp
    moreover have "redactAuditValue uni (AOther d) key = redactAuditValue uni v key"
      by (subst (1 2) redactAuditValue.simps) (auto simp: Some redactAuditValue.simps)
    ultimately show ?thesis by simp
  qed
qed (subst redactAuditValue.simps, simp add: audit_clean.simps)+

text \<open>
  recording an entry keeps all earlier entries, gives the new one a larger id than any before, and
  stores no message with a marker in it; the list shows the newest entries first, at most the
  limit.
\<close>

theorem audit_append_only:
  assumes "\<forall>r \<in> set (al_rows log). au_ID r < al_next log" and "sorted (map au_ID (al_rows log))"
    and "audit_Record uni None now (Some log) actor ip action tt tid ok msg = (Some log', None)"
  shows "\<exists>r. al_rows log' = al_rows log @ [r] \<and> clean_text uni (au_Message r) \<and> au_Actor r = actor
    \<and> (\<forall>q \<in> set (al_rows log). au_ID q < au_ID r)
    \<and> sorted (map au_ID (al_rows log')) \<and> (\<forall>r \<in> set (al_rows log'). au_ID r < al_next log')
    \<and> audit_List None log' limit =
        Inr (take (nat (if limit \<le> 0 then 200 else limit)) (r # rev (al_rows log)))"
proof -
  obtain r where r: "al_rows log' = al_rows log @ [r]" "au_ID r = al_next log" "au_Actor r = actor"
    "clean_text uni (au_Message r)" "al_next log' = al_next log + 1"
    using assms(3) redactAuditText_clean by (auto simp: audit_Record_def RecordWithMetadata_def)
  have s: "sorted (map au_ID (al_rows log'))" using assms(1,2) r by (auto simp: sorted_append less_imp_le)
  have "\<forall>r \<in> set (al_rows log'). au_ID r < al_next log'" using assms(1) r by auto
  moreover have "\<forall>q \<in> set (al_rows log). au_ID q < au_ID r" using assms(1) r(2) by simp
  moreover have "sort_key au_ID (al_rows log') = al_rows log'" using s by (rule sort_key_id_if_sorted)
  ultimately show ?thesis
    using r s by (intro exI [of _ r]) (auto simp: audit_List_def DefaultListLimit_def Let_def)
qed

theorem audit_append_only_witness:
  "\<exists>log' r. audit_Record id None 7 (Some \<lparr>al_rows = [], al_next = 1\<rparr>) ''root'' ''10.0.0.1'' ''login'' ''user'' ''root''
      True ''bad Password'' = (Some log', None) \<and> al_rows log' = [r] \<and> clean_text id (au_Message r)"
proof -
  obtain log' where l: "audit_Record id None 7 (Some \<lparr>al_rows = [], al_next = 1\<rparr>) ''root'' ''10.0.0.1'' ''login''
      ''user'' ''root'' True ''bad Password'' = (Some log', None)"
    by (simp add: audit_Record_def RecordWithMetadata_def)
  from audit_append_only [OF _ _ this] l show ?thesis by auto
qed

end
