(* ===== verification/Admin_Http.thy ===== *)
theory Admin_Http
  imports Admin_Config Admin_Audit
begin

text \<open>
  \<open>src/internal/adminhttp\<close> and \<open>src/cmd/gateway/prometheus.go\<close>: requests and replies, the path segments,
  the route table of the admin API, the handler of the shared port with its patterns, the
  static files and the metrics handler.  \<open>http.ServeMux\<close> is modelled for literal patterns that start with a slash and paths that
  need no escaping.
\<close>

section \<open>Requests and replies\<close>

record request =
  rq_Method :: string
  rq_Path :: string
  rq_RemoteAddr :: string
  rq_Authorization :: string
  rq_Query :: string
  rq_Body :: string

record response =
  rp_Status :: nat
  rp_Body :: any

definition WriteJSON :: "nat \<Rightarrow> any \<Rightarrow> response" where
  "WriteJSON status value = \<lparr>rp_Status = status, rp_Body = value\<rparr>"

definition WriteAPIError :: "nat \<Rightarrow> string \<Rightarrow> response" where
  "WriteAPIError status message = WriteJSON status (AMap [(''error'', AStr message)])"

text \<open>\<open>decode\<close> is the outcome of \<open>json.Decoder.Decode\<close> into the destination type.\<close>

definition DecodeJSONRequest :: "(string \<Rightarrow> 'a result) \<Rightarrow> request \<Rightarrow> response + 'a" where
  "DecodeJSONRequest decode r = (case decode (rq_Body r) of
      Inl e \<Rightarrow> Inl (WriteAPIError 400 (''invalid JSON: '' @ Error e))
    | Inr v \<Rightarrow> Inr v)"

text \<open>\<open>url.PathUnescape\<close>.\<close>

definition hex_val :: "char \<Rightarrow> nat option" where
  "hex_val c = (let n = (of_char c :: nat) in
     if 48 \<le> n \<and> n \<le> 57 then Some (n - 48)
     else if 97 \<le> n \<and> n \<le> 102 then Some (n - 87)
     else if 65 \<le> n \<and> n \<le> 70 then Some (n - 55) else None)"

fun PathUnescape :: "string \<Rightarrow> string result" where
  "PathUnescape [] = Inr []"
| "PathUnescape (c # s) =
    (if c = CHR ''%'' then
       (case s of
          a # b # s' \<Rightarrow> (case (hex_val a, hex_val b) of
              (Some x, Some y) \<Rightarrow> (case PathUnescape s' of
                  Inl e \<Rightarrow> Inl e | Inr t \<Rightarrow> Inr (char_of (16 * x + y) # t))
            | _ \<Rightarrow> Inl (ErrorString (''invalid URL escape '' @ [c, a, b])))
        | _ \<Rightarrow> Inl (ErrorString (''invalid URL escape '' @ c # s)))
     else (case PathUnescape s of Inl e \<Rightarrow> Inl e | Inr t \<Rightarrow> Inr (c # t)))"

definition PathSegment :: "string \<Rightarrow> string result" where
  "PathSegment raw =
    (if raw = [] \<or> Contains raw ''/'' then Inl (ErrorString ''invalid path segment'')
     else (case PathUnescape raw of
         Inl e \<Rightarrow> Inl e
       | Inr value \<Rightarrow> if value = [] \<or> Contains value ''/'' then Inl (ErrorString ''invalid path segment'')
           else Inr value))"

definition RequestSourceIP :: "request \<Rightarrow> string" where
  "RequestSourceIP r = (case SplitHostPort (rq_RemoteAddr r) of
      Inr (host, _) \<Rightarrow> host
    | Inl _ \<Rightarrow> if rq_RemoteAddr r \<noteq> [] then rq_RemoteAddr r else ''unknown'')"

section \<open>The route table of the API\<close>

text \<open>One constructor per field of \<open>APIHandlers\<close>, with the segment where the handler takes one.\<close>

datatype endpoint =
    EpSetupStatus | EpSetup | EpLogin | EpLogout | EpMe | EpStatus
  | EpRoutesList | EpRouteItem string
  | EpServicesList | EpServiceItem string
  | EpMetrics
  | EpUsersList | EpUsersCreate | EpUserItem string
  | EpAuditLogs
  | EpPluginArtifacts | EpPluginArtifact string | EpPluginSources | EpPluginBuilds | EpPluginBuild string
  | EpPluginGC | EpPluginsList | EpPluginItem string | EpPluginAction string | EpPluginConfig string
  | EpPluginSecrets string | EpPluginRollback string | EpPluginOperations string | EpPluginOperationsGC
  | EpPluginDraining string | EpPluginDispatch | EpPluginGovernance string | EpPluginAdvisories
  | EpPluginVulnerabilities | EpPluginDiagnostics string | EpPluginFeatures | EpPluginService
  | EpPluginRepositories | EpPluginSupplyChain | EpPluginInstrumentation | EpPluginPromotions
  | EpNotFound

text \<open>The handler of a path below \<open>/plugins/\<close>.\<close>

definition plugin_endpoint :: "string \<Rightarrow> endpoint" where
  "plugin_endpoint p =
    (let has = (\<lambda>name. Contains p (''/'' @ name @ ''/'') \<or> HasSuffix p (''/'' @ name)) in
     if has ''governance'' then EpPluginGovernance p
     else if has ''operations'' then EpPluginOperations p
     else if HasSuffix p ''/diagnostics'' then EpPluginDiagnostics (TrimSuffix p ''/diagnostics'')
     else if HasSuffix p ''/draining/force-close'' then EpPluginDraining (TrimSuffix p ''/draining/force-close'')
     else if has ''rollback'' then EpPluginRollback p
     else if has ''config'' then EpPluginConfig p
     else if HasSuffix p ''/connection-sessions'' then EpPluginItem p
     else if has ''secrets'' then EpPluginSecrets p
     else if CountByte p CHR ''/'' = 1 then EpPluginAction p
     else EpPluginItem p)"

definition NewAPIHandler :: "string \<Rightarrow> string \<Rightarrow> string \<Rightarrow> endpoint" where
  "NewAPIHandler api method url_path =
    (let path = TrimPrefix url_path api;
         path = (if path = [] then ''/'' else path);
         GET = (method = ''GET''); POST = (method = ''POST'')
     in if path = ''/setup'' \<and> GET then EpSetupStatus
     else if path = ''/setup'' \<and> POST then EpSetup
     else if path = ''/auth/login'' \<and> POST then EpLogin
     else if path = ''/auth/logout'' \<and> POST then EpLogout
     else if path = ''/me'' \<and> GET then EpMe
     else if path = ''/status'' \<and> GET then EpStatus
     else if path = ''/routes'' \<and> GET then EpRoutesList
     else if HasPrefix path ''/routes/'' then EpRouteItem (TrimPrefix path ''/routes/'')
     else if path = ''/services'' \<and> GET then EpServicesList
     else if HasPrefix path ''/services/'' then EpServiceItem (TrimPrefix path ''/services/'')
     else if path = ''/metrics'' \<and> GET then EpMetrics
     else if path = ''/users'' \<and> GET then EpUsersList
     else if path = ''/users'' \<and> POST then EpUsersCreate
     else if HasPrefix path ''/users/'' then EpUserItem (TrimPrefix path ''/users/'')
     else if path = ''/audit-logs'' \<and> GET then EpAuditLogs
     else if path = ''/plugin-artifacts'' \<and> (GET \<or> POST) then EpPluginArtifacts
     else if HasPrefix path ''/plugin-artifacts/'' then EpPluginArtifact (TrimPrefix path ''/plugin-artifacts/'')
     else if path = ''/plugin-sources'' \<and> (GET \<or> POST) then EpPluginSources
     else if path = ''/plugin-builds'' \<and> (GET \<or> POST) then EpPluginBuilds
     else if HasPrefix path ''/plugin-builds/'' then EpPluginBuild (TrimPrefix path ''/plugin-builds/'')
     else if path = ''/plugin-gc'' \<and> (GET \<or> POST) then EpPluginGC
     else if path = ''/plugin-operations-gc'' \<and> (GET \<or> POST) then EpPluginOperationsGC
     else if path = ''/plugins'' \<and> GET then EpPluginsList
     else if path = ''/plugins/dispatch-plan'' \<and> (GET \<or> POST) then EpPluginDispatch
     else if path = ''/plugin-advisories'' \<and> (GET \<or> POST) then EpPluginAdvisories
     else if path = ''/plugin-vulnerabilities'' \<and> (GET \<or> POST) then EpPluginVulnerabilities
     else if path = ''/plugin-features'' \<and> GET then EpPluginFeatures
     else if path = ''/plugin-service'' \<and> (GET \<or> method = ''PUT'' \<or> POST) then EpPluginService
     else if path = ''/plugin-repositories/imports'' \<and> (GET \<or> POST) then EpPluginRepositories
     else if path = ''/plugin-supply-chain'' \<and> (GET \<or> POST) then EpPluginSupplyChain
     else if path = ''/plugin-instrumentation'' \<and> (GET \<or> POST) then EpPluginInstrumentation
     else if path = ''/plugin-promotions'' \<and> POST then EpPluginPromotions
     else if HasPrefix path ''/plugins/'' then plugin_endpoint (TrimPrefix path ''/plugins/'')
     else EpNotFound)"

section \<open>The handler of the shared port\<close>

record GatewayHandlerOptions =
  gh_AdminPath :: string
  gh_AdminAPIPrefix :: string
  gh_StaticDir :: string
  gh_WebSocketEnabled :: bool
  gh_WebSocketPath :: string
  gh_WebSocketHandler :: bool \<comment> \<open>a handler is given\<close>
  gh_PrometheusHandler :: bool

datatype gw_target = TAPI | TAdminRedirect | TAdminStatic | TMetrics | TWebSocket

type_synonym serve_mux = "(string \<times> gw_target) list"

text \<open>\<open>mux.Handle\<close> panics on a pattern that is registered already.\<close>

definition mux_Handle :: "string \<Rightarrow> gw_target \<Rightarrow> serve_mux result \<Rightarrow> serve_mux result" where
  "mux_Handle pat target mux = (case mux of
      Inl e \<Rightarrow> Inl e
    | Inr m \<Rightarrow> if pat \<in> fst ` set m then Inl (Go_panic (''pattern conflicts: '' @ pat)) else Inr (m @ [(pat, target)]))"

definition registerAdminHandlers :: "serve_mux result \<Rightarrow> GatewayHandlerOptions \<Rightarrow> serve_mux result" where
  "registerAdminHandlers mux opts =
    (let adminRoot = TrimRightByte (gh_AdminPath opts) CHR ''/'';
         mux = mux_Handle (gh_AdminAPIPrefix opts) TAPI mux;
         mux = mux_Handle (gh_AdminAPIPrefix opts @ ''/'') TAPI mux;
         mux = (if adminRoot \<noteq> [] then mux_Handle adminRoot TAdminRedirect mux else mux)
     in mux_Handle (gh_AdminPath opts) TAdminStatic mux)"

definition WebSocketPathConflictsWithAdmin :: "string \<Rightarrow> string \<Rightarrow> string \<Rightarrow> bool" where
  "WebSocketPathConflictsWithAdmin webSocketPath adminPath adminAPIPrefix =
    (if webSocketPath = adminPath \<or> webSocketPath = TrimRightByte adminPath CHR ''/'' then True
     else if webSocketPath = adminAPIPrefix \<or> HasPrefix (adminAPIPrefix @ ''/'') (webSocketPath @ ''/'')
     then webSocketPath \<noteq> ''/''
     else False)"

definition NewGatewayHandler :: "GatewayHandlerOptions \<Rightarrow> serve_mux result" where
  "NewGatewayHandler opts =
    (let mux = registerAdminHandlers (Inr []) opts;
         mux = (if gh_PrometheusHandler opts then mux_Handle ''/metrics'' TMetrics mux else mux)
     in if gh_WebSocketEnabled opts \<and> gh_WebSocketHandler opts
           \<and> \<not> WebSocketPathConflictsWithAdmin (gh_WebSocketPath opts) (gh_AdminPath opts) (gh_AdminAPIPrefix opts)
        then mux_Handle (gh_WebSocketPath opts) TWebSocket mux else mux)"

text \<open>Which pattern serves a clean path: the path itself, else the longest registered subtree.\<close>

fun mux_subtree :: "serve_mux \<Rightarrow> string \<Rightarrow> (string \<times> gw_target) option" where
  "mux_subtree [] path = None"
| "mux_subtree ((pat, t) # m) path = (case mux_subtree m path of
      None \<Rightarrow> if HasSuffix pat ''/'' \<and> HasPrefix path pat then Some (pat, t) else None
    | Some (pat', t') \<Rightarrow> if HasSuffix pat ''/'' \<and> HasPrefix path pat \<and> length pat' < length pat
        then Some (pat, t) else Some (pat', t'))"

definition mux_match :: "serve_mux \<Rightarrow> string \<Rightarrow> gw_target option" where
  "mux_match m path = (case map_of m path of
      Some t \<Rightarrow> Some t
    | None \<Rightarrow> map_option snd (mux_subtree m path))"

section \<open>Static files\<close>

definition "staticConfigFile = ''config.js''"
definition "staticIndexFile = ''index.html''"
definition "defaultStaticDir = ''cmd/gateway/admin_static''"

definition cleanStaticPath :: "string \<Rightarrow> string option" where
  "cleanStaticPath rel =
    (if rel = [] then None
     else (let cleaned = path_Clean (''/'' @ rel) in
       if cleaned = ''/'' \<or> HasPrefix cleaned ''/../'' then None
       else (let name = TrimPrefix cleaned ''/'' in if name = staticConfigFile then None else Some name)))"

text \<open>\<open>exists_at\<close>: \<open>os.Stat\<close> succeeds.\<close>

definition staticDir :: "(string \<Rightarrow> bool) \<Rightarrow> (string \<Rightarrow> string) \<Rightarrow> GatewayHandlerOptions \<Rightarrow> string" where
  "staticDir exists_at getenv opts =
    (if TrimSpace (gh_StaticDir opts) \<noteq> [] then gh_StaticDir opts
     else if TrimSpace (getenv ''MC_GATEWAY_ADMIN_STATIC_DIR'') \<noteq> [] then TrimSpace (getenv ''MC_GATEWAY_ADMIN_STATIC_DIR'')
     else if exists_at defaultStaticDir then defaultStaticDir
     else if exists_at ''admin_static'' then ''admin_static''
     else defaultStaticDir)"

datatype static_reply = StMethodNotAllowed | StConfig string | StNotFound | StFile string

text \<open>\<open>is_file\<close>: \<open>os.Stat\<close> succeeds and the entry is not a directory.\<close>

definition serveAdminFile :: "(string \<Rightarrow> bool) \<Rightarrow> string \<Rightarrow> string \<Rightarrow> static_reply" where
  "serveAdminFile is_file dir rel = (case cleanStaticPath rel of
      None \<Rightarrow> StNotFound
    | Some name \<Rightarrow> if is_file (filepath_Join [dir, name]) then StFile (filepath_Join [dir, name]) else StNotFound)"

definition serveAdminStatic :: "(string \<Rightarrow> bool) \<Rightarrow> string \<Rightarrow> request \<Rightarrow> GatewayHandlerOptions \<Rightarrow> static_reply" where
  "serveAdminStatic is_file dir r opts =
    (if rq_Method r \<noteq> ''GET'' \<and> rq_Method r \<noteq> ''HEAD'' then StMethodNotAllowed
     else if rq_Path r = gh_AdminPath opts then serveAdminFile is_file dir staticIndexFile
     else (let rel = TrimPrefix (rq_Path r) (gh_AdminPath opts) in
       if rel = staticConfigFile then StConfig (gh_AdminAPIPrefix opts) else serveAdminFile is_file dir rel))"

section \<open>Metrics over HTTP\<close>

datatype scrape_reply = ScrapeMethodNotAllowed | ScrapeUnauthorized | Scrape

text \<open>\<open>sha256\<close> is the digest; the constant-time comparison of two digests is equality.\<close>

definition validPrometheusBearerToken :: "(string \<Rightarrow> bytes) \<Rightarrow> string \<Rightarrow> string \<Rightarrow> bool" where
  "validPrometheusBearerToken sha256 authorization expected = (sha256 authorization = sha256 (''Bearer '' @ expected))"

definition newPrometheusHandler :: "(string \<Rightarrow> bytes) \<Rightarrow> string \<Rightarrow> request \<Rightarrow> scrape_reply" where
  "newPrometheusHandler sha256 bearerToken r =
    (if rq_Method r \<noteq> ''GET'' \<and> rq_Method r \<noteq> ''HEAD'' then ScrapeMethodNotAllowed
     else if bearerToken \<noteq> [] \<and> \<not> validPrometheusBearerToken sha256 (rq_Authorization r) bearerToken then ScrapeUnauthorized
     else Scrape)"

section \<open>Lemmas\<close>

lemma cleanStaticPath_clean:
  assumes "cleanStaticPath rel = Some name"
  shows "list_all clean_elem (SplitByte name CHR ''/'')" "name \<noteq> staticConfigFile" "name \<noteq> []"
proof -
  obtain es where es: "path_Clean (''/'' @ rel) = CHR ''/'' # JoinWith ''/'' es" "list_all clean_elem es"
    using path_Clean_rooted [of "''/'' @ rel"] by (metis prefix_def)
  have name: "name = JoinWith ''/'' es" and ne: "name \<noteq> staticConfigFile" and "JoinWith ''/'' es \<noteq> []"
    using assms es(1) by (auto simp: cleanStaticPath_def Let_def TrimPrefix_def split: if_splits)
  then have "es \<noteq> []" by auto
  then have "SplitByte name CHR ''/'' = es"
    unfolding name using es(2) by (intro SplitByte_JoinWith) (auto simp: list_all_iff clean_elem_def)
  with es(2) ne name \<open>JoinWith ''/'' es \<noteq> []\<close>
  show "list_all clean_elem (SplitByte name CHR ''/'')" "name \<noteq> staticConfigFile" "name \<noteq> []" by simp_all
qed

lemma PathUnescape_plain: "CHR ''%'' \<notin> set s \<Longrightarrow> PathUnescape s = Inr s"
  by (induction s) auto

lemma PathUnescape_trailing: "CHR ''%'' \<notin> set s \<Longrightarrow> \<exists>e. PathUnescape (s @ ''%'') = Inl e"
  by (induction s) (auto split: sum.splits)

text \<open>What the start-up configuration guarantees of the options.\<close>

definition handler_opts_ok :: "GatewayHandlerOptions \<Rightarrow> bool" where
  "handler_opts_ok opts = (admin_path_ok (gh_AdminPath opts) \<and> api_prefix_ok (gh_AdminAPIPrefix opts)
     \<and> validateAdminPaths (gh_AdminPath opts) (gh_AdminAPIPrefix opts) = None
     \<and> (gh_PrometheusHandler opts \<longrightarrow> gh_AdminAPIPrefix opts \<noteq> ''/metrics'' \<and> gh_AdminPath opts \<noteq> ''/metrics/''))"

definition registers_websocket :: "GatewayHandlerOptions \<Rightarrow> bool" where
  "registers_websocket opts = (gh_WebSocketEnabled opts \<and> gh_WebSocketHandler opts
     \<and> \<not> WebSocketPathConflictsWithAdmin (gh_WebSocketPath opts) (gh_AdminPath opts) (gh_AdminAPIPrefix opts))"

lemma api_prefix_last: "api_prefix_ok p \<Longrightarrow> p \<noteq> [] \<and> last p \<noteq> CHR ''/''"
  by (auto simp: api_prefix_ok_def)

lemma TrimRightByte_last: "TrimRightByte s c \<noteq> [] \<Longrightarrow> last (TrimRightByte s c) \<noteq> c"
  using hd_dropWhile [of "\<lambda>d. d = c" "rev s"] by (auto simp: TrimRightByte_def last_rev)

text \<open>The patterns of the admin pages and of the metrics.\<close>

definition admin_patterns :: "GatewayHandlerOptions \<Rightarrow> serve_mux" where
  "admin_patterns opts =
    (let root = TrimRightByte (gh_AdminPath opts) CHR ''/'' in
     [(gh_AdminAPIPrefix opts, TAPI), (gh_AdminAPIPrefix opts @ ''/'', TAPI)]
     @ (if root \<noteq> [] then [(root, TAdminRedirect)] else []) @ [(gh_AdminPath opts, TAdminStatic)]
     @ (if gh_PrometheusHandler opts then [(''/metrics'', TMetrics)] else []))"

lemma handler_paths:
  assumes "handler_opts_ok opts"
  obtains api root where "gh_AdminAPIPrefix opts = api" "gh_AdminPath opts = root @ ''/''" "TrimRightByte root CHR ''/'' = root"
    "api \<noteq> []" "last api \<noteq> CHR ''/''" "root = [] \<or> last root \<noteq> CHR ''/''" "api \<noteq> root"
    "gh_PrometheusHandler opts \<longrightarrow> api \<noteq> ''/metrics'' \<and> root \<noteq> ''/metrics''" "api_prefix_ok api"
proof -
  let ?root = "TrimRightByte (gh_AdminPath opts) CHR ''/''"
  have page: "gh_AdminPath opts = ?root @ ''/''"
    using assms by (simp add: handler_opts_ok_def admin_path_ok_def)
  have last: "?root = [] \<or> last ?root \<noteq> CHR ''/''" using TrimRightByte_last by blast
  show ?thesis
  proof (rule that [of "gh_AdminAPIPrefix opts" ?root])
    show "TrimRightByte ?root CHR ''/'' = ?root" using last TrimRightByte_keep by (cases "?root = []") simp_all
    show "gh_AdminAPIPrefix opts \<noteq> ?root"
      using assms unfolding handler_opts_ok_def validateAdminPaths_def by (auto split: if_splits)
    show "gh_PrometheusHandler opts \<longrightarrow> gh_AdminAPIPrefix opts \<noteq> ''/metrics'' \<and> ?root \<noteq> ''/metrics''"
      using assms page unfolding handler_opts_ok_def by (metis append.simps(1,2))
  qed (use assms api_prefix_last page last in \<open>simp_all add: handler_opts_ok_def\<close>)
qed

lemma slash_ends: "y = [] \<or> last y \<noteq> CHR ''/'' \<Longrightarrow> x @ ''/'' \<noteq> y" "y = [] \<or> last y \<noteq> CHR ''/'' \<Longrightarrow> y \<noteq> x @ ''/''"
  by auto

lemma metrics_no_slash: "x @ ''/'' \<noteq> ''/metrics''" "''/metrics'' \<noteq> x @ ''/''"
  by (rule slash_ends, simp)+

lemma NewGatewayHandler_eq:
  assumes "handler_opts_ok opts"
  shows "NewGatewayHandler opts = (if registers_websocket opts
     then mux_Handle (gh_WebSocketPath opts) TWebSocket (Inr (admin_patterns opts)) else Inr (admin_patterns opts))"
proof -
  obtain api root where o: "gh_AdminAPIPrefix opts = api" "gh_AdminPath opts = root @ ''/''" "TrimRightByte root CHR ''/'' = root"
    "api \<noteq> []" "last api \<noteq> CHR ''/''" and r: "root = [] \<or> last root \<noteq> CHR ''/''" and ar: "api \<noteq> root"
    and m: "gh_PrometheusHandler opts \<longrightarrow> api \<noteq> ''/metrics'' \<and> root \<noteq> ''/metrics''"
    using handler_paths [OF assms] by metis
  have s: "x @ ''/'' \<noteq> root" "root \<noteq> x @ ''/''" "x @ ''/'' \<noteq> api" "api \<noteq> x @ ''/''" for x
    using r o(4,5) by auto
  note s0 = s(3,4) [of "[]", simplified]
  have "registerAdminHandlers (Inr []) opts = Inr ([(api, TAPI), (api @ ''/'', TAPI)]
      @ (if root \<noteq> [] then [(root, TAdminRedirect)] else []) @ [(root @ ''/'', TAdminStatic)])"
    unfolding registerAdminHandlers_def Let_def o TrimRightByte_snoc
    by (cases "root = []") (use o s s0 ar in \<open>auto simp: mux_Handle_def\<close>)
  then have "(if gh_PrometheusHandler opts then mux_Handle ''/metrics'' TMetrics (registerAdminHandlers (Inr []) opts)
      else registerAdminHandlers (Inr []) opts) = Inr (admin_patterns opts)"
    unfolding admin_patterns_def Let_def o TrimRightByte_snoc using m metrics_no_slash
    by (auto simp: mux_Handle_def)
  then show ?thesis unfolding NewGatewayHandler_def registers_websocket_def Let_def by simp
qed

lemma NewGatewayHandler_panics:
  assumes "handler_opts_ok opts"
  shows "isl (NewGatewayHandler opts) \<longleftrightarrow> gh_WebSocketEnabled opts \<and> gh_WebSocketHandler opts
    \<and> (gh_WebSocketPath opts = gh_AdminAPIPrefix opts @ ''/''
       \<or> gh_PrometheusHandler opts \<and> gh_WebSocketPath opts = ''/metrics''
         \<and> \<not> WebSocketPathConflictsWithAdmin (gh_WebSocketPath opts) (gh_AdminPath opts) (gh_AdminAPIPrefix opts))"
proof -
  obtain api root where o: "gh_AdminAPIPrefix opts = api" "gh_AdminPath opts = root @ ''/''" "TrimRightByte root CHR ''/'' = root"
    "api \<noteq> []" "last api \<noteq> CHR ''/''" and r: "root = [] \<or> last root \<noteq> CHR ''/''" and ar: "api \<noteq> root"
    using handler_paths [OF assms] by metis
  have "\<not> WebSocketPathConflictsWithAdmin (api @ ''/'') (root @ ''/'') api"
    unfolding WebSocketPathConflictsWithAdmin_def TrimRightByte_snoc o(3) using ar slash_ends(1) [OF r]
    by (auto simp: prefix_def)
  moreover have "\<not> WebSocketPathConflictsWithAdmin w (root @ ''/'') api \<Longrightarrow> w \<noteq> api \<and> w \<noteq> root @ ''/'' \<and> w \<noteq> root" for w
    unfolding WebSocketPathConflictsWithAdmin_def TrimRightByte_snoc o(3) using slash_ends(1) [of api "[]"] o(4,5)
    by (auto split: if_splits)
  ultimately show ?thesis
    unfolding NewGatewayHandler_eq [OF assms] registers_websocket_def o
    by (auto simp: mux_Handle_def admin_patterns_def Let_def o(1-3))
qed
lemma mux_subtree_Some:
  "mux_subtree m path = Some (p, t) \<Longrightarrow> (p, t) \<in> set m \<and> HasSuffix p ''/'' \<and> HasPrefix path p
    \<and> (\<forall>(p', t') \<in> set m. HasSuffix p' ''/'' \<longrightarrow> HasPrefix path p' \<longrightarrow> length p' \<le> length p)"
proof (induction m path arbitrary: p t rule: mux_subtree.induct)
  case (2 pat tg m path)
  show ?case
  proof (cases "mux_subtree m path")
    case None
    moreover have "\<forall>(p', t') \<in> set m. \<not> (HasSuffix p' ''/'' \<and> HasPrefix path p')"
      using None by (induction m) (auto split: option.splits if_splits)
    ultimately show ?thesis using 2 by (auto split: if_splits)
  next
    case (Some b)
    obtain p1 t1 where b: "b = (p1, t1)" by fastforce
    note IH = "2.IH" [OF Some [unfolded b]]
    show ?thesis using "2.prems" IH Some b by (fastforce split: if_splits)
  qed
qed simp

lemma mux_subtree_None:
  "mux_subtree m path = None \<Longrightarrow> (p, t) \<in> set m \<Longrightarrow> \<not> (HasSuffix p ''/'' \<and> HasPrefix path p)"
  by (induction m) (auto split: option.splits if_splits)

section \<open>Properties\<close>

text \<open>
  a file that the admin pages serve lies below the static directory: its path consists of the
  elements of the directory followed by at least one element, none of them a dot element.  The
  generated configuration script is never read from disk.
\<close>

theorem static_confined:
  assumes "serveAdminStatic is_file dir r opts = StFile f" "dir \<noteq> []"
  shows "is_file f \<and> (\<exists>es. es \<noteq> [] \<and> list_all clean_elem es \<and> es \<noteq> [''config.js'']
    \<and> f = (if HasPrefix dir ''/'' then ''/'' else []) @ JoinWith ''/'' (path_elems dir @ es))"
proof -
  obtain rel where rel: "serveAdminFile is_file dir rel = StFile f"
    using assms(1) by (auto simp: serveAdminStatic_def Let_def split: if_splits)
  then obtain name where name: "cleanStaticPath rel = Some name" and f: "is_file f" "f = path_Clean (dir @ ''/'' @ name)"
    by (auto simp: serveAdminFile_def filepath_Join_two [OF assms(2)] split: option.splits if_splits)
  note clean = cleanStaticPath_clean [OF name]
  let ?es = "SplitByte name CHR ''/''"
  have elems: "path_elems (dir @ ''/'' @ name) = path_elems dir @ ?es"
    by (rule filepath_Join_elems [OF assms(2) clean(1)])
  have r: "HasPrefix (dir @ ''/'' @ name) ''/'' = HasPrefix dir ''/''" using assms(2) by (cases dir) auto
  have ne: "JoinWith ''/'' (path_elems dir @ ?es) \<noteq> []"
  proof -
    have "xs \<noteq> [] \<Longrightarrow> last xs \<noteq> [] \<Longrightarrow> JoinWith ''/'' xs \<noteq> []" for xs
      by (induction "''/''" xs rule: JoinWith.induct) auto
    then show ?thesis using clean(1) by (auto simp: list_all_iff clean_elem_def)
  qed
  have "?es \<noteq> [''config.js'']"
  proof
    assume "?es = [''config.js'']"
    then have "name = ''config.js''" using JoinWith_SplitByte [of "CHR ''/''" name] by simp
    with clean(2) show False by (simp add: staticConfigFile_def)
  qed
  moreover have "f = (if HasPrefix dir ''/'' then ''/'' else []) @ JoinWith ''/'' (path_elems dir @ ?es)"
    unfolding f(2) path_Clean_elems r elems using ne by simp
  ultimately show ?thesis using f(1) clean(1) by (intro conjI exI [of _ ?es]) simp_all
qed

definition demo_gh :: GatewayHandlerOptions where
  "demo_gh = \<lparr>gh_AdminPath = ''/admin/'', gh_AdminAPIPrefix = ''/admin/api'', gh_StaticDir = ''/srv'',
     gh_WebSocketEnabled = True, gh_WebSocketPath = ''/'', gh_WebSocketHandler = True, gh_PrometheusHandler = True\<rparr>"

definition demo_rq :: "string \<Rightarrow> string \<Rightarrow> request" where
  "demo_rq method path = \<lparr>rq_Method = method, rq_Path = path, rq_RemoteAddr = ''10.0.0.1:5'', rq_Authorization = [],
     rq_Query = [], rq_Body = []\<rparr>"

lemma demo_static: "serveAdminStatic (\<lambda>_. True) ''/srv'' (demo_rq ''GET'' ''/admin/x/../../../etc/passwd'') demo_gh = StFile ''/srv/etc/passwd''"
  by code_simp

theorem static_confined_witness:
  "\<exists>es. es \<noteq> [] \<and> list_all clean_elem es \<and> ''/srv/etc/passwd'' = ''/'' @ JoinWith ''/'' (path_elems ''/srv'' @ es)"
  using static_confined [OF demo_static] by auto

text \<open>
  requests reach the admin API exactly through its prefix.  With the configured paths, and with neither the
  admin page nor the WebSocket path below the prefix, a path is served by the API handler if and only if it
  is the prefix or lies below it.
\<close>

theorem api_reached_iff:
  assumes "handler_opts_ok opts" "NewGatewayHandler opts = Inr m"
    and "\<not> HasPrefix (gh_AdminPath opts) (gh_AdminAPIPrefix opts @ ''/'')"
    and "\<not> HasPrefix (gh_WebSocketPath opts) (gh_AdminAPIPrefix opts @ ''/'')"
  shows "mux_match m path = Some TAPI \<longleftrightarrow> path = gh_AdminAPIPrefix opts \<or> HasPrefix path (gh_AdminAPIPrefix opts @ ''/'')"
proof -
  obtain api root where o: "gh_AdminAPIPrefix opts = api" "gh_AdminPath opts = root @ ''/''" "TrimRightByte root CHR ''/'' = root"
    "api \<noteq> []" "last api \<noteq> CHR ''/''" and ok: "api_prefix_ok api"
    using handler_paths [OF assms(1)] by metis
  let ?rest = "[(root, TAdminRedirect), (root @ ''/'', TAdminStatic), (''/metrics'', TMetrics), (gh_WebSocketPath opts, TWebSocket)]"
  obtain ps where m: "m = (api, TAPI) # (api @ ''/'', TAPI) # ps" and ps: "set ps \<subseteq> set ?rest"
    using assms(2) unfolding NewGatewayHandler_eq [OF assms(1)] admin_patterns_def Let_def o TrimRightByte_snoc
    by (auto simp: mux_Handle_def split: if_splits)
  have below: False if "(p, t) \<in> set ps" "HasPrefix p (api @ ''/'')" for p t
  proof -
    from that(1) ps consider "p = root" | "p = root @ ''/''" | "p = ''/metrics''" | "p = gh_WebSocketPath opts" by auto
    then show False
    proof cases
      case 1
      then show False using that(2) assms(3) by (auto simp: o prefix_def)
    next
      case 3
      from that(2) obtain z where z: "''/metrics'' = api @ ''/'' @ z" by (auto simp: 3 prefix_def)
      obtain y where y: "api = CHR ''/'' # y" using ok by (auto simp: api_prefix_ok_def prefix_def)
      with z have "CHR ''/'' \<in> set ''metrics''" by (simp only: append_Cons list.inject) (metis in_set_conv_decomp append_Cons append_Nil)
      then show False by simp
    qed (use that(2) assms(3,4) in \<open>simp_all add: o\<close>)
  qed
  show ?thesis
  proof (cases "map_of m path")
    case (Some t)
    then have mem: "(path, t) \<in> set m" by (rule map_of_SomeD)
    show ?thesis
    proof (cases "(path, t) \<in> set ps")
      case True
      then have "t \<noteq> TAPI" using ps by auto
      moreover have "path \<noteq> api" using calculation Some m by auto
      ultimately show ?thesis using below [OF True] Some by (auto simp: mux_match_def o)
    next
      case False
      then show ?thesis using mem m Some by (auto simp: mux_match_def o)
    qed
  next
    case None
    then have np: "path \<noteq> api" using m by auto
    show ?thesis
    proof (cases "mux_subtree m path")
      case N: None
      then have "\<not> HasPrefix path (api @ ''/'')" using mux_subtree_None [OF N, of "api @ ''/''" TAPI] m by simp
      then show ?thesis using None N np by (simp add: mux_match_def o)
    next
      case (Some b)
      obtain p t where b: "b = (p, t)" by fastforce
      note sub = mux_subtree_Some [OF Some [unfolded b]]
      have "t = TAPI \<longleftrightarrow> HasPrefix path (api @ ''/'')"
      proof
        assume "t = TAPI"
        then have "p = api @ ''/''" using sub m ps o(4,5) by auto
        then show "HasPrefix path (api @ ''/'')" using sub by simp
      next
        assume h: "HasPrefix path (api @ ''/'')"
        then have "length (api @ ''/'') \<le> length p" using sub m by auto
        then have "HasPrefix p (api @ ''/'')" using sub h prefix_length_prefix by blast
        then have "(p, t) \<notin> set ps" using below by blast
        then show "t = TAPI" using sub m by auto
      qed
      then show ?thesis using None Some b np by (simp add: mux_match_def o)
    qed
  qed
qed

lemma demo_gh_ok: "handler_opts_ok demo_gh"
  by code_simp

lemma demo_gh_mux: "NewGatewayHandler demo_gh = Inr (admin_patterns demo_gh @ [(''/'', TWebSocket)])"
  by code_simp

theorem api_reached_iff_witness:
  "mux_match (admin_patterns demo_gh @ [(''/'', TWebSocket)]) ''/admin/api/users'' = Some TAPI
   \<and> mux_match (admin_patterns demo_gh @ [(''/'', TWebSocket)]) ''/admin/apix'' \<noteq> Some TAPI"
  using api_reached_iff [OF demo_gh_ok demo_gh_mux, of "''/admin/api/users''"]
    api_reached_iff [OF demo_gh_ok demo_gh_mux, of "''/admin/apix''"]
  by (simp add: demo_gh_def)

text \<open>
  a path segment that the API accepts names one thing: it is not empty and has no slash, before and after
  unescaping, and a name without a percent sign is taken literally.  Since the request path was unescaped
  once by then, a name that ends in a percent sign is always refused.
\<close>

theorem PathSegment_single:
  "(PathSegment raw = Inr v \<longrightarrow> v \<noteq> [] \<and> CHR ''/'' \<notin> set v \<and> raw \<noteq> [] \<and> CHR ''/'' \<notin> set raw)
   \<and> (CHR ''%'' \<notin> set raw \<longrightarrow> raw \<noteq> [] \<longrightarrow> CHR ''/'' \<notin> set raw \<longrightarrow> PathSegment raw = Inr raw)
   \<and> (CHR ''%'' \<notin> set raw \<longrightarrow> isl (PathSegment (raw @ ''%'')))"
proof -
  have c: "Contains s ''/'' \<longleftrightarrow> CHR ''/'' \<in> set s" for s
    by (auto simp: Contains_iff in_set_conv_decomp)
  show ?thesis
  proof (intro conjI impI)
    assume "CHR ''%'' \<notin> set raw"
    then obtain e where "PathUnescape (raw @ ''%'') = Inl e" using PathUnescape_trailing by blast
    then show "isl (PathSegment (raw @ ''%''))" by (simp add: PathSegment_def)
  qed (auto simp: PathSegment_def c PathUnescape_plain split: if_splits sum.splits)
qed

theorem PathSegment_single_witness:
  "PathSegment ''mc.example.org'' = Inr ''mc.example.org'' \<and> isl (PathSegment ''50%'')"
  using PathSegment_single [of "''mc.example.org''"] PathSegment_single [of "''50''"] by simp

text \<open>
  with a token configured, metrics are handed out only to a request that carries exactly that token, as long as
  the digest does not collide on the two headers; without a token to every GET and HEAD; other methods never.
\<close>

theorem scrape_needs_token:
  assumes "sha256 (rq_Authorization r) = sha256 (''Bearer '' @ token) \<Longrightarrow> rq_Authorization r = ''Bearer '' @ token"
  shows "newPrometheusHandler sha256 token r = Scrape \<longleftrightarrow>
    rq_Method r \<in> {''GET'', ''HEAD''} \<and> (token = [] \<or> rq_Authorization r = ''Bearer '' @ token)"
  using assms by (auto simp: newPrometheusHandler_def validPrometheusBearerToken_def)

theorem scrape_needs_token_witness:
  "newPrometheusHandler (\<lambda>s. s) ''t'' (demo_rq ''GET'' ''/metrics'') \<noteq> Scrape
   \<and> newPrometheusHandler (\<lambda>s. s) [] (demo_rq ''GET'' ''/metrics'') = Scrape"
  using scrape_needs_token [of "\<lambda>s. s" "demo_rq ''GET'' ''/metrics''" "''t''"]
    scrape_needs_token [of "\<lambda>s. s" "demo_rq ''GET'' ''/metrics''" "[]"]
  by (simp add: demo_rq_def)
end
