(* ===== verification/Admin_User.thy ===== *)
theory Admin_User
  imports GoStd Tables
begin

text \<open>
  \<open>src/internal/adminuser\<close> and \<open>src/cmd/gateway/admin_users.go\<close>: the accounts of the admin API, their
  roles, and the rule that the last enabled administrator cannot be removed.  The password
  hash (bcrypt) is a parameter.
\<close>

section \<open>Roles and validation\<close>

definition "RoleAdmin = ''admin''"
definition "RoleMember = ''member''"
definition "RoleGuest = ''guest''"

lemmas role_consts = RoleAdmin_def RoleMember_def RoleGuest_def

record User =
  ur_Username :: string
  ur_Role :: string
  ur_Disabled :: bool
  ur_CreatedAt :: int
  ur_UpdatedAt :: int

definition ValidateUsername :: "string \<Rightarrow> error option" where
  "ValidateUsername username =
    (if username = [] then Some (ErrorString ''username is required'')
     else if ContainsAny username [CHR '' '', CHR 0x09, CHR 0x0D, CHR 0x0A, CHR ''/'']
     then Some (ErrorString ''username must not contain whitespace or /'')
     else None)"

text \<open>The message renders the role with \<open>%q\<close>; the rendering is left out.\<close>

definition ValidateRole :: "string \<Rightarrow> error option" where
  "ValidateRole role =
    (if role = RoleAdmin \<or> role = RoleMember \<or> role = RoleGuest then None
     else Some (ErrorString ''invalid role''))"

definition ValidatePassword :: "string \<Rightarrow> error option" where
  "ValidatePassword password =
    (if TrimSpace password = [] then Some (ErrorString ''password is required'') else None)"

definition RoleRank :: "string \<Rightarrow> int" where
  "RoleRank role = (if role = RoleAdmin then 3 else if role = RoleMember then 2
     else if role = RoleGuest then 1 else 0)"

definition HasRole :: "string \<Rightarrow> string \<Rightarrow> bool" where
  "HasRole actual required = (RoleRank required \<le> RoleRank actual)"

definition Permissions :: "string \<Rightarrow> (string \<times> bool) list" where
  "Permissions role = [(''read_routes'', HasRole role RoleGuest), (''write_routes'', HasRole role RoleMember),
     (''read_status'', HasRole role RoleMember), (''read_plugins'', HasRole role RoleMember),
     (''manage_plugins'', HasRole role RoleAdmin), (''manage_users'', HasRole role RoleAdmin),
     (''manage_services'', HasRole role RoleAdmin)]"

section \<open>The repository\<close>

record UserRow =
  uw_username :: string
  uw_role :: string
  uw_password_hash :: string
  uw_disabled :: int
  uw_created_at :: int
  uw_updated_at :: int

type_synonym users = "UserRow list"

definition bool_to_int :: "bool \<Rightarrow> int" where
  "bool_to_int value = (if value then 1 else 0)"

definition user_of_row :: "UserRow \<Rightarrow> User" where
  "user_of_row r = \<lparr>ur_Username = uw_username r, ur_Role = uw_role r, ur_Disabled = (uw_disabled r \<noteq> 0),
     ur_CreatedAt = uw_created_at r, ur_UpdatedAt = uw_updated_at r\<rparr>"

definition TableEmpty :: "error option \<Rightarrow> users \<Rightarrow> bool result" where
  "TableEmpty qerr rows = (case qerr of Some e \<Rightarrow> Inl e | None \<Rightarrow> Inr (length rows = 0))"

text \<open>An \<open>INSERT\<close> on a name that exists violates the primary key.\<close>

definition user_Create ::
  "error option \<Rightarrow> int \<Rightarrow> users \<Rightarrow> string \<Rightarrow> string \<Rightarrow> string \<Rightarrow> bool \<Rightarrow> users \<times> error option" where
  "user_Create xerr now rows username role passwordHash disabled =
    (let username = TrimSpace username in
     case ValidateUsername username of
       Some e \<Rightarrow> (rows, Some e)
     | None \<Rightarrow> (case ValidateRole role of
         Some e \<Rightarrow> (rows, Some e)
       | None \<Rightarrow>
           (if TrimSpace passwordHash = [] then (rows, Some (ErrorString ''password hash is required''))
            else (case xerr of
                Some e \<Rightarrow> (rows, Some e)
              | None \<Rightarrow> (case row_insert uw_username \<lparr>uw_username = username, uw_role = role,
                    uw_password_hash = passwordHash, uw_disabled = bool_to_int disabled, uw_created_at = now,
                    uw_updated_at = now\<rparr> rows of
                  None \<Rightarrow> (rows, Some (ErrorString ''UNIQUE constraint failed: users.username''))
                | Some rows' \<Rightarrow> (rows', None))))))"

definition getWithHash :: "error option \<Rightarrow> users \<Rightarrow> string \<Rightarrow> string \<Rightarrow> (User \<times> string) result" where
  "getWithHash qerr rows username notFoundMessage = (case qerr of
      Some e \<Rightarrow> Inl e
    | None \<Rightarrow> (case row_select uw_username username rows of
        None \<Rightarrow> Inl (ErrorString notFoundMessage)
      | Some r \<Rightarrow> Inr (user_of_row r, uw_password_hash r)))"

definition GetWithHash :: "error option \<Rightarrow> users \<Rightarrow> string \<Rightarrow> (User \<times> string) result" where
  "GetWithHash qerr rows username = getWithHash qerr rows username ''invalid username or password''"

definition user_List :: "error option \<Rightarrow> users \<Rightarrow> User list result" where
  "user_List qerr rows = (case qerr of
      Some e \<Rightarrow> Inl e
    | None \<Rightarrow> Inr (map user_of_row (sort_key uw_username rows)))"

definition enabledAdminCount :: "error option \<Rightarrow> users \<Rightarrow> string \<Rightarrow> nat result" where
  "enabledAdminCount qerr rows excluding = (case qerr of
      Some e \<Rightarrow> Inl e
    | None \<Rightarrow> Inr (length (filter (\<lambda>r. uw_role r = RoleAdmin \<and> uw_disabled r = 0 \<and> uw_username r \<noteq> excluding) rows)))"

text \<open>The failures the steps of \<open>Patch\<close> and \<open>Delete\<close> can meet.\<close>

record user_io =
  ui_begin :: "error option"
  ui_select :: "error option"
  ui_count :: "error option"
  ui_exec :: "error option"
  ui_commit :: "error option"

record Patch =
  pt_Role :: "string option"
  pt_Disabled :: "bool option"
  pt_PasswordHashProvider :: "(string result) option" \<comment> \<open>what the provider returns, if there is one\<close>

text \<open>The statement of a patch: the columns \<open>sets\<close> names.\<close>

definition patch_row :: "int \<Rightarrow> string \<Rightarrow> bool \<Rightarrow> string option \<Rightarrow> UserRow \<Rightarrow> UserRow" where
  "patch_row now role disabled hash r =
    (let r = r\<lparr>uw_role := role, uw_disabled := bool_to_int disabled, uw_updated_at := now\<rparr>
     in case hash of None \<Rightarrow> r | Some h \<Rightarrow> r\<lparr>uw_password_hash := h\<rparr>)"

definition commit_users :: "user_io \<Rightarrow> users \<Rightarrow> users \<Rightarrow> 'a \<Rightarrow> users \<times> 'a result" where
  "commit_users io rows rows' res = (case ui_exec io of
      Some e \<Rightarrow> (rows, Inl e)
    | None \<Rightarrow> (case ui_commit io of Some e \<Rightarrow> (rows, Inl e) | None \<Rightarrow> (rows', Inr res)))"

text \<open>\<open>Patch\<close>: the new table and whether the user's sessions have to go, or the error.\<close>

definition user_Patch :: "user_io \<Rightarrow> int \<Rightarrow> users \<Rightarrow> string \<Rightarrow> Patch \<Rightarrow> users \<times> bool result" where
  "user_Patch io now rows username patch =
    (let username = TrimSpace username in
     case ValidateUsername username of
       Some e \<Rightarrow> (rows, Inl e)
     | None \<Rightarrow> (case ui_begin io of Some e \<Rightarrow> (rows, Inl e) | None \<Rightarrow>
       (case getWithHash (ui_select io) rows username ''user not found'' of
         Inl e \<Rightarrow> (rows, Inl e)
       | Inr (current, _) \<Rightarrow>
         (case (case pt_Role patch of None \<Rightarrow> None | Some r \<Rightarrow> ValidateRole r) of
            Some e \<Rightarrow> (rows, Inl e)
          | None \<Rightarrow>
            (let nextRole = (case pt_Role patch of None \<Rightarrow> ur_Role current | Some r \<Rightarrow> r);
                 nextDisabled = (case pt_Disabled patch of None \<Rightarrow> ur_Disabled current | Some d \<Rightarrow> d);
                 guard = (if ur_Role current = RoleAdmin \<and> (nextRole \<noteq> RoleAdmin \<or> nextDisabled)
                          then (case enabledAdminCount (ui_count io) rows username of
                                  Inl e \<Rightarrow> Some e
                                | Inr count \<Rightarrow> if count = 0
                                    then Some (ErrorString ''cannot remove the last enabled admin'') else None)
                          else None)
             in case guard of
               Some e \<Rightarrow> (rows, Inl e)
             | None \<Rightarrow> (case pt_PasswordHashProvider patch of
                 Some (Inl e) \<Rightarrow> (rows, Inl e)
               | Some (Inr h) \<Rightarrow>
                   (if TrimSpace h = [] then (rows, Inl (ErrorString ''password hash is required''))
                    else commit_users io rows
                      (row_update uw_username username (patch_row now nextRole nextDisabled (Some h)) rows) True)
               | None \<Rightarrow> commit_users io rows
                   (row_update uw_username username (patch_row now nextRole nextDisabled None) rows)
                   (nextDisabled \<or> nextRole \<noteq> ur_Role current)))))))"

definition user_Delete :: "user_io \<Rightarrow> users \<Rightarrow> string \<Rightarrow> users \<times> unit result" where
  "user_Delete io rows username =
    (let username = TrimSpace username in
     case ValidateUsername username of
       Some e \<Rightarrow> (rows, Inl e)
     | None \<Rightarrow> (case ui_begin io of Some e \<Rightarrow> (rows, Inl e) | None \<Rightarrow>
       (case getWithHash (ui_select io) rows username ''user not found'' of
         Inl e \<Rightarrow> (rows, Inl e)
       | Inr (current, _) \<Rightarrow>
           (case (if ur_Role current = RoleAdmin
                  then (case enabledAdminCount (ui_count io) rows username of
                          Inl e \<Rightarrow> Some e
                        | Inr count \<Rightarrow> if count = 0
                            then Some (ErrorString ''cannot delete the last enabled admin'') else None)
                  else None) of
              Some e \<Rightarrow> (rows, Inl e)
            | None \<Rightarrow> commit_users io rows (row_delete uw_username username rows) ()))))"

section \<open>The gateway's operations\<close>

text \<open>\<open>hashPassword\<close> and the comparison are bcrypt's; both are parameters.\<close>

definition createUser ::
  "(string \<Rightarrow> string result) \<Rightarrow> error option \<Rightarrow> int \<Rightarrow> users \<Rightarrow> string \<Rightarrow> string \<Rightarrow> string \<Rightarrow> bool \<Rightarrow> users \<times> error option" where
  "createUser hashPassword xerr now rows username role password disabled =
    (let username = TrimSpace username in
     case ValidateUsername username of
       Some e \<Rightarrow> (rows, Some e)
     | None \<Rightarrow> (case ValidateRole role of
         Some e \<Rightarrow> (rows, Some e)
       | None \<Rightarrow> (case ValidatePassword password of
           Some e \<Rightarrow> (rows, Some e)
         | None \<Rightarrow> (case hashPassword password of
             Inl e \<Rightarrow> (rows, Some e)
           | Inr hash \<Rightarrow> user_Create xerr now rows username role hash disabled))))"

definition ensureInitialAdminFromEnv ::
  "(string \<Rightarrow> string result) \<Rightarrow> error option \<Rightarrow> error option \<Rightarrow> int \<Rightarrow> users \<Rightarrow> string \<Rightarrow> users \<times> error option" where
  "ensureInitialAdminFromEnv hashPassword qerr xerr now rows password =
    (if TrimSpace password = [] then (rows, None)
     else (case TableEmpty qerr rows of
        Inl e \<Rightarrow> (rows, Some e)
      | Inr False \<Rightarrow> (rows, None)
      | Inr True \<Rightarrow> createUser hashPassword xerr now rows ''admin'' RoleAdmin password False))"

definition createInitialAdmin ::
  "(string \<Rightarrow> string result) \<Rightarrow> error option \<Rightarrow> error option \<Rightarrow> int \<Rightarrow> users \<Rightarrow> string \<Rightarrow> string \<Rightarrow> users \<times> error option" where
  "createInitialAdmin hashPassword qerr xerr now rows username password = (case TableEmpty qerr rows of
      Inl e \<Rightarrow> (rows, Some e)
    | Inr False \<Rightarrow> (rows, Some (ErrorString ''initial admin has already been created''))
    | Inr True \<Rightarrow> createUser hashPassword xerr now rows username RoleAdmin password False)"

definition authenticateUser ::
  "(string \<Rightarrow> string \<Rightarrow> bool) \<Rightarrow> error option \<Rightarrow> users \<Rightarrow> string \<Rightarrow> string \<Rightarrow> User result" where
  "authenticateUser compareHash qerr rows username password = (case GetWithHash qerr rows username of
      Inl e \<Rightarrow> Inl e
    | Inr (user, hash) \<Rightarrow>
        (if ur_Disabled user then Inl (ErrorString ''user is disabled'')
         else if compareHash hash password then Inr user
         else Inl (ErrorString ''invalid username or password'')))"

text \<open>What \<open>patchUser\<close> hands to \<open>Patch\<close> as the provider of the new hash.\<close>

definition hash_provider :: "(string \<Rightarrow> string result) \<Rightarrow> string option \<Rightarrow> (string result) option" where
  "hash_provider hashPassword password = map_option (\<lambda>p. case ValidatePassword p of
      Some e \<Rightarrow> Inl e | None \<Rightarrow> hashPassword p) password"

section \<open>Lemmas\<close>

definition enabled_admin :: "UserRow \<Rightarrow> bool" where
  "enabled_admin r = (uw_role r = RoleAdmin \<and> uw_disabled r = 0)"

definition row_ok :: "UserRow \<Rightarrow> bool" where
  "row_ok r = (ValidateUsername (uw_username r) = None \<and> ValidateRole (uw_role r) = None
     \<and> TrimSpace (uw_password_hash r) \<noteq> [] \<and> uw_disabled r \<in> {0, 1})"

definition users_inv :: "users \<Rightarrow> bool" where
  "users_inv rows = (unique_keys uw_username rows \<and> (\<forall>r \<in> set rows. row_ok r))"

lemma patch_row_simps [simp]:
  "uw_username (patch_row now role d h r) = uw_username r" "uw_role (patch_row now role d h r) = role"
  "uw_disabled (patch_row now role d h r) = bool_to_int d"
  "uw_password_hash (patch_row now role d h r) = (case h of None \<Rightarrow> uw_password_hash r | Some h \<Rightarrow> h)"
  by (simp_all add: patch_row_def Let_def split: option.splits)

lemma bool_to_int_simps [simp]: "bool_to_int b = 0 \<longleftrightarrow> \<not> b" "bool_to_int b \<in> {0, 1}"
  by (simp_all add: bool_to_int_def)

lemma user_of_row_simps [simp]:
  "ur_Username (user_of_row r) = uw_username r" "ur_Role (user_of_row r) = uw_role r"
  "ur_Disabled (user_of_row r) = (uw_disabled r \<noteq> 0)"
  by (simp_all add: user_of_row_def)

lemma user_Create_cases:
  assumes "user_Create xerr now rows username role h d = (rows', r)"
  shows "r \<noteq> None \<and> rows' = rows \<or> (\<exists>row. r = None \<and> rows' = rows @ [row] \<and> uw_role row = role
    \<and> uw_username row = TrimSpace username \<and> row_select uw_username (TrimSpace username) rows = None
    \<and> ValidateUsername (uw_username row) = None \<and> ValidateRole (uw_role row) = None
    \<and> TrimSpace (uw_password_hash row) \<noteq> [] \<and> uw_disabled row = bool_to_int d)"
  using assms
  by (cases r) (auto simp: user_Create_def row_insert_def Let_def split: option.splits if_splits)

lemma user_Patch_cases:
  assumes "user_Patch io now rows username patch = (rows', r)"
  obtains (error) e where "r = Inl e" "rows' = rows"
  | (ok) cur role d h inval where "row_select uw_username (TrimSpace username) rows = Some cur"
    "rows' = row_update uw_username (TrimSpace username) (patch_row now role d h) rows" "r = Inr inval"
    "role = (case pt_Role patch of None \<Rightarrow> uw_role cur | Some r \<Rightarrow> r)"
    "d = (case pt_Disabled patch of None \<Rightarrow> uw_disabled cur \<noteq> 0 | Some d \<Rightarrow> d)"
    "\<forall>r. pt_Role patch = Some r \<longrightarrow> ValidateRole r = None"
    "\<forall>h'. h = Some h' \<longrightarrow> TrimSpace h' \<noteq> []"
    "(h = None) = (pt_PasswordHashProvider patch = None)"
    "inval = (d \<or> role \<noteq> uw_role cur \<or> pt_PasswordHashProvider patch \<noteq> None)"
    "uw_role cur = RoleAdmin \<longrightarrow> role \<noteq> RoleAdmin \<or> d \<longrightarrow>
      (\<exists>r \<in> set rows. enabled_admin r \<and> uw_username r \<noteq> TrimSpace username)"
proof (cases r)
  case (Inl e)
  have "rows' = rows"
    using assms Inl by (auto simp: user_Patch_def commit_users_def Let_def split: option.splits sum.splits if_splits prod.splits)
  with Inl show ?thesis by (rule error)
next
  case (Inr inval)
  define u where "u = TrimSpace username"
  have pre: "ValidateUsername u = None" "ui_begin io = None" "ui_select io = None"
      "\<exists>cur. row_select uw_username u rows = Some cur"
    using assms Inr unfolding user_Patch_def u_def [symmetric] getWithHash_def
    by (auto simp: Let_def split: option.splits sum.splits)
  then obtain cur where cur: "row_select uw_username u rows = Some cur" by blast
  define role where "role = (case pt_Role patch of None \<Rightarrow> uw_role cur | Some r \<Rightarrow> r)"
  define d where "d = (case pt_Disabled patch of None \<Rightarrow> uw_disabled cur \<noteq> 0 | Some d \<Rightarrow> d)"
  define h where "h = (case pt_PasswordHashProvider patch of Some (Inr h) \<Rightarrow> Some h | _ \<Rightarrow> None)"
  have vr: "\<forall>r. pt_Role patch = Some r \<longrightarrow> ValidateRole r = None"
    using assms Inr by (auto simp: user_Patch_def Let_def split: option.splits sum.splits)
  then have vr': "(case pt_Role patch of None \<Rightarrow> None | Some r \<Rightarrow> ValidateRole r) = None"
    by (simp split: option.split)
  have step: "user_Patch io now rows username patch =
    (case (if uw_role cur = RoleAdmin \<and> (role \<noteq> RoleAdmin \<or> d)
        then (case enabledAdminCount (ui_count io) rows u of
                Inl e \<Rightarrow> Some e
              | Inr count \<Rightarrow> if count = 0 then Some (ErrorString ''cannot remove the last enabled admin'') else None)
        else None) of
       Some e \<Rightarrow> (rows, Inl e)
     | None \<Rightarrow> (case pt_PasswordHashProvider patch of
         Some (Inl e) \<Rightarrow> (rows, Inl e)
       | Some (Inr h) \<Rightarrow> (if TrimSpace h = [] then (rows, Inl (ErrorString ''password hash is required''))
            else commit_users io rows (row_update uw_username u (patch_row now role d (Some h)) rows) True)
       | None \<Rightarrow> commit_users io rows (row_update uw_username u (patch_row now role d None) rows)
           (d \<or> role \<noteq> uw_role cur)))"
    unfolding user_Patch_def u_def [symmetric] getWithHash_def Let_def pre cur option.case prod.case sum.case vr'
      user_of_row_simps role_def [symmetric] d_def [symmetric] ..
  have guard: "uw_role cur = RoleAdmin \<longrightarrow> role \<noteq> RoleAdmin \<or> d \<longrightarrow>
      (\<exists>r \<in> set rows. enabled_admin r \<and> uw_username r \<noteq> u)"
    using assms Inr unfolding step
    by (auto simp: enabledAdminCount_def enabled_admin_def filter_empty_conv split: option.splits if_splits)
  have res: "rows' = row_update uw_username u (patch_row now role d h) rows"
    "\<forall>h'. h = Some h' \<longrightarrow> TrimSpace h' \<noteq> []" "(h = None) = (pt_PasswordHashProvider patch = None)"
    "inval = (d \<or> role \<noteq> uw_role cur \<or> pt_PasswordHashProvider patch \<noteq> None)"
    using assms Inr unfolding step h_def
    by (auto simp: commit_users_def split: option.splits sum.splits if_splits)
  show ?thesis
    by (rule ok [OF cur [unfolded u_def] res(1) [unfolded u_def] Inr role_def d_def vr res(2-4) guard [unfolded u_def]])
qed

lemma user_Delete_cases:
  assumes "user_Delete io rows username = (rows', r)"
  shows "(\<exists>e. r = Inl e) \<and> rows' = rows \<or> r = Inr () \<and> rows' = row_delete uw_username (TrimSpace username) rows \<and>
    (\<exists>cur. row_select uw_username (TrimSpace username) rows = Some cur \<and> (uw_role cur = RoleAdmin \<longrightarrow>
      (\<exists>r \<in> set rows. enabled_admin r \<and> uw_username r \<noteq> TrimSpace username)))"
proof (cases r)
  case (Inl e)
  then show ?thesis using assms
    by (auto simp: user_Delete_def commit_users_def Let_def split: option.splits sum.splits if_splits prod.splits)
next
  case (Inr x)
  define u where "u = TrimSpace username"
  obtain cur where cur: "row_select uw_username u rows = Some cur"
    using assms Inr by (auto simp: user_Delete_def getWithHash_def u_def Let_def split: option.splits sum.splits)
  show ?thesis
    using assms Inr cur
    by (auto simp: user_Delete_def getWithHash_def u_def [symmetric] Let_def user_of_row_def commit_users_def
        enabledAdminCount_def enabled_admin_def filter_empty_conv split: option.splits sum.splits if_splits)
qed

section \<open>Any sequence of operations\<close>

datatype user_op =
    OpCreate "error option" int string string string bool
  | OpPatch user_io int string Patch
  | OpDelete user_io string

fun user_step :: "user_op \<Rightarrow> users \<Rightarrow> users" where
  "user_step (OpCreate xerr now username role h d) rows = fst (user_Create xerr now rows username role h d)"
| "user_step (OpPatch io now username patch) rows = fst (user_Patch io now rows username patch)"
| "user_step (OpDelete io username) rows = fst (user_Delete io rows username)"

lemma users_inv_update:
  assumes "users_inv rows" "row_select uw_username u rows = Some cur"
    and "ValidateRole role = None" "\<forall>h'. h = Some h' \<longrightarrow> TrimSpace h' \<noteq> []"
  shows "users_inv (row_update uw_username u (patch_row now role d h) rows)"
proof -
  have "row_ok (patch_row now role d h r)" if "row_ok r" for r
    using that assms(3,4) by (auto simp: row_ok_def bool_to_int_def split: option.split)
  moreover have "map uw_username (row_update uw_username u (patch_row now role d h) rows) = map uw_username rows"
    by (rule keys_row_update) simp
  moreover have "\<forall>r \<in> set (row_update uw_username u (patch_row now role d h) rows). row_ok r"
    using assms(1) calculation(1) by (auto simp: users_inv_def row_update_def)
  ultimately show ?thesis using assms(1) by (simp only: users_inv_def)
qed

lemma user_step_inv: "users_inv rows \<Longrightarrow> users_inv (user_step op rows)"
proof (cases op)
  case (OpCreate xerr now username role h d)
  assume inv: "users_inv rows"
  obtain rows' r where c: "user_Create xerr now rows username role h d = (rows', r)" by fastforce
  from user_Create_cases [OF c] show ?thesis
  proof
    assume "r \<noteq> None \<and> rows' = rows"
    with inv c OpCreate show ?thesis by simp
  next
    assume "\<exists>row. r = None \<and> rows' = rows @ [row] \<and> uw_role row = role
      \<and> uw_username row = TrimSpace username \<and> row_select uw_username (TrimSpace username) rows = None
      \<and> ValidateUsername (uw_username row) = None \<and> ValidateRole (uw_role row) = None
      \<and> TrimSpace (uw_password_hash row) \<noteq> [] \<and> uw_disabled row = bool_to_int d"
    then obtain row where row: "rows' = rows @ [row]" "row_select uw_username (uw_username row) rows = None" "row_ok row"
      by (auto simp: row_ok_def bool_to_int_def)
    with inv have "users_inv rows'" by (simp add: users_inv_def row_select_None)
    with c OpCreate show ?thesis by simp
  qed
next
  case (OpPatch io now username patch)
  assume inv: "users_inv rows"
  obtain rows' r where c: "user_Patch io now rows username patch = (rows', r)" by fastforce
  then show ?thesis
  proof (cases rule: user_Patch_cases)
    case (error e)
    with inv c OpPatch show ?thesis by simp
  next
    case (ok cur role d h inval)
    have "cur \<in> set rows" using row_select_Some [OF ok(1)] by simp
    with inv ok(4,6) have "ValidateRole role = None"
      by (auto simp: users_inv_def row_ok_def split: option.splits)
    from users_inv_update [OF inv ok(1) this ok(7)] ok(2) c OpPatch show ?thesis by simp
  qed
next
  case (OpDelete io username)
  assume inv: "users_inv rows"
  obtain rows' r where c: "user_Delete io rows username = (rows', r)" by fastforce
  from user_Delete_cases [OF c] inv c OpDelete show ?thesis
    by (auto simp: users_inv_def row_delete_def distinct_map_filter)
qed

lemma user_step_admin:
  assumes "users_inv rows" "\<exists>r \<in> set rows. enabled_admin r"
  shows "\<exists>r \<in> set (user_step op rows). enabled_admin r"
proof (cases op)
  case (OpCreate xerr now username role h d)
  obtain rows' r where c: "user_Create xerr now rows username role h d = (rows', r)" by fastforce
  from user_Create_cases [OF c] assms(2) c OpCreate show ?thesis by auto
next
  case (OpPatch io now username patch)
  obtain rows' r where c: "user_Patch io now rows username patch = (rows', r)" by fastforce
  then show ?thesis
  proof (cases rule: user_Patch_cases)
    case (error e)
    with assms(2) c OpPatch show ?thesis by simp
  next
    case (ok cur role d h inval)
    let ?u = "TrimSpace username"
    have other: "\<exists>r \<in> set rows'. enabled_admin r" if "r \<in> set rows" "enabled_admin r" "uw_username r \<noteq> ?u" for r
      using that ok(2) by (force simp: row_update_def)
    have cur: "cur \<in> set rows" "uw_username cur = ?u" using row_select_Some [OF ok(1)] by auto
    have "\<exists>r \<in> set rows'. enabled_admin r"
    proof (cases "\<exists>r \<in> set rows. enabled_admin r \<and> uw_username r \<noteq> ?u")
      case True
      with other show ?thesis by blast
    next
      case False
      with assms(2) obtain r where r: "r \<in> set rows" "enabled_admin r" "uw_username r = ?u" by blast
      moreover have "r = cur"
        using r cur assms(1) by (simp add: users_inv_def distinct_map inj_on_def)
      ultimately have "uw_role cur = RoleAdmin" by (simp add: enabled_admin_def)
      with ok(10) False have "role = RoleAdmin" "\<not> d" by auto
      then have "enabled_admin (patch_row now role d h cur)" by (simp add: enabled_admin_def)
      moreover have "patch_row now role d h cur \<in> set rows'" using cur ok(2) by (force simp: row_update_def)
      ultimately show ?thesis by blast
    qed
    with c OpPatch show ?thesis by simp
  qed
next
  case (OpDelete io username)
  obtain rows' r where c: "user_Delete io rows username = (rows', r)" by fastforce
  let ?u = "TrimSpace username"
  from user_Delete_cases [OF c] have "\<exists>r \<in> set rows'. enabled_admin r"
  proof
    assume "(\<exists>e. r = Inl e) \<and> rows' = rows"
    with assms(2) show ?thesis by simp
  next
    assume del: "r = Inr () \<and> rows' = row_delete uw_username ?u rows \<and>
      (\<exists>cur. row_select uw_username ?u rows = Some cur \<and> (uw_role cur = RoleAdmin \<longrightarrow>
        (\<exists>r \<in> set rows. enabled_admin r \<and> uw_username r \<noteq> ?u)))"
    then obtain cur where cur: "cur \<in> set rows" "uw_username cur = ?u"
      "uw_role cur = RoleAdmin \<longrightarrow> (\<exists>r \<in> set rows. enabled_admin r \<and> uw_username r \<noteq> ?u)"
      by (auto dest!: row_select_Some)
    from assms(2) obtain a where a: "a \<in> set rows" "enabled_admin a" by blast
    have "\<exists>r \<in> set rows. enabled_admin r \<and> uw_username r \<noteq> ?u"
    proof (cases "uw_username a = ?u")
      case True
      with a cur assms(1) have "a = cur" by (simp add: users_inv_def distinct_map inj_on_def)
      with a cur(3) show ?thesis by (simp add: enabled_admin_def)
    qed (use a in blast)
    with del show ?thesis by (auto simp: row_delete_def)
  qed
  with c OpDelete show ?thesis by simp
qed

section \<open>Properties\<close>

text \<open>
  C5: once there is an enabled administrator, no sequence of account operations, with any failures
  of the database, any patches and any deletions, leaves the gateway without one; user names
  stay unique and valid, roles known and hashes non-empty.
\<close>

theorem admin_never_locked_out:
  assumes "users_inv rows" and "\<exists>r \<in> set rows. enabled_admin r"
  shows "users_inv (fold user_step ops rows) \<and> (\<exists>r \<in> set (fold user_step ops rows). enabled_admin r)"
  using assms
proof (induction ops arbitrary: rows)
  case Nil
  then show ?case by simp
next
  case (Cons op ops)
  then show ?case using user_step_inv user_step_admin by simp
qed

text \<open>A concrete table, for the witnesses.\<close>

definition demo_admin :: UserRow where
  "demo_admin = \<lparr>uw_username = ''root'', uw_role = ''admin'', uw_password_hash = ''h'', uw_disabled = 0,
     uw_created_at = 0, uw_updated_at = 0\<rparr>"

definition demo_uio :: user_io where
  "demo_uio = \<lparr>ui_begin = None, ui_select = None, ui_count = None, ui_exec = None, ui_commit = None\<rparr>"

lemma demo_admin_inv: "users_inv [demo_admin]" "enabled_admin demo_admin"
  by code_simp+

lemma demo_perms: "HasRole ''admin'' ''member''" "(''write_routes'', True) \<in> set (Permissions ''member'')"
  "(''manage_users'', True) \<notin> set (Permissions ''member'')"
  by code_simp+

theorem admin_never_locked_out_witness:
  "let rows = fold user_step [OpDelete demo_uio ''root'',
      OpPatch demo_uio 5 ''root'' \<lparr>pt_Role = None, pt_Disabled = Some True, pt_PasswordHashProvider = None\<rparr>] [demo_admin]
   in (\<exists>r \<in> set rows. enabled_admin r)"
  unfolding Let_def by (rule conjunct2 [OF admin_never_locked_out]) (use demo_admin_inv in auto)

lemma known_ranks [simp]: "RoleRank RoleAdmin = 3" "RoleRank RoleMember = 2" "RoleRank RoleGuest = 1"
  by (simp_all add: RoleRank_def role_consts)

lemma Permissions_map:
  "Permissions role = map (\<lambda>(p, required). (p, HasRole role required)) [(''read_routes'', RoleGuest),
     (''write_routes'', RoleMember), (''read_status'', RoleMember), (''read_plugins'', RoleMember),
     (''manage_plugins'', RoleAdmin), (''manage_users'', RoleAdmin), (''manage_services'', RoleAdmin)]"
  by (simp add: Permissions_def)

definition required_roles :: "(string \<times> string) list" where
  "required_roles = [(''read_routes'', RoleGuest),
     (''write_routes'', RoleMember), (''read_status'', RoleMember), (''read_plugins'', RoleMember),
     (''manage_plugins'', RoleAdmin), (''manage_users'', RoleAdmin), (''manage_services'', RoleAdmin)]"

lemma in_Permissions: "(p, v) \<in> set (Permissions role) \<longleftrightarrow> (\<exists>q. (p, q) \<in> set required_roles \<and> v = HasRole role q)"
  unfolding Permissions_map required_roles_def [symmetric] by auto

lemma required_rank: "(p, q) \<in> set required_roles \<Longrightarrow> 0 < RoleRank q"
  by (auto simp: required_roles_def)

text \<open>
  \<open>HasRole\<close> is what the roles mean: on known roles it orders guest below member below admin, the
  permission bits of a higher role include those of a lower one, and an unknown role has none.
\<close>

theorem roles_monotone:
  "(HasRole a b \<longrightarrow> HasRole b c \<longrightarrow> HasRole a c) \<and> (HasRole a b \<or> HasRole b a)
    \<and> (HasRole b a \<longrightarrow> (\<forall>p. (p, True) \<in> set (Permissions a) \<longrightarrow> (p, True) \<in> set (Permissions b)))
    \<and> (ValidateRole a \<noteq> None \<longrightarrow> (\<forall>p v. (p, v) \<in> set (Permissions a) \<longrightarrow> \<not> v))"
proof (intro conjI impI allI)
  show "(p, True) \<in> set (Permissions b)" if "HasRole b a" "(p, True) \<in> set (Permissions a)" for p
    using that unfolding in_Permissions by (auto simp: HasRole_def)
  show "\<not> v" if "ValidateRole a \<noteq> None" "(p, v) \<in> set (Permissions a)" for p v
  proof -
    have "RoleRank a = 0" using that(1) by (simp add: ValidateRole_def RoleRank_def split: if_splits)
    with that(2) required_rank show ?thesis unfolding in_Permissions by (force simp: HasRole_def)
  qed
qed (auto simp: HasRole_def)

theorem roles_monotone_witness:
  "(''write_routes'', True) \<in> set (Permissions ''admin'') \<and> (''manage_users'', True) \<notin> set (Permissions ''member'')"
  using conjunct1 [OF conjunct2 [OF conjunct2 [OF roles_monotone [of "''member''" "''admin''"]]]] demo_perms
  by (simp only:) simp

end
