(* ===== verification/Admin_Session.thy ===== *)
theory Admin_Session
  imports Admin_User
begin

text \<open>
  \<open>src/internal/adminsession/session.go\<close> and \<open>src/cmd/gateway/admin_sessions.go\<close>: bearer tokens held in
  memory, with an expiry.  Times are nanoseconds.  \<open>rand.Read\<close> is a parameter.
\<close>

record Session =
  se_Token :: string
  se_Username :: string
  se_Role :: string
  se_ExpiresAt :: int

type_synonym sessions = "string \<rightharpoonup> Session"

definition NewManager :: sessions where
  "NewManager = Map.empty"

text \<open>\<open>base64.RawURLEncoding\<close>: groups of three bytes give four characters, no padding.\<close>

definition b64_char :: "nat \<Rightarrow> char" where
  "b64_char n = (''ABCDEFGHIJKLMNOPQRSTUVWXYZabcdefghijklmnopqrstuvwxyz0123456789-_'') ! n"

fun RawURLEncoding :: "bytes \<Rightarrow> string" where
  "RawURLEncoding [] = []"
| "RawURLEncoding [a] = (let x = (of_char a :: nat) in [b64_char (x div 4), b64_char (x mod 4 * 16)])"
| "RawURLEncoding [a, b] = (let x = (of_char a :: nat); y = (of_char b :: nat) in
     [b64_char (x div 4), b64_char (x mod 4 * 16 + y div 16), b64_char (y mod 16 * 4)])"
| "RawURLEncoding (a # b # c # rest) = (let x = (of_char a :: nat); y = (of_char b :: nat); z = (of_char c :: nat) in
     [b64_char (x div 4), b64_char (x mod 4 * 16 + y div 16), b64_char (y mod 16 * 4 + z div 64), b64_char (z mod 64)])
     @ RawURLEncoding rest"

definition session_Create ::
  "bytes result \<Rightarrow> int \<Rightarrow> sessions \<Rightarrow> string \<Rightarrow> string \<Rightarrow> int \<Rightarrow> sessions \<times> Session result" where
  "session_Create rand now m username role ttl = (case rand of
      Inl e \<Rightarrow> (m, Inl e)
    | Inr tokenBytes \<Rightarrow>
        (let session = \<lparr>se_Token = RawURLEncoding tokenBytes, se_Username = username, se_Role = role,
               se_ExpiresAt = now + ttl\<rparr>
         in (m(se_Token session \<mapsto> session), Inr session)))"

definition session_Get :: "int \<Rightarrow> sessions \<Rightarrow> string \<Rightarrow> sessions \<times> Session option" where
  "session_Get now m token = (case m token of
      None \<Rightarrow> (m, None)
    | Some session \<Rightarrow> (if \<not> now < se_ExpiresAt session then (m(token := None), None) else (m, Some session)))"

definition session_Delete :: "sessions \<Rightarrow> string \<Rightarrow> sessions" where
  "session_Delete m token = m(token := None)"

definition RemoveUser :: "sessions \<Rightarrow> string \<Rightarrow> sessions" where
  "RemoveUser m username = (\<lambda>token. case m token of
      None \<Rightarrow> None | Some s \<Rightarrow> if se_Username s = username then None else Some s)"

definition session_Clear :: "sessions \<Rightarrow> sessions" where
  "session_Clear m = Map.empty"

section \<open>The gateway's use\<close>

text \<open>\<open>auth\<close> is the \<open>Authorization\<close> header.\<close>

definition sessionFromRequest :: "int \<Rightarrow> sessions \<Rightarrow> string \<Rightarrow> sessions \<times> Session option" where
  "sessionFromRequest now m auth = (case CutPrefix auth ''Bearer '' of
      None \<Rightarrow> (m, None)
    | Some token \<Rightarrow> (if TrimSpace token = [] then (m, None) else session_Get now m (TrimSpace token)))"

text \<open>The accounts with the sessions of the process.\<close>

record accounts =
  ac_users :: users
  ac_sessions :: sessions

definition patchUser ::
  "(string \<Rightarrow> string result) \<Rightarrow> user_io \<Rightarrow> int \<Rightarrow> accounts \<Rightarrow> string \<Rightarrow> string option \<Rightarrow> bool option \<Rightarrow> string option
    \<Rightarrow> accounts \<times> error option" where
  "patchUser hashPassword io now acc username role disabled password =
    (let username = TrimSpace username in
     case ValidateUsername username of
       Some e \<Rightarrow> (acc, Some e)
     | None \<Rightarrow> (case user_Patch io now (ac_users acc) username
           \<lparr>pt_Role = role, pt_Disabled = disabled, pt_PasswordHashProvider = hash_provider hashPassword password\<rparr> of
         (rows, Inl e) \<Rightarrow> (acc\<lparr>ac_users := rows\<rparr>, Some e)
       | (rows, Inr invalidate) \<Rightarrow> (\<lparr>ac_users = rows,
           ac_sessions = (if invalidate then RemoveUser (ac_sessions acc) username else ac_sessions acc)\<rparr>, None)))"

definition deleteUser :: "user_io \<Rightarrow> accounts \<Rightarrow> string \<Rightarrow> accounts \<times> error option" where
  "deleteUser io acc username =
    (let username = TrimSpace username in
     case ValidateUsername username of
       Some e \<Rightarrow> (acc, Some e)
     | None \<Rightarrow> (case user_Delete io (ac_users acc) username of
         (rows, Inl e) \<Rightarrow> (acc\<lparr>ac_users := rows\<rparr>, Some e)
       | (rows, Inr _) \<Rightarrow> (\<lparr>ac_users = rows, ac_sessions = RemoveUser (ac_sessions acc) username\<rparr>, None)))"

text \<open>The account part of \<open>handleAdminLogin\<close>: authenticate, then create a session.\<close>

definition login ::
  "(string \<Rightarrow> string \<Rightarrow> bool) \<Rightarrow> error option \<Rightarrow> bytes result \<Rightarrow> int \<Rightarrow> int \<Rightarrow> accounts \<Rightarrow> string \<Rightarrow> string
    \<Rightarrow> accounts \<times> Session result" where
  "login compareHash qerr rand now ttl acc username password =
    (case authenticateUser compareHash qerr (ac_users acc) username password of
       Inl e \<Rightarrow> (acc, Inl e)
     | Inr user \<Rightarrow> (case session_Create rand now (ac_sessions acc) (ur_Username user) (ur_Role user) ttl of
         (m, r) \<Rightarrow> (acc\<lparr>ac_sessions := m\<rparr>, r)))"

section \<open>Lemmas\<close>

text \<open>
  Every session belongs to an enabled account whose role it carries.  (Expired entries that
  were not read yet count too.)
\<close>

definition accounts_inv :: "accounts \<Rightarrow> bool" where
  "accounts_inv acc = (users_inv (ac_users acc) \<and> (\<forall>t s. ac_sessions acc t = Some s \<longrightarrow>
     (\<exists>r. row_select uw_username (se_Username s) (ac_users acc) = Some r \<and> uw_disabled r = 0 \<and> uw_role r = se_Role s)))"

lemma row_select_patch:
  "row_select uw_username k (row_update uw_username u (patch_row now role d h) rows) =
    (if k = u then map_option (patch_row now role d h) (row_select uw_username k rows)
     else row_select uw_username k rows)"
  by (rule row_select_update) simp

lemma patchUser_inv:
  assumes inv: "accounts_inv acc"
    and p: "patchUser hashPassword io now acc username role disabled password = (acc', r)"
  shows "accounts_inv acc'"
proof (cases "ValidateUsername (TrimSpace username)")
  case (Some e)
  with p inv show ?thesis by (simp add: patchUser_def)
next
  case None
  let ?u = "TrimSpace username"
  let ?p = "\<lparr>pt_Role = role, pt_Disabled = disabled, pt_PasswordHashProvider = hash_provider hashPassword password\<rparr>"
  obtain rows res where pa: "user_Patch io now (ac_users acc) ?u ?p = (rows, res)" by fastforce
  have ui: "users_inv rows"
    using user_step_inv [of "ac_users acc" "OpPatch io now ?u ?p"] inv pa by (simp add: accounts_inv_def)
  from pa show ?thesis
  proof (cases rule: user_Patch_cases)
    case (error e)
    with p None pa inv show ?thesis by (simp add: patchUser_def)
  next
    case (ok cur rl d h inval)
    have acc': "acc' = \<lparr>ac_users = rows,
        ac_sessions = (if inval then RemoveUser (ac_sessions acc) ?u else ac_sessions acc)\<rparr>"
      using p None pa ok(3) by (simp add: patchUser_def)
    have "\<exists>r. row_select uw_username (se_Username s) rows = Some r \<and> uw_disabled r = 0 \<and> uw_role r = se_Role s"
      if s: "ac_sessions acc' t = Some s" for t s
    proof -
      have s0: "ac_sessions acc t = Some s" "inval \<longrightarrow> se_Username s \<noteq> ?u"
        using s by (auto simp: acc' RemoveUser_def split: if_splits option.splits)
      then obtain r where r: "row_select uw_username (se_Username s) (ac_users acc) = Some r"
          "uw_disabled r = 0" "uw_role r = se_Role s"
        using inv by (auto simp: accounts_inv_def)
      show ?thesis
      proof (cases "se_Username s = ?u")
        case False
        with r ok(2) show ?thesis by (simp add: row_select_patch)
      next
        case True
        with s0 ok(9) have "\<not> d" "rl = uw_role cur" by auto
        moreover have "cur = r" using ok(1) r(1) True by (simp add:)
        ultimately show ?thesis using r True ok(1,2) by (simp add: row_select_patch)
      qed
    qed
    with ui show ?thesis by (simp add: accounts_inv_def acc')
  qed
qed

lemma deleteUser_inv:
  assumes inv: "accounts_inv acc" and p: "deleteUser io acc username = (acc', r)"
  shows "accounts_inv acc'"
proof (cases "ValidateUsername (TrimSpace username)")
  case (Some e)
  with p inv show ?thesis by (simp add: deleteUser_def)
next
  case None
  let ?u = "TrimSpace username"
  obtain rows res where pa: "user_Delete io (ac_users acc) ?u = (rows, res)" by fastforce
  have ui: "users_inv rows"
    using user_step_inv [of "ac_users acc" "OpDelete io ?u"] inv pa by (simp add: accounts_inv_def)
  from user_Delete_cases [OF pa] show ?thesis
  proof
    assume "(\<exists>e. res = Inl e) \<and> rows = ac_users acc"
    with p None pa inv show ?thesis by (auto simp: deleteUser_def)
  next
    assume d: "res = Inr () \<and> rows = row_delete uw_username (TrimSpace ?u) (ac_users acc) \<and>
      (\<exists>cur. row_select uw_username (TrimSpace ?u) (ac_users acc) = Some cur \<and> (uw_role cur = RoleAdmin \<longrightarrow>
        (\<exists>r \<in> set (ac_users acc). enabled_admin r \<and> uw_username r \<noteq> TrimSpace ?u)))"
    then have acc': "acc' = \<lparr>ac_users = rows, ac_sessions = RemoveUser (ac_sessions acc) ?u\<rparr>"
      using p None pa by (auto simp: deleteUser_def Let_def)
    have "\<exists>r. row_select uw_username (se_Username s) rows = Some r \<and> uw_disabled r = 0 \<and> uw_role r = se_Role s"
      if s: "ac_sessions acc' t = Some s" for t s
    proof -
      have "ac_sessions acc t = Some s" "se_Username s \<noteq> ?u"
        using s by (auto simp: acc' RemoveUser_def split: if_splits option.splits)
      with inv d show ?thesis by (auto simp: accounts_inv_def row_select_delete)
    qed
    with ui show ?thesis by (simp add: accounts_inv_def acc')
  qed
qed

lemma login_inv:
  assumes inv: "accounts_inv acc" and l: "login cmp qerr rand now ttl acc username password = (acc', r)"
  shows "accounts_inv acc'"
proof (cases "authenticateUser cmp qerr (ac_users acc) username password")
  case (Inl e)
  with l inv show ?thesis by (simp add: login_def)
next
  case (Inr user)
  then obtain row where row: "row_select uw_username username (ac_users acc) = Some row" "user = user_of_row row"
      "uw_disabled row = 0"
    by (auto simp: authenticateUser_def GetWithHash_def getWithHash_def split: option.splits sum.splits if_splits)
  have "uw_username row = username" using row_select_Some [OF row(1)] by simp
  with l Inr row inv show ?thesis
    by (cases rand) (auto simp: login_def session_Create_def accounts_inv_def Let_def split: if_splits)
qed

lemma create_inv:
  assumes inv: "accounts_inv acc" and c: "createUser hp xerr now (ac_users acc) username role password d = (rows, r)"
  shows "accounts_inv (acc\<lparr>ac_users := rows\<rparr>)"
proof -
  have "rows = ac_users acc \<or> (\<exists>h. user_Create xerr now (ac_users acc) (TrimSpace username) role h d = (rows, r))"
    using c by (auto simp: createUser_def Let_def split: option.splits sum.splits)
  then show ?thesis
  proof
    assume "\<exists>h. user_Create xerr now (ac_users acc) (TrimSpace username) role h d = (rows, r)"
    then obtain h where h: "user_Create xerr now (ac_users acc) (TrimSpace username) role h d = (rows, r)" by blast
    have ui: "users_inv rows"
      using user_step_inv [of "ac_users acc" "OpCreate xerr now (TrimSpace username) role h d"] inv h
      by (simp add: accounts_inv_def)
    have "row_select uw_username k (ac_users acc) = Some x \<Longrightarrow> row_select uw_username k rows = Some x" for k x
      using user_Create_cases [OF h] by (auto simp: row_select_append)
    with ui inv show ?thesis by (fastforce simp: accounts_inv_def)
  qed (use inv in simp)
qed

section \<open>Any sequence of account operations\<close>

datatype account_op =
    AcCreate "string \<Rightarrow> string result" "error option" int string string string bool
  | AcPatch "string \<Rightarrow> string result" user_io int string "string option" "bool option" "string option"
  | AcDelete user_io string
  | AcLogin "string \<Rightarrow> string \<Rightarrow> bool" "error option" "bytes result" int int string string
  | AcLogout string
  | AcUse int string

fun account_step :: "account_op \<Rightarrow> accounts \<Rightarrow> accounts" where
  "account_step (AcCreate hp xerr now u rl p d) acc = acc\<lparr>ac_users := fst (createUser hp xerr now (ac_users acc) u rl p d)\<rparr>"
| "account_step (AcPatch hp io now u rl d p) acc = fst (patchUser hp io now acc u rl d p)"
| "account_step (AcDelete io u) acc = fst (deleteUser io acc u)"
| "account_step (AcLogin cmp qerr rand now ttl u p) acc = fst (login cmp qerr rand now ttl acc u p)"
| "account_step (AcLogout token) acc = acc\<lparr>ac_sessions := session_Delete (ac_sessions acc) token\<rparr>"
| "account_step (AcUse now auth) acc = acc\<lparr>ac_sessions := fst (sessionFromRequest now (ac_sessions acc) auth)\<rparr>"

lemma sessionFromRequest_le:
  "fst (sessionFromRequest now m auth) t = Some s \<Longrightarrow> m t = Some s"
  by (auto simp: sessionFromRequest_def session_Get_def split: option.splits if_splits)

lemma account_step_inv: "accounts_inv acc \<Longrightarrow> accounts_inv (account_step op acc)"
proof (cases op)
  case (AcUse now auth)
  assume "accounts_inv acc"
  with AcUse sessionFromRequest_le show ?thesis by (fastforce simp: accounts_inv_def)
next
  case (AcLogout token)
  assume "accounts_inv acc"
  with AcLogout show ?thesis by (auto simp: accounts_inv_def session_Delete_def)
next
  case (AcCreate hp xerr now u rl p d)
  assume "accounts_inv acc"
  with AcCreate create_inv [of acc hp xerr now u rl p d] show ?thesis by (metis account_step.simps(1) prod.collapse)
next
  case (AcPatch hp io now u rl d p)
  assume "accounts_inv acc"
  with AcPatch patchUser_inv show ?thesis by (metis account_step.simps(2) prod.collapse)
next
  case (AcDelete io u)
  assume "accounts_inv acc"
  with AcDelete deleteUser_inv show ?thesis by (metis account_step.simps(3) prod.collapse)
next
  case (AcLogin cmp qerr rand now ttl u p)
  assume "accounts_inv acc"
  with AcLogin login_inv show ?thesis by (metis account_step.simps(4) prod.collapse)
qed

section \<open>Properties\<close>

text \<open>
  C20: after any sequence of account operations, each run to its end before the next, a bearer token
  that is accepted belongs to an account that exists, is enabled, and has the role the session
  carries, and the session has not expired.  So disabling, deleting, or changing the role of
  an account ends its sessions at once.
\<close>

theorem session_follows_account:
  assumes "accounts_inv acc"
    and "snd (sessionFromRequest now (ac_sessions (fold account_step ops acc)) auth) = Some s"
  shows "now < se_ExpiresAt s \<and> (\<exists>r \<in> set (ac_users (fold account_step ops acc)).
    uw_username r = se_Username s \<and> uw_disabled r = 0 \<and> uw_role r = se_Role s)"
proof -
  have inv: "accounts_inv (fold account_step ops acc)"
    using assms(1) by (induction ops arbitrary: acc) (simp_all add: account_step_inv)
  from assms(2) obtain t where "ac_sessions (fold account_step ops acc) t = Some s" "now < se_ExpiresAt s"
    by (auto simp: sessionFromRequest_def session_Get_def split: option.splits if_splits)
  with inv show ?thesis by (fastforce simp: accounts_inv_def dest: row_select_Some)
qed

definition demo_acc :: accounts where
  "demo_acc = \<lparr>ac_users = [demo_admin], ac_sessions = Map.empty\<rparr>"

theorem session_follows_account_witness:
  "\<exists>s. snd (sessionFromRequest 5 (ac_sessions (fold account_step
      [AcLogin (\<lambda>h p. p = ''pw'') None (Inr ''abc'') 0 100 ''root'' ''pw''] demo_acc)) ''Bearer YWJj'') = Some s
    \<and> 5 < se_ExpiresAt s \<and> (\<exists>r \<in> set (ac_users (fold account_step
      [AcLogin (\<lambda>h p. p = ''pw'') None (Inr ''abc'') 0 100 ''root'' ''pw''] demo_acc)).
        uw_username r = se_Username s \<and> uw_disabled r = 0 \<and> uw_role r = se_Role s)"
proof -
  let ?acc = "fold account_step [AcLogin (\<lambda>h p. p = ''pw'') None (Inr ''abc'') 0 100 ''root'' ''pw''] demo_acc"
  have inv: "accounts_inv demo_acc"
    using demo_admin_inv(1) by (simp add: accounts_inv_def demo_acc_def)
  have "snd (sessionFromRequest 5 (ac_sessions ?acc) ''Bearer YWJj'') =
      Some \<lparr>se_Token = ''YWJj'', se_Username = ''root'', se_Role = ''admin'', se_ExpiresAt = 100\<rparr>"
    by code_simp
  from session_follows_account [OF inv this] this show ?thesis by blast
qed

text \<open>
  the guarantee does not extend to a login that overlaps a patch.  \<open>handleAdminLogin\<close> reads
  the account and creates the session in two steps; when an administrator disables the
  account in between, the removal of its sessions finds nothing and the token issued
  afterwards is accepted although the account is disabled.
\<close>

theorem login_overlaps_disable:
  "\<exists>acc user acc' s. accounts_inv acc
    \<and> authenticateUser (\<lambda>h p. p = ''pw'') None (ac_users acc) ''eve'' ''pw'' = Inr user
    \<and> patchUser (\<lambda>p. Inr p) demo_uio 1 acc ''eve'' None (Some True) None = (acc', None)
    \<and> session_Create (Inr ''abc'') 2 (ac_sessions acc') (ur_Username user) (ur_Role user) 100 = s
    \<and> snd (sessionFromRequest 3 (fst s) ''Bearer YWJj'') \<noteq> None
    \<and> (\<exists>r. row_select uw_username ''eve'' (ac_users acc') = Some r \<and> uw_disabled r \<noteq> 0)"
proof -
  let ?eve = "demo_admin\<lparr>uw_username := ''eve''\<rparr>"
  let ?acc = "\<lparr>ac_users = [demo_admin, ?eve], ac_sessions = Map.empty\<rparr>"
  let ?p = "patchUser (\<lambda>p. Inr p) demo_uio 1 ?acc ''eve'' None (Some True) None"
  have inv: "accounts_inv ?acc"
  proof -
    have "users_inv [demo_admin, ?eve]" by code_simp
    then show ?thesis by (simp add: accounts_inv_def)
  qed
  have au: "authenticateUser (\<lambda>h p. p = ''pw'') None (ac_users ?acc) ''eve'' ''pw'' = Inr (user_of_row ?eve)" by code_simp
  have p: "snd ?p = None" "uw_disabled (the (row_select uw_username ''eve'' (ac_users (fst ?p)))) \<noteq> 0"
    "\<not> Option.is_none (row_select uw_username ''eve'' (ac_users (fst ?p)))" by code_simp+
  have g: "\<not> Option.is_none (snd (sessionFromRequest 3 (fst (session_Create (Inr ''abc'') 2 (ac_sessions (fst ?p))
      (ur_Username (user_of_row ?eve)) (ur_Role (user_of_row ?eve)) 100)) ''Bearer YWJj''))" by code_simp
  show ?thesis
    using inv au p g unfolding Option.is_none_def
    by (intro exI [of _ ?acc] exI [of _ "user_of_row ?eve"] exI [of _ "fst ?p"]) (auto intro: prod_eqI)
qed

end
