(* ===== verification/Admin_Service.thy ===== *)
theory Admin_Service
  imports Admin_Audit Tables
begin

text \<open>
  \<open>src/internal/adminservice\<close> and \<open>src/cmd/gateway/admin_services.go\<close>: the listener services, their
  stored options with defaults, and how they become the running configuration.  JSON encoding
  of the options is a parameter.
\<close>

definition "NameTCPAdmin = ''tcp_admin''"
definition "NameKCP = ''kcp''"
definition "NameQUIC = ''quic''"
definition "NameWebSocket = ''websocket''"

lemmas service_names = NameTCPAdmin_def NameKCP_def NameQUIC_def NameWebSocket_def

definition "DefaultKCPPort = (25566 :: int)"
definition "DefaultKCPDataShards = (10 :: int)"
definition "DefaultKCPParityShards = (3 :: int)"
definition "DefaultQUICPort = (25565 :: int)"
definition "DefaultWebSocketPort = (25566 :: int)"
definition "DefaultWebSocketPath = ''/''"

lemmas service_defaults = DefaultKCPPort_def DefaultKCPDataShards_def DefaultKCPParityShards_def DefaultQUICPort_def
  DefaultWebSocketPort_def DefaultWebSocketPath_def

definition defaultQUICApplicationProtocols :: "string list" where
  "defaultQUICApplicationProtocols = [''minecraft'', ''quic'', ''raw'', ''h3'']"

type_synonym options = "(string \<times> any) list"

record ServiceRecord =
  sc_Name :: string
  sc_Enabled :: bool
  sc_Port :: int
  sc_Options :: options
  sc_RestartRequired :: bool
  sc_CreatedAt :: int
  sc_UpdatedAt :: int
  sc_UpdatedBy :: string
  sc_Running :: bool

definition default_record :: "string \<Rightarrow> bool \<Rightarrow> int \<Rightarrow> options \<Rightarrow> ServiceRecord" where
  "default_record name enabled port options = \<lparr>sc_Name = name, sc_Enabled = enabled, sc_Port = port,
     sc_Options = options, sc_RestartRequired = False, sc_CreatedAt = 0, sc_UpdatedAt = 0, sc_UpdatedBy = [],
     sc_Running = False\<rparr>"

definition DefaultRecords :: "int \<Rightarrow> ServiceRecord list" where
  "DefaultRecords tcpAdminPort =
    [default_record NameTCPAdmin True tcpAdminPort [],
     default_record NameKCP False DefaultKCPPort
       [(''data_shards'', AInt DefaultKCPDataShards), (''parity_shards'', AInt DefaultKCPParityShards)],
     default_record NameQUIC False DefaultQUICPort
       [(''application_protocols'', AStrList defaultQUICApplicationProtocols)],
     default_record NameWebSocket False DefaultWebSocketPort [(''path'', AStr DefaultWebSocketPath)]]"

definition DefaultPort :: "string \<Rightarrow> int \<Rightarrow> int" where
  "DefaultPort name tcpAdminPort =
    (if name = NameTCPAdmin then tcpAdminPort else if name = NameKCP then DefaultKCPPort
     else if name = NameQUIC then DefaultQUICPort else if name = NameWebSocket then DefaultWebSocketPort else 0)"

definition IsKnown :: "string \<Rightarrow> bool" where
  "IsKnown name = (name \<in> {NameTCPAdmin, NameKCP, NameQUIC, NameWebSocket})"

definition ValidateUpdate :: "string \<Rightarrow> bool \<Rightarrow> int \<Rightarrow> error option" where
  "ValidateUpdate name enabled port =
    (if \<not> IsKnown name then Some (ErrorString ''unknown service'')
     else if port < 1 \<or> 65535 < port then Some (ErrorString ''port must be an integer from 1 to 65535'')
     else if name = NameTCPAdmin \<and> \<not> enabled then Some (ErrorString ''tcp_admin cannot be disabled'')
     else None)"

section \<open>Options\<close>

text \<open>\<open>unmarshal\<close> is \<open>json.Unmarshal\<close> into a map.\<close>

definition DecodeOptions :: "(string \<Rightarrow> options result) \<Rightarrow> string \<Rightarrow> options" where
  "DecodeOptions unmarshal optionsJSON =
    (if TrimSpace optionsJSON = [] then []
     else (case unmarshal optionsJSON of Inl _ \<Rightarrow> [] | Inr options \<Rightarrow> options))"

definition IntOption :: "options \<Rightarrow> string \<Rightarrow> int \<Rightarrow> int" where
  "IntOption options key fallback = (case map_of options key of
      Some (AInt v) \<Rightarrow> v
    | Some (AFloat v) \<Rightarrow> v
    | Some (ANumber s) \<Rightarrow> (case Atoi s of Some i \<Rightarrow> i | None \<Rightarrow> fallback)
    | Some (AStr s) \<Rightarrow> (case Atoi s of Some i \<Rightarrow> i | None \<Rightarrow> fallback)
    | _ \<Rightarrow> fallback)"

definition StringOption :: "options \<Rightarrow> string \<Rightarrow> string \<Rightarrow> string" where
  "StringOption options key fallback = (case map_of options key of
      Some (AStr s) \<Rightarrow> if s \<noteq> [] then s else fallback
    | _ \<Rightarrow> fallback)"

fun nonempty_strings :: "any list \<Rightarrow> string list" where
  "nonempty_strings [] = []"
| "nonempty_strings (AStr s # xs) = (if s \<noteq> [] then s # nonempty_strings xs else nonempty_strings xs)"
| "nonempty_strings (_ # xs) = nonempty_strings xs"

definition StringSliceOption :: "options \<Rightarrow> string \<Rightarrow> string list" where
  "StringSliceOption options key = (case map_of options key of
      Some (AStrList xs) \<Rightarrow> xs
    | Some (AList xs) \<Rightarrow> nonempty_strings xs
    | _ \<Rightarrow> [])"

definition set_option :: "string \<Rightarrow> any \<Rightarrow> options \<Rightarrow> options" where
  "set_option key v options = (key, v) # filter (\<lambda>(k, _). k \<noteq> key) options"

definition NormalizeOptions :: "string \<Rightarrow> options \<Rightarrow> options" where
  "NormalizeOptions name options =
    (if name = NameKCP then
       (let n = (if IntOption options ''data_shards'' 0 \<le> 0
                 then set_option ''data_shards'' (AInt DefaultKCPDataShards) options else options)
        in if IntOption n ''parity_shards'' 0 \<le> 0
           then set_option ''parity_shards'' (AInt DefaultKCPParityShards) n else n)
     else if name = NameQUIC then
       (if StringSliceOption options ''application_protocols'' = []
        then set_option ''application_protocols'' (AStrList defaultQUICApplicationProtocols) options else options)
     else if name = NameWebSocket then
       (let p = StringOption options ''path'' DefaultWebSocketPath;
            p = (if HasPrefix p ''/'' then p else CHR ''/'' # p)
        in set_option ''path'' (AStr p) options)
     else options)"

section \<open>The repository\<close>

record ServiceRow =
  sv_name :: string
  sv_enabled :: int
  sv_port :: int
  sv_options_json :: string
  sv_restart_required :: int
  sv_created_at :: int
  sv_updated_at :: int
  sv_updated_by :: string

definition service_int :: "bool \<Rightarrow> int" where
  "service_int b = (if b then 1 else 0)"

text \<open>
  \<open>EnsureDefaults\<close> inserts the missing services, one statement each; \<open>xerrs\<close> are the failures of the
  statements, in order (none where the list ends).
\<close>

fun ensure_defaults ::
  "(options \<Rightarrow> string result) \<Rightarrow> int \<Rightarrow> error option list \<Rightarrow> ServiceRecord list \<Rightarrow> ServiceRow list
    \<Rightarrow> ServiceRow list \<times> error option" where
  "ensure_defaults marshal now xerrs [] rows = (rows, None)"
| "ensure_defaults marshal now xerrs (s # ss) rows = (case marshal (sc_Options s) of
      Inl e \<Rightarrow> (rows, Some e)
    | Inr json \<Rightarrow> (case (case xerrs of [] \<Rightarrow> None | x # _ \<Rightarrow> x) of
        Some e \<Rightarrow> (rows, Some e)
      | None \<Rightarrow> ensure_defaults marshal now (tl xerrs) ss
          (row_upsert sv_name \<lparr>sv_name = sc_Name s, sv_enabled = service_int (sc_Enabled s), sv_port = sc_Port s,
             sv_options_json = json, sv_restart_required = 0, sv_created_at = now, sv_updated_at = now,
             sv_updated_by = []\<rparr> (\<lambda>r. r) rows)))"

definition EnsureDefaults ::
  "(options \<Rightarrow> string result) \<Rightarrow> int \<Rightarrow> error option list \<Rightarrow> int \<Rightarrow> ServiceRow list \<Rightarrow> ServiceRow list \<times> error option" where
  "EnsureDefaults marshal now xerrs tcpAdminPort rows =
    ensure_defaults marshal now xerrs (DefaultRecords tcpAdminPort) rows"

definition service_rank :: "string \<Rightarrow> nat" where
  "service_rank name = (if name = NameTCPAdmin then 0 else if name = NameKCP then 1 else if name = NameQUIC then 2
     else if name = NameWebSocket then 3 else 4)"

definition service_of_row :: "(string \<Rightarrow> options result) \<Rightarrow> ServiceRow \<Rightarrow> ServiceRecord" where
  "service_of_row unmarshal r = \<lparr>sc_Name = sv_name r, sc_Enabled = (sv_enabled r \<noteq> 0), sc_Port = sv_port r,
     sc_Options = DecodeOptions unmarshal (sv_options_json r), sc_RestartRequired = (sv_restart_required r \<noteq> 0),
     sc_CreatedAt = sv_created_at r, sc_UpdatedAt = sv_updated_at r, sc_UpdatedBy = sv_updated_by r,
     sc_Running = False\<rparr>"

definition service_List ::
  "(string \<Rightarrow> options result) \<Rightarrow> error option \<Rightarrow> ServiceRow list \<Rightarrow> ServiceRecord list result" where
  "service_List unmarshal qerr rows = (case qerr of
      Some e \<Rightarrow> Inl e
    | None \<Rightarrow> Inr (map (service_of_row unmarshal)
        (sort_key (\<lambda>r. service_rank (sv_name r)) (sort_key sv_name rows))))"

definition service_Update ::
  "(options \<Rightarrow> string result) \<Rightarrow> error option \<Rightarrow> int \<Rightarrow> ServiceRow list \<Rightarrow> string \<Rightarrow> string \<Rightarrow> bool \<Rightarrow> int \<Rightarrow> options
    \<Rightarrow> ServiceRow list \<times> error option" where
  "service_Update marshal xerr now rows actor name enabled port options = (case ValidateUpdate name enabled port of
      Some e \<Rightarrow> (rows, Some e)
    | None \<Rightarrow> (case marshal (NormalizeOptions name options) of
        Inl e \<Rightarrow> (rows, Some e)
      | Inr json \<Rightarrow> (case xerr of
          Some e \<Rightarrow> (rows, Some e)
        | None \<Rightarrow> (row_update sv_name name (\<lambda>r. r\<lparr>sv_enabled := service_int enabled, sv_port := port,
            sv_options_json := json, sv_restart_required := 1, sv_updated_at := now, sv_updated_by := actor\<rparr>) rows,
            None))))"

section \<open>The running configuration\<close>

record gw_config =
  gc_Tcp_Enable :: bool
  gc_Tcp_Port :: int
  gc_Kcp_Enable :: bool
  gc_Kcp_Port :: int
  gc_Kcp_DataShards :: int
  gc_Kcp_ParityShards :: int
  gc_Quic_Enable :: bool
  gc_Quic_Port :: int
  gc_Quic_ApplicationProtocols :: "string list"
  gc_WebSocket_Enable :: bool
  gc_WebSocket_Port :: int
  gc_WebSocket_Path :: string

definition serviceIsRunning :: "gw_config \<Rightarrow> string \<Rightarrow> bool" where
  "serviceIsRunning config name =
    (if name = NameTCPAdmin then True else if name = NameKCP then gc_Kcp_Enable config
     else if name = NameQUIC then gc_Quic_Enable config
     else if name = NameWebSocket then gc_WebSocket_Enable config else False)"

definition listServiceConfigs ::
  "(string \<Rightarrow> options result) \<Rightarrow> gw_config \<Rightarrow> error option \<Rightarrow> ServiceRow list \<Rightarrow> ServiceRecord list result" where
  "listServiceConfigs unmarshal config qerr rows = (case service_List unmarshal qerr rows of
      Inl e \<Rightarrow> Inl e
    | Inr services \<Rightarrow> Inr (map (\<lambda>s. s\<lparr>sc_Running := serviceIsRunning config (sc_Name s)\<rparr>) services))"

text \<open>The \<open>switch\<close> of \<open>applyServiceConfig\<close> on one service.\<close>

definition apply_service :: "ServiceRecord \<Rightarrow> gw_config \<Rightarrow> gw_config" where
  "apply_service s c =
    (if sc_Name s = NameKCP then c\<lparr>gc_Kcp_Enable := sc_Enabled s, gc_Kcp_Port := sc_Port s,
       gc_Kcp_DataShards := IntOption (sc_Options s) ''data_shards'' DefaultKCPDataShards,
       gc_Kcp_ParityShards := IntOption (sc_Options s) ''parity_shards'' DefaultKCPParityShards\<rparr>
     else if sc_Name s = NameQUIC then c\<lparr>gc_Quic_Enable := sc_Enabled s, gc_Quic_Port := sc_Port s,
       gc_Quic_ApplicationProtocols := StringSliceOption (sc_Options s) ''application_protocols''\<rparr>
     else if sc_Name s = NameWebSocket then c\<lparr>gc_WebSocket_Enable := sc_Enabled s, gc_WebSocket_Port := sc_Port s,
       gc_WebSocket_Path := StringOption (sc_Options s) ''path'' DefaultWebSocketPath\<rparr>
     else c)"

text \<open>The start-up configuration the services see: the shared port and whether metrics share it.\<close>

record startup =
  su_TCPAdminPort :: int
  su_PrometheusShared :: bool

definition prometheusMetricsPath :: string where
  "prometheusMetricsPath = ''/metrics''"

definition validatePrometheusWebSocketPath :: "startup \<Rightarrow> bool \<Rightarrow> int \<Rightarrow> string \<Rightarrow> error option" where
  "validatePrometheusWebSocketPath su enabled port path =
    (if su_PrometheusShared su \<and> enabled \<and> port = su_TCPAdminPort su \<and> path = prometheusMetricsPath
     then Some (ErrorString ''WebSocket path conflicts with shared Prometheus endpoint on TCP/Admin port'') else None)"

definition applyServiceConfig ::
  "(string \<Rightarrow> options result) \<Rightarrow> startup \<Rightarrow> error option \<Rightarrow> ServiceRow list \<Rightarrow> gw_config \<Rightarrow> gw_config \<times> error option" where
  "applyServiceConfig unmarshal su qerr rows config = (case listServiceConfigs unmarshal config qerr rows of
      Inl e \<Rightarrow> (config, Some e)
    | Inr services \<Rightarrow>
        (let c = config\<lparr>gc_Tcp_Enable := True, gc_Tcp_Port := su_TCPAdminPort su\<rparr>;
             c = fold apply_service services c;
             c = (if gc_Kcp_Port c = 0 then c\<lparr>gc_Kcp_Port := DefaultKCPPort\<rparr> else c);
             c = (if gc_Quic_Port c = 0 then c\<lparr>gc_Quic_Port := DefaultQUICPort\<rparr> else c);
             c = (if gc_WebSocket_Port c = 0 then c\<lparr>gc_WebSocket_Port := DefaultWebSocketPort\<rparr> else c);
             c = (if gc_WebSocket_Path c = [] then c\<lparr>gc_WebSocket_Path := DefaultWebSocketPath\<rparr> else c)
         in (c, validatePrometheusWebSocketPath su (gc_WebSocket_Enable c) (gc_WebSocket_Port c) (gc_WebSocket_Path c))))"

record IngressReservedListener =
  rl_Name :: string
  rl_Network :: string
  rl_Bind :: string
  rl_Port :: int
  rl_Enabled :: bool

fun reserved_listeners :: "ServiceRecord list \<Rightarrow> IngressReservedListener list" where
  "reserved_listeners [] = []"
| "reserved_listeners (s # ss) =
    (if \<not> sc_Running s then reserved_listeners ss
     else (let mk = (\<lambda>network. \<lparr>rl_Name = sc_Name s, rl_Network = network, rl_Bind = ''0.0.0.0'', rl_Port = sc_Port s,
                       rl_Enabled = True\<rparr>) in
       if sc_Name s = NameKCP \<or> sc_Name s = NameQUIC then mk ''udp'' # reserved_listeners ss
       else if sc_Name s = NameTCPAdmin \<or> sc_Name s = NameWebSocket then mk ''tcp'' # reserved_listeners ss
       else reserved_listeners ss))"

definition pluginIngressReservedListeners ::
  "(string \<Rightarrow> options result) \<Rightarrow> gw_config \<Rightarrow> error option \<Rightarrow> ServiceRow list \<Rightarrow> IngressReservedListener list result" where
  "pluginIngressReservedListeners unmarshal config qerr rows = (case listServiceConfigs unmarshal config qerr rows of
      Inl e \<Rightarrow> Inl e | Inr services \<Rightarrow> Inr (reserved_listeners services))"

definition updateServiceConfig ::
  "(options \<Rightarrow> string result) \<Rightarrow> startup \<Rightarrow> error option \<Rightarrow> int \<Rightarrow> ServiceRow list \<Rightarrow> string \<Rightarrow> string \<Rightarrow> bool \<Rightarrow> int \<Rightarrow> options
    \<Rightarrow> ServiceRow list \<times> error option" where
  "updateServiceConfig marshal su xerr now rows actor name enabled port options =
    (let options = NormalizeOptions name options in
     case (if name = NameWebSocket then validatePrometheusWebSocketPath su enabled port
             (StringOption options ''path'' DefaultWebSocketPath) else None) of
       Some e \<Rightarrow> (rows, Some e)
     | None \<Rightarrow> service_Update marshal xerr now rows actor name enabled port options)"

section \<open>Ports of the listeners\<close>

text \<open>From \<open>src/cmd/gateway/tcp_web_port_reuse.go\<close> and \<open>main.go\<close>: which services a process starts.\<close>

definition normalizedTCPPort :: "gw_config \<Rightarrow> int" where
  "normalizedTCPPort c = (if gc_Tcp_Port c = 0 then 25565 else gc_Tcp_Port c)"

definition normalizedWebSocketPort :: "gw_config \<Rightarrow> int" where
  "normalizedWebSocketPort c = (if gc_WebSocket_Port c = 0 then DefaultWebSocketPort else gc_WebSocket_Port c)"

definition normalizedWebSocketPath :: "gw_config \<Rightarrow> string" where
  "normalizedWebSocketPath c = (if gc_WebSocket_Path c = [] then ''/'' else gc_WebSocket_Path c)"

definition tcpWebPortReuseEnabled :: "gw_config \<Rightarrow> bool" where
  "tcpWebPortReuseEnabled c = (gc_Tcp_Enable c \<and> gc_WebSocket_Enable c \<and> normalizedTCPPort c = normalizedWebSocketPort c)"

datatype service_run = RunTcpWebPortReuse | RunPrometheus | RunKcp | RunQuic | RunWebSocket

definition runEnabledServices :: "bool \<Rightarrow> gw_config \<Rightarrow> service_run list" where
  "runEnabledServices prometheusDedicated c =
    [RunTcpWebPortReuse] @ (if prometheusDedicated then [RunPrometheus] else []) @
    (if gc_Kcp_Enable c then [RunKcp] else []) @ (if gc_Quic_Enable c then [RunQuic] else []) @
    (if gc_WebSocket_Enable c \<and> normalizedWebSocketPort c \<noteq> normalizedTCPPort c then [RunWebSocket] else [])"

section \<open>Lemmas\<close>

lemma map_of_set_option [simp]:
  "map_of (set_option key v options) k = (if k = key then Some v else map_of options k)"
  by (induction options) (auto simp: set_option_def)

definition services_inv :: "ServiceRow list \<Rightarrow> bool" where
  "services_inv rows = (unique_keys sv_name rows \<and> (\<forall>r \<in> set rows. 1 \<le> sv_port r \<and> sv_port r \<le> 65535 \<and>
     (sv_name r = NameTCPAdmin \<longrightarrow> sv_enabled r = 1)))"

lemma services_inv_upsert:
  assumes "services_inv rows" "1 \<le> sv_port new" "sv_port new \<le> 65535" "sv_name new = NameTCPAdmin \<longrightarrow> sv_enabled new = 1"
  shows "services_inv (row_upsert sv_name new (\<lambda>r. r) rows)"
proof -
  have "row_update sv_name k (\<lambda>r. r) rows = rows" for k by (simp add: row_update_def)
  with assms show ?thesis
    by (auto simp: services_inv_def row_upsert_def row_select_None split: option.splits)
qed

definition valid_default :: "ServiceRecord \<Rightarrow> bool" where
  "valid_default s = (1 \<le> sc_Port s \<and> sc_Port s \<le> 65535 \<and> (sc_Name s = NameTCPAdmin \<longrightarrow> sc_Enabled s))"

lemma ensure_defaults_inv:
  "services_inv rows \<Longrightarrow> list_all valid_default ss \<Longrightarrow> services_inv (fst (ensure_defaults marshal now xerrs ss rows))"
proof (induction ss arbitrary: xerrs rows)
  case (Cons s ss)
  have "services_inv (row_upsert sv_name \<lparr>sv_name = sc_Name s, sv_enabled = service_int (sc_Enabled s), sv_port = sc_Port s,
      sv_options_json = json, sv_restart_required = 0, sv_created_at = now, sv_updated_at = now,
      sv_updated_by = []\<rparr> (\<lambda>r. r) rows)" for json
    by (rule services_inv_upsert) (use Cons.prems in \<open>simp_all add: valid_default_def service_int_def\<close>)
  with Cons show ?case by (simp split: sum.split option.split)
qed simp

lemma service_Update_inv:
  assumes "services_inv rows"
  shows "services_inv (fst (service_Update marshal xerr now rows actor name enabled port options))"
proof -
  have "services_inv (row_update sv_name name (\<lambda>r. r\<lparr>sv_enabled := service_int enabled, sv_port := port,
      sv_options_json := json, sv_restart_required := 1, sv_updated_at := now, sv_updated_by := actor\<rparr>) rows)"
    if "ValidateUpdate name enabled port = None" for json
  proof -
    let ?f = "\<lambda>r. r\<lparr>sv_enabled := service_int enabled, sv_port := port,
      sv_options_json := json, sv_restart_required := 1, sv_updated_at := now, sv_updated_by := actor\<rparr>"
    have "map sv_name (row_update sv_name name ?f rows) = map sv_name rows" by (rule keys_row_update) simp
    moreover have "1 \<le> port" "port \<le> 65535" "name = NameTCPAdmin \<longrightarrow> enabled"
      using that by (auto simp: ValidateUpdate_def split: if_splits)
    ultimately show ?thesis
      using assms unfolding services_inv_def
      by (intro conjI) (simp_all only:, auto simp: row_update_def service_int_def)
  qed
  with assms show ?thesis by (auto simp: service_Update_def split: option.splits sum.splits)
qed

lemma IntOption_positive: "0 < IntOption o' k 0 \<Longrightarrow> 0 < IntOption o' k d"
  by (auto simp: IntOption_def split: option.splits any.splits)

lemma IntOption_set_option:
  "IntOption (set_option k (AInt i) o') k' x = (if k = k' then i else IntOption o' k' x)"
  by (simp add: IntOption_def)

lemma service_names_distinct:
  "NameKCP \<noteq> NameQUIC" "NameKCP \<noteq> NameWebSocket" "NameQUIC \<noteq> NameWebSocket"
  by (simp_all add: service_names)

lemma NormalizeOptions_kcp:
  "0 < IntOption (NormalizeOptions NameKCP options) ''data_shards'' 0"
  "0 < IntOption (NormalizeOptions NameKCP options) ''parity_shards'' 0"
  by (auto simp: NormalizeOptions_def Let_def IntOption_set_option service_defaults)

lemma NormalizeOptions_quic:
  "StringSliceOption (NormalizeOptions NameQUIC options) ''application_protocols'' \<noteq> []"
  using service_names_distinct
  by (auto simp: NormalizeOptions_def StringSliceOption_def defaultQUICApplicationProtocols_def)

lemma NormalizeOptions_websocket:
  "\<exists>s. map_of (NormalizeOptions NameWebSocket options) ''path'' = Some (AStr (CHR ''/'' # s))"
  using service_names_distinct by (auto simp: NormalizeOptions_def Let_def prefix_def)

lemma NormalizeOptions_stable:
  "0 < IntOption o' ''data_shards'' 0 \<Longrightarrow> 0 < IntOption o' ''parity_shards'' 0 \<Longrightarrow> NormalizeOptions NameKCP o' = o'"
  "StringSliceOption o' ''application_protocols'' \<noteq> [] \<Longrightarrow> NormalizeOptions NameQUIC o' = o'"
  "map_of o' ''path'' = Some (AStr (CHR ''/'' # s)) \<Longrightarrow> map_of (NormalizeOptions NameWebSocket o') = map_of o'"
  using service_names_distinct
  by (auto simp: NormalizeOptions_def Let_def StringOption_def fun_eq_iff)

lemma NormalizeOptions_idem:
  "map_of (NormalizeOptions name (NormalizeOptions name options)) = map_of (NormalizeOptions name options)"
proof -
  consider "name = NameKCP" | "name = NameQUIC" | "name = NameWebSocket"
    | "name \<noteq> NameKCP" "name \<noteq> NameQUIC" "name \<noteq> NameWebSocket" by blast
  then show ?thesis
  proof cases
    case 1 then show ?thesis by (simp add: NormalizeOptions_stable(1) NormalizeOptions_kcp)
  next
    case 2 then show ?thesis by (simp add: NormalizeOptions_stable(2) NormalizeOptions_quic)
  next
    case 3
    obtain s where "map_of (NormalizeOptions NameWebSocket options) ''path'' = Some (AStr (CHR ''/'' # s))"
      using NormalizeOptions_websocket by blast
    from NormalizeOptions_stable(3) [OF this] 3 show ?thesis by simp
  next
    case 4 then show ?thesis by (simp add: NormalizeOptions_def)
  qed
qed

lemma NormalizeOptions_path: "HasPrefix (StringOption (NormalizeOptions NameWebSocket options) ''path'' p) ''/''"
  using NormalizeOptions_websocket [of options] by (auto simp: StringOption_def)

section \<open>Properties\<close>

datatype service_op =
    SvDefaults "options \<Rightarrow> string result" int "error option list" int
  | SvUpdate "options \<Rightarrow> string result" startup "error option" int string string bool int options

fun service_step :: "service_op \<Rightarrow> ServiceRow list \<Rightarrow> ServiceRow list" where
  "service_step (SvDefaults marshal now xerrs port) rows =
    fst (EnsureDefaults marshal now xerrs port rows)"
| "service_step (SvUpdate marshal su xerr now actor name enabled port options) rows =
    fst (updateServiceConfig marshal su xerr now rows actor name enabled port options)"

text \<open>The port of the shared listener comes from the start-up configuration, which bounds it.\<close>

fun startup_port_ok :: "service_op \<Rightarrow> bool" where
  "startup_port_ok (SvDefaults marshal now xerrs port) = (1 \<le> port \<and> port \<le> 65535)"
| "startup_port_ok _ = True"

lemma DefaultRecords_valid: "1 \<le> port \<Longrightarrow> port \<le> 65535 \<Longrightarrow> list_all valid_default (DefaultRecords port)"
  by (simp add: DefaultRecords_def default_record_def valid_default_def service_defaults service_names)

lemma service_step_inv: "services_inv rows \<Longrightarrow> startup_port_ok op \<Longrightarrow> services_inv (service_step op rows)"
proof (cases op)
  case (SvDefaults marshal now xerrs port)
  assume "services_inv rows" "startup_port_ok op"
  with SvDefaults show ?thesis
    by (simp add: EnsureDefaults_def DefaultRecords_valid ensure_defaults_inv)
next
  case (SvUpdate marshal su xerr now actor name enabled port options)
  assume "services_inv rows"
  with SvUpdate service_Update_inv show ?thesis
    by (simp add: updateServiceConfig_def Let_def split: option.split)
qed

text \<open>
  no sequence of default insertions and updates, with any failures of the database, disables
  the control-plane listener, stores a port outside 1 to 65535, or duplicates a service, given that
  the configured shared port is in that range.
\<close>

theorem services_stay_valid:
  assumes "services_inv rows" "list_all startup_port_ok ops"
  shows "services_inv (fold service_step ops rows)"
  using assms by (induction ops arbitrary: rows) (simp_all add: service_step_inv)

theorem services_stay_valid_witness:
  "services_inv (fold service_step [SvDefaults (\<lambda>_. Inr ''{}'') 0 [] 25565,
     SvUpdate (\<lambda>_. Inr ''{}'') \<lparr>su_TCPAdminPort = 25565, su_PrometheusShared = True\<rparr> None 1 ''root'' ''tcp_admin'' False 1 []] [])"
  by (rule services_stay_valid) (simp_all add: services_inv_def)

text \<open>
  what normalisation guarantees of the options a service is stored with, whatever was submitted:
  positive shard counts, a non-empty protocol list, a path that starts with a slash; and
  normalising again changes nothing the readers see.
\<close>

theorem NormalizeOptions_effective:
  "(name = NameKCP \<longrightarrow> 0 < IntOption (NormalizeOptions name options) ''data_shards'' d
      \<and> 0 < IntOption (NormalizeOptions name options) ''parity_shards'' d)
   \<and> (name = NameQUIC \<longrightarrow> StringSliceOption (NormalizeOptions name options) ''application_protocols'' \<noteq> [])
   \<and> (name = NameWebSocket \<longrightarrow> HasPrefix (StringOption (NormalizeOptions name options) ''path'' p) ''/'')
   \<and> map_of (NormalizeOptions name (NormalizeOptions name options)) = map_of (NormalizeOptions name options)"
  using NormalizeOptions_kcp [THEN IntOption_positive] NormalizeOptions_quic NormalizeOptions_path NormalizeOptions_idem
  by (intro conjI impI) simp_all

theorem NormalizeOptions_effective_witness:
  "0 < IntOption (NormalizeOptions ''kcp'' [(''data_shards'', AStr ''-4'')]) ''data_shards'' 0"
  using NormalizeOptions_effective [of "''kcp''" "[(''data_shards'', AStr ''-4'')]" 0] by (simp add: NameKCP_def)

end
