(* ===== verification/Admin_Handlers.thy ===== *)
theory Admin_Handlers
  imports Admin_Http Admin_Session Admin_Service Route Metrics
begin

text \<open>
  The handlers of the admin API in \<open>src/cmd/gateway/admin_*_handlers.go\<close>: authentication, routes, services,
  users, audit log and metrics, over one state of the process.  The plugin endpoints are not
  part of this theory.
\<close>

section \<open>State and environment\<close>

record admin_state =
  ad_acc :: accounts
  ad_routes :: route_state
  ad_services :: "ServiceRow list"
  ad_audit :: "audit_log option"
  ad_metrics :: Counters

record LoginRequest =
  lg_Username :: string
  lg_Password :: string

record RouteRequest =
  rr_q_Upstream :: string
  rr_q_Enabled :: "bool option"
  rr_q_Note :: string

record ServiceRequest =
  sr_Enabled :: "bool option"
  sr_Port :: int
  sr_Options :: options

record CreateUserRequest =
  cu_Username :: string
  cu_Role :: string
  cu_Password :: string
  cu_Disabled :: bool

record PatchUserRequest =
  pu_Role :: "string option"
  pu_Password :: "string option"
  pu_Disabled :: "bool option"

text \<open>
  What one request meets: the clock, the start-up and running configuration, the libraries
  (bcrypt, JSON, randomness, the \<open>LIKE\<close> match) and the failures of the database.  \<open>SetupRequest\<close> has the
  fields of \<open>LoginRequest\<close>.
\<close>

record admin_env =
  en_now :: int
  en_uni :: "string \<Rightarrow> string"
  en_startup :: startup
  en_ttl :: int
  en_config :: gw_config
  en_hash :: "string \<Rightarrow> string result"
  en_compare :: "string \<Rightarrow> string \<Rightarrow> bool"
  en_rand :: "bytes result"
  en_like :: "string \<Rightarrow> string \<Rightarrow> bool"
  en_marshal :: "options \<Rightarrow> string result"
  en_unmarshal :: "string \<Rightarrow> options result"
  en_qerr :: "error option"
  en_xerr :: "error option"
  en_tx :: tx_io
  en_refresh :: "error option"
  en_uio :: user_io
  en_aerr :: "error option"
  js_login :: "string \<Rightarrow> LoginRequest result"
  js_route :: "string \<Rightarrow> RouteRequest result"
  js_service :: "string \<Rightarrow> ServiceRequest result"
  js_create :: "string \<Rightarrow> CreateUserRequest result"
  js_patch :: "string \<Rightarrow> PatchUserRequest result"

text \<open>\<open>recordAudit\<close> as the handlers call it: by an actor, from the address of the request.\<close>

definition audit_by ::
  "admin_env \<Rightarrow> request \<Rightarrow> string \<Rightarrow> string \<Rightarrow> string \<Rightarrow> string \<Rightarrow> bool \<Rightarrow> string \<Rightarrow> admin_state \<Rightarrow> admin_state" where
  "audit_by env r actor action targetType targetID success message st = st\<lparr>ad_audit :=
     recordAudit (en_uni env) (en_aerr env) (en_now env) (ad_audit st) actor (RequestSourceIP r) action targetType targetID
       success message\<rparr>"

section \<open>Sessions and roles\<close>

definition requireSession :: "admin_env \<Rightarrow> request \<Rightarrow> admin_state \<Rightarrow> admin_state \<times> (response + Session)" where
  "requireSession env r st =
    (case sessionFromRequest (en_now env) (ac_sessions (ad_acc st)) (rq_Authorization r) of
       (m, session) \<Rightarrow> (st\<lparr>ad_acc := (ad_acc st)\<lparr>ac_sessions := m\<rparr>\<rparr>,
         (case session of None \<Rightarrow> Inl (WriteAPIError 401 ''login required'') | Some s \<Rightarrow> Inr s)))"

definition requireRole :: "admin_env \<Rightarrow> request \<Rightarrow> string \<Rightarrow> admin_state \<Rightarrow> admin_state \<times> (response + Session)" where
  "requireRole env r role st = (case requireSession env r st of
      (st, Inl resp) \<Rightarrow> (st, Inl resp)
    | (st, Inr session) \<Rightarrow> (st, if HasRole (se_Role session) role then Inr session
        else Inl (WriteAPIError 403 ''permission denied'')))"

text \<open>The rest of a handler, run for the session that passed the check.\<close>

definition authorized ::
  "admin_state \<times> (response + Session) \<Rightarrow> (Session \<Rightarrow> admin_state \<Rightarrow> admin_state \<times> response) \<Rightarrow> admin_state \<times> response" where
  "authorized chk f = (case chk of (st, Inl resp) \<Rightarrow> (st, resp) | (st, Inr session) \<Rightarrow> f session st)"

section \<open>JSON of the records\<close>

definition user_json :: "User \<Rightarrow> any" where
  "user_json u = AMap [(''username'', AStr (ur_Username u)), (''role'', AStr (ur_Role u)), (''disabled'', ABool (ur_Disabled u)),
     (''created_at'', AInt (ur_CreatedAt u)), (''updated_at'', AInt (ur_UpdatedAt u))]"

definition route_json :: "RouteRecord \<Rightarrow> any" where
  "route_json x = AMap [(''host'', AStr (rr_Host x)), (''upstream'', AStr (rr_Upstream x)), (''enabled'', ABool (rr_Enabled x)),
     (''note'', AStr (rr_Note x)), (''created_at'', AInt (rr_CreatedAt x)), (''updated_at'', AInt (rr_UpdatedAt x)),
     (''updated_by'', AStr (rr_UpdatedBy x))]"

definition service_json :: "ServiceRecord \<Rightarrow> any" where
  "service_json s = AMap [(''name'', AStr (sc_Name s)), (''enabled'', ABool (sc_Enabled s)), (''port'', AInt (sc_Port s)),
     (''options'', AMap (sc_Options s)), (''restart_required'', ABool (sc_RestartRequired s)),
     (''created_at'', AInt (sc_CreatedAt s)), (''updated_at'', AInt (sc_UpdatedAt s)),
     (''updated_by'', AStr (sc_UpdatedBy s)), (''running'', ABool (sc_Running s))]"

definition audit_json :: "AuditRecord \<Rightarrow> any" where
  "audit_json a = AMap [(''id'', AInt (au_ID a)), (''actor'', AStr (au_Actor a)), (''source_ip'', AStr (au_SourceIP a)),
     (''action'', AStr (au_Action a)), (''target_type'', AStr (au_TargetType a)), (''target_id'', AStr (au_TargetID a)),
     (''success'', ABool (au_Success a)), (''message'', AStr (au_Message a)), (''metadata_json'', AStr (au_MetadataJSON a)),
     (''created_at'', AInt (au_CreatedAt a))]"

fun metric_json :: "metric_value \<Rightarrow> any" where
  "metric_json (MCount n) = AInt (uint n)"
| "metric_json (MGauge i) = AInt i"
| "metric_json (MHits hs) = AMap (map (apsnd (\<lambda>n. AInt (uint n))) hs)"

definition ok_json :: any where
  "ok_json = AMap [(''ok'', ABool True)]"

section \<open>Authentication\<close>

definition handleAdminSetupStatus :: "admin_env \<Rightarrow> request \<Rightarrow> admin_state \<Rightarrow> admin_state \<times> response" where
  "handleAdminSetupStatus env r st = (st, (case TableEmpty (en_qerr env) (ac_users (ad_acc st)) of
      Inl e \<Rightarrow> WriteAPIError 500 (Error e)
    | Inr required \<Rightarrow> WriteJSON 200 (AMap [(''required'', ABool required)])))"

definition handleAdminSetup :: "admin_env \<Rightarrow> request \<Rightarrow> admin_state \<Rightarrow> admin_state \<times> response" where
  "handleAdminSetup env r st = (case DecodeJSONRequest (js_login env) r of
      Inl resp \<Rightarrow> (st, resp)
    | Inr req \<Rightarrow>
      (let username = (if TrimSpace (lg_Username req) = [] then ''admin'' else lg_Username req) in
       case createInitialAdmin (en_hash env) (en_qerr env) (en_xerr env) (en_now env) (ac_users (ad_acc st)) username (lg_Password req) of
         (rows, err) \<Rightarrow>
           (let st = st\<lparr>ad_acc := (ad_acc st)\<lparr>ac_users := rows\<rparr>\<rparr> in case err of
              Some e \<Rightarrow> (audit_by env r ''setup'' ''setup'' ''user'' username False (Error e) st,
                WriteAPIError (if Contains (Error e) ''already'' then 409 else 400) (Error e))
            | None \<Rightarrow> (audit_by env r ''setup'' ''setup'' ''user'' username True ''created initial admin'' st,
                WriteJSON 201 ok_json))))"

definition handleAdminLogin :: "admin_env \<Rightarrow> request \<Rightarrow> admin_state \<Rightarrow> admin_state \<times> response" where
  "handleAdminLogin env r st = (case DecodeJSONRequest (js_login env) r of
      Inl resp \<Rightarrow> (st, resp)
    | Inr req \<Rightarrow>
      (case authenticateUser (en_compare env) (en_qerr env) (ac_users (ad_acc st)) (lg_Username req) (lg_Password req) of
         Inl e \<Rightarrow> (audit_by env r (lg_Username req) ''login'' ''user'' (lg_Username req) False (Error e) st,
           WriteAPIError 401 (Error e))
       | Inr user \<Rightarrow>
         (case session_Create (en_rand env) (en_now env) (ac_sessions (ad_acc st)) (ur_Username user) (ur_Role user) (en_ttl env) of
            (m, Inl e) \<Rightarrow> (st\<lparr>ad_acc := (ad_acc st)\<lparr>ac_sessions := m\<rparr>\<rparr>, WriteAPIError 500 (Error e))
          | (m, Inr session) \<Rightarrow>
             (audit_by env r (ur_Username user) ''login'' ''user'' (ur_Username user) True ''login success''
                (st\<lparr>ad_acc := (ad_acc st)\<lparr>ac_sessions := m\<rparr>\<rparr>),
              WriteJSON 200 (AMap [(''token'', AStr (se_Token session)),
                (''expires_at'', AInt (se_ExpiresAt session div 1000000000)), (''user'', user_json user)])))))"

definition handleAdminLogout :: "admin_env \<Rightarrow> request \<Rightarrow> admin_state \<Rightarrow> admin_state \<times> response" where
  "handleAdminLogout env r st = authorized (requireSession env r st) (\<lambda>session st.
     (let st = st\<lparr>ad_acc := (ad_acc st)\<lparr>ac_sessions := session_Delete (ac_sessions (ad_acc st)) (se_Token session)\<rparr>\<rparr>
      in (audit_by env r (se_Username session) ''logout'' ''session'' (se_Username session) True ''logout success'' st,
          WriteJSON 200 ok_json)))"

definition handleAdminMe :: "admin_env \<Rightarrow> request \<Rightarrow> admin_state \<Rightarrow> admin_state \<times> response" where
  "handleAdminMe env r st = authorized (requireSession env r st) (\<lambda>session st.
     (st, WriteJSON 200 (AMap [(''username'', AStr (se_Username session)), (''role'', AStr (se_Role session)),
       (''expires_at'', AInt (se_ExpiresAt session div 1000000000)),
       (''permissions'', AMap (map (apsnd ABool) (Permissions (se_Role session))))])))"

text \<open>Process id, uptime and paths are left out of the reply; the services are what it computes.\<close>

definition services_reply :: "admin_env \<Rightarrow> admin_state \<Rightarrow> response" where
  "services_reply env st = (case listServiceConfigs (en_unmarshal env) (en_config env) (en_qerr env) (ad_services st) of
      Inl e \<Rightarrow> WriteAPIError 500 (Error e)
    | Inr services \<Rightarrow> WriteJSON 200 (AMap [(''services'', AList (map service_json services))]))"

definition handleAdminStatus :: "admin_env \<Rightarrow> request \<Rightarrow> admin_state \<Rightarrow> admin_state \<times> response" where
  "handleAdminStatus env r st = authorized (requireRole env r RoleMember st) (\<lambda>_ st. (st, services_reply env st))"

definition handleAdminMetrics :: "admin_env \<Rightarrow> request \<Rightarrow> admin_state \<Rightarrow> admin_state \<times> response" where
  "handleAdminMetrics env r st = authorized (requireRole env r RoleMember st) (\<lambda>_ st.
     (st, WriteJSON 200 (AMap (map (apsnd metric_json) (metrics_Snapshot (ad_metrics st))))))"

section \<open>Routes\<close>

definition handleAdminRoutesList :: "admin_env \<Rightarrow> request \<Rightarrow> admin_state \<Rightarrow> admin_state \<times> response" where
  "handleAdminRoutesList env r st = authorized (requireRole env r RoleGuest st) (\<lambda>_ st.
     (st, (case listRoutes (en_like env) (en_qerr env) (ad_routes st) (rq_Query r) of
        Inl e \<Rightarrow> WriteAPIError 500 (Error e)
      | Inr routes \<Rightarrow> WriteJSON 200 (AMap [(''routes'', AList (map route_json routes))]))))"

text \<open>The common end of the handlers that change something: audit, then the reply.\<close>

definition conclude ::
  "admin_env \<Rightarrow> request \<Rightarrow> Session \<Rightarrow> string \<Rightarrow> string \<Rightarrow> string \<Rightarrow> string \<Rightarrow> response \<Rightarrow> admin_state \<Rightarrow> error option
    \<Rightarrow> admin_state \<times> response" where
  "conclude env r session action targetType targetID msg reply st err = (case err of
      Some e \<Rightarrow> (audit_by env r (se_Username session) action targetType targetID False (Error e) st, WriteAPIError 400 (Error e))
    | None \<Rightarrow> (audit_by env r (se_Username session) action targetType targetID True msg st, reply))"

definition handleAdminRouteItem :: "admin_env \<Rightarrow> request \<Rightarrow> string \<Rightarrow> admin_state \<Rightarrow> admin_state \<times> response" where
  "handleAdminRouteItem env r rawHost st = authorized (requireRole env r RoleMember st) (\<lambda>session st.
     (case PathSegment rawHost of
        Inl e \<Rightarrow> (st, WriteAPIError 400 (Error e))
      | Inr host \<Rightarrow>
          if rq_Method r = ''PUT'' then
            (case DecodeJSONRequest (js_route env) r of
               Inl resp \<Rightarrow> (st, resp)
             | Inr req \<Rightarrow>
               (let enabled = (case rr_q_Enabled req of None \<Rightarrow> True | Some b \<Rightarrow> b) in
                case upsertRoute (en_tx env) (en_refresh env) (en_now env) (ad_routes st) (se_Username session) host
                       (rr_q_Upstream req) enabled (rr_q_Note req) of
                  (rs, err) \<Rightarrow> conclude env r session ''route_upsert'' ''route'' host ''route saved'' (WriteJSON 200 ok_json)
                    (st\<lparr>ad_routes := rs\<rparr>) err))
          else if rq_Method r = ''DELETE'' then
            (case deleteRoute (en_tx env) (en_refresh env) (ad_routes st) (se_Username session) host of
               (rs, err) \<Rightarrow> conclude env r session ''route_delete'' ''route'' host ''route deleted'' (WriteJSON 200 ok_json)
                 (st\<lparr>ad_routes := rs\<rparr>) err)
          else (st, WriteAPIError 405 ''method not allowed'')))"

section \<open>Services\<close>

definition handleAdminServicesList :: "admin_env \<Rightarrow> request \<Rightarrow> admin_state \<Rightarrow> admin_state \<times> response" where
  "handleAdminServicesList env r st = authorized (requireRole env r RoleMember st) (\<lambda>_ st. (st, services_reply env st))"

definition defaultServicePort :: "admin_env \<Rightarrow> string \<Rightarrow> int" where
  "defaultServicePort env name = DefaultPort name (su_TCPAdminPort (en_startup env))"

definition handleAdminServiceItem :: "admin_env \<Rightarrow> request \<Rightarrow> string \<Rightarrow> admin_state \<Rightarrow> admin_state \<times> response" where
  "handleAdminServiceItem env r rawName st = authorized (requireRole env r RoleAdmin st) (\<lambda>session st.
     if HasSuffix rawName ''/restart'' then
       (if rq_Method r \<noteq> ''POST'' then (st, WriteAPIError 405 ''method not allowed'')
        else (audit_by env r (se_Username session) ''service_restart'' ''service'' (TrimSuffix rawName ''/restart'') False
                ''restart is not implemented'' st,
              WriteAPIError 501 ''service restart is not implemented; restart the gateway process''))
     else (case PathSegment rawName of
        Inl e \<Rightarrow> (st, WriteAPIError 400 (Error e))
      | Inr name \<Rightarrow>
          if rq_Method r \<noteq> ''PUT'' then (st, WriteAPIError 405 ''method not allowed'')
          else (case DecodeJSONRequest (js_service env) r of
             Inl resp \<Rightarrow> (st, resp)
           | Inr req \<Rightarrow>
             (let enabled = (case sr_Enabled req of None \<Rightarrow> True | Some b \<Rightarrow> b);
                  port = (if sr_Port req = 0 then defaultServicePort env name else sr_Port req)
              in case updateServiceConfig (en_marshal env) (en_startup env) (en_xerr env) (en_now env) (ad_services st)
                       (se_Username session) name enabled port (sr_Options req) of
                   (rows, err) \<Rightarrow> conclude env r session ''service_update'' ''service'' name ''service saved''
                     (WriteJSON 200 (AMap [(''ok'', ABool True), (''restart_required'', ABool True)]))
                     (st\<lparr>ad_services := rows\<rparr>) err))))"

section \<open>Users and the audit log\<close>

definition handleAdminUsersList :: "admin_env \<Rightarrow> request \<Rightarrow> admin_state \<Rightarrow> admin_state \<times> response" where
  "handleAdminUsersList env r st = authorized (requireRole env r RoleAdmin st) (\<lambda>_ st.
     (st, (case user_List (en_qerr env) (ac_users (ad_acc st)) of
        Inl e \<Rightarrow> WriteAPIError 500 (Error e)
      | Inr users \<Rightarrow> WriteJSON 200 (AMap [(''users'', AList (map user_json users))]))))"

definition handleAdminUsersCreate :: "admin_env \<Rightarrow> request \<Rightarrow> admin_state \<Rightarrow> admin_state \<times> response" where
  "handleAdminUsersCreate env r st = authorized (requireRole env r RoleAdmin st) (\<lambda>session st.
     (case DecodeJSONRequest (js_create env) r of
        Inl resp \<Rightarrow> (st, resp)
      | Inr req \<Rightarrow>
        (case createUser (en_hash env) (en_xerr env) (en_now env) (ac_users (ad_acc st)) (cu_Username req) (cu_Role req)
                (cu_Password req) (cu_Disabled req) of
           (rows, err) \<Rightarrow> conclude env r session ''user_create'' ''user'' (cu_Username req) ''user created''
             (WriteJSON 201 ok_json) (st\<lparr>ad_acc := (ad_acc st)\<lparr>ac_users := rows\<rparr>\<rparr>) err)))"

definition handleAdminUserItem :: "admin_env \<Rightarrow> request \<Rightarrow> string \<Rightarrow> admin_state \<Rightarrow> admin_state \<times> response" where
  "handleAdminUserItem env r rawUsername st = authorized (requireRole env r RoleAdmin st) (\<lambda>session st.
     (case PathSegment rawUsername of
        Inl e \<Rightarrow> (st, WriteAPIError 400 (Error e))
      | Inr username \<Rightarrow>
          if rq_Method r = ''PATCH'' then
            (case DecodeJSONRequest (js_patch env) r of
               Inl resp \<Rightarrow> (st, resp)
             | Inr req \<Rightarrow>
               (case patchUser (en_hash env) (en_uio env) (en_now env) (ad_acc st) username (pu_Role req) (pu_Disabled req)
                       (pu_Password req) of
                  (acc, err) \<Rightarrow> conclude env r session ''user_patch'' ''user'' username ''user updated'' (WriteJSON 200 ok_json)
                    (st\<lparr>ad_acc := acc\<rparr>) err))
          else if rq_Method r = ''DELETE'' then
            (case deleteUser (en_uio env) (ad_acc st) username of
               (acc, err) \<Rightarrow> conclude env r session ''user_delete'' ''user'' username ''user deleted'' (WriteJSON 200 ok_json)
                 (st\<lparr>ad_acc := acc\<rparr>) err)
          else (st, WriteAPIError 405 ''method not allowed'')))"

text \<open>With no database open, reading the log panics; the server turns that into a failed request.\<close>

definition handleAdminAuditLogs :: "admin_env \<Rightarrow> request \<Rightarrow> admin_state \<Rightarrow> admin_state \<times> response" where
  "handleAdminAuditLogs env r st = authorized (requireRole env r RoleAdmin st) (\<lambda>_ st.
     (st, (case (case ad_audit st of None \<Rightarrow> Inl (Go_panic ''nil database'') | Some log \<Rightarrow> listAuditLogs (en_qerr env) log) of
        Inl e \<Rightarrow> WriteAPIError 500 (Error e)
      | Inr logs \<Rightarrow> WriteJSON 200 (AMap [(''audit_logs'', AList (map audit_json logs))]))))"

section \<open>The API\<close>

text \<open>\<open>newAdminAPIHandler\<close> on the endpoints of this theory; \<open>None\<close> for the plugin endpoints.\<close>

fun newAdminAPIHandler :: "admin_env \<Rightarrow> request \<Rightarrow> endpoint \<Rightarrow> admin_state \<Rightarrow> (admin_state \<times> response) option" where
  "newAdminAPIHandler env r EpSetupStatus st = Some (handleAdminSetupStatus env r st)"
| "newAdminAPIHandler env r EpSetup st = Some (handleAdminSetup env r st)"
| "newAdminAPIHandler env r EpLogin st = Some (handleAdminLogin env r st)"
| "newAdminAPIHandler env r EpLogout st = Some (handleAdminLogout env r st)"
| "newAdminAPIHandler env r EpMe st = Some (handleAdminMe env r st)"
| "newAdminAPIHandler env r EpStatus st = Some (handleAdminStatus env r st)"
| "newAdminAPIHandler env r EpRoutesList st = Some (handleAdminRoutesList env r st)"
| "newAdminAPIHandler env r (EpRouteItem h) st = Some (handleAdminRouteItem env r h st)"
| "newAdminAPIHandler env r EpServicesList st = Some (handleAdminServicesList env r st)"
| "newAdminAPIHandler env r (EpServiceItem n) st = Some (handleAdminServiceItem env r n st)"
| "newAdminAPIHandler env r EpMetrics st = Some (handleAdminMetrics env r st)"
| "newAdminAPIHandler env r EpUsersList st = Some (handleAdminUsersList env r st)"
| "newAdminAPIHandler env r EpUsersCreate st = Some (handleAdminUsersCreate env r st)"
| "newAdminAPIHandler env r (EpUserItem u) st = Some (handleAdminUserItem env r u st)"
| "newAdminAPIHandler env r EpAuditLogs st = Some (handleAdminAuditLogs env r st)"
| "newAdminAPIHandler env r EpNotFound st = Some (st, WriteAPIError 404 ''not found'')"
| "newAdminAPIHandler env r _ st = None"

definition serve_api :: "string \<Rightarrow> admin_env \<Rightarrow> request \<Rightarrow> admin_state \<Rightarrow> (admin_state \<times> response) option" where
  "serve_api api env r st = newAdminAPIHandler env r (NewAPIHandler api (rq_Method r) (rq_Path r)) st"

section \<open>What a request can do\<close>

text \<open>The session of the caller, and the state once it was looked up: an expired session is gone.\<close>

definition caller :: "admin_env \<Rightarrow> request \<Rightarrow> admin_state \<Rightarrow> Session option" where
  "caller env r st = snd (sessionFromRequest (en_now env) (ac_sessions (ad_acc st)) (rq_Authorization r))"

definition seen :: "admin_env \<Rightarrow> request \<Rightarrow> admin_state \<Rightarrow> admin_state" where
  "seen env r st = st\<lparr>ad_acc := account_step (AcUse (en_now env) (rq_Authorization r)) (ad_acc st)\<rparr>"

definition has_role :: "admin_env \<Rightarrow> request \<Rightarrow> admin_state \<Rightarrow> string \<Rightarrow> Session \<Rightarrow> bool" where
  "has_role env r st role s = (caller env r st = Some s \<and> HasRole (se_Role s) role)"

definition refusal :: "admin_env \<Rightarrow> request \<Rightarrow> admin_state \<Rightarrow> response" where
  "refusal env r st = (if caller env r st = None then WriteAPIError 401 ''login required''
     else WriteAPIError 403 ''permission denied'')"

lemma requireSession_eq:
  "requireSession env r st = (seen env r st,
     case caller env r st of None \<Rightarrow> Inl (refusal env r st) | Some s \<Rightarrow> Inr s)"
  by (simp add: requireSession_def seen_def caller_def refusal_def split: prod.split option.split)

lemma authorized_session:
  "authorized (requireSession env r st) f = (case caller env r st of
     None \<Rightarrow> (seen env r st, refusal env r st) | Some s \<Rightarrow> f s (seen env r st))"
  by (simp add: requireSession_eq authorized_def split: option.split)

lemma authorized_role:
  "authorized (requireRole env r role st) f = (case caller env r st of
     None \<Rightarrow> (seen env r st, refusal env r st)
   | Some s \<Rightarrow> if HasRole (se_Role s) role then f s (seen env r st) else (seen env r st, refusal env r st))"
  by (simp add: requireRole_def requireSession_eq authorized_def refusal_def split: option.split)

text \<open>The account operations of an administrator.\<close>

fun user_change :: "account_op \<Rightarrow> bool" where
  "user_change (AcCreate hp xerr now u rl p d) = True"
| "user_change (AcPatch hp io now u rl d p) = True"
| "user_change (AcDelete io u) = True"
| "user_change _ = False"

text \<open>
  The effect of a request on the state: nothing, a use of the session, or one change by a caller
  with the role for it, followed by one audit entry.
\<close>

inductive api_effect :: "admin_env \<Rightarrow> request \<Rightarrow> admin_state \<Rightarrow> admin_state \<Rightarrow> bool" for env r st where
  idle: "api_effect env r st st"
| used: "api_effect env r st (seen env r st)"
| refused_login: "api_effect env r st (audit_by env r actor action tt tid False message st)"
| reported: "has_role env r st RoleAdmin s \<Longrightarrow>
    api_effect env r st (audit_by env r (se_Username s) action tt tid False message (seen env r st))"
| initial: "createInitialAdmin (en_hash env) (en_qerr env) (en_xerr env) (en_now env) (ac_users (ad_acc st)) u p = (rows, err) \<Longrightarrow>
    api_effect env r st (audit_by env r ''setup'' action tt tid succ message (st\<lparr>ad_acc := (ad_acc st)\<lparr>ac_users := rows\<rparr>\<rparr>))"
| login: "login (en_compare env) (en_qerr env) (en_rand env) (en_now env) (en_ttl env) (ad_acc st) u p = (acc, Inr s) \<Longrightarrow>
    api_effect env r st (audit_by env r (se_Username s) action tt tid True message (st\<lparr>ad_acc := acc\<rparr>))"
| logout: "caller env r st = Some s \<Longrightarrow>
    api_effect env r st (audit_by env r (se_Username s) action tt tid True message
      (st\<lparr>ad_acc := account_step (AcLogout (se_Token s)) (ad_acc (seen env r st))\<rparr>))"
| route_put: "has_role env r st RoleMember s \<Longrightarrow>
    upsertRoute (en_tx env) (en_refresh env) (en_now env) (ad_routes st) (se_Username s) h u b n = (rs, err) \<Longrightarrow>
    api_effect env r st (audit_by env r (se_Username s) action tt tid succ message ((seen env r st)\<lparr>ad_routes := rs\<rparr>))"
| route_del: "has_role env r st RoleMember s \<Longrightarrow>
    deleteRoute (en_tx env) (en_refresh env) (ad_routes st) (se_Username s) h = (rs, err) \<Longrightarrow>
    api_effect env r st (audit_by env r (se_Username s) action tt tid succ message ((seen env r st)\<lparr>ad_routes := rs\<rparr>))"
| service: "has_role env r st RoleAdmin s \<Longrightarrow>
    updateServiceConfig (en_marshal env) (en_startup env) (en_xerr env) (en_now env) (ad_services st) (se_Username s) nm b pt os
      = (rows, err) \<Longrightarrow>
    api_effect env r st (audit_by env r (se_Username s) action tt tid succ message ((seen env r st)\<lparr>ad_services := rows\<rparr>))"
| user: "has_role env r st RoleAdmin s \<Longrightarrow>
    user_change op \<Longrightarrow>
    api_effect env r st (audit_by env r (se_Username s) action tt tid succ message
      (st\<lparr>ad_acc := account_step op (ad_acc (seen env r st))\<rparr>))"

inductive_cases api_effectE: "api_effect env r st st'"

lemma seen_simps [simp]:
  "ad_routes (seen env r st) = ad_routes st" "ad_services (seen env r st) = ad_services st"
  "ad_audit (seen env r st) = ad_audit st" "ad_metrics (seen env r st) = ad_metrics st"
  "ac_users (ad_acc (seen env r st)) = ac_users (ad_acc st)"
  by (simp_all add: seen_def)

lemma seen_acc: "(seen env r st)\<lparr>ad_acc := a\<rparr> = st\<lparr>ad_acc := a\<rparr>"
  by (simp add: seen_def)

lemma conclude_fst:
  "\<exists>succ message. fst (conclude env r s action tt tid msg reply st err) = audit_by env r (se_Username s) action tt tid succ message st"
  by (auto simp: conclude_def split: option.split)

lemma effect_user:
  assumes "has_role env r st RoleAdmin s"
    "user_change op"
  shows "api_effect env r st (fst (conclude env r s action tt tid msg reply (st\<lparr>ad_acc := account_step op (ad_acc (seen env r st))\<rparr>) err))"
  using conclude_fst api_effect.user [OF assms] by metis

lemma role_effect:
  assumes "\<And>s. has_role env r st role s \<Longrightarrow> api_effect env r st (fst (f s (seen env r st)))"
  shows "api_effect env r st (fst (authorized (requireRole env r role st) f))"
  using assms api_effect.used unfolding authorized_role has_role_def by (auto split: option.split)

lemma session_effect:
  assumes "\<And>s. caller env r st = Some s \<Longrightarrow> api_effect env r st (fst (f s (seen env r st)))"
  shows "api_effect env r st (fst (authorized (requireSession env r st) f))"
  using assms api_effect.used unfolding authorized_session by (auto split: option.split)

lemma read_effect: "api_effect env r st (fst (authorized (requireRole env r role st) (\<lambda>s st. (st, g s st))))"
  by (rule role_effect) (simp add: api_effect.used)

lemma handleAdminSetup_effect: "api_effect env r st (fst (handleAdminSetup env r st))"
  unfolding handleAdminSetup_def Let_def
  by (auto split: sum.split prod.split option.split intro: api_effect.idle api_effect.initial)

lemma handleAdminLogin_effect: "api_effect env r st (fst (handleAdminLogin env r st))"
proof (cases "DecodeJSONRequest (js_login env) r")
  case (Inl resp)
  then show ?thesis by (simp add: handleAdminLogin_def api_effect.idle)
next
  case (Inr req)
  let ?auth = "authenticateUser (en_compare env) (en_qerr env) (ac_users (ad_acc st)) (lg_Username req) (lg_Password req)"
  show ?thesis
  proof (cases ?auth)
    case (Inl e)
    then show ?thesis using Inr by (simp add: handleAdminLogin_def api_effect.refused_login)
  next
    case u: (Inr user)
    let ?new = "session_Create (en_rand env) (en_now env) (ac_sessions (ad_acc st)) (ur_Username user) (ur_Role user) (en_ttl env)"
    obtain m res where new: "?new = (m, res)" by fastforce
    have "st\<lparr>ad_acc := (ad_acc st)\<lparr>ac_sessions := ac_sessions (ad_acc st)\<rparr>\<rparr> = st" by simp
    then have "isl res \<Longrightarrow> fst (handleAdminLogin env r st) = st"
      using Inr u new by (auto simp: handleAdminLogin_def session_Create_def Let_def split: sum.splits)
    moreover have "api_effect env r st (fst (handleAdminLogin env r st))" if "res = Inr s" for s
    proof -
      have l: "login (en_compare env) (en_qerr env) (en_rand env) (en_now env) (en_ttl env) (ad_acc st) (lg_Username req)
          (lg_Password req) = ((ad_acc st)\<lparr>ac_sessions := m\<rparr>, Inr s)"
        using u new that by (simp add: login_def)
      have "se_Username s = ur_Username user" using new that by (auto simp: session_Create_def Let_def split: sum.splits)
      with api_effect.login [OF l] show ?thesis using Inr u new that by (simp add: handleAdminLogin_def)
    qed
    ultimately show ?thesis using api_effect.idle by (cases res) fastforce+
  qed
qed

lemma handleAdminLogout_effect: "api_effect env r st (fst (handleAdminLogout env r st))"
  unfolding handleAdminLogout_def Let_def
  by (rule session_effect) (use api_effect.logout in \<open>fastforce simp: seen_acc\<close>)

lemma effect_route:
  assumes "has_role env r st RoleMember s"
  shows "upsertRoute (en_tx env) (en_refresh env) (en_now env) (ad_routes st) (se_Username s) h u bb n = (rs, err) \<Longrightarrow>
      api_effect env r st (fst (conclude env r s a b c d e ((seen env r st)\<lparr>ad_routes := rs\<rparr>) err))"
    and "deleteRoute (en_tx env) (en_refresh env) (ad_routes st) (se_Username s) h = (rs, err) \<Longrightarrow>
      api_effect env r st (fst (conclude env r s a b c d e ((seen env r st)\<lparr>ad_routes := rs\<rparr>) err))"
  using conclude_fst api_effect.route_put [OF assms] api_effect.route_del [OF assms] by metis+

lemma effect_service:
  assumes "has_role env r st RoleAdmin s"
    "updateServiceConfig (en_marshal env) (en_startup env) (en_xerr env) (en_now env) (ad_services st) (se_Username s) nm bb pt os
      = (rows, err)"
  shows "api_effect env r st (fst (conclude env r s a b c d e ((seen env r st)\<lparr>ad_services := rows\<rparr>) err))"
  using conclude_fst api_effect.service [OF assms] by metis

lemma handleAdminRouteItem_effect: "api_effect env r st (fst (handleAdminRouteItem env r h st))"
  unfolding handleAdminRouteItem_def Let_def
  by (rule role_effect) (auto split: sum.split prod.split intro: effect_route api_effect.used)

lemma handleAdminServiceItem_effect: "api_effect env r st (fst (handleAdminServiceItem env r n st))"
  unfolding handleAdminServiceItem_def Let_def
  by (rule role_effect) (auto split: sum.split prod.split intro: effect_service api_effect.used api_effect.reported)

lemma handleAdminUsersCreate_effect: "api_effect env r st (fst (handleAdminUsersCreate env r st))"
  unfolding handleAdminUsersCreate_def
proof (rule role_effect)
  fix s assume s: "has_role env r st RoleAdmin s"
  show "api_effect env r st (fst (case DecodeJSONRequest (js_create env) r of
        Inl resp \<Rightarrow> (seen env r st, resp)
      | Inr req \<Rightarrow>
        (case createUser (en_hash env) (en_xerr env) (en_now env) (ac_users (ad_acc (seen env r st))) (cu_Username req) (cu_Role req)
                (cu_Password req) (cu_Disabled req) of
           (rows, err) \<Rightarrow> conclude env r s ''user_create'' ''user'' (cu_Username req) ''user created''
             (WriteJSON 201 ok_json) ((seen env r st)\<lparr>ad_acc := (ad_acc (seen env r st))\<lparr>ac_users := rows\<rparr>\<rparr>) err)))"
  proof (cases "DecodeJSONRequest (js_create env) r")
    case (Inr req)
    show ?thesis using effect_user [OF s, where op = "AcCreate (en_hash env) (en_xerr env) (en_now env) (cu_Username req) (cu_Role req)
        (cu_Password req) (cu_Disabled req)"] Inr
      by (auto simp: seen_acc split: prod.split)
  qed (simp add: api_effect.used)
qed

lemma handleAdminUserItem_effect: "api_effect env r st (fst (handleAdminUserItem env r u st))"
  unfolding handleAdminUserItem_def
proof (rule role_effect)
  fix s assume s: "has_role env r st RoleAdmin s"
  have patch: "api_effect env r st (fst (conclude env r s a b c d e ((seen env r st)\<lparr>ad_acc := acc\<rparr>) err))"
    if "patchUser (en_hash env) (en_uio env) (en_now env) (ad_acc (seen env r st)) u x y z = (acc, err)" for a b c d e acc err u x y z
    using effect_user [OF s, where op = "AcPatch (en_hash env) (en_uio env) (en_now env) u x y z"] that by (simp add: seen_acc)
  have del: "api_effect env r st (fst (conclude env r s a b c d e ((seen env r st)\<lparr>ad_acc := acc\<rparr>) err))"
    if "deleteUser (en_uio env) (ad_acc (seen env r st)) u = (acc, err)" for a b c d e acc err u
    using effect_user [OF s, where op = "AcDelete (en_uio env) u"] that by (simp add: seen_acc)
  show "api_effect env r st (fst (case PathSegment u of
        Inl e \<Rightarrow> (seen env r st, WriteAPIError 400 (Error e))
      | Inr username \<Rightarrow>
          if rq_Method r = ''PATCH'' then
            (case DecodeJSONRequest (js_patch env) r of
               Inl resp \<Rightarrow> (seen env r st, resp)
             | Inr req \<Rightarrow>
               (case patchUser (en_hash env) (en_uio env) (en_now env) (ad_acc (seen env r st)) username (pu_Role req)
                       (pu_Disabled req) (pu_Password req) of
                  (acc, err) \<Rightarrow> conclude env r s ''user_patch'' ''user'' username ''user updated'' (WriteJSON 200 ok_json)
                    ((seen env r st)\<lparr>ad_acc := acc\<rparr>) err))
          else if rq_Method r = ''DELETE'' then
            (case deleteUser (en_uio env) (ad_acc (seen env r st)) username of
               (acc, err) \<Rightarrow> conclude env r s ''user_delete'' ''user'' username ''user deleted'' (WriteJSON 200 ok_json)
                 ((seen env r st)\<lparr>ad_acc := acc\<rparr>) err)
          else (seen env r st, WriteAPIError 405 ''method not allowed'')))"
    by (auto split: sum.split prod.split intro: patch del api_effect.used)
qed

lemma handleAdminMe_effect: "api_effect env r st (fst (handleAdminMe env r st))"
  unfolding handleAdminMe_def by (rule session_effect) (simp add: api_effect.used)

lemmas handler_effects = handleAdminSetup_effect handleAdminLogin_effect handleAdminLogout_effect handleAdminMe_effect
  handleAdminRouteItem_effect handleAdminServiceItem_effect handleAdminUsersCreate_effect handleAdminUserItem_effect

lemmas read_handlers = handleAdminStatus_def handleAdminMetrics_def handleAdminRoutesList_def handleAdminServicesList_def
  handleAdminUsersList_def handleAdminAuditLogs_def

lemma newAdminAPIHandler_effect: "newAdminAPIHandler env r ep st = Some res \<Longrightarrow> api_effect env r st (fst res)"
  by (cases ep) (auto simp: handleAdminSetupStatus_def api_effect.idle handler_effects read_handlers read_effect)

lemma serve_api_effect: "serve_api api env r st = Some (st', resp) \<Longrightarrow> api_effect env r st st'"
  unfolding serve_api_def by (drule newAdminAPIHandler_effect) simp

section \<open>Properties\<close>

lemma audit_by_simps [simp]:
  "ad_acc (audit_by env r a b c d e f st) = ad_acc st" "ad_routes (audit_by env r a b c d e f st) = ad_routes st"
  "ad_services (audit_by env r a b c d e f st) = ad_services st" "ad_metrics (audit_by env r a b c d e f st) = ad_metrics st"
  by (simp_all add: audit_by_def)

lemma caller_account:
  assumes "accounts_inv (ad_acc st)" "caller env r st = Some s"
  shows "en_now env < se_ExpiresAt s" "\<exists>row \<in> set (ac_users (ad_acc st)). uw_username row = se_Username s
    \<and> uw_disabled row = 0 \<and> uw_role row = se_Role s"
proof -
  from assms(2) obtain t where "ac_sessions (ad_acc st) t = Some s" "en_now env < se_ExpiresAt s"
    by (auto simp: caller_def sessionFromRequest_def session_Get_def split: option.splits if_splits)
  with assms(1) show "en_now env < se_ExpiresAt s" "\<exists>row \<in> set (ac_users (ad_acc st)). uw_username row = se_Username s
      \<and> uw_disabled row = 0 \<and> uw_role row = se_Role s"
    by (fastforce simp: accounts_inv_def dest: row_select_Some)+
qed

text \<open>The request carries a live session of an enabled account with at least the role.\<close>

definition acts_for :: "admin_env \<Rightarrow> request \<Rightarrow> admin_state \<Rightarrow> string \<Rightarrow> UserRow \<Rightarrow> bool" where
  "acts_for env r st role row = (row \<in> set (ac_users (ad_acc st)) \<and> uw_disabled row = 0 \<and> HasRole (uw_role row) role
     \<and> (\<exists>s. caller env r st = Some s \<and> se_Username s = uw_username row \<and> en_now env < se_ExpiresAt s))"

lemma has_role_acts:
  assumes "accounts_inv (ad_acc st)" "has_role env r st role s"
  shows "\<exists>row. acts_for env r st role row \<and> uw_username row = se_Username s"
  using caller_account [OF assms(1)] assms(2) unfolding has_role_def acts_for_def by metis

lemma createInitialAdmin_unchanged:
  "rows \<noteq> [] \<Longrightarrow> fst (createInitialAdmin hp qerr xerr now rows u p) = rows"
  by (auto simp: createInitialAdmin_def TableEmpty_def split: option.split)

lemma login_users: "login cmp qerr rand now ttl acc u p = (acc', x) \<Longrightarrow> ac_users acc' = ac_users acc"
  by (auto simp: login_def split: sum.splits prod.splits)

text \<open>
  C4: who may change what.  Whatever request is served, the accounts change only on behalf of an enabled
  administrator with a live session, or by the initial set-up while there is no account at all; the
  services change only on behalf of an enabled administrator, the routes only on behalf of an
  enabled member or administrator; the counters do not change.
\<close>

theorem serve_api_authorized:
  assumes "accounts_inv (ad_acc st)" "serve_api api env r st = Some (st', resp)"
  shows "(ac_users (ad_acc st') \<noteq> ac_users (ad_acc st) \<longrightarrow>
      ac_users (ad_acc st) = [] \<or> (\<exists>row. acts_for env r st RoleAdmin row))
    \<and> (ad_services st' \<noteq> ad_services st \<longrightarrow> (\<exists>row. acts_for env r st RoleAdmin row))
    \<and> (ad_routes st' \<noteq> ad_routes st \<longrightarrow> (\<exists>row. acts_for env r st RoleMember row))
    \<and> ad_metrics st' = ad_metrics st"
proof -
  note acts = has_role_acts [OF assms(1)]
  from assms(2) have "api_effect env r st st'" by (rule serve_api_effect)
  then show ?thesis
  proof (cases rule: api_effect.cases)
    case (initial u p rows err action tt tid succ message)
    with createInitialAdmin_unchanged show ?thesis by simp (metis fst_conv)
  qed (auto dest: acts login_users)
qed

definition demo_env :: admin_env where
  "demo_env = \<lparr>en_now = 5, en_uni = id, en_startup = \<lparr>su_TCPAdminPort = 25565, su_PrometheusShared = True\<rparr>, en_ttl = 100,
     en_config = \<lparr>gc_Tcp_Enable = True, gc_Tcp_Port = 25565, gc_Kcp_Enable = False, gc_Kcp_Port = 0, gc_Kcp_DataShards = 0,
       gc_Kcp_ParityShards = 0, gc_Quic_Enable = False, gc_Quic_Port = 0, gc_Quic_ApplicationProtocols = [],
       gc_WebSocket_Enable = False, gc_WebSocket_Port = 0, gc_WebSocket_Path = []\<rparr>,
     en_hash = Inr, en_compare = (=), en_rand = Inr ''abc'', en_like = (\<lambda>_ _. True), en_marshal = (\<lambda>_. Inr ''{}''),
     en_unmarshal = (\<lambda>_. Inr []), en_qerr = None, en_xerr = None, en_tx = io_ok, en_refresh = None, en_uio = demo_uio, en_aerr = None,
     js_login = (\<lambda>b. Inr \<lparr>lg_Username = ''root'', lg_Password = b\<rparr>),
     js_route = (\<lambda>b. Inr \<lparr>rr_q_Upstream = b, rr_q_Enabled = None, rr_q_Note = []\<rparr>),
     js_service = (\<lambda>_. Inl Io_EOF), js_create = (\<lambda>_. Inl Io_EOF), js_patch = (\<lambda>_. Inl Io_EOF)\<rparr>"

definition demo_st :: admin_state where
  "demo_st = \<lparr>ad_acc = demo_acc, ad_routes = route_demo, ad_services = [], ad_audit = Some \<lparr>al_rows = [], al_next = 1\<rparr>,
     ad_metrics = metrics_New\<rparr>"

definition demo_login :: request where
  "demo_login = \<lparr>rq_Method = ''POST'', rq_Path = ''/admin/api/auth/login'', rq_RemoteAddr = ''10.0.0.1:5'',
     rq_Authorization = [], rq_Query = [], rq_Body = ''h''\<rparr>"

definition demo_put :: "string \<Rightarrow> request" where
  "demo_put auth = \<lparr>rq_Method = ''PUT'', rq_Path = ''/admin/api/routes/mc.example.org'', rq_RemoteAddr = ''10.0.0.1:5'',
     rq_Authorization = auth, rq_Query = [], rq_Body = ''h:25565''\<rparr>"

definition demo_in :: admin_state where
  "demo_in = fst (the (serve_api ''/admin/api'' demo_env demo_login demo_st))"

lemma demo_acc_inv: "accounts_inv (ad_acc demo_st)"
  using demo_admin_inv by (simp add: accounts_inv_def demo_st_def demo_acc_def)

lemma demo_session: "map_option se_Username (caller demo_env (demo_put ''Bearer YWJj'') demo_in) = Some ''root''"
  by code_simp

lemma demo_change:
  "snd (lookupRoute (ad_routes (fst (the (serve_api ''/admin/api'' demo_env (demo_put ''Bearer YWJj'') demo_in)))) ''mc.example.org'')"
  "\<not> snd (lookupRoute (ad_routes (fst (the (serve_api ''/admin/api'' demo_env (demo_put '''') demo_in)))) ''mc.example.org'')"
  "\<not> snd (lookupRoute (ad_routes demo_in) ''mc.example.org'')"
  by code_simp+

lemma api_effect_accounts:
  assumes "api_effect env r st st'" "accounts_inv (ad_acc st)"
  shows "accounts_inv (ad_acc st')"
  using assms(1)
proof (cases rule: api_effect.cases)
  case (initial u p rows err action tt tid succ message)
  then have "rows = ac_users (ad_acc st) \<or>
      rows = fst (createUser (en_hash env) (en_xerr env) (en_now env) (ac_users (ad_acc st)) u RoleAdmin p False)"
    by (auto simp: createInitialAdmin_def split: sum.splits bool.splits)
  then show ?thesis
  proof
    assume "rows = fst (createUser (en_hash env) (en_xerr env) (en_now env) (ac_users (ad_acc st)) u RoleAdmin p False)"
    with account_step_inv [OF assms(2), of "AcCreate (en_hash env) (en_xerr env) (en_now env) u RoleAdmin p False"] initial
    show ?thesis by simp
  qed (use assms(2) initial in simp)
next
  case (login u p acc s)
  with account_step_inv [OF assms(2), of "AcLogin (en_compare env) (en_qerr env) (en_rand env) (en_now env) (en_ttl env) u p"]
  show ?thesis by simp
qed (use assms(2) in \<open>simp_all add: seen_def account_step_inv del: account_step.simps\<close>)

lemma demo_login_ok: "\<not> Option.is_none (serve_api ''/admin/api'' demo_env demo_login demo_st)"
  by code_simp

lemma demo_in_inv: "accounts_inv (ad_acc demo_in)"
proof -
  obtain resp where "serve_api ''/admin/api'' demo_env demo_login demo_st = Some (demo_in, resp)"
    using demo_login_ok by (cases "serve_api ''/admin/api'' demo_env demo_login demo_st") (auto simp: demo_in_def Option.is_none_def)
  from api_effect_accounts [OF serve_api_effect [OF this] demo_acc_inv] show ?thesis .
qed

lemma demo_put_ok: "\<not> Option.is_none (serve_api ''/admin/api'' demo_env (demo_put ''Bearer YWJj'') demo_in)"
  by code_simp

lemma demo_put_serve:
  obtains st' resp where "serve_api ''/admin/api'' demo_env (demo_put ''Bearer YWJj'') demo_in = Some (st', resp)"
    "ad_routes st' \<noteq> ad_routes demo_in"
proof -
  obtain st' resp where s: "serve_api ''/admin/api'' demo_env (demo_put ''Bearer YWJj'') demo_in = Some (st', resp)"
    using demo_put_ok by (cases "serve_api ''/admin/api'' demo_env (demo_put ''Bearer YWJj'') demo_in") (auto simp: Option.is_none_def)
  with demo_change(1,3) have "ad_routes st' \<noteq> ad_routes demo_in" by (metis fst_conv option.sel)
  with s that show ?thesis by blast
qed

theorem serve_api_authorized_witness:
  "\<exists>st' resp. serve_api ''/admin/api'' demo_env (demo_put ''Bearer YWJj'') demo_in = Some (st', resp)
    \<and> ad_routes st' \<noteq> ad_routes demo_in \<and> (\<exists>row. acts_for demo_env (demo_put ''Bearer YWJj'') demo_in RoleMember row)"
proof -
  obtain st' resp where s: "serve_api ''/admin/api'' demo_env (demo_put ''Bearer YWJj'') demo_in = Some (st', resp)"
    "ad_routes st' \<noteq> ad_routes demo_in" by (rule demo_put_serve)
  from serve_api_authorized [OF demo_in_inv s(1)] s show ?thesis by blast
qed

text \<open>The access rule of each endpoint.\<close>

datatype access = APublic | ASession | ARole string

fun endpoint_access :: "endpoint \<Rightarrow> access" where
  "endpoint_access EpSetupStatus = APublic"
| "endpoint_access EpSetup = APublic"
| "endpoint_access EpLogin = APublic"
| "endpoint_access EpNotFound = APublic"
| "endpoint_access EpLogout = ASession"
| "endpoint_access EpMe = ASession"
| "endpoint_access EpRoutesList = ARole RoleGuest"
| "endpoint_access (EpServiceItem _) = ARole RoleAdmin"
| "endpoint_access EpUsersList = ARole RoleAdmin"
| "endpoint_access EpUsersCreate = ARole RoleAdmin"
| "endpoint_access (EpUserItem _) = ARole RoleAdmin"
| "endpoint_access EpAuditLogs = ARole RoleAdmin"
| "endpoint_access _ = ARole RoleMember"

fun granted :: "access \<Rightarrow> Session option \<Rightarrow> bool" where
  "granted APublic s = True"
| "granted ASession s = (s \<noteq> None)"
| "granted (ARole role) None = False"
| "granted (ARole role) (Some s) = HasRole (se_Role s) role"

text \<open>
  every endpoint checks before it does anything.  Where the access rule of the endpoint is not met, the
  request is answered with 401 without a session and 403 without the role, no data is returned, and
  nothing changes but that an expired session is dropped.
\<close>

theorem endpoint_refused:
  assumes "newAdminAPIHandler env r ep st = Some (st', resp)" "\<not> granted (endpoint_access ep) (caller env r st)"
  shows "st' = seen env r st \<and> resp = (if caller env r st = None then WriteAPIError 401 ''login required''
    else WriteAPIError 403 ''permission denied'')"
proof -
  have role: "authorized (requireRole env r role st) f = (seen env r st, refusal env r st)"
    if "\<not> granted (ARole role) (caller env r st)" for role f
    using that by (cases "caller env r st") (simp_all add: authorized_role)
  have sess: "authorized (requireSession env r st) f = (seen env r st, refusal env r st)"
    if "\<not> granted ASession (caller env r st)" for f
    using that by (simp add: authorized_session)
  have "newAdminAPIHandler env r ep st \<in> {None, Some (seen env r st, refusal env r st)}"
    using assms(2) by (cases ep)
      (simp_all add: handleAdminLogout_def handleAdminMe_def read_handlers handleAdminRouteItem_def handleAdminServiceItem_def
        handleAdminUsersCreate_def handleAdminUserItem_def role sess del: granted.simps(2-))
  with assms(1) show ?thesis by (simp add: refusal_def)
qed

theorem endpoint_refused_witness:
  "\<exists>st'. newAdminAPIHandler demo_env (demo_put []) (EpRouteItem ''x'') demo_st = Some (st', WriteAPIError 401 ''login required'')
    \<and> ad_routes st' = ad_routes demo_st"
proof -
  have n: "caller demo_env (demo_put []) demo_st = None"
    by (simp add: caller_def sessionFromRequest_def demo_put_def CutPrefix_def)
  obtain st' resp where h: "newAdminAPIHandler demo_env (demo_put []) (EpRouteItem ''x'') demo_st = Some (st', resp)"
    by (metis newAdminAPIHandler.simps(8) surj_pair)
  from endpoint_refused [OF h] n have "st' = seen demo_env (demo_put []) demo_st" "resp = WriteAPIError 401 ''login required''"
    by simp_all
  with h show ?thesis by simp
qed

definition unchanged :: "admin_state \<Rightarrow> admin_state \<Rightarrow> bool" where
  "unchanged st st' = (ac_users (ad_acc st') = ac_users (ad_acc st) \<and> ad_services st' = ad_services st \<and> ad_routes st' = ad_routes st)"

lemma api_effect_audit:
  assumes "api_effect env r st st'"
  shows "unchanged st st' \<and> ad_audit st' = ad_audit st
    \<or> (\<exists>actor a b c d m st1. st' = audit_by env r actor a b c d m st1 \<and> ad_audit st1 = ad_audit st
        \<and> (unchanged st st' \<or> actor = ''setup'' \<or> (\<exists>s. caller env r st = Some s \<and> actor = se_Username s)))"
  using assms
proof (cases rule: api_effect.cases)
  case (login u p acc s action tt tid message)
  then have "unchanged st st'" "ad_audit (st\<lparr>ad_acc := acc\<rparr>) = ad_audit st"
    using login_users [OF login(2)] by (simp_all add: unchanged_def)
  with login(1) show ?thesis by blast
next
  case (refused_login actor action tt tid message)
  then have "unchanged st st'" by (simp add: unchanged_def)
  with refused_login show ?thesis by blast
qed (unfold has_role_def unchanged_def, simp, simp, (rule disjI2, force)+)

lemma audit_by_log:
  assumes "ad_audit st = Some log"
  obtains entries where "map_option al_rows (ad_audit (audit_by env r actor a b c d m st)) = Some (al_rows log @ entries)"
    "length entries \<le> 1" "en_aerr env = None \<longrightarrow> (\<exists>e. entries = [e] \<and> au_Actor e = actor)"
  using assms by (cases "en_aerr env")
    (auto simp: audit_by_def recordAudit_def audit_Record_def RecordWithMetadata_def)


lemma demo_in_log: "al_rows (the (ad_audit demo_in)) \<noteq> [] \<and> \<not> Option.is_none (ad_audit demo_in)"
  by code_simp


definition admin_inv :: "admin_state \<Rightarrow> bool" where
  "admin_inv st = (accounts_inv (ad_acc st) \<and> services_inv (ad_services st) \<and> route_inv (ad_routes st))"

fun serve_all :: "string \<Rightarrow> (admin_env \<times> request) list \<Rightarrow> admin_state \<Rightarrow> admin_state" where
  "serve_all api [] st = st"
| "serve_all api ((env, r) # rs) st = serve_all api rs (case serve_api api env r st of None \<Rightarrow> st | Some (st', _) \<Rightarrow> st')"

lemma upsertRoute_inv:
  assumes "route_inv st" "upsertRoute io None now st actor host upstream enabled n = (st', e)"
  shows "route_inv st'"
proof -
  obtain db r where u: "route_Upsert io now (rs_db st) actor host upstream enabled n = (db, r)" by fastforce
  show ?thesis
  proof (cases "rs_db st")
    case None
    with u have "db = None" by (auto simp: route_Upsert_def in_tx_db_def split: option.splits)
    with assms None u show ?thesis
      by (auto simp: upsertRoute_def route_inv_def refreshRouteSnapshot_def publishRouteSnapshot_def split: option.splits)
  next
    case (Some rows)
    then have inv: "routes_invar rows" using assms(1) by (simp add: route_inv_def)
    obtain rows' where db: "db = Some rows'" "routes_invar rows'" "r \<noteq> None \<longrightarrow> rows' = rows"
      using route_Upsert_cases [OF u [unfolded Some]] inv routes.invar_update by fastforce
    show ?thesis
    proof (cases r)
      case None
      then show ?thesis using assms u db inv Some
        by (auto simp: upsertRoute_def refreshRouteSnapshot_inv route_inv_def)
    next
      case (Some x)
      then show ?thesis using assms u db inv \<open>rs_db st = Some rows\<close>
        by (auto simp: upsertRoute_def route_inv_def)
    qed
  qed
qed

lemma deleteRoute_inv:
  assumes "route_inv st" "deleteRoute io None st actor host = (st', e)"
  shows "route_inv st'"
proof -
  obtain db r where u: "route_Delete io (rs_db st) host = (db, r)" by fastforce
  show ?thesis
  proof (cases "rs_db st")
    case None
    with u have "db = None" by (auto simp: route_Delete_def in_tx_db_def split: option.splits)
    with assms None u show ?thesis
      by (auto simp: deleteRoute_def route_inv_def refreshRouteSnapshot_def publishRouteSnapshot_def split: option.splits)
  next
    case (Some rows)
    then have inv: "routes_invar rows" using assms(1) by (simp add: route_inv_def)
    obtain rows' where db: "db = Some rows'" "routes_invar rows'" "r \<noteq> None \<longrightarrow> rows' = rows"
      using route_Delete_cases [OF u [unfolded Some]] inv routes.invar_remove by fastforce
    show ?thesis
    proof (cases r)
      case None
      then show ?thesis using assms u db inv Some
        by (auto simp: deleteRoute_def refreshRouteSnapshot_inv route_inv_def)
    next
      case (Some x)
      then show ?thesis using assms u db inv \<open>rs_db st = Some rows\<close>
        by (auto simp: deleteRoute_def route_inv_def)
    qed
  qed
qed

lemma updateServiceConfig_inv:
  "services_inv rows \<Longrightarrow> updateServiceConfig m su x now rows a nm b pt os = (rows', e) \<Longrightarrow> services_inv rows'"
  using service_step_inv [of rows "SvUpdate m su x now a nm b pt os"] by simp

lemma api_effect_inv:
  assumes "api_effect env r st st'" "admin_inv st" "en_refresh env = None"
  shows "admin_inv st'"
proof -
  have acc: "accounts_inv (ad_acc st')" using api_effect_accounts assms(1,2) by (simp add: admin_inv_def)
  have inv: "services_inv (ad_services st)" "route_inv (ad_routes st)" using assms(2) by (simp_all add: admin_inv_def)
  have "services_inv (ad_services st') \<and> route_inv (ad_routes st')"
    using assms(1,3) inv
    by (cases rule: api_effect.cases) (auto intro: upsertRoute_inv deleteRoute_inv updateServiceConfig_inv)
  with acc show ?thesis by (simp add: admin_inv_def)
qed



end
