(* ===== verification/Net_IP.thy ===== *)
theory Net_IP
  imports GoStd "HOL-Library.Word"
begin

unbundle bit_operations_syntax

text \<open>
  The part of Go's package \<open>net\<close> that the official plugins use: \<open>ParseIP\<close>, \<open>IP.String\<close>, \<open>ParseCIDR\<close> and
  \<open>IPNet.Contains\<close>.  An address is a list of 4 or 16 bytes; nil is \<open>None\<close>.
\<close>

type_synonym ip = "8 word list"

section \<open>Parsing addresses\<close>

definition v4_field :: "string \<Rightarrow> (8 word) option" where
  "v4_field s = (if s = [] \<or> \<not> list_all is_digit s \<or> (1 < length s \<and> hd s = CHR ''0'') \<or> 3 < length s then None
     else (let v = digits_val 0 s in if 255 < v then None else Some (word_of_int v)))"

fun all_some :: "'a option list \<Rightarrow> 'a list option" where
  "all_some [] = Some []"
| "all_some (x # xs) = (case (x, all_some xs) of (Some a, Some as) \<Rightarrow> Some (a # as) | _ \<Rightarrow> None)"

definition parseIPv4 :: "string \<Rightarrow> ip option" where
  "parseIPv4 s = (let fs = SplitByte s CHR ''.'' in if length fs = 4 then all_some (map v4_field fs) else None)"

definition hex_digit :: "char \<Rightarrow> nat option" where
  "hex_digit c = (let n = (of_char c :: nat) in
     if 48 \<le> n \<and> n \<le> 57 then Some (n - 48)
     else if 97 \<le> n \<and> n \<le> 102 then Some (n - 87)
     else if 65 \<le> n \<and> n \<le> 70 then Some (n - 55) else None)"

fun hex_run :: "string \<Rightarrow> nat list \<times> string" where
  "hex_run [] = ([], [])"
| "hex_run (c # s) = (case hex_digit c of
      None \<Rightarrow> ([], c # s)
    | Some d \<Rightarrow> (case hex_run s of (ds, rest) \<Rightarrow> (d # ds, rest)))"

lemma hex_run_length: "hex_run s = (ds, rest) \<Longrightarrow> length s = length ds + length rest"
  by (induction s arbitrary: ds rest) (auto split: option.splits prod.splits)

text \<open>
  The loop of \<open>parseIPv6\<close>: \<open>bs\<close> are the bytes so far, \<open>ell\<close> the position of the ellipsis.  The result is
  what follows the loop: all input used, 16 bytes after expanding the ellipsis, which stands for
  at least one group.
\<close>

definition v6_finish :: "ip \<Rightarrow> nat option \<Rightarrow> ip option" where
  "v6_finish bs ell = (case ell of
      None \<Rightarrow> if length bs = 16 then Some bs else None
    | Some e \<Rightarrow> if length bs < 16 then Some (take e bs @ replicate (16 - length bs) 0 @ drop e bs) else None)"

function parse_v6 :: "ip \<Rightarrow> nat option \<Rightarrow> string \<Rightarrow> ip option" where
  "parse_v6 bs ell s =
    (if 16 \<le> length bs then (if s = [] then v6_finish bs ell else None)
     else (case hex_run s of (ds, rest) \<Rightarrow>
       if ds = [] \<or> 4 < length ds then None
       else if rest \<noteq> [] \<and> hd rest = CHR ''.'' then
         (if (ell = None \<and> length bs \<noteq> 12) \<or> 12 < length bs then None
          else (case parseIPv4 s of None \<Rightarrow> None | Some v4 \<Rightarrow> v6_finish (bs @ v4) ell))
       else (let acc = foldl (\<lambda>a d. 16 * a + d) 0 ds;
                 bs' = bs @ [of_nat (acc div 256), of_nat (acc mod 256)]
             in if rest = [] then v6_finish bs' ell
                else if hd rest \<noteq> CHR '':'' \<or> length rest = 1 then None
                else if rest ! 1 = CHR '':'' then
                  (if ell \<noteq> None then None
                   else if length rest = 2 then v6_finish bs' (Some (length bs'))
                   else parse_v6 bs' (Some (length bs')) (drop 2 rest))
                else parse_v6 bs' ell (drop 1 rest))))"
  by pat_completeness auto

termination
  by (relation "measure (\<lambda>(bs, ell, s). length s)") (auto dest!: hex_run_length [OF sym] simp flip: length_greater_0_conv)

declare parse_v6.simps [simp del]

text \<open>\<open>netip.ParseAddr\<close>: the address, and whether it has a zone.\<close>

definition parseIPv6 :: "string \<Rightarrow> (ip \<times> bool) option" where
  "parseIPv6 s =
    (let (addr, zone) = (case IndexByte s CHR ''%'' of None \<Rightarrow> (s, None) | Some i \<Rightarrow> (take i s, Some (drop (i + 1) s)))
     in if zone = Some [] then None
        else if HasPrefix addr ''::'' then
          (if length addr = 2 then Some (replicate 16 0, zone \<noteq> None)
           else map_option (\<lambda>a. (a, zone \<noteq> None)) (parse_v6 [] (Some 0) (drop 2 addr)))
        else map_option (\<lambda>a. (a, zone \<noteq> None)) (parse_v6 [] None addr))"

definition ParseAddr :: "string \<Rightarrow> (ip \<times> bool) option" where
  "ParseAddr s = (case find (\<lambda>c. c = CHR ''.'' \<or> c = CHR '':'' \<or> c = CHR ''%'') s of
      Some c \<Rightarrow> if c = CHR ''.'' then map_option (\<lambda>a. (a, False)) (parseIPv4 s)
        else if c = CHR '':'' then parseIPv6 s else None
    | None \<Rightarrow> None)"

definition v4InV6Prefix :: ip where
  "v4InV6Prefix = replicate 10 0 @ [255, 255]"

definition As16 :: "ip \<Rightarrow> ip" where
  "As16 a = (if length a = 4 then v4InV6Prefix @ a else a)"

definition ParseIP :: "string \<Rightarrow> ip option" where
  "ParseIP s = (case ParseAddr s of
      Some (a, False) \<Rightarrow> Some (As16 a)
    | _ \<Rightarrow> None)"

definition To4 :: "ip \<Rightarrow> ip option" where
  "To4 a = (if length a = 4 then Some a
     else if length a = 16 \<and> take 12 a = v4InV6Prefix then Some (drop 12 a) else None)"

section \<open>Networks\<close>

text \<open>\<open>CIDRMask\<close>: as many bytes as the address, \<open>n\<close> leading one bits.\<close>

fun CIDRMask :: "nat \<Rightarrow> nat \<Rightarrow> ip" where
  "CIDRMask n 0 = []"
| "CIDRMask n (Suc l) = (if 8 \<le> n then 255 # CIDRMask (n - 8) l else NOT (mask (8 - n)) # CIDRMask 0 l)"

record IPNet =
  in_IP :: ip
  in_Mask :: ip

definition and_bytes :: "ip \<Rightarrow> ip \<Rightarrow> ip" where
  "and_bytes a m = map2 (AND) a m"

text \<open>\<open>dtoi\<close> reads the whole string as a decimal number below \<open>0xFFFFFF\<close>.\<close>

definition dtoi :: "string \<Rightarrow> nat option" where
  "dtoi s = (if s = [] \<or> \<not> list_all is_digit s then None
     else (let v = digits_val 0 s in if v < 16777215 then Some (nat v) else None))"

definition ParseCIDR :: "string \<Rightarrow> IPNet option" where
  "ParseCIDR s = (case IndexByte s CHR ''/'' of
      None \<Rightarrow> None
    | Some i \<Rightarrow> (case ParseAddr (take i s) of
        Some (a, False) \<Rightarrow> (case dtoi (drop (i + 1) s) of
            None \<Rightarrow> None
          | Some n \<Rightarrow> if 8 * length a < n then None
              else Some \<lparr>in_IP = and_bytes a (CIDRMask n (length a)), in_Mask = CIDRMask n (length a)\<rparr>)
      | _ \<Rightarrow> None))"

definition networkNumberAndMask :: "IPNet \<Rightarrow> (ip \<times> ip) option" where
  "networkNumberAndMask n =
    (let ip = (case To4 (in_IP n) of Some a \<Rightarrow> a | None \<Rightarrow> in_IP n);
         m = in_Mask n
     in if length ip = 4 \<and> length m = 4 then Some (ip, m)
        else if length ip = 4 \<and> length m = 16 then Some (ip, drop 12 m)
        else if length ip = 16 \<and> length m = 16 then Some (ip, m)
        else None)"

definition IPNet_Contains :: "IPNet \<Rightarrow> ip \<Rightarrow> bool" where
  "IPNet_Contains n ip = (case networkNumberAndMask n of
      None \<Rightarrow> ip = []
    | Some (nn, m) \<Rightarrow>
        (let ip = (case To4 ip of Some x \<Rightarrow> x | None \<Rightarrow> ip)
         in length ip = length nn \<and> and_bytes nn m = and_bytes ip m))"

section \<open>Printing\<close>

definition string4 :: "ip \<Rightarrow> string" where
  "string4 a = JoinWith ''.'' (map (\<lambda>w. show_base 10 (unat w)) a)"

fun groups :: "ip \<Rightarrow> nat list" where
  "groups (a # b # r) = (256 * unat a + unat b) # groups r"
| "groups _ = []"

text \<open>The first longest run of at least two zero groups: where it starts and ends.\<close>

definition zero_run :: "nat list \<Rightarrow> nat \<Rightarrow> nat" where
  "zero_run gs i = length (takeWhile (\<lambda>g. g = 0) (drop i gs))"

definition ellipsis_of :: "nat list \<Rightarrow> (nat \<times> nat) option" where
  "ellipsis_of gs = foldl (\<lambda>best i. let l = zero_run gs i in
      if l \<ge> 2 \<and> (case best of None \<Rightarrow> True | Some (s, e) \<Rightarrow> e - s < l) then Some (i, i + l) else best) None [0..<length gs]"

definition string6 :: "ip \<Rightarrow> string" where
  "string6 a = (let gs = groups a; sh = (\<lambda>l. JoinWith '':'' (map (show_base 16) l)) in
     case ellipsis_of gs of
       None \<Rightarrow> sh gs
     | Some (s, e) \<Rightarrow> sh (take s gs) @ ''::'' @ sh (drop e gs))"

definition IP_String :: "ip \<Rightarrow> string" where
  "IP_String a = (if a = [] then ''<nil>''
     else (case To4 a of Some x \<Rightarrow> string4 x | None \<Rightarrow> string6 a))"

section \<open>Lemmas\<close>

lemma length_CIDRMask [simp]: "length (CIDRMask n l) = l"
  by (induction n l rule: CIDRMask.induct) auto

lemma all_some_length: "all_some xs = Some ys \<Longrightarrow> length ys = length xs"
  by (induction xs arbitrary: ys) (auto split: option.splits)

lemma parseIPv4_length: "parseIPv4 s = Some a \<Longrightarrow> length a = 4"
  by (auto simp: parseIPv4_def Let_def dest: all_some_length split: if_splits)

lemma v6_finish_length: "v6_finish bs ell = Some a \<Longrightarrow> ell = None \<or> the ell \<le> length bs \<Longrightarrow> length a = 16"
  by (auto simp: v6_finish_def split: option.splits if_splits)

lemma parse_v6_length: "parse_v6 bs ell s = Some a \<Longrightarrow> ell = None \<or> the ell \<le> length bs \<Longrightarrow> length a = 16"
proof (induction bs ell s arbitrary: a rule: parse_v6.induct)
  case (1 bs ell s)
  obtain ds rest where h: "hex_run s = (ds, rest)" by fastforce
  note eq = "1.prems"(1) [unfolded parse_v6.simps [of bs ell s] h prod.case Let_def]
  show ?case
  proof (cases "16 \<le> length bs")
    case True
    with eq "1.prems"(2) show ?thesis by (auto dest: v6_finish_length split: if_splits)
  next
    case False
    note IH = "1.IH" [OF False h [symmetric] _ _ refl refl]
    show ?thesis
      using eq False "1.prems"(2) IH(1) [of a] IH(2) [of a]
      by (auto dest!: parseIPv4_length v6_finish_length split: if_splits option.splits)
  qed
qed

lemma ParseAddr_length: "ParseAddr s = Some (a, z) \<Longrightarrow> length a = 4 \<or> length a = 16"
  by (auto simp: ParseAddr_def parseIPv6_def Let_def split: option.splits if_splits
      dest!: parseIPv4_length dest: parse_v6_length)

lemma ParseIP_length: "ParseIP s = Some a \<Longrightarrow> length a = 16"
  by (auto simp: ParseIP_def As16_def v4InV6Prefix_def split: option.splits bool.splits dest!: ParseAddr_length)

text \<open>An address with a zone is not an \<open>IP\<close>.\<close>

lemma ParseIP_zone:
  assumes "find (\<lambda>c. c = CHR ''.'' \<or> c = CHR '':'' \<or> c = CHR ''%'') s = Some CHR '':''" "IndexByte s CHR ''%'' \<noteq> None"
  shows "ParseIP s = None"
  using assms by (auto simp: ParseIP_def ParseAddr_def parseIPv6_def Let_def split: option.splits)

subsection \<open>Networks and bits\<close>

text \<open>The bits of an address, the first being the most significant of its first byte.\<close>

definition ip_bit :: "ip \<Rightarrow> nat \<Rightarrow> bool" where
  "ip_bit a i = bit (a ! (i div 8)) (7 - i mod 8)"

lemma mask_byte_eq:
  fixes x y :: "8 word"
  assumes "k \<le> 8"
  shows "x AND NOT (mask (8 - k)) = y AND NOT (mask (8 - k)) \<longleftrightarrow> (\<forall>j < k. bit x (7 - j) = bit y (7 - j))"
proof
  assume eq: "x AND NOT (mask (8 - k)) = y AND NOT (mask (8 - k))"
  show "\<forall>j < k. bit x (7 - j) = bit y (7 - j)"
  proof (intro allI impI)
    fix j assume j: "j < k"
    have "bit (x AND NOT (mask (8 - k))) (7 - j) = bit (y AND NOT (mask (8 - k))) (7 - j)" using eq by simp
    moreover have "bit (NOT (mask (8 - k)) :: 8 word) (7 - j)"
      using j assms by (simp add: bit_simps) arith
    ultimately show "bit x (7 - j) = bit y (7 - j)" by (simp add: bit_and_iff)
  qed
next
  assume h: "\<forall>j < k. bit x (7 - j) = bit y (7 - j)"
  show "x AND NOT (mask (8 - k)) = y AND NOT (mask (8 - k))"
  proof (rule bit_eqI)
    fix n assume "possible_bit TYPE(8 word) n"
    then have n: "n < 8" by simp
    have "bit x n = bit y n" if "8 - k \<le> n"
      using h [rule_format, of "7 - n"] n that assms by (cases "7 - n < k") (auto simp: diff_diff_cancel)
    then show "bit (x AND NOT (mask (8 - k))) n = bit (y AND NOT (mask (8 - k))) n"
      by (auto simp: bit_simps n not_less)
  qed
qed

lemma full_byte: "x AND 255 = (x :: 8 word)"
proof -
  have "(255 :: 8 word) = - 1" by simp
  then show ?thesis by (simp only: and.right_neutral)
qed

lemma ip_bit_Cons: "ip_bit (x # a) i = (if i < 8 then bit x (7 - i) else ip_bit a (i - 8))"
proof (cases "i < 8")
  case False
  then obtain k where "i = k + 8" by (metis le_add_diff_inverse2 not_less)
  moreover have "(k + 8) div 8 = Suc (k div 8)" by simp
  ultimately show ?thesis by (simp add: ip_bit_def)
qed (simp add: ip_bit_def)

lemma all_less_split:
  assumes "8 \<le> n"
  shows "(\<forall>i < n. P i) \<longleftrightarrow> (\<forall>j < 8. P j) \<and> (\<forall>i < n - 8. P (i + 8 :: nat))"
proof
  assume r: "(\<forall>j < 8. P j) \<and> (\<forall>i < n - 8. P (i + 8))"
  show "\<forall>i < n. P i"
  proof (intro allI impI)
    fix i assume "i < n"
    with r show "P i" by (cases "i < 8") (auto dest: spec [of _ "i - 8"])
  qed
qed (use assms in auto)

lemma masked_eq_bits:
  "length a = l \<Longrightarrow> length b = l \<Longrightarrow> n \<le> 8 * l \<Longrightarrow>
    and_bytes a (CIDRMask n l) = and_bytes b (CIDRMask n l) \<longleftrightarrow> (\<forall>i < n. ip_bit a i = ip_bit b i)"
proof (induction n l arbitrary: a b rule: CIDRMask.induct)
  case (1 n)
  then show ?case by (simp add: and_bytes_def)
next
  case (2 n l)
  then obtain x a' y b' where ab: "a = x # a'" "b = y # b'" "length a' = l" "length b' = l"
    by (metis length_Suc_conv)
  show ?case
  proof (cases "8 \<le> n")
    case True
    have "(\<forall>i < n. ip_bit a i = ip_bit b i) \<longleftrightarrow> (\<forall>j < 8. bit x (7 - j) = bit y (7 - j)) \<and> (\<forall>i < n - 8. ip_bit a' i = ip_bit b' i)"
      unfolding all_less_split [OF True, of "\<lambda>i. ip_bit a i = ip_bit b i"] by (simp add: ab ip_bit_Cons)
    moreover have "x = y \<longleftrightarrow> (\<forall>j < 8. bit x (7 - j) = bit y (7 - j))"
      using mask_byte_eq [of 8 x y] by simp
    ultimately show ?thesis
      using True "2.IH"(1) [OF True ab(3,4)] "2.prems"(3) by (simp add: ab and_bytes_def full_byte)
  next
    case False
    then have k: "n \<le> 8" by simp
    have rest: "and_bytes a' (CIDRMask 0 l) = and_bytes b' (CIDRMask 0 l)"
      using "2.IH"(2) [OF False ab(3,4)] by simp
    have "(\<forall>i < n. ip_bit a i = ip_bit b i) \<longleftrightarrow> (\<forall>j < n. bit x (7 - j) = bit y (7 - j))"
      using False by (auto simp: ab ip_bit_Cons)
    with rest False mask_byte_eq [OF k, of x y] show ?thesis by (simp add: ab and_bytes_def)
  qed
qed

text \<open>Masking twice with one mask.\<close>

lemma and_bytes_idem: "length a = length m \<Longrightarrow> and_bytes (and_bytes a m) m = and_bytes a m"
  unfolding and_bytes_def by (induction a m rule: list_induct2) (simp_all add: and.assoc)

lemma length_and_bytes [simp]: "length (and_bytes a m) = min (length a) (length m)"
  by (simp add: and_bytes_def)

lemma To4_As16 [simp]: "length a = 4 \<Longrightarrow> To4 (As16 a) = Some a"
  by (simp add: To4_def As16_def v4InV6Prefix_def)

text \<open>
  Membership of an IPv4 address in a parsed IPv4 network is agreement on the prefix bits.
\<close>

lemma CIDR_contains_v4:
  assumes "ParseAddr addr = Some (a, False)" "length a = 4" "CHR ''/'' \<notin> set addr"
    and "dtoi bits = Some n" "n \<le> 32" "length b = 4"
  obtains net where "ParseCIDR (addr @ ''/'' @ bits) = Some net"
    "IPNet_Contains net (As16 b) \<longleftrightarrow> (\<forall>i < n. ip_bit a i = ip_bit b i)"
proof -
  have i: "IndexByte (addr @ ''/'' @ bits) CHR ''/'' = Some (length addr)"
    using IndexByte_append [OF assms(3), of bits] by simp
  let ?m = "CIDRMask n 4"
  have p: "ParseCIDR (addr @ ''/'' @ bits) = Some \<lparr>in_IP = and_bytes a ?m, in_Mask = ?m\<rparr>"
    using assms i by (simp add: ParseCIDR_def)
  have l: "length (and_bytes a ?m) = 4" using assms(2) by simp
  then have "networkNumberAndMask \<lparr>in_IP = and_bytes a ?m, in_Mask = ?m\<rparr> = Some (and_bytes a ?m, ?m)"
    by (simp add: networkNumberAndMask_def To4_def)
  then have "IPNet_Contains \<lparr>in_IP = and_bytes a ?m, in_Mask = ?m\<rparr> (As16 b) \<longleftrightarrow> (\<forall>i < n. ip_bit a i = ip_bit b i)"
    using masked_eq_bits [OF assms(2,6)] assms(2,5,6) l
    by (simp add: IPNet_Contains_def and_bytes_idem del: length_and_bytes)
  with p that show ?thesis by blast
qed

subsection \<open>Printing IPv4 addresses and reading them back\<close>

lemma byte_val_char_of_nat: "byte_val (char_of (m :: nat)) = int (m mod 256)"
  by (metis byte_val_def of_char_of of_nat_of_char)

lemma digit_char_digit:
  assumes "d < 10"
  shows "is_digit (digit_char d)" "digit_val (digit_char d) = int d" "digit_char d = CHR ''0'' \<longleftrightarrow> d = 0"
proof -
  have "d \<in> {0, 1, 2, 3, 4, 5, 6, 7, 8, 9}" using assms by auto
  then show "is_digit (digit_char d)" "digit_val (digit_char d) = int d"
    by (auto simp: digit_char_def is_digit_def digit_val_def byte_val_char_of_nat)
  have "digit_char d = CHR ''0'' \<longleftrightarrow> digit_val (digit_char d) = digit_val CHR ''0''" by (simp add: digit_val_def)
  also have "digit_val CHR ''0'' = 0" by (simp add: digit_val_def byte_val_def)
  finally show "digit_char d = CHR ''0'' \<longleftrightarrow> d = 0" using \<open>digit_val (digit_char d) = int d\<close> by simp
qed

lemma nat_digits_small:
  "n < 10 \<Longrightarrow> nat_digits 10 n = [n]"
  "10 \<le> n \<Longrightarrow> n < 100 \<Longrightarrow> nat_digits 10 n = [n div 10, n mod 10]"
  "100 \<le> n \<Longrightarrow> n < 1000 \<Longrightarrow> nat_digits 10 n = [n div 100, n div 10 mod 10, n mod 10]"
proof -
  show one: "n < 10 \<Longrightarrow> nat_digits 10 n = [n]" for n by (simp add: nat_digits.simps)
  show two: "10 \<le> n \<Longrightarrow> n < 100 \<Longrightarrow> nat_digits 10 n = [n div 10, n mod 10]" for n
    using one [of "n div 10"] by (simp add: nat_digits.simps [of 10 n])
  show "100 \<le> n \<Longrightarrow> n < 1000 \<Longrightarrow> nat_digits 10 n = [n div 100, n div 10 mod 10, n mod 10]"
    using two [of "n div 10"] by (simp add: nat_digits.simps [of 10 n] div_mult2_eq [symmetric])
qed

lemma show_base_small:
  assumes "n < 1000"
  shows "digits_val 0 (show_base 10 n) = int n" "list_all is_digit (show_base 10 n)" "show_base 10 n \<noteq> []"
    "length (show_base 10 n) \<le> 3" "1 < length (show_base 10 n) \<Longrightarrow> hd (show_base 10 n) \<noteq> CHR ''0''"
proof -
  have split: "int m = 10 * int (m div 10) + int (m mod 10)" for m
    by (metis of_nat_add of_nat_mult of_nat_numeral mult_div_mod_eq)
  note 2 = split [of n]
  have "n div 100 = n div 10 div 10" by (simp add: div_mult2_eq [symmetric])
  then have 3: "int n = 10 * (10 * int (n div 100) + int (n div 10 mod 10)) + int (n mod 10)"
    using split [of n] split [of "n div 10"] by simp
  note s = show_base_def nat_digits_small digit_char_digit
  consider (one) "n < 10" | (two) "10 \<le> n" "n < 100" | (three) "100 \<le> n" using assms by linarith
  then have "digits_val 0 (show_base 10 n) = int n \<and> list_all is_digit (show_base 10 n) \<and> show_base 10 n \<noteq> []
    \<and> length (show_base 10 n) \<le> 3 \<and> (1 < length (show_base 10 n) \<longrightarrow> hd (show_base 10 n) \<noteq> CHR ''0'')"
  proof cases
    case one
    then show ?thesis by (simp add: s)
  next
    case two
    then have "n div 10 < 10" "n div 10 \<noteq> 0" by auto
    with two 2 show ?thesis by (simp add: s)
  next
    case three
    then have "n div 100 < 10" "n div 100 \<noteq> 0" using assms by auto
    with three assms 3 show ?thesis by (simp add: s)
  qed
  then show "digits_val 0 (show_base 10 n) = int n" "list_all is_digit (show_base 10 n)" "show_base 10 n \<noteq> []"
    "length (show_base 10 n) \<le> 3" "1 < length (show_base 10 n) \<Longrightarrow> hd (show_base 10 n) \<noteq> CHR ''0''" by blast+
qed

lemma v4_field_nat:
  assumes "n < 256"
  shows "v4_field (show_base 10 n) = Some (of_nat n)"
proof -
  have "n < 1000" using assms by simp
  note s = show_base_small [OF this]
  show ?thesis using s assms unfolding v4_field_def Let_def s(1) by auto
qed

lemma v4_field_show:
  fixes w :: "8 word"
  shows "v4_field (show_base 10 (unat w)) = Some w" "set (show_base 10 (unat w)) \<inter> {CHR ''.'', CHR '':'', CHR ''%'', CHR ''['', CHR '']''} = {}"
proof -
  have "unat w < 256" using unsigned_less [of w] by simp
  with v4_field_nat show_base_small(2) [of "unat w"] show "v4_field (show_base 10 (unat w)) = Some w"
    "set (show_base 10 (unat w)) \<inter> {CHR ''.'', CHR '':'', CHR ''%'', CHR ''['', CHR '']''} = {}"
    by (auto simp: list_all_iff is_digit_def)
qed

lemma parseIPv4_string4: "length a = 4 \<Longrightarrow> parseIPv4 (string4 a) = Some a"
proof -
  assume l: "length a = 4"
  have "SplitByte (string4 a) CHR ''.'' = map (\<lambda>w. show_base 10 (unat w)) a"
    unfolding string4_def using l v4_field_show(2)
    by (intro SplitByte_JoinWith) (auto simp: disjoint_iff)
  moreover have "all_some (map (\<lambda>w. v4_field (show_base 10 (unat w))) a) = Some a" for a :: ip
    by (induction a) (simp_all add: v4_field_show)
  ultimately show ?thesis using l by (simp add: parseIPv4_def o_def)
qed

lemma JoinWith_chars: "set (JoinWith sep ws) \<subseteq> set sep \<union> (\<Union>w \<in> set ws. set w)"
  by (induction sep ws rule: JoinWith.induct) auto

lemma string4_chars:
  assumes "length a = 4"
  shows "string4 a \<noteq> []" "set (string4 a) \<inter> {CHR '':'', CHR ''['', CHR '']''} = {}"
proof -
  obtain x y r where a: "a = x # y # r" using assms by (cases a; cases "tl a") auto
  show "string4 a \<noteq> []" by (simp add: string4_def a)
  show "set (string4 a) \<inter> {CHR '':'', CHR ''['', CHR '']''} = {}"
    using JoinWith_chars [of "''.''" "map (\<lambda>w. show_base 10 (unat w)) a"] v4_field_show(2)
    by (fastforce simp: string4_def)
qed

lemma find_dot:
  assumes "length a = 4"
  shows "find (\<lambda>c. c = CHR ''.'' \<or> c = CHR '':'' \<or> c = CHR ''%'') (string4 a) = Some CHR ''.''"
proof -
  obtain x y r where a: "a = x # y # r" using assms by (cases a; cases "tl a") auto
  have "find P (u @ v) = find P v" if "\<forall>c \<in> set u. \<not> P c" for P and u v :: string
    using that by (induction u) auto
  from this [of "show_base 10 (unat x)" "\<lambda>c. c = CHR ''.'' \<or> c = CHR '':'' \<or> c = CHR ''%''"] v4_field_show(2) [of x]
  show ?thesis by (auto simp: a string4_def disjoint_iff)
qed

lemma ParseIP_IP_String_v4:
  assumes "length a = 4"
  shows "ParseIP (IP_String (As16 a)) = Some (As16 a)"
proof -
  have ne: "As16 a \<noteq> []" using assms by (auto simp: As16_def)
  show ?thesis using assms ne find_dot [OF assms] parseIPv4_string4 [OF assms]
    by (simp add: IP_String_def ParseIP_def ParseAddr_def)
qed

end
