(* ===== verification/Rule_Policy.thy ===== *)
theory Rule_Policy
  imports Net_IP Plugin_Api
begin

text \<open>
  \<open>src/plugin/official/rulepolicy/rulepolicy.go\<close>: the built-in policy plugin, with address lists, a rate limit
  per source, host and upstream rewrites and the maintenance status.  Times are in nanoseconds;
  \<open>parse_duration\<close> is \<open>time.ParseDuration\<close>, \<open>uni\<close> the lower-casing of strings outside ASCII.
\<close>

section \<open>Configuration and state\<close>

record RateLimitConfig =
  rl_Requests :: int
  rl_Window :: string

record MaintenanceConfig =
  mt_Enabled :: bool
  mt_Hosts :: "string list"
  mt_MOTD :: string
  mt_Favicon :: string
  mt_OnlinePlayers :: int
  mt_MaxPlayers :: int
  mt_Version :: string
  mt_Window :: string
  mt_StatusByHost :: "(string \<times> string) list"

record RulePolicyConfig =
  pc_HostRewrite :: "(string \<times> string) list"
  pc_UpstreamRewrite :: "(string \<times> string) list"
  pc_SourceAllowCIDR :: "string list"
  pc_SourceDenyCIDR :: "string list"
  pc_RateLimit :: RateLimitConfig
  pc_Maintenance :: MaintenanceConfig

record rateBucket =
  rb_windowStart :: int
  rb_count :: int

record RulePolicy =
  rp_config :: RulePolicyConfig
  rp_bucket :: "(string \<times> rateBucket) list"

definition empty_policy :: RulePolicyConfig where
  "empty_policy = \<lparr>pc_HostRewrite = [], pc_UpstreamRewrite = [], pc_SourceAllowCIDR = [], pc_SourceDenyCIDR = [],
     pc_RateLimit = \<lparr>rl_Requests = 0, rl_Window = []\<rparr>,
     pc_Maintenance = \<lparr>mt_Enabled = False, mt_Hosts = [], mt_MOTD = [], mt_Favicon = [], mt_OnlinePlayers = 0,
       mt_MaxPlayers = 0, mt_Version = [], mt_Window = [], mt_StatusByHost = []\<rparr>\<rparr>"

definition rulepolicy_New :: RulePolicy where
  "rulepolicy_New = \<lparr>rp_config = empty_policy, rp_bucket = []\<rparr>"

text \<open>A nil configuration, or one of another type, is the empty one; the buckets are kept.\<close>

definition rulepolicy_ReloadConfig :: "RulePolicyConfig option \<Rightarrow> RulePolicy \<Rightarrow> RulePolicy" where
  "rulepolicy_ReloadConfig config p = p\<lparr>rp_config := (case config of None \<Rightarrow> empty_policy | Some c \<Rightarrow> c)\<rparr>"

text \<open>Indexing a Go map: the empty string where the key is missing.\<close>

definition str_index :: "(string \<times> string) list \<Rightarrow> string \<Rightarrow> string" where
  "str_index m k = (case map_of m k of None \<Rightarrow> [] | Some v \<Rightarrow> v)"

section \<open>Address lists\<close>

definition sourceIP :: "string \<Rightarrow> ip option" where
  "sourceIP addr = ParseIP (case SplitHostPort addr of Inl _ \<Rightarrow> addr | Inr (host, _) \<Rightarrow> host)"

fun cidrMatches :: "string list \<Rightarrow> ip \<Rightarrow> bool" where
  "cidrMatches [] ip = False"
| "cidrMatches (raw # ranges) ip = (case ParseCIDR (TrimSpace raw) of
      None \<Rightarrow> cidrMatches ranges ip
    | Some network \<Rightarrow> if IPNet_Contains network ip then True else cidrMatches ranges ip)"

text \<open>The reason the address lists give for refusing a source, if they do.\<close>

definition cidr_refusal :: "RulePolicyConfig \<Rightarrow> string \<Rightarrow> string option" where
  "cidr_refusal cfg addr = (case sourceIP addr of
      None \<Rightarrow> None
    | Some ip \<Rightarrow>
        if cidrMatches (pc_SourceDenyCIDR cfg) ip then Some ''source denied by CIDR policy''
        else if pc_SourceAllowCIDR cfg \<noteq> [] \<and> \<not> cidrMatches (pc_SourceAllowCIDR cfg) ip
        then Some ''source not allowed by CIDR policy''
        else None)"

section \<open>Rate limit\<close>

definition rate_window :: "(string \<Rightarrow> int option) \<Rightarrow> RateLimitConfig \<Rightarrow> int" where
  "rate_window parse_duration cfg =
    (if rl_Window cfg \<noteq> [] then
       (case parse_duration (rl_Window cfg) of Some d \<Rightarrow> if 0 < d then d else 1000000000 | None \<Rightarrow> 1000000000)
     else 1000000000)"

text \<open>A key without a bucket reads as the zero bucket, whose start is the zero time.\<close>

definition rateLimited ::
  "(string \<Rightarrow> int option) \<Rightarrow> int \<Rightarrow> string \<Rightarrow> RateLimitConfig \<Rightarrow> RulePolicy \<Rightarrow> RulePolicy \<times> bool" where
  "rateLimited parse_duration now key cfg p =
    (let window = rate_window parse_duration cfg;
         bucket = (case map_of (rp_bucket p) key of
             Some b \<Rightarrow> if window \<le> now - rb_windowStart b then \<lparr>rb_windowStart = now, rb_count = 0\<rparr> else b
           | None \<Rightarrow> \<lparr>rb_windowStart = now, rb_count = 0\<rparr>);
         bucket = bucket\<lparr>rb_count := rb_count bucket + 1\<rparr>
     in (p\<lparr>rp_bucket := (key, bucket) # filter (\<lambda>(k, _). k \<noteq> key) (rp_bucket p)\<rparr>, rl_Requests cfg < rb_count bucket))"

section \<open>The hooks\<close>

definition filterConnection ::
  "(string \<Rightarrow> int option) \<Rightarrow> int \<Rightarrow> ConnectionFilterRequest \<Rightarrow> RulePolicy \<Rightarrow> RulePolicy \<times> FilterDecision" where
  "filterConnection parse_duration now req p =
    (let cfg = rp_config p;
         deny = (\<lambda>reason. \<lparr>fd_Allow = False, fd_Reject = True, fd_Reason = reason, fd_FailPolicy = [], fd_Metadata = Map.empty\<rparr>);
         allow = \<lparr>fd_Allow = True, fd_Reject = False, fd_Reason = [], fd_FailPolicy = [], fd_Metadata = Map.empty\<rparr>
     in case cidr_refusal cfg (cf_SourceAddr req) of
          Some reason \<Rightarrow> (p, deny reason)
        | None \<Rightarrow>
            if 0 < rl_Requests (pc_RateLimit cfg) then
              (case rateLimited parse_duration now (cf_SourceAddr req) (pc_RateLimit cfg) p of
                 (p, True) \<Rightarrow> (p, deny ''source rate limited'')
               | (p, False) \<Rightarrow> (p, allow))
            else (p, allow))"

definition filterHandshake :: "(string \<Rightarrow> string) \<Rightarrow> HandshakeFilterRequest \<Rightarrow> RulePolicy \<Rightarrow> HandshakeFilterDecision" where
  "filterHandshake uni req p =
    (let rewritten = str_index (pc_HostRewrite (rp_config p)) (ToLower uni (hf_ServerHost req))
     in \<lparr>fd_Allow = True, fd_Reject = False, fd_Reason = (if rewritten \<noteq> [] then ''host rewrite'' else []),
         fd_FailPolicy = [], fd_Metadata = Map.empty, hd_RewriteHost = rewritten\<rparr>)"

definition policy_resolveRoute :: "(string \<Rightarrow> string) \<Rightarrow> RouteResolveRequest \<Rightarrow> RulePolicy \<Rightarrow> RouteDecision" where
  "policy_resolveRoute uni req p =
    (let upstream = str_index (pc_UpstreamRewrite (rp_config p)) (ToLower uni (rq_Host req)) in
     if upstream \<noteq> []
     then \<lparr>rd_Action = RouteDecisionOverride, rd_Upstream = upstream, rd_Host = [], rd_Reason = ''upstream rewrite rule'',
        rd_ProviderID = ''official.rule-policy'', rd_CacheTTL = 60000000000, rd_Metadata = Map.empty, rd_Explanation = []\<rparr>
     else \<lparr>rd_Action = RouteDecisionPass, rd_Upstream = [], rd_Host = [], rd_Reason = [],
        rd_ProviderID = [], rd_CacheTTL = 0, rd_Metadata = Map.empty, rd_Explanation = []\<rparr>)"

definition policy_evaluateRule ::
  "(string \<Rightarrow> int option) \<Rightarrow> int \<Rightarrow> RuleEvaluateRequest \<Rightarrow> RulePolicy \<Rightarrow> RulePolicy \<times> RuleEvaluateDecision" where
  "policy_evaluateRule parse_duration now req p =
    (let cfg = rp_config p;
         decide = (\<lambda>allow deny reason. \<lparr>re_Allow = allow, re_Deny = deny, re_Reject = False, re_Reason = reason,
           re_ProviderID = ''official.rule-policy'', re_Metadata = Map.empty\<rparr>)
     in case cidr_refusal cfg (ru_SourceAddr req) of
          Some reason \<Rightarrow> (p, decide False True reason)
        | None \<Rightarrow>
            if 0 < rl_Requests (pc_RateLimit cfg) then
              (case rateLimited parse_duration now (ru_SourceAddr req) (pc_RateLimit cfg) p of
                 (p, True) \<Rightarrow> (p, decide False True ''source rate limited'')
               | (p, False) \<Rightarrow> (p, decide True False ''rule policy allowed''))
            else (p, decide True False ''rule policy allowed''))"

definition acceptStatus :: "(string \<Rightarrow> string) \<Rightarrow> StatusPingRequest \<Rightarrow> RulePolicy \<Rightarrow> bool" where
  "acceptStatus uni req p =
    (let m = pc_Maintenance (rp_config p) in
     if \<not> mt_Enabled m \<and> mt_StatusByHost m = [] then False
     else if mt_Hosts m = [] then True
     else list_ex (\<lambda>item. ToLower uni item = ToLower uni (sp_Host req)) (mt_Hosts m))"

definition policy_statusPing :: "(string \<Rightarrow> string) \<Rightarrow> StatusPingRequest \<Rightarrow> RulePolicy \<Rightarrow> StatusPingResponse" where
  "policy_statusPing uni req p =
    (let m = pc_Maintenance (rp_config p);
         hostMOTD = str_index (mt_StatusByHost m) (ToLower uni (sp_Host req));
         motd = (if hostMOTD \<noteq> [] then hostMOTD else mt_MOTD m);
         motd = (if motd = [] then ''Maintenance'' else motd);
         version = (if mt_Version m = [] then ''Maintenance'' else mt_Version m)
     in \<lparr>st_MOTD = motd, st_Favicon = mt_Favicon m, st_OnlinePlayers = mt_OnlinePlayers m, st_MaxPlayers = mt_MaxPlayers m,
         st_VersionText = version, st_ProtocolVersion = sp_ProtocolVersion req, st_Maintenance = mt_Enabled m,
         st_MaintenanceWindow = mt_Window m, st_Metadata = Map.empty\<rparr>)"

section \<open>Lemmas\<close>

lemma cidrMatches_ex:
  "cidrMatches ranges ip \<longleftrightarrow> (\<exists>raw \<in> set ranges. \<exists>net. ParseCIDR (TrimSpace raw) = Some net \<and> IPNet_Contains net ip)"
  by (induction ranges) (auto split: option.splits)

lemma map_of_bucket: "map_of (filter (\<lambda>(k, _). k \<noteq> key) bs) k = (if k = key then None else map_of bs k)"
  by (induction bs) auto

text \<open>Consecutive connection attempts: the source and the time of each, and which were limited.\<close>

fun rate_run ::
  "(string \<Rightarrow> int option) \<Rightarrow> RateLimitConfig \<Rightarrow> RulePolicy \<Rightarrow> (string \<times> int) list \<Rightarrow> bool list" where
  "rate_run pd cfg p [] = []"
| "rate_run pd cfg p ((key, now) # rs) = (case rateLimited pd now key cfg p of
      (p, limited) \<Rightarrow> limited # rate_run pd cfg p rs)"

lemma rate_run_in_window:
  assumes "map_of (rp_bucket p) key = Some \<lparr>rb_windowStart = t0, rb_count = c\<rparr>" "0 \<le> c"
    and "\<forall>t \<in> set ts. t0 \<le> t \<and> t < t0 + rate_window pd cfg"
  shows "length (filter Not (rate_run pd cfg p (map (Pair key) ts))) = min (nat (rl_Requests cfg - c)) (length ts)"
  using assms
proof (induction ts arbitrary: p c)
  case (Cons t ts)
  let ?p = "p\<lparr>rp_bucket := (key, \<lparr>rb_windowStart = t0, rb_count = c + 1\<rparr>) # filter (\<lambda>(k, _). k \<noteq> key) (rp_bucket p)\<rparr>"
  have "rateLimited pd t key cfg p = (?p, rl_Requests cfg < c + 1)"
    using Cons.prems by (simp add: rateLimited_def Let_def)
  moreover have "length (filter Not (rate_run pd cfg ?p (map (Pair key) ts))) = min (nat (rl_Requests cfg - (c + 1))) (length ts)"
    using Cons.prems by (intro Cons.IH) (simp_all add: map_of_bucket)
  ultimately show ?case by (auto simp: min_def)
qed simp

lemma filterConnection_denied:
  "cidr_refusal (rp_config p) (cf_SourceAddr req) = Some reason \<Longrightarrow>
   filterConnection pd now req p = (p, \<lparr>fd_Allow = False, fd_Reject = True, fd_Reason = reason, fd_FailPolicy = [], fd_Metadata = Map.empty\<rparr>)"
  by (simp add: filterConnection_def Let_def)

lemma filterConnection_refused:
  "cidr_refusal (rp_config p) (cf_SourceAddr req) = Some reason \<Longrightarrow> \<not> fd_Allow (snd (filterConnection pd now req p))"
  by (simp add: filterConnection_denied)

lemma filterConnection_passes:
  "cidr_refusal (rp_config p) (cf_SourceAddr req) = None \<Longrightarrow> rl_Requests (pc_RateLimit (rp_config p)) \<le> 0 \<Longrightarrow>
   filterConnection pd now req p = (p, \<lparr>fd_Allow = True, fd_Reject = False, fd_Reason = [], fd_FailPolicy = [], fd_Metadata = Map.empty\<rparr>)"
  by (simp add: filterConnection_def Let_def)

section \<open>Properties\<close>

text \<open>
  the rate limit of one source key.  Of the attempts that fall into one window, which starts with the first
  attempt after the previous window ended, exactly the first \<open>Requests\<close> are let through.
\<close>

theorem rate_limit_window:
  assumes "case map_of (rp_bucket p) key of None \<Rightarrow> True | Some b \<Rightarrow> rb_windowStart b + rate_window pd cfg \<le> t0"
    and "list_all (\<lambda>t. t0 \<le> t \<and> t < t0 + rate_window pd cfg) ts" "0 < rl_Requests cfg"
  shows "length (filter Not (rate_run pd cfg p (map (Pair key) (t0 # ts)))) = min (nat (rl_Requests cfg)) (Suc (length ts))"
proof -
  let ?p = "p\<lparr>rp_bucket := (key, \<lparr>rb_windowStart = t0, rb_count = 1\<rparr>) # filter (\<lambda>(k, _). k \<noteq> key) (rp_bucket p)\<rparr>"
  have "rateLimited pd t0 key cfg p = (?p, rl_Requests cfg < 1)"
    using assms(1) by (auto simp: rateLimited_def Let_def split: option.splits)
  moreover have "length (filter Not (rate_run pd cfg ?p (map (Pair key) ts))) = min (nat (rl_Requests cfg - 1)) (length ts)"
    using assms(2) by (intro rate_run_in_window) (simp_all add: map_of_bucket list_all_iff)
  ultimately show ?thesis using assms(3) by (auto simp: min_def)
qed

definition demo_rate :: RateLimitConfig where
  "demo_rate = \<lparr>rl_Requests = 2, rl_Window = []\<rparr>"

theorem rate_limit_window_witness:
  "length (filter Not (rate_run (\<lambda>_. None) demo_rate rulepolicy_New (map (Pair ''10.0.0.1'') [0, 5, 6, 7]))) = 2"
  using rate_limit_window [where p = rulepolicy_New and key = "''10.0.0.1''" and pd = "\<lambda>_. None" and cfg = demo_rate
      and ?t0.0 = 0 and ts = "[5, 6, 7]"]
  by (simp add: rulepolicy_New_def demo_rate_def rate_window_def)

text \<open>
  the limit counts per source address with its port.  A client that opens every connection from another port,
  as TCP clients do, is never limited, however many connections it opens and whatever the limit is.
\<close>

theorem rate_limit_evaded:
  assumes "distinct (map fst rs)" "\<forall>k \<in> fst ` set rs. map_of (rp_bucket p) k = None" "0 < rl_Requests cfg"
  shows "rate_run pd cfg p rs = replicate (length rs) False"
  using assms(1,2)
proof (induction rs arbitrary: p)
  case (Cons r rs)
  obtain key now where r: "r = (key, now)" by fastforce
  let ?p = "p\<lparr>rp_bucket := (key, \<lparr>rb_windowStart = now, rb_count = 1\<rparr>) # filter (\<lambda>(k, _). k \<noteq> key) (rp_bucket p)\<rparr>"
  have "rateLimited pd now key cfg p = (?p, False)"
    using Cons.prems(2) assms(3) r by (simp add: rateLimited_def Let_def)
  moreover have "rate_run pd cfg ?p rs = replicate (length rs) False"
  proof (rule Cons.IH)
    show "distinct (map fst rs)" using Cons.prems(1) by simp
    have "key \<notin> fst ` set rs" using Cons.prems(1) r by simp
    then show "\<forall>k \<in> fst ` set rs. map_of (rp_bucket ?p) k = None"
      using Cons.prems(2) by (auto simp: map_of_bucket)
  qed
  ultimately show ?case using r by simp
qed simp

theorem rate_limit_evaded_witness:
  "rate_run (\<lambda>_. None) demo_rate rulepolicy_New [(''10.0.0.1:1001'', 0), (''10.0.0.1:1002'', 0), (''10.0.0.1:1003'', 0)]
    = [False, False, False]"
  using rate_limit_evaded [of "[(''10.0.0.1:1001'', 0), (''10.0.0.1:1002'', 0), (''10.0.0.1:1003'', 0)]" rulepolicy_New demo_rate]
  by (simp add: rulepolicy_New_def demo_rate_def numeral_3_eq_3)

text \<open>
  what the address lists decide.  A source with a parseable address is refused when a well-formed denied network
  contains it, and, with an allow list, when no well-formed allowed network does; the first
  takes precedence and neither touches the rate limit.  A source whose address does not parse
  passes both lists.
\<close>

theorem filterConnection_lists:
  "filterConnection pd now req p = (p', d) \<Longrightarrow>
   (sourceIP (cf_SourceAddr req) = Some ip \<longrightarrow>
     ((\<exists>raw \<in> set (pc_SourceDenyCIDR (rp_config p)). \<exists>net. ParseCIDR (TrimSpace raw) = Some net \<and> IPNet_Contains net ip)
       \<longrightarrow> \<not> fd_Allow d \<and> fd_Reason d = ''source denied by CIDR policy'' \<and> p' = p)
     \<and> (pc_SourceAllowCIDR (rp_config p) \<noteq> [] \<and> fd_Allow d \<longrightarrow>
         (\<exists>raw \<in> set (pc_SourceAllowCIDR (rp_config p)). \<exists>net. ParseCIDR (TrimSpace raw) = Some net \<and> IPNet_Contains net ip)))
   \<and> (sourceIP (cf_SourceAddr req) = None \<and> rl_Requests (pc_RateLimit (rp_config p)) \<le> 0 \<longrightarrow> fd_Allow d)"
  unfolding cidrMatches_ex [symmetric]
proof (intro conjI impI; (elim conjE)?)
  assume fc: "filterConnection pd now req p = (p', d)" and ip: "sourceIP (cf_SourceAddr req) = Some ip"
    "cidrMatches (pc_SourceDenyCIDR (rp_config p)) ip"
  from ip have "cidr_refusal (rp_config p) (cf_SourceAddr req) = Some ''source denied by CIDR policy''"
    by (simp add: cidr_refusal_def)
  from filterConnection_denied [OF this, of pd now] fc
  show "\<not> fd_Allow d" "fd_Reason d = ''source denied by CIDR policy''" "p' = p" by auto
next
  assume fc: "filterConnection pd now req p = (p', d)" "fd_Allow d" and ip: "sourceIP (cf_SourceAddr req) = Some ip"
    "pc_SourceAllowCIDR (rp_config p) \<noteq> []"
  have "cidr_refusal (rp_config p) (cf_SourceAddr req) = None"
    using filterConnection_refused [of p req _ pd now] fc by (cases "cidr_refusal (rp_config p) (cf_SourceAddr req)") auto
  with ip show "cidrMatches (pc_SourceAllowCIDR (rp_config p)) ip" by (simp add: cidr_refusal_def split: if_splits)
next
  assume "filterConnection pd now req p = (p', d)" "sourceIP (cf_SourceAddr req) = None"
    "rl_Requests (pc_RateLimit (rp_config p)) \<le> 0"
  then show "fd_Allow d" using filterConnection_passes [of p req pd now] by (auto simp: cidr_refusal_def)
qed

definition demo_policy :: RulePolicy where
  "demo_policy = rulepolicy_New\<lparr>rp_config := empty_policy\<lparr>pc_SourceAllowCIDR := [''10.0.0.0/8'']\<rparr>\<rparr>"

lemma demo_host: "SplitHostPort ''[fe80::1%eth0]:4711'' = Inr (''fe80::1%eth0'', ''4711'')"
  by code_simp

lemma demo_zone: "sourceIP ''[fe80::1%eth0]:4711'' = None"
  using ParseIP_zone [of "''fe80::1%eth0''"] by (simp add: sourceIP_def demo_host)

theorem filterConnection_lists_witness:
  "fd_Allow (snd (filterConnection (\<lambda>_. None) 0
     \<lparr>cf_SourceAddr = ''[fe80::1%eth0]:4711'', cf_Transport = ''tcp'', cf_Metadata = Map.empty\<rparr> demo_policy))"
  using filterConnection_lists [OF surjective_pairing, where pd = "\<lambda>_. None" and now = 0 and p = demo_policy and req =
      "\<lparr>cf_SourceAddr = ''[fe80::1%eth0]:4711'', cf_Transport = ''tcp'', cf_Metadata = Map.empty\<rparr>"]
  by (simp add: demo_zone demo_policy_def rulepolicy_New_def empty_policy_def)

end
