(* ===== verification/Trusted_Real_IP.thy ===== *)
theory Trusted_Real_IP
  imports Rule_Policy Takeover
begin

text \<open>
  \<open>src/plugin/official/trustedrealip/trusted_real_ip.go\<close>: the built-in takeover plugin that replaces the source
  address of a WebSocket connection by the one a trusted reverse proxy reports in a header, and
  closes every WebSocket connection for which it cannot.
\<close>

section \<open>Header names\<close>

text \<open>The bytes of an HTTP token.\<close>

definition validHeaderFieldByte :: "char \<Rightarrow> bool" where
  "validHeaderFieldByte c = (let n = (of_char c :: nat) in
     (48 \<le> n \<and> n \<le> 57) \<or> (65 \<le> n \<and> n \<le> 90) \<or> (97 \<le> n \<and> n \<le> 122) \<or> c \<in> set ''!#$%&'*+-.^_`|~'')"

fun canon_bytes :: "bool \<Rightarrow> string \<Rightarrow> string" where
  "canon_bytes up [] = []"
| "canon_bytes up (c # s) = (let n = (of_char c :: nat);
      c' = (if up \<and> 97 \<le> n \<and> n \<le> 122 then char_of (n - 32)
            else if \<not> up \<and> 65 \<le> n \<and> n \<le> 90 then char_of (n + 32) else c)
    in c' # canon_bytes (c' = CHR ''-'') s)"

definition CanonicalHeaderKey :: "string \<Rightarrow> string" where
  "CanonicalHeaderKey s = (if list_all validHeaderFieldByte s then canon_bytes True s else s)"

definition Header_Values :: "(string \<times> string list) list \<Rightarrow> string \<Rightarrow> string list" where
  "Header_Values h key = (case map_of h (CanonicalHeaderKey key) of None \<Rightarrow> [] | Some vs \<Rightarrow> vs)"

section \<open>Configuration\<close>

record RealIPConfig =
  tr_Header :: string
  tr_TrustedPeers :: "string list"

record RealIP =
  ri_header :: string
  ri_trusted :: "IPNet list"

definition realip_New :: RealIP where
  "realip_New = \<lparr>ri_header = [], ri_trusted = []\<rparr>"

definition realip_NewConfigObj :: RealIPConfig where
  "realip_NewConfigObj = \<lparr>tr_Header = ''X-Real-IP'', tr_TrustedPeers = [''127.0.0.1/32'']\<rparr>"

fun parse_peers :: "string list \<Rightarrow> IPNet list result" where
  "parse_peers [] = Inr []"
| "parse_peers (raw # rest) = (case ParseCIDR (TrimSpace raw) of
      None \<Rightarrow> Inl (ErrorString ''trusted_peers contains an invalid CIDR'')
    | Some network \<Rightarrow> (case parse_peers rest of Inl e \<Rightarrow> Inl e | Inr ns \<Rightarrow> Inr (network # ns)))"

text \<open>\<^const>\<open>None\<close>: a nil configuration, or one of another type.  The plugin is changed only on success.\<close>

definition realip_ReloadConfig :: "RealIPConfig option \<Rightarrow> RealIP \<Rightarrow> RealIP result" where
  "realip_ReloadConfig value p = (case value of
      None \<Rightarrow> Inl (ErrorString ''trusted real IP config has an invalid type'')
    | Some config \<Rightarrow>
        (let header = TrimSpace (tr_Header config) in
         if header = [] then Inl (ErrorString ''header is required'')
         else if tr_TrustedPeers config = [] then Inl (ErrorString ''trusted_peers must not be empty'')
         else (case parse_peers (tr_TrustedPeers config) of
             Inl e \<Rightarrow> Inl e
           | Inr trusted \<Rightarrow> Inr (p\<lparr>ri_header := CanonicalHeaderKey header, ri_trusted := trusted\<rparr>))))"

section \<open>The handler\<close>

definition parsePeerIP :: "string \<Rightarrow> ip option" where
  "parsePeerIP addr = (case SplitHostPort (TrimSpace addr) of
      Inr (host, _) \<Rightarrow> ParseIP host
    | Inl _ \<Rightarrow> ParseIP (TrimSpace addr))"

text \<open>What the handler does with its continuation, and whether it closed the stream.\<close>

definition realip_handle :: "RealIP \<Rightarrow> UpstreamConnectRequestV2 \<Rightarrow> takeover \<times> bool" where
  "realip_handle p req = (case ic_HTTP (uc_Ingress req) of
      None \<Rightarrow> (TNext (uc_Connection req) TReturn, False)
    | Some h \<Rightarrow>
        if ic_Transport (uc_Ingress req) \<noteq> ''websocket'' then (TNext (uc_Connection req) TReturn, False)
        else (case parsePeerIP (uc_PeerAddr req) of
            None \<Rightarrow> (TReturn None, True)
          | Some peer \<Rightarrow>
              if \<not> list_ex (\<lambda>network. IPNet_Contains network peer) (ri_trusted p) then (TReturn None, True)
              else (case Header_Values (hi_Headers h) (ri_header p) of
                  [v] \<Rightarrow>
                    if CHR '','' \<in> set v then (TReturn None, True)
                    else (case ParseIP (TrimSpace v) of
                        None \<Rightarrow> (TReturn None, True)
                      | Some ip \<Rightarrow> (TNext ((uc_Connection req)\<lparr>cs_EffectiveSourceAddr := JoinHostPort (IP_String ip) ''0''\<rparr>)
                                     TReturn, False))
                | _ \<Rightarrow> (TReturn None, True))))"

text \<open>The handler as the manager holds it; \<open>ms\<close> is how long a call takes.\<close>

definition realip_handler :: "RealIP \<Rightarrow> nat \<Rightarrow> upstreamHandler" where
  "realip_handler p ms = \<lparr>up_pluginID = ''trusted-real-ip'', up_artifactID = [], up_priority = 0, up_handlerID = [],
     up_draining = False, up_handle = (\<lambda>req. (fst (realip_handle p req), ms))\<rparr>"

section \<open>Lemmas\<close>

lemma parse_peers_mem:
  "parse_peers raws = Inr ns \<Longrightarrow> n \<in> set ns \<Longrightarrow> \<exists>raw \<in> set raws. ParseCIDR (TrimSpace raw) = Some n"
  by (induction raws arbitrary: ns) (auto split: option.splits sum.splits)

lemma ReloadConfig_trusted:
  assumes "realip_ReloadConfig (Some c) p0 = Inr p"
  shows "ri_header p = CanonicalHeaderKey (TrimSpace (tr_Header c))"
    and "n \<in> set (ri_trusted p) \<Longrightarrow> \<exists>raw \<in> set (tr_TrustedPeers c). ParseCIDR (TrimSpace raw) = Some n"
  using assms parse_peers_mem by (auto simp: realip_ReloadConfig_def Let_def split: if_splits sum.splits)

text \<open>A chain of one handler: what reaches the core when it passes the connection on, or ends it.\<close>

lemma single_handler_trace:
  assumes "up_pluginID h \<notin> draining" "\<not> up_draining h" "cs_Stream (uc_Connection req) = Some s"
  shows "up_handle h req = (TNext st TReturn, ms) \<Longrightarrow> cs_Stream st = Some s' \<Longrightarrow>
      filter is_core (ds_trace (snd (HandleConnection redact draining [h] (Some core) req stats))) = [EvCore st]"
    and "up_handle h req = (TReturn e, ms) \<Longrightarrow>
      filter is_core (ds_trace (snd (HandleConnection redact draining [h] (Some core) req stats))) = []"
  using assms
  by (auto simp: HandleConnection_def dispatch_run.simps claim_def Let_def split: outcome.splits option.splits prod.splits)

text \<open>The connection the handler passes on; \<open>None\<close> when it closes the stream.\<close>

definition realip_forward :: "RealIP \<Rightarrow> UpstreamConnectRequestV2 \<Rightarrow> ConnectionState option" where
  "realip_forward p req = (case fst (realip_handle p req) of TNext st _ \<Rightarrow> Some st | _ \<Rightarrow> None)"

lemma realip_handle_cases:
  "realip_handle p req = (case realip_forward p req of None \<Rightarrow> (TReturn None, True) | Some st \<Rightarrow> (TNext st TReturn, False))"
  by (auto simp: realip_forward_def realip_handle_def split: option.splits list.splits)

lemma realip_forward_websocket:
  assumes "ic_Transport (uc_Ingress req) = ''websocket''" "ic_HTTP (uc_Ingress req) = Some h"
    and "realip_forward p req = Some st"
  obtains peer v ip network where "parsePeerIP (uc_PeerAddr req) = Some peer" "network \<in> set (ri_trusted p)"
    "IPNet_Contains network peer" "Header_Values (hi_Headers h) (ri_header p) = [v]" "CHR '','' \<notin> set v"
    "ParseIP (TrimSpace v) = Some ip" "st = (uc_Connection req)\<lparr>cs_EffectiveSourceAddr := JoinHostPort (IP_String ip) ''0''\<rparr>"
  using assms unfolding realip_forward_def realip_handle_def
  by (auto simp: list_ex_iff split: option.splits list.splits if_splits)

lemma realip_forward_other:
  "ic_Transport (uc_Ingress req) \<noteq> ''websocket'' \<or> ic_HTTP (uc_Ingress req) = None \<Longrightarrow>
   realip_forward p req = Some (uc_Connection req)"
  by (auto simp: realip_forward_def realip_handle_def split: option.splits)

lemma realip_forward_stream: "realip_forward p req = Some st \<Longrightarrow> cs_Stream st = cs_Stream (uc_Connection req)"
  by (auto simp: realip_forward_def realip_handle_def split: option.splits list.splits if_splits)

lemma realip_core:
  assumes "''trusted-real-ip'' \<notin> draining" "cs_Stream (uc_Connection req) = Some s"
  shows "filter is_core (ds_trace (snd (HandleConnection redact draining [realip_handler p ms] (Some core) req stats)))
    = (case realip_forward p req of None \<Rightarrow> [] | Some st \<Rightarrow> [EvCore st])"
proof (cases "realip_forward p req")
  case None
  then have "up_handle (realip_handler p ms) req = (TReturn None, ms)"
    by (simp add: realip_handler_def realip_handle_cases)
  from single_handler_trace(2) [OF _ _ assms(2) this] assms(1) None show ?thesis by (simp add: realip_handler_def)
next
  case (Some st)
  then have "up_handle (realip_handler p ms) req = (TNext st TReturn, ms)"
    by (simp add: realip_handler_def realip_handle_cases)
  from single_handler_trace(1) [OF _ _ assms(2) this] assms(1) Some realip_forward_stream [OF Some] assms(2)
  show ?thesis by (simp add: realip_handler_def)
qed

lemma sourceIP_join_v4:
  assumes "length a = 4"
  shows "sourceIP (JoinHostPort (IP_String (As16 a)) ''0'') = Some (As16 a)"
proof -
  have "As16 a \<noteq> []" using assms by (auto simp: As16_def)
  then have str: "IP_String (As16 a) = string4 a" using assms by (simp add: IP_String_def)
  note plain = string4_chars [OF assms]
  then have "SplitHostPort (JoinHostPort (string4 a) ''0'') = Inr (string4 a, ''0'')"
    using SplitHostPort_plain [OF plain, of "''0''"] by (auto simp: JoinHostPort_def)
  then show ?thesis using ParseIP_IP_String_v4 [OF assms] by (simp add: sourceIP_def str)
qed

section \<open>Properties\<close>

text \<open>
  whose word is taken for the source address.  With the configured handler in the chain, a WebSocket
  connection reaches the core pipeline only when its peer lies in one of the configured networks
  and the configured header was sent exactly once with one well-formed address, which then replaces
  the source address, and only that.  Every other transport passes unchanged.
\<close>

theorem real_ip_trusted:
  assumes "realip_ReloadConfig (Some c) p0 = Inr p" "''trusted-real-ip'' \<notin> draining"
    and "cs_Stream (uc_Connection req) = Some s"
    and "EvCore st \<in> set (ds_trace (snd (HandleConnection redact draining [realip_handler p ms] (Some core) req stats)))"
  shows "case ic_HTTP (uc_Ingress req) of
      None \<Rightarrow> st = uc_Connection req
    | Some h \<Rightarrow> if ic_Transport (uc_Ingress req) \<noteq> ''websocket'' then st = uc_Connection req
        else (\<exists>peer raw network v ip. parsePeerIP (uc_PeerAddr req) = Some peer
          \<and> raw \<in> set (tr_TrustedPeers c) \<and> ParseCIDR (TrimSpace raw) = Some network \<and> IPNet_Contains network peer
          \<and> Header_Values (hi_Headers h) (CanonicalHeaderKey (TrimSpace (tr_Header c))) = [v] \<and> CHR '','' \<notin> set v
          \<and> ParseIP (TrimSpace v) = Some ip
          \<and> st = (uc_Connection req)\<lparr>cs_EffectiveSourceAddr := JoinHostPort (IP_String ip) ''0''\<rparr>)"
proof -
  have "EvCore st \<in> set (filter is_core (ds_trace (snd (HandleConnection redact draining [realip_handler p ms] (Some core) req stats))))"
    using assms(4) by simp
  then have fw: "realip_forward p req = Some st"
    unfolding realip_core [OF assms(2,3)] by (cases "realip_forward p req") auto
  show ?thesis
  proof (cases "ic_Transport (uc_Ingress req) \<noteq> ''websocket'' \<or> ic_HTTP (uc_Ingress req) = None")
    case True
    with realip_forward_other [OF this, of p] fw show ?thesis by (auto split: option.splits)
  next
    case False
    then obtain h where h: "ic_HTTP (uc_Ingress req) = Some h" "ic_Transport (uc_Ingress req) = ''websocket''" by auto
    from realip_forward_websocket [OF h(2,1) fw] ReloadConfig_trusted [OF assms(1)] h show ?thesis
      by (simp, metis)
  qed
qed

definition demo_real_ip_config :: RealIPConfig where
  "demo_real_ip_config = \<lparr>tr_Header = ''x-real-ip'', tr_TrustedPeers = [''10.0.0.0/8'']\<rparr>"

definition demo_real_ip :: RealIP where
  "demo_real_ip = \<lparr>ri_header = ''X-Real-Ip'', ri_trusted = [\<lparr>in_IP = [10, 0, 0, 0], in_Mask = [255, 0, 0, 0]\<rparr>]\<rparr>"

definition demo_websocket :: UpstreamConnectRequestV2 where
  "demo_websocket = \<lparr>uc_ConnectionID = [], uc_TraceID = [], uc_PeerAddr = ''10.1.2.3:40000'', uc_LocalAddr = [],
     uc_Connection = \<lparr>cs_Stream = Some 0, cs_EffectiveSourceAddr = ''10.1.2.3:40000'', cs_Metadata = Map.empty\<rparr>,
     uc_Ingress = \<lparr>ic_Transport = ''websocket'', ic_ServiceName = [], ic_ListenerPort = 0,
       ic_HTTP = Some \<lparr>hi_Method = ''GET'', hi_Host = [], hi_Path = ''/'', hi_Headers = [(''X-Real-Ip'', ['' 192.0.2.7''])]\<rparr>,
       ic_QUIC = None\<rparr>\<rparr>"

lemma demo_reload: "realip_ReloadConfig (Some demo_real_ip_config) realip_New = Inr demo_real_ip"
  by code_simp

lemma demo_forward:
  "map_option cs_EffectiveSourceAddr (realip_forward demo_real_ip demo_websocket) = Some ''192.0.2.7:0''"
  by code_simp

definition demo_trace :: "dispatch_event list" where
  "demo_trace = ds_trace (snd (HandleConnection id {} [realip_handler demo_real_ip 1] (Some (\<lambda>_. Ret None)) demo_websocket
     (\<lambda>_. \<lparr>us_calls = 0, us_errors = 0, us_panics = 0, us_sessionErrors = 0, us_durationCount = 0,
       us_durationSumMS = 0, us_durationMaxMS = 0, us_lastSessionError = []\<rparr>)))"

lemma demo_stream: "cs_Stream (uc_Connection demo_websocket) = Some 0"
  by (simp add: demo_websocket_def)

lemma demo_event: "\<exists>st. EvCore st \<in> set demo_trace"
proof -
  obtain st where fw: "realip_forward demo_real_ip demo_websocket = Some st" using demo_forward by auto
  have "filter is_core demo_trace = [EvCore st]"
    unfolding demo_trace_def using realip_core [of "{}", OF _ demo_stream] fw by simp
  then have "EvCore st \<in> set (filter is_core demo_trace)" by simp
  then show ?thesis by auto
qed

lemma demo_header:
  "Header_Values [(''X-Real-Ip'', ['' 192.0.2.7''])] ''X-Real-Ip'' = ['' 192.0.2.7'']"
  "CanonicalHeaderKey (TrimSpace (tr_Header demo_real_ip_config)) = ''X-Real-Ip''"
  "ParseIP (TrimSpace '' 192.0.2.7'') = Some (As16 [192, 0, 2, 7])"
  "ParseCIDR (TrimSpace ''192.0.2.0/24'') = Some \<lparr>in_IP = [192, 0, 2, 0], in_Mask = [255, 255, 255, 0]\<rparr>"
  "IPNet_Contains \<lparr>in_IP = [192, 0, 2, 0], in_Mask = [255, 255, 255, 0]\<rparr> (As16 [192, 0, 2, 7])"
  by code_simp+

lemma demo_ingress:
  "ic_HTTP (uc_Ingress demo_websocket) = Some \<lparr>hi_Method = ''GET'', hi_Host = [], hi_Path = ''/'',
     hi_Headers = [(''X-Real-Ip'', ['' 192.0.2.7''])]\<rparr>"
  "ic_Transport (uc_Ingress demo_websocket) = ''websocket''"
  by (simp_all add: demo_websocket_def)

theorem real_ip_trusted_witness:
  "\<exists>st. EvCore st \<in> set demo_trace \<and> cs_EffectiveSourceAddr st = JoinHostPort (IP_String (As16 [192, 0, 2, 7])) ''0''"
proof -
  obtain st where ev: "EvCore st \<in> set demo_trace" using demo_event by auto
  from real_ip_trusted [OF demo_reload _ demo_stream ev [unfolded demo_trace_def]]
  have "cs_EffectiveSourceAddr st = JoinHostPort (IP_String (As16 [192, 0, 2, 7])) ''0''"
    unfolding demo_ingress option.case HTTPIngressContext.select_convs demo_header(1,2)
    using demo_header(3) by auto
  with ev show ?thesis by blast
qed

text \<open>
  the two built-in plugins together.  When the trusted proxy reports an IPv4 address that lies in a network the
  rule policy denies, the connection that comes out of the takeover chain is refused by the connection
  filter, although its peer is the proxy.
\<close>

theorem real_ip_then_policy:
  assumes "realip_forward p req = Some st" "ic_Transport (uc_Ingress req) = ''websocket''"
    and "ic_HTTP (uc_Ingress req) = Some h" "Header_Values (hi_Headers h) (ri_header p) = [v]"
    and "ParseIP (TrimSpace v) = Some (As16 a)" "length a = 4"
    and "raw \<in> set (pc_SourceDenyCIDR (rp_config rp))" "ParseCIDR (TrimSpace raw) = Some network" "IPNet_Contains network (As16 a)"
  shows "filterConnection pd now \<lparr>cf_SourceAddr = cs_EffectiveSourceAddr st, cf_Transport = ''websocket'', cf_Metadata = m\<rparr> rp
    = (rp, \<lparr>fd_Allow = False, fd_Reject = True, fd_Reason = ''source denied by CIDR policy'', fd_FailPolicy = [], fd_Metadata = Map.empty\<rparr>)"
proof (rule filterConnection_denied)
  obtain v' ip where "Header_Values (hi_Headers h) (ri_header p) = [v']" "ParseIP (TrimSpace v') = Some ip"
    "st = (uc_Connection req)\<lparr>cs_EffectiveSourceAddr := JoinHostPort (IP_String ip) ''0''\<rparr>"
    by (rule realip_forward_websocket [OF assms(2,3,1)])
  with assms(4,5) have eff: "cs_EffectiveSourceAddr st = JoinHostPort (IP_String (As16 a)) ''0''" by simp
  have "cidrMatches (pc_SourceDenyCIDR (rp_config rp)) (As16 a)"
    unfolding cidrMatches_ex using assms(7-9) by blast
  then show "cidr_refusal (rp_config rp) (cf_SourceAddr \<lparr>cf_SourceAddr = cs_EffectiveSourceAddr st,
      cf_Transport = ''websocket'', cf_Metadata = m\<rparr>) = Some ''source denied by CIDR policy''"
    using sourceIP_join_v4 [OF assms(6)] by (simp add: cidr_refusal_def eff)
qed

theorem real_ip_then_policy_witness:
  "\<exists>st. realip_forward demo_real_ip demo_websocket = Some st
    \<and> fst (filterConnection (\<lambda>_. None) 0
        \<lparr>cf_SourceAddr = cs_EffectiveSourceAddr st, cf_Transport = ''websocket'', cf_Metadata = Map.empty\<rparr>
        (rulepolicy_New\<lparr>rp_config := empty_policy\<lparr>pc_SourceDenyCIDR := [''192.0.2.0/24'']\<rparr>\<rparr>))
      = rulepolicy_New\<lparr>rp_config := empty_policy\<lparr>pc_SourceDenyCIDR := [''192.0.2.0/24'']\<rparr>\<rparr>"
proof -
  obtain st where fw: "realip_forward demo_real_ip demo_websocket = Some st" using demo_forward by auto
  have vals: "Header_Values (hi_Headers \<lparr>hi_Method = ''GET'', hi_Host = [], hi_Path = ''/'',
     hi_Headers = [(''X-Real-Ip'', ['' 192.0.2.7''])]\<rparr>) (ri_header demo_real_ip) = ['' 192.0.2.7'']"
    using demo_header(1) by (simp add: demo_real_ip_def)
  have raw: "''192.0.2.0/24'' \<in> set (pc_SourceDenyCIDR (rp_config
      (rulepolicy_New\<lparr>rp_config := empty_policy\<lparr>pc_SourceDenyCIDR := [''192.0.2.0/24'']\<rparr>\<rparr>)))"
    by simp
  show ?thesis
    using fw real_ip_then_policy [OF fw demo_ingress(2,1) vals demo_header(3) _ raw demo_header(4,5),
        of "\<lambda>_. None" 0 Map.empty] by simp
qed

end
