(* ===== verification/Plugin_Sessions.thy ===== *)
theory Plugin_Sessions
  imports Takeover "HOL-Library.AList"
begin

text \<open>
  \<open>src/internal/pluginmanager/manager.go\<close>: the connection sessions of the takeover chain, the references they hold on
  plugin runtimes, draining, and the deferred stop of a runtime that is still in use.

  Handler and session objects are shared by pointer: handlers live at addresses (\<^typ>\<open>nat\<close>) of the
  manager's heap, a session under its id.  The counters \<open>activeSessions\<close>, \<open>drainingSessions\<close> and \<open>runtimeRefs\<close> are far
  from 64 bits and modelled by \<^typ>\<open>int\<close>.  A Go map is an association list with distinct keys.
\<close>

section \<open>State\<close>

record runtimeIdentity =
  rk_pluginID :: string
  rk_artifactID :: string
  rk_desiredGeneration :: int
  rk_runtimeInstanceID :: string

record handlerObj =
  ho_pluginID :: string
  ho_runtime :: runtimeIdentity
  ho_priority :: int
  ho_handlerID :: string
  ho_activeSessions :: int
  ho_drainingSessions :: int
  ho_sessionsStarted :: uint64
  ho_sessionsCompleted :: uint64
  ho_sessionDuration :: uint64
  ho_sessionsForceClosed :: uint64
  ho_draining :: bool
  ho_runtimeRefs :: int

record connectionSession =
  ss_streams :: "nat list"
  ss_startedAt :: int
  ss_participants :: "nat list"
  ss_draining :: "string list"
  ss_forceCloseRequested :: bool
  ss_cancelled :: bool

text \<open>A loaded plugin; \<open>lp_ref\<close> is its identity as a pointer, \<open>lp_extensions\<close> whether it registered other hooks.\<close>

record loadedPlugin =
  lp_ref :: nat
  lp_runtime :: runtimeIdentity
  lp_handlers :: "nat list"
  lp_extensions :: bool

definition lp_pluginID :: "loadedPlugin \<Rightarrow> string" where
  "lp_pluginID l = rk_pluginID (lp_runtime l)"

text \<open>
  The part of \<open>Manager\<close> that sessions and retirement touch.  \<open>mg_stopped\<close> records the runtimes handed over to be drained,
  destroyed and stopped; \<open>mg_closed\<close> the streams that were closed.
\<close>

record manager =
  mg_heap :: "nat \<Rightarrow> handlerObj"
  mg_sessionSeq :: uint64
  mg_sessions :: "(uint64 \<times> connectionSession) list"
  mg_drainingIDs :: "string set"
  mg_pendingRuntimeStops :: "(runtimeIdentity \<times> loadedPlugin) list"
  mg_snapshot :: "nat list"
  mg_extensions :: "string list" \<comment> \<open>the plugins whose other hooks are published\<close>
  mg_loaded :: "(string \<times> loadedPlugin) list"
  mg_displaced :: "(runtimeIdentity \<times> loadedPlugin) list"
  mg_stopped :: "loadedPlugin list"
  mg_closed :: "nat list"

definition upd_handler :: "nat \<Rightarrow> (handlerObj \<Rightarrow> handlerObj) \<Rightarrow> manager \<Rightarrow> manager" where
  "upd_handler h f m = m\<lparr>mg_heap := (mg_heap m)(h := f (mg_heap m h))\<rparr>"

definition upd_session :: "uint64 \<Rightarrow> (connectionSession \<Rightarrow> connectionSession) \<Rightarrow> manager \<Rightarrow> manager" where
  "upd_session sid f m = m\<lparr>mg_sessions := map (\<lambda>(i, s). (i, if i = sid then f s else s)) (mg_sessions m)\<rparr>"

section \<open>Sessions\<close>

definition startConnectionSession :: "nat \<Rightarrow> int \<Rightarrow> manager \<Rightarrow> uint64 \<times> manager" where
  "startConnectionSession root now m =
    (let sid = mg_sessionSeq m + 1;
         session = \<lparr>ss_streams = [root], ss_startedAt = now, ss_participants = [], ss_draining = [],
           ss_forceCloseRequested = False, ss_cancelled = False\<rparr>
     in (sid, m\<lparr>mg_sessionSeq := sid, mg_sessions := AList.update sid session (mg_sessions m)\<rparr>))"

definition close_streams :: "nat list \<Rightarrow> manager \<Rightarrow> manager" where
  "close_streams ss m = m\<lparr>mg_closed := mg_closed m @ ss\<rparr>"

text \<open>A session whose object the caller still holds after \<open>finishConnectionSession\<close> is no longer of interest to the manager.\<close>

definition trackConnectionSessionStream :: "uint64 \<Rightarrow> nat \<Rightarrow> manager \<Rightarrow> manager" where
  "trackConnectionSessionStream sid stream m = (case map_of (mg_sessions m) sid of
      None \<Rightarrow> m
    | Some s \<Rightarrow>
        (let m = upd_session sid (\<lambda>s. s\<lparr>ss_streams := ss_streams s @ [stream]\<rparr>) m
         in if ss_forceCloseRequested s then close_streams [stream] m else m))"

definition closeConnectionSessionStreams :: "uint64 \<Rightarrow> manager \<Rightarrow> manager" where
  "closeConnectionSessionStreams sid m = (case map_of (mg_sessions m) sid of
      None \<Rightarrow> m
    | Some s \<Rightarrow> close_streams (ss_streams s) (upd_session sid (\<lambda>s. s\<lparr>ss_cancelled := True\<rparr>) m))"

definition addConnectionParticipant :: "uint64 \<Rightarrow> nat \<Rightarrow> manager \<Rightarrow> manager" where
  "addConnectionParticipant sid h m = (case map_of (mg_sessions m) sid of
      None \<Rightarrow> m
    | Some s \<Rightarrow>
        if h \<in> set (ss_participants s) then m
        else (let ho = mg_heap m h;
                  m = upd_session sid (\<lambda>s. s\<lparr>ss_participants := h # ss_participants s\<rparr>) m;
                  m = upd_handler h (\<lambda>x. x\<lparr>ho_activeSessions := ho_activeSessions x + 1, ho_sessionsStarted := ho_sessionsStarted x + 1\<rparr>) m
              in if ho_pluginID ho \<in> mg_drainingIDs m \<or> ho_draining ho
                 then upd_handler h (\<lambda>x. x\<lparr>ho_drainingSessions := ho_drainingSessions x + 1\<rparr>)
                        (upd_session sid (\<lambda>s. s\<lparr>ss_draining := List.insert (ho_pluginID ho) (ss_draining s)\<rparr>) m)
                 else m))"

section \<open>References\<close>

definition reserveUpstreamHandler :: "nat \<Rightarrow> manager \<Rightarrow> manager \<times> bool" where
  "reserveUpstreamHandler h m =
    (if ho_pluginID (mg_heap m h) \<in> mg_drainingIDs m \<or> ho_draining (mg_heap m h) then (m, False)
     else (upd_handler h (\<lambda>x. x\<lparr>ho_runtimeRefs := ho_runtimeRefs x + 1\<rparr>) m, True))"

definition session_uses :: "manager \<Rightarrow> runtimeIdentity \<Rightarrow> connectionSession \<Rightarrow> bool" where
  "session_uses m key s = list_ex (\<lambda>h. ho_runtime (mg_heap m h) = key) (ss_participants s)"

definition activeConnectionSessionCountForRuntime :: "runtimeIdentity \<Rightarrow> manager \<Rightarrow> int" where
  "activeConnectionSessionCountForRuntime key m = int (length (filter (\<lambda>(_, s). session_uses m key s) (mg_sessions m)))"

definition activeConnectionSessionCount :: "string \<Rightarrow> manager \<Rightarrow> int" where
  "activeConnectionSessionCount pluginID m =
    int (length (filter (\<lambda>(_, s). list_ex (\<lambda>h. ho_pluginID (mg_heap m h) = pluginID) (ss_participants s)) (mg_sessions m)))"

definition activeRuntimeReferences :: "loadedPlugin \<Rightarrow> runtimeIdentity \<Rightarrow> manager \<Rightarrow> int" where
  "activeRuntimeReferences l key m =
    activeConnectionSessionCountForRuntime key m + sum_list (map (\<lambda>h. ho_runtimeRefs (mg_heap m h)) (lp_handlers l))"

definition stop_runtime :: "loadedPlugin \<Rightarrow> manager \<Rightarrow> manager" where
  "stop_runtime l m = m\<lparr>mg_stopped := mg_stopped m @ [l]\<rparr>"

definition takePendingRuntimeStopIfDrained :: "runtimeIdentity \<Rightarrow> manager \<Rightarrow> loadedPlugin option \<times> manager" where
  "takePendingRuntimeStopIfDrained key m = (case map_of (mg_pendingRuntimeStops m) key of
      None \<Rightarrow> (None, m)
    | Some l \<Rightarrow>
        if 0 < activeRuntimeReferences l key m then (None, m)
        else (Some l, m\<lparr>mg_pendingRuntimeStops := AList.delete key (mg_pendingRuntimeStops m)\<rparr>))"

text \<open>The goroutine that stops the runtime is started here; the stop counts from now on.\<close>

definition queuePendingRuntimeStopIfDrained :: "runtimeIdentity \<Rightarrow> manager \<Rightarrow> manager" where
  "queuePendingRuntimeStopIfDrained key m = (case takePendingRuntimeStopIfDrained key m of
      (None, m) \<Rightarrow> m
    | (Some l, m) \<Rightarrow> stop_runtime l m)"

definition release_ref :: "nat \<Rightarrow> manager \<Rightarrow> manager" where
  "release_ref h m = upd_handler h (\<lambda>x. x\<lparr>ho_runtimeRefs := ho_runtimeRefs x - 1\<rparr>) m"

definition releaseUpstreamHandler :: "nat \<Rightarrow> manager \<Rightarrow> manager" where
  "releaseUpstreamHandler h m = queuePendingRuntimeStopIfDrained (ho_runtime (mg_heap m h)) (release_ref h m)"

text \<open>
  The end of a session, first under the lock, then for each participant; \<open>ms\<close> is its duration.
\<close>

definition leave_handler :: "connectionSession \<Rightarrow> uint64 \<Rightarrow> nat \<Rightarrow> manager \<Rightarrow> manager" where
  "leave_handler s ms h m = upd_handler h (\<lambda>x. x\<lparr>ho_activeSessions := ho_activeSessions x - 1,
      ho_drainingSessions := (if ho_pluginID x \<in> set (ss_draining s) then ho_drainingSessions x - 1 else ho_drainingSessions x),
      ho_sessionsCompleted := ho_sessionsCompleted x + 1, ho_sessionDuration := ho_sessionDuration x + ms\<rparr>) m"

definition drop_session :: "uint64 \<Rightarrow> manager \<Rightarrow> connectionSession option \<times> manager" where
  "drop_session sid m = (map_of (mg_sessions m) sid, m\<lparr>mg_sessions := AList.delete sid (mg_sessions m)\<rparr>)"

definition finishConnectionSession :: "uint64 \<Rightarrow> uint64 \<Rightarrow> manager \<Rightarrow> manager" where
  "finishConnectionSession sid ms m = (case drop_session sid m of
      (None, m) \<Rightarrow> m
    | (Some s, m) \<Rightarrow> fold (\<lambda>h m. queuePendingRuntimeStopIfDrained (ho_runtime (mg_heap m h)) (leave_handler s ms h m))
        (ss_participants s) m)"

section \<open>Draining\<close>

definition mark_participants :: "(handlerObj \<Rightarrow> bool) \<Rightarrow> connectionSession \<Rightarrow> manager \<Rightarrow> manager" where
  "mark_participants P s m =
    fold (\<lambda>h m. if P (mg_heap m h) then upd_handler h (\<lambda>x. x\<lparr>ho_drainingSessions := ho_drainingSessions x + 1\<rparr>) m else m)
      (ss_participants s) m"

definition mark_session :: "string \<Rightarrow> uint64 \<times> connectionSession \<Rightarrow> manager \<Rightarrow> manager" where
  "mark_session pluginID = (\<lambda>(sid, s) m.
     if pluginID \<in> set (ss_draining s) \<or> \<not> list_ex (\<lambda>h. ho_pluginID (mg_heap m h) = pluginID) (ss_participants s) then m
     else upd_session sid (\<lambda>s. s\<lparr>ss_draining := List.insert pluginID (ss_draining s)\<rparr>)
            (mark_participants (\<lambda>x. ho_pluginID x = pluginID) s m))"

definition markDrainingLocked :: "string \<Rightarrow> manager \<Rightarrow> manager" where
  "markDrainingLocked pluginID m =
    (let m = m\<lparr>mg_drainingIDs := insert pluginID (mg_drainingIDs m)\<rparr>
     in fold (mark_session pluginID) (mg_sessions m) m)"

definition clearDrainingLocked :: "string \<Rightarrow> manager \<Rightarrow> manager" where
  "clearDrainingLocked pluginID m = m\<lparr>mg_drainingIDs := mg_drainingIDs m - {pluginID}\<rparr>"

text \<open>The inner loop looks the participant's plugin up in the session as it marks it.\<close>

definition mark_runtime_participant :: "runtimeIdentity \<Rightarrow> uint64 \<Rightarrow> nat \<Rightarrow> manager \<Rightarrow> manager" where
  "mark_runtime_participant key sid h m = (case map_of (mg_sessions m) sid of
      None \<Rightarrow> m
    | Some s \<Rightarrow>
        if ho_runtime (mg_heap m h) = key \<and> ho_pluginID (mg_heap m h) \<notin> set (ss_draining s)
        then upd_handler h (\<lambda>x. x\<lparr>ho_drainingSessions := ho_drainingSessions x + 1\<rparr>)
               (upd_session sid (\<lambda>s. s\<lparr>ss_draining := ho_pluginID (mg_heap m h) # ss_draining s\<rparr>) m)
        else m)"

definition markLoadedRuntimeDrainingLocked :: "loadedPlugin \<Rightarrow> manager \<Rightarrow> manager" where
  "markLoadedRuntimeDrainingLocked l m =
    (let key = lp_runtime l;
         m = fold (\<lambda>h. upd_handler h (\<lambda>x. x\<lparr>ho_draining := True\<rparr>)) (lp_handlers l) m
     in fold (\<lambda>(sid, s). fold (mark_runtime_participant key sid) (ss_participants s)) (mg_sessions m) m)"

definition ForceCloseDraining :: "string \<Rightarrow> manager \<Rightarrow> nat \<times> manager" where
  "ForceCloseDraining pluginID m =
    (let sessions = filter (\<lambda>(_, s). pluginID \<in> set (ss_draining s)) (mg_sessions m);
         count = (\<lambda>(sid, s) m. if ss_forceCloseRequested s then m
            else fold (\<lambda>h m. if ho_pluginID (mg_heap m h) = pluginID
                    then upd_handler h (\<lambda>x. x\<lparr>ho_sessionsForceClosed := ho_sessionsForceClosed x + 1\<rparr>) m else m)
                  (ss_participants s) m);
         m = fold count sessions m;
         m = fold (\<lambda>(sid, _). upd_session sid (\<lambda>s. s\<lparr>ss_forceCloseRequested := True\<rparr>)) sessions m
     in (length sessions, fold (\<lambda>(sid, _). closeConnectionSessionStreams sid) sessions m))"

definition forceCloseConnectionSessions :: "manager \<Rightarrow> manager" where
  "forceCloseConnectionSessions m =
    (let m = m\<lparr>mg_sessions := map (\<lambda>(sid, s). (sid, s\<lparr>ss_forceCloseRequested := True\<rparr>)) (mg_sessions m)\<rparr>
     in fold (\<lambda>(sid, _). closeConnectionSessionStreams sid) (mg_sessions m) m)"

section \<open>Retirement\<close>

definition deferRuntimeRetirementIfActive :: "loadedPlugin \<Rightarrow> manager \<Rightarrow> bool \<times> manager" where
  "deferRuntimeRetirementIfActive l m =
    (if activeRuntimeReferences l (lp_runtime l) m = 0 then (False, m)
     else (True, m\<lparr>mg_pendingRuntimeStops := AList.update (lp_runtime l) l (mg_pendingRuntimeStops m)\<rparr>))"

definition retireLoadedPluginLocked :: "loadedPlugin \<Rightarrow> manager \<Rightarrow> manager" where
  "retireLoadedPluginLocked l m = (case deferRuntimeRetirementIfActive l m of
      (True, m) \<Rightarrow> m
    | (False, m) \<Rightarrow> stop_runtime l m)"

end
