(* ===== verification/Plugin_Retirement.thy ===== *)
theory Plugin_Retirement
  imports Plugin_Sessions
begin

text \<open>
  Connections and plugin management at the same time: connection goroutines (\<open>connectionDispatch.run\<close>) reserve, join and release the
  handlers of the snapshot they started with, while the manager publishes, drains and retires runtimes.  Every
  step is one critical section of \<open>sessionMu\<close> or one atomic access, so all interleavings are covered.
\<close>

section \<open>The protocol, abstractly\<close>

text \<open>
  Resources that are retired while they may be in use: a retired resource waits (\<open>pending\<close>) until its last
  user has gone and is then \<open>stopped\<close>; whoever gives up a use owes a check.  The laws say what every
  step of an implementation has to respect.
\<close>

locale deferred_retirement =
  fixes step :: "'s \<Rightarrow> 's \<Rightarrow> bool"
    and inv :: "'s \<Rightarrow> bool"
    and in_use blocked pending stopped owed :: "'s \<Rightarrow> 'k \<Rightarrow> bool"
  assumes inv_step: "step s t \<Longrightarrow> inv s \<Longrightarrow> inv t"
    and no_new_user: "step s t \<Longrightarrow> inv s \<Longrightarrow> blocked s k \<Longrightarrow> in_use t k \<Longrightarrow> in_use s k"
    and stays_blocked: "step s t \<Longrightarrow> inv s \<Longrightarrow> pending s k \<or> stopped s k \<Longrightarrow> blocked s k \<Longrightarrow> blocked t k"
    and pending_step: "step s t \<Longrightarrow> inv s \<Longrightarrow> pending t k \<Longrightarrow> pending s k \<or> blocked t k \<and> in_use t k"
    and stopped_step: "step s t \<Longrightarrow> inv s \<Longrightarrow> stopped t k \<Longrightarrow> stopped s k \<or> (pending s k \<or> blocked t k) \<and> \<not> in_use t k"
    and last_user_owes: "step s t \<Longrightarrow> inv s \<Longrightarrow> pending t k \<Longrightarrow> in_use s k \<or> owed s k \<Longrightarrow> in_use t k \<or> owed t k"
begin

definition retired_ok :: "'s \<Rightarrow> bool" where
  "retired_ok s = (\<forall>k. (pending s k \<or> stopped s k \<longrightarrow> blocked s k) \<and> (stopped s k \<longrightarrow> \<not> in_use s k)
     \<and> (pending s k \<longrightarrow> in_use s k \<or> owed s k))"

lemma retired_ok_step:
  assumes "step s t" "inv s" "retired_ok s"
  shows "retired_ok t"
  unfolding retired_ok_def
proof (intro allI conjI impI)
  fix k
  assume "pending t k \<or> stopped t k"
  then show "blocked t k"
    using pending_step [OF assms(1,2), of k] stopped_step [OF assms(1,2), of k] stays_blocked [OF assms(1,2), of k] assms(3)
    by (auto simp: retired_ok_def)
next
  fix k
  assume "stopped t k"
  then show "\<not> in_use t k"
    using stopped_step [OF assms(1,2), of k] no_new_user [OF assms(1,2), of k] assms(3)
    by (auto simp: retired_ok_def)
next
  fix k
  assume "pending t k"
  then show "in_use t k \<or> owed t k"
    using pending_step [OF assms(1,2), of k] last_user_owes [OF assms(1,2), of k] assms(3) by (auto simp: retired_ok_def)
qed

lemma retired_ok_reach: "step\<^sup>*\<^sup>* s t \<Longrightarrow> inv s \<Longrightarrow> retired_ok s \<Longrightarrow> inv t \<and> retired_ok t"
  by (induction rule: rtranclp_induct) (auto intro: inv_step retired_ok_step)

end

section \<open>Connection goroutines\<close>

text \<open>
  A goroutine in \<open>HandleConnection\<close>: the handlers of its snapshot that it has not reached yet, the one it has reserved but not yet
  joined, those it is inside of (the innermost first), the runtimes it still has to check after
  giving up a use, and whether it has left its session.
\<close>

record dispatcher =
  di_session :: "uint64 option"
  di_todo :: "nat list"
  di_joining :: "nat option"
  di_held :: "nat list"
  di_owed :: "runtimeIdentity list"
  di_ended :: bool

inductive dstep :: "manager \<times> dispatcher \<Rightarrow> manager \<times> dispatcher \<Rightarrow> bool" where
  start: "di_session t = None \<Longrightarrow> \<not> di_ended t \<Longrightarrow> startConnectionSession root now m = (sid, m')
    \<Longrightarrow> map_of (mg_sessions m) sid = None \<Longrightarrow> dstep (m, t) (m', t\<lparr>di_session := Some sid\<rparr>)"
| track: "di_session t = Some sid \<Longrightarrow> dstep (m, t) (trackConnectionSessionStream sid stream m, t)"
| skip: "di_session t = Some sid \<Longrightarrow> di_todo t = h # hs \<Longrightarrow> di_joining t = None
    \<Longrightarrow> reserveUpstreamHandler h m = (m', False) \<Longrightarrow> dstep (m, t) (m', t\<lparr>di_todo := hs\<rparr>)"
| reserve: "di_session t = Some sid \<Longrightarrow> di_todo t = h # hs \<Longrightarrow> di_joining t = None
    \<Longrightarrow> reserveUpstreamHandler h m = (m', True)
    \<Longrightarrow> dstep (m, t) (m', t\<lparr>di_todo := hs, di_joining := Some h, di_held := h # di_held t\<rparr>)"
| join: "di_session t = Some sid \<Longrightarrow> di_joining t = Some h
    \<Longrightarrow> dstep (m, t) (addConnectionParticipant sid h m, t\<lparr>di_joining := None\<rparr>)"
| release: "di_held t = h # hs \<Longrightarrow> di_joining t = None
    \<Longrightarrow> dstep (m, t) (release_ref h m, t\<lparr>di_held := hs, di_owed := ho_runtime (mg_heap m h) # di_owed t\<rparr>)"
| check: "di_owed t = key # ks \<Longrightarrow> dstep (m, t) (queuePendingRuntimeStopIfDrained key m, t\<lparr>di_owed := ks\<rparr>)"
| finish: "di_session t = Some sid \<Longrightarrow> di_held t = [] \<Longrightarrow> di_joining t = None \<Longrightarrow> drop_session sid m = (Some s, m1)
    \<Longrightarrow> m' = fold (leave_handler s ms) (ss_participants s) m1
    \<Longrightarrow> dstep (m, t) (m', t\<lparr>di_session := None, di_todo := [], di_ended := True,
          di_owed := map (\<lambda>h. ho_runtime (mg_heap m h)) (ss_participants s) @ di_owed t\<rparr>)"

section \<open>Manager actions\<close>

datatype action =
    Publish "nat list"
  | MarkDraining string
  | ClearDraining string
  | MarkRuntime loadedPlugin
  | Retire loadedPlugin
  | ForceClose string

primrec exec_action :: "action \<Rightarrow> manager \<Rightarrow> manager" where
  "exec_action (Publish hs) m = m\<lparr>mg_snapshot := hs\<rparr>"
| "exec_action (MarkDraining p) m = markDrainingLocked p m"
| "exec_action (ClearDraining p) m = clearDrainingLocked p m"
| "exec_action (MarkRuntime l) m = markLoadedRuntimeDrainingLocked l m"
| "exec_action (Retire l) m = retireLoadedPluginLocked l m"
| "exec_action (ForceClose p) m = snd (ForceCloseDraining p m)"

section \<open>What the steps have in common\<close>

text \<open>The part of the state the protocol depends on.\<close>

record view =
  vw_pid :: "nat \<Rightarrow> string"
  vw_run :: "nat \<Rightarrow> runtimeIdentity"
  vw_refs :: "nat \<Rightarrow> int"
  vw_flag :: "nat \<Rightarrow> bool"
  vw_parts :: "(uint64 \<times> nat list) list"
  vw_draining :: "string set"
  vw_pending :: "(runtimeIdentity \<times> loadedPlugin) list"
  vw_snapshot :: "nat list"
  vw_stopped :: "loadedPlugin list"

definition view_of :: "manager \<Rightarrow> view" where
  "view_of m = \<lparr>vw_pid = (\<lambda>h. ho_pluginID (mg_heap m h)), vw_run = (\<lambda>h. ho_runtime (mg_heap m h)),
     vw_refs = (\<lambda>h. ho_runtimeRefs (mg_heap m h)), vw_flag = (\<lambda>h. ho_draining (mg_heap m h)),
     vw_parts = map (\<lambda>(i, s). (i, ss_participants s)) (mg_sessions m), vw_draining = mg_drainingIDs m,
     vw_pending = mg_pendingRuntimeStops m, vw_snapshot = mg_snapshot m, vw_stopped = mg_stopped m\<rparr>"

lemma view_of_upd_handler:
  assumes "\<And>x. ho_pluginID (f x) = ho_pluginID x" "\<And>x. ho_runtime (f x) = ho_runtime x"
    "\<And>x. ho_runtimeRefs (f x) = ho_runtimeRefs x" "\<And>x. ho_draining (f x) = ho_draining x"
  shows "view_of (upd_handler h f m) = view_of m"
  using assms by (auto simp: view_of_def upd_handler_def fun_eq_iff)

lemma view_of_upd_session:
  assumes "\<And>s. ss_participants (f s) = ss_participants s"
  shows "view_of (upd_session sid f m) = view_of m"
  using assms by (auto simp: view_of_def upd_session_def)

lemma view_of_fold:
  assumes "\<And>x m. view_of (f x m) = view_of m"
  shows "view_of (fold f xs m) = view_of m"
  by (induction xs arbitrary: m) (simp_all add: assms)

lemma view_of_close_streams [simp]: "view_of (close_streams ss m) = view_of m"
  by (simp add: view_of_def close_streams_def)

lemma view_of_track [simp]: "view_of (trackConnectionSessionStream sid stream m) = view_of m"
  by (simp add: trackConnectionSessionStream_def Let_def view_of_upd_session split: option.split)

lemma view_of_closeStreams [simp]: "view_of (closeConnectionSessionStreams sid m) = view_of m"
  by (simp add: closeConnectionSessionStreams_def view_of_upd_session split: option.split)

lemma view_of_leave [simp]: "view_of (leave_handler s ms h m) = view_of m"
  by (simp add: leave_handler_def view_of_upd_handler)

lemma view_of_mark_participants [simp]: "view_of (mark_participants P s m) = view_of m"
  unfolding mark_participants_def by (rule view_of_fold) (simp add: view_of_upd_handler)

lemma view_of_mark_session [simp]: "view_of (mark_session p x m) = view_of m"
  by (simp add: mark_session_def view_of_upd_session split: prod.split)

lemma view_of_markDraining: "view_of (markDrainingLocked p m) = (view_of m)\<lparr>vw_draining := insert p (mg_drainingIDs m)\<rparr>"
  by (simp add: markDrainingLocked_def Let_def view_of_fold) (simp add: view_of_def)

lemma view_of_clearDraining: "view_of (clearDrainingLocked p m) = (view_of m)\<lparr>vw_draining := mg_drainingIDs m - {p}\<rparr>"
  by (simp add: clearDrainingLocked_def view_of_def)

lemma view_of_mark_runtime [simp]: "view_of (mark_runtime_participant key sid h m) = view_of m"
  by (simp add: mark_runtime_participant_def view_of_upd_session view_of_upd_handler split: option.split)

lemma view_of_flag:
  "view_of (fold (\<lambda>h. upd_handler h (\<lambda>x. x\<lparr>ho_draining := True\<rparr>)) hs m)
    = (view_of m)\<lparr>vw_flag := (\<lambda>h. vw_flag (view_of m) h \<or> h \<in> set hs)\<rparr>"
proof (induction hs arbitrary: m)
  case (Cons h hs)
  have "view_of (upd_handler h (\<lambda>x. x\<lparr>ho_draining := True\<rparr>) m) = (view_of m)\<lparr>vw_flag := (\<lambda>g. vw_flag (view_of m) g \<or> g = h)\<rparr>"
    by (auto simp: view_of_def upd_handler_def)
  then show ?case using Cons.IH [of "upd_handler h (\<lambda>x. x\<lparr>ho_draining := True\<rparr>) m"] by auto
qed (simp add: view_of_def)

lemma view_of_markRuntime:
  "view_of (markLoadedRuntimeDrainingLocked l m)
    = (view_of m)\<lparr>vw_flag := (\<lambda>h. vw_flag (view_of m) h \<or> h \<in> set (lp_handlers l))\<rparr>"
  unfolding markLoadedRuntimeDrainingLocked_def Let_def
  by (subst view_of_fold) (auto simp: view_of_fold view_of_flag split: prod.split)

lemma view_of_ForceClose [simp]: "view_of (snd (ForceCloseDraining p m)) = view_of m"
proof -
  have "view_of (fold (\<lambda>h m. if ho_pluginID (mg_heap m h) = p
      then upd_handler h (\<lambda>x. x\<lparr>ho_sessionsForceClosed := ho_sessionsForceClosed x + 1\<rparr>) m else m) hs m) = view_of m" for hs m
    by (rule view_of_fold) (simp add: view_of_upd_handler)
  then show ?thesis
    unfolding ForceCloseDraining_def Let_def snd_conv
    by (subst view_of_fold; (subst view_of_fold)?; (subst view_of_fold)?) (auto simp: view_of_upd_session split: prod.split)
qed

lemma update_fresh: "k \<notin> fst ` set al \<Longrightarrow> AList.update k v al = al @ [(k, v)]"
  by (induction al) auto

lemma view_of_start:
  "startConnectionSession root now m = (sid, m') \<Longrightarrow> map_of (mg_sessions m) sid = None \<Longrightarrow>
   view_of m' = (view_of m)\<lparr>vw_parts := vw_parts (view_of m) @ [(sid, [])]\<rparr>"
  by (auto simp: startConnectionSession_def Let_def view_of_def map_of_eq_None_iff update_fresh)

lemma view_of_reserve:
  "reserveUpstreamHandler h m = (m', ok) \<Longrightarrow>
   ok = (\<not> (vw_pid (view_of m) h \<in> vw_draining (view_of m) \<or> vw_flag (view_of m) h))
   \<and> view_of m' = (if ok then (view_of m)\<lparr>vw_refs := (vw_refs (view_of m))(h := vw_refs (view_of m) h + 1)\<rparr> else view_of m)"
  by (auto simp: reserveUpstreamHandler_def view_of_def upd_handler_def fun_eq_iff split: if_splits)

lemma view_of_release: "view_of (release_ref h m) = (view_of m)\<lparr>vw_refs := (vw_refs (view_of m))(h := vw_refs (view_of m) h - 1)\<rparr>"
  by (auto simp: release_ref_def view_of_def upd_handler_def fun_eq_iff)

definition join_parts :: "uint64 \<Rightarrow> nat \<Rightarrow> (uint64 \<times> nat list) list \<Rightarrow> (uint64 \<times> nat list) list" where
  "join_parts sid h ps = map (\<lambda>(i, p). (i, if i = sid \<and> h \<notin> set p then h # p else p)) ps"

lemma join_parts_id: "(\<And>i p. (i, p) \<in> set ps \<Longrightarrow> i = sid \<Longrightarrow> h \<in> set p) \<Longrightarrow> join_parts sid h ps = ps"
  by (induction ps) (auto simp: join_parts_def)

lemma join_parts_new:
  "(\<And>i p. (i, p) \<in> set ps \<Longrightarrow> i = sid \<Longrightarrow> h \<notin> set p) \<Longrightarrow> join_parts sid h ps = map (\<lambda>(i, p). (i, if i = sid then h # p else p)) ps"
  by (induction ps) (auto simp: join_parts_def)

lemma view_parts_mem: "(i, p) \<in> set (vw_parts (view_of m)) \<longleftrightarrow> (\<exists>s. (i, s) \<in> set (mg_sessions m) \<and> p = ss_participants s)"
  by (auto simp: view_of_def)

lemma view_of_add_participant:
  "view_of (upd_session sid (\<lambda>s. s\<lparr>ss_participants := h # ss_participants s\<rparr>) m)
    = (view_of m)\<lparr>vw_parts := map (\<lambda>(i, p). (i, if i = sid then h # p else p)) (vw_parts (view_of m))\<rparr>"
  by (auto simp: view_of_def upd_session_def)

lemma view_of_join:
  assumes "distinct (map fst (mg_sessions m))"
  shows "view_of (addConnectionParticipant sid h m) = (view_of m)\<lparr>vw_parts := join_parts sid h (vw_parts (view_of m))\<rparr>"
proof (cases "map_of (mg_sessions m) sid")
  case None
  then have "join_parts sid h (vw_parts (view_of m)) = vw_parts (view_of m)"
    by (intro join_parts_id) (force simp: view_parts_mem map_of_eq_None_iff)
  with None show ?thesis by (simp add: addConnectionParticipant_def)
next
  case (Some s)
  have same: "(sid, s') \<in> set (mg_sessions m) \<Longrightarrow> s' = s" for s'
    using Some assms by (metis map_of_eq_Some_iff option.inject)
  show ?thesis
  proof (cases "h \<in> set (ss_participants s)")
    case True
    then have "join_parts sid h (vw_parts (view_of m)) = vw_parts (view_of m)"
      using same by (intro join_parts_id) (auto simp: view_parts_mem)
    with Some True show ?thesis by (simp add: addConnectionParticipant_def)
  next
    case False
    have "view_of (addConnectionParticipant sid h m)
        = view_of (upd_session sid (\<lambda>s. s\<lparr>ss_participants := h # ss_participants s\<rparr>) m)"
      using Some False by (auto simp: addConnectionParticipant_def Let_def view_of_upd_session view_of_upd_handler)
    moreover have "join_parts sid h (vw_parts (view_of m)) = map (\<lambda>(i, p). (i, if i = sid then h # p else p)) (vw_parts (view_of m))"
      using False same by (intro join_parts_new) (auto simp: view_parts_mem)
    ultimately show ?thesis by (simp add: view_of_add_participant)
  qed
qed

definition drop_parts :: "uint64 \<Rightarrow> (uint64 \<times> nat list) list \<Rightarrow> (uint64 \<times> nat list) list" where
  "drop_parts sid ps = filter (\<lambda>(i, _). i \<noteq> sid) ps"

lemma view_of_drop:
  "drop_session sid m = (r, m') \<Longrightarrow> view_of m' = (view_of m)\<lparr>vw_parts := drop_parts sid (vw_parts (view_of m))\<rparr>"
  by (auto simp: drop_session_def view_of_def drop_parts_def AList.delete_eq filter_map o_def case_prod_unfold eq_commute)

definition view_references :: "view \<Rightarrow> loadedPlugin \<Rightarrow> runtimeIdentity \<Rightarrow> int" where
  "view_references v l key = int (length (filter (\<lambda>(_, p). list_ex (\<lambda>h. vw_run v h = key) p) (vw_parts v)))
     + sum_list (map (vw_refs v) (lp_handlers l))"

lemma references_view: "activeRuntimeReferences l key m = view_references (view_of m) l key"
  by (simp add: activeRuntimeReferences_def activeConnectionSessionCountForRuntime_def view_references_def view_of_def
      session_uses_def filter_map o_def case_prod_unfold)

lemma view_of_check:
  "view_of (queuePendingRuntimeStopIfDrained key m) = (case map_of (vw_pending (view_of m)) key of
      None \<Rightarrow> view_of m
    | Some l \<Rightarrow> if 0 < view_references (view_of m) l key then view_of m
        else (view_of m)\<lparr>vw_pending := AList.delete key (vw_pending (view_of m)), vw_stopped := vw_stopped (view_of m) @ [l]\<rparr>)"
  by (simp add: queuePendingRuntimeStopIfDrained_def takePendingRuntimeStopIfDrained_def references_view [symmetric] split: option.split)
    (auto simp: view_of_def stop_runtime_def)

lemma view_of_retire:
  "view_of (retireLoadedPluginLocked l m) =
    (if view_references (view_of m) l (lp_runtime l) = 0 then (view_of m)\<lparr>vw_stopped := vw_stopped (view_of m) @ [l]\<rparr>
     else (view_of m)\<lparr>vw_pending := AList.update (lp_runtime l) l (vw_pending (view_of m))\<rparr>)"
  by (simp add: retireLoadedPluginLocked_def deferRuntimeRetirementIfActive_def references_view [symmetric])
    (auto simp: view_of_def stop_runtime_def)

section \<open>The system\<close>

type_synonym system = "manager \<times> dispatcher list"

text \<open>
  A runtime is in use while a connection is inside one of its handlers or has a live session that took part.
\<close>

definition uses :: "view \<Rightarrow> dispatcher list \<Rightarrow> runtimeIdentity \<Rightarrow> bool" where
  "uses v ts k = ((\<exists>t \<in> set ts. \<exists>h \<in> set (di_held t). vw_run v h = k)
     \<or> (\<exists>(i, p) \<in> set (vw_parts v). \<exists>h \<in> set p. vw_run v h = k))"

text \<open>
  It gets no new users when all its handlers are flagged, its plugin is draining, or no connection can come across its
  handlers any more.
\<close>

definition flagged :: "view \<Rightarrow> runtimeIdentity \<Rightarrow> bool" where
  "flagged v k = (\<forall>h. vw_run v h = k \<longrightarrow> vw_flag v h)"

definition unreachable :: "view \<Rightarrow> dispatcher list \<Rightarrow> runtimeIdentity \<Rightarrow> bool" where
  "unreachable v ts k = (\<forall>h. vw_run v h = k \<longrightarrow> h \<notin> set (vw_snapshot v) \<and> (\<forall>t \<in> set ts. h \<notin> set (di_todo t)))"

definition shielded :: "view \<Rightarrow> dispatcher list \<Rightarrow> runtimeIdentity \<Rightarrow> bool" where
  "shielded v ts k = (flagged v k \<or> rk_pluginID k \<in> vw_draining v \<or> unreachable v ts k)"

definition retiring :: "view \<Rightarrow> runtimeIdentity \<Rightarrow> bool" where
  "retiring v k = (k \<in> fst ` set (vw_pending v))"

definition is_stopped :: "view \<Rightarrow> runtimeIdentity \<Rightarrow> bool" where
  "is_stopped v k = (k \<in> lp_runtime ` set (vw_stopped v))"

definition check_owed :: "dispatcher list \<Rightarrow> runtimeIdentity \<Rightarrow> bool" where
  "check_owed ts k = (\<exists>t \<in> set ts. k \<in> set (di_owed t))"

text \<open>The handlers of a loaded plugin are the ones that carry its runtime identity.\<close>

definition lp_ok :: "view \<Rightarrow> loadedPlugin \<Rightarrow> bool" where
  "lp_ok v l = (\<forall>h. h \<in> set (lp_handlers l) \<longleftrightarrow> vw_run v h = lp_runtime l)"

definition sys_inv :: "view \<Rightarrow> dispatcher list \<Rightarrow> bool" where
  "sys_inv v ts = ((\<forall>h. vw_refs v h = (\<Sum>t\<leftarrow>ts. int (count_list (di_held t) h)))
     \<and> (\<forall>t \<in> set ts. \<forall>h. di_joining t = Some h \<longrightarrow> h \<in> set (di_held t))
     \<and> distinct (map fst (vw_parts v)) \<and> (\<forall>h. vw_pid v h = rk_pluginID (vw_run v h))
     \<and> distinct (map fst (vw_pending v)) \<and> (\<forall>(k, l) \<in> set (vw_pending v). k = lp_runtime l \<and> lp_ok v l))"

text \<open>
  When the manager may act: a runtime is retired once, with its handlers, and when it cannot get new users;
  a plugin leaves the draining state, and handlers are published, only when that keeps
  every retired runtime shielded.
\<close>

definition allowed :: "view \<Rightarrow> dispatcher list \<Rightarrow> action \<Rightarrow> bool" where
  "allowed v ts a = (case a of
      Publish hs \<Rightarrow> \<forall>k. retiring v k \<or> is_stopped v k \<longrightarrow> flagged v k \<or> rk_pluginID k \<in> vw_draining v \<or> (\<forall>h \<in> set hs. vw_run v h \<noteq> k)
    | ClearDraining p \<Rightarrow> \<forall>k. (retiring v k \<or> is_stopped v k) \<and> rk_pluginID k = p \<longrightarrow> flagged v k \<or> unreachable v ts k
    | Retire l \<Rightarrow> lp_ok v l \<and> shielded v ts (lp_runtime l) \<and> \<not> retiring v (lp_runtime l) \<and> \<not> is_stopped v (lp_runtime l)
    | _ \<Rightarrow> True)"

definition new_dispatcher :: "nat list \<Rightarrow> dispatcher" where
  "new_dispatcher hs = \<lparr>di_session = None, di_todo = hs, di_joining = None, di_held = [], di_owed = [], di_ended = False\<rparr>"

inductive sstep :: "system \<Rightarrow> system \<Rightarrow> bool" where
  capture: "sstep (m, ts) (m, ts @ [new_dispatcher (mg_snapshot m)])"
| connection: "i < length ts \<Longrightarrow> dstep (m, ts ! i) (m', t') \<Longrightarrow> sstep (m, ts) (m', ts[i := t'])"
| manage: "allowed (view_of m) ts a \<Longrightarrow> sstep (m, ts) (exec_action a m, ts)"

section \<open>The same steps on views\<close>

inductive vstep :: "view \<times> dispatcher \<Rightarrow> view \<times> dispatcher \<Rightarrow> bool" where
  vstart: "sid \<notin> fst ` set (vw_parts v) \<Longrightarrow> vstep (v, t) (v\<lparr>vw_parts := vw_parts v @ [(sid, [])]\<rparr>, t\<lparr>di_session := Some sid\<rparr>)"
| vstay: "vstep (v, t) (v, t)"
| vskip: "di_todo t = h # hs \<Longrightarrow> vstep (v, t) (v, t\<lparr>di_todo := hs\<rparr>)"
| vreserve: "di_todo t = h # hs \<Longrightarrow> vw_pid v h \<notin> vw_draining v \<Longrightarrow> \<not> vw_flag v h
    \<Longrightarrow> vstep (v, t) (v\<lparr>vw_refs := (vw_refs v)(h := vw_refs v h + 1)\<rparr>,
          t\<lparr>di_todo := hs, di_joining := Some h, di_held := h # di_held t\<rparr>)"
| vjoin: "di_joining t = Some h
    \<Longrightarrow> vstep (v, t) (v\<lparr>vw_parts := join_parts sid h (vw_parts v)\<rparr>, t\<lparr>di_joining := None\<rparr>)"
| vrelease: "di_held t = h # hs \<Longrightarrow> di_joining t = None
    \<Longrightarrow> vstep (v, t) (v\<lparr>vw_refs := (vw_refs v)(h := vw_refs v h - 1)\<rparr>, t\<lparr>di_held := hs, di_owed := vw_run v h # di_owed t\<rparr>)"
| vkeep: "di_owed t = key # ks \<Longrightarrow> map_of (vw_pending v) key = None \<or> map_of (vw_pending v) key = Some l \<and> 0 < view_references v l key
    \<Longrightarrow> vstep (v, t) (v, t\<lparr>di_owed := ks\<rparr>)"
| vstop: "di_owed t = key # ks \<Longrightarrow> map_of (vw_pending v) key = Some l \<Longrightarrow> \<not> 0 < view_references v l key
    \<Longrightarrow> vstep (v, t) (v\<lparr>vw_pending := AList.delete key (vw_pending v), vw_stopped := vw_stopped v @ [l]\<rparr>, t\<lparr>di_owed := ks\<rparr>)"
| vfinish: "(sid, p) \<in> set (vw_parts v) \<Longrightarrow> di_held t = [] \<Longrightarrow> di_joining t = None
    \<Longrightarrow> vstep (v, t) (v\<lparr>vw_parts := drop_parts sid (vw_parts v)\<rparr>, t\<lparr>di_session := None, di_todo := [], di_ended := True,
          di_owed := map (vw_run v) p @ di_owed t\<rparr>)"

lemma view_of_leave_all: "view_of (fold (leave_handler s ms) hs m) = view_of m"
  by (rule view_of_fold) simp

lemma dstep_vstep:
  assumes "dstep (m, t) (m', t')" "distinct (map fst (mg_sessions m))"
  shows "vstep (view_of m, t) (view_of m', t')"
  using assms(1)
proof (cases rule: dstep.cases)
  case (start root now sid)
  then show ?thesis
    using vstart [of sid "view_of m" t] view_of_start [OF start(4,5)] by (force simp: view_of_def map_of_eq_None_iff)
next
  case (track sid stream)
  then show ?thesis by (simp add: vstay)
next
  case (skip sid h hs)
  then show ?thesis using view_of_reserve [OF skip(5)] by (simp add: vskip)
next
  case (reserve sid h hs)
  then show ?thesis using view_of_reserve [OF reserve(5)] vreserve [of t h hs "view_of m"] by simp
next
  case (join sid h)
  then show ?thesis using view_of_join [OF assms(2)] by (simp add: vjoin)
next
  case (release h hs)
  then show ?thesis using vrelease [of t h hs "view_of m"] by (simp add: view_of_release) (simp add: view_of_def)
next
  case (check key ks)
  then show ?thesis
    using view_of_check [of key m] vkeep [of t key ks "view_of m"] vstop [of t key ks "view_of m"]
    by (auto split: option.splits if_splits)
next
  case (finish sid s m1 ms)
  then have "(sid, ss_participants s) \<in> set (vw_parts (view_of m))"
    by (auto simp: drop_session_def view_parts_mem dest: map_of_SomeD)
  from vfinish [OF this finish(3,4)] finish view_of_drop [OF finish(5)] show ?thesis
    by (simp add: view_of_leave_all) (simp add: view_of_def)
qed

section \<open>The laws\<close>

lemma sum_list_map_update:
  fixes f :: "'a \<Rightarrow> int"
  assumes "i < length xs"
  shows "(\<Sum>x\<leftarrow>xs[i := y]. f x) = (\<Sum>x\<leftarrow>xs. f x) - f (xs ! i) + f y"
  using assms by (induction xs arbitrary: i) (auto split: nat.split)

lemma held_sum_nonneg: "0 \<le> (\<Sum>t\<leftarrow>ts. int (count_list (di_held t) h))"
  by (induction ts) auto

lemma held_sum_zero:
  "(\<Sum>t\<leftarrow>ts. int (count_list (di_held t) h)) = 0 \<longleftrightarrow> (\<forall>t \<in> set ts. h \<notin> set (di_held t))"
proof (induction ts)
  case (Cons t ts)
  then show ?case using held_sum_nonneg [of h ts] by (simp add: add_nonneg_eq_0_iff count_list_0_iff)
qed simp

lemma references_uses:
  assumes "sys_inv v ts" "lp_ok v l"
  shows "0 \<le> view_references v l (lp_runtime l)" "view_references v l (lp_runtime l) = 0 \<longleftrightarrow> \<not> uses v ts (lp_runtime l)"
proof -
  have refs: "vw_refs v h = (\<Sum>t\<leftarrow>ts. int (count_list (di_held t) h))" for h using assms(1) by (simp add: sys_inv_def)
  then have nn: "0 \<le> sum_list (map (vw_refs v) (lp_handlers l))"
    by (intro sum_list_nonneg) (auto simp: held_sum_nonneg)
  then show "0 \<le> view_references v l (lp_runtime l)" by (simp add: view_references_def)
  have "sum_list (map (vw_refs v) (lp_handlers l)) = 0 \<longleftrightarrow> (\<forall>h \<in> set (lp_handlers l). vw_refs v h = 0)"
    by (subst sum_list_nonneg_eq_0_iff) (auto simp: refs held_sum_nonneg)
  also have "\<dots> \<longleftrightarrow> (\<forall>h. vw_run v h = lp_runtime l \<longrightarrow> (\<forall>t \<in> set ts. h \<notin> set (di_held t)))"
    using assms(2) by (simp add: refs held_sum_zero lp_ok_def Ball_def)
  finally show "view_references v l (lp_runtime l) = 0 \<longleftrightarrow> \<not> uses v ts (lp_runtime l)"
    using nn unfolding view_references_def uses_def by (fastforce simp: filter_empty_conv list_ex_iff)
qed

lemma in_update_set: "i < length ts \<Longrightarrow> x \<in> set (ts[i := t]) \<Longrightarrow> x = t \<or> x \<in> set ts"
  by (metis insertE set_update_subset_insert subsetD)

text \<open>What changes in a list of goroutines when one makes a step.\<close>

lemma ex_update:
  assumes "i < length ts"
  shows "(\<exists>x \<in> set (ts[i := t]). P x) \<longleftrightarrow> P t \<or> (\<exists>j < length ts. j \<noteq> i \<and> P (ts ! j))"
  using assms by (auto simp: in_set_conv_nth nth_list_update Bex_def)

lemma ex_split:
  assumes "i < length ts"
  shows "(\<exists>x \<in> set ts. P x) \<longleftrightarrow> P (ts ! i) \<or> (\<exists>j < length ts. j \<noteq> i \<and> P (ts ! j))"
  using assms by (auto simp: in_set_conv_nth Bex_def)

lemma vstep_run: "vstep (v, t) (v', t') \<Longrightarrow> vw_run v' = vw_run v \<and> vw_pid v' = vw_pid v \<and> vw_flag v' = vw_flag v
    \<and> vw_draining v' = vw_draining v \<and> vw_snapshot v' = vw_snapshot v"
  by (erule vstep.cases) auto

lemma vstep_refs:
  "vstep (v, t) (v', t') \<Longrightarrow> vw_refs v' h = vw_refs v h - int (count_list (di_held t) h) + int (count_list (di_held t') h)"
  by (erule vstep.cases) auto

lemma vstep_joining:
  "vstep (v, t) (v', t') \<Longrightarrow> \<forall>h. di_joining t = Some h \<longrightarrow> h \<in> set (di_held t) \<Longrightarrow> \<forall>h. di_joining t' = Some h \<longrightarrow> h \<in> set (di_held t')"
  by (erule vstep.cases) auto

lemma parts_keys [simp]: "map fst (join_parts sid h ps) = map fst ps"
  by (auto simp: join_parts_def)

lemma distinct_drop_parts: "distinct (map fst ps) \<Longrightarrow> distinct (map fst (drop_parts sid ps))"
  by (induction ps) (auto simp: drop_parts_def)

lemma vstep_keys: "vstep (v, t) (v', t') \<Longrightarrow> distinct (map fst (vw_parts v)) \<Longrightarrow> distinct (map fst (vw_parts v'))"
  by (erule vstep.cases) (auto simp: distinct_drop_parts simp del: map_map)

lemma delete_subset: "set (AList.delete k al) \<subseteq> set al"
  by (auto simp: AList.delete_eq)

lemma vstep_pending:
  assumes "vstep (v, t) (v', t')" "distinct (map fst (vw_pending v))"
  shows "distinct (map fst (vw_pending v')) \<and> set (vw_pending v') \<subseteq> set (vw_pending v)"
  using assms by (cases rule: vstep.cases) (auto simp: AList.distinct_delete dest: delete_subset [THEN subsetD])

lemma lp_ok_cong: "vw_run v' = vw_run v \<Longrightarrow> lp_ok v' l = lp_ok v l"
  by (simp add: lp_ok_def)

lemma sys_inv_connection:
  assumes "vstep (v, ts ! i) (v', t')" "i < length ts" "sys_inv v ts"
  shows "sys_inv v' (ts[i := t'])"
  unfolding sys_inv_def
proof (intro conjI)
  note inv = assms(3) [unfolded sys_inv_def]
  note same = vstep_run [OF assms(1)]
  show "\<forall>h. vw_refs v' h = (\<Sum>t\<leftarrow>ts[i := t']. int (count_list (di_held t) h))"
    using inv assms(2) vstep_refs [OF assms(1)] by (simp add: sum_list_map_update)
  show "\<forall>t \<in> set (ts[i := t']). \<forall>h. di_joining t = Some h \<longrightarrow> h \<in> set (di_held t)"
    using inv vstep_joining [OF assms(1)] assms(2) in_update_set [OF assms(2)] by (metis nth_mem)
  show "distinct (map fst (vw_parts v'))" using inv vstep_keys [OF assms(1)] by blast
  show "\<forall>h. vw_pid v' h = rk_pluginID (vw_run v' h)" using inv same by simp
  show "distinct (map fst (vw_pending v'))" using inv vstep_pending [OF assms(1)] by blast
  show "\<forall>(k, l) \<in> set (vw_pending v'). k = lp_runtime l \<and> lp_ok v' l"
    using inv vstep_pending [OF assms(1)] same lp_ok_cong [of v' v] by fastforce
qed

definition others :: "dispatcher list \<Rightarrow> nat \<Rightarrow> (dispatcher \<Rightarrow> bool) \<Rightarrow> bool" where
  "others ts i P = (\<exists>j < length ts. j \<noteq> i \<and> P (ts ! j))"

definition parts_use :: "view \<Rightarrow> runtimeIdentity \<Rightarrow> bool" where
  "parts_use v k = (\<exists>(i, p) \<in> set (vw_parts v). \<exists>h \<in> set p. vw_run v h = k)"

definition held_uses :: "view \<Rightarrow> runtimeIdentity \<Rightarrow> dispatcher \<Rightarrow> bool" where
  "held_uses v k t = (\<exists>h \<in> set (di_held t). vw_run v h = k)"

lemma uses_split:
  "i < length ts \<Longrightarrow> uses v ts k \<longleftrightarrow> held_uses v k (ts ! i) \<or> others ts i (held_uses v k) \<or> parts_use v k"
  "i < length ts \<Longrightarrow> uses v (ts[i := t]) k \<longleftrightarrow> held_uses v k t \<or> others ts i (held_uses v k) \<or> parts_use v k"
  unfolding uses_def others_def parts_use_def held_uses_def by (simp_all add: ex_update ex_split [of i ts])

lemma owed_split:
  "i < length ts \<Longrightarrow> check_owed ts k \<longleftrightarrow> k \<in> set (di_owed (ts ! i)) \<or> others ts i (\<lambda>t. k \<in> set (di_owed t))"
  "i < length ts \<Longrightarrow> check_owed (ts[i := t]) k \<longleftrightarrow> k \<in> set (di_owed t) \<or> others ts i (\<lambda>t. k \<in> set (di_owed t))"
  unfolding check_owed_def others_def by (simp_all add: ex_update ex_split [of i ts])

lemma held_uses_cong: "vw_run v' = vw_run v \<Longrightarrow> held_uses v' k = held_uses v k"
  by (simp add: held_uses_def fun_eq_iff)

lemma parts_use_join:
  "parts_use (v\<lparr>vw_parts := join_parts sid h (vw_parts v)\<rparr>) k \<Longrightarrow> parts_use v k \<or> vw_run v h = k"
  by (force simp: parts_use_def join_parts_def split: if_splits)

lemma parts_use_join': "parts_use v k \<Longrightarrow> parts_use (v\<lparr>vw_parts := join_parts sid h (vw_parts v)\<rparr>) k"
  by (force simp: parts_use_def join_parts_def split: if_splits)

lemma parts_use_drop: "parts_use (v\<lparr>vw_parts := drop_parts sid (vw_parts v)\<rparr>) k \<Longrightarrow> parts_use v k"
  by (auto simp: parts_use_def drop_parts_def)

lemma parts_use_drop':
  assumes "distinct (map fst (vw_parts v))" "(sid, p) \<in> set (vw_parts v)" "parts_use v k"
  shows "parts_use (v\<lparr>vw_parts := drop_parts sid (vw_parts v)\<rparr>) k \<or> k \<in> set (map (vw_run v) p)"
proof -
  obtain i q h where q: "(i, q) \<in> set (vw_parts v)" "h \<in> set q" "vw_run v h = k"
    using assms(3) by (auto simp: parts_use_def)
  show ?thesis
  proof (cases "i = sid")
    case True
    with q(1) assms(1,2) have "q = p" by (metis eq_key_imp_eq_value)
    with q show ?thesis by auto
  next
    case False
    with q show ?thesis by (auto simp: parts_use_def drop_parts_def)
  qed
qed

lemma connection_no_new_user:
  assumes "vstep (v, ts ! i) (v', t')" "i < length ts" "sys_inv v ts" "shielded v ts k" "uses v' (ts[i := t']) k"
  shows "uses v ts k"
proof -
  note run = vstep_run [OF assms(1)]
  note cong = held_uses_cong [of v' v k]
  have joining: "di_joining (ts ! i) = Some h \<Longrightarrow> h \<in> set (di_held (ts ! i))" for h
    using assms(2,3) by (auto simp: sys_inv_def)
  have "held_uses v k t' \<or> parts_use v' k \<Longrightarrow> held_uses v k (ts ! i) \<or> parts_use v k"
    using assms(1)
  proof (cases rule: vstep.cases)
    case (vreserve h hs)
    have "vw_run v h \<noteq> k"
    proof
      assume k: "vw_run v h = k"
      have "vw_pid v h = rk_pluginID k" using assms(3) k by (simp add: sys_inv_def)
      moreover have "h \<in> set (di_todo (ts ! i))" "ts ! i \<in> set ts" using vreserve assms(2) by auto
      ultimately show False
        using assms(4) vreserve(4,5) k by (auto simp: shielded_def flagged_def unreachable_def)
    qed
    then show "held_uses v k t' \<or> parts_use v' k \<Longrightarrow> ?thesis" using vreserve by (auto simp: held_uses_def parts_use_def)
  next
    case (vjoin h sid)
    then show "held_uses v k t' \<or> parts_use v' k \<Longrightarrow> ?thesis"
      using joining parts_use_join [where v = v and k = k] by (auto simp: held_uses_def)
  next
    case (vfinish sid p)
    then show "held_uses v k t' \<or> parts_use v' k \<Longrightarrow> ?thesis"
      using parts_use_drop [where v = v and k = k] by (auto simp: held_uses_def)
  qed (auto simp: held_uses_def parts_use_def)
  then show ?thesis using assms(5) run cong by (auto simp: uses_split [OF assms(2)])
qed

lemma vstep_todo: "vstep (v, t) (v', t') \<Longrightarrow> set (di_todo t') \<subseteq> set (di_todo t)"
  by (erule vstep.cases) auto

lemma connection_unreachable:
  assumes "vstep (v, ts ! i) (v', t')" "i < length ts" "unreachable v ts k"
  shows "unreachable v' (ts[i := t']) k"
  using vstep_run [OF assms(1)] vstep_todo [OF assms(1)] in_update_set [OF assms(2), of _ t'] nth_mem [OF assms(2)] assms(3)
  by (force simp: unreachable_def)

lemma connection_stays_blocked:
  assumes "vstep (v, ts ! i) (v', t')" "i < length ts" "shielded v ts k"
  shows "shielded v' (ts[i := t']) k"
  using connection_unreachable [OF assms(1,2)] assms(3) vstep_run [OF assms(1)] by (auto simp: shielded_def flagged_def)

lemma connection_pending: "vstep (v, t) (v', t') \<Longrightarrow> sys_inv v ts \<Longrightarrow> retiring v' k \<Longrightarrow> retiring v k"
  using vstep_pending [of v t v' t'] by (auto simp: sys_inv_def retiring_def)

lemma connection_stopped:
  assumes "vstep (v, ts ! i) (v', t')" "i < length ts" "sys_inv v ts" "is_stopped v' k"
  shows "is_stopped v k \<or> retiring v k \<and> \<not> uses v' (ts[i := t']) k"
  using assms(1)
proof (cases rule: vstep.cases)
  case (vstop key ks l)
  then have mem: "(key, l) \<in> set (vw_pending v)" by (auto dest: map_of_SomeD)
  then have l: "key = lp_runtime l" "lp_ok v l" using assms(3) by (auto simp: sys_inv_def)
  have "\<not> uses v ts key" using references_uses [OF assms(3) l(2)] vstop(5) l(1) by auto
  moreover have "uses v' (ts[i := t']) key = uses v ts key"
    unfolding uses_split [OF assms(2)] using vstop by (simp add: held_uses_def [abs_def] parts_use_def)
  ultimately show ?thesis using assms(4) vstop mem l(1) by (force simp: is_stopped_def retiring_def)
qed (use assms(4) in \<open>auto simp: is_stopped_def\<close>)

lemma connection_last_user:
  assumes "vstep (v, ts ! i) (v', t')" "i < length ts" "sys_inv v ts" "retiring v' k" "uses v ts k \<or> check_owed ts k"
  shows "uses v' (ts[i := t']) k \<or> check_owed (ts[i := t']) k"
proof -
  have keys: "distinct (map fst (vw_parts v))" using assms(3) by (simp add: sys_inv_def)
  have run: "held_uses v' k = held_uses v k" using vstep_run [OF assms(1)] by (intro held_uses_cong) simp
  have "held_uses v k (ts ! i) \<or> parts_use v k \<or> k \<in> set (di_owed (ts ! i)) \<Longrightarrow>
      held_uses v k t' \<or> parts_use v' k \<or> k \<in> set (di_owed t') \<or> uses v' (ts[i := t']) k"
    using assms(1)
  proof (cases rule: vstep.cases)
    case (vkeep key ks l)
    have "k = key \<Longrightarrow> uses v ts k"
    proof -
      assume k: "k = key"
      have "map_of (vw_pending v) key \<noteq> None" using assms(4) k vkeep by (force simp: retiring_def map_of_eq_None_iff)
      with vkeep have m: "map_of (vw_pending v) key = Some l" "0 < view_references v l key" by auto
      then have l: "key = lp_runtime l" "lp_ok v l" using assms(3) by (auto simp: sys_inv_def dest: map_of_SomeD)
      from references_uses [OF assms(3) l(2)] m(2) k l(1) show "uses v ts k" by auto
    qed
    then show "held_uses v k (ts ! i) \<or> parts_use v k \<or> k \<in> set (di_owed (ts ! i)) \<Longrightarrow> ?thesis"
      using vkeep unfolding uses_split [OF assms(2)] by (auto simp: held_uses_def)
  next
    case (vstop key ks l)
    have "k \<noteq> key" using assms(4) vstop by (auto simp: retiring_def AList.delete_eq)
    then show "held_uses v k (ts ! i) \<or> parts_use v k \<or> k \<in> set (di_owed (ts ! i)) \<Longrightarrow> ?thesis"
      using vstop by (auto simp: held_uses_def parts_use_def)
  next
    case (vjoin h sid)
    then show "held_uses v k (ts ! i) \<or> parts_use v k \<or> k \<in> set (di_owed (ts ! i)) \<Longrightarrow> ?thesis"
      using parts_use_join' [where v = v and k = k] by (auto simp: held_uses_def)
  next
    case (vfinish sid p)
    then show "held_uses v k (ts ! i) \<or> parts_use v k \<or> k \<in> set (di_owed (ts ! i)) \<Longrightarrow> ?thesis"
      using parts_use_drop' [OF keys vfinish(3), of k] by (auto simp: held_uses_def)
  qed (auto simp: held_uses_def parts_use_def)
  then show ?thesis using assms(5) run by (auto simp: uses_split [OF assms(2)] owed_split [OF assms(2)])
qed

text \<open>The manager's actions on views.\<close>

primrec vexec :: "action \<Rightarrow> view \<Rightarrow> view" where
  "vexec (Publish hs) v = v\<lparr>vw_snapshot := hs\<rparr>"
| "vexec (MarkDraining p) v = v\<lparr>vw_draining := insert p (vw_draining v)\<rparr>"
| "vexec (ClearDraining p) v = v\<lparr>vw_draining := vw_draining v - {p}\<rparr>"
| "vexec (MarkRuntime l) v = v\<lparr>vw_flag := (\<lambda>h. vw_flag v h \<or> h \<in> set (lp_handlers l))\<rparr>"
| "vexec (Retire l) v = (if view_references v l (lp_runtime l) = 0 then v\<lparr>vw_stopped := vw_stopped v @ [l]\<rparr>
     else v\<lparr>vw_pending := AList.update (lp_runtime l) l (vw_pending v)\<rparr>)"
| "vexec (ForceClose p) v = v"

lemma view_of_exec: "view_of (exec_action a m) = vexec a (view_of m)"
proof (cases a)
  case (Publish hs)
  then show ?thesis by (simp add: view_of_def)
next
  case (MarkDraining p)
  then show ?thesis by (simp add: view_of_markDraining) (simp add: view_of_def)
next
  case (ClearDraining p)
  then show ?thesis by (simp add: view_of_clearDraining) (simp add: view_of_def)
qed (simp_all add: view_of_markRuntime view_of_retire)

lemma vexec_same: "vw_run (vexec a v) = vw_run v" "vw_pid (vexec a v) = vw_pid v" "vw_refs (vexec a v) = vw_refs v" "vw_parts (vexec a v) = vw_parts v"
  by (cases a; simp)+

lemma vexec_uses: "uses (vexec a v) ts k = uses v ts k"
  by (simp add: uses_def vexec_same)

lemma update_pending:
  "distinct (map fst al) \<Longrightarrow> k \<notin> fst ` set al \<Longrightarrow> distinct (map fst (AList.update k x al)) \<and> set (AList.update k x al) = insert (k, x) (set al)"
  by (simp add: update_fresh)

lemma vexec_inv:
  assumes "allowed v ts a" "sys_inv v ts"
  shows "sys_inv (vexec a v) ts"
proof (cases a)
  case (Retire l)
  then show ?thesis
    using assms update_pending [of "vw_pending v" "lp_runtime l" l]
    by (auto simp: sys_inv_def allowed_def retiring_def lp_ok_def)
qed (use assms in \<open>auto simp: sys_inv_def lp_ok_def\<close>)

lemma vexec_shielded:
  assumes "allowed v ts a" "retiring v k \<or> is_stopped v k" "shielded v ts k"
  shows "shielded (vexec a v) ts k"
proof (cases a)
  case (Publish hs)
  with assms show ?thesis by (auto simp: allowed_def shielded_def flagged_def unreachable_def)
next
  case (ClearDraining p)
  with assms show ?thesis by (auto simp: allowed_def shielded_def flagged_def unreachable_def)
qed (use assms in \<open>auto simp: shielded_def flagged_def unreachable_def\<close>)

lemma vexec_retired:
  assumes "allowed v ts a" "sys_inv v ts"
  shows "retiring (vexec a v) k \<Longrightarrow> retiring v k \<or> shielded (vexec a v) ts k \<and> uses (vexec a v) ts k" (is "?R \<Longrightarrow> ?r")
    and "is_stopped (vexec a v) k \<Longrightarrow> is_stopped v k \<or> shielded (vexec a v) ts k \<and> \<not> uses (vexec a v) ts k" (is "?S \<Longrightarrow> ?s")
proof -
  have "(?R \<longrightarrow> ?r) \<and> (?S \<longrightarrow> ?s)"
  proof (cases a)
    case (Retire l)
    with assms(1) have l: "lp_ok v l" "shielded v ts (lp_runtime l)" "lp_runtime l \<notin> fst ` set (vw_pending v)"
      by (auto simp: allowed_def retiring_def)
    have sh: "shielded (vexec a v) ts (lp_runtime l)"
      using l(2) Retire by (auto simp: shielded_def flagged_def unreachable_def)
    show ?thesis
    proof (cases "view_references v l (lp_runtime l) = 0")
      case True
      then have "retiring (vexec a v) k = retiring v k" "is_stopped (vexec a v) k \<longleftrightarrow> is_stopped v k \<or> k = lp_runtime l"
        using Retire by (auto simp: retiring_def is_stopped_def)
      with True sh references_uses(2) [OF assms(2) l(1)] show ?thesis by (auto simp: vexec_uses)
    next
      case False
      then have "retiring (vexec a v) k \<longleftrightarrow> retiring v k \<or> k = lp_runtime l" "is_stopped (vexec a v) k = is_stopped v k"
        using Retire update_fresh [OF l(3), of l] by (auto simp: retiring_def is_stopped_def)
      with False sh references_uses(2) [OF assms(2) l(1)] show ?thesis by (auto simp: vexec_uses)
    qed
  qed (simp_all add: retiring_def is_stopped_def)
  then show "?R \<Longrightarrow> ?r" "?S \<Longrightarrow> ?s" by blast+
qed

section \<open>The system implements the protocol\<close>

definition dispatcher_idle :: "dispatcher \<Rightarrow> bool" where
  "dispatcher_idle t = (di_held t = [] \<and> di_joining t = None)"

lemma sessions_distinct: "sys_inv (view_of m) ts \<Longrightarrow> distinct (map fst (mg_sessions m))"
  by (auto simp: sys_inv_def view_of_def o_def case_prod_unfold)

text \<open>Every step is a step of the system on views.\<close>

lemma sstep_view:
  assumes "sstep (m, ts) (m', ts')" "sys_inv (view_of m) ts"
  obtains "view_of m' = view_of m" "ts' = ts @ [new_dispatcher (vw_snapshot (view_of m))]"
  | i t' where "i < length ts" "vstep (view_of m, ts ! i) (view_of m', t')" "ts' = ts[i := t']"
  | a where "allowed (view_of m) ts a" "view_of m' = vexec a (view_of m)" "ts' = ts"
  using assms(1)
proof (cases rule: sstep.cases)
  case capture
  then show ?thesis using that(1) by (simp add: view_of_def)
next
  case (connection i t')
  then show ?thesis using that(2) dstep_vstep [OF _ sessions_distinct [OF assms(2)]] by blast
next
  case (manage a)
  then show ?thesis using that(3) view_of_exec by blast
qed

lemma capture_facts:
  "uses v (ts @ [new_dispatcher hs]) k = uses v ts k" "check_owed (ts @ [new_dispatcher hs]) k = check_owed ts k"
  "sys_inv v ts \<Longrightarrow> sys_inv v (ts @ [new_dispatcher hs])"
  "shielded v ts k \<Longrightarrow> shielded v (ts @ [new_dispatcher (vw_snapshot v)]) k"
  by (auto simp: uses_def check_owed_def sys_inv_def shielded_def flagged_def unreachable_def new_dispatcher_def)

interpretation plugin_retirement: deferred_retirement sstep "\<lambda>(m, ts). sys_inv (view_of m) ts"
  "\<lambda>(m, ts). uses (view_of m) ts" "\<lambda>(m, ts). shielded (view_of m) ts" "\<lambda>(m, ts). retiring (view_of m)"
  "\<lambda>(m, ts). is_stopped (view_of m)" "\<lambda>(m, ts). check_owed ts"
proof unfold_locales
  fix s t :: system and k
  obtain m ts m' ts' where st: "s = (m, ts)" "t = (m', ts')" by fastforce
  assume "sstep s t" and inv0: "(\<lambda>(m, ts). sys_inv (view_of m) ts) s"
  then have step: "sstep (m, ts) (m', ts')" and inv: "sys_inv (view_of m) ts" using st by auto
  show "(\<lambda>(m, ts). sys_inv (view_of m) ts) t"
    using step inv by (rule sstep_view)
      (use inv in \<open>auto simp: st capture_facts intro: sys_inv_connection vexec_inv\<close>)
  { assume "(\<lambda>(m, ts). shielded (view_of m) ts) s k" "(\<lambda>(m, ts). uses (view_of m) ts) t k"
    then have a: "shielded (view_of m) ts k" "uses (view_of m') ts' k" using st by auto
    from step inv show "(\<lambda>(m, ts). uses (view_of m) ts) s k"
      by (rule sstep_view) (use a inv in \<open>auto simp: st capture_facts vexec_uses intro: connection_no_new_user\<close>) }
  { assume "(\<lambda>(m, ts). retiring (view_of m)) s k \<or> (\<lambda>(m, ts). is_stopped (view_of m)) s k" "(\<lambda>(m, ts). shielded (view_of m) ts) s k"
    then have a: "retiring (view_of m) k \<or> is_stopped (view_of m) k" "shielded (view_of m) ts k" using st by auto
    from step inv show "(\<lambda>(m, ts). shielded (view_of m) ts) t k"
      by (rule sstep_view) (use a in \<open>auto simp: st capture_facts intro: connection_stays_blocked vexec_shielded\<close>) }
  { assume "(\<lambda>(m, ts). retiring (view_of m)) t k"
    then have a: "retiring (view_of m') k" using st by auto
    from step inv show "(\<lambda>(m, ts). retiring (view_of m)) s k
        \<or> (\<lambda>(m, ts). shielded (view_of m) ts) t k \<and> (\<lambda>(m, ts). uses (view_of m) ts) t k"
      by (rule sstep_view) (use a inv in \<open>auto simp: st dest: connection_pending vexec_retired(1)\<close>) }
  { assume "(\<lambda>(m, ts). is_stopped (view_of m)) t k"
    then have a: "is_stopped (view_of m') k" using st by auto
    from step inv show "(\<lambda>(m, ts). is_stopped (view_of m)) s k \<or> ((\<lambda>(m, ts). retiring (view_of m)) s k
        \<or> (\<lambda>(m, ts). shielded (view_of m) ts) t k) \<and> \<not> (\<lambda>(m, ts). uses (view_of m) ts) t k"
      by (rule sstep_view) (use a inv in \<open>auto simp: st dest: connection_stopped vexec_retired(2)\<close>) }
  { assume "(\<lambda>(m, ts). retiring (view_of m)) t k" "(\<lambda>(m, ts). uses (view_of m) ts) s k \<or> (\<lambda>(m, ts). check_owed ts) s k"
    then have a: "retiring (view_of m') k" "uses (view_of m) ts k \<or> check_owed ts k" using st by auto
    from step inv show "(\<lambda>(m, ts). uses (view_of m) ts) t k \<or> (\<lambda>(m, ts). check_owed ts) t k"
      by (rule sstep_view) (use a inv connection_last_user in \<open>auto simp: st capture_facts vexec_uses\<close>) }
qed

end
