(* ===== verification/Plugin_Lifecycle.thy ===== *)
theory Plugin_Lifecycle
  imports Plugin_Retirement Tables "HOL-Library.Product_Lexorder" "HOL-Library.Multiset"
begin

text \<open>
  \<open>src/internal/pluginmanager/manager.go\<close>: loading, enabling, disabling and deleting plugins, as far as the running
  process goes: the loaded runtimes, the published handlers and the retirement of what is
  replaced.  An operation runs under the manager's lock; what connections can observe of it is a
  sequence of actions, between which connections go on.

  The repository, the release gate and the runtime adapters are parameters: what they answered.
\<close>

section \<open>The published handlers\<close>

text \<open>\<open>currentHandlersLocked\<close> groups the snapshot by plugin, \<open>flattenHandlers\<close> joins the groups again, in any order.\<close>

definition add_handler :: "manager \<Rightarrow> nat \<Rightarrow> (string \<times> nat list) list \<Rightarrow> (string \<times> nat list) list" where
  "add_handler m h cur = (let p = ho_pluginID (mg_heap m h) in
     AList.update p ((case map_of cur p of None \<Rightarrow> [] | Some hs \<Rightarrow> hs) @ [h]) cur)"

definition currentHandlersLocked :: "manager \<Rightarrow> (string \<times> nat list) list" where
  "currentHandlersLocked m = fold (add_handler m) (mg_snapshot m) []"

definition flattenHandlers :: "(string \<times> nat list) list \<Rightarrow> nat list" where
  "flattenHandlers byPlugin = concat (map snd byPlugin)"

text \<open>The stable sort of \<open>publish\<close>: by priority, plugin and handler id.\<close>

definition handler_key :: "manager \<Rightarrow> nat \<Rightarrow> int \<times> string \<times> string" where
  "handler_key m h = (ho_priority (mg_heap m h), ho_pluginID (mg_heap m h), ho_handlerID (mg_heap m h))"

definition publish :: "manager \<Rightarrow> nat list \<Rightarrow> action" where
  "publish m handlers = Publish (sort_key (handler_key m) handlers)"

definition removeFromDispatchLocked :: "string \<Rightarrow> manager \<Rightarrow> action" where
  "removeFromDispatchLocked pluginID m = publish m (flattenHandlers (AList.delete pluginID (currentHandlersLocked m)))"

definition removeExtensionsLocked :: "string \<Rightarrow> manager \<Rightarrow> manager" where
  "removeExtensionsLocked pluginID m = m\<lparr>mg_extensions := removeAll pluginID (mg_extensions m)\<rparr>"

definition pluginPublishedLocked :: "string \<Rightarrow> manager \<Rightarrow> bool" where
  "pluginPublishedLocked pluginID m = (map_of (currentHandlersLocked m) pluginID \<noteq> None \<or> pluginID \<in> set (mg_extensions m))"

section \<open>Displaced runtimes\<close>

definition displacedPluginsLocked :: "string \<Rightarrow> manager \<Rightarrow> loadedPlugin list" where
  "displacedPluginsLocked pluginID m = filter (\<lambda>l. lp_pluginID l = pluginID) (map snd (mg_displaced m))"

definition takeDisplacedPluginsLocked :: "string \<Rightarrow> manager \<Rightarrow> loadedPlugin list \<times> manager" where
  "takeDisplacedPluginsLocked pluginID m =
    (displacedPluginsLocked pluginID m, m\<lparr>mg_displaced := filter (\<lambda>(_, l). lp_pluginID l \<noteq> pluginID) (mg_displaced m)\<rparr>)"

definition appendUniqueLoadedPlugin :: "loadedPlugin list \<Rightarrow> loadedPlugin option \<Rightarrow> loadedPlugin list" where
  "appendUniqueLoadedPlugin plugins candidate = (case candidate of
      None \<Rightarrow> plugins
    | Some c \<Rightarrow> if list_ex (\<lambda>l. lp_ref l = lp_ref c) plugins then plugins else plugins @ [c])"

definition takeAllDisplacedPluginsLocked :: "manager \<Rightarrow> loadedPlugin list \<times> manager" where
  "takeAllDisplacedPluginsLocked m =
    (foldl (\<lambda>ps l. appendUniqueLoadedPlugin ps (Some l)) [] (map snd (mg_displaced m)), m\<lparr>mg_displaced := []\<rparr>)"

section \<open>Loading\<close>

record PluginRecord =
  pr_ID :: string
  pr_DesiredArtifactID :: string
  pr_DesiredGeneration :: int

text \<open>
  What the surroundings of \<open>loadLocked\<close> answer: whether the manager is closing, whether the host process of the loaded runtime is in a
  crash loop, the errors of the artifact lookup, the artifact gate and the manifest, the started
  runtime with its registered handlers, and the outcome of writing the runtime state.
\<close>

record load_env =
  le_closing :: bool
  le_crashLoop :: bool
  le_artifact :: "error option"
  le_gate :: "error option"
  le_manifest :: "error option"
  le_start :: "loadedPlugin result"
  le_mark :: "bool result"

definition ErrManagerClosed :: error where
  "ErrManagerClosed = ErrorString ''plugin manager is closing''"

definition reusable :: "PluginRecord \<Rightarrow> loadedPlugin \<Rightarrow> bool" where
  "reusable rec l = (rk_artifactID (lp_runtime l) = pr_DesiredArtifactID rec
     \<and> rk_desiredGeneration (lp_runtime l) = pr_DesiredGeneration rec)"

definition restore_loaded :: "string \<Rightarrow> loadedPlugin option \<Rightarrow> manager \<Rightarrow> manager" where
  "restore_loaded pluginID previous m = m\<lparr>mg_loaded := (case previous of
     Some p \<Rightarrow> AList.update pluginID p (mg_loaded m) | None \<Rightarrow> AList.delete pluginID (mg_loaded m))\<rparr>"

text \<open>The loaded plugin and the one it replaces.\<close>

definition loadLocked ::
  "load_env \<Rightarrow> PluginRecord \<Rightarrow> manager \<Rightarrow> (loadedPlugin \<times> loadedPlugin option) result \<times> manager" where
  "loadLocked env rec m =
    (let pid = pr_ID rec;
         fresh = (\<lambda>m. case le_artifact env of
             Some e \<Rightarrow> (Inl e, m)
           | None \<Rightarrow> (case le_gate env of
             Some e \<Rightarrow> (Inl e, m)
           | None \<Rightarrow> (case le_manifest env of
             Some e \<Rightarrow> (Inl e, m)
           | None \<Rightarrow> (case le_start env of
             Inl e \<Rightarrow> (Inl e, m)
           | Inr loaded \<Rightarrow>
               (let previous = map_of (mg_loaded m) pid;
                    m = m\<lparr>mg_loaded := AList.update pid loaded (mg_loaded m)\<rparr>
                in case le_mark env of
                     Inl e \<Rightarrow> (Inl e, stop_runtime loaded (restore_loaded pid previous m))
                   | Inr False \<Rightarrow> (Inl (ErrorString ''runtime desired generation changed before load completed''),
                                   stop_runtime loaded (restore_loaded pid previous m))
                   | Inr True \<Rightarrow> (Inr (loaded, previous), m))))))
     in if le_closing env then (Inl ErrManagerClosed, m)
        else case map_of (mg_loaded m) pid of
          None \<Rightarrow> fresh m
        | Some l \<Rightarrow> if \<not> reusable rec l then fresh m
            else if le_crashLoop env then fresh (m\<lparr>mg_loaded := AList.delete pid (mg_loaded m)\<rparr>)
            else (Inr (l, None), m))"

definition rollbackLoadedCandidateLocked ::
  "string \<Rightarrow> loadedPlugin \<Rightarrow> loadedPlugin option \<Rightarrow> loadedPlugin option \<Rightarrow> manager \<Rightarrow> manager \<times> action list" where
  "rollbackLoadedCandidateLocked pluginID candidate previous replaced m =
    (case takeDisplacedPluginsLocked pluginID m of (displaced, m) \<Rightarrow>
       if displaced = [] \<and> map_option lp_ref previous = Some (lp_ref candidate) \<and> pluginPublishedLocked pluginID m then (m, [])
       else (let restore = (if displaced \<noteq> [] then Some (hd displaced) else replaced);
                 m = restore_loaded pluginID restore m;
                 stale = appendUniqueLoadedPlugin (drop 1 displaced) replaced;
                 other = (\<lambda>l. map_option lp_ref restore \<noteq> Some (lp_ref l))
             in (m, map Retire (filter other stale @ filter other [candidate]))))"

section \<open>Operations\<close>

text \<open>Each yields its result, the manager's own bookkeeping after it and the actions connections can observe.\<close>

definition Load :: "load_env \<Rightarrow> PluginRecord \<Rightarrow> manager \<Rightarrow> loadedPlugin result \<times> manager \<times> action list" where
  "Load env rec m = (case loadLocked env rec m of
      (Inl e, m) \<Rightarrow> (Inl e, m, [])
    | (Inr (loaded, None), m) \<Rightarrow> (Inr loaded, m, [])
    | (Inr (loaded, Some replaced), m) \<Rightarrow>
        if pluginPublishedLocked (pr_ID rec) m \<and> displacedPluginsLocked (pr_ID rec) m = []
        then (Inr loaded, m\<lparr>mg_displaced := AList.update (lp_runtime replaced) replaced (mg_displaced m)\<rparr>, [])
        else (Inr loaded, m, [Retire replaced]))"

text \<open>The part of \<open>Enable\<close> that publishes the loaded plugin and retires what it replaces.\<close>

definition enable_publish :: "string \<Rightarrow> loadedPlugin \<Rightarrow> loadedPlugin option \<Rightarrow> manager \<Rightarrow> manager \<times> action list" where
  "enable_publish pid loaded replaced m =
    (let handlers = flattenHandlers (AList.update pid (lp_handlers loaded) (currentHandlersLocked m));
         (displaced, m') = takeDisplacedPluginsLocked pid m;
         retiring = appendUniqueLoadedPlugin displaced replaced
     in (m'\<lparr>mg_extensions := (if lp_extensions loaded then List.insert pid (mg_extensions m) else removeAll pid (mg_extensions m))\<rparr>,
         [ClearDraining pid] @ map MarkRuntime retiring @ [publish m handlers] @ map Retire retiring))"

text \<open>\<open>Enable\<close> after the release gate let it pass; \<open>mark\<close> is the outcome of \<open>markEnabled\<close>.\<close>

definition Enable ::
  "load_env \<Rightarrow> error option \<Rightarrow> PluginRecord \<Rightarrow> manager \<Rightarrow> loadedPlugin result \<times> manager \<times> action list" where
  "Enable env mark rec m =
    (let pid = pr_ID rec; previous = map_of (mg_loaded m) pid in
     case loadLocked env rec m of
       (Inl e, m) \<Rightarrow> (Inl e, m, [])
     | (Inr (loaded, replaced), m) \<Rightarrow>
         if lp_handlers loaded = [] \<and> \<not> lp_extensions loaded
         then (Inl (ErrorString (''plugin \"'' @ pid @ ''\" did not register any supported extension point'')),
               rollbackLoadedCandidateLocked pid loaded previous replaced m)
         else (case mark of
             Some e \<Rightarrow> (Inl e, rollbackLoadedCandidateLocked pid loaded previous replaced m)
           | None \<Rightarrow> (Inr loaded, enable_publish pid loaded replaced m)))"

text \<open>\<open>Disable\<close> and \<open>Delete\<close> take a plugin out in the same way; they differ in the state they store.\<close>

definition withdraw :: "string \<Rightarrow> manager \<Rightarrow> manager \<times> action list" where
  "withdraw pluginID m =
    (let remove = removeFromDispatchLocked pluginID m;
         m = removeExtensionsLocked pluginID m in
     case takeDisplacedPluginsLocked pluginID m of (displaced, m) \<Rightarrow>
       (let retiring = appendUniqueLoadedPlugin displaced (map_of (mg_loaded m) pluginID)
        in (m\<lparr>mg_loaded := AList.delete pluginID (mg_loaded m)\<rparr>, [remove, MarkDraining pluginID] @ map Retire retiring)))"

text \<open>The errors of the repository: of reading the plugin and of storing the new desired state.\<close>

definition Disable :: "error option \<Rightarrow> error option \<Rightarrow> string \<Rightarrow> manager \<Rightarrow> error option \<times> manager \<times> action list" where
  "Disable read_err store_err pluginID m = (case read_err of
      Some e \<Rightarrow> (Some e, m, [])
    | None \<Rightarrow> (case store_err of
        Some e \<Rightarrow> (Some e, m, [])
      | None \<Rightarrow> (None, withdraw pluginID m)))"

text \<open>\<open>Delete\<close> stores last, so a failing store leaves the plugin withdrawn but not deleted.\<close>

definition Delete :: "error option \<Rightarrow> error option \<Rightarrow> string \<Rightarrow> manager \<Rightarrow> error option \<times> manager \<times> action list" where
  "Delete read_err store_err pluginID m = (case read_err of
      Some e \<Rightarrow> (Some e, m, [])
    | None \<Rightarrow> (store_err, withdraw pluginID m))"

definition quarantinePluginLocked :: "string \<Rightarrow> manager \<Rightarrow> manager \<times> action list" where
  "quarantinePluginLocked pluginID m =
    (removeExtensionsLocked pluginID m, [removeFromDispatchLocked pluginID m, MarkDraining pluginID])"

definition run_actions :: "action list \<Rightarrow> manager \<Rightarrow> manager" where
  "run_actions acts m = fold exec_action acts m"

section \<open>Actions between connection steps\<close>

definition retired :: "view \<Rightarrow> runtimeIdentity \<Rightarrow> bool" where
  "retired v k = (retiring v k \<or> is_stopped v k)"

text \<open>The connections' part of the system.\<close>

inductive cstep :: "system \<Rightarrow> system \<Rightarrow> bool" where
  "cstep (m, ts) (m, ts @ [new_dispatcher (mg_snapshot m)])"
| "i < length ts \<Longrightarrow> dstep (m, ts ! i) (m', t') \<Longrightarrow> cstep (m, ts) (m', ts[i := t'])"

inductive_cases cstep_cases: "cstep (m, ts) (m', ts')"

text \<open>Actions in order, with connection steps before, between and after them.\<close>

inductive interleaved :: "action list \<Rightarrow> system \<Rightarrow> system \<Rightarrow> bool" where
  il_end: "interleaved [] s s"
| il_connection: "cstep s s' \<Longrightarrow> interleaved acts s' s'' \<Longrightarrow> interleaved acts s s''"
| il_action: "interleaved acts (exec_action a m, ts) s'' \<Longrightarrow> interleaved (a # acts) (m, ts) s''"

lemma cstep_sstep: "cstep s s' \<Longrightarrow> sstep s s'"
  by (auto elim!: cstep.cases intro: sstep.intros)

text \<open>
  The conditions for actions that no connection can invalidate: they depend on flags, draining plugins and
  the retired runtimes only.
\<close>

definition strictly_allowed :: "view \<Rightarrow> action \<Rightarrow> bool" where
  "strictly_allowed v a = (case a of
      Publish hs \<Rightarrow> \<forall>h \<in> set hs. retired v (vw_run v h) \<longrightarrow> flagged v (vw_run v h) \<or> rk_pluginID (vw_run v h) \<in> vw_draining v
    | ClearDraining p \<Rightarrow> \<forall>k. retired v k \<and> rk_pluginID k = p \<longrightarrow> flagged v k
    | Retire l \<Rightarrow> lp_ok v l \<and> (flagged v (lp_runtime l) \<or> lp_pluginID l \<in> vw_draining v) \<and> \<not> retired v (lp_runtime l)
    | _ \<Rightarrow> True)"

fun all_allowed :: "action list \<Rightarrow> view \<Rightarrow> bool" where
  "all_allowed [] v = True"
| "all_allowed (a # acts) v = (strictly_allowed v a \<and> all_allowed acts (vexec a v))"

lemma strictly_allowed_allowed: "strictly_allowed v a \<Longrightarrow> allowed v ts a"
  by (cases a) (auto simp: strictly_allowed_def allowed_def retired_def shielded_def lp_pluginID_def)

definition same_shape :: "view \<Rightarrow> view \<Rightarrow> bool" where
  "same_shape v v' = (vw_run v' = vw_run v \<and> vw_flag v' = vw_flag v \<and> vw_draining v' = vw_draining v \<and> retired v' = retired v)"

lemma same_shape_refl [simp]: "same_shape v v"
  by (simp add: same_shape_def)

lemma retired_vexec: "retired (vexec a v) k \<longleftrightarrow> retired v k \<or> (\<exists>l. a = Retire l \<and> k = lp_runtime l)"
proof (cases a)
  case (Retire l)
  have "fst ` set (AList.update (lp_runtime l) l (vw_pending v)) = insert (lp_runtime l) (fst ` set (vw_pending v))"
    using AList.dom_update [of "lp_runtime l" l "vw_pending v"] by (simp add: dom_map_of_conv_image_fst)
  with Retire show ?thesis by (auto simp: retired_def retiring_def is_stopped_def)
qed (auto simp: retired_def retiring_def is_stopped_def)

lemma vexec_flag: "vw_flag (vexec a v) h \<longleftrightarrow> vw_flag v h \<or> (\<exists>l. a = MarkRuntime l \<and> h \<in> set (lp_handlers l))"
  by (cases a) auto

lemma vexec_draining:
  "p \<in> vw_draining (vexec a v) \<longleftrightarrow> (p \<in> vw_draining v \<or> a = MarkDraining p) \<and> a \<noteq> ClearDraining p"
  by (cases a) auto

lemma same_shape_vexec:
  assumes "same_shape v v'"
  shows "same_shape (vexec a v) (vexec a v')"
proof -
  note eq = assms [unfolded same_shape_def]
  have "retired (vexec a v') = retired (vexec a v)" by (rule ext) (simp add: retired_vexec eq)
  moreover have "vw_flag (vexec a v') = vw_flag (vexec a v)" by (rule ext) (simp add: vexec_flag eq)
  moreover have "vw_draining (vexec a v') = vw_draining (vexec a v)" by (rule set_eqI) (simp add: vexec_draining eq)
  ultimately show ?thesis by (simp add: same_shape_def vexec_same eq)
qed

lemma strictly_allowed_shape: "same_shape v v' \<Longrightarrow> strictly_allowed v' a = strictly_allowed v a"
  by (cases a) (auto simp: strictly_allowed_def same_shape_def flagged_def lp_ok_def)

lemma all_allowed_shape: "same_shape v v' \<Longrightarrow> all_allowed acts v' = all_allowed acts v"
  by (induction acts arbitrary: v v') (auto simp: strictly_allowed_shape dest: same_shape_vexec)

lemma vstep_shape:
  assumes "vstep (v, t) (v', t')" "sys_inv v ts"
  shows "same_shape v v'"
proof -
  have "retired v' k = retired v k" for k
    using assms(1)
  proof (cases rule: vstep.cases)
    case (vstop key ks l)
    then have "(key, l) \<in> set (vw_pending v)" by (auto dest: map_of_SomeD)
    with assms(2) have "key = lp_runtime l" by (auto simp: sys_inv_def)
    with vstop \<open>(key, l) \<in> set (vw_pending v)\<close> show ?thesis
      by (force simp: retired_def retiring_def is_stopped_def AList.delete_eq)
  qed (auto simp: retired_def retiring_def is_stopped_def)
  with vstep_run [OF assms(1)] show ?thesis by (auto simp: same_shape_def)
qed

lemma cstep_shape:
  assumes "cstep (m, ts) (m', ts')" "sys_inv (view_of m) ts"
  shows "same_shape (view_of m) (view_of m')"
  using assms vstep_shape [OF dstep_vstep [OF _ sessions_distinct [OF assms(2)]] assms(2)]
  by (auto elim!: cstep_cases)

lemma interleaved_allowed:
  assumes "interleaved acts s s'" "sys_inv (view_of (fst s)) (snd s)" "all_allowed acts (view_of (fst s))"
  shows "sstep\<^sup>*\<^sup>* s s'"
  using assms
proof (induction rule: interleaved.induct)
  case (il_connection s s' acts s'')
  obtain m ts m' ts' where s: "s = (m, ts)" "s' = (m', ts')" by fastforce
  have step: "sstep s s'" using il_connection.hyps(1) by (rule cstep_sstep)
  have "sys_inv (view_of m') ts'" using plugin_retirement.inv_step [OF step] il_connection.prems(1) s by simp
  moreover have "all_allowed acts (view_of m')"
    using all_allowed_shape [OF cstep_shape] il_connection s by auto
  ultimately have "sstep\<^sup>*\<^sup>* s' s''" using il_connection.IH s by simp
  with step show ?case by (rule converse_rtranclp_into_rtranclp)
next
  case (il_action acts a m ts s'')
  have step: "sstep (m, ts) (exec_action a m, ts)"
    using il_action.prems by (intro sstep.manage strictly_allowed_allowed) simp
  then have "sys_inv (view_of (exec_action a m)) ts" using plugin_retirement.inv_step [OF step] il_action.prems(1) by simp
  then have "sstep\<^sup>*\<^sup>* (exec_action a m, ts) s''" using il_action.IH il_action.prems by (simp add: view_of_exec)
  with step show ?case by (rule converse_rtranclp_into_rtranclp)
qed simp

section \<open>What is published\<close>

lemma map_of_add_handlers:
  "map_of (fold (add_handler m) hs cur) p =
    (let new = filter (\<lambda>h. ho_pluginID (mg_heap m h) = p) hs in
     case map_of cur p of None \<Rightarrow> (if new = [] then None else Some new) | Some old \<Rightarrow> Some (old @ new))"
proof (induction hs arbitrary: cur)
  case (Cons h hs)
  show ?case
    unfolding fold_simps Cons.IH
    by (simp add: add_handler_def Let_def AList.update_conv' split: option.splits)
qed (simp split: option.split)

lemma distinct_add_handlers: "distinct (map fst cur) \<Longrightarrow> distinct (map fst (fold (add_handler m) hs cur))"
  by (induction hs arbitrary: cur) (simp_all add: add_handler_def Let_def AList.distinct_update)

lemma current_handlers:
  "map_of (currentHandlersLocked m) p =
    (let hs = filter (\<lambda>h. ho_pluginID (mg_heap m h) = p) (mg_snapshot m) in if hs = [] then None else Some hs)"
  "distinct (map fst (currentHandlersLocked m))"
  by (simp_all add: currentHandlersLocked_def map_of_add_handlers distinct_add_handlers Let_def)

lemma flatten_mem:
  assumes "distinct (map fst cur)"
  shows "h \<in> set (flattenHandlers cur) \<longleftrightarrow> (\<exists>p hs. map_of cur p = Some hs \<and> h \<in> set hs)"
  using assms by (auto simp: flattenHandlers_def map_of_eq_Some_iff) (metis snd_conv)+

lemma flatten_update:
  "set (flattenHandlers (AList.update p hs (currentHandlersLocked m)))
    = {h \<in> set (mg_snapshot m). ho_pluginID (mg_heap m h) \<noteq> p} \<union> set hs"
proof -
  have "distinct (map fst (AList.update p hs (currentHandlersLocked m)))"
    by (simp add: AList.distinct_update current_handlers(2))
  then show ?thesis
    by (auto simp: flatten_mem AList.update_conv' current_handlers(1) Let_def filter_empty_conv split: if_splits) metis
qed

lemma flatten_delete:
  "set (flattenHandlers (AList.delete p (currentHandlersLocked m))) = {h \<in> set (mg_snapshot m). ho_pluginID (mg_heap m h) \<noteq> p}"
proof -
  have "distinct (map fst (AList.delete p (currentHandlersLocked m)))"
    by (simp add: AList.distinct_delete current_handlers(2))
  then show ?thesis
    by (auto simp: flatten_mem AList.delete_conv' current_handlers(1) Let_def filter_empty_conv split: if_splits) metis
qed

text \<open>The published order does not depend on the order in which the map of plugins is walked.\<close>

lemma publish_order:
  assumes "mset bs = mset cur" "inj_on (handler_key m) (set (flattenHandlers cur))"
  shows "publish m (flattenHandlers bs) = publish m (flattenHandlers cur)"
proof -
  have eq: "mset (flattenHandlers bs) = mset (flattenHandlers cur)"
    by (simp add: flattenHandlers_def mset_concat assms(1) flip: sum_mset_sum_list)
  have "sort_key (handler_key m) (flattenHandlers cur) = sort_key (handler_key m) (flattenHandlers bs)"
    by (rule sort_key_inj_key_eq) (simp_all add: eq assms(2))
  then show ?thesis by (simp add: publish_def)
qed

section \<open>The manager's bookkeeping\<close>

definition managed :: "manager \<Rightarrow> loadedPlugin list" where
  "managed m = map snd (mg_loaded m) @ map snd (mg_displaced m)"

text \<open>
  Runtimes that are loaded or displaced are not retired, neither are published ones; identities and pointers
  are unique; a loaded runtime belongs to its plugin.
\<close>

definition mgr_ok :: "manager \<Rightarrow> bool" where
  "mgr_ok m = ((\<forall>h \<in> set (mg_snapshot m). \<not> retired (view_of m) (ho_runtime (mg_heap m h)))
     \<and> (\<forall>l \<in> set (managed m). lp_ok (view_of m) l \<and> \<not> retired (view_of m) (lp_runtime l))
     \<and> distinct (map lp_runtime (managed m)) \<and> distinct (map lp_ref (managed m))
     \<and> (\<forall>(p, l) \<in> set (mg_loaded m). lp_pluginID l = p) \<and> distinct (map fst (mg_loaded m)))"

text \<open>A runtime that was just started is known to nobody yet.\<close>

definition fresh_runtime :: "string \<Rightarrow> manager \<Rightarrow> loadedPlugin \<Rightarrow> bool" where
  "fresh_runtime pid m l = (lp_pluginID l = pid \<and> lp_ok (view_of m) l \<and> \<not> retired (view_of m) (lp_runtime l)
     \<and> lp_runtime l \<notin> lp_runtime ` set (managed m) \<and> lp_ref l \<notin> lp_ref ` set (managed m))"

lemma loadLocked_cases:
  assumes "loadLocked env rec m = (Inr (loaded, replaced), m1)"
  obtains (reuse) "map_of (mg_loaded m) (pr_ID rec) = Some loaded" "replaced = None" "m1 = m"
  | (replaced) "le_start env = Inr loaded" "map_of (mg_loaded m) (pr_ID rec) = replaced"
      "m1 = m\<lparr>mg_loaded := AList.update (pr_ID rec) loaded (mg_loaded m)\<rparr>"
  | (crashed) old where "le_crashLoop env" "le_start env = Inr loaded" "replaced = None" "map_of (mg_loaded m) (pr_ID rec) = Some old"
      "m1 = m\<lparr>mg_loaded := AList.update (pr_ID rec) loaded (AList.delete (pr_ID rec) (mg_loaded m))\<rparr>"
  using assms unfolding loadLocked_def Let_def
  by (auto split: if_splits option.splits sum.splits bool.splits simp: AList.delete_conv')

lemma loadLocked_view: "loadLocked env rec m = (Inr (loaded, replaced), m1) \<Longrightarrow>
    view_of m1 = view_of m \<and> mg_heap m1 = mg_heap m \<and> mg_snapshot m1 = mg_snapshot m \<and> mg_displaced m1 = mg_displaced m"
  by (erule loadLocked_cases) (simp_all add: view_of_def)

section \<open>The operations keep to the protocol\<close>

lemma all_allowed_append: "all_allowed (as @ bs) v = (all_allowed as v \<and> all_allowed bs (fold vexec as v))"
  by (induction as arbitrary: v) auto

lemma all_allowed_retires:
  assumes "\<forall>l \<in> set ls. lp_ok v l \<and> (flagged v (lp_runtime l) \<or> lp_pluginID l \<in> vw_draining v) \<and> \<not> retired v (lp_runtime l)"
    and "distinct (map lp_runtime ls)"
  shows "all_allowed (map Retire ls) v"
  using assms
proof (induction ls arbitrary: v)
  case (Cons l ls)
  have "\<forall>la \<in> set ls. lp_runtime la \<noteq> lp_runtime l" using Cons.prems(2) by (auto simp: image_iff)
  then have "all_allowed (map Retire ls) (vexec (Retire l) v)"
    using Cons.prems
    by (intro Cons.IH) (auto simp: lp_ok_def flagged_def retired_vexec vexec_same vexec_flag vexec_draining simp del: vexec.simps)
  with Cons.prems(1) show ?case by (simp add: strictly_allowed_def)
qed simp

lemma fold_MarkRuntime:
  "vw_run (fold vexec (map MarkRuntime ls) v) = vw_run v" "retired (fold vexec (map MarkRuntime ls) v) = retired v"
  "vw_draining (fold vexec (map MarkRuntime ls) v) = vw_draining v"
  "vw_flag (fold vexec (map MarkRuntime ls) v) h \<longleftrightarrow> vw_flag v h \<or> (\<exists>l \<in> set ls. h \<in> set (lp_handlers l))"
  by (induction ls arbitrary: v)
    (auto simp: retired_vexec vexec_same vexec_flag vexec_draining fun_eq_iff set_eq_iff simp del: vexec.simps)

lemma all_allowed_marks: "all_allowed (map MarkRuntime ls) v"
  by (induction ls arbitrary: v) (auto simp: strictly_allowed_def)

lemma all_allowed_upgrade:
  assumes "\<forall>l \<in> set ls. lp_ok v l \<and> \<not> retired v (lp_runtime l)" "distinct (map lp_runtime ls)"
    and "\<forall>h \<in> set hs. \<not> retired v (vw_run v h)"
  shows "all_allowed (map MarkRuntime ls @ [Publish hs] @ map Retire ls) v"
proof -
  let ?v = "fold vexec (map MarkRuntime ls) v"
  have "all_allowed (map Retire ls) (vexec (Publish hs) ?v)"
    using assms(1,2) fold_MarkRuntime [of ls v]
    by (intro all_allowed_retires)
      (auto simp: lp_ok_def flagged_def retired_vexec vexec_same vexec_flag vexec_draining simp del: vexec.simps)
  moreover have "strictly_allowed ?v (Publish hs)"
    using assms(3) by (auto simp: strictly_allowed_def fold_MarkRuntime)
  ultimately show ?thesis by (simp add: all_allowed_append all_allowed_marks)
qed

text \<open>A first \<open>ClearDraining\<close> needs its condition only where the operation starts.\<close>

lemma cstep_unreachable:
  assumes "cstep (m, ts) (m', ts')" "sys_inv (view_of m) ts" "unreachable (view_of m) ts k"
  shows "unreachable (view_of m') ts' k"
  using assms(1)
proof (cases rule: cstep.cases)
  case 1
  with assms(3) show ?thesis by (auto simp: unreachable_def new_dispatcher_def view_of_def)
next
  case (2 i t')
  then show ?thesis using connection_unreachable [OF dstep_vstep [OF _ sessions_distinct [OF assms(2)]]] assms(3) by blast
qed

lemma interleaved_clear:
  assumes "interleaved (ClearDraining p # acts) s s'" "sys_inv (view_of (fst s)) (snd s)"
    and "\<forall>k. retired (view_of (fst s)) k \<and> rk_pluginID k = p \<longrightarrow> flagged (view_of (fst s)) k \<or> unreachable (view_of (fst s)) (snd s) k"
    and "all_allowed acts (vexec (ClearDraining p) (view_of (fst s)))"
  shows "sstep\<^sup>*\<^sup>* s s'"
  using assms
proof (induction "ClearDraining p # acts" s s' rule: interleaved.induct)
  case (il_connection s s1 s'')
  obtain m ts m1 ts1 where s: "s = (m, ts)" "s1 = (m1, ts1)" by fastforce
  have inv: "sys_inv (view_of m) ts" and c: "cstep (m, ts) (m1, ts1)" using il_connection s by auto
  have step: "sstep s s1" using il_connection.hyps(1) by (rule cstep_sstep)
  note shape = cstep_shape [OF c inv]
  have "sys_inv (view_of m1) ts1" using plugin_retirement.inv_step [OF step] inv s by simp
  moreover have "\<forall>k. retired (view_of m1) k \<and> rk_pluginID k = p \<longrightarrow> flagged (view_of m1) k \<or> unreachable (view_of m1) ts1 k"
    using il_connection.prems(2) s cstep_unreachable [OF c inv] shape by (auto simp: same_shape_def flagged_def)
  moreover have "all_allowed acts (vexec (ClearDraining p) (view_of m1))"
    using il_connection.prems(3) s all_allowed_shape [OF same_shape_vexec [OF shape]] by (simp del: vexec.simps)
  ultimately have "sstep\<^sup>*\<^sup>* s1 s''" using il_connection.hyps(3) s by simp
  with step show ?case by (rule converse_rtranclp_into_rtranclp)
next
  case (il_action m ts s'')
  have step: "sstep (m, ts) (exec_action (ClearDraining p) m, ts)"
    using il_action.prems(2) by (intro sstep.manage) (auto simp: allowed_def retired_def)
  then have "sys_inv (view_of (exec_action (ClearDraining p) m)) ts" using plugin_retirement.inv_step [OF step] il_action.prems(1) by simp
  with il_action have "sstep\<^sup>*\<^sup>* (exec_action (ClearDraining p) m, ts) s''"
    by (intro interleaved_allowed) (simp_all add: view_of_exec del: exec_action.simps vexec.simps)
  with step show ?case by (rule converse_rtranclp_into_rtranclp)
qed

text \<open>What an operation leaves behind: its last published handlers, and every runtime it retired.\<close>

definition published :: "action list \<Rightarrow> nat list \<Rightarrow> nat list" where
  "published acts hs = fold (\<lambda>a hs. case a of Publish hs' \<Rightarrow> hs' | _ \<Rightarrow> hs) acts hs"

lemma published_simps [simp]:
  "published [] hs = hs" "published (a # acts) hs = published acts (case a of Publish hs' \<Rightarrow> hs' | _ \<Rightarrow> hs)"
  by (simp_all add: published_def)

lemma published_maps [simp]:
  "published (map Retire ls) hs = hs" "published (map MarkRuntime ls @ acts) hs = published acts hs"
  by (induction ls) auto

lemma view_snapshot: "vw_snapshot (view_of m) = mg_snapshot m"
  by (simp add: view_of_def)

lemma vexec_snapshot: "vw_snapshot (vexec a v) = (case a of Publish hs \<Rightarrow> hs | _ \<Rightarrow> vw_snapshot v)"
  by (cases a) auto

lemma cstep_facts:
  assumes "cstep (m, ts) (m', ts')" "sys_inv (view_of m) ts"
  shows "mg_snapshot m' = mg_snapshot m" "sys_inv (view_of m') ts'" "retired (view_of m') = retired (view_of m)"
proof -
  show "sys_inv (view_of m') ts'" using plugin_retirement.inv_step [OF cstep_sstep [OF assms(1)]] assms(2) by simp
  show "retired (view_of m') = retired (view_of m)" using cstep_shape [OF assms] by (simp add: same_shape_def)
  have "vw_snapshot (view_of m') = vw_snapshot (view_of m)"
    using assms(1) vstep_run [OF dstep_vstep [OF _ sessions_distinct [OF assms(2)]]] by (auto elim!: cstep_cases)
  then show "mg_snapshot m' = mg_snapshot m" by (simp add: view_of_def)
qed

lemma sstep_retired:
  assumes "sstep (m, ts) (m', ts')" "sys_inv (view_of m) ts" "retired (view_of m) k"
  shows "retired (view_of m') k"
  using assms(1)
proof (cases rule: sstep.cases)
  case (manage a)
  with assms(3) show ?thesis by (simp add: view_of_exec retired_vexec del: exec_action.simps)
next
  case (connection i t')
  with assms(2,3) cstep_facts(3) [OF cstep.intros(2)] show ?thesis by metis
qed (use assms(3) in simp)

lemma ssteps_retired:
  assumes "sstep\<^sup>*\<^sup>* s s'" "sys_inv (view_of (fst s)) (snd s)" "retired (view_of (fst s)) k"
  shows "sys_inv (view_of (fst s')) (snd s') \<and> retired (view_of (fst s')) k"
  using assms
proof (induction rule: rtranclp_induct)
  case (step y z)
  obtain m ts m' ts' where yz: "y = (m, ts)" "z = (m', ts')" by fastforce
  with step sstep_retired [of m ts m' ts' k] plugin_retirement.inv_step [of y z] show ?case by auto
qed auto

lemma interleaved_result:
  assumes "interleaved acts s s'" "sys_inv (view_of (fst s)) (snd s)" "all_allowed acts (view_of (fst s))"
  shows "mg_snapshot (fst s') = published acts (mg_snapshot (fst s)) \<and> (\<forall>l. Retire l \<in> set acts \<longrightarrow> retired (view_of (fst s')) (lp_runtime l))"
  using assms
proof (induction rule: interleaved.induct)
  case (il_connection s s1 acts s'')
  obtain m ts m1 ts1 where s: "s = (m, ts)" "s1 = (m1, ts1)" by fastforce
  with il_connection cstep_facts [of m ts m1 ts1] all_allowed_shape [OF cstep_shape, of m ts m1 ts1 acts] show ?case by simp
next
  case (il_action acts a m ts s'')
  have step: "sstep (m, ts) (exec_action a m, ts)"
    using il_action.prems by (intro sstep.manage strictly_allowed_allowed) simp
  then have inv: "sys_inv (view_of (exec_action a m)) ts" using plugin_retirement.inv_step [OF step] il_action.prems(1) by simp
  have all: "all_allowed acts (view_of (exec_action a m))" using il_action.prems(2) by (simp add: view_of_exec)
  have "retired (view_of (fst s'')) (lp_runtime l)" if "a = Retire l" for l
    using that ssteps_retired [OF interleaved_allowed [OF il_action.hyps]] inv all
    by (simp add: view_of_exec retired_vexec del: exec_action.simps vexec.simps)
  moreover have "mg_snapshot (exec_action a m) = (case a of Publish hs' \<Rightarrow> hs' | _ \<Rightarrow> mg_snapshot m)"
    using vexec_snapshot [of a "view_of m"] unfolding view_of_exec [symmetric] view_snapshot .
  ultimately show ?case using il_action.IH inv all by auto
qed simp

lemma interleaved_clear_result:
  assumes "interleaved (ClearDraining p # acts) s s'" "sys_inv (view_of (fst s)) (snd s)"
    and "\<forall>k. retired (view_of (fst s)) k \<and> rk_pluginID k = p \<longrightarrow> flagged (view_of (fst s)) k \<or> unreachable (view_of (fst s)) (snd s) k"
    and "all_allowed acts (vexec (ClearDraining p) (view_of (fst s)))"
  shows "mg_snapshot (fst s') = published acts (mg_snapshot (fst s)) \<and> (\<forall>l. Retire l \<in> set acts \<longrightarrow> retired (view_of (fst s')) (lp_runtime l))"
  using assms
proof (induction "ClearDraining p # acts" s s' rule: interleaved.induct)
  case (il_connection s s1 s'')
  obtain m ts m1 ts1 where s: "s = (m, ts)" "s1 = (m1, ts1)" by fastforce
  have inv: "sys_inv (view_of m) ts" and c: "cstep (m, ts) (m1, ts1)" using il_connection s by auto
  note facts = cstep_facts [OF c inv]
  have "\<forall>k. retired (view_of m1) k \<and> rk_pluginID k = p \<longrightarrow> flagged (view_of m1) k \<or> unreachable (view_of m1) ts1 k"
    using il_connection.prems(2) s cstep_unreachable [OF c inv] cstep_shape [OF c inv] by (auto simp: same_shape_def flagged_def)
  moreover have "all_allowed acts (vexec (ClearDraining p) (view_of m1))"
    using il_connection.prems(3) s all_allowed_shape [OF same_shape_vexec [OF cstep_shape [OF c inv]]] by (simp del: vexec.simps)
  ultimately show ?case using il_connection.hyps(3) s facts by (simp del: vexec.simps)
next
  case (il_action m ts s'')
  have step: "sstep (m, ts) (exec_action (ClearDraining p) m, ts)"
    using il_action.prems(2) by (intro sstep.manage) (auto simp: allowed_def retired_def)
  then have "sys_inv (view_of (exec_action (ClearDraining p) m)) ts" using plugin_retirement.inv_step [OF step] il_action.prems(1) by simp
  with il_action have "mg_snapshot (fst s'') = published acts (mg_snapshot (exec_action (ClearDraining p) m))
      \<and> (\<forall>l. Retire l \<in> set acts \<longrightarrow> retired (view_of (fst s'')) (lp_runtime l))"
    using interleaved_result [of acts "(exec_action (ClearDraining p) m, ts)" s''] by (simp add: view_of_exec del: exec_action.simps vexec.simps)
  then show ?case by (simp add: clearDrainingLocked_def)
qed

lemma enable_publish_eq:
  assumes "mg_snapshot m1 = mg_snapshot m" "mg_heap m1 = mg_heap m" "mg_displaced m1 = mg_displaced m"
    and "enable_publish pid loaded replaced m1 = (m', acts)"
  shows "view_of m' = view_of m1"
    "acts = ClearDraining pid # map MarkRuntime (appendUniqueLoadedPlugin (displacedPluginsLocked pid m) replaced)
       @ [Publish (sort_key (handler_key m) (flattenHandlers (AList.update pid (lp_handlers loaded) (currentHandlersLocked m))))]
       @ map Retire (appendUniqueLoadedPlugin (displacedPluginsLocked pid m) replaced)"
proof -
  have "displacedPluginsLocked pid m1 = displacedPluginsLocked pid m" "handler_key m1 = handler_key m"
    "currentHandlersLocked m1 = currentHandlersLocked m"
    using assms(1-3) by (simp_all add: displacedPluginsLocked_def handler_key_def [abs_def] currentHandlersLocked_def add_handler_def [abs_def])
  with assms(4) show "acts = ClearDraining pid # map MarkRuntime (appendUniqueLoadedPlugin (displacedPluginsLocked pid m) replaced)
       @ [Publish (sort_key (handler_key m) (flattenHandlers (AList.update pid (lp_handlers loaded) (currentHandlersLocked m))))]
       @ map Retire (appendUniqueLoadedPlugin (displacedPluginsLocked pid m) replaced)"
    by (simp add: enable_publish_def takeDisplacedPluginsLocked_def publish_def Let_def)
  show "view_of m' = view_of m1"
    using assms(4) by (auto simp: enable_publish_def takeDisplacedPluginsLocked_def Let_def view_of_def)
qed

lemma Enable_success:
  assumes "Enable env None rec m = (Inr loaded, m', acts)"
  obtains m1 replaced where "loadLocked env rec m = (Inr (loaded, replaced), m1)"
    "enable_publish (pr_ID rec) loaded replaced m1 = (m', acts)"
proof -
  obtain r m1 where l: "loadLocked env rec m = (r, m1)" by fastforce
  show ?thesis
  proof (cases r)
    case (Inl e)
    with l assms show ?thesis by (simp add: Enable_def Let_def)
  next
    case (Inr x)
    obtain loaded' replaced where "x = (loaded', replaced)" by fastforce
    with Inr l assms have "loaded' = loaded \<and> enable_publish (pr_ID rec) loaded' replaced m1 = (m', acts)"
      by (auto simp: Enable_def Let_def split: if_splits)
    with that l Inr \<open>x = (loaded', replaced)\<close> show ?thesis by blast
  qed
qed

text \<open>What \<open>Enable\<close> retires, and the runtime it publishes.\<close>

lemma distinct_map_filter_snd: "distinct (map f (map snd xs)) \<Longrightarrow> distinct (map f (filter P (map snd xs)))"
  by (induction xs) auto

lemma managed_loaded: "map_of (mg_loaded m) p = Some l \<Longrightarrow> l \<in> set (managed m)"
  by (force simp: managed_def dest: map_of_SomeD)

lemma mgr_ok_managed: "mgr_ok m \<Longrightarrow> l \<in> set (managed m) \<Longrightarrow> lp_ok (view_of m) l \<and> \<not> retired (view_of m) (lp_runtime l)"
  by (simp add: mgr_ok_def)

lemma managed_cases:
  assumes "mgr_ok m" "l \<in> set (managed m)" "lp_pluginID l = p"
  shows "l \<in> set (displacedPluginsLocked p m) \<or> map_of (mg_loaded m) p = Some l"
proof (cases "l \<in> set (map snd (mg_displaced m))")
  case True
  then show ?thesis using assms(3) by (simp add: displacedPluginsLocked_def)
next
  case False
  then obtain q where q: "(q, l) \<in> set (mg_loaded m)" using assms(2) by (auto simp: managed_def)
  moreover have "\<forall>(p, l) \<in> set (mg_loaded m). lp_pluginID l = p" "distinct (map fst (mg_loaded m))"
    using assms(1) unfolding mgr_ok_def by blast+
  ultimately show ?thesis using assms(3) by (auto intro: map_of_is_SomeI)
qed

lemma mgr_ok_loaded:
  assumes "mgr_ok m" "map_of (mg_loaded m) p = Some l"
  shows "lp_pluginID l = p" "l' \<in> set (displacedPluginsLocked p m) \<Longrightarrow> lp_ref l' \<noteq> lp_ref l \<and> lp_runtime l' \<noteq> lp_runtime l"
proof -
  have l: "l \<in> set (map snd (mg_loaded m))" using assms(2) by (force dest: map_of_SomeD)
  show "lp_pluginID l = p" using assms by (auto simp: mgr_ok_def dest: map_of_SomeD)
  have apart: "f x \<noteq> f y" if "distinct (map f (xs @ ys))" "x \<in> set ys" "y \<in> set xs" for f :: "loadedPlugin \<Rightarrow> 'b" and x y xs ys
    using that by auto
  show "l' \<in> set (displacedPluginsLocked p m) \<Longrightarrow> lp_ref l' \<noteq> lp_ref l \<and> lp_runtime l' \<noteq> lp_runtime l"
    using assms(1) l apart [of lp_ref "map snd (mg_loaded m)" "map snd (mg_displaced m)" l' l]
      apart [of lp_runtime "map snd (mg_loaded m)" "map snd (mg_displaced m)" l' l]
    unfolding mgr_ok_def managed_def displacedPluginsLocked_def set_filter by blast
qed

lemma append_unique_ok:
  assumes "mgr_ok m" "replaced = None \<or> map_of (mg_loaded m) pid = replaced"
    and "ls = appendUniqueLoadedPlugin (displacedPluginsLocked pid m) replaced"
  shows "set ls = set (displacedPluginsLocked pid m) \<union> set_option replaced" "set ls \<subseteq> set (managed m)" "distinct (map lp_runtime ls)"
    "\<forall>l \<in> set ls. lp_pluginID l = pid"
proof -
  have d: "distinct (map lp_runtime (displacedPluginsLocked pid m))"
    using assms(1) unfolding displacedPluginsLocked_def mgr_ok_def managed_def by (intro distinct_map_filter_snd) simp
  have dm: "set (displacedPluginsLocked pid m) \<subseteq> set (managed m)" "\<forall>l \<in> set (displacedPluginsLocked pid m). lp_pluginID l = pid"
    by (auto simp: displacedPluginsLocked_def managed_def)
  show "set ls = set (displacedPluginsLocked pid m) \<union> set_option replaced" "set ls \<subseteq> set (managed m)" "distinct (map lp_runtime ls)"
    "\<forall>l \<in> set ls. lp_pluginID l = pid"
  proof (atomize (full), cases replaced)
    case None
    then show "(set ls = set (displacedPluginsLocked pid m) \<union> set_option replaced \<and> set ls \<subseteq> set (managed m))
      \<and> distinct (map lp_runtime ls) \<and> (\<forall>l \<in> set ls. lp_pluginID l = pid)"
      using d dm assms(3) by (simp add: appendUniqueLoadedPlugin_def)
  next
    case (Some l)
    with assms(2) have m: "map_of (mg_loaded m) pid = Some l" by auto
    have "ls = displacedPluginsLocked pid m @ [l]"
      using assms(3) Some mgr_ok_loaded(2) [OF assms(1) m] by (auto simp: appendUniqueLoadedPlugin_def list_ex_iff)
    moreover have "lp_runtime l \<notin> lp_runtime ` set (displacedPluginsLocked pid m)"
      using mgr_ok_loaded(2) [OF assms(1) m] by (metis imageE)
    ultimately
    show "(set ls = set (displacedPluginsLocked pid m) \<union> set_option replaced \<and> set ls \<subseteq> set (managed m))
      \<and> distinct (map lp_runtime ls) \<and> (\<forall>l \<in> set ls. lp_pluginID l = pid)"
      using d dm Some mgr_ok_loaded(1) [OF assms(1) m] managed_loaded [OF m] by simp
  qed
qed

lemma Enable_disciplined:
  assumes "Enable env None rec m = (Inr loaded, m', acts)" "mgr_ok m"
    and "\<And>l. le_start env = Inr l \<Longrightarrow> fresh_runtime (pr_ID rec) m l"
  obtains ls hs where "acts = ClearDraining (pr_ID rec) # map MarkRuntime ls @ [Publish hs] @ map Retire ls" "view_of m' = view_of m"
    "all_allowed (map MarkRuntime ls @ [Publish hs] @ map Retire ls) (vexec (ClearDraining (pr_ID rec)) (view_of m))"
    "set hs = {h \<in> set (mg_snapshot m). ho_pluginID (mg_heap m h) \<noteq> pr_ID rec} \<union> set (lp_handlers loaded)"
    "sorted (map (handler_key m) hs)"
    "\<forall>old \<in> set (managed m). lp_pluginID old = pr_ID rec \<and> \<not> le_crashLoop env \<and> old \<noteq> loaded \<longrightarrow> old \<in> set ls"
proof -
  obtain m1 replaced where l: "loadLocked env rec m = (Inr (loaded, replaced), m1)"
    and p: "enable_publish (pr_ID rec) loaded replaced m1 = (m', acts)"
    using Enable_success [OF assms(1)] by blast
  note v = loadLocked_view [OF l]
  define ls where "ls = appendUniqueLoadedPlugin (displacedPluginsLocked (pr_ID rec) m) replaced"
  define hs where "hs = sort_key (handler_key m) (flattenHandlers (AList.update (pr_ID rec) (lp_handlers loaded) (currentHandlersLocked m)))"
  have rep: "replaced = None \<or> map_of (mg_loaded m) (pr_ID rec) = replaced" using l by (rule loadLocked_cases) auto
  note ls = append_unique_ok [OF assms(2) rep ls_def]
  have loaded_ok: "lp_ok (view_of m) loaded" "\<not> retired (view_of m) (lp_runtime loaded)"
    using l mgr_ok_managed [OF assms(2) managed_loaded] assms(3) by (auto elim!: loadLocked_cases simp: fresh_runtime_def)
  have set_hs: "set hs = {h \<in> set (mg_snapshot m). ho_pluginID (mg_heap m h) \<noteq> pr_ID rec} \<union> set (lp_handlers loaded)"
    by (simp add: hs_def flatten_update)
  let ?v = "vexec (ClearDraining (pr_ID rec)) (view_of m)"
  have ret: "retired ?v = retired (view_of m)" "vw_run ?v = vw_run (view_of m)"
    by (auto simp: fun_eq_iff retired_vexec vexec_same simp del: vexec.simps)
  have "\<forall>h \<in> set hs. \<not> retired ?v (vw_run ?v h)"
    unfolding ret set_hs using assms(2) loaded_ok by (auto simp: mgr_ok_def lp_ok_def view_of_def)
  moreover have "\<forall>x \<in> set ls. lp_ok ?v x \<and> \<not> retired ?v (lp_runtime x)"
    using ls(2) assms(2) by (auto simp: ret lp_ok_def mgr_ok_def simp del: vexec.simps)
  ultimately have all: "all_allowed (map MarkRuntime ls @ [Publish hs] @ map Retire ls) ?v"
    using ls(3) by (intro all_allowed_upgrade)
  have olds: "old \<in> set ls" if "old \<in> set (managed m)" "lp_pluginID old = pr_ID rec" "le_crashLoop env = False" "old \<noteq> loaded" for old
    using managed_cases [OF assms(2) that(1,2)]
  proof
    assume "map_of (mg_loaded m) (pr_ID rec) = Some old"
    then have "replaced = Some old" using l that(3,4) by (auto elim!: loadLocked_cases)
    then show ?thesis unfolding ls(1) by simp
  qed (simp add: ls(1))
  have eq: "view_of m' = view_of m1"
    "acts = ClearDraining (pr_ID rec) # map MarkRuntime ls @ [Publish hs] @ map Retire ls"
    using enable_publish_eq [of m1 m, OF _ _ _ p] v unfolding ls_def hs_def by simp_all
  show ?thesis
  proof (rule that)
    show "acts = ClearDraining (pr_ID rec) # map MarkRuntime ls @ [Publish hs] @ map Retire ls" by (rule eq)
    show "view_of m' = view_of m" using eq(1) v by simp
    show "all_allowed (map MarkRuntime ls @ [Publish hs] @ map Retire ls) ?v" by (rule all)
    show "set hs = {h \<in> set (mg_snapshot m). ho_pluginID (mg_heap m h) \<noteq> pr_ID rec} \<union> set (lp_handlers loaded)" by (rule set_hs)
    show "sorted (map (handler_key m) hs)" by (simp add: hs_def)
    show "\<forall>old \<in> set (managed m). lp_pluginID old = pr_ID rec \<and> \<not> le_crashLoop env \<and> old \<noteq> loaded \<longrightarrow> old \<in> set ls"
      using olds by blast
  qed
qed

lemma withdraw_disciplined:
  assumes "withdraw pid m = (m', acts)" "mgr_ok m"
  obtains ls hs where "acts = [Publish hs, MarkDraining pid] @ map Retire ls" "view_of m' = view_of m"
    "all_allowed acts (view_of m)" "set hs = {h \<in> set (mg_snapshot m). ho_pluginID (mg_heap m h) \<noteq> pid}"
    "set ls = {l \<in> set (managed m). lp_pluginID l = pid}"
proof -
  define ls where "ls = appendUniqueLoadedPlugin (displacedPluginsLocked pid m) (map_of (mg_loaded m) pid)"
  define hs where "hs = sort_key (handler_key m) (flattenHandlers (AList.delete pid (currentHandlersLocked m)))"
  have acts: "acts = [Publish hs, MarkDraining pid] @ map Retire ls" "view_of m' = view_of m"
    using assms(1) by (auto simp: withdraw_def removeFromDispatchLocked_def removeExtensionsLocked_def takeDisplacedPluginsLocked_def
        displacedPluginsLocked_def publish_def hs_def ls_def Let_def view_of_def)
  note ls = append_unique_ok [OF assms(2) disjI2 [OF refl] ls_def]
  have set_hs: "set hs = {h \<in> set (mg_snapshot m). ho_pluginID (mg_heap m h) \<noteq> pid}" by (simp add: hs_def flatten_delete)
  have "strictly_allowed (view_of m) (Publish hs)"
    using assms(2) by (auto simp: strictly_allowed_def mgr_ok_def set_hs view_of_def)
  moreover have "all_allowed (map Retire ls) (vexec (MarkDraining pid) (vexec (Publish hs) (view_of m)))"
    using ls(2-4) mgr_ok_managed [OF assms(2)]
    by (intro all_allowed_retires) (auto simp: lp_ok_def retired_vexec vexec_same vexec_draining simp del: vexec.simps)
  ultimately have "all_allowed acts (view_of m)"
    unfolding acts by (simp add: strictly_allowed_def [where a = "MarkDraining pid"] del: vexec.simps)
  moreover have "set ls = {l \<in> set (managed m). lp_pluginID l = pid}"
  proof (intro equalityI subsetI)
    fix l assume "l \<in> {l \<in> set (managed m). lp_pluginID l = pid}"
    then show "l \<in> set ls" using managed_cases [OF assms(2), of l pid] unfolding ls(1) by auto
  qed (use ls(2,4) in blast)
  ultimately show ?thesis using that acts set_hs by blast
qed

text \<open>No stopped runtime is in use, and a runtime that waits for its users is not forgotten.\<close>

definition safely_retired :: "system \<Rightarrow> bool" where
  "safely_retired s = (case s of (m, ts) \<Rightarrow> \<forall>k. (retired (view_of m) k \<longrightarrow> shielded (view_of m) ts k)
     \<and> (is_stopped (view_of m) k \<longrightarrow> \<not> uses (view_of m) ts k)
     \<and> (retiring (view_of m) k \<longrightarrow> uses (view_of m) ts k \<or> check_owed ts k))"

lemma safely_retired_iff: "safely_retired s = plugin_retirement.retired_ok s"
  by (cases s) (auto simp: safely_retired_def plugin_retirement.retired_ok_def retired_def)

lemma safely_retired_reach:
  "sstep\<^sup>*\<^sup>* (m, ts) (m', ts') \<Longrightarrow> sys_inv (view_of m) ts \<Longrightarrow> safely_retired (m, ts) \<Longrightarrow>
   sys_inv (view_of m') ts' \<and> safely_retired (m', ts')"
  using plugin_retirement.retired_ok_reach [of "(m, ts)" "(m', ts')"] by (simp add: safely_retired_iff)

lemma safely_retired_cong: "view_of m' = view_of m \<Longrightarrow> safely_retired (m', ts) = safely_retired (m, ts)"
  by (simp add: safely_retired_def)

section \<open>A small installation\<close>

text \<open>Two plugins, a connection inside the handler of the first with the second one ahead, and a later runtime of the second.\<close>

definition demo_rt :: "string \<Rightarrow> int \<Rightarrow> runtimeIdentity" where
  "demo_rt p g = \<lparr>rk_pluginID = p, rk_artifactID = ''art'', rk_desiredGeneration = g, rk_runtimeInstanceID = []\<rparr>"

definition demo_handler :: "runtimeIdentity \<Rightarrow> handlerObj" where
  "demo_handler k = \<lparr>ho_pluginID = rk_pluginID k, ho_runtime = k, ho_priority = 0, ho_handlerID = ''upstream.connect/v2'',
     ho_activeSessions = 0, ho_drainingSessions = 0, ho_sessionsStarted = 0, ho_sessionsCompleted = 0, ho_sessionDuration = 0,
     ho_sessionsForceClosed = 0, ho_draining = False, ho_runtimeRefs = 0\<rparr>"

definition demo_run :: "nat \<Rightarrow> runtimeIdentity" where
  "demo_run h = (if h = 0 then demo_rt ''a'' 1 else if h = 1 then demo_rt ''b'' 1 else if h = 2 then demo_rt ''b'' 3 else demo_rt [] 0)"

definition demo_plugin :: "nat \<Rightarrow> loadedPlugin" where
  "demo_plugin h = \<lparr>lp_ref = h, lp_runtime = demo_run h, lp_handlers = [h], lp_extensions = False\<rparr>"

definition demo_idle :: manager where
  "demo_idle = \<lparr>mg_heap = (\<lambda>h. demo_handler (demo_run h)), mg_sessionSeq = 0, mg_sessions = [], mg_drainingIDs = {},
     mg_pendingRuntimeStops = [], mg_snapshot = [0, 1], mg_extensions = [],
     mg_loaded = [(''a'', demo_plugin 0), (''b'', demo_plugin 1)], mg_displaced = [], mg_stopped = [], mg_closed = []\<rparr>"

definition demo_busy :: manager where
  "demo_busy = addConnectionParticipant 1 0 (fst (reserveUpstreamHandler 0 (snd (startConnectionSession 7 0 demo_idle))))"

definition demo_conn :: dispatcher where
  "demo_conn = \<lparr>di_session = Some 1, di_todo = [1], di_joining = None, di_held = [0], di_owed = [], di_ended = False\<rparr>"

lemma demo_reach: "sstep\<^sup>*\<^sup>* (demo_idle, []) (demo_busy, [demo_conn])"
proof -
  let ?t = "new_dispatcher [0, 1]"
  let ?m1 = "snd (startConnectionSession 7 0 demo_idle)"
  have "sstep (demo_idle, []) (demo_idle, [?t])"
    using sstep.capture [of demo_idle "[]"] by (simp add: demo_idle_def)
  also have "sstep\<^sup>*\<^sup>* \<dots> (?m1, [?t\<lparr>di_session := Some 1\<rparr>])"
    using sstep.connection [OF _ dstep.start, of 0 "[?t]" 7 0 demo_idle 1 ?m1]
    by (auto simp: new_dispatcher_def startConnectionSession_def demo_idle_def Let_def)
  also have "sstep\<^sup>*\<^sup>* \<dots> (fst (reserveUpstreamHandler 0 ?m1),
      [?t\<lparr>di_session := Some 1, di_todo := [1], di_joining := Some 0, di_held := [0]\<rparr>])"
    using sstep.connection [OF _ dstep.reserve, of 0 "[?t\<lparr>di_session := Some 1\<rparr>]" 1 0 "[1]" ?m1 "fst (reserveUpstreamHandler 0 ?m1)"]
    by (auto simp: new_dispatcher_def reserveUpstreamHandler_def startConnectionSession_def demo_idle_def demo_handler_def Let_def)
  also have "sstep\<^sup>*\<^sup>* \<dots> (demo_busy, [demo_conn])"
    using sstep.connection [OF _ dstep.join, of 0 "[?t\<lparr>di_session := Some 1, di_todo := [1], di_joining := Some 0, di_held := [0]\<rparr>]" 1 0
        "fst (reserveUpstreamHandler 0 ?m1)"]
    by (auto simp: new_dispatcher_def demo_busy_def demo_conn_def)
  finally show ?thesis by simp
qed

lemma demo_idle_ok: "sys_inv (view_of demo_idle) []" "safely_retired (demo_idle, [])" "mgr_ok demo_idle"
proof -
  show "sys_inv (view_of demo_idle) []" "safely_retired (demo_idle, [])"
    by (simp_all add: sys_inv_def safely_retired_def retired_def retiring_def is_stopped_def view_of_def demo_idle_def demo_handler_def)
  have "lp_ok (view_of demo_idle) (demo_plugin 0)" "lp_ok (view_of demo_idle) (demo_plugin 1)"
    by (auto simp: lp_ok_def view_of_def demo_idle_def demo_handler_def demo_plugin_def demo_run_def demo_rt_def)
  then show "mgr_ok demo_idle"
    by (simp add: mgr_ok_def managed_def retired_def retiring_def is_stopped_def view_of_def lp_pluginID_def)
      (simp add: demo_idle_def demo_plugin_def demo_run_def demo_rt_def view_of_def)
qed

lemmas demo_busy_ok = safely_retired_reach [OF demo_reach demo_idle_ok(1,2)]

lemma mgr_ok_cong:
  assumes "view_of m' = (view_of m)\<lparr>vw_refs := r, vw_parts := p\<rparr>" "mg_loaded m' = mg_loaded m" "mg_displaced m' = mg_displaced m"
  shows "mgr_ok m' = mgr_ok m"
proof -
  have "mg_snapshot m' = mg_snapshot m" "(\<lambda>h. ho_runtime (mg_heap m' h)) = (\<lambda>h. ho_runtime (mg_heap m h))"
    using arg_cong [OF assms(1), of vw_snapshot] arg_cong [OF assms(1), of vw_run] by (simp_all add: view_of_def)
  then show ?thesis
    using assms by (simp add: mgr_ok_def managed_def retired_def retiring_def is_stopped_def lp_ok_def fun_eq_iff)
qed

lemma demo_busy_view: "view_of demo_busy = (view_of demo_idle)\<lparr>vw_refs := (\<lambda>h. if h = 0 then 1 else 0), vw_parts := [(1, [0])]\<rparr>"
  "mg_loaded demo_busy = mg_loaded demo_idle" "mg_displaced demo_busy = mg_displaced demo_idle"
  by (auto simp: demo_busy_def demo_idle_def addConnectionParticipant_def reserveUpstreamHandler_def startConnectionSession_def
      upd_handler_def upd_session_def view_of_def demo_handler_def Let_def fun_eq_iff)

lemma demo_busy_mgr: "mgr_ok demo_busy"
  using mgr_ok_cong [OF demo_busy_view] demo_idle_ok(3) by simp

definition demo_env :: load_env where
  "demo_env = \<lparr>le_closing = False, le_crashLoop = False, le_artifact = None, le_gate = None, le_manifest = None,
     le_start = Inr (demo_plugin 2), le_mark = Inr True\<rparr>"

definition demo_record :: PluginRecord where
  "demo_record = \<lparr>pr_ID = ''b'', pr_DesiredArtifactID = ''art'', pr_DesiredGeneration = 3\<rparr>"

lemma demo_fresh: "le_start demo_env = Inr l \<Longrightarrow> fresh_runtime (pr_ID demo_record) demo_busy l"
proof -
  assume "le_start demo_env = Inr l"
  then have l: "l = demo_plugin 2" by (simp add: demo_env_def)
  have "lp_ok (view_of demo_busy) (demo_plugin 2)"
    unfolding demo_busy_view lp_ok_def
    by (auto simp: view_of_def demo_idle_def demo_handler_def demo_plugin_def demo_run_def demo_rt_def)
  moreover have "\<not> retired (view_of demo_busy) k" for k
    unfolding demo_busy_view retired_def retiring_def is_stopped_def by (simp add: view_of_def demo_idle_def)
  ultimately show ?thesis unfolding l fresh_runtime_def managed_def demo_busy_view
    by (simp add: demo_idle_def demo_record_def lp_pluginID_def) (simp add: demo_plugin_def demo_run_def demo_rt_def)
qed

lemma interleaved_run: "interleaved acts (m, ts) (run_actions acts m, ts)"
  by (induction acts arbitrary: m) (auto simp: run_actions_def intro: interleaved.intros)

section \<open>Properties\<close>

text \<open>
  C8: no runtime is stopped under a connection.  However connections and the manager's actions interleave, as
  long as the manager keeps to the protocol: a stopped runtime has no connection inside it or in a session
  with it; a retired runtime that still waits has a user, or a connection that is about to check
  it; so when the last connection is gone every retired runtime has been stopped.
\<close>

theorem stopped_never_in_use:
  assumes "sstep\<^sup>*\<^sup>* (m, ts) (m', ts')" "sys_inv (view_of m) ts" "safely_retired (m, ts)"
  shows "(is_stopped (view_of m') k \<longrightarrow> \<not> uses (view_of m') ts' k)
    \<and> (retiring (view_of m') k \<longrightarrow> uses (view_of m') ts' k \<or> check_owed ts' k)
    \<and> (mg_sessions m' = [] \<and> (\<forall>t \<in> set ts'. di_held t = [] \<and> di_owed t = []) \<longrightarrow> mg_pendingRuntimeStops m' = [])"
proof (intro conjI impI)
  have s: "safely_retired (m', ts')" using safely_retired_reach [OF assms] by blast
  then show "is_stopped (view_of m') k \<Longrightarrow> \<not> uses (view_of m') ts' k"
    and 2: "retiring (view_of m') k \<Longrightarrow> uses (view_of m') ts' k \<or> check_owed ts' k" for k
    by (auto simp: safely_retired_def)
  assume idle: "mg_sessions m' = [] \<and> (\<forall>t \<in> set ts'. di_held t = [] \<and> di_owed t = [])"
  show "mg_pendingRuntimeStops m' = []"
  proof (rule ccontr)
    assume "mg_pendingRuntimeStops m' \<noteq> []"
    then obtain k where "retiring (view_of m') k" by (cases "mg_pendingRuntimeStops m'") (auto simp: retiring_def view_of_def)
    with 2 [of k] idle show False by (auto simp: uses_def check_owed_def view_of_def)
  qed
qed

theorem stopped_never_in_use_witness:
  "sstep\<^sup>*\<^sup>* (demo_idle, []) (demo_busy, [demo_conn]) \<and> uses (view_of demo_busy) [demo_conn] (demo_run 0)
    \<and> \<not> is_stopped (view_of demo_busy) (demo_run 0)"
proof -
  have "uses (view_of demo_busy) [demo_conn] (demo_run 0)"
    unfolding demo_busy_view uses_def by (auto simp: demo_conn_def view_of_def demo_idle_def demo_handler_def demo_run_def demo_rt_def)
  then show ?thesis using demo_reach stopped_never_in_use [OF demo_reach demo_idle_ok(1,2)] by blast
qed



text \<open>
  taking a plugin out of service under load.  Whatever connections do while \<open>Disable\<close> runs, no runtime in use is stopped, no
  handler of the plugin stays published, the other plugins' handlers do, and every runtime the
  manager had of the plugin has been retired.
\<close>

theorem Disable_concurrent:
  assumes "Disable None None pid m = (None, m', acts)" "mgr_ok m" "sys_inv (view_of m) ts" "safely_retired (m, ts)"
    and "interleaved acts (m', ts) (m2, ts2)"
  shows "safely_retired (m2, ts2)
    \<and> set (mg_snapshot m2) = {h \<in> set (mg_snapshot m). ho_pluginID (mg_heap m h) \<noteq> pid}
    \<and> (\<forall>l \<in> set (managed m). lp_pluginID l = pid \<longrightarrow> retired (view_of m2) (lp_runtime l))"
proof -
  have w: "withdraw pid m = (m', acts)" using assms(1) by (simp add: Disable_def)
  obtain ls hs where acts: "acts = [Publish hs, MarkDraining pid] @ map Retire ls" and view: "view_of m' = view_of m"
    and all: "all_allowed acts (view_of m)" and hs: "set hs = {h \<in> set (mg_snapshot m). ho_pluginID (mg_heap m h) \<noteq> pid}"
    and ls: "set ls = {l \<in> set (managed m). lp_pluginID l = pid}"
    by (rule withdraw_disciplined [OF w assms(2)])
  have "sstep\<^sup>*\<^sup>* (m', ts) (m2, ts2)" using interleaved_allowed [OF assms(5)] assms(3) all by (simp add: view)
  then have "safely_retired (m2, ts2)"
    using safely_retired_reach [of m' ts m2 ts2] assms(3,4) safely_retired_cong [OF view, of ts] by (simp add: view)
  moreover have "mg_snapshot m2 = hs \<and> (\<forall>l \<in> set ls. retired (view_of m2) (lp_runtime l))"
    using interleaved_result [OF assms(5)] assms(3) all by (simp add: view acts)
  ultimately show ?thesis using hs ls by auto
qed

theorem Disable_concurrent_witness:
  "\<exists>m' acts. Disable None None ''b'' demo_busy = (None, m', acts)
    \<and> safely_retired (run_actions acts m', [demo_conn]) \<and> retired (view_of (run_actions acts m')) (demo_run 1)"
proof -
  obtain m' acts where e: "Disable None None ''b'' demo_busy = (None, m', acts)" by (auto simp: Disable_def) (metis prod.collapse)
  have old: "demo_plugin 1 \<in> set (managed demo_busy)" "lp_pluginID (demo_plugin 1) = ''b''" "lp_runtime (demo_plugin 1) = demo_run 1"
    unfolding managed_def demo_busy_view by (simp_all add: demo_idle_def demo_plugin_def lp_pluginID_def demo_run_def demo_rt_def)
  show ?thesis using e Disable_concurrent [OF e demo_busy_mgr _ _ interleaved_run, of "[demo_conn]"] demo_busy_ok old by metis
qed

text \<open>
  C11: the condition of \<open>Enable\<close> is needed, and \<open>Disable\<close> does not establish it.  A connection is inside the handler of plugin \<open>a\<close> with plugin
  \<open>b\<close> ahead of it; \<open>b\<close> is disabled, which stops its idle runtime at once, and enabled again; when the
  connection goes on it enters the handler of the stopped runtime.
\<close>

theorem reenable_revives_stopped:
  "\<exists>m1 acts1 m2 acts2 m3 conn.
     mgr_ok demo_busy \<and> sys_inv (view_of demo_busy) [demo_conn] \<and> safely_retired (demo_busy, [demo_conn])
     \<and> Disable None None ''b'' demo_busy = (None, m1, acts1)
     \<and> Enable demo_env None demo_record (run_actions acts1 m1) = (Inr (demo_plugin 2), m2, acts2)
     \<and> dstep (run_actions acts2 m2, demo_conn) (m3, conn)
     \<and> is_stopped (view_of m3) (demo_run 1) \<and> uses (view_of m3) [conn] (demo_run 1)"
proof -
  define r1 where "r1 = Disable None None ''b'' demo_busy"
  define r2 where "r2 = Enable demo_env None demo_record (run_actions (snd (snd r1)) (fst (snd r1)))"
  define m where "m = run_actions (snd (snd r2)) (fst (snd r2))"
  have r1: "fst r1 = None" unfolding r1_def by (simp add: Disable_def)
  have r2: "fst r2 = Inr (demo_plugin 2)" unfolding r2_def r1_def by code_simp
  have free: "ho_pluginID (mg_heap m 1) \<notin> mg_drainingIDs m" "\<not> ho_draining (mg_heap m 1)" "ho_runtime (mg_heap m 1) = demo_run 1"
    unfolding m_def r2_def r1_def by code_simp+
  have stopped: "mg_stopped m = [demo_plugin 1]" unfolding m_def r2_def r1_def by code_simp
  let ?m3 = "upd_handler 1 (\<lambda>x. x\<lparr>ho_runtimeRefs := ho_runtimeRefs x + 1\<rparr>) m"
  have "reserveUpstreamHandler 1 m = (?m3, True)" using free by (simp add: reserveUpstreamHandler_def)
  then have step: "dstep (m, demo_conn) (?m3, demo_conn\<lparr>di_todo := [], di_joining := Some 1, di_held := [1, 0]\<rparr>)"
    using dstep.reserve [of demo_conn 1 1 "[]" m ?m3] by (simp add: demo_conn_def)
  have "is_stopped (view_of ?m3) (demo_run 1)"
    using stopped by (simp add: is_stopped_def view_of_def upd_handler_def demo_plugin_def)
  moreover have "uses (view_of ?m3) [demo_conn\<lparr>di_todo := [], di_joining := Some 1, di_held := [1, 0]\<rparr>] (demo_run 1)"
    using free(3) by (simp add: uses_def view_of_def upd_handler_def)
  moreover have "Disable None None ''b'' demo_busy = (None, fst (snd r1), snd (snd r1))"
    using r1 by (simp add: r1_def [symmetric] prod_eq_iff)
  moreover have "Enable demo_env None demo_record (run_actions (snd (snd r1)) (fst (snd r1))) = (Inr (demo_plugin 2), fst (snd r2), snd (snd r2))"
    using r2 by (simp add: r2_def [symmetric] prod_eq_iff)
  ultimately show ?thesis using demo_busy_mgr demo_busy_ok step [unfolded m_def] unfolding m_def by blast
qed

end
