(* ===== verification/Plugin_Reconcile.thy ===== *)
theory Plugin_Reconcile
  imports Plugin_Lifecycle
begin

text \<open>
  \<open>Reconcile\<close> of \<open>src/internal/pluginmanager/manager.go\<close>: at start, or when the running process and the database have drifted
  apart, the plugins that are to be enabled are loaded one after the other, the ones that came up are published
  at once, and everything else is retired.  Connections go on meanwhile.
\<close>

section \<open>The operation\<close>

text \<open>A plugin that is to be enabled, with what the surroundings answer about it: the release gate, loading, and \<open>markEnabled\<close>.\<close>

record reconcile_item =
  rc_rec :: PluginRecord
  rc_gate :: "error option"
  rc_env :: load_env
  rc_mark :: "error option"

record reconcile_state =
  rs_m :: manager
  rs_next :: "(string \<times> nat list) list"
  rs_ext :: "string list"
  rs_replaced :: "loadedPlugin list"
  rs_enabled :: "loadedPlugin list"
  rs_acts :: "action list"

definition reconcile_one :: "reconcile_item \<Rightarrow> reconcile_state \<Rightarrow> reconcile_state" where
  "reconcile_one item st = (case rc_gate item of
      Some _ \<Rightarrow> st
    | None \<Rightarrow> (case loadLocked (rc_env item) (rc_rec item) (rs_m st) of
        (Inl _, m) \<Rightarrow> st\<lparr>rs_m := m\<rparr>
      | (Inr (loaded, replaced), m) \<Rightarrow>
          (let pid = pr_ID (rc_rec item);
               st = st\<lparr>rs_m := m, rs_replaced := appendUniqueLoadedPlugin (rs_replaced st) replaced\<rparr>
           in if lp_handlers loaded = [] \<and> \<not> lp_extensions loaded then st
              else case rc_mark item of
                Some _ \<Rightarrow> st
              | None \<Rightarrow> st\<lparr>rs_next := AList.update pid (lp_handlers loaded) (rs_next st),
                  rs_ext := (if lp_extensions loaded then List.insert pid (rs_ext st) else removeAll pid (rs_ext st)),
                  rs_enabled := rs_enabled st @ [loaded], rs_acts := rs_acts st @ [ClearDraining pid]\<rparr>)))"

definition reconcile_init :: "manager \<Rightarrow> reconcile_state" where
  "reconcile_init m = \<lparr>rs_m = m, rs_next = [], rs_ext = [], rs_replaced = [], rs_enabled = [], rs_acts = []\<rparr>"

text \<open>The removed plugins are forgotten, unless the map has another runtime by now.\<close>

definition forget_loaded :: "loadedPlugin \<Rightarrow> (string \<times> loadedPlugin) list \<Rightarrow> (string \<times> loadedPlugin) list" where
  "forget_loaded l al = (if map_option lp_ref (map_of al (lp_pluginID l)) = Some (lp_ref l) then AList.delete (lp_pluginID l) al else al)"

definition reconcile_publish :: "reconcile_state \<Rightarrow> manager \<times> action list" where
  "reconcile_publish st =
    (case takeAllDisplacedPluginsLocked (rs_m st) of (displaced, m) \<Rightarrow>
      (let replaced = foldl (\<lambda>ps l. appendUniqueLoadedPlugin ps (Some l)) (rs_replaced st) displaced;
           removed = filter (\<lambda>(pid, _). map_of (rs_next st) pid = None) (mg_loaded m)
       in (m\<lparr>mg_extensions := rs_ext st, mg_loaded := fold forget_loaded (map snd removed) (mg_loaded m)\<rparr>,
           rs_acts st @ map MarkRuntime replaced @ map (MarkDraining \<circ> fst) removed
             @ [publish m (flattenHandlers (rs_next st))] @ map Retire replaced @ map (Retire \<circ> snd) removed)))"

definition Reconcile ::
  "bool \<Rightarrow> error option \<Rightarrow> reconcile_item list \<Rightarrow> manager \<Rightarrow> error option \<times> manager \<times> action list" where
  "Reconcile closing list_err items m =
    (if closing then (Some ErrManagerClosed, m, [])
     else case list_err of
       Some e \<Rightarrow> (Some e, m, [])
     | None \<Rightarrow> (None, reconcile_publish (fold reconcile_one items (reconcile_init m))))"

section \<open>Loading keeps the books\<close>

text \<open>The runtimes that were replaced on the way count as displaced until they are retired.\<close>

definition with_replaced :: "loadedPlugin list \<Rightarrow> manager \<Rightarrow> manager" where
  "with_replaced ls m = m\<lparr>mg_displaced := mg_displaced m @ map (\<lambda>l. (lp_runtime l, l)) ls\<rparr>"

lemma with_replaced_simps [simp]:
  "managed (with_replaced ls m) = managed m @ ls" "view_of (with_replaced ls m) = view_of m"
  "mg_snapshot (with_replaced ls m) = mg_snapshot m" "mg_heap (with_replaced ls m) = mg_heap m"
  "mg_loaded (with_replaced ls m) = mg_loaded m"
  by (simp_all add: with_replaced_def managed_def view_of_def o_def)

lemma mset_update_Some:
  "distinct (map fst al) \<Longrightarrow> map_of al k = Some old \<Longrightarrow> add_mset old (mset (map snd (AList.update k v al))) = add_mset v (mset (map snd al))"
  by (induction al) auto

lemma mset_delete_Some:
  assumes "distinct (map fst al)" "map_of al k = Some old"
  shows "add_mset old (mset (map snd (AList.delete k al))) = mset (map snd al)"
  using assms
proof (induction al)
  case (Cons a al)
  have "k \<notin> fst ` set al \<Longrightarrow> AList.delete k al = al"
    by (rule AList.delete_id) simp
  with Cons show ?case by (cases a) auto
qed simp

lemma update_again: "map_of al k = Some v \<Longrightarrow> AList.update k v (AList.update k w al) = al"
  by (induction al) auto

lemma update_same: "map_of al k = Some v \<Longrightarrow> AList.update k v al = al"
  by (induction al) auto

lemma view_of_loaded [simp]: "view_of (m\<lparr>mg_loaded := al\<rparr>) = view_of m"
  by (simp add: view_of_def)

lemma delete_again: "map_of al k = None \<Longrightarrow> AList.delete k (AList.update k w al) = al"
  by (induction al) (auto simp: AList.delete_eq)

lemma distinct_submset:
  assumes "mset xs \<subseteq># mset ys" "distinct ys"
  shows "distinct xs"
proof -
  obtain M where "mset ys = mset xs + M" using assms(1) by (auto simp: mset_subset_eq_exists_conv)
  moreover obtain zs where "M = mset zs" using ex_mset [of M] by blast
  ultimately have "mset ys = mset (xs @ zs)" by simp
  then have "distinct (xs @ zs)" using assms(2) mset_eq_imp_distinct_iff by blast
  then show ?thesis by simp
qed

lemma distinct_map_submset: "mset xs \<subseteq># mset ys \<Longrightarrow> distinct (map f ys) \<Longrightarrow> distinct (map f xs)"
  using image_mset_subseteq_mono [of "mset xs" "mset ys" f] distinct_submset [of "map f xs" "map f ys"] by simp

text \<open>
  A manager whose runtimes are those of another one and perhaps a fresh one.
\<close>

lemma mgr_ok_load:
  assumes "mgr_ok g" "mset (managed g') \<subseteq># add_mset l (mset (managed g))" "fresh_runtime pid g l"
    and "view_of g' = view_of g" "mg_snapshot g' = mg_snapshot g" "mg_heap g' = mg_heap g"
    and "\<forall>(p, l) \<in> set (mg_loaded g'). lp_pluginID l = p" "distinct (map fst (mg_loaded g'))"
  shows "mgr_ok g'"
proof -
  have sub: "mset (managed g') \<subseteq># mset (l # managed g)" using assms(2) by simp
  have mem: "x \<in> set (managed g') \<Longrightarrow> x = l \<or> x \<in> set (managed g)" for x
    using set_mset_mono [OF sub] by auto
  have "distinct (map lp_runtime (l # managed g))" "distinct (map lp_ref (l # managed g))"
    using assms(1,3) by (simp_all add: mgr_ok_def fresh_runtime_def)
  then have "distinct (map lp_runtime (managed g'))" "distinct (map lp_ref (managed g'))"
    by (blast intro: distinct_map_submset [OF sub])+
  then show ?thesis
    using assms(1,3-8) mem unfolding mgr_ok_def fresh_runtime_def by metis
qed

lemma mgr_ok_less:
  assumes "mgr_ok g" "mset (managed g') \<subseteq># mset (managed g)"
    and "view_of g' = view_of g" "mg_snapshot g' = mg_snapshot g" "mg_heap g' = mg_heap g"
    and "\<forall>(p, l) \<in> set (mg_loaded g'). lp_pluginID l = p" "distinct (map fst (mg_loaded g'))"
  shows "mgr_ok g'"
proof -
  have mem: "x \<in> set (managed g') \<Longrightarrow> x \<in> set (managed g)" for x
    using set_mset_mono [OF assms(2)] by auto
  have "distinct (map lp_runtime (managed g'))" "distinct (map lp_ref (managed g'))"
    using assms(1) distinct_map_submset [OF assms(2)] unfolding mgr_ok_def by blast+
  then show ?thesis using assms(1,3-7) mem unfolding mgr_ok_def by metis
qed

lemma mgr_ok_with: "mgr_ok (with_replaced rs m) \<Longrightarrow> distinct (map fst (mg_loaded m)) \<and> (\<forall>(p, l) \<in> set (mg_loaded m). lp_pluginID l = p)"
  by (simp add: mgr_ok_def)

lemma update_entries: "(p, l) \<in> set (AList.update k v al) \<Longrightarrow> (p, l) = (k, v) \<or> (p, l) \<in> set al"
  by (induction al) (auto split: if_splits)

lemma delete_entries: "(p, l) \<in> set (AList.delete k al) \<Longrightarrow> (p, l) \<in> set al"
  by (auto simp: AList.delete_eq)

lemma load_fresh_ok:
  assumes "mgr_ok (with_replaced rs m)" "fresh_runtime pid (with_replaced rs m) l"
    and "m1 = m\<lparr>mg_loaded := AList.update pid l al\<rparr>" "al = mg_loaded m \<or> al = AList.delete pid (mg_loaded m)"
    and "mset (managed m1 @ rs1) \<subseteq># add_mset l (mset (managed m @ rs))"
  shows "mgr_ok (with_replaced rs1 m1)"
proof (rule mgr_ok_load [OF assms(1) _ assms(2)])
  show "mset (managed (with_replaced rs1 m1)) \<subseteq># add_mset l (mset (managed (with_replaced rs m)))" using assms(5) by simp
  show "view_of (with_replaced rs1 m1) = view_of (with_replaced rs m)" using assms(3) by simp
  show "\<forall>(p, l) \<in> set (mg_loaded (with_replaced rs1 m1)). lp_pluginID l = p"
    using assms(2-4) mgr_ok_with [OF assms(1)] by (auto simp: fresh_runtime_def dest!: update_entries delete_entries)
  show "distinct (map fst (mg_loaded (with_replaced rs1 m1)))"
    using assms(3,4) mgr_ok_with [OF assms(1)] by (auto simp: AList.distinct_update AList.distinct_delete)
qed (simp_all add: assms(3))

lemma load_ok:
  assumes "loadLocked env rec m = (Inr (loaded, replaced), m1)" "mgr_ok (with_replaced rs m)"
    and "\<forall>l. le_start env = Inr l \<longrightarrow> fresh_runtime (pr_ID rec) (with_replaced rs m) l"
    and "rs1 = appendUniqueLoadedPlugin rs replaced"
  shows "mgr_ok (with_replaced rs1 m1) \<and> map_of (mg_loaded m1) = (map_of (mg_loaded m))(pr_ID rec \<mapsto> loaded)
    \<and> set (managed m1 @ rs1) \<subseteq> insert loaded (set (managed m @ rs))
    \<and> (\<not> le_crashLoop env \<longrightarrow> set (managed m @ rs) \<subseteq> set (managed m1 @ rs1))"
  using assms(1)
proof (cases rule: loadLocked_cases)
  case reuse
  then show ?thesis using assms(2,4) by (auto simp: appendUniqueLoadedPlugin_def)
next
  case replaced
  note d = mgr_ok_with [OF assms(2)]
  have ms: "mset (managed m1 @ rs1) = add_mset loaded (mset (managed m @ rs))"
  proof (cases "replaced :: loadedPlugin option")
    case None
    then have "AList.update (pr_ID rec) loaded (mg_loaded m) = mg_loaded m @ [(pr_ID rec, loaded)]"
      using replaced by (intro update_fresh) (simp add: map_of_eq_None_iff)
    then show ?thesis using None replaced assms(4) by (simp add: managed_def appendUniqueLoadedPlugin_def)
  next
    case (Some old)
    then have old: "map_of (mg_loaded m) (pr_ID rec) = Some old" using replaced by simp
    then have "old \<in> set (managed m)" by (rule managed_loaded)
    have "distinct (map lp_ref (managed m @ rs))" using assms(2) by (simp add: mgr_ok_def)
    then have "set (map lp_ref (managed m)) \<inter> set (map lp_ref rs) = {}" by simp
    with \<open>old \<in> set (managed m)\<close> have "lp_ref old \<notin> lp_ref ` set rs" by (auto simp: disjoint_iff)
    then have "\<not> list_ex (\<lambda>l. lp_ref l = lp_ref old) rs" unfolding list_ex_iff by (metis image_eqI)
    then have "rs1 = rs @ [old]" using assms(4) Some by (simp add: appendUniqueLoadedPlugin_def)
    moreover have "add_mset old (mset (map snd (AList.update (pr_ID rec) loaded (mg_loaded m)))) = add_mset loaded (mset (map snd (mg_loaded m)))"
      by (rule mset_update_Some [OF conjunct1 [OF d] old])
    ultimately show ?thesis using replaced by (simp add: managed_def)
  qed
  moreover have "mgr_ok (with_replaced rs1 m1)"
    using load_fresh_ok [OF assms(2) _ replaced(3) disjI1 [OF refl], of rs1] assms(3) replaced(1) ms by simp
  moreover have "set (managed m1 @ rs1) = insert loaded (set (managed m @ rs))"
    using arg_cong [OF ms, of set_mset] by simp
  ultimately show ?thesis using replaced(3) by (auto simp: AList.update_conv')
next
  case (crashed old)
  note d = mgr_ok_with [OF assms(2)]
  have "map_of (AList.delete (pr_ID rec) (mg_loaded m)) (pr_ID rec) = None" by (simp add: AList.delete_conv')
  then have "AList.update (pr_ID rec) loaded (AList.delete (pr_ID rec) (mg_loaded m)) = AList.delete (pr_ID rec) (mg_loaded m) @ [(pr_ID rec, loaded)]"
    by (intro update_fresh) (simp add: map_of_eq_None_iff)
  moreover have "add_mset old (mset (map snd (AList.delete (pr_ID rec) (mg_loaded m)))) = mset (map snd (mg_loaded m))"
    by (rule mset_delete_Some [OF conjunct1 [OF d] crashed(4)])
  ultimately have "add_mset old (mset (managed m1 @ rs1)) = add_mset loaded (mset (managed m @ rs))"
    using crashed assms(4) by (simp add: managed_def appendUniqueLoadedPlugin_def flip: union_mset_add_mset_left)
  then have ms: "mset (managed m1 @ rs1) \<subseteq># add_mset loaded (mset (managed m @ rs))"
    by (metis add_mset_remove_trivial diff_subset_eq_self)
  moreover have "mgr_ok (with_replaced rs1 m1)"
    using load_fresh_ok [OF assms(2) _ crashed(5) disjI2 [OF refl] ms] assms(3) crashed(2) by simp
  moreover have "set (managed m1 @ rs1) \<subseteq> insert loaded (set (managed m @ rs))"
    using set_mset_mono [OF ms] by simp
  ultimately show ?thesis using crashed(1,5) by (auto simp: AList.update_conv' AList.delete_conv')
qed

lemma restore_update:
  "map_of (mg_loaded m) p = Some x \<Longrightarrow> restore_loaded p (Some x) (m\<lparr>mg_loaded := AList.update p l (mg_loaded m)\<rparr>) = m"
  "map_of (mg_loaded m) p = None \<Longrightarrow> restore_loaded p None (m\<lparr>mg_loaded := AList.update p l (mg_loaded m)\<rparr>) = m"
  "restore_loaded p None (m\<lparr>mg_loaded := AList.update p l (AList.delete p (mg_loaded m))\<rparr>) = m\<lparr>mg_loaded := AList.delete p (mg_loaded m)\<rparr>"
  by (simp_all add: restore_loaded_def update_again update_same delete_again AList.delete_conv')

lemma load_failed:
  assumes "loadLocked env rec m = (Inl e, m1)"
  shows "\<exists>m0. (m0 = m \<or> le_crashLoop env \<and> m0 = m\<lparr>mg_loaded := AList.delete (pr_ID rec) (mg_loaded m)\<rparr>)
    \<and> (m1 = m0 \<or> (\<exists>l. le_start env = Inr l \<and> m1 = stop_runtime l m0))"
proof -
  have "m1 = m \<or> (\<exists>l. le_start env = Inr l \<and> m1 = stop_runtime l m)
    \<or> le_crashLoop env \<and> (m1 = m\<lparr>mg_loaded := AList.delete (pr_ID rec) (mg_loaded m)\<rparr>
        \<or> (\<exists>l. le_start env = Inr l \<and> m1 = stop_runtime l (m\<lparr>mg_loaded := AList.delete (pr_ID rec) (mg_loaded m)\<rparr>)))"
    using assms unfolding loadLocked_def Let_def
    by (auto simp: restore_update AList.delete_conv' split: if_splits option.splits sum.splits bool.splits)
  then show ?thesis by metis
qed

section \<open>The loop\<close>

definition candidates :: "reconcile_item list \<Rightarrow> loadedPlugin list" where
  "candidates items = concat (map (\<lambda>i. case le_start (rc_env i) of Inr l \<Rightarrow> [l] | Inl _ \<Rightarrow> []) items)"

abbreviation item_id :: "reconcile_item \<Rightarrow> string" where
  "item_id i \<equiv> pr_ID (rc_rec i)"

text \<open>
  What is known of the runtimes that are started on the way: they are new, of their plugin, and out of reach of all
  connections; the repository lists a plugin once.
\<close>

definition reconcile_ready :: "reconcile_item list \<Rightarrow> manager \<Rightarrow> dispatcher list \<Rightarrow> bool" where
  "reconcile_ready items m ts = (distinct (map item_id items) \<and> distinct (map lp_ref (candidates items))
     \<and> (\<forall>i \<in> set items. \<forall>l. le_start (rc_env i) = Inr l \<longrightarrow> fresh_runtime (item_id i) m l
          \<and> unreachable (view_of m) ts (lp_runtime l) \<and> \<not> uses (view_of m) ts (lp_runtime l)))"

lemma candidates_mem: "l \<in> set (candidates items) \<longleftrightarrow> (\<exists>i \<in> set items. le_start (rc_env i) = Inr l)"
  by (induction items) (auto simp: candidates_def split: sum.splits)

lemma candidates_simps [simp]:
  "candidates [] = []" "candidates (xs @ ys) = candidates xs @ candidates ys"
  by (simp_all add: candidates_def)

definition started_stopped :: "loadedPlugin list \<Rightarrow> view \<Rightarrow> view" where
  "started_stopped ls v = v\<lparr>vw_stopped := vw_stopped v @ ls\<rparr>"

lemma started_stopped_simps [simp]:
  "vw_run (started_stopped ls v) = vw_run v" "vw_snapshot (started_stopped ls v) = vw_snapshot v"
  "lp_ok (started_stopped ls v) = lp_ok v" "flagged (started_stopped ls v) = flagged v"
  "retired (started_stopped ls v) k \<longleftrightarrow> retired v k \<or> k \<in> lp_runtime ` set ls"
  "started_stopped [] v = v" "started_stopped bs (started_stopped as v) = started_stopped (as @ bs) v"
  by (auto simp: started_stopped_def lp_ok_def flagged_def retired_def retiring_def is_stopped_def fun_eq_iff)

lemma view_of_stop_runtime: "view_of (stop_runtime l m) = started_stopped [l] (view_of m)"
  by (simp add: stop_runtime_def view_of_def started_stopped_def)

definition reconcile_inv :: "manager \<Rightarrow> reconcile_item list \<Rightarrow> reconcile_state \<Rightarrow> bool" where
  "reconcile_inv m finished st = (
     (\<exists>failed. set failed \<subseteq> set (candidates finished) \<and> view_of (rs_m st) = started_stopped failed (view_of m))
     \<and> mg_heap (rs_m st) = mg_heap m \<and> mg_snapshot (rs_m st) = mg_snapshot m
     \<and> mgr_ok (with_replaced (rs_replaced st) (rs_m st))
     \<and> set (managed (rs_m st) @ rs_replaced st) \<subseteq> set (managed m) \<union> set (candidates finished)
     \<and> ((\<forall>i \<in> set finished. \<not> le_crashLoop (rc_env i)) \<longrightarrow> set (managed m) \<subseteq> set (managed (rs_m st) @ rs_replaced st))
     \<and> distinct (map fst (rs_next st))
     \<and> (\<forall>p hs. map_of (rs_next st) p = Some hs \<longleftrightarrow> (\<exists>l \<in> set (rs_enabled st). lp_pluginID l = p \<and> lp_handlers l = hs))
     \<and> (\<forall>l \<in> set (rs_enabled st). map_of (mg_loaded (rs_m st)) (lp_pluginID l) = Some l \<and> lp_pluginID l \<in> item_id ` set finished)
     \<and> rs_acts st = map (ClearDraining \<circ> lp_pluginID) (rs_enabled st))"

lemma reconcile_init_inv: "mgr_ok m \<Longrightarrow> reconcile_inv m [] (reconcile_init m)"
  by (simp add: reconcile_inv_def reconcile_init_def with_replaced_def)

lemma candidate_other:
  assumes "reconcile_ready (finished @ [i]) m ts" "le_start (rc_env i) = Inr l" "c \<in> set (candidates finished)"
  shows "lp_runtime c \<noteq> lp_runtime l \<and> lp_ref c \<noteq> lp_ref l"
proof -
  obtain j where j: "j \<in> set finished" "le_start (rc_env j) = Inr c" using assms(3) by (auto simp: candidates_mem)
  then have "lp_pluginID c = item_id j" "lp_pluginID l = item_id i" using assms(1,2) by (auto simp: reconcile_ready_def fresh_runtime_def)
  moreover have "item_id j \<noteq> item_id i" using assms(1) j(1) by (auto simp: reconcile_ready_def image_iff)
  ultimately have "lp_runtime c \<noteq> lp_runtime l" by (auto simp: lp_pluginID_def)
  moreover have "distinct (map lp_ref (candidates finished @ [l]))"
    using assms(1,2) by (simp add: reconcile_ready_def candidates_def)
  then have "lp_ref l \<notin> lp_ref ` set (candidates finished)" by simp
  then have "lp_ref c \<noteq> lp_ref l" using assms(3) by (metis image_eqI)
  ultimately show ?thesis by simp
qed

lemma item_new: "reconcile_ready (finished @ [i]) m ts \<Longrightarrow> item_id i \<notin> item_id ` set finished"
  by (auto simp: reconcile_ready_def)

lemma fresh_now:
  assumes "reconcile_inv m finished st" "reconcile_ready (finished @ [i]) m ts" "le_start (rc_env i) = Inr l"
  shows "fresh_runtime (item_id i) (with_replaced (rs_replaced st) (rs_m st)) l"
proof -
  obtain failed where failed: "set failed \<subseteq> set (candidates finished)" "view_of (rs_m st) = started_stopped failed (view_of m)"
    using assms(1) unfolding reconcile_inv_def by blast
  have f: "fresh_runtime (item_id i) m l" using assms(2,3) by (auto simp: reconcile_ready_def)
  have sub: "set (managed (rs_m st) @ rs_replaced st) \<subseteq> set (managed m) \<union> set (candidates finished)"
    using assms(1) unfolding reconcile_inv_def by blast
  have other: "lp_runtime c \<noteq> lp_runtime l \<and> lp_ref c \<noteq> lp_ref l" if "c \<in> set (managed m) \<union> set (candidates finished)" for c
    using that f candidate_other [OF assms(2,3)] unfolding fresh_runtime_def by (metis UnE image_eqI)
  have "lp_runtime l \<notin> lp_runtime ` set failed" using failed(1) other by fastforce
  moreover have "lp_runtime l \<notin> lp_runtime ` set (managed (rs_m st) @ rs_replaced st)" "lp_ref l \<notin> lp_ref ` set (managed (rs_m st) @ rs_replaced st)"
    using sub other by fastforce+
  ultimately show ?thesis using f failed(2) by (simp add: fresh_runtime_def)
qed

text \<open>A load that fails keeps the books, perhaps with the failed candidate among the stopped.\<close>

lemma reconcile_failed_load:
  assumes inv: "reconcile_inv m finished st" and ready: "reconcile_ready (finished @ [i]) m ts"
    and load: "loadLocked (rc_env i) (rc_rec i) (rs_m st) = (Inl e, m1)"
  shows "reconcile_inv m (finished @ [i]) (st\<lparr>rs_m := m1\<rparr>)"
proof -
  let ?rs = "rs_replaced st" and ?m = "rs_m st"
  obtain failed where failed: "set failed \<subseteq> set (candidates finished)" "view_of ?m = started_stopped failed (view_of m)"
    using inv unfolding reconcile_inv_def by blast
  have ok: "mgr_ok (with_replaced ?rs ?m)" using inv unfolding reconcile_inv_def by blast
  note d = mgr_ok_with [OF ok]
  obtain m0 where m0: "m0 = ?m \<or> le_crashLoop (rc_env i) \<and> m0 = ?m\<lparr>mg_loaded := AList.delete (item_id i) (mg_loaded ?m)\<rparr>"
    and m1: "m1 = m0 \<or> (\<exists>l. le_start (rc_env i) = Inr l \<and> m1 = stop_runtime l m0)"
    using load_failed [OF load] by blast
  have keep: "view_of m0 = view_of ?m" "mg_heap m0 = mg_heap ?m" "mg_snapshot m0 = mg_snapshot ?m" "mg_displaced m0 = mg_displaced ?m"
    using m0 by auto
  have sub: "mset (managed m0) \<subseteq># mset (managed ?m)"
  proof (cases "m0 = ?m")
    case False
    then have eq: "mg_loaded m0 = AList.delete (item_id i) (mg_loaded ?m)" "mg_displaced m0 = mg_displaced ?m" using m0 by auto
    have "mset (AList.delete (item_id i) (mg_loaded ?m)) \<subseteq># mset (mg_loaded ?m)"
      unfolding AList.delete_eq mset_filter by (rule multiset_filter_subset)
    then have "mset (map snd (AList.delete (item_id i) (mg_loaded ?m))) \<subseteq># mset (map snd (mg_loaded ?m))"
      unfolding mset_map by (rule image_mset_subseteq_mono)
    then show ?thesis unfolding managed_def eq by (simp add: subset_mset.add_mono)
  qed simp
  have ok0: "mgr_ok (with_replaced ?rs m0)"
  proof (rule mgr_ok_less [OF ok])
    show "mset (managed (with_replaced ?rs m0)) \<subseteq># mset (managed (with_replaced ?rs ?m))" using sub by (simp add: subset_mset.add_mono)
    show "\<forall>(p, l) \<in> set (mg_loaded (with_replaced ?rs m0)). lp_pluginID l = p"
      using m0 d by (auto simp: AList.delete_eq)
    show "distinct (map fst (mg_loaded (with_replaced ?rs m0)))" using m0 d by (auto simp: AList.distinct_delete)
  qed (simp_all add: keep)
  obtain more where more: "set more \<subseteq> set (candidates [i])" "view_of m1 = started_stopped more (view_of m0)"
    "mg_heap m1 = mg_heap m0" "mg_snapshot m1 = mg_snapshot m0" "mg_loaded m1 = mg_loaded m0" "mg_displaced m1 = mg_displaced m0"
  proof -
    consider "m1 = m0" | l where "le_start (rc_env i) = Inr l" "m1 = stop_runtime l m0" using m1 by blast
    then show thesis
    proof cases
      case 1
      then show ?thesis using that [of "[]"] by simp
    next
      case (2 l)
      then show ?thesis using that [of "[l]"] by (simp add: view_of_stop_runtime candidates_mem) (simp add: stop_runtime_def)
    qed
  qed
  have fresh: "fresh_runtime (item_id i) (with_replaced ?rs ?m) l \<and> unreachable (view_of m) ts (lp_runtime l)" if "l \<in> set more" for l
    using that more(1) fresh_now [OF inv ready] ready by (auto simp: candidates_mem reconcile_ready_def)
  have mem0: "set (managed m0 @ ?rs) \<subseteq> set (managed ?m @ ?rs)" using set_mset_mono [OF sub] by auto
  have same: "managed m1 = managed m0" by (simp add: managed_def more)
  have ok1: "mgr_ok (with_replaced ?rs m1)"
  proof -
    have "\<not> retired (view_of m1) (ho_runtime (mg_heap m1 h))" if "h \<in> set (mg_snapshot m1)" for h
    proof -
      have "ho_runtime (mg_heap m0 h) \<notin> lp_runtime ` set more"
        using that fresh more(4) keep inv by (auto simp: unreachable_def view_of_def reconcile_inv_def)
      then show ?thesis using ok0 that by (simp add: mgr_ok_def more)
    qed
    moreover have "lp_ok (view_of m1) x \<and> \<not> retired (view_of m1) (lp_runtime x)" if "x \<in> set (managed m1 @ ?rs)" for x
    proof -
      have "lp_runtime x \<notin> lp_runtime ` set more"
        using that fresh mem0 unfolding same fresh_runtime_def with_replaced_simps by (metis imageE image_eqI subsetD)
      then show ?thesis using ok0 that by (simp add: mgr_ok_def more same)
    qed
    ultimately show ?thesis using ok0 by (simp add: mgr_ok_def same more)
  qed
  have "view_of m1 = started_stopped (failed @ more) (view_of m)" by (simp add: more keep failed)
  moreover have "set (failed @ more) \<subseteq> set (candidates (finished @ [i]))" using failed(1) more(1) by auto
  ultimately have "\<exists>failed. set failed \<subseteq> set (candidates (finished @ [i])) \<and> view_of m1 = started_stopped failed (view_of m)" by blast
  moreover have "\<not> le_crashLoop (rc_env i) \<Longrightarrow> managed m1 = managed ?m" using m0 same by auto
  moreover have "map_of (mg_loaded m1) (lp_pluginID l) = Some l" if "l \<in> set (rs_enabled st)" for l
  proof -
    have "map_of (mg_loaded ?m) (lp_pluginID l) = Some l" "lp_pluginID l \<in> item_id ` set finished"
      using inv that unfolding reconcile_inv_def by blast+
    moreover from this(2) have "lp_pluginID l \<noteq> item_id i" using item_new [OF ready] by metis
    ultimately show ?thesis using m0 more(5) by (auto simp: AList.delete_conv')
  qed
  moreover have "(\<forall>j \<in> set (finished @ [i]). \<not> le_crashLoop (rc_env j)) \<longrightarrow> set (managed m) \<subseteq> set (managed m1 @ ?rs)"
    using inv calculation(2) unfolding reconcile_inv_def by auto
  moreover have "set (managed m1 @ ?rs) \<subseteq> set (managed m) \<union> set (candidates (finished @ [i]))"
    using inv mem0 unfolding same reconcile_inv_def by auto
  ultimately show ?thesis
    using inv ok1 unfolding reconcile_inv_def by (simp add: more keep)
qed

lemma reconcile_one_inv:
  assumes inv: "reconcile_inv m finished st" and ready: "reconcile_ready (finished @ [i]) m ts"
  shows "reconcile_inv m (finished @ [i]) (reconcile_one i st)"
proof (cases "rc_gate i")
  case (Some e)
  have "reconcile_inv m (finished @ [i]) st" using inv unfolding reconcile_inv_def by (auto 0 3)
  with Some show ?thesis by (simp add: reconcile_one_def)
next
  case None
  obtain r m1 where load: "loadLocked (rc_env i) (rc_rec i) (rs_m st) = (r, m1)" by fastforce
  show ?thesis
  proof (cases r)
    case (Inl e)
    then show ?thesis using None load reconcile_failed_load [OF inv ready] by (simp add: reconcile_one_def)
  next
    case (Inr x)
    obtain loaded replaced where x: "x = (loaded, replaced)" by fastforce
    define rs1 where "rs1 = appendUniqueLoadedPlugin (rs_replaced st) replaced"
    let ?st = "st\<lparr>rs_m := m1, rs_replaced := rs1\<rparr>"
    have ok: "mgr_ok (with_replaced (rs_replaced st) (rs_m st))" using inv unfolding reconcile_inv_def by blast
    have l: "mgr_ok (with_replaced rs1 m1)" "map_of (mg_loaded m1) = (map_of (mg_loaded (rs_m st)))(item_id i \<mapsto> loaded)"
      "set (managed m1 @ rs1) \<subseteq> insert loaded (set (managed (rs_m st) @ rs_replaced st))"
      "\<not> le_crashLoop (rc_env i) \<longrightarrow> set (managed (rs_m st) @ rs_replaced st) \<subseteq> set (managed m1 @ rs1)"
      using load_ok [OF load [unfolded Inr x] ok _ rs1_def] fresh_now [OF inv ready] by blast+
    note v = loadLocked_view [OF load [unfolded Inr x]]
    have id: "lp_pluginID loaded = item_id i"
      using l(1,2) mgr_ok_with [OF l(1)] by (metis fun_upd_same map_of_SomeD case_prodD)
    have src: "loaded \<in> set (managed (rs_m st) @ rs_replaced st) \<union> set (candidates [i])"
      using load [unfolded Inr x] by (cases rule: loadLocked_cases) (auto simp: candidates_mem intro: managed_loaded)
    have sub: "set (managed m1 @ rs1) \<subseteq> set (managed m) \<union> set (candidates (finished @ [i]))"
      using l(3) src inv unfolding reconcile_inv_def by auto
    have old: "(\<forall>j \<in> set (finished @ [i]). \<not> le_crashLoop (rc_env j)) \<longrightarrow> set (managed m) \<subseteq> set (managed m1 @ rs1)"
      using l(4) inv unfolding reconcile_inv_def by (metis Un_iff list.set_intros(1) set_append subset_trans)
    have en: "map_of (mg_loaded m1) (lp_pluginID l) = Some l \<and> lp_pluginID l \<in> item_id ` set (finished @ [i]) \<and> lp_pluginID l \<noteq> item_id i"
      if "l \<in> set (rs_enabled st)" for l
    proof -
      have "map_of (mg_loaded (rs_m st)) (lp_pluginID l) = Some l" "lp_pluginID l \<in> item_id ` set finished"
        using inv that unfolding reconcile_inv_def by blast+
      moreover from this(2) have "lp_pluginID l \<noteq> item_id i" using item_new [OF ready] by metis
      ultimately show ?thesis using l(2) by auto
    qed
    have view: "\<exists>failed. set failed \<subseteq> set (candidates (finished @ [i])) \<and> view_of m1 = started_stopped failed (view_of m)"
      using inv v unfolding reconcile_inv_def by auto
    have st: "reconcile_inv m (finished @ [i]) ?st"
      using inv l(1) sub old en view v unfolding reconcile_inv_def by simp
    show ?thesis
    proof (cases "(lp_handlers loaded = [] \<and> \<not> lp_extensions loaded) \<or> rc_mark i \<noteq> None")
      case True
      then have "reconcile_one i st = ?st" using None load Inr x by (auto simp: reconcile_one_def Let_def rs1_def)
      with st show ?thesis by simp
    next
      case False
      let ?next = "AList.update (item_id i) (lp_handlers loaded) (rs_next st)"
      have "reconcile_one i st = ?st\<lparr>rs_next := ?next,
          rs_ext := (if lp_extensions loaded then List.insert (item_id i) (rs_ext st) else removeAll (item_id i) (rs_ext st)),
          rs_enabled := rs_enabled st @ [loaded], rs_acts := rs_acts st @ [ClearDraining (item_id i)]\<rparr>"
        using None load Inr x False by (cases "lp_extensions loaded") (simp_all add: reconcile_one_def Let_def rs1_def)
      moreover have "map_of ?next p = Some hs \<longleftrightarrow> (\<exists>l \<in> set (rs_enabled st @ [loaded]). lp_pluginID l = p \<and> lp_handlers l = hs)" for p hs
        using inv en id unfolding reconcile_inv_def by (auto simp: AList.update_conv')
      moreover have "distinct (map fst ?next)" using inv by (simp add: reconcile_inv_def AList.distinct_update)
      ultimately show ?thesis using st en id l(2) unfolding reconcile_inv_def by simp
    qed
  qed
qed

lemma reconcile_ready_prefix: "reconcile_ready (xs @ ys) m ts \<Longrightarrow> reconcile_ready xs m ts"
  unfolding reconcile_ready_def by auto

lemma reconcile_loop_inv: "mgr_ok m \<Longrightarrow> reconcile_ready items m ts \<Longrightarrow> reconcile_inv m items (fold reconcile_one items (reconcile_init m))"
proof (induction items rule: rev_induct)
  case Nil
  then show ?case by (simp add: reconcile_init_inv)
next
  case (snoc i items)
  then show ?case using reconcile_one_inv reconcile_ready_prefix by simp
qed

section \<open>Publishing\<close>

lemma append_all_unique:
  "distinct (map lp_ref (xs @ ys)) \<Longrightarrow> foldl (\<lambda>ps l. appendUniqueLoadedPlugin ps (Some l)) xs ys = xs @ ys"
proof (induction ys arbitrary: xs)
  case (Cons y ys)
  then have "lp_ref y \<notin> lp_ref ` set xs" by auto
  then have "\<not> list_ex (\<lambda>l. lp_ref l = lp_ref y) xs" unfolding list_ex_iff by (metis image_eqI)
  then have "appendUniqueLoadedPlugin xs (Some y) = xs @ [y]" by (simp add: appendUniqueLoadedPlugin_def)
  with Cons.IH [of "xs @ [y]"] Cons.prems show ?case by simp
qed simp

lemma forget_removed:
  assumes "distinct (map fst al)" "\<forall>(p, l) \<in> set al. lp_pluginID l = p" "set rs \<subseteq> set al" "distinct (map fst rs)"
  shows "fold forget_loaded (map snd rs) al = filter (\<lambda>(p, _). p \<notin> fst ` set rs) al"
  using assms
proof (induction rs arbitrary: al)
  case Nil
  then show ?case by (simp add: case_prod_unfold)
next
  case (Cons x rs)
  obtain p l where x: "x = (p, l)" by fastforce
  with Cons.prems have l: "map_of al p = Some l" "lp_pluginID l = p" by auto
  let ?al = "AList.delete p al"
  have "set rs \<subseteq> set ?al" using Cons.prems(3,4) x by (force simp: AList.delete_eq image_iff)
  then have "fold forget_loaded (map snd rs) ?al = filter (\<lambda>(p, _). p \<notin> fst ` set rs) ?al"
    using Cons.prems by (intro Cons.IH) (auto simp: AList.delete_eq distinct_map_filter)
  moreover have "forget_loaded l al = ?al" using l by (simp add: forget_loaded_def)
  ultimately show ?case using x by (simp add: AList.delete_eq) (rule filter_cong, auto)
qed

definition removed_plugins :: "reconcile_state \<Rightarrow> (string \<times> loadedPlugin) list" where
  "removed_plugins st = filter (\<lambda>(pid, _). map_of (rs_next st) pid = None) (mg_loaded (rs_m st))"

definition replaced_plugins :: "reconcile_state \<Rightarrow> loadedPlugin list" where
  "replaced_plugins st = rs_replaced st @ map snd (mg_displaced (rs_m st))"

definition publish_actions :: "reconcile_state \<Rightarrow> action list" where
  "publish_actions st = map MarkRuntime (replaced_plugins st) @ map (MarkDraining \<circ> fst) (removed_plugins st)
     @ [Publish (sort_key (handler_key (rs_m st)) (flattenHandlers (rs_next st)))]
     @ map Retire (replaced_plugins st) @ map (Retire \<circ> snd) (removed_plugins st)"

lemma reconcile_publish_eq:
  assumes "mgr_ok (with_replaced (rs_replaced st) (rs_m st))"
  shows "reconcile_publish st = ((rs_m st)\<lparr>mg_displaced := [], mg_extensions := rs_ext st,
      mg_loaded := filter (\<lambda>(p, _). map_of (rs_next st) p \<noteq> None) (mg_loaded (rs_m st))\<rparr>, rs_acts st @ publish_actions st)"
proof -
  let ?m = "rs_m st" and ?d = "map snd (mg_displaced (rs_m st))"
  have refs: "distinct (map lp_ref (managed ?m @ rs_replaced st))" using assms by (simp add: mgr_ok_def)
  then have "foldl (\<lambda>ps l. appendUniqueLoadedPlugin ps (Some l)) [] ?d = ?d"
    "foldl (\<lambda>ps l. appendUniqueLoadedPlugin ps (Some l)) (rs_replaced st) ?d = rs_replaced st @ ?d"
    using append_all_unique [of "[]" ?d] append_all_unique [of "rs_replaced st" ?d] by (auto simp: managed_def)
  moreover have "fold forget_loaded (map snd (removed_plugins st)) (mg_loaded ?m)
      = filter (\<lambda>(p, _). p \<notin> fst ` set (removed_plugins st)) (mg_loaded ?m)"
    using mgr_ok_with [OF assms] by (intro forget_removed) (auto simp: removed_plugins_def distinct_map_filter)
  moreover have "filter (\<lambda>(p, _). p \<notin> fst ` set (removed_plugins st)) (mg_loaded ?m)
      = filter (\<lambda>(p, _). map_of (rs_next st) p \<noteq> None) (mg_loaded ?m)"
    by (rule filter_cong) (force simp: removed_plugins_def)+
  ultimately show ?thesis
    by (simp add: reconcile_publish_def takeAllDisplacedPluginsLocked_def Let_def publish_actions_def publish_def replaced_plugins_def
        removed_plugins_def [symmetric] handler_key_def [abs_def] comp_def)
qed

lemma fold_MarkDraining:
  "vw_run (fold vexec (map (MarkDraining \<circ> f) xs) v) = vw_run v" "retired (fold vexec (map (MarkDraining \<circ> f) xs) v) = retired v"
  "vw_flag (fold vexec (map (MarkDraining \<circ> f) xs) v) = vw_flag v"
  "vw_draining (fold vexec (map (MarkDraining \<circ> f) xs) v) = vw_draining v \<union> f ` set xs"
  by (induction xs arbitrary: v)
    (auto simp: retired_vexec vexec_same vexec_flag vexec_draining fun_eq_iff set_eq_iff simp del: vexec.simps)

lemma fold_ClearDraining:
  "vw_run (fold vexec (map (ClearDraining \<circ> f) xs) v) = vw_run v" "retired (fold vexec (map (ClearDraining \<circ> f) xs) v) = retired v"
  by (induction xs arbitrary: v)
    (auto simp: retired_vexec vexec_same fun_eq_iff simp del: vexec.simps)

lemma all_allowed_drains: "all_allowed (map (MarkDraining \<circ> f) xs) v"
  by (induction xs arbitrary: v) (auto simp: strictly_allowed_def)

lemma all_allowed_publish:
  assumes "\<forall>l \<in> set ls \<union> snd ` set rs. lp_ok v l \<and> \<not> retired v (lp_runtime l)" "distinct (map lp_runtime (ls @ map snd rs))"
    and "\<forall>(p, l) \<in> set rs. lp_pluginID l = p" "\<forall>h \<in> set hs. \<not> retired v (vw_run v h)"
  shows "all_allowed (map MarkRuntime ls @ map (MarkDraining \<circ> fst) rs @ [Publish hs] @ map Retire ls @ map (Retire \<circ> snd) rs) v"
proof -
  let ?v = "fold vexec (map (MarkDraining \<circ> fst) rs) (fold vexec (map MarkRuntime ls) v)"
  have r: "retired ?v = retired v" "vw_run ?v = vw_run v" by (simp_all add: fold_MarkDraining fold_MarkRuntime)
  have "all_allowed (map Retire (ls @ map snd rs)) (vexec (Publish hs) ?v)"
  proof (intro all_allowed_retires ballI conjI)
    fix l assume l: "l \<in> set (ls @ map snd rs)"
    show "lp_ok (vexec (Publish hs) ?v) l" "\<not> retired (vexec (Publish hs) ?v) (lp_runtime l)"
      using l assms(1) r by (auto simp: lp_ok_def retired_vexec vexec_same simp del: vexec.simps)
    show "flagged (vexec (Publish hs) ?v) (lp_runtime l) \<or> lp_pluginID l \<in> vw_draining (vexec (Publish hs) ?v)"
    proof (cases "l \<in> set ls")
      case True
      then show ?thesis using assms(1) r
        by (auto simp: flagged_def lp_ok_def vexec_flag vexec_same fold_MarkDraining fold_MarkRuntime simp del: vexec.simps)
    next
      case False
      then obtain p where "(p, l) \<in> set rs" using l by auto
      then show ?thesis using assms(3) by (force simp: vexec_draining fold_MarkDraining simp del: vexec.simps)
    qed
  qed (rule assms(2))
  moreover have "strictly_allowed ?v (Publish hs)" using assms(4) by (simp add: strictly_allowed_def r)
  ultimately show ?thesis using all_allowed_drains [of fst rs] by (simp add: all_allowed_append all_allowed_marks comp_def)
qed

section \<open>Several plugins leave the draining state\<close>

definition clear_ok :: "string \<Rightarrow> system \<Rightarrow> bool" where
  "clear_ok p s = (\<forall>k. retired (view_of (fst s)) k \<and> rk_pluginID k = p \<longrightarrow> flagged (view_of (fst s)) k \<or> unreachable (view_of (fst s)) (snd s) k)"

lemma same_shape_fold: "same_shape v v' \<Longrightarrow> same_shape (fold vexec as v) (fold vexec as v')"
  by (induction as arbitrary: v v') (auto intro: same_shape_vexec)

lemma clear_ok_cstep:
  assumes "cstep (m, ts) (m', ts')" "sys_inv (view_of m) ts" "clear_ok p (m, ts)"
  shows "clear_ok p (m', ts')"
  using assms(3) cstep_unreachable [OF assms(1,2)] cstep_shape [OF assms(1,2)]
  by (auto simp: clear_ok_def same_shape_def flagged_def)

lemma clear_ok_clear: "clear_ok p (exec_action (ClearDraining q) m, ts) = clear_ok p (m, ts)"
  by (simp add: clear_ok_def view_of_exec flagged_def unreachable_def retired_def retiring_def is_stopped_def del: exec_action.simps)

lemma interleaved_clears:
  assumes "interleaved as s s'" "as = map ClearDraining ps @ acts" "sys_inv (view_of (fst s)) (snd s)" "\<forall>p \<in> set ps. clear_ok p s"
    and "all_allowed acts (fold vexec (map ClearDraining ps) (view_of (fst s)))"
  shows "sstep\<^sup>*\<^sup>* s s' \<and> mg_snapshot (fst s') = published acts (mg_snapshot (fst s))
    \<and> (\<forall>l. Retire l \<in> set acts \<longrightarrow> retired (view_of (fst s')) (lp_runtime l))"
  using assms
proof (induction arbitrary: ps rule: interleaved.induct)
  case (il_end s)
  then show ?case by simp
next
  case (il_connection s s1 as s'')
  obtain m ts m1 ts1 where s: "s = (m, ts)" "s1 = (m1, ts1)" by fastforce
  have inv: "sys_inv (view_of m) ts" and c: "cstep (m, ts) (m1, ts1)" using il_connection s by auto
  have step: "sstep s s1" using il_connection.hyps(1) by (rule cstep_sstep)
  have "all_allowed acts (fold vexec (map ClearDraining ps) (view_of m1))"
    using il_connection.prems(4) s all_allowed_shape [OF same_shape_fold [OF cstep_shape [OF c inv]]] by simp
  then have "sstep\<^sup>*\<^sup>* s1 s'' \<and> mg_snapshot (fst s'') = published acts (mg_snapshot (fst s1))
      \<and> (\<forall>l. Retire l \<in> set acts \<longrightarrow> retired (view_of (fst s'')) (lp_runtime l))"
    using il_connection.IH [OF il_connection.prems(1)] il_connection.prems(3) s clear_ok_cstep [OF c inv] cstep_facts(2) [OF c inv] by simp
  then show ?case using step cstep_facts(1) [OF c inv] s by (auto intro: converse_rtranclp_into_rtranclp)
next
  case (il_action as a m ts s'')
  show ?case
  proof (cases ps)
    case Nil
    then have "interleaved acts (m, ts) s''" using il_action.hyps il_action.prems(1) by (auto intro: interleaved.il_action)
    then show ?thesis using Nil il_action.prems interleaved_allowed [of acts "(m, ts)" s''] interleaved_result [of acts "(m, ts)" s''] by simp
  next
    case (Cons p ps')
    then have a: "a = ClearDraining p" "as = map ClearDraining ps' @ acts" using il_action.prems(1) by auto
    have step: "sstep (m, ts) (exec_action a m, ts)"
      using il_action.prems(3) Cons a by (intro sstep.manage) (auto simp: allowed_def retired_def clear_ok_def)
    then have inv: "sys_inv (view_of (exec_action a m)) ts" using plugin_retirement.inv_step [OF step] il_action.prems(2) by simp
    have "sstep\<^sup>*\<^sup>* (exec_action a m, ts) s'' \<and> mg_snapshot (fst s'') = published acts (mg_snapshot (fst (exec_action a m, ts)))
      \<and> (\<forall>l. Retire l \<in> set acts \<longrightarrow> retired (view_of (fst s'')) (lp_runtime l))"
    proof (rule il_action.IH [OF a(2)])
      show "sys_inv (view_of (fst (exec_action a m, ts))) (snd (exec_action a m, ts))" using inv by simp
      show "\<forall>p \<in> set ps'. clear_ok p (exec_action a m, ts)"
        using il_action.prems(3) Cons unfolding a clear_ok_clear by simp
      show "all_allowed acts (fold vexec (map ClearDraining ps') (view_of (fst (exec_action a m, ts))))"
        using il_action.prems(4) Cons a by (simp add: view_of_exec del: vexec.simps exec_action.simps)
    qed
    moreover have "mg_snapshot (exec_action a m) = mg_snapshot m" by (simp add: a clearDrainingLocked_def)
    ultimately show ?thesis using step by (auto intro: converse_rtranclp_into_rtranclp)
  qed
qed

lemma safely_retired_started:
  assumes "safely_retired (m, ts)" "view_of m' = started_stopped failed (view_of m)"
    and "\<forall>l \<in> set failed. unreachable (view_of m) ts (lp_runtime l) \<and> \<not> uses (view_of m) ts (lp_runtime l)"
  shows "safely_retired (m', ts)"
proof -
  have "is_stopped (started_stopped failed v) k \<longleftrightarrow> is_stopped v k \<or> k \<in> lp_runtime ` set failed" for v k
    by (auto simp: is_stopped_def started_stopped_def)
  moreover have "uses (started_stopped failed v) = uses v" "unreachable (started_stopped failed v) = unreachable v"
    "retiring (started_stopped failed v) = retiring v" "vw_draining (started_stopped failed v) = vw_draining v" for v
    by (auto simp: started_stopped_def uses_def unreachable_def retiring_def fun_eq_iff)
  ultimately show ?thesis
    using assms by (auto simp: safely_retired_def retired_def shielded_def)
qed

lemma sys_inv_started: "sys_inv (started_stopped failed v) ts = sys_inv v ts"
  by (simp add: sys_inv_def started_stopped_def lp_ok_def)

section \<open>What comes up\<close>

text \<open>A plugin about which every answer is good.\<close>

definition registers :: "loadedPlugin \<Rightarrow> bool" where
  "registers l = (lp_handlers l \<noteq> [] \<or> lp_extensions l)"

definition comes_up :: "reconcile_item \<Rightarrow> bool" where
  "comes_up i = (rc_gate i = None \<and> rc_mark i = None \<and> \<not> le_closing (rc_env i) \<and> le_artifact (rc_env i) = None \<and> le_gate (rc_env i) = None
     \<and> le_manifest (rc_env i) = None \<and> le_mark (rc_env i) = Inr True \<and> (\<exists>l. le_start (rc_env i) = Inr l \<and> registers l))"

lemma load_comes_up:
  assumes "comes_up i" "\<forall>l. map_of (mg_loaded m) (item_id i) = Some l \<longrightarrow> registers l"
  shows "\<exists>loaded replaced m1. loadLocked (rc_env i) (rc_rec i) m = (Inr (loaded, replaced), m1) \<and> registers loaded"
  using assms by (cases "map_of (mg_loaded m) (item_id i)") (auto simp: comes_up_def loadLocked_def Let_def)

lemma load_other:
  assumes "loadLocked env rec m = (r, m1)" "q \<noteq> pr_ID rec"
  shows "map_of (mg_loaded m1) q = map_of (mg_loaded m) q"
proof (cases r)
  case (Inl e)
  then show ?thesis using load_failed [OF assms(1) [unfolded Inl]] assms(2) by (auto simp: AList.delete_conv' stop_runtime_def)
next
  case (Inr x)
  then obtain loaded replaced where "loadLocked env rec m = (Inr (loaded, replaced), m1)" using assms(1) by (cases x) simp
  then show ?thesis using assms(2) by (cases rule: loadLocked_cases) (auto simp: AList.update_conv' AList.delete_conv')
qed

lemma reconcile_one_other:
  assumes "q \<noteq> item_id i"
  shows "map_of (mg_loaded (rs_m (reconcile_one i st))) q = map_of (mg_loaded (rs_m st)) q"
    and "map_of (rs_next (reconcile_one i st)) q = map_of (rs_next st) q"
proof -
  obtain r m1 where l: "loadLocked (rc_env i) (rc_rec i) (rs_m st) = (r, m1)" by fastforce
  show "map_of (mg_loaded (rs_m (reconcile_one i st))) q = map_of (mg_loaded (rs_m st)) q"
    using load_other [OF l assms] l by (auto simp: reconcile_one_def Let_def split: option.split sum.split prod.split)
  show "map_of (rs_next (reconcile_one i st)) q = map_of (rs_next st) q"
    using assms l by (auto simp: reconcile_one_def Let_def AList.update_conv' split: option.split sum.split prod.split)
qed

lemma reconcile_comes_up:
  assumes "distinct (map item_id items)" "\<forall>(p, l) \<in> set (mg_loaded m). registers l"
  shows "(\<forall>q. q \<notin> item_id ` set items \<longrightarrow>
      map_of (mg_loaded (rs_m (fold reconcile_one items (reconcile_init m)))) q = map_of (mg_loaded m) q)
    \<and> (\<forall>i \<in> set items. comes_up i \<longrightarrow> map_of (rs_next (fold reconcile_one items (reconcile_init m))) (item_id i) \<noteq> None)"
  using assms(1)
proof (induction items rule: rev_induct)
  case Nil
  then show ?case by (simp add: reconcile_init_def)
next
  case (snoc i items)
  let ?st = "fold reconcile_one items (reconcile_init m)"
  have IH: "\<forall>q. q \<notin> item_id ` set items \<longrightarrow> map_of (mg_loaded (rs_m ?st)) q = map_of (mg_loaded m) q"
    "\<forall>j \<in> set items. comes_up j \<longrightarrow> map_of (rs_next ?st) (item_id j) \<noteq> None" using snoc by simp_all
  have new: "item_id i \<notin> item_id ` set items" using snoc.prems by simp
  have "map_of (rs_next (reconcile_one i ?st)) (item_id i) \<noteq> None" if up: "comes_up i"
  proof -
    have "\<forall>l. map_of (mg_loaded (rs_m ?st)) (item_id i) = Some l \<longrightarrow> registers l"
      using IH(1) new assms(2) by (auto dest: map_of_SomeD)
    then obtain loaded replaced m1 where "loadLocked (rc_env i) (rc_rec i) (rs_m ?st) = (Inr (loaded, replaced), m1)" "registers loaded"
      using load_comes_up [OF up] by blast
    with up show ?thesis by (auto simp: reconcile_one_def comes_up_def Let_def registers_def AList.update_conv')
  qed
  moreover have "map_of (rs_next (reconcile_one i ?st)) (item_id j) \<noteq> None" if "j \<in> set items" "comes_up j" for j
    using that IH(2) new reconcile_one_other(2) [of "item_id j" i ?st] by (metis image_eqI)
  moreover have "map_of (mg_loaded (rs_m (reconcile_one i ?st))) q = map_of (mg_loaded m) q" if "q \<notin> item_id ` set (items @ [i])" for q
    using that IH(1) reconcile_one_other(1) [of q i ?st] by auto
  ultimately show ?case by auto
qed

section \<open>The result\<close>

lemma reconcile_loaded:
  assumes "reconcile_inv m items st"
  shows "snd ` set (filter (\<lambda>(p, _). map_of (rs_next st) p \<noteq> None) (mg_loaded (rs_m st))) = set (rs_enabled st)"
proof (intro equalityI subsetI)
  have ok: "mgr_ok (with_replaced (rs_replaced st) (rs_m st))" using assms unfolding reconcile_inv_def by blast
  note d = mgr_ok_with [OF ok]
  fix l
  assume "l \<in> snd ` set (filter (\<lambda>(p, _). map_of (rs_next st) p \<noteq> None) (mg_loaded (rs_m st)))"
  then obtain p hs where p: "(p, l) \<in> set (mg_loaded (rs_m st))" "map_of (rs_next st) p = Some hs" by auto
  then obtain l' where "l' \<in> set (rs_enabled st)" "lp_pluginID l' = p" using assms unfolding reconcile_inv_def by blast
  moreover from this have "map_of (mg_loaded (rs_m st)) p = Some l'" using assms unfolding reconcile_inv_def by blast
  ultimately show "l \<in> set (rs_enabled st)" using p(1) d by (metis map_of_is_SomeI option.inject)
next
  fix l
  assume l: "l \<in> set (rs_enabled st)"
  then have "map_of (mg_loaded (rs_m st)) (lp_pluginID l) = Some l" "map_of (rs_next st) (lp_pluginID l) = Some (lp_handlers l)"
    using assms unfolding reconcile_inv_def by blast+
  then show "l \<in> snd ` set (filter (\<lambda>(p, _). map_of (rs_next st) p \<noteq> None) (mg_loaded (rs_m st)))"
    by (force dest: map_of_SomeD)
qed

lemma reconcile_handlers:
  assumes "reconcile_inv m items st"
  shows "set (flattenHandlers (rs_next st)) = (\<Union>l \<in> set (rs_enabled st). set (lp_handlers l))"
proof -
  have "distinct (map fst (rs_next st))" using assms unfolding reconcile_inv_def by blast
  moreover have "\<forall>p hs. map_of (rs_next st) p = Some hs \<longleftrightarrow> (\<exists>l \<in> set (rs_enabled st). lp_pluginID l = p \<and> lp_handlers l = hs)"
    using assms unfolding reconcile_inv_def by blast
  ultimately show ?thesis by (auto simp: flatten_mem) blast
qed

lemma publish_actions_allowed:
  assumes "reconcile_inv m items st" "vw_run v = vw_run (view_of (rs_m st))" "retired v = retired (view_of (rs_m st))"
  shows "all_allowed (publish_actions st) v"
  unfolding publish_actions_def
proof (rule all_allowed_publish)
  have ok: "mgr_ok (with_replaced (rs_replaced st) (rs_m st))" using assms(1) unfolding reconcile_inv_def by blast
  note d = mgr_ok_with [OF ok]
  have mem: "lp_ok v l \<and> \<not> retired v (lp_runtime l)" if "l \<in> set (managed (rs_m st) @ rs_replaced st)" for l
    using ok that by (simp add: mgr_ok_def lp_ok_def assms(2,3))
  have sub: "mset (replaced_plugins st @ map snd (removed_plugins st)) \<subseteq># mset (managed (rs_m st) @ rs_replaced st)"
  proof -
    have "image_mset snd (filter_mset (\<lambda>(p, _). map_of (rs_next st) p = None) (mset (mg_loaded (rs_m st)))) \<subseteq># image_mset snd (mset (mg_loaded (rs_m st)))"
      by (rule image_mset_subseteq_mono) (rule multiset_filter_subset)
    then show ?thesis by (simp add: replaced_plugins_def removed_plugins_def managed_def union_commute add.left_commute)
  qed
  show "\<forall>l \<in> set (replaced_plugins st) \<union> snd ` set (removed_plugins st). lp_ok v l \<and> \<not> retired v (lp_runtime l)"
    using mem set_mset_mono [OF sub] by (auto simp: image_iff)
  show "distinct (map lp_runtime (replaced_plugins st @ map snd (removed_plugins st)))"
    using ok by (intro distinct_map_submset [OF sub]) (simp add: mgr_ok_def)
  show "\<forall>(p, l) \<in> set (removed_plugins st). lp_pluginID l = p" using d by (auto simp: removed_plugins_def)
  show "\<forall>h \<in> set (sort_key (handler_key (rs_m st)) (flattenHandlers (rs_next st))). \<not> retired v (vw_run v h)"
  proof
    fix h assume "h \<in> set (sort_key (handler_key (rs_m st)) (flattenHandlers (rs_next st)))"
    then obtain l where l: "l \<in> set (rs_enabled st)" "h \<in> set (lp_handlers l)" using reconcile_handlers [OF assms(1)] by auto
    then have "l \<in> set (managed (rs_m st) @ rs_replaced st)"
      using assms(1) managed_loaded unfolding reconcile_inv_def by fastforce
    with mem l(2) show "\<not> retired v (vw_run v h)" by (auto simp: lp_ok_def)
  qed
qed

lemma published_publish_actions:
  "published (publish_actions st) hs = sort_key (handler_key (rs_m st)) (flattenHandlers (rs_next st))"
proof -
  have "published (map (MarkDraining \<circ> fst) xs @ as) hs = published as hs" "published (map (Retire \<circ> snd) xs) hs = hs"
    for xs :: "(string \<times> loadedPlugin) list" and as hs
    by (induction xs) auto
  moreover have "published (map Retire ls @ as) hs = published as hs" for ls as hs by (induction ls) auto
  ultimately show ?thesis by (simp add: publish_actions_def)
qed

text \<open>A candidate that failed to start has come and gone unseen.\<close>

lemma clear_ok_started:
  assumes "view_of m' = started_stopped failed (view_of m)"
    and "\<forall>l \<in> set failed. unreachable (view_of m) ts (lp_runtime l) \<and> \<not> uses (view_of m) ts (lp_runtime l)" "clear_ok p (m, ts)"
  shows "clear_ok p (m', ts)"
proof -
  have "unreachable (started_stopped failed (view_of m)) = unreachable (view_of m)"
    by (simp add: unreachable_def started_stopped_def fun_eq_iff)
  then show ?thesis using assms by (auto simp: clear_ok_def)
qed

text \<open>What the loaded map becomes, and who is retired.\<close>

definition reconciled :: "reconcile_state \<Rightarrow> manager \<Rightarrow> bool" where
  "reconciled st m' = (m' = (rs_m st)\<lparr>mg_displaced := [], mg_extensions := rs_ext st,
      mg_loaded := filter (\<lambda>(p, _). map_of (rs_next st) p \<noteq> None) (mg_loaded (rs_m st))\<rparr>)"

lemma reconciled_up:
  assumes inv: "reconcile_inv m items st" and m': "reconciled st m'" and up: "map_of (rs_next st) p \<noteq> None"
  shows "p \<in> fst ` set (mg_loaded m')"
proof -
  obtain l where l: "l \<in> set (rs_enabled st)" "lp_pluginID l = p" using inv up unfolding reconcile_inv_def by blast
  moreover from this obtain q where q: "(q, l) \<in> set (mg_loaded m')"
    using reconcile_loaded [OF inv] m' by (force simp: reconciled_def)
  moreover have "mgr_ok (with_replaced (rs_replaced st) (rs_m st))" using inv unfolding reconcile_inv_def by blast
  then have "lp_pluginID l = q" using q mgr_ok_with m' by (fastforce simp: reconciled_def)
  ultimately show ?thesis by force
qed

lemma reconciled_retires:
  assumes "reconciled st m'" "x \<in> set (managed (rs_m st) @ rs_replaced st)" "x \<notin> snd ` set (mg_loaded m')"
  shows "Retire x \<in> set (publish_actions st)"
proof -
  have "x \<in> set (replaced_plugins st) \<union> snd ` set (removed_plugins st)"
    using assms by (auto simp: managed_def replaced_plugins_def removed_plugins_def reconciled_def image_iff)
  then show ?thesis by (auto simp: publish_actions_def)
qed

section \<open>Properties\<close>


definition demo_item :: reconcile_item where
  "demo_item = \<lparr>rc_rec = demo_record, rc_gate = None, rc_env = demo_env, rc_mark = None\<rparr>"

lemma demo_ready: "reconcile_ready [demo_item] demo_busy [demo_conn]"
proof -
  have run: "vw_run (view_of demo_busy) h = demo_run 2 \<longleftrightarrow> h = 2" for h
    unfolding demo_busy_view by (simp add: view_of_def demo_idle_def demo_handler_def demo_run_def demo_rt_def)
  have "lp_runtime (demo_plugin 2) = demo_run 2" by (simp add: demo_plugin_def)
  moreover have "unreachable (view_of demo_busy) [demo_conn] (demo_run 2)"
    unfolding unreachable_def run unfolding demo_busy_view by (simp add: view_of_def demo_idle_def demo_conn_def)
  moreover have "\<not> uses (view_of demo_busy) [demo_conn] (demo_run 2)"
    unfolding uses_def run unfolding demo_busy_view by (simp add: demo_conn_def)
  ultimately show ?thesis
    using demo_fresh by (simp add: reconcile_ready_def demo_item_def candidates_def demo_env_def)
qed


end
