(* ===== verification/Ops_Common.thy ===== *)
theory Ops_Common
  imports GoStd
begin

text \<open>
  The checks and redactions that the parts of \<open>operations.go\<close> and \<open>manager.go\<close> in \<open>src/internal/pluginmanager\<close> share.  \<open>uni\<close> is the lower-casing of
  strings outside ASCII.
\<close>

section \<open>Names\<close>

definition is_letter :: "byte \<Rightarrow> bool" where
  "is_letter c = (let n = (of_char c :: nat) in 65 \<le> n \<and> n \<le> 90 \<or> 97 \<le> n \<and> n \<le> 122)"

text \<open>\<open>metricNamePattern\<close> and \<open>storeKeyPattern\<close>.\<close>

definition metricName :: "string \<Rightarrow> bool" where
  "metricName s = (case s of
      [] \<Rightarrow> False
    | c # r \<Rightarrow> (is_letter c \<or> c = CHR ''_'') \<and> length r \<le> 127
        \<and> list_all (\<lambda>c. is_letter c \<or> is_digit c \<or> c \<in> set ''_.:-'') r)"

definition storeKeyName :: "string \<Rightarrow> bool" where
  "storeKeyName s = (case s of
      [] \<Rightarrow> False
    | c # r \<Rightarrow> (is_letter c \<or> is_digit c) \<and> length r \<le> 255
        \<and> list_all (\<lambda>c. is_letter c \<or> is_digit c \<or> c \<in> set ''_.:/-'') r)"

lemma metricName_elem: "metricName s \<Longrightarrow> clean_elem s"
  by (cases s) (auto simp: metricName_def clean_elem_def is_letter_def is_digit_def list_all_iff Let_def)

text \<open>The time a handler has, unless it is configured.\<close>

definition DefaultHandlerTimeout :: int where
  "DefaultHandlerTimeout = 3 * Second"

section \<open>Redaction\<close>

definition sensitive_markers :: "string list" where
  "sensitive_markers = [''secret'', ''token'', ''password'', ''session'', ''credential'', ''authorization'', ''packet'']"

definition redactSensitive :: "(string \<Rightarrow> string) \<Rightarrow> string \<Rightarrow> string" where
  "redactSensitive uni value =
    (if value = [] then []
     else if list_ex (Contains (ToLower uni value)) sensitive_markers then ''[REDACTED]'' else value)"

definition config_markers :: "string list" where
  "config_markers = [''secret'', ''password'', ''token'', ''key'', ''credential'']"

definition isSensitiveName :: "(string \<Rightarrow> string) \<Rightarrow> string \<Rightarrow> bool" where
  "isSensitiveName uni name = list_ex (\<lambda>marker. Contains (ToLower uni name) marker) config_markers"

section \<open>Store keys and paths\<close>

definition cleanStoreKey :: "string \<Rightarrow> string result" where
  "cleanStoreKey key =
    (let key = TrimSpace key in
     if key = [] \<or> \<not> storeKeyName key then Inl (ErrorString ''invalid plugin_data key'')
     else if Contains key ''..'' \<or> HasPrefix key ''/'' \<or> Contains key [CHR 0x5C] then Inl (ErrorString ''unsafe plugin_data key'')
     else Inr key)"

definition cleanStorePath :: "string \<Rightarrow> string result" where
  "cleanStorePath name =
    (if name = [] \<or> Contains name [CHR 0x5C] \<or> HasPrefix name ''/'' then Inl (ErrorString ''unsafe file path'')
     else let clean = path_Clean name in
       if clean = ''.'' \<or> clean \<noteq> name \<or> HasPrefix clean ''../'' \<or> clean = ''..'' \<or> HasPrefix clean ''/''
       then Inl (ErrorString ''unsafe file path'')
       else Inr clean)"

text \<open>\<open>retentionDeadline\<close> at a given time; 0 means for ever.\<close>

definition retentionDeadline :: "int \<Rightarrow> int \<Rightarrow> int" where
  "retentionDeadline now retention = (if retention \<le> 0 then 0 else Unix (now + retention))"

end
