(* ===== verification/Plugin_Config.thy ===== *)
theory Plugin_Config
  imports Complex_Main Ops_Common Tables
begin

text \<open>
  \<open>src/internal/pluginmanager/manager.go\<close>: plugin configurations.  Validation against the schema and the declared secrets, and the
  redaction of everything that is shown or logged of a configuration.

  \<open>encoding/json\<close> is a parameter.  A number is a \<open>float64\<close>, which is a rational; an object is a list of members with
  distinct names, whose order stands for the order in which Go walks the map.
\<close>

section \<open>Values\<close>

datatype jval =
    VNull
  | VBool bool
  | VNum rat
  | VStr string
  | VArr "jval list"
  | VObj "(string \<times> jval) list"

record json_codec =
  jc_Valid :: "string \<Rightarrow> bool"
  jc_Unmarshal :: "string \<Rightarrow> jval result"
  jc_Marshal :: "jval \<Rightarrow> string result"

text \<open>Decoding into a variable of type \<open>map[string]any\<close>.\<close>

definition Unmarshal_object :: "json_codec \<Rightarrow> string \<Rightarrow> (string \<times> jval) list result" where
  "Unmarshal_object c s = (case jc_Unmarshal c s of
      Inl e \<Rightarrow> Inl e
    | Inr (VObj m) \<Rightarrow> Inr m
    | Inr VNull \<Rightarrow> Inr []
    | Inr _ \<Rightarrow> Inl (ErrorString ''json: cannot unmarshal into Go value of type map[string]interface {}''))"

definition defaultJSONObject :: "json_codec \<Rightarrow> string \<Rightarrow> string" where
  "defaultJSONObject c value = (if value = [] \<or> \<not> jc_Valid c value then ''{}'' else value)"

text \<open>Reading a member: of a schema as a string, as an object, as a list.\<close>

definition str_member :: "(string \<times> jval) list \<Rightarrow> string \<Rightarrow> string" where
  "str_member m k = (case map_of m k of Some (VStr s) \<Rightarrow> s | _ \<Rightarrow> [])"

definition obj_member :: "(string \<times> jval) list \<Rightarrow> string \<Rightarrow> (string \<times> jval) list" where
  "obj_member m k = (case map_of m k of Some (VObj o') \<Rightarrow> o' | _ \<Rightarrow> [])"

definition arr_member :: "(string \<times> jval) list \<Rightarrow> string \<Rightarrow> jval list" where
  "arr_member m k = (case map_of m k of Some (VArr a) \<Rightarrow> a | _ \<Rightarrow> [])"

text \<open>\<open>reflect.DeepEqual\<close> on decoded values: objects are equal as maps.\<close>

fun deepEqual :: "jval \<Rightarrow> jval \<Rightarrow> bool"
and equal_items :: "jval list \<Rightarrow> jval list \<Rightarrow> bool"
and equal_members :: "(string \<times> jval) list \<Rightarrow> (string \<times> jval) list \<Rightarrow> bool" where
  "deepEqual (VArr xs) w = (case w of VArr ys \<Rightarrow> equal_items xs ys | _ \<Rightarrow> False)"
| "deepEqual (VObj m) w = (case w of VObj n \<Rightarrow> length m = length n \<and> equal_members m n | _ \<Rightarrow> False)"
| "deepEqual v w = (v = w)"
| "equal_items [] ys = (ys = [])"
| "equal_items (x # xs) ys = (case ys of [] \<Rightarrow> False | y # ys \<Rightarrow> deepEqual x y \<and> equal_items xs ys)"
| "equal_members [] n = True"
| "equal_members ((k, x) # m) n = (case map_of n k of None \<Rightarrow> False | Some y \<Rightarrow> deepEqual x y \<and> equal_members m n)"

section \<open>Schema validation\<close>

text \<open>
  Converting a \<open>float64\<close> outside the range of \<open>int64\<close> is left to the implementation: \<open>wild\<close> tells whether such a
  number equals its conversion there and back.
\<close>

definition integral :: "(rat \<Rightarrow> bool) \<Rightarrow> rat \<Rightarrow> bool" where
  "integral wild n = (if - (2 ^ 63) \<le> n \<and> n < 2 ^ 63 then of_int \<lfloor>n\<rfloor> = n else wild n)"

definition jsonTypeMatches :: "(rat \<Rightarrow> bool) \<Rightarrow> string \<Rightarrow> jval \<Rightarrow> bool" where
  "jsonTypeMatches wild typ v =
    (if typ = ''object'' then (case v of VObj _ \<Rightarrow> True | _ \<Rightarrow> False)
     else if typ = ''array'' then (case v of VArr _ \<Rightarrow> True | _ \<Rightarrow> False)
     else if typ = ''string'' then (case v of VStr _ \<Rightarrow> True | _ \<Rightarrow> False)
     else if typ = ''number'' then (case v of VNum _ \<Rightarrow> True | _ \<Rightarrow> False)
     else if typ = ''integer'' then (case v of VNum n \<Rightarrow> integral wild n | _ \<Rightarrow> False)
     else if typ = ''boolean'' then (case v of VBool _ \<Rightarrow> True | _ \<Rightarrow> False)
     else if typ = ''null'' then v = VNull
     else True)"

fun check_required :: "string \<Rightarrow> (string \<times> jval) list option \<Rightarrow> jval list \<Rightarrow> error option" where
  "check_required path obj [] = None"
| "check_required path obj (raw # rest) =
    (let name = (case raw of VStr s \<Rightarrow> s | _ \<Rightarrow> []) in
     if name = [] then check_required path obj rest
     else (case obj of
         None \<Rightarrow> Some (ErrorString (path @ '' must be object for required \"'' @ name @ ''\"''))
       | Some m \<Rightarrow> if map_of m name = None then Some (ErrorString (path @ ''.'' @ name @ '' is required''))
           else check_required path obj rest))"

text \<open>A reader of the value as an object: \<open>None\<close> is the nil map.\<close>

definition as_object :: "jval \<Rightarrow> (string \<times> jval) list option" where
  "as_object v = (case v of VObj m \<Rightarrow> Some m | _ \<Rightarrow> None)"

definition check_node :: "(rat \<Rightarrow> bool) \<Rightarrow> (string \<times> jval) list \<Rightarrow> jval \<Rightarrow> string \<Rightarrow> error option" where
  "check_node wild schema v path =
    (if str_member schema ''type'' \<noteq> [] \<and> \<not> jsonTypeMatches wild (str_member schema ''type'') v
     then Some (ErrorString (path @ '' must be '' @ str_member schema ''type''))
     else if arr_member schema ''enum'' \<noteq> [] \<and> \<not> list_ex (\<lambda>allowed. deepEqual allowed v) (arr_member schema ''enum'')
     then Some (ErrorString (path @ '' must match enum''))
     else check_required path (as_object v) (arr_member schema ''required''))"

text \<open>The recursion is bounded by the schema, given here by its members.\<close>

fun validateSchemaValue :: "(rat \<Rightarrow> bool) \<Rightarrow> jval \<Rightarrow> jval \<Rightarrow> string \<Rightarrow> error option"
and validate_props :: "(rat \<Rightarrow> bool) \<Rightarrow> (string \<times> jval) list \<Rightarrow> (string \<times> jval) list \<Rightarrow> string \<Rightarrow> error option"
and validate_members :: "(rat \<Rightarrow> bool) \<Rightarrow> (string \<times> jval) list \<Rightarrow> jval \<Rightarrow> string \<Rightarrow> error option" where
  "validateSchemaValue wild (VObj schema) v path = (case check_node wild schema v path of
      Some e \<Rightarrow> Some e
    | None \<Rightarrow> validate_members wild schema v path)"
| "validateSchemaValue wild _ v path = None"
| "validate_members wild [] v path = None"
| "validate_members wild ((key, sub) # schema) v path =
    (if key = ''properties'' then
       (case (sub, as_object v) of
          (VObj props, Some obj) \<Rightarrow> validate_props wild props obj path
        | _ \<Rightarrow> None)
     else validate_members wild schema v path)"
| "validate_props wild [] obj path = None"
| "validate_props wild ((name, propSchema) # props) obj path =
    (case map_of obj name of
       None \<Rightarrow> validate_props wild props obj path
     | Some child \<Rightarrow> (case validateSchemaValue wild propSchema child (path @ ''.'' @ name) of
         Some e \<Rightarrow> Some e
       | None \<Rightarrow> validate_props wild props obj path))"

definition validateConfigSchema :: "json_codec \<Rightarrow> (rat \<Rightarrow> bool) \<Rightarrow> string \<Rightarrow> string \<Rightarrow> error option" where
  "validateConfigSchema c wild schema configJSON =
    (if TrimSpace schema = [] \<or> schema = ''null'' then None
     else (case Unmarshal_object c schema of
         Inl e \<Rightarrow> Some (ErrorString (''invalid config_schema: '' @ Error e))
       | Inr rootSchema \<Rightarrow> (case jc_Unmarshal c configJSON of
           Inl e \<Rightarrow> Some e
         | Inr config \<Rightarrow> validateSchemaValue wild (VObj rootSchema) config ''$'')))"

section \<open>Secrets\<close>

definition direct_ref :: "jval \<Rightarrow> string list" where
  "direct_ref child = (case child of VStr r \<Rightarrow> if r \<noteq> [] then [r] else [] | _ \<Rightarrow> [])"

lemma direct_ref_mem: "r \<in> set (direct_ref child) \<longleftrightarrow> child = VStr r \<and> r \<noteq> []"
  by (cases child) (auto simp: direct_ref_def)

fun collectSecretRefs :: "(string \<Rightarrow> string) \<Rightarrow> jval \<Rightarrow> string list"
and secret_refs_items :: "(string \<Rightarrow> string) \<Rightarrow> jval list \<Rightarrow> string list"
and secret_refs_members :: "(string \<Rightarrow> string) \<Rightarrow> (string \<times> jval) list \<Rightarrow> string list" where
  "collectSecretRefs uni (VObj m) = secret_refs_members uni m"
| "collectSecretRefs uni (VArr xs) = secret_refs_items uni xs"
| "collectSecretRefs uni v = []"
| "secret_refs_items uni [] = []"
| "secret_refs_items uni (x # xs) = collectSecretRefs uni x @ secret_refs_items uni xs"
| "secret_refs_members uni [] = []"
| "secret_refs_members uni ((name, child) # m) =
    (if HasSuffix (ToLower uni name) ''_secret_ref'' then direct_ref child else [])
    @ collectSecretRefs uni child @ secret_refs_members uni m"

definition collectConfigSecretRefs :: "(string \<Rightarrow> string) \<Rightarrow> json_codec \<Rightarrow> string \<Rightarrow> string list result" where
  "collectConfigSecretRefs uni c configJSON = (case jc_Unmarshal c (defaultJSONObject c configJSON) of
      Inl e \<Rightarrow> Inl e
    | Inr v \<Rightarrow> Inr (collectSecretRefs uni v))"

record SecretSpec =
  sp_Name :: string
  sp_Required :: bool

text \<open>The stored secrets of the plugin, as the repository lists them: name and current version.\<close>

type_synonym secret_rows = "(string \<times> int) list"

text \<open>Declarations with the same name: the map keeps the last.\<close>

definition last_spec :: "SecretSpec list \<Rightarrow> SecretSpec \<Rightarrow> bool" where
  "last_spec specs s = (map_of (map (\<lambda>x. (sp_Name x, x)) (rev specs)) (sp_Name s) = Some s)"

definition validateSecretRefs ::
  "(string \<Rightarrow> string) \<Rightarrow> json_codec \<Rightarrow> secret_rows result \<Rightarrow> SecretSpec list \<Rightarrow> string \<Rightarrow> error option" where
  "validateSecretRefs uni c stored specs configJSON =
    (let declared = filter (\<lambda>s. sp_Name s \<noteq> []) specs in
     case collectConfigSecretRefs uni c configJSON of
       Inl e \<Rightarrow> Some e
     | Inr refs \<Rightarrow>
         (case (if declared = [] then None else find (\<lambda>r. r \<notin> sp_Name ` set declared) refs) of
            Some r \<Rightarrow> Some (ErrorString (''secret ref \"'' @ r @ ''\" is not declared by manifest''))
          | None \<Rightarrow>
              (let needed = refs @ map sp_Name (filter (\<lambda>s. sp_Required s \<and> last_spec declared s) declared) in
               if needed = [] then None
               else (case stored of
                   Inl e \<Rightarrow> Some e
                 | Inr rows \<Rightarrow>
                     (let missing = filter (\<lambda>r. \<not> (case map_of (rev rows) r of Some v \<Rightarrow> 0 < v | None \<Rightarrow> False)) needed in
                      if missing = [] then None
                      else Some (ErrorString (''missing configured secret ref(s): '' @ JoinWith '', '' (sort (remdups missing)))))))))"

section \<open>Redaction\<close>

definition config_redacted :: string where
  "config_redacted = ''[REDACTED]''"

definition isSensitiveSchema :: "(string \<Rightarrow> string) \<Rightarrow> (string \<times> jval) list \<Rightarrow> bool" where
  "isSensitiveSchema uni schema =
    (list_ex (\<lambda>key. map_of schema key = Some (VBool True)) [''sensitive'', ''secret'', ''writeOnly'']
     \<or> isSensitiveName uni (str_member schema ''format''))"

definition item_path :: "string \<Rightarrow> nat \<Rightarrow> string" where
  "item_path path idx = path @ ''['' @ show_base 10 idx @ '']''"

fun collectSensitiveSchemaPaths :: "(string \<Rightarrow> string) \<Rightarrow> jval \<Rightarrow> string \<Rightarrow> string list"
and schema_paths_members :: "(string \<Rightarrow> string) \<Rightarrow> (string \<times> jval) list \<Rightarrow> string \<Rightarrow> string list"
and schema_paths_props :: "(string \<Rightarrow> string) \<Rightarrow> (string \<times> jval) list \<Rightarrow> string \<Rightarrow> string list" where
  "collectSensitiveSchemaPaths uni (VObj schema) path =
    (if isSensitiveSchema uni schema then [path] else []) @ schema_paths_members uni schema path"
| "collectSensitiveSchemaPaths uni _ path = []"
| "schema_paths_members uni [] path = []"
| "schema_paths_members uni ((key, sub) # schema) path =
    (if key = ''properties'' then (case sub of VObj props \<Rightarrow> schema_paths_props uni props path | _ \<Rightarrow> [])
     else schema_paths_members uni schema path)"
| "schema_paths_props uni [] path = []"
| "schema_paths_props uni ((name, raw) # props) path =
    collectSensitiveSchemaPaths uni raw (path @ ''.'' @ name) @ schema_paths_props uni props path"

fun collectSensitiveNamePaths :: "(string \<Rightarrow> string) \<Rightarrow> jval \<Rightarrow> string \<Rightarrow> string list"
and name_paths_items :: "(string \<Rightarrow> string) \<Rightarrow> jval list \<Rightarrow> string \<Rightarrow> nat \<Rightarrow> string list"
and name_paths_members :: "(string \<Rightarrow> string) \<Rightarrow> (string \<times> jval) list \<Rightarrow> string \<Rightarrow> string list" where
  "collectSensitiveNamePaths uni (VObj m) path = name_paths_members uni m path"
| "collectSensitiveNamePaths uni (VArr xs) path = name_paths_items uni xs path 0"
| "collectSensitiveNamePaths uni v path = []"
| "name_paths_items uni [] path idx = []"
| "name_paths_items uni (x # xs) path idx =
    collectSensitiveNamePaths uni x (item_path path idx) @ name_paths_items uni xs path (Suc idx)"
| "name_paths_members uni [] path = []"
| "name_paths_members uni ((name, child) # m) path =
    (let childPath = path @ ''.'' @ name in
     (if isSensitiveName uni name then [childPath] else []) @ collectSensitiveNamePaths uni child childPath
     @ name_paths_members uni m path)"

text \<open>A schema that does not decode has no sensitive paths; neither has a configuration that does not.\<close>

definition sensitiveConfigPaths :: "(string \<Rightarrow> string) \<Rightarrow> json_codec \<Rightarrow> string \<Rightarrow> string \<Rightarrow> string list" where
  "sensitiveConfigPaths uni c schema configJSON =
    (let root_paths = (if schema = [] then [] else (case Unmarshal_object c schema of
           Inl _ \<Rightarrow> [] | Inr m \<Rightarrow> collectSensitiveSchemaPaths uni (VObj m) ''$''));
         name_paths = (case jc_Unmarshal c configJSON of Inl _ \<Rightarrow> [] | Inr v \<Rightarrow> collectSensitiveNamePaths uni v ''$'')
     in sort (remdups (root_paths @ name_paths)))"

fun redactValue :: "string set \<Rightarrow> jval \<Rightarrow> string \<Rightarrow> jval"
and redact_items :: "string set \<Rightarrow> jval list \<Rightarrow> string \<Rightarrow> nat \<Rightarrow> jval list"
and redact_members :: "string set \<Rightarrow> (string \<times> jval) list \<Rightarrow> string \<Rightarrow> (string \<times> jval) list" where
  "redactValue sensitive v path =
    (if path \<in> sensitive then VStr config_redacted
     else (case v of
         VObj m \<Rightarrow> VObj (redact_members sensitive m path)
       | VArr xs \<Rightarrow> VArr (redact_items sensitive xs path 0)
       | v \<Rightarrow> v))"
| "redact_items sensitive [] path idx = []"
| "redact_items sensitive (x # xs) path idx =
    redactValue sensitive x (item_path path idx) # redact_items sensitive xs path (Suc idx)"
| "redact_members sensitive [] path = []"
| "redact_members sensitive ((name, child) # m) path =
    (name, redactValue sensitive child (path @ ''.'' @ name)) # redact_members sensitive m path"

declare redactValue.simps [simp del]

definition redactJSON :: "json_codec \<Rightarrow> string \<Rightarrow> string list \<Rightarrow> string result" where
  "redactJSON c configJSON sensitivePaths = (case jc_Unmarshal c configJSON of
      Inl e \<Rightarrow> Inl e
    | Inr v \<Rightarrow> jc_Marshal c (redactValue (set sensitivePaths) v ''$''))"

definition redactedDiffJSON :: "json_codec \<Rightarrow> string \<Rightarrow> string \<Rightarrow> string list \<Rightarrow> string result" where
  "redactedDiffJSON c oldConfig newConfig sensitivePaths =
    (case redactJSON c (defaultJSONObject c oldConfig) sensitivePaths of
       Inl e \<Rightarrow> Inl e
     | Inr oldRedacted \<Rightarrow> (case redactJSON c (defaultJSONObject c newConfig) sensitivePaths of
         Inl e \<Rightarrow> Inl e
       | Inr newRedacted \<Rightarrow> (case jc_Unmarshal c oldRedacted of
           Inl e \<Rightarrow> Inl e
         | Inr oldValue \<Rightarrow> (case jc_Unmarshal c newRedacted of
             Inl e \<Rightarrow> Inl e
           | Inr newValue \<Rightarrow> jc_Marshal c (VObj [(''changed'', VBool (\<not> deepEqual oldValue newValue)),
                 (''before'', oldValue), (''after'', newValue)])))))"

text \<open>The texts that must not appear in messages: what redaction replaced.\<close>

fun collectRedactedTextValues :: "json_codec \<Rightarrow> jval \<Rightarrow> jval \<Rightarrow> string list"
and text_values_items :: "json_codec \<Rightarrow> jval list \<Rightarrow> jval list \<Rightarrow> string list"
and text_values_members :: "json_codec \<Rightarrow> (string \<times> jval) list \<Rightarrow> (string \<times> jval) list \<Rightarrow> string list" where
  "collectRedactedTextValues c original (VStr r) =
    (if r \<noteq> config_redacted then []
     else (case original of
         VStr raw \<Rightarrow> if raw \<noteq> [] then [raw] else []
       | raw \<Rightarrow> (case jc_Marshal c raw of Inr data \<Rightarrow> if data \<noteq> [] then [data] else [] | Inl _ \<Rightarrow> [])))"
| "collectRedactedTextValues c original (VObj m) =
    text_values_members c (case original of VObj raw \<Rightarrow> raw | _ \<Rightarrow> []) m"
| "collectRedactedTextValues c original (VArr xs) =
    text_values_items c (case original of VArr raw \<Rightarrow> raw | _ \<Rightarrow> []) xs"
| "collectRedactedTextValues c original _ = []"
| "text_values_items c raws [] = []"
| "text_values_items c raws (x # xs) =
    collectRedactedTextValues c (case raws of r # _ \<Rightarrow> r | [] \<Rightarrow> VNull) x @ text_values_items c (drop 1 raws) xs"
| "text_values_members c raws [] = []"
| "text_values_members c raws ((key, child) # m) =
    collectRedactedTextValues c (case map_of raws key of Some r \<Rightarrow> r | None \<Rightarrow> VNull) child @ text_values_members c raws m"

definition sensitiveConfigTextValues :: "json_codec \<Rightarrow> string \<Rightarrow> string list \<Rightarrow> string list" where
  "sensitiveConfigTextValues c configJSON sensitivePaths = (case jc_Unmarshal c (defaultJSONObject c configJSON) of
      Inl _ \<Rightarrow> []
    | Inr v \<Rightarrow> sort (remdups (collectRedactedTextValues c v (redactValue (set sensitivePaths) v ''$''))))"

definition redactSensitiveConfigText :: "json_codec \<Rightarrow> string \<Rightarrow> string \<Rightarrow> string list \<Rightarrow> string" where
  "redactSensitiveConfigText c text configJSON sensitivePaths =
    (if text = [] \<or> sensitivePaths = [] then text
     else fold (\<lambda>value text. if value \<noteq> [] then ReplaceAll text value config_redacted else text)
            (sensitiveConfigTextValues c configJSON sensitivePaths) text)"

section \<open>Dry run\<close>

record ConfigDryRunResult =
  dr_OK :: bool
  dr_RestartRequired :: bool
  dr_HotReload :: bool
  dr_SensitivePaths :: "string list"
  dr_RedactedConfigJSON :: string
  dr_RedactedDiffJSON :: string
  dr_Error :: string

record dry_run_env =
  de_artifact :: "string result" \<comment> \<open>the plugin the artifact belongs to\<close>
  de_gate :: "error option"
  de_manifest :: "(string \<times> SecretSpec list) result" \<comment> \<open>its configuration schema and declared secrets\<close>
  de_secrets :: "secret_rows result"
  de_record :: "error option" \<comment> \<open>of \<open>pluginRecordForDryRun\<close>\<close>
  de_adapter :: "error option" \<comment> \<open>of the runtime's own dry run\<close>
  de_current :: "string option" \<comment> \<open>the stored configuration\<close>
  de_loaded :: "string option" \<comment> \<open>the artifact that is loaded\<close>

definition dry_failed :: "string \<Rightarrow> ConfigDryRunResult" where
  "dry_failed msg = \<lparr>dr_OK = False, dr_RestartRequired = False, dr_HotReload = False, dr_SensitivePaths = [],
     dr_RedactedConfigJSON = [], dr_RedactedDiffJSON = [], dr_Error = msg\<rparr>"

definition dry_run_show ::
  "(string \<Rightarrow> string) \<Rightarrow> json_codec \<Rightarrow> dry_run_env \<Rightarrow> string \<Rightarrow> string \<Rightarrow> string \<Rightarrow> ConfigDryRunResult" where
  "dry_run_show uni c env artifactID schema configJSON =
    (let sensitivePaths = sensitiveConfigPaths uni c schema configJSON in
     case de_record env of
       Some e \<Rightarrow> dry_failed (Error e)
     | None \<Rightarrow> (case de_adapter env of
         Some e \<Rightarrow> dry_failed (redactSensitiveConfigText c (Error e) configJSON sensitivePaths)
       | None \<Rightarrow>
           (let currentConfig = (case de_current env of Some s \<Rightarrow> s | None \<Rightarrow> ''{}'') in
            case redactJSON c configJSON sensitivePaths of
              Inl e \<Rightarrow> dry_failed (Error e)
            | Inr redactedConfig \<Rightarrow> (case redactedDiffJSON c currentConfig configJSON sensitivePaths of
                Inl e \<Rightarrow> dry_failed (Error e)
              | Inr diff \<Rightarrow>
                  (let restart = (case de_loaded env of Some a \<Rightarrow> a \<noteq> artifactID | None \<Rightarrow> False) in
                   \<lparr>dr_OK = True, dr_RestartRequired = restart, dr_HotReload = \<not> restart, dr_SensitivePaths = sensitivePaths,
                    dr_RedactedConfigJSON = redactedConfig, dr_RedactedDiffJSON = diff, dr_Error = []\<rparr>)))))"

definition DryRunConfig ::
  "(string \<Rightarrow> string) \<Rightarrow> json_codec \<Rightarrow> (rat \<Rightarrow> bool) \<Rightarrow> dry_run_env \<Rightarrow> string \<Rightarrow> string \<Rightarrow> string \<Rightarrow> ConfigDryRunResult" where
  "DryRunConfig uni c wild env pluginID artifactID configJSON =
    (let configJSON = (if configJSON = [] then ''{}'' else configJSON) in
     if \<not> jc_Valid c configJSON then dry_failed ''config_json must be valid JSON''
     else (case de_artifact env of
         Inl e \<Rightarrow> dry_failed (Error e)
       | Inr owner \<Rightarrow>
           if owner \<noteq> pluginID then dry_failed ''artifact plugin_id does not match''
           else (case de_gate env of
               Some e \<Rightarrow> dry_failed (Error e)
             | None \<Rightarrow> (case de_manifest env of
                 Inl e \<Rightarrow> dry_failed (Error e)
               | Inr (schema, specs) \<Rightarrow> (case validateConfigSchema c wild schema configJSON of
                   Some e \<Rightarrow> dry_failed (Error e)
                 | None \<Rightarrow> (case validateSecretRefs uni c (de_secrets env) specs configJSON of
                     Some e \<Rightarrow> dry_failed (Error e)
                   | None \<Rightarrow> dry_run_show uni c env artifactID schema configJSON))))))"

section \<open>Lemmas\<close>

text \<open>Nothing under a sensitive name but the redaction mark, at any depth.\<close>

fun clean :: "(string \<Rightarrow> string) \<Rightarrow> jval \<Rightarrow> bool"
and clean_items :: "(string \<Rightarrow> string) \<Rightarrow> jval list \<Rightarrow> bool"
and clean_members :: "(string \<Rightarrow> string) \<Rightarrow> (string \<times> jval) list \<Rightarrow> bool" where
  "clean uni (VObj m) = clean_members uni m"
| "clean uni (VArr xs) = clean_items uni xs"
| "clean uni v = True"
| "clean_items uni [] = True"
| "clean_items uni (x # xs) = (clean uni x \<and> clean_items uni xs)"
| "clean_members uni [] = True"
| "clean_members uni ((name, child) # m) =
    ((isSensitiveName uni name \<longrightarrow> child = VStr config_redacted) \<and> clean uni child \<and> clean_members uni m)"

lemma redact_clean:
  "set (collectSensitiveNamePaths uni v path) \<subseteq> S \<Longrightarrow> clean uni (redactValue S v path)"
  "set (name_paths_items uni xs path idx) \<subseteq> S \<Longrightarrow> clean_items uni (redact_items S xs path idx)"
  "set (name_paths_members uni m path) \<subseteq> S \<Longrightarrow> clean_members uni (redact_members S m path)"
proof (induction uni v path and uni xs path idx and uni m path
    rule: collectSensitiveNamePaths_name_paths_items_name_paths_members.induct, goal_cases)
  case (10 uni name child m path)
  then have "clean uni (redactValue S child (path @ ''.'' @ name))" "clean_members uni (redact_members S m path)"
    by (auto simp: Let_def)
  moreover have "isSensitiveName uni name \<Longrightarrow> redactValue S child (path @ ''.'' @ name) = VStr config_redacted"
    using 10 by (simp add: Let_def redactValue.simps)
  ultimately show ?case by simp
qed (auto simp: redactValue.simps)

lemma name_paths_sensitive:
  "jc_Unmarshal c configJSON = Inr v \<Longrightarrow> set (collectSensitiveNamePaths uni v ''$'') \<subseteq> set (sensitiveConfigPaths uni c schema configJSON)"
  by (auto simp: sensitiveConfigPaths_def Let_def)

lemma redactJSON_clean:
  assumes "redactJSON c configJSON (sensitiveConfigPaths uni c schema configJSON) = Inr text"
  obtains w where "jc_Marshal c w = Inr text" "clean uni w"
proof -
  obtain v where v: "jc_Unmarshal c configJSON = Inr v"
    and m: "jc_Marshal c (redactValue (set (sensitiveConfigPaths uni c schema configJSON)) v ''$'') = Inr text"
    using assms by (auto simp: redactJSON_def split: sum.splits)
  from that [OF m redact_clean(1) [OF name_paths_sensitive [OF v]]] show ?thesis .
qed

text \<open>With nothing sensitive, redaction changes nothing.\<close>

lemma redact_nothing:
  "redactValue {} v path = v" "redact_items {} xs path idx = xs" "redact_members {} m path = m"
proof (induction "{} :: string set" v path and "{} :: string set" xs path idx and "{} :: string set" m path
    rule: redactValue_redact_items_redact_members.induct, goal_cases)
  case (1 v path)
  then show ?case by (cases v) (simp_all add: redactValue.simps)
qed auto

lemma DryRunConfig_ok:
  assumes "dr_OK (DryRunConfig uni c wild env pluginID artifactID configJSON)" "configJSON \<noteq> []"
  obtains schema specs where "jc_Valid c configJSON" "de_manifest env = Inr (schema, specs)"
    "validateConfigSchema c wild schema configJSON = None" "validateSecretRefs uni c (de_secrets env) specs configJSON = None"
    "DryRunConfig uni c wild env pluginID artifactID configJSON = dry_run_show uni c env artifactID schema configJSON"
  using assms unfolding DryRunConfig_def Let_def
  by (auto simp: dry_failed_def split: if_splits sum.splits option.splits)

lemma dry_run_show_ok:
  assumes "dr_OK (dry_run_show uni c env artifactID schema configJSON)"
  shows "dr_SensitivePaths (dry_run_show uni c env artifactID schema configJSON) = sensitiveConfigPaths uni c schema configJSON"
    "redactJSON c configJSON (sensitiveConfigPaths uni c schema configJSON) = Inr (dr_RedactedConfigJSON (dry_run_show uni c env artifactID schema configJSON))"
    "redactedDiffJSON c (case de_current env of Some s \<Rightarrow> s | None \<Rightarrow> ''{}'') configJSON (sensitiveConfigPaths uni c schema configJSON)
      = Inr (dr_RedactedDiffJSON (dry_run_show uni c env artifactID schema configJSON))"
  using assms unfolding dry_run_show_def Let_def
  by (auto simp: dry_failed_def split: sum.splits option.splits)

text \<open>What a schema demands of the value it describes.\<close>

definition node_conforms :: "(rat \<Rightarrow> bool) \<Rightarrow> (string \<times> jval) list \<Rightarrow> jval \<Rightarrow> bool" where
  "node_conforms wild schema v =
    ((str_member schema ''type'' = [] \<or> jsonTypeMatches wild (str_member schema ''type'') v)
     \<and> (arr_member schema ''enum'' = [] \<or> (\<exists>allowed \<in> set (arr_member schema ''enum''). deepEqual allowed v))
     \<and> (\<forall>name. VStr name \<in> set (arr_member schema ''required'') \<and> name \<noteq> [] \<longrightarrow> (\<exists>m. v = VObj m \<and> map_of m name \<noteq> None)))"

lemma check_required_None:
  "check_required path obj raws = None \<longleftrightarrow> (\<forall>name. VStr name \<in> set raws \<and> name \<noteq> [] \<longrightarrow> (\<exists>m. obj = Some m \<and> map_of m name \<noteq> None))"
proof (induction raws)
  case (Cons raw raws)
  show ?case
  proof (cases "\<exists>name. raw = VStr name \<and> name \<noteq> []")
    case True
    then obtain name where "raw = VStr name" "name \<noteq> []" by blast
    with Cons.IH show ?thesis by (cases obj) auto
  next
    case False
    then have "check_required path obj (raw # raws) = check_required path obj raws"
      by (cases raw) (auto simp: Let_def)
    with Cons.IH False show ?thesis by auto
  qed
qed simp

lemma check_node_None: "check_node wild schema v path = None \<longleftrightarrow> node_conforms wild schema v"
  by (auto simp: check_node_def node_conforms_def check_required_None as_object_def list_ex_iff split: jval.splits)

fun distinct_keys :: "jval \<Rightarrow> bool"
and distinct_keys_items :: "jval list \<Rightarrow> bool"
and distinct_keys_members :: "(string \<times> jval) list \<Rightarrow> bool" where
  "distinct_keys (VObj m) = (distinct (map fst m) \<and> distinct_keys_members m)"
| "distinct_keys (VArr xs) = distinct_keys_items xs"
| "distinct_keys v = True"
| "distinct_keys_items [] = True"
| "distinct_keys_items (x # xs) = (distinct_keys x \<and> distinct_keys_items xs)"
| "distinct_keys_members [] = True"
| "distinct_keys_members ((k, x) # m) = (distinct_keys x \<and> distinct_keys_members m)"

text \<open>The sub-schema and the value at a path of member names.\<close>

fun schema_at :: "jval \<Rightarrow> string list \<Rightarrow> jval option" where
  "schema_at s [] = Some s"
| "schema_at s (n # ns) = (case s of
      VObj m \<Rightarrow> (case map_of (obj_member m ''properties'') n of Some sub \<Rightarrow> schema_at sub ns | None \<Rightarrow> None)
    | _ \<Rightarrow> None)"

fun value_at :: "jval \<Rightarrow> string list \<Rightarrow> jval option" where
  "value_at v [] = Some v"
| "value_at v (n # ns) = (case v of
      VObj m \<Rightarrow> (case map_of m n of Some child \<Rightarrow> value_at child ns | None \<Rightarrow> None)
    | _ \<Rightarrow> None)"

definition conforms :: "(rat \<Rightarrow> bool) \<Rightarrow> jval \<Rightarrow> jval \<Rightarrow> bool" where
  "conforms wild s v = (\<forall>ns sub w. schema_at s ns = Some (VObj sub) \<and> value_at v ns = Some w \<longrightarrow> node_conforms wild sub w)"

lemma conforms_step:
  "conforms wild (VObj schema) v \<longleftrightarrow> node_conforms wild schema v
    \<and> (\<forall>obj n sub child. v = VObj obj \<and> map_of (obj_member schema ''properties'') n = Some sub \<and> map_of obj n = Some child
        \<longrightarrow> conforms wild sub child)" (is "?L \<longleftrightarrow> ?R")
proof
  assume L: ?L
  have "node_conforms wild schema v" using L unfolding conforms_def by (metis schema_at.simps(1) value_at.simps(1))
  moreover have "conforms wild sub child"
    if "v = VObj obj" "map_of (obj_member schema ''properties'') n = Some sub" "map_of obj n = Some child" for obj n sub child
    unfolding conforms_def
  proof (intro allI impI)
    fix ns sub' w assume "schema_at sub ns = Some (VObj sub') \<and> value_at child ns = Some w"
    with that have "schema_at (VObj schema) (n # ns) = Some (VObj sub')" "value_at v (n # ns) = Some w" by auto
    with L show "node_conforms wild sub' w" unfolding conforms_def by blast
  qed
  ultimately show ?R by blast
next
  assume R: ?R
  show ?L unfolding conforms_def
  proof (intro allI impI)
    fix ns sub w assume a: "schema_at (VObj schema) ns = Some (VObj sub) \<and> value_at v ns = Some w"
    show "node_conforms wild sub w"
    proof (cases ns)
      case Nil
      with a R show ?thesis by simp
    next
      case (Cons n ms)
      with a R show ?thesis by (auto simp: conforms_def split: option.splits jval.splits)
    qed
  qed
qed

lemma conforms_other: "(\<And>m. s \<noteq> VObj m) \<Longrightarrow> conforms wild s v"
proof -
  assume "\<And>m. s \<noteq> VObj m"
  then have "schema_at s ns \<noteq> Some (VObj sub)" for ns sub by (cases ns) (auto split: jval.splits)
  then show ?thesis by (simp add: conforms_def)
qed

lemma validate_conforms:
  "distinct_keys s \<Longrightarrow> validateSchemaValue wild s v path = None \<longleftrightarrow> conforms wild s v"
  "distinct (map fst props) \<Longrightarrow> distinct_keys_members props \<Longrightarrow> validate_props wild props obj path = None \<longleftrightarrow>
     (\<forall>n sub child. map_of props n = Some sub \<and> map_of obj n = Some child \<longrightarrow> conforms wild sub child)"
  "distinct (map fst schema) \<Longrightarrow> distinct_keys_members schema \<Longrightarrow> validate_members wild schema v path = None \<longleftrightarrow>
     (\<forall>obj n sub child. v = VObj obj \<and> map_of (obj_member schema ''properties'') n = Some sub \<and> map_of obj n = Some child
        \<longrightarrow> conforms wild sub child)"
proof (induction wild s v path and wild props obj path and wild schema v path
    rule: validateSchemaValue_validate_props_validate_members.induct, goal_cases)
  case (1 wild schema v path)
  then show ?case by (simp add: conforms_step check_node_None [symmetric, of _ _ _ path] split: option.split)
next
  case (8 wild key sub schema v path)
  then show ?case
  proof (cases "key = ''properties''")
    case True
    with 8 show ?thesis by (auto simp: obj_member_def as_object_def split: jval.splits)
  next
    case False
    with 8 show ?thesis by (simp add: obj_member_def)
  qed
next
  case (10 wild name propSchema props obj path)
  have "map_of props name = None" using "10"(4) by (simp add: map_of_eq_None_iff)
  then have "(\<forall>n sub child. map_of ((name, propSchema) # props) n = Some sub \<and> map_of obj n = Some child \<longrightarrow> conforms wild sub child)
      \<longleftrightarrow> (\<forall>child. map_of obj name = Some child \<longrightarrow> conforms wild propSchema child)
        \<and> (\<forall>n sub child. map_of props n = Some sub \<and> map_of obj n = Some child \<longrightarrow> conforms wild sub child)"
    by (auto simp del: map_of_eq_Some_iff split: if_splits) (metis option.distinct(1))
  then show ?case using 10
    by (cases "map_of obj name"; cases "validateSchemaValue wild propSchema (the (map_of obj name)) (path @ ''.'' @ name)")
      (simp_all del: map_of.simps map_of_eq_Some_iff)
qed (simp_all add: conforms_other obj_member_def)

text \<open>A secret reference somewhere in a configuration.\<close>

inductive mentions :: "(string \<Rightarrow> string) \<Rightarrow> jval \<Rightarrow> string \<Rightarrow> bool" for uni where
  here: "(name, VStr r) \<in> set m \<Longrightarrow> HasSuffix (ToLower uni name) ''_secret_ref'' \<Longrightarrow> r \<noteq> [] \<Longrightarrow> mentions uni (VObj m) r"
| member: "(name, child) \<in> set m \<Longrightarrow> mentions uni child r \<Longrightarrow> mentions uni (VObj m) r"
| item: "x \<in> set xs \<Longrightarrow> mentions uni x r \<Longrightarrow> mentions uni (VArr xs) r"

lemma mentions_mono: "mentions uni (VObj m) r \<Longrightarrow> set m \<subseteq> set n \<Longrightarrow> mentions uni (VObj n) r"
  by (erule mentions.cases) (auto intro: mentions.intros)

lemma refs_mentioned:
  "r \<in> set (collectSecretRefs uni v) \<Longrightarrow> mentions uni v r"
  "r \<in> set (secret_refs_items uni xs) \<Longrightarrow> mentions uni (VArr xs) r"
  "r \<in> set (secret_refs_members uni m) \<Longrightarrow> mentions uni (VObj m) r"
proof (induction uni v and uni xs and uni m rule: collectSecretRefs_secret_refs_items_secret_refs_members.induct, goal_cases)
  case (8 uni x xs)
  then consider "mentions uni x r" | "mentions uni (VArr xs) r" by auto
  then show ?case
  proof cases
    case 2
    then show ?thesis by (rule mentions.cases) (auto intro: mentions.item)
  qed (auto intro: mentions.item)
next
  case (10 uni name child m)
  then consider "child = VStr r" "HasSuffix (ToLower uni name) ''_secret_ref''" "r \<noteq> []" | "mentions uni child r" | "mentions uni (VObj m) r"
    by (auto simp: direct_ref_mem split: if_splits)
  then show ?case by cases (auto intro: mentions.here mentions.member mentions_mono)
qed auto

lemma mentioned_refs: "mentions uni v r \<Longrightarrow> r \<in> set (collectSecretRefs uni v)"
proof (induction rule: mentions.induct)
  case (here name r m)
  then have "r \<in> set (secret_refs_members uni m)" by (induction m) (auto simp: direct_ref_mem)
  then show ?case by simp
next
  case (member name child m r)
  from member(1,3) have "r \<in> set (secret_refs_members uni m)" by (induction m) auto
  then show ?case by simp
next
  case (item x xs r)
  from item(1,3) have "r \<in> set (secret_refs_items uni xs)" by (induction xs) auto
  then show ?case by simp
qed

lemma collectSecretRefs_mentions: "r \<in> set (collectSecretRefs uni v) \<longleftrightarrow> mentions uni v r"
  using refs_mentioned(1) mentioned_refs by blast

text \<open>A table of texts and what they decode to is a codec.\<close>

definition table_codec :: "(string \<times> jval) list \<Rightarrow> json_codec" where
  "table_codec T = \<lparr>jc_Valid = (\<lambda>t. map_of T t \<noteq> None),
     jc_Unmarshal = (\<lambda>t. case map_of T t of Some v \<Rightarrow> Inr v | None \<Rightarrow> Inl (ErrorString ''invalid character'')),
     jc_Marshal = (\<lambda>v. case find (\<lambda>(t, w). w = v) T of Some (t, _) \<Rightarrow> Inr t | None \<Rightarrow> Inl (ErrorString ''unsupported value''))\<rparr>"

lemma table_codec_roundtrip:
  assumes "distinct (map fst T)" "jc_Marshal (table_codec T) x = Inr text"
  shows "jc_Unmarshal (table_codec T) text = Inr x"
proof -
  obtain w where "find (\<lambda>(t, w). w = x) T = Some (text, w)"
    using assms(2) by (auto simp: table_codec_def split: option.splits)
  then have "(text, x) \<in> set T" by (auto simp: find_Some_iff in_set_conv_nth)
  with assms(1) show ?thesis by (simp add: table_codec_def)
qed

definition demo_texts :: "(string \<times> jval) list" where
  "demo_texts = [(''{}'', VObj []), (''stored'', VObj [(''password'', VStr ''hunter2'')]),
     (''given'', VObj [(''api_token'', VStr ''t0p''), (''debug'', VBool True)]),
     (''given redacted'', VObj [(''api_token'', VStr ''[REDACTED]''), (''debug'', VBool True)]),
     (''diff'', VObj [(''changed'', VBool True), (''before'', VObj []),
        (''after'', VObj [(''api_token'', VStr ''[REDACTED]''), (''debug'', VBool True)])]),
     (''leak'', VObj [(''changed'', VBool True), (''before'', VObj [(''password'', VStr ''hunter2'')]), (''after'', VObj [])]),
     (''two'', VObj [(''password'', VStr ''hunter''), (''token'', VStr ''hunter2-xyz''), (''db_secret_ref'', VStr ''db'')])]"

definition demo_codec :: json_codec where
  "demo_codec = table_codec demo_texts"

lemma demo_codec_roundtrip: "jc_Marshal demo_codec x = Inr text \<Longrightarrow> jc_Unmarshal demo_codec text = Inr x"
  unfolding demo_codec_def by (rule table_codec_roundtrip) (simp_all add: demo_texts_def)

definition demo_dry :: "string option \<Rightarrow> dry_run_env" where
  "demo_dry current = \<lparr>de_artifact = Inr ''p'', de_gate = None, de_manifest = Inr ([], []), de_secrets = Inr [], de_record = None,
     de_adapter = None, de_current = current, de_loaded = None\<rparr>"

lemma demo_dry_ok: "dr_OK (DryRunConfig id demo_codec (\<lambda>_. False) (demo_dry None) ''p'' ''a'' ''given'')"
  by code_simp

lemma empty_trim: "TrimSpace [] = []"
  by code_simp

section \<open>Properties\<close>

text \<open>
  C12: what schema validation accepts.  A configuration passes exactly when, at every path of member names that the schema
  and the configuration both have, the value has the declared type, is one of the listed values
  if there is a list, and has all required members; in which order members are visited does not matter.
\<close>

theorem validateSchemaValue_conforms:
  assumes "distinct_keys schema"
  shows "validateSchemaValue wild schema v path = None \<longleftrightarrow>
    (\<forall>ns sub w. schema_at schema ns = Some (VObj sub) \<and> value_at v ns = Some w \<longrightarrow>
       (str_member sub ''type'' = [] \<or> jsonTypeMatches wild (str_member sub ''type'') w)
       \<and> (arr_member sub ''enum'' = [] \<or> (\<exists>allowed \<in> set (arr_member sub ''enum''). deepEqual allowed w))
       \<and> (\<forall>name. VStr name \<in> set (arr_member sub ''required'') \<and> name \<noteq> [] \<longrightarrow> (\<exists>m. w = VObj m \<and> map_of m name \<noteq> None)))"
  using validate_conforms(1) [OF assms] unfolding conforms_def node_conforms_def .

definition demo_schema :: jval where
  "demo_schema = VObj [(''properties'', VObj [(''limit'', VObj [(''type'', VStr ''integer'')])])]"

theorem validateSchemaValue_conforms_witness:
  "\<not> (\<forall>ns sub w. schema_at demo_schema ns = Some (VObj sub) \<and> value_at (VObj [(''limit'', VStr ''many'')]) ns = Some w \<longrightarrow>
       (str_member sub ''type'' = [] \<or> jsonTypeMatches (\<lambda>_. False) (str_member sub ''type'') w)
       \<and> (arr_member sub ''enum'' = [] \<or> (\<exists>allowed \<in> set (arr_member sub ''enum''). deepEqual allowed w))
       \<and> (\<forall>name. VStr name \<in> set (arr_member sub ''required'') \<and> name \<noteq> [] \<longrightarrow> (\<exists>m. w = VObj m \<and> map_of m name \<noteq> None)))"
proof -
  have "distinct_keys demo_schema" by (simp add: demo_schema_def)
  from validateSchemaValue_conforms [OF this, of "\<lambda>_. False" "VObj [(''limit'', VStr ''many'')]" "''$''"] show ?thesis
    by (simp add: demo_schema_def check_node_def str_member_def arr_member_def as_object_def jsonTypeMatches_def)
qed



text \<open>
  what a dry run shows of the stored configuration.  The sensitive paths are computed from the given configuration
  only.  With a plugin whose schema marks nothing, a dry run of the empty configuration
  answers with the stored one in full, secrets included.
\<close>

theorem dry_run_reveals_stored:
  assumes "\<And>x text. jc_Marshal c x = Inr text \<Longrightarrow> jc_Unmarshal c text = Inr x"
    and "jc_Valid c ''{}''" "jc_Unmarshal c ''{}'' = Inr (VObj [])" "jc_Marshal c (VObj []) = Inr empty_text"
    and "jc_Valid c stored" "stored \<noteq> []" "jc_Unmarshal c stored = Inr v" "jc_Marshal c v = Inr stored_text"
    and "jc_Marshal c (VObj [(''changed'', VBool (\<not> deepEqual v (VObj []))), (''before'', v), (''after'', VObj [])]) = Inr diff"
    and "de_artifact env = Inr pluginID" "de_gate env = None" "de_manifest env = Inr ([], [])" "de_record env = None"
    and "de_adapter env = None" "de_current env = Some stored"
  shows "dr_OK (DryRunConfig uni c wild env pluginID artifactID [])
    \<and> jc_Unmarshal c (dr_RedactedDiffJSON (DryRunConfig uni c wild env pluginID artifactID []))
      = Inr (VObj [(''changed'', VBool (\<not> deepEqual v (VObj []))), (''before'', v), (''after'', VObj [])])"
proof -
  have paths: "sensitiveConfigPaths uni c [] ''{}'' = []" using assms(3) by (simp add: sensitiveConfigPaths_def)
  have schema: "validateConfigSchema c wild [] ''{}'' = None" 
    by (simp add: validateConfigSchema_def empty_trim)
  have secrets: "validateSecretRefs uni c (de_secrets env) [] ''{}'' = None"
    using assms(2,3) by (simp add: validateSecretRefs_def collectConfigSecretRefs_def defaultJSONObject_def)
  have "redactedDiffJSON c stored ''{}'' [] = Inr diff"
    using assms(1) [OF assms(8)] assms(1) [OF assms(4)] assms(2-9)
    by (simp add: redactedDiffJSON_def redactJSON_def defaultJSONObject_def redact_nothing)
  then have "DryRunConfig uni c wild env pluginID artifactID [] = \<lparr>dr_OK = True,
      dr_RestartRequired = (case de_loaded env of Some a \<Rightarrow> a \<noteq> artifactID | None \<Rightarrow> False),
      dr_HotReload = (\<not> (case de_loaded env of Some a \<Rightarrow> a \<noteq> artifactID | None \<Rightarrow> False)), dr_SensitivePaths = [],
      dr_RedactedConfigJSON = empty_text, dr_RedactedDiffJSON = diff, dr_Error = []\<rparr>"
    using assms schema secrets paths
    by (simp add: DryRunConfig_def dry_run_show_def redactJSON_def redact_nothing Let_def)
  then show ?thesis using assms(1) [OF assms(9)] by simp
qed

theorem dry_run_reveals_stored_witness:
  "jc_Unmarshal demo_codec (dr_RedactedDiffJSON (DryRunConfig id demo_codec (\<lambda>_. False) (demo_dry (Some ''stored'')) ''p'' ''a'' []))
    = Inr (VObj [(''changed'', VBool True), (''before'', VObj [(''password'', VStr ''hunter2'')]), (''after'', VObj [])])"
proof -
  have c: "jc_Valid demo_codec ''{}''" "jc_Unmarshal demo_codec ''{}'' = Inr (VObj [])" "jc_Marshal demo_codec (VObj []) = Inr ''{}''"
    "jc_Valid demo_codec ''stored''" "jc_Unmarshal demo_codec ''stored'' = Inr (VObj [(''password'', VStr ''hunter2'')])"
    "jc_Marshal demo_codec (VObj [(''password'', VStr ''hunter2'')]) = Inr ''stored''"
    "jc_Marshal demo_codec (VObj [(''changed'', VBool (\<not> deepEqual (VObj [(''password'', VStr ''hunter2'')]) (VObj []))),
       (''before'', VObj [(''password'', VStr ''hunter2'')]), (''after'', VObj [])]) = Inr ''leak''"
    by code_simp+
  from dry_run_reveals_stored [OF demo_codec_roundtrip c(1-4) _ c(5-7), of "demo_dry (Some ''stored'')" "''p''"] show ?thesis
    by (simp add: demo_dry_def)
qed

text \<open>
  secrets a configuration needs.  When validation passes, every reference at any depth of the configuration is declared,
  if the plugin declares secrets at all, and every reference and every required secret has a stored version.
\<close>

theorem validateSecretRefs_sound:
  assumes "validateSecretRefs uni c stored specs configJSON = None" "jc_Unmarshal c (defaultJSONObject c configJSON) = Inr v"
    and "mentions uni v r \<or> (\<exists>s \<in> set specs. sp_Name s = r \<and> r \<noteq> [] \<and> sp_Required s \<and> last_spec (filter (\<lambda>s. sp_Name s \<noteq> []) specs) s)"
  shows "(mentions uni v r \<and> (\<exists>s \<in> set specs. sp_Name s \<noteq> []) \<longrightarrow> r \<in> sp_Name ` set specs)
    \<and> (\<exists>rows version. stored = Inr rows \<and> map_of (rev rows) r = Some version \<and> 0 < version)"
proof -
  define declared where "declared = filter (\<lambda>s. sp_Name s \<noteq> []) specs"
  define needed where "needed = collectSecretRefs uni v @ map sp_Name (filter (\<lambda>s. sp_Required s \<and> last_spec declared s) declared)"
  have mem: "r \<in> set needed" using assms(3) by (auto simp: needed_def declared_def collectSecretRefs_mentions)
  then have ne: "needed \<noteq> []" by auto
  note eq = assms(1) [unfolded validateSecretRefs_def collectConfigSecretRefs_def assms(2) Let_def sum.case, folded declared_def, folded needed_def]
  have undeclared: "declared = [] \<or> find (\<lambda>r. r \<notin> sp_Name ` set declared) (collectSecretRefs uni v) = None"
    using eq by (auto split: if_splits option.splits)
  then have stored: "\<exists>rows. stored = Inr rows \<and> filter (\<lambda>r. \<not> (case map_of (rev rows) r of Some v \<Rightarrow> 0 < v | None \<Rightarrow> False)) needed = []"
    using eq ne by (auto split: if_splits option.splits sum.splits)
  then have "\<exists>rows version. stored = Inr rows \<and> map_of (rev rows) r = Some version \<and> 0 < version"
    using mem by (fastforce simp: filter_empty_conv split: option.splits)
  moreover have "mentions uni v r \<and> (\<exists>s \<in> set specs. sp_Name s \<noteq> []) \<longrightarrow> r \<in> sp_Name ` set specs"
    using undeclared by (auto simp: declared_def find_None_iff collectSecretRefs_mentions filter_empty_conv)
  ultimately show ?thesis by blast
qed

theorem validateSecretRefs_sound_witness:
  "mentions id (VObj [(''password'', VStr ''hunter''), (''token'', VStr ''hunter2-xyz''), (''db_secret_ref'', VStr ''db'')]) ''db''
    \<and> (\<exists>rows version. (Inr [(''db'', 2)] :: secret_rows result) = Inr rows \<and> map_of (rev rows) ''db'' = Some version \<and> 0 < version)"
proof -
  have v: "validateSecretRefs id demo_codec (Inr [(''db'', 2)]) [] ''two'' = None"
    "jc_Unmarshal demo_codec (defaultJSONObject demo_codec ''two'')
      = Inr (VObj [(''password'', VStr ''hunter''), (''token'', VStr ''hunter2-xyz''), (''db_secret_ref'', VStr ''db'')])"
    by code_simp+
  have "''db'' \<in> set (collectSecretRefs id (VObj [(''password'', VStr ''hunter''), (''token'', VStr ''hunter2-xyz''), (''db_secret_ref'', VStr ''db'')]))"
    by code_simp
  then have m: "mentions id (VObj [(''password'', VStr ''hunter''), (''token'', VStr ''hunter2-xyz''), (''db_secret_ref'', VStr ''db'')]) ''db''"
    unfolding collectSecretRefs_mentions .
  from validateSecretRefs_sound [OF v disjI1 [OF m]] m show ?thesis by blast
qed

text \<open>
  redacted messages can still show secrets.  The sensitive texts are replaced in lexicographic order, so of two secrets
  one of which begins with the other the shorter is replaced first, and the rest of the longer
  one stays in the message.
\<close>

theorem redacted_text_leaks:
  "redactSensitiveConfigText demo_codec ''bad token hunter2-xyz'' ''two'' (sensitiveConfigPaths id demo_codec [] ''two'')
    = ''bad token [REDACTED]2-xyz''"
  by code_simp

end
