(* ===== verification/Task_Lease.thy ===== *)
theory Task_Lease
  imports GoStd Tables
begin

text \<open>
  The leases of background tasks, \<open>AcquireTaskLease\<close> to \<open>DeleteTaskLease\<close> of
  \<open>src/internal/pluginmanager/repository.go\<close>: several gateway nodes share one database, and a task that
  is to run on one node only takes a lease there.  A time is an \<^typ>\<open>int\<close> in nanoseconds, as in
  \<open>time.Duration\<close>; the table holds whole seconds.

  The step relation at the end lets the nodes, the clock and the garbage collector of the
  plugin operations (\<open>Operations.RunGC\<close>) take their steps in any order.
\<close>

section \<open>The table\<close>

record TaskLeaseRecord =
  tl_PluginID :: string
  tl_TaskID :: string
  tl_ShardKey :: string
  tl_OwnerNodeID :: string
  tl_ExpiresAt :: int
  tl_AcquiredAt :: int
  tl_UpdatedAt :: int

definition zero_lease :: TaskLeaseRecord where
  "zero_lease = \<lparr>tl_PluginID = [], tl_TaskID = [], tl_ShardKey = [], tl_OwnerNodeID = [], tl_ExpiresAt = 0,
     tl_AcquiredAt = 0, tl_UpdatedAt = 0\<rparr>"

type_synonym lease_key = "string \<times> string \<times> string"
type_synonym leases = "TaskLeaseRecord list"

text \<open>The primary key of \<open>plugin_task_leases\<close>.\<close>

definition lease_key :: "TaskLeaseRecord \<Rightarrow> lease_key" where
  "lease_key r = (tl_PluginID r, tl_TaskID r, tl_ShardKey r)"

text \<open>The failures of the statements, in the order of the code; none of them is \<open>sql.ErrNoRows\<close>.\<close>

record lease_io =
  li_begin :: "error option"
  li_select :: "error option"
  li_exec :: "error option"
  li_reselect :: "error option"
  li_commit :: "error option"

definition lease_io_ok :: lease_io where
  "lease_io_ok = \<lparr>li_begin = None, li_select = None, li_exec = None, li_reselect = None, li_commit = None\<rparr>"

section \<open>Operations\<close>

definition missing_argument :: error where
  "missing_argument = ErrorString ''plugin_id, task_id and owner_node_id are required''"

text \<open>The current second, and the second in which a lease taken now for \<open>ttl\<close> runs out.\<close>

definition lease_times :: "int \<Rightarrow> int \<Rightarrow> int \<times> int" where
  "lease_times now ttl =
    (let ttl = (if ttl \<le> 0 then Minute else ttl);
         nowUnix = Unix now;
         expiresAt = Unix (now + ttl)
     in (nowUnix, if expiresAt \<le> nowUnix then nowUnix + 1 else expiresAt))"

text \<open>The end of the transaction: \<open>tx.Commit\<close>, or the deferred \<open>tx.Rollback\<close>.\<close>

definition commit_lease :: "lease_io \<Rightarrow> leases \<Rightarrow> leases \<Rightarrow> 'a \<Rightarrow> leases \<times> 'a result" where
  "commit_lease io old new x = (case li_commit io of Some e \<Rightarrow> (old, Inl e) | None \<Rightarrow> (new, Inr x))"

text \<open>A write that touched no row: the lease that is there is read again and returned.\<close>

definition reread_lease :: "lease_io \<Rightarrow> lease_key \<Rightarrow> leases \<Rightarrow> leases \<Rightarrow> leases \<times> (TaskLeaseRecord \<times> bool) result" where
  "reread_lease io k old new = (case li_reselect io of
      Some e \<Rightarrow> (old, Inl e)
    | None \<Rightarrow> (case row_select lease_key k new of
        None \<Rightarrow> (old, Inl Sql_ErrNoRows)
      | Some current \<Rightarrow> commit_lease io old new (current, False)))"

text \<open>There is no lease: it is inserted.\<close>

definition acquire_new ::
  "lease_io \<Rightarrow> int \<Rightarrow> int \<Rightarrow> string \<Rightarrow> string \<Rightarrow> string \<Rightarrow> string \<Rightarrow> leases \<Rightarrow> leases \<times> (TaskLeaseRecord \<times> bool) result" where
  "acquire_new io nowUnix expiresAt pluginID taskID shardKey owner t =
    (let record = \<lparr>tl_PluginID = pluginID, tl_TaskID = taskID, tl_ShardKey = shardKey, tl_OwnerNodeID = owner,
           tl_ExpiresAt = expiresAt, tl_AcquiredAt = nowUnix, tl_UpdatedAt = nowUnix\<rparr>
     in case li_exec io of
          Some e \<Rightarrow> (t, Inl e)
        | None \<Rightarrow> (case row_insert_ignore lease_key record t of
            (t', affected) \<Rightarrow>
              if affected = 1 then commit_lease io t t' (record, True)
              else reread_lease io (pluginID, taskID, shardKey) t t'))"

text \<open>There is one: it is kept while another node holds it, and taken over otherwise.\<close>

definition acquire_over ::
  "lease_io \<Rightarrow> int \<Rightarrow> int \<Rightarrow> string \<Rightarrow> string \<Rightarrow> string \<Rightarrow> string \<Rightarrow> leases \<Rightarrow> TaskLeaseRecord
    \<Rightarrow> leases \<times> (TaskLeaseRecord \<times> bool) result" where
  "acquire_over io nowUnix expiresAt pluginID taskID shardKey owner t current =
    (if tl_OwnerNodeID current \<noteq> owner \<and> tl_ExpiresAt current > nowUnix then commit_lease io t t (current, False)
     else
       (let acquiredAt = (if tl_OwnerNodeID current \<noteq> owner then nowUnix else tl_AcquiredAt current);
            record = \<lparr>tl_PluginID = pluginID, tl_TaskID = taskID, tl_ShardKey = shardKey, tl_OwnerNodeID = owner,
              tl_ExpiresAt = expiresAt, tl_AcquiredAt = acquiredAt, tl_UpdatedAt = nowUnix\<rparr>
        in case li_exec io of
             Some e \<Rightarrow> (t, Inl e)
           | None \<Rightarrow> (case row_update_where lease_key (pluginID, taskID, shardKey)
                   (\<lambda>r. tl_OwnerNodeID r = owner \<or> tl_ExpiresAt r \<le> nowUnix)
                   (\<lambda>r. r\<lparr>tl_OwnerNodeID := owner, tl_ExpiresAt := expiresAt, tl_AcquiredAt := acquiredAt,
                          tl_UpdatedAt := nowUnix\<rparr>) t of
               (t', affected) \<Rightarrow>
                 if affected \<noteq> 1 then reread_lease io (pluginID, taskID, shardKey) t t'
                 else commit_lease io t t' (record, True))))"

definition AcquireTaskLease ::
  "lease_io \<Rightarrow> int \<Rightarrow> string \<Rightarrow> string \<Rightarrow> string \<Rightarrow> string \<Rightarrow> int \<Rightarrow> leases \<Rightarrow> leases \<times> (TaskLeaseRecord \<times> bool) result" where
  "AcquireTaskLease io now pluginID taskID shardKey owner ttl t =
    (if pluginID = [] \<or> taskID = [] \<or> owner = [] then (t, Inl missing_argument)
     else case lease_times now ttl of (nowUnix, expiresAt) \<Rightarrow>
     (case li_begin io of
        Some e \<Rightarrow> (t, Inl e)
      | None \<Rightarrow> (case li_select io of
          Some e \<Rightarrow> (t, Inl e)
        | None \<Rightarrow> (case row_select lease_key (pluginID, taskID, shardKey) t of
            None \<Rightarrow> acquire_new io nowUnix expiresAt pluginID taskID shardKey owner t
          | Some current \<Rightarrow> acquire_over io nowUnix expiresAt pluginID taskID shardKey owner t current))))"

text \<open>The update of a renewal: the table after it and the number of rows it changed.\<close>

definition renew_update :: "int \<Rightarrow> lease_key \<Rightarrow> string \<Rightarrow> int \<Rightarrow> leases \<Rightarrow> leases \<times> nat" where
  "renew_update now k owner ttl t =
    (let (nowUnix, expiresAt) = lease_times now ttl
     in row_update_where lease_key k (\<lambda>r. tl_OwnerNodeID r = owner \<and> tl_ExpiresAt r > nowUnix)
          (\<lambda>r. r\<lparr>tl_ExpiresAt := expiresAt, tl_UpdatedAt := nowUnix\<rparr>) t)"

text \<open>The row is read back in a statement of its own; \<open>others\<close> is what happens to the table in between.\<close>

definition RenewTaskLease ::
  "lease_io \<Rightarrow> (leases \<Rightarrow> leases) \<Rightarrow> int \<Rightarrow> string \<Rightarrow> string \<Rightarrow> string \<Rightarrow> string \<Rightarrow> int \<Rightarrow> leases
    \<Rightarrow> leases \<times> (TaskLeaseRecord \<times> bool) result" where
  "RenewTaskLease io others now pluginID taskID shardKey owner ttl t =
    (if pluginID = [] \<or> taskID = [] \<or> owner = [] then (t, Inl missing_argument)
     else case li_exec io of Some e \<Rightarrow> (t, Inl e) | None \<Rightarrow>
     (case renew_update now (pluginID, taskID, shardKey) owner ttl t of
        (t', affected) \<Rightarrow>
          (let t'' = others t' in
           case li_select io of Some e \<Rightarrow> (t'', Inl e) | None \<Rightarrow>
           (case row_select lease_key (pluginID, taskID, shardKey) t'' of
              None \<Rightarrow> (t'', Inr (zero_lease, False))
            | Some record \<Rightarrow> (t'', Inr (record, affected = 1))))))"

definition ReleaseTaskLease :: "lease_io \<Rightarrow> string \<Rightarrow> string \<Rightarrow> string \<Rightarrow> string \<Rightarrow> leases \<Rightarrow> leases \<times> error option" where
  "ReleaseTaskLease io pluginID taskID shardKey owner t =
    (if pluginID = [] \<or> taskID = [] \<or> owner = [] then (t, Some missing_argument)
     else case li_exec io of Some e \<Rightarrow> (t, Some e)
     | None \<Rightarrow> (filter (\<lambda>r. \<not> (lease_key r = (pluginID, taskID, shardKey) \<and> tl_OwnerNodeID r = owner)) t, None))"

text \<open>\<open>ORDER BY expires_at, plugin_id, task_id, shard_key\<close>, by stable sorts.\<close>

definition ListTaskLeases :: "lease_io \<Rightarrow> string \<Rightarrow> leases \<Rightarrow> leases result" where
  "ListTaskLeases io pluginID t = (case li_select io of Some e \<Rightarrow> Inl e
     | None \<Rightarrow> Inr (sort_key tl_ExpiresAt (sort_key tl_PluginID (sort_key tl_TaskID (sort_key tl_ShardKey
         (filter (\<lambda>r. pluginID = [] \<or> tl_PluginID r = pluginID) t))))))"

definition DeleteTaskLease :: "lease_io \<Rightarrow> string \<Rightarrow> string \<Rightarrow> string \<Rightarrow> leases \<Rightarrow> leases \<times> error option" where
  "DeleteTaskLease io pluginID taskID shardKey t =
    (case li_exec io of Some e \<Rightarrow> (t, Some e) | None \<Rightarrow> (row_delete lease_key (pluginID, taskID, shardKey) t, None))"

text \<open>How long \<open>renewTaskLease\<close> of \<open>operations.go\<close> waits before it renews.\<close>

definition renew_interval :: "int \<Rightarrow> int" where
  "renew_interval ttl =
    (let interval = int_quot ttl 2;
         interval = (if interval \<le> 0 then Second else interval);
         interval = (if interval < 100000000 then 100000000 else interval)
     in if interval \<ge> ttl \<and> ttl > 0
        then (let half = int_quot ttl 2 in if half \<le> 0 then ttl else half)
        else interval)"

section \<open>Garbage collection\<close>

text \<open>The part of a candidate that \<open>RunGC\<close> uses for a lease.\<close>

record GCCandidate =
  gc_Kind :: string
  gc_ID :: string
  gc_PluginID :: string
  gc_Protected :: bool
  gc_ExpiresAt :: int

definition lease_candidate :: "int \<Rightarrow> TaskLeaseRecord \<Rightarrow> GCCandidate" where
  "lease_candidate nowUnix lease =
    (let expired = tl_ExpiresAt lease > 0 \<and> tl_ExpiresAt lease \<le> nowUnix
     in \<lparr>gc_Kind = ''background_task_lease'', gc_ID = JoinWith ''/'' [tl_TaskID lease, tl_ShardKey lease],
          gc_PluginID = tl_PluginID lease, gc_Protected = (\<not> expired), gc_ExpiresAt = tl_ExpiresAt lease\<rparr>)"

definition lease_candidates :: "lease_io \<Rightarrow> int \<Rightarrow> string \<Rightarrow> leases \<Rightarrow> GCCandidate list result" where
  "lease_candidates io now pluginID t = map_sum id (map (lease_candidate (Unix now))) (ListTaskLeases io pluginID t)"

text \<open>\<open>strings.Cut(s, "/")\<close>.\<close>

definition cut_slash :: "string \<Rightarrow> string \<times> string" where
  "cut_slash s = (case IndexByte s CHR ''/'' of None \<Rightarrow> (s, []) | Some i \<Rightarrow> (take i s, drop (i + 1) s))"

text \<open>The case of \<open>RunGC\<close> for a lease: the error of the deletion is dropped.\<close>

definition remove_lease_candidate :: "lease_io \<Rightarrow> GCCandidate \<Rightarrow> leases \<Rightarrow> leases" where
  "remove_lease_candidate io c t =
    (if gc_Protected c then t
     else case cut_slash (gc_ID c) of (taskID, shardKey) \<Rightarrow> fst (DeleteTaskLease io (gc_PluginID c) taskID shardKey t))"

section \<open>What one operation does\<close>

lemma lease_times_fst [simp]: "fst (lease_times now ttl) = Unix now"
  by (simp add: lease_times_def Let_def)

lemma lease_times_later: "Unix now < snd (lease_times now ttl)"
  by (simp add: lease_times_def Let_def)

text \<open>A lease lasts until its whole second: at least one second less than its \<open>ttl\<close>.\<close>

lemma lease_times_lasts:
  assumes "Second < ttl" "0 \<le> d" "d \<le> ttl - Second"
  shows "Unix (now + d) < snd (lease_times now ttl)"
proof -
  have "now + d \<le> (now + ttl) - Second" using assms by simp
  then have "Unix (now + d) \<le> Unix ((now + ttl) - Second)" by (rule Unix_mono)
  also have "Unix ((now + ttl) - Second) = Unix (now + ttl) - 1"
    using div_mult_self1 [of Second "now + ttl" "-1"] by (simp add: Unix_def Second_def)
  finally show ?thesis using assms by (simp add: lease_times_def Let_def Second_def)
qed

lemma unique_filter: "unique_keys key rows \<Longrightarrow> unique_keys key (filter P rows)"
  by (simp add: distinct_map_filter)

abbreviation held_by_other :: "int \<Rightarrow> string \<Rightarrow> TaskLeaseRecord option \<Rightarrow> bool" where
  "held_by_other now owner current \<equiv> (case current of None \<Rightarrow> False | Some r \<Rightarrow> tl_OwnerNodeID r \<noteq> owner \<and> tl_ExpiresAt r > Unix now)"

text \<open>The fate of an acquisition: a failure or a refusal changes nothing.\<close>

definition acquire_outcome ::
  "int \<Rightarrow> int \<Rightarrow> lease_key \<Rightarrow> string \<Rightarrow> leases \<Rightarrow> leases \<Rightarrow> (TaskLeaseRecord \<times> bool) result \<Rightarrow> bool" where
  "acquire_outcome now e k owner t t' r = (case r of
      Inl _ \<Rightarrow> t' = t
    | Inr (rec, False) \<Rightarrow> t' = t \<and> row_select lease_key k t = Some rec \<and> held_by_other now owner (Some rec)
    | Inr (rec, True) \<Rightarrow> \<not> held_by_other now owner (row_select lease_key k t)
        \<and> unique_keys lease_key t' \<and> tl_OwnerNodeID rec = owner \<and> tl_ExpiresAt rec = e
        \<and> (\<forall>k'. row_select lease_key k' t' = (if k' = k then Some rec else row_select lease_key k' t)))"

lemma acquire_new_outcome:
  assumes "acquire_new io (Unix now) e p tk s owner t = (t', r)" "unique_keys lease_key t" "row_select lease_key (p, tk, s) t = None"
  shows "acquire_outcome now e (p, tk, s) owner t t' r"
proof -
  let ?rec = "\<lparr>tl_PluginID = p, tl_TaskID = tk, tl_ShardKey = s, tl_OwnerNodeID = owner,
    tl_ExpiresAt = e, tl_AcquiredAt = Unix now, tl_UpdatedAt = Unix now\<rparr>"
  have key: "lease_key ?rec = (p, tk, s)" by (simp add: lease_key_def)
  then have "row_select lease_key k (t @ [?rec]) = (if k = (p, tk, s) then Some ?rec else row_select lease_key k t)" for k
    using assms(3) by (auto simp: row_select_append split: option.split)
  moreover have "unique_keys lease_key (t @ [?rec])"
    using assms(2,3) key unique_row_append [of lease_key t ?rec] by simp
  ultimately show ?thesis
    using assms(1,3) key by (auto simp: acquire_new_def Let_def row_insert_ignore_def commit_lease_def acquire_outcome_def
        split: option.splits)
qed

lemma acquire_over_outcome:
  assumes "acquire_over io (Unix now) e p tk s owner t c = (t', r)" "unique_keys lease_key t" "row_select lease_key (p, tk, s) t = Some c"
  shows "acquire_outcome now e (p, tk, s) owner t t' r"
proof (cases "held_by_other now owner (Some c)")
  case True
  then show ?thesis using assms(1,3)
    by (auto simp: acquire_over_def commit_lease_def acquire_outcome_def split: option.splits)
next
  case False
  define a where "a = (if tl_OwnerNodeID c \<noteq> owner then Unix now else tl_AcquiredAt c)"
  let ?rec = "\<lparr>tl_PluginID = p, tl_TaskID = tk, tl_ShardKey = s, tl_OwnerNodeID = owner,
    tl_ExpiresAt = e, tl_AcquiredAt = a, tl_UpdatedAt = Unix now\<rparr>"
  let ?upd = "\<lambda>r. r\<lparr>tl_OwnerNodeID := owner, tl_ExpiresAt := e, tl_AcquiredAt := a, tl_UpdatedAt := Unix now\<rparr>"
  let ?P = "\<lambda>r. tl_OwnerNodeID r = owner \<or> tl_ExpiresAt r \<le> Unix now"
  obtain t2 n where u: "row_update_where lease_key (p, tk, s) ?P ?upd t = (t2, n)" by fastforce
  have P: "?P c" using False by auto
  have upd: "?upd c = ?rec" using row_select_Some [OF assms(3)] by (cases c) (simp add: lease_key_def)
  have key: "lease_key (?upd r) = lease_key r" for r by (simp add: lease_key_def)
  have n: "n = 1" using affected_update_where [OF assms(2), of "(p, tk, s)" ?P ?upd] u assms(3) P by simp
  have uniq: "unique_keys lease_key t2"
    using keys_row_update_where [of lease_key ?upd "(p, tk, s)" ?P t, OF key] u assms(2) by simp
  have sel: "row_select lease_key k t2 = (if k = (p, tk, s) then Some ?rec else row_select lease_key k t)" for k
    using row_select_update_where [of lease_key ?upd k "(p, tk, s)" ?P t, OF key] assms(3) P upd
    by (simp add: u split: option.splits)
  have "acquire_over io (Unix now) e p tk s owner t c =
      (case li_exec io of Some e \<Rightarrow> (t, Inl e) | None \<Rightarrow> commit_lease io t t2 (?rec, True))"
    using False u n unfolding acquire_over_def Let_def a_def [symmetric] by (cases "li_exec io") auto
  then show ?thesis using assms(1,3) False uniq sel
    by (auto simp: commit_lease_def acquire_outcome_def split: option.splits)
qed

lemma AcquireTaskLease_outcome:
  assumes "AcquireTaskLease io now p tk s owner ttl t = (t', r)" "unique_keys lease_key t"
  shows "acquire_outcome now (snd (lease_times now ttl)) (p, tk, s) owner t t' r"
proof -
  have times: "lease_times now ttl = (Unix now, snd (lease_times now ttl))" by (metis lease_times_fst prod.collapse)
  consider (early) "\<exists>e. r = Inl e \<and> t' = t"
    | (new) "row_select lease_key (p, tk, s) t = None" "acquire_new io (Unix now) (snd (lease_times now ttl)) p tk s owner t = (t', r)"
    | (over) c where "row_select lease_key (p, tk, s) t = Some c"
        "acquire_over io (Unix now) (snd (lease_times now ttl)) p tk s owner t c = (t', r)"
    using assms(1) unfolding AcquireTaskLease_def
    by (subst (asm) times) (auto simp del: lease_times_fst split: if_splits option.splits)
  then show ?thesis
  proof cases
    case early
    then show ?thesis by (auto simp: acquire_outcome_def)
  next
    case new
    then show ?thesis using acquire_new_outcome assms(2) by blast
  next
    case over
    then show ?thesis using acquire_over_outcome assms(2) by blast
  qed
qed

lemma renew_update_select:
  assumes "renew_update now k owner ttl t = (t', n)" "unique_keys lease_key t"
  shows "unique_keys lease_key t'"
    and "row_select lease_key k' t' = (case row_select lease_key k' t of None \<Rightarrow> None
      | Some r \<Rightarrow> Some (if k' = k \<and> tl_OwnerNodeID r = owner \<and> tl_ExpiresAt r > Unix now
          then r\<lparr>tl_ExpiresAt := snd (lease_times now ttl), tl_UpdatedAt := Unix now\<rparr> else r))"
    and "n = (case row_select lease_key k t of None \<Rightarrow> 0 | Some r \<Rightarrow> if tl_OwnerNodeID r = owner \<and> tl_ExpiresAt r > Unix now then 1 else 0)"
proof -
  let ?P = "\<lambda>r. tl_OwnerNodeID r = owner \<and> tl_ExpiresAt r > Unix now"
  let ?upd = "\<lambda>r. r\<lparr>tl_ExpiresAt := snd (lease_times now ttl), tl_UpdatedAt := Unix now\<rparr>"
  have u: "row_update_where lease_key k ?P ?upd t = (t', n)"
    using assms(1) by (simp add: renew_update_def split_def)
  have key: "lease_key (?upd r) = lease_key r" for r by (simp add: lease_key_def)
  show "unique_keys lease_key t'" using keys_row_update_where [of lease_key ?upd k ?P t, OF key] u assms(2) by simp
  show "row_select lease_key k' t' = (case row_select lease_key k' t of None \<Rightarrow> None
      | Some r \<Rightarrow> Some (if k' = k \<and> tl_OwnerNodeID r = owner \<and> tl_ExpiresAt r > Unix now then ?upd r else r))"
    using row_select_update_where [of lease_key ?upd k' k ?P t, OF key] u by simp
  show "n = (case row_select lease_key k t of None \<Rightarrow> 0 | Some r \<Rightarrow> if ?P r then 1 else 0)"
    using affected_update_where [OF assms(2), of k ?P ?upd] u by simp
qed

section \<open>Several nodes\<close>

text \<open>
  A node is at most once in a run of a task (\<open>task.running\<close>).  While it is, it either has a lease, known to be its own until
  a second it was told, or has lost it and is about to end.
\<close>

datatype holding = Idle | Holding int | Lost

record lease_sys =
  ls_now :: int
  ls_table :: leases
  ls_node :: "string \<Rightarrow> lease_key \<Rightarrow> holding"
  ls_scanned :: "lease_key set"

definition set_node :: "string \<Rightarrow> lease_key \<Rightarrow> holding \<Rightarrow> lease_sys \<Rightarrow> lease_sys" where
  "set_node n k h s = s\<lparr>ls_node := (ls_node s)(n := (ls_node s n)(k := h))\<rparr>"

text \<open>
  The steps.  Each statement of the database is one step; \<open>expired_only\<close> says that the deletion of a
  garbage collection finds the lease it scanned still expired.
\<close>

definition lease_expired :: "lease_sys \<Rightarrow> lease_key \<Rightarrow> bool" where
  "lease_expired s k = (case row_select lease_key k (ls_table s) of None \<Rightarrow> True | Some r \<Rightarrow> tl_ExpiresAt r \<le> Unix (ls_now s))"

inductive lease_step :: "bool \<Rightarrow> lease_sys \<Rightarrow> lease_sys \<Rightarrow> bool" for expired_only where
  tick: "ls_now s \<le> now' \<Longrightarrow> lease_step expired_only s (s\<lparr>ls_now := now'\<rparr>)"
| acquire: "ls_node s n (p, tk, sh) = Idle \<Longrightarrow>
    AcquireTaskLease io (ls_now s) p tk sh n ttl (ls_table s) = (t', Inr (rec, True)) \<Longrightarrow>
    lease_step expired_only s (set_node n (p, tk, sh) (Holding (tl_ExpiresAt rec)) (s\<lparr>ls_table := t'\<rparr>))"
| refused: "ls_node s n (p, tk, sh) = Idle \<Longrightarrow>
    AcquireTaskLease io (ls_now s) p tk sh n ttl (ls_table s) = (t', r) \<Longrightarrow> (\<forall>rec. r \<noteq> Inr (rec, True)) \<Longrightarrow>
    lease_step expired_only s (s\<lparr>ls_table := t'\<rparr>)"
| renew: "ls_node s n k = Holding e \<Longrightarrow> renew_update (ls_now s) k n ttl (ls_table s) = (t', affected) \<Longrightarrow>
    h = (if affected = 1 then Holding (snd (lease_times (ls_now s) ttl)) else Lost) \<Longrightarrow>
    lease_step expired_only s (set_node n k h (s\<lparr>ls_table := t'\<rparr>))"
| renew_failed: "ls_node s n k = Holding e \<Longrightarrow> lease_step expired_only s (set_node n k Lost s)"
| release: "ls_node s n (p, tk, sh) \<noteq> Idle \<Longrightarrow> ReleaseTaskLease io p tk sh n (ls_table s) = (t', err) \<Longrightarrow>
    lease_step expired_only s (set_node n (p, tk, sh) Idle (s\<lparr>ls_table := t'\<rparr>))"
| gc_scan: "lease_candidates io (ls_now s) p (ls_table s) = Inr cs \<Longrightarrow>
    lease_step expired_only s (s\<lparr>ls_scanned := {(gc_PluginID c, cut_slash (gc_ID c)) | c. c \<in> set cs \<and> \<not> gc_Protected c}\<rparr>)"
| gc_delete: "(p, tk, sh) \<in> ls_scanned s \<Longrightarrow> (expired_only \<longrightarrow> lease_expired s (p, tk, sh)) \<Longrightarrow>
    lease_step expired_only s (s\<lparr>ls_table := fst (DeleteTaskLease io p tk sh (ls_table s))\<rparr>)"

inductive_cases lease_stepE: "lease_step b s s'"

text \<open>
  The table knows every lease a node may still rely on.
\<close>

definition lease_inv :: "lease_sys \<Rightarrow> bool" where
  "lease_inv s = (unique_keys lease_key (ls_table s)
    \<and> (\<forall>n k e. ls_node s n k = Holding e \<and> Unix (ls_now s) < e \<longrightarrow>
         (\<exists>r. row_select lease_key k (ls_table s) = Some r \<and> tl_OwnerNodeID r = n \<and> tl_ExpiresAt r = e)))"

lemma lease_invI:
  assumes "unique_keys lease_key (ls_table s)"
    and "\<And>n k e. ls_node s n k = Holding e \<Longrightarrow> Unix (ls_now s) < e \<Longrightarrow>
      \<exists>r. row_select lease_key k (ls_table s) = Some r \<and> tl_OwnerNodeID r = n \<and> tl_ExpiresAt r = e"
  shows "lease_inv s"
  using assms by (simp add: lease_inv_def)

lemma ls_set_node [simp]:
  "ls_now (set_node n k h s) = ls_now s" "ls_table (set_node n k h s) = ls_table s"
  "ls_node (set_node n k h s) n' k' = (if n' = n \<and> k' = k then h else ls_node s n' k')"
  by (simp_all add: set_node_def)

lemma lease_invD:
  assumes "lease_inv s" "ls_node s n k = Holding e" "Unix (ls_now s) < e"
  obtains r where "row_select lease_key k (ls_table s) = Some r" "tl_OwnerNodeID r = n" "tl_ExpiresAt r = e"
  using assms unfolding lease_inv_def by blast

lemma lease_inv_unique: "lease_inv s \<Longrightarrow> unique_keys lease_key (ls_table s)"
  by (simp add: lease_inv_def)

lemma acquire_keeps_inv:
  assumes "lease_inv s" "AcquireTaskLease io (ls_now s) p tk sh n ttl (ls_table s) = (t', Inr (rec, True))"
  shows "lease_inv (set_node n (p, tk, sh) (Holding (tl_ExpiresAt rec)) (s\<lparr>ls_table := t'\<rparr>))"
proof (rule lease_invI)
  have u: "unique_keys lease_key (ls_table s)" by (rule lease_inv_unique [OF assms(1)])
  have free: "\<not> held_by_other (ls_now s) n (row_select lease_key (p, tk, sh) (ls_table s))"
    and t': "unique_keys lease_key t'" "tl_OwnerNodeID rec = n"
    and sel: "row_select lease_key k t' = (if k = (p, tk, sh) then Some rec else row_select lease_key k (ls_table s))" for k
    using AcquireTaskLease_outcome [OF assms(2) u] unfolding acquire_outcome_def sum.case prod.case bool.case by blast+
  show "unique_keys lease_key (ls_table (set_node n (p, tk, sh) (Holding (tl_ExpiresAt rec)) (s\<lparr>ls_table := t'\<rparr>)))"
    using t' by simp
  fix m k e
  assume h: "ls_node (set_node n (p, tk, sh) (Holding (tl_ExpiresAt rec)) (s\<lparr>ls_table := t'\<rparr>)) m k = Holding e"
    "Unix (ls_now (set_node n (p, tk, sh) (Holding (tl_ExpiresAt rec)) (s\<lparr>ls_table := t'\<rparr>))) < e"
  show "\<exists>r. row_select lease_key k (ls_table (set_node n (p, tk, sh) (Holding (tl_ExpiresAt rec)) (s\<lparr>ls_table := t'\<rparr>))) = Some r
    \<and> tl_OwnerNodeID r = m \<and> tl_ExpiresAt r = e"
  proof (cases "m = n \<and> k = (p, tk, sh)")
    case True
    then show ?thesis using h t' sel by simp
  next
    case False
    then have "ls_node s m k = Holding e" "Unix (ls_now s) < e" using h by (auto split: if_splits)
    then obtain r where r: "row_select lease_key k (ls_table s) = Some r" "tl_OwnerNodeID r = m" "tl_ExpiresAt r = e"
      by (rule lease_invD [OF assms(1)])
    with free False \<open>Unix (ls_now s) < e\<close> have "k \<noteq> (p, tk, sh)" by auto
    with r sel show ?thesis by simp
  qed
qed

lemma renew_keeps_inv:
  assumes "lease_inv s" "ls_node s n k = Holding e" "renew_update (ls_now s) k n ttl (ls_table s) = (t', a)"
    "h = (if a = 1 then Holding (snd (lease_times (ls_now s) ttl)) else Lost)"
  shows "lease_inv (set_node n k h (s\<lparr>ls_table := t'\<rparr>))"
proof (rule lease_invI)
  have u: "unique_keys lease_key (ls_table s)" by (rule lease_inv_unique [OF assms(1)])
  note up = renew_update_select [OF assms(3) u]
  show "unique_keys lease_key (ls_table (set_node n k h (s\<lparr>ls_table := t'\<rparr>)))" using up(1) by simp
  fix m k' e'
  assume h: "ls_node (set_node n k h (s\<lparr>ls_table := t'\<rparr>)) m k' = Holding e'"
    "Unix (ls_now (set_node n k h (s\<lparr>ls_table := t'\<rparr>))) < e'"
  show "\<exists>r. row_select lease_key k' (ls_table (set_node n k h (s\<lparr>ls_table := t'\<rparr>))) = Some r
    \<and> tl_OwnerNodeID r = m \<and> tl_ExpiresAt r = e'"
  proof (cases "m = n \<and> k' = k")
    case True
    then have a: "a = 1" "e' = snd (lease_times (ls_now s) ttl)" using h assms(4) by (auto split: if_splits)
    have n: "(case row_select lease_key k (ls_table s) of None \<Rightarrow> 0
      | Some r \<Rightarrow> if tl_OwnerNodeID r = n \<and> Unix (ls_now s) < tl_ExpiresAt r then 1 else 0) = (1 :: nat)"
      using up(3) a(1) by metis
    then obtain r where r: "row_select lease_key k (ls_table s) = Some r" by (cases "row_select lease_key k (ls_table s)") auto
    with n have "tl_OwnerNodeID r = n \<and> Unix (ls_now s) < tl_ExpiresAt r" by (simp split: if_splits)
    then show ?thesis using True a r up(2) [of k] by simp
  next
    case False
    then have "ls_node s m k' = Holding e'" "Unix (ls_now s) < e'" using h by (auto split: if_splits)
    then obtain r where "row_select lease_key k' (ls_table s) = Some r" "tl_OwnerNodeID r = m" "tl_ExpiresAt r = e'"
      by (rule lease_invD [OF assms(1)])
    then show ?thesis using False up(2) [of k'] by auto
  qed
qed

lemma row_select_filter_owner:
  assumes "unique_keys lease_key t" "row_select lease_key k t = Some r" "P r"
  shows "row_select lease_key k (filter P t) = Some r"
  using assms row_select_filter [OF assms(1), of k P] by simp

lemma release_keeps_inv:
  assumes "lease_inv s" "ReleaseTaskLease io p tk sh n (ls_table s) = (t', err)"
  shows "lease_inv (set_node n (p, tk, sh) Idle (s\<lparr>ls_table := t'\<rparr>))"
proof -
  let ?P = "\<lambda>r. \<not> (lease_key r = (p, tk, sh) \<and> tl_OwnerNodeID r = n)"
  have u: "unique_keys lease_key (ls_table s)" by (rule lease_inv_unique [OF assms(1)])
  have t': "t' = ls_table s \<or> t' = filter ?P (ls_table s)"
    using assms(2) by (auto simp: ReleaseTaskLease_def split: if_splits option.splits)
  show ?thesis
  proof (rule lease_invI)
    show "unique_keys lease_key (ls_table (set_node n (p, tk, sh) Idle (s\<lparr>ls_table := t'\<rparr>)))"
      using t' u unique_filter [OF u, of ?P] by auto
    fix m k e
    assume h: "ls_node (set_node n (p, tk, sh) Idle (s\<lparr>ls_table := t'\<rparr>)) m k = Holding e"
      "Unix (ls_now (set_node n (p, tk, sh) Idle (s\<lparr>ls_table := t'\<rparr>))) < e"
    then obtain r where r: "row_select lease_key k (ls_table s) = Some r" "tl_OwnerNodeID r = m" "tl_ExpiresAt r = e"
      using lease_invD [OF assms(1), of m k e] by (auto split: if_splits)
    moreover have "?P r" using h r row_select_Some [OF r(1)] by (auto split: if_splits)
    ultimately show "\<exists>r. row_select lease_key k (ls_table (set_node n (p, tk, sh) Idle (s\<lparr>ls_table := t'\<rparr>))) = Some r
      \<and> tl_OwnerNodeID r = m \<and> tl_ExpiresAt r = e"
      using t' row_select_filter_owner [OF u r(1), of ?P] by auto
  qed
qed

lemma delete_keeps_inv:
  assumes "lease_inv s" "lease_expired s (p, tk, sh)"
  shows "lease_inv (s\<lparr>ls_table := fst (DeleteTaskLease io p tk sh (ls_table s))\<rparr>)"
proof (cases "li_exec io")
  case None
  then have t': "fst (DeleteTaskLease io p tk sh (ls_table s)) = row_delete lease_key (p, tk, sh) (ls_table s)"
    by (simp add: DeleteTaskLease_def)
  show ?thesis unfolding t'
  proof (rule lease_invI)
    show "unique_keys lease_key (ls_table (s\<lparr>ls_table := row_delete lease_key (p, tk, sh) (ls_table s)\<rparr>))"
      using assms(1) unique_row_delete by (auto simp: lease_inv_def)
    fix m k e
    assume "ls_node (s\<lparr>ls_table := row_delete lease_key (p, tk, sh) (ls_table s)\<rparr>) m k = Holding e"
      "Unix (ls_now (s\<lparr>ls_table := row_delete lease_key (p, tk, sh) (ls_table s)\<rparr>)) < e"
    then have e: "ls_node s m k = Holding e" "Unix (ls_now s) < e" by simp_all
    then obtain r where r: "row_select lease_key k (ls_table s) = Some r" "tl_OwnerNodeID r = m" "tl_ExpiresAt r = e"
      by (rule lease_invD [OF assms(1)])
    with e assms(2) have "k \<noteq> (p, tk, sh)" by (auto simp: lease_expired_def)
    with r show "\<exists>r. row_select lease_key k (ls_table (s\<lparr>ls_table := row_delete lease_key (p, tk, sh) (ls_table s)\<rparr>)) = Some r
      \<and> tl_OwnerNodeID r = m \<and> tl_ExpiresAt r = e"
      by (simp add: row_select_delete)
  qed
qed (use assms in \<open>simp add: DeleteTaskLease_def\<close>)

lemma lease_step_inv:
  assumes "lease_step True s s'" "lease_inv s"
  shows "lease_inv s'"
  using assms(1)
proof cases
  case (tick now')
  show ?thesis
  proof (rule lease_invI)
    show "unique_keys lease_key (ls_table s')" using tick assms(2) by (simp add: lease_inv_def)
    fix n k e
    assume "ls_node s' n k = Holding e" "Unix (ls_now s') < e"
    with tick Unix_mono [OF tick(2)] have "ls_node s n k = Holding e" "Unix (ls_now s) < e" by simp_all
    then show "\<exists>r. row_select lease_key k (ls_table s') = Some r \<and> tl_OwnerNodeID r = n \<and> tl_ExpiresAt r = e"
      using lease_invD [OF assms(2), of n k e] tick(1) by auto
  qed
next
  case (refused n p tk sh io ttl t' r)
  have "unique_keys lease_key (ls_table s)" using assms(2) by (simp add: lease_inv_def)
  from AcquireTaskLease_outcome [OF refused(3) this] have "t' = ls_table s"
    using refused(4) by (auto simp: acquire_outcome_def split: sum.splits prod.splits bool.splits)
  then show ?thesis using assms(2) refused(1) by simp
next
  case (renew_failed n k e)
  then show ?thesis using assms(2) by (auto simp: lease_inv_def)
next
  case (gc_scan io p cs)
  then show ?thesis using assms(2) by (simp add: lease_inv_def)
next
  case acquire
  then show ?thesis using acquire_keeps_inv assms(2) by simp
next
  case renew
  then show ?thesis using renew_keeps_inv [OF assms(2) renew(2,3,4)] by simp
next
  case release
  then show ?thesis using release_keeps_inv assms(2) by simp
next
  case gc_delete
  then show ?thesis using delete_keeps_inv assms(2) by simp
qed

lemma lease_run_inv: "(lease_step True)\<^sup>*\<^sup>* s s' \<Longrightarrow> lease_inv s \<Longrightarrow> lease_inv s'"
  by (induction rule: rtranclp_induct) (auto intro: lease_step_inv)

section \<open>Properties\<close>


definition demo_key :: lease_key where
  "demo_key = (''p'', ''sync'', ''global'')"

definition demo_lease :: "string \<Rightarrow> int \<Rightarrow> int \<Rightarrow> TaskLeaseRecord" where
  "demo_lease n e a = \<lparr>tl_PluginID = ''p'', tl_TaskID = ''sync'', tl_ShardKey = ''global'', tl_OwnerNodeID = n,
     tl_ExpiresAt = e, tl_AcquiredAt = a, tl_UpdatedAt = a\<rparr>"

text \<open>At second 100 the table has a lease of a node that is gone, expired since second 70.\<close>

definition demo_sys :: lease_sys where
  "demo_sys = \<lparr>ls_now = 100 * Second, ls_table = [demo_lease ''n0'' 70 10], ls_node = (\<lambda>_ _. Idle), ls_scanned = {}\<rparr>"

lemma demo_sys_inv: "lease_inv demo_sys"
  by (simp add: lease_inv_def demo_sys_def)

lemma demo_times: "lease_times (100 * Second) (30 * Second) = (100, 130)"
  by (simp add: lease_times_def Unix_def Second_def)

lemma demo_acquire:
  "t = [demo_lease ''n0'' 70 10] \<or> t = [] \<Longrightarrow>
    AcquireTaskLease lease_io_ok (100 * Second) ''p'' ''sync'' ''global'' n (30 * Second) t =
      (if n = [] then (t, Inl missing_argument)
       else if t = [] then ([demo_lease n 130 100], Inr (demo_lease n 130 100, True))
       else ([demo_lease n 130 (if n = ''n0'' then 10 else 100)\<lparr>tl_UpdatedAt := 100\<rparr>],
             Inr (demo_lease n 130 (if n = ''n0'' then 10 else 100)\<lparr>tl_UpdatedAt := 100\<rparr>, True)))"
  by (auto simp: AcquireTaskLease_def demo_times lease_io_ok_def acquire_new_def acquire_over_def row_select_def
      row_insert_ignore_def row_update_where_def commit_lease_def demo_lease_def lease_key_def Let_def)

text \<open>Node \<open>n1\<close> takes the expired lease.\<close>

definition demo_taken :: lease_sys where
  "demo_taken = set_node ''n1'' demo_key (Holding 130) (demo_sys\<lparr>ls_table := [demo_lease ''n1'' 130 100]\<rparr>)"

lemma demo_take: "lease_step True demo_sys demo_taken"
  using lease_step.acquire [of demo_sys "''n1''" "''p''" "''sync''" "''global''" lease_io_ok "30 * Second"
      "[demo_lease ''n1'' 130 100]" "demo_lease ''n1'' 130 100" True]
  by (simp add: demo_sys_def demo_acquire demo_taken_def demo_key_def) (simp add: demo_lease_def)


text \<open>
  The deletion by the garbage collector is a statement of its own, after the scan, and deletes by key.
\<close>

definition demo_both :: lease_sys where
  "demo_both = set_node ''n2'' demo_key (Holding 130) (set_node ''n1'' demo_key (Holding 130)
     (demo_sys\<lparr>ls_table := [demo_lease ''n2'' 130 100], ls_scanned := {demo_key}\<rparr>))"

lemma demo_race: "(lease_step False)\<^sup>*\<^sup>* demo_sys demo_both"
proof -
  let ?scanned = "demo_sys\<lparr>ls_scanned := {demo_key}\<rparr>"
  let ?one = "set_node ''n1'' demo_key (Holding 130) (?scanned\<lparr>ls_table := [demo_lease ''n1'' 130 100]\<rparr>)"
  let ?gone = "?one\<lparr>ls_table := []\<rparr>"
  have c: "lease_candidates lease_io_ok (100 * Second) [] [demo_lease ''n0'' 70 10] = Inr [lease_candidate 100 (demo_lease ''n0'' 70 10)]"
    by (simp add: lease_candidates_def ListTaskLeases_def lease_io_ok_def Unix_def Second_def)
  have "{(gc_PluginID c, cut_slash (gc_ID c)) | c. c \<in> set [lease_candidate 100 (demo_lease ''n0'' 70 10)] \<and> \<not> gc_Protected c} = {demo_key}"
    by (simp add: lease_candidate_def demo_lease_def demo_key_def cut_slash_def Let_def)
  then have 1: "lease_step False demo_sys ?scanned"
    using lease_step.gc_scan [of lease_io_ok demo_sys "[]" "[lease_candidate 100 (demo_lease ''n0'' 70 10)]" False] c
    by (simp add: demo_sys_def)
  have 2: "lease_step False ?scanned ?one"
    using lease_step.acquire [of ?scanned "''n1''" "''p''" "''sync''" "''global''" lease_io_ok "30 * Second"
        "[demo_lease ''n1'' 130 100]" "demo_lease ''n1'' 130 100" False]
    by (simp add: demo_sys_def demo_acquire demo_key_def) (simp add: demo_lease_def)
  have 3: "lease_step False ?one ?gone"
    using lease_step.gc_delete [of "''p''" "''sync''" "''global''" ?one False lease_io_ok]
    by (simp add: DeleteTaskLease_def lease_io_ok_def row_delete_def lease_key_def demo_key_def demo_sys_def)
      (simp add: set_node_def demo_lease_def)
  have 4: "lease_step False ?gone demo_both"
    using lease_step.acquire [of ?gone "''n2''" "''p''" "''sync''" "''global''" lease_io_ok "30 * Second"
        "[demo_lease ''n2'' 130 100]" "demo_lease ''n2'' 130 100" False]
    by (simp add: demo_sys_def demo_acquire demo_key_def demo_both_def set_node_def) (simp add: demo_lease_def)
  from 1 2 3 4 show ?thesis by (meson converse_rtranclp_into_rtranclp rtranclp.rtrancl_refl)
qed

text \<open>
  the garbage collector breaks this.  \<open>RunGC\<close> looks for expired leases first and then deletes them by task and
  shard; when a node takes over the expired lease in between, the collector deletes the lease of that
  node, a second node is given one too, and both run the task.
\<close>

theorem gc_breaks_exclusion:
  "\<exists>s s' n m k e. lease_inv s \<and> (lease_step False)\<^sup>*\<^sup>* s s' \<and> n \<noteq> m
    \<and> ls_node s' n k = Holding e \<and> ls_node s' m k = Holding e \<and> Unix (ls_now s') < e"
proof -
  have "ls_node demo_both ''n1'' demo_key = Holding 130" "ls_node demo_both ''n2'' demo_key = Holding 130"
    "Unix (ls_now demo_both) < 130" "''n1'' \<noteq> ''n2''"
    by (simp_all add: demo_both_def demo_sys_def Unix_def Second_def)
  then show ?thesis using demo_sys_inv demo_race by (intro exI conjI)
qed

lemma renew_interval_long: "2 * Second \<le> ttl \<Longrightarrow> renew_interval ttl = ttl div 2"
  by (simp add: renew_interval_def int_quot_def Second_def Let_def, linarith)

text \<open>
  A lease of at least two seconds is renewed in time: when the owner's timer fires, the lease it got or last
  renewed is still there and not expired, so the renewal succeeds and moves its end on.
\<close>

lemma renewal_in_time:
  assumes "unique_keys lease_key t" "row_select lease_key k t = Some r" "tl_OwnerNodeID r = owner"
    and "tl_ExpiresAt r = snd (lease_times now ttl)" "2 * Second \<le> ttl"
    and "now \<le> now'" "now' \<le> now + renew_interval ttl"
  shows "\<exists>t'. renew_update now' k owner ttl t = (t', 1)
    \<and> row_select lease_key k t' = Some (r\<lparr>tl_ExpiresAt := snd (lease_times now' ttl), tl_UpdatedAt := Unix now'\<rparr>)"
proof -
  obtain t' n where u: "renew_update now' k owner ttl t = (t', n)" by fastforce
  have "now' - now \<le> ttl - Second" using assms(5,7) renew_interval_long [OF assms(5)] by (simp add: Second_def)
  then have "Unix (now + (now' - now)) < snd (lease_times now ttl)"
    using assms(5,6) by (intro lease_times_lasts) (simp_all add: Second_def)
  then have "Unix now' < tl_ExpiresAt r" using assms(4) by simp
  then have "n = 1" "row_select lease_key k t' = Some (r\<lparr>tl_ExpiresAt := snd (lease_times now' ttl), tl_UpdatedAt := Unix now'\<rparr>)"
    using renew_update_select(3) [OF u assms(1)] renew_update_select(2) [OF u assms(1), of k] assms(2,3) by simp_all
  then show ?thesis using u by blast
qed

text \<open>
  a shorter lease can run out before the timer fires: leases end on whole seconds.  A lease of one second taken
  at 0.9 s ends at 1 s; the renewal is due at 1.4 s, finds it expired, and the run is cancelled although
  no other node wanted it.
\<close>

theorem short_lease_lost:
  "case AcquireTaskLease lease_io_ok 900000000 ''p'' ''sync'' ''global'' ''n1'' Second [] of
     (t, r) \<Rightarrow> map_sum id snd r = Inr True
       \<and> map_sum id snd (snd (RenewTaskLease lease_io_ok id (900000000 + renew_interval Second) ''p'' ''sync'' ''global'' ''n1'' Second t))
           = Inr False"
  by (simp add: AcquireTaskLease_def lease_times_def Unix_def Second_def lease_io_ok_def acquire_new_def row_select_def Let_def
      row_insert_ignore_def commit_lease_def lease_key_def RenewTaskLease_def renew_update_def renew_interval_def int_quot_def
      row_update_where_def)

end
