(* ===== verification/Background_Task.thy ===== *)
theory Background_Task
  imports Task_Lease Ops_Common "HOL-Library.Word" "HOL-Library.AList"
begin

text \<open>
  Background tasks of plugins in \<open>src/internal/pluginmanager/operations.go\<close>: registration against the manifest, manual triggering and
  cancelling, and one run of a task with its lease and its attempts.  The task's own code is a parameter: what each attempt
  returned and whether the run was cancelled meanwhile.  \<open>dur\<close> is \<open>time.ParseDuration\<close>, \<open>uni\<close> lower-casing outside ASCII.
\<close>

section \<open>Data\<close>

record TaskSpec =
  ts_ID :: string
  ts_Name :: string
  ts_Mode :: string
  ts_Interval :: string
  ts_RunOnStart :: bool
  ts_Jitter :: string
  ts_Timeout :: string
  ts_Retry :: int
  ts_Manual :: bool
  ts_RunPolicy :: string
  ts_ShardKey :: string
  ts_LeaseTTL :: string

definition zero_TaskSpec :: TaskSpec where
  "zero_TaskSpec = \<lparr>ts_ID = [], ts_Name = [], ts_Mode = [], ts_Interval = [], ts_RunOnStart = False, ts_Jitter = [], ts_Timeout = [],
     ts_Retry = 0, ts_Manual = False, ts_RunPolicy = [], ts_ShardKey = [], ts_LeaseTTL = []\<rparr>"

record BackgroundTask =
  bt_ID :: string
  bt_Name :: string
  bt_Interval :: int
  bt_RunOnStart :: bool
  bt_Jitter :: int
  bt_Timeout :: int
  bt_Manual :: bool
  bt_hasRun :: bool

record taskRuntime =
  tr_pluginID :: string
  tr_nodeID :: string
  tr_spec :: TaskSpec
  tr_task :: BackgroundTask
  tr_confirmToken :: string
  tr_cancel :: bool \<comment> \<open>\<open>cancel\<close> is not nil\<close>
  tr_running :: bool
  tr_schedulerOn :: bool
  tr_lastRunAt :: int
  tr_nextRunAt :: int
  tr_lastDurationMS :: int
  tr_lastError :: string
  tr_lastAttempts :: int
  tr_skipped :: "64 word"
  tr_leaseOwner :: string
  tr_leaseExpiresAt :: int
  tr_leaseAcquired :: bool
  tr_leaseSkipped :: "64 word"
  tr_consecutiveFailures :: "64 word"

definition new_task :: "string \<Rightarrow> string \<Rightarrow> TaskSpec \<Rightarrow> BackgroundTask \<Rightarrow> string \<Rightarrow> taskRuntime" where
  "new_task pluginID nodeID spec task token = \<lparr>tr_pluginID = pluginID, tr_nodeID = nodeID, tr_spec = spec, tr_task = task, tr_confirmToken = token,
     tr_cancel = False, tr_running = False, tr_schedulerOn = False, tr_lastRunAt = 0, tr_nextRunAt = 0, tr_lastDurationMS = 0, tr_lastError = [],
     tr_lastAttempts = 0, tr_skipped = 0, tr_leaseOwner = [], tr_leaseExpiresAt = 0, tr_leaseAcquired = False, tr_leaseSkipped = 0,
     tr_consecutiveFailures = 0\<rparr>"

text \<open>The part of \<open>PluginOperations\<close> that tasks use; \<open>closed\<close> and the node are its parent's.\<close>

record task_ops =
  to_pluginID :: string
  to_nodeID :: string
  to_closed :: bool
  to_stopped :: bool
  to_taskSpecs :: "(string \<times> TaskSpec) list"
  to_tasks :: "(string \<times> taskRuntime) list"

text \<open>Durations are 64-bit integers; their product wraps.\<close>

definition duration :: "int \<Rightarrow> int" where
  "duration v = signed_take_bit 63 v"

section \<open>Policies\<close>

definition normalizeTaskRunPolicy :: "(string \<Rightarrow> string) \<Rightarrow> string \<Rightarrow> string" where
  "normalizeTaskRunPolicy uni policy =
    (let p = ReplaceAll (ToLower uni (TrimSpace policy)) ''-'' ''_'' in
     if p = [] \<or> p = ''per_node'' then ''per_node''
     else if p = ''singleton'' then ''singleton''
     else if p = ''sharded'' then ''sharded''
     else policy)"

definition taskLeaseRequired :: "string \<Rightarrow> bool" where
  "taskLeaseRequired policy = (policy = ''singleton'' \<or> policy = ''sharded'')"

definition taskLeaseShardKey :: "string \<Rightarrow> TaskSpec \<Rightarrow> string" where
  "taskLeaseShardKey policy spec =
    (if policy = ''singleton'' then ''global''
     else if policy = ''sharded'' then (let key = TrimSpace (ts_ShardKey spec) in if key \<noteq> [] then key else ''default'')
     else [])"

definition taskLeaseTTL :: "(string \<Rightarrow> int option) \<Rightarrow> TaskSpec \<Rightarrow> int \<Rightarrow> int" where
  "taskLeaseTTL dur spec timeout =
    (let ttl = Minute;
         ttl = (if timeout > 0 \<and> duration (timeout * 2) > ttl then duration (timeout * 2) else ttl)
     in if ts_LeaseTTL spec \<noteq> []
        then (case dur (ts_LeaseTTL spec) of Some parsed \<Rightarrow> if parsed > 0 then parsed else ttl | None \<Rightarrow> ttl)
        else ttl)"

definition taskRetryLimit :: "TaskSpec \<Rightarrow> int" where
  "taskRetryLimit spec = (if ts_Retry spec \<le> 0 then 0 else if ts_Retry spec > 10 then 10 else ts_Retry spec)"

definition taskMaxAttempts :: "TaskSpec \<Rightarrow> int" where
  "taskMaxAttempts spec = taskRetryLimit spec + 1"

text \<open>The jitter of a task: the characters of its id, which is ASCII, added up modulo the setting.\<close>

definition deterministicJitter :: "int \<Rightarrow> string \<Rightarrow> int" where
  "deterministicJitter jitter key = (if jitter \<le> 0 \<or> key = [] then 0 else (\<Sum>c\<leftarrow>key. byte_val c) mod jitter)"

section \<open>Registration\<close>

definition or_parsed :: "(string \<Rightarrow> int option) \<Rightarrow> int \<Rightarrow> string \<Rightarrow> int" where
  "or_parsed dur v s = (if v = 0 \<and> s \<noteq> [] then (case dur s of Some d \<Rightarrow> d | None \<Rightarrow> 0) else v)"

definition RegisterBackgroundTask ::
  "(string \<Rightarrow> int option) \<Rightarrow> string \<Rightarrow> BackgroundTask \<Rightarrow> task_ops \<Rightarrow> error option \<times> task_ops" where
  "RegisterBackgroundTask dur token task po =
    (if bt_ID task = [] then (Some (ErrorString ''background task id is required''), po)
     else if \<not> metricName (bt_ID task) then (Some (ErrorString ''invalid background task id''), po)
     else if \<not> bt_hasRun task then (Some (ErrorString ''background task run function is required''), po)
     else
       (let declared = (case map_of (to_taskSpecs po) (bt_ID task) of Some s \<Rightarrow> s | None \<Rightarrow> zero_TaskSpec) in
        if to_taskSpecs po \<noteq> [] \<and> ts_ID declared = [] then (Some (ErrorString ''background task is not declared by manifest''), po)
        else
          (let spec = (if ts_ID declared = [] then zero_TaskSpec\<lparr>ts_ID := bt_ID task, ts_Name := bt_Name task\<rparr> else declared);
               timeout = or_parsed dur (bt_Timeout task) (ts_Timeout spec);
               task = task\<lparr>bt_Name := (if bt_Name task = [] then ts_Name spec else bt_Name task),
                          bt_Interval := or_parsed dur (bt_Interval task) (ts_Interval spec),
                          bt_Timeout := (if timeout \<le> 0 then DefaultHandlerTimeout else timeout),
                          bt_Jitter := or_parsed dur (bt_Jitter task) (ts_Jitter spec),
                          bt_RunOnStart := (bt_RunOnStart task \<or> ts_RunOnStart spec),
                          bt_Manual := (bt_Manual task \<or> ts_Manual spec \<or> ts_Mode spec = ''manual'')\<rparr>;
               rt = (case map_of (to_tasks po) (bt_ID task) of Some rt \<Rightarrow> rt | None \<Rightarrow> new_task (to_pluginID po) (to_nodeID po) spec task token);
               rt = rt\<lparr>tr_nodeID := to_nodeID po, tr_task := task, tr_spec := spec\<rparr>
           in (None, po\<lparr>to_tasks := AList.update (bt_ID task) rt (to_tasks po)\<rparr>))))"

section \<open>Triggering and cancelling\<close>

text \<open>The task that is to be run, in a goroutine of its own.\<close>

definition TriggerTask :: "string \<Rightarrow> string \<Rightarrow> task_ops \<Rightarrow> taskRuntime result" where
  "TriggerTask taskID confirmToken po =
    (if to_closed po then Inl (ErrorString ''plugin manager is closing'')
     else case map_of (to_tasks po) taskID of
       None \<Rightarrow> Inl (ErrorString ''background task not found'')
     | Some task \<Rightarrow>
         if tr_confirmToken task = [] \<or> confirmToken \<noteq> tr_confirmToken task then Inl (ErrorString ''confirm_token is required'')
         else if to_stopped po \<or> to_closed po then Inl (ErrorString ''plugin manager is closing'')
         else Inr task)"

definition CancelTask :: "string \<Rightarrow> task_ops \<Rightarrow> error option \<times> task_ops" where
  "CancelTask taskID po = (case map_of (to_tasks po) taskID of
      None \<Rightarrow> (Some (ErrorString ''background task not found''), po)
    | Some task \<Rightarrow>
        (let po' = (if tr_cancel task then po\<lparr>to_tasks := AList.update taskID (task\<lparr>tr_lastError := ''cancellation requested''\<rparr>) (to_tasks po)\<rparr> else po)
         in if \<not> tr_running task \<or> \<not> tr_cancel task then (Some (ErrorString ''background task is not running''), po') else (None, po')))"

text \<open>The state changes of \<open>stopTasks\<close>; it then waits a while for the goroutines.\<close>

definition stopTasks :: "task_ops \<Rightarrow> task_ops" where
  "stopTasks po = po\<lparr>to_stopped := True,
     to_tasks := map (\<lambda>(i, t). (i, t\<lparr>tr_cancel := False, tr_schedulerOn := False, tr_nextRunAt := 0\<rparr>)) (to_tasks po)\<rparr>"

definition resetTaskLifecycle :: "task_ops \<Rightarrow> task_ops" where
  "resetTaskLifecycle po = (if \<not> to_stopped po then po else po\<lparr>to_stopped := False\<rparr>)"

text \<open>Whether a goroutine is started.\<close>

definition launchTask :: "task_ops \<Rightarrow> bool" where
  "launchTask po = (if to_stopped po then False else \<not> to_closed po)"

text \<open>
  What \<open>startTask\<close> does to a task, and whether it starts a run and the timer loop; the two goroutines are launched, or refused, one after the
  other, and \<open>stopTasks\<close> may come between.
\<close>

definition startTask :: "bool \<Rightarrow> bool \<Rightarrow> bool \<Rightarrow> taskRuntime \<Rightarrow> taskRuntime \<times> bool \<times> bool" where
  "startTask closed launch1 launch2 task =
    (if closed then (task, False, False)
     else if tr_schedulerOn task then (task, False, False)
     else
       (let task = task\<lparr>tr_schedulerOn := True\<rparr>;
            once = (bt_RunOnStart (tr_task task) \<and> launch1)
        in if bt_Interval (tr_task task) \<le> 0 \<or> bt_Manual (tr_task task) then (task, once, False)
           else if \<not> launch2 then (task\<lparr>tr_schedulerOn := False, tr_nextRunAt := 0\<rparr>, once, False)
           else (task, once, True)))"

definition StartTasks :: "string \<Rightarrow> task_ops \<Rightarrow> task_ops \<times> (string \<times> bool \<times> bool) list" where
  "StartTasks pluginID po =
    (if pluginID \<noteq> to_pluginID po then (po, [])
     else (let started = map (\<lambda>(i, t). (i, startTask (to_closed po) (launchTask po) (launchTask po) t)) (to_tasks po)
           in (po\<lparr>to_tasks := map (\<lambda>(i, t, _). (i, t)) started\<rparr>, map (\<lambda>(i, _, l). (i, l)) started)))"

text \<open>The head of the timer loop: how long it waits for the next run, or that it ends.\<close>

definition timer_wait :: "int \<Rightarrow> taskRuntime \<Rightarrow> taskRuntime \<times> int option" where
  "timer_wait now task =
    (let delay = duration (bt_Interval (tr_task task) + deterministicJitter (bt_Jitter (tr_task task)) (bt_ID (tr_task task)))
     in if \<not> tr_schedulerOn task then (task, None) else (task\<lparr>tr_nextRunAt := Unix (now + delay)\<rparr>, Some delay))"

section \<open>A run\<close>

text \<open>The attempts, with the error of the last one and their number.\<close>

fun run_attempts :: "(nat \<Rightarrow> error option \<times> bool) \<Rightarrow> nat \<Rightarrow> nat \<Rightarrow> nat \<times> error option \<Rightarrow> nat \<times> error option" where
  "run_attempts run attempt 0 r = r"
| "run_attempts run attempt (Suc n) r =
    (case run attempt of (err, cancelled) \<Rightarrow>
       if err = None \<or> cancelled then (attempt, err) else run_attempts run (Suc attempt) n (attempt, err))"

text \<open>
  What surrounds a run: the acquisition, with its time and failures; the attempts; what other nodes and the own renewals do
  to the table meanwhile (the own renewals are \<open>renewTaskLease\<close>); the message it left, if any; the release; start and end.
\<close>

record run_env =
  re_acquire :: lease_io
  re_now :: int
  re_run :: "nat \<Rightarrow> error option \<times> bool"
  re_others :: "leases \<Rightarrow> leases"
  re_leaseLost :: "string option"
  re_release :: lease_io
  re_start :: int
  re_end :: int

definition finishTaskRunLocked :: "taskRuntime \<Rightarrow> taskRuntime" where
  "finishTaskRunLocked task = task\<lparr>tr_running := False\<rparr>"

definition show_int :: "int \<Rightarrow> string" where
  "show_int v = (if v < 0 then ''-'' @ show_base 10 (nat (- v)) else show_base 10 (nat v))"

text \<open>
  One firing of the renewal timer: the new state and, when the lease could not be kept, the message that is left for the run, which is
  then cancelled.
\<close>

definition renew_fire ::
  "lease_io \<Rightarrow> (leases \<Rightarrow> leases) \<Rightarrow> int \<Rightarrow> string \<Rightarrow> string \<Rightarrow> string \<Rightarrow> int \<Rightarrow> taskRuntime \<Rightarrow> leases
    \<Rightarrow> taskRuntime \<times> leases \<times> string option" where
  "renew_fire io others now pluginID shardKey nodeID ttl task t =
    (case RenewTaskLease io others now pluginID (bt_ID (tr_task task)) shardKey nodeID ttl t of
       (t', Inl e) \<Rightarrow> (task\<lparr>tr_leaseOwner := [], tr_leaseExpiresAt := 0, tr_leaseAcquired := False\<rparr>, t',
                    Some (''task lease renew failed: '' @ Error e))
     | (t', Inr (record, renewed)) \<Rightarrow>
         (task\<lparr>tr_leaseOwner := tl_OwnerNodeID record, tr_leaseExpiresAt := tl_ExpiresAt record,
               tr_leaseAcquired := (renewed \<and> tl_OwnerNodeID record = nodeID)\<rparr>, t',
          if renewed then None
          else Some (if tl_OwnerNodeID record \<noteq> [] then ''task lease held by node '' @ tl_OwnerNodeID record @ '' until '' @ show_int (tl_ExpiresAt record)
                     else ''task lease lost'')))"

text \<open>The loop of \<open>renewTaskLease\<close> over the firings that come before the run ends.\<close>

fun renewTaskLease ::
  "string \<Rightarrow> string \<Rightarrow> string \<Rightarrow> int \<Rightarrow> (lease_io \<times> (leases \<Rightarrow> leases) \<times> int) list \<Rightarrow> taskRuntime \<Rightarrow> leases \<Rightarrow> taskRuntime \<times> leases \<times> string option" where
  "renewTaskLease pluginID shardKey nodeID ttl [] task t = (task, t, None)"
| "renewTaskLease pluginID shardKey nodeID ttl ((io, others, now) # fs) task t =
    (case renew_fire io others now pluginID shardKey nodeID ttl task t of
       (task', t', Some message) \<Rightarrow> (task', t', Some message)
     | (task', t', None) \<Rightarrow> renewTaskLease pluginID shardKey nodeID ttl fs task' t')"

text \<open>The attempts and the end of a run; the lease, if there is one, is given back.\<close>

definition run_and_finish ::
  "(string \<Rightarrow> string) \<Rightarrow> run_env \<Rightarrow> bool \<Rightarrow> string \<Rightarrow> string \<Rightarrow> string \<Rightarrow> taskRuntime \<Rightarrow> leases \<Rightarrow> taskRuntime \<times> leases \<times> nat" where
  "run_and_finish uni env leaseOwned pluginID shardKey nodeID task t =
    (case run_attempts (re_run env) 1 (nat (taskMaxAttempts (tr_spec task))) (0, None) of (attempts, err) \<Rightarrow>
      (let t = re_others env t;
           t = (if leaseOwned then fst (ReleaseTaskLease (re_release env) pluginID (bt_ID (tr_task task)) shardKey nodeID t) else t);
           task = (finishTaskRunLocked task)\<lparr>tr_cancel := False\<rparr>;
           task = (if leaseOwned then task\<lparr>tr_leaseAcquired := False, tr_leaseOwner := [], tr_leaseExpiresAt := 0\<rparr> else task);
           task = task\<lparr>tr_lastRunAt := Unix (re_start env), tr_lastDurationMS := (re_end env - re_start env) div 1000000,
                      tr_lastAttempts := int attempts\<rparr>
       in (case err of
             Some e \<Rightarrow> task\<lparr>tr_consecutiveFailures := tr_consecutiveFailures task + 1,
                 tr_lastError := redactSensitive uni (case re_leaseLost env of Some m \<Rightarrow> m | None \<Rightarrow> Error e)\<rparr>
           | None \<Rightarrow> task\<lparr>tr_consecutiveFailures := 0, tr_lastError := []\<rparr>, t, attempts)))"

text \<open>The new state of the task and of the leases, and the number of attempts made.\<close>

definition runTask ::
  "(string \<Rightarrow> string) \<Rightarrow> (string \<Rightarrow> int option) \<Rightarrow> run_env \<Rightarrow> bool \<Rightarrow> string \<Rightarrow> string \<Rightarrow> taskRuntime \<Rightarrow> leases \<Rightarrow> taskRuntime \<times> leases \<times> nat" where
  "runTask uni dur env stopped pluginID nodeID task t =
    (if stopped then (task, t, 0)
     else if tr_running task then (task\<lparr>tr_skipped := tr_skipped task + 1\<rparr>, t, 0)
     else
       (let timeout = (if bt_Timeout (tr_task task) \<le> 0 then DefaultHandlerTimeout else bt_Timeout (tr_task task));
            policy = normalizeTaskRunPolicy uni (ts_RunPolicy (tr_spec task));
            shardKey = taskLeaseShardKey policy (tr_spec task);
            leaseRequired = taskLeaseRequired policy;
            task = task\<lparr>tr_running := True\<rparr>;
            leaseTTL = taskLeaseTTL dur (tr_spec task) (duration (timeout * taskMaxAttempts (tr_spec task)))
        in if \<not> leaseRequired
           then run_and_finish uni env False pluginID shardKey nodeID
                  (task\<lparr>tr_leaseOwner := [], tr_leaseExpiresAt := 0, tr_leaseAcquired := False, tr_cancel := True\<rparr>) t
           else (case AcquireTaskLease (re_acquire env) (re_now env) pluginID (bt_ID (tr_task task)) shardKey nodeID leaseTTL t of
              (t, Inl e) \<Rightarrow>
                (let task = finishTaskRunLocked (task\<lparr>tr_leaseOwner := [], tr_leaseExpiresAt := 0, tr_leaseAcquired := False\<rparr>)
                 in (task\<lparr>tr_consecutiveFailures := tr_consecutiveFailures task + 1, tr_lastError := redactSensitive uni (Error e)\<rparr>, t, 0))
            | (t, Inr (record, acquired)) \<Rightarrow>
                (let task = task\<lparr>tr_leaseOwner := tl_OwnerNodeID record, tr_leaseExpiresAt := tl_ExpiresAt record, tr_leaseAcquired := acquired\<rparr>
                 in if \<not> acquired
                    then (finishTaskRunLocked task\<lparr>tr_skipped := tr_skipped task + 1, tr_leaseSkipped := tr_leaseSkipped task + 1,
                            tr_lastError := ''task lease held by node '' @ tl_OwnerNodeID record @ '' until '' @ show_int (tl_ExpiresAt record)\<rparr>, t, 0)
                    else run_and_finish uni env True pluginID shardKey nodeID (task\<lparr>tr_cancel := True\<rparr>) t))))"

section \<open>Properties\<close>

definition retried :: "error option \<times> bool \<Rightarrow> bool" where
  "retried r = (fst r \<noteq> None \<and> \<not> snd r)"

lemma run_attempts_facts:
  assumes "run_attempts run a (Suc m) r = (n, err)"
  shows "a \<le> n \<and> n \<le> a + m \<and> (\<forall>i. a \<le> i \<and> i < n \<longrightarrow> retried (run i)) \<and> err = fst (run n) \<and> (n < a + m \<longrightarrow> \<not> retried (run n))"
  using assms
proof (induction m arbitrary: a r)
  case 0
  then show ?case by (auto simp: retried_def split: prod.splits if_splits)
next
  case (Suc m)
  show ?case
  proof (cases "retried (run a)")
    case True
    then have "run_attempts run (Suc a) (Suc m) (a, fst (run a)) = (n, err)"
      using Suc.prems by (auto simp: retried_def split: prod.splits if_splits)
    from Suc.IH [OF this] show ?thesis using True by (auto simp: le_eq_less_or_eq [of a] Suc_le_eq)
  next
    case False
    then have "(n, err) = (a, fst (run a))" using Suc.prems by (auto simp: retried_def split: prod.splits if_splits)
    with False show ?thesis by auto
  qed
qed

lemma max_attempts_bounds: "1 \<le> taskMaxAttempts spec \<and> taskMaxAttempts spec \<le> 11"
  by (simp add: taskMaxAttempts_def taskRetryLimit_def)

lemma run_and_finish_facts:
  assumes "run_and_finish uni env owned pluginID shardKey nodeID task t = (task', t', n)"
  shows "\<not> tr_running task' \<and> 1 \<le> n \<and> n \<le> 11 \<and> (\<forall>i. 1 \<le> i \<and> i < n \<longrightarrow> retried (re_run env i))
    \<and> (tr_consecutiveFailures task' = 0 \<or> fst (re_run env n) \<noteq> None)
    \<and> (owned \<longrightarrow> t' = fst (ReleaseTaskLease (re_release env) pluginID (bt_ID (tr_task task)) shardKey nodeID (re_others env t)))
    \<and> tr_skipped task' = tr_skipped task"
proof -
  obtain m where m: "nat (taskMaxAttempts (tr_spec task)) = Suc m" "m \<le> 10"
    using max_attempts_bounds [of "tr_spec task"] by (cases "nat (taskMaxAttempts (tr_spec task))") auto
  obtain k err where r: "run_attempts (re_run env) 1 (Suc m) (0, None) = (k, err)" by fastforce
  have "n = k" "\<not> tr_running task'" "tr_skipped task' = tr_skipped task"
    "owned \<longrightarrow> t' = fst (ReleaseTaskLease (re_release env) pluginID (bt_ID (tr_task task)) shardKey nodeID (re_others env t))"
    "tr_consecutiveFailures task' = 0 \<or> err \<noteq> None"
    using assms unfolding run_and_finish_def m(1) r prod.case Let_def finishTaskRunLocked_def by (auto split: option.splits if_splits)
  with run_attempts_facts [OF r] m(2) show ?thesis by auto
qed

lemma released_gone:
  assumes "pluginID \<noteq> [] \<and> taskID \<noteq> [] \<and> owner \<noteq> []" "li_exec io = None"
  shows "\<forall>r \<in> set (fst (ReleaseTaskLease io pluginID taskID sk owner t)). lease_key r = (pluginID, taskID, sk) \<longrightarrow> tl_OwnerNodeID r \<noteq> owner"
  using assms by (simp add: ReleaseTaskLease_def)

text \<open>The key of the lease a task needs.\<close>

definition task_key :: "(string \<Rightarrow> string) \<Rightarrow> string \<Rightarrow> taskRuntime \<Rightarrow> lease_key" where
  "task_key uni pluginID task = (pluginID, bt_ID (tr_task task),
     taskLeaseShardKey (normalizeTaskRunPolicy uni (ts_RunPolicy (tr_spec task))) (tr_spec task))"

text \<open>A run that needs a lease: it does not get it and leaves everything, or it has it.\<close>

lemma runTask_cases:
  assumes "runTask uni dur env False pluginID nodeID task t = (task', t', n)" "\<not> tr_running task" "unique_keys lease_key t"
    and "policy = normalizeTaskRunPolicy uni (ts_RunPolicy (tr_spec task))" "taskLeaseRequired policy" "sk = taskLeaseShardKey policy (tr_spec task)"
  obtains (idle) "n = 0" "t' = t" "\<not> tr_running task'"
  | (leased) t1 rec ttl where "AcquireTaskLease (re_acquire env) (re_now env) pluginID (bt_ID (tr_task task)) sk nodeID ttl t = (t1, Inr (rec, True))"
      "run_and_finish uni env True pluginID sk nodeID (task\<lparr>tr_running := True, tr_leaseOwner := tl_OwnerNodeID rec,
          tr_leaseExpiresAt := tl_ExpiresAt rec, tr_leaseAcquired := True, tr_cancel := True\<rparr>) t1 = (task', t', n)"
proof -
  define timeout where "timeout = (if bt_Timeout (tr_task task) \<le> 0 then DefaultHandlerTimeout else bt_Timeout (tr_task task))"
  define ttl where "ttl = taskLeaseTTL dur (tr_spec task) (duration (timeout * taskMaxAttempts (tr_spec task)))"
  obtain t1 r where a: "AcquireTaskLease (re_acquire env) (re_now env) pluginID (bt_ID (tr_task task)) sk nodeID ttl t = (t1, r)" by fastforce
  note out = AcquireTaskLease_outcome [OF a assms(3)]
  have ttl: "taskLeaseTTL dur (tr_spec (task\<lparr>tr_running := True\<rparr>)) (duration (timeout * taskMaxAttempts (tr_spec (task\<lparr>tr_running := True\<rparr>)))) = ttl"
    and ids: "bt_ID (tr_task (task\<lparr>tr_running := True\<rparr>)) = bt_ID (tr_task task)" by (simp_all add: ttl_def)
  have nr: "tr_running task = False" "taskLeaseRequired policy = True" using assms(2,5) by simp_all
  note eq = assms(1) [unfolded runTask_def Let_def, folded assms(4), folded assms(6) timeout_def,
      unfolded ttl ids a nr if_False if_True not_True_eq_False prod.case]
  show ?thesis
  proof (cases r)
    case (Inl e)
    then show ?thesis using eq [unfolded Inl sum.case] out by (intro idle) (auto simp: acquire_outcome_def finishTaskRunLocked_def)
  next
    case (Inr x)
    obtain rec acquired where x: "x = (rec, acquired)" by fastforce
    show ?thesis
    proof (cases acquired)
      case False
      then show ?thesis using eq [unfolded Inr x sum.case prod.case] out Inr x
        by (intro idle) (auto simp: acquire_outcome_def finishTaskRunLocked_def)
    next
      case True
      then show ?thesis using eq [unfolded Inr x sum.case prod.case] a Inr x by (intro leased) simp_all
    qed
  qed
qed


definition demo_task :: taskRuntime where
  "demo_task = new_task ''p'' ''n1'' (zero_TaskSpec\<lparr>ts_ID := ''sync'', ts_RunPolicy := ''Singleton'', ts_Retry := 2\<rparr>)
     \<lparr>bt_ID = ''sync'', bt_Name = [], bt_Interval = 0, bt_RunOnStart = False, bt_Jitter = 0, bt_Timeout = 0, bt_Manual = True, bt_hasRun = True\<rparr> ''tok''"

definition demo_run_env :: run_env where
  "demo_run_env = \<lparr>re_acquire = lease_io_ok, re_now = 100 * Second, re_run = (\<lambda>i. (if i < 3 then Some (ErrorString ''busy'') else None, False)),
     re_others = id, re_leaseLost = None, re_release = lease_io_ok, re_start = 100 * Second, re_end = 103 * Second\<rparr>"


section \<open>Renewals\<close>

text \<open>The renewal timer fires no later than its interval after the lease was taken or last renewed.\<close>

fun fires_in_time :: "int \<Rightarrow> int \<Rightarrow> (lease_io \<times> (leases \<Rightarrow> leases) \<times> int) list \<Rightarrow> bool" where
  "fires_in_time since ttl [] = True"
| "fires_in_time since ttl ((_, _, now) # fs) = (since \<le> now \<and> now \<le> since + renew_interval ttl \<and> fires_in_time now ttl fs)"

fun last_fire :: "int \<Rightarrow> (lease_io \<times> (leases \<Rightarrow> leases) \<times> int) list \<Rightarrow> int" where
  "last_fire since [] = since"
| "last_fire since ((_, _, now) # fs) = last_fire now fs"

text \<open>The database answers, and the other nodes leave the lease alone.\<close>

definition undisturbed :: "lease_key \<Rightarrow> lease_io \<times> (leases \<Rightarrow> leases) \<times> int \<Rightarrow> bool" where
  "undisturbed k f = (case f of (io, others, _) \<Rightarrow> li_exec io = None \<and> li_select io = None
     \<and> (\<forall>t. unique_keys lease_key t \<longrightarrow> unique_keys lease_key (others t) \<and> row_select lease_key k (others t) = row_select lease_key k t))"

text \<open>The state of the table between two renewals.\<close>

definition renewed_at :: "int \<Rightarrow> int \<Rightarrow> lease_key \<Rightarrow> string \<Rightarrow> leases \<Rightarrow> bool" where
  "renewed_at since ttl k owner t = (unique_keys lease_key t
     \<and> (\<exists>r. row_select lease_key k t = Some r \<and> tl_OwnerNodeID r = owner \<and> tl_ExpiresAt r = snd (lease_times since ttl)))"

lemma renew_fire_in_time:
  assumes "renewed_at since ttl (pluginID, bt_ID (tr_task task), shardKey) nodeID t" "2 * Second \<le> ttl"
    and "since \<le> now" "now \<le> since + renew_interval ttl" "undisturbed (pluginID, bt_ID (tr_task task), shardKey) (io, others, now)"
    and "pluginID \<noteq> []" "bt_ID (tr_task task) \<noteq> []" "nodeID \<noteq> []"
  obtains task' t' where "renew_fire io others now pluginID shardKey nodeID ttl task t = (task', t', None)"
    and "renewed_at now ttl (pluginID, bt_ID (tr_task task), shardKey) nodeID t'" "tr_task task' = tr_task task"
proof -
  let ?k = "(pluginID, bt_ID (tr_task task), shardKey)"
  obtain r where r: "row_select lease_key ?k t = Some r" "tl_OwnerNodeID r = nodeID" "tl_ExpiresAt r = snd (lease_times since ttl)"
    and u: "unique_keys lease_key t" using assms(1) unfolding renewed_at_def by blast
  obtain t1 where t1: "renew_update now ?k nodeID ttl t = (t1, 1)"
    and r1: "row_select lease_key ?k t1 = Some (r\<lparr>tl_ExpiresAt := snd (lease_times now ttl), tl_UpdatedAt := Unix now\<rparr>)"
    using renewal_in_time [OF u r assms(2,3,4)] by blast
  have u1: "unique_keys lease_key t1" using renew_update_select(1) [OF t1 u] .
  have io: "li_exec io = None" "li_select io = None"
    and o: "unique_keys lease_key (others t1)" "row_select lease_key ?k (others t1) = row_select lease_key ?k t1"
    using assms(5) u1 unfolding undisturbed_def prod.case by blast+
  let ?r = "r\<lparr>tl_ExpiresAt := snd (lease_times now ttl), tl_UpdatedAt := Unix now\<rparr>"
  have "RenewTaskLease io others now pluginID (bt_ID (tr_task task)) shardKey nodeID ttl t = (others t1, Inr (?r, True))"
    using assms(6-8) io o(2) r1 t1 by (simp add: RenewTaskLease_def Let_def)
  then have "renew_fire io others now pluginID shardKey nodeID ttl task t =
      (task\<lparr>tr_leaseOwner := tl_OwnerNodeID ?r, tr_leaseExpiresAt := tl_ExpiresAt ?r, tr_leaseAcquired := (True \<and> tl_OwnerNodeID ?r = nodeID)\<rparr>, others t1, None)"
    unfolding renew_fire_def by simp
  moreover have "renewed_at now ttl ?k nodeID (others t1)"
    using o r1 r(2) unfolding renewed_at_def by simp
  ultimately show ?thesis using that by simp
qed

text \<open>
  C25: a lease of at least two seconds is kept for as long as the run lasts: when the timer fires on time, the database answers and
  no other node touches the lease, no renewal ends the run, and until the next firing the lease has not expired.
\<close>

theorem renewals_keep_lease:
  assumes "fires_in_time since ttl fs" "\<forall>f \<in> set fs. undisturbed (pluginID, bt_ID (tr_task task), shardKey) f"
    and "renewed_at since ttl (pluginID, bt_ID (tr_task task), shardKey) nodeID t" "2 * Second \<le> ttl"
    and "pluginID \<noteq> []" "bt_ID (tr_task task) \<noteq> []" "nodeID \<noteq> []"
  shows "\<exists>task' t'. renewTaskLease pluginID shardKey nodeID ttl fs task t = (task', t', None)
    \<and> (\<forall>now. last_fire since fs \<le> now \<and> now \<le> last_fire since fs + renew_interval ttl \<longrightarrow>
        (\<exists>r. row_select lease_key (pluginID, bt_ID (tr_task task), shardKey) t' = Some r \<and> tl_OwnerNodeID r = nodeID \<and> Unix now < tl_ExpiresAt r))"
  using assms
proof (induction fs arbitrary: since task t)
  case Nil
  have "Unix (since + (now - since)) < snd (lease_times since ttl)" if "since \<le> now" "now \<le> since + renew_interval ttl" for now
    using that Nil.prems(4) renew_interval_long [OF Nil.prems(4)] by (intro lease_times_lasts) (simp_all add: Second_def)
  then show ?case using Nil.prems(3) unfolding renewed_at_def by auto
next
  case (Cons f fs)
  obtain io others now where f: "f = (io, others, now)" by (cases f)
  have f1: "since \<le> now" "now \<le> since + renew_interval ttl" and f2: "fires_in_time now ttl fs" using Cons.prems(1) by (simp_all add: f)
  have d: "undisturbed (pluginID, bt_ID (tr_task task), shardKey) (io, others, now)" using Cons.prems(2) by (simp add: f)
  obtain task1 t1 where 1: "renew_fire io others now pluginID shardKey nodeID ttl task t = (task1, t1, None)"
    and 2: "renewed_at now ttl (pluginID, bt_ID (tr_task task), shardKey) nodeID t1" and 3: "tr_task task1 = tr_task task"
    using renew_fire_in_time [OF Cons.prems(3,4) f1 d Cons.prems(5-7)] by blast
  have "\<forall>f \<in> set fs. undisturbed (pluginID, bt_ID (tr_task task1), shardKey) f" using Cons.prems(2) 3 by simp
  note ih = Cons.IH [OF f2 this, of t1, unfolded 3, OF 2 Cons.prems(4-7)]
  show ?case using ih by (simp add: f 1)
qed

definition demo_fires :: "(lease_io \<times> (leases \<Rightarrow> leases) \<times> int) list" where
  "demo_fires = [(lease_io_ok, id, 115 * Second), (lease_io_ok, id, 130 * Second)]"

theorem renewals_keep_lease_witness:
  "\<exists>task' t' r. renewTaskLease ''p'' ''global'' ''n1'' (30 * Second) demo_fires demo_task [demo_lease ''n1'' 130 100] = (task', t', None)
    \<and> row_select lease_key demo_key t' = Some r \<and> Unix (145 * Second) < tl_ExpiresAt r"
proof -
  have k: "(''p'', bt_ID (tr_task demo_task), ''global'') = demo_key" by (simp add: demo_key_def demo_task_def new_task_def)
  have i: "renew_interval (30 * Second) = 15 * Second" by (subst renew_interval_long) (simp_all add: Second_def)
  have "renewed_at (100 * Second) (30 * Second) demo_key ''n1'' [demo_lease ''n1'' 130 100]"
    by (simp add: renewed_at_def row_select_def lease_key_def demo_lease_def demo_key_def demo_times)
  moreover have "fires_in_time (100 * Second) (30 * Second) demo_fires" "last_fire (100 * Second) demo_fires = 130 * Second"
    unfolding demo_fires_def fires_in_time.simps last_fire.simps i by (simp_all add: Second_def)
  moreover have "\<forall>f \<in> set demo_fires. undisturbed demo_key f" by (simp add: demo_fires_def undisturbed_def lease_io_ok_def)
  moreover have "2 * Second \<le> 30 * Second" "130 * Second \<le> 145 * Second" "145 * Second \<le> 130 * Second + 15 * Second" by (simp_all add: Second_def)
  moreover have "bt_ID (tr_task demo_task) \<noteq> []" by (simp add: demo_task_def new_task_def)
  ultimately show ?thesis
    using renewals_keep_lease [of "100 * Second" "30 * Second" demo_fires "''p''" demo_task "''global''" "''n1''" "[demo_lease ''n1'' 130 100]", unfolded k i]
    by (metis list.distinct(1))
qed

end
