(* ===== verification/External_Client.thy ===== *)
theory External_Client
  imports Ops_Common "HOL-Library.Word"
begin

text \<open>
  The client through which plugins reach the external services their manifest declares, \<open>pluginExternalClient\<close> of
  \<open>src/internal/pluginmanager/operations.go\<close>: requests are kept to the declared endpoint, counted, and cut off by a circuit
  breaker while the service fails.

  \<open>parse\<close> is \<open>url.Parse\<close> (with the text of \<open>URL.String\<close> in the result), \<open>resolve\<close> is \<open>URL.ResolveReference\<close>, \<open>feq\<close> is
  \<open>strings.EqualFold\<close> outside ASCII and \<open>uni\<close> lower-casing outside ASCII; what the network answers is
  an argument of each request.
\<close>

section \<open>The declared endpoint\<close>

record Url =
  u_Scheme :: string
  u_Host :: string
  u_Path :: string
  u_String :: string

record ExternalSpec =
  xs_Name :: string
  xs_Endpoint :: string
  xs_Retry :: int
  xs_Purpose :: string
  xs_Required :: bool
  xs_FailPolicy :: string

definition declaredSpec :: "(string \<rightharpoonup> ExternalSpec) \<Rightarrow> string \<Rightarrow> ExternalSpec option" where
  "declaredSpec externalSpecs name = (case externalSpecs name of None \<Rightarrow> None | Some spec \<Rightarrow> if xs_Name spec = [] then None else Some spec)"

definition EqualFold :: "(string \<Rightarrow> string \<Rightarrow> bool) \<Rightarrow> string \<Rightarrow> string \<Rightarrow> bool" where
  "EqualFold feq a b = (if ascii a \<and> ascii b then map lower_byte a = map lower_byte b else feq a b)"

definition cleanExternalHTTPPath :: "string \<Rightarrow> string" where
  "cleanExternalHTTPPath value =
    (if value = [] then ''/''
     else let clean = path_Clean value in
       if clean = ''.'' then ''/'' else if \<not> HasPrefix clean ''/'' then ''/'' @ clean else clean)"

definition externalHTTPPathInScope :: "string \<Rightarrow> string \<Rightarrow> bool" where
  "externalHTTPPathInScope scopePath targetPath =
    (let scopePath = cleanExternalHTTPPath scopePath;
         targetPath = cleanExternalHTTPPath targetPath
     in scopePath = ''/'' \<or> targetPath = scopePath \<or> HasPrefix targetPath (scopePath @ ''/''))"

definition externalHTTPURLForSpec ::
  "(string \<Rightarrow> Url option) \<Rightarrow> (Url \<Rightarrow> Url \<Rightarrow> Url) \<Rightarrow> (string \<Rightarrow> string \<Rightarrow> bool) \<Rightarrow> ExternalSpec \<Rightarrow> string \<Rightarrow> string result" where
  "externalHTTPURLForSpec parse resolve feq spec raw =
    (case parse (TrimSpace (xs_Endpoint spec)) of
       None \<Rightarrow> Inl (ErrorString ''external dependency endpoint is invalid'')
     | Some endpoint \<Rightarrow>
        if u_Scheme endpoint = [] \<or> u_Host endpoint = [] then Inl (ErrorString ''external dependency endpoint is invalid'')
        else if u_Scheme endpoint \<noteq> ''http'' \<and> u_Scheme endpoint \<noteq> ''https''
        then Inl (ErrorString ''external dependency does not allow HTTP access'')
        else let raw = TrimSpace raw in
          if raw = [] then Inr (u_String endpoint)
          else (case parse raw of
              None \<Rightarrow> Inl (ErrorString ''external dependency request URL is invalid'')
            | Some target \<Rightarrow>
               (let target = (if u_Scheme target = [] then resolve endpoint target else target) in
                if u_Scheme target \<noteq> u_Scheme endpoint \<or> \<not> EqualFold feq (u_Host target) (u_Host endpoint)
                then Inl (ErrorString ''external dependency request URL is outside declared endpoint'')
                else if \<not> externalHTTPPathInScope (u_Path endpoint) (u_Path target)
                then Inl (ErrorString ''external dependency request URL is outside declared endpoint path'')
                else Inr (u_String target))))"

definition externalTCPAddressForSpec :: "(string \<Rightarrow> string \<Rightarrow> bool) \<Rightarrow> ExternalSpec \<Rightarrow> string \<Rightarrow> string result" where
  "externalTCPAddressForSpec feq spec address =
    (case CutPrefix (TrimSpace (xs_Endpoint spec)) ''tcp://'' of
       None \<Rightarrow> Inl (ErrorString ''external dependency does not allow TCP access'')
     | Some declared \<Rightarrow>
         (let address = TrimSpace address in
          if address = [] then Inr declared
          else if \<not> EqualFold feq address declared
          then Inl (ErrorString ''external dependency request address is outside declared endpoint'')
          else Inr address))"

section \<open>Statistics and circuit breaker\<close>

record externalRuntime =
  er_requests :: "64 word"
  er_errors :: "64 word"
  er_inflight :: int
  er_durationCount :: "64 word"
  er_durationSumMS :: "64 word"
  er_consecutiveFailures :: "64 word"
  er_circuitUntil :: "int option" \<comment> \<open>the zero \<open>time.Time\<close> is \<open>None\<close>\<close>
  er_recentError :: string
  er_lastStatus :: string
  er_lastSeenAt :: int

definition new_runtime :: externalRuntime where
  "new_runtime = \<lparr>er_requests = 0, er_errors = 0, er_inflight = 0, er_durationCount = 0, er_durationSumMS = 0,
     er_consecutiveFailures = 0, er_circuitUntil = None, er_recentError = [], er_lastStatus = [], er_lastSeenAt = 0\<rparr>"

definition beforeRequest :: "int \<Rightarrow> externalRuntime \<Rightarrow> externalRuntime \<times> error option" where
  "beforeRequest now rt =
    (if (case er_circuitUntil rt of None \<Rightarrow> False | Some u \<Rightarrow> now < u)
     then (rt, Some (ErrorString ''external dependency circuit is open''))
     else (rt\<lparr>er_requests := er_requests rt + 1, er_inflight := er_inflight rt + 1\<rparr>, None))"

definition finish :: "(string \<Rightarrow> string) \<Rightarrow> int \<Rightarrow> int \<Rightarrow> string \<Rightarrow> error option \<Rightarrow> externalRuntime \<Rightarrow> externalRuntime" where
  "finish uni start now status err rt =
    (let rt = rt\<lparr>er_durationCount := er_durationCount rt + 1,
                er_durationSumMS := er_durationSumMS rt + of_int ((now - start) div 1000000),
                er_lastStatus := status, er_lastSeenAt := Unix now\<rparr>
     in case err of
          Some e \<Rightarrow>
            (let failures = er_consecutiveFailures rt + 1;
                 rt = rt\<lparr>er_errors := er_errors rt + 1, er_consecutiveFailures := failures,
                        er_recentError := redactSensitive uni (Error e)\<rparr>
             in if failures \<ge> 3 then rt\<lparr>er_circuitUntil := Some (now + 30 * Second)\<rparr> else rt)
        | None \<Rightarrow> rt\<lparr>er_consecutiveFailures := 0, er_recentError := [], er_circuitUntil := None\<rparr>)"

definition leave :: "externalRuntime \<Rightarrow> externalRuntime" where
  "leave rt = rt\<lparr>er_inflight := er_inflight rt - 1\<rparr>"

section \<open>Requests\<close>

text \<open>
  What a request does to the outside: the URLs and addresses it contacts, and the trace it records.  Where a service
  redirects an HTTP request to is followed inside \<open>http.DefaultClient\<close> and not visible here.
\<close>

datatype ext_event = Sent string | Trace string string

text \<open>
  What the outside answers: the times at which the request starts, passes the breaker and ends, whether the request can be
  built, the status or error of each attempt, and what reading the body yields when it is open and
  when it has been closed.
\<close>

record http_env =
  he_start :: int
  he_before :: int
  he_end :: int
  he_build :: "error option"
  he_attempt :: "nat \<Rightarrow> int result"
  he_body :: "bytes result"
  he_closed :: "bytes result"

text \<open>The attempts: the last answer, whether its body has been closed, and how many were made.\<close>

fun http_attempts :: "(nat \<Rightarrow> int result) \<Rightarrow> nat \<Rightarrow> nat \<Rightarrow> int result \<Rightarrow> int result \<times> bool \<times> nat" where
  "http_attempts attempt i 0 answer = (answer, True, i)"
| "http_attempts attempt i (Suc n) answer =
    (case attempt i of
       Inr status \<Rightarrow> if status < 500 then (Inr status, False, Suc i) else http_attempts attempt (Suc i) n (Inr status)
     | Inl e \<Rightarrow> http_attempts attempt (Suc i) n (Inl e))"

definition attempt_count :: "ExternalSpec \<Rightarrow> nat" where
  "attempt_count spec = (let attempts = signed_take_bit 63 (xs_Retry spec + 1) in if attempts \<le> 0 then 1 else nat attempts)"

definition show_status :: "int \<Rightarrow> string" where
  "show_status status = show_base 10 (nat status)"

text \<open>The answer to the attempts: status for the statistics, status for the trace, and the result.\<close>

definition http_outcome :: "http_env \<Rightarrow> int result \<times> bool \<Rightarrow> string \<times> string \<times> (int \<times> bytes) result" where
  "http_outcome env r = (case r of (answer, closed) \<Rightarrow>
    (case answer of
       Inl e \<Rightarrow> (''error'', ''error'', Inl e)
     | Inr status \<Rightarrow>
        (case (if closed then he_closed env else he_body env) of
           Inl e \<Rightarrow> (''read_error'', ''read_error'', Inl e)
         | Inr body \<Rightarrow>
             if status \<ge> 500
             then (''http_'' @ show_status status, ''http_'' @ show_status status,
                   Inl (ErrorString (''external dependency returned status '' @ show_status status)))
             else (''http_'' @ show_status status, show_status status, Inr (status, body)))))"

definition error_of :: "'a result \<Rightarrow> error option" where
  "error_of r = (case r of Inl e \<Rightarrow> Some e | Inr _ \<Rightarrow> None)"

definition DoHTTP ::
  "(string \<Rightarrow> string) \<Rightarrow> (ExternalSpec \<Rightarrow> string \<Rightarrow> string result) \<Rightarrow> http_env \<Rightarrow> ExternalSpec option \<Rightarrow> string \<Rightarrow> externalRuntime
    \<Rightarrow> (int \<times> bytes) result \<times> externalRuntime \<times> ext_event list" where
  "DoHTTP uni url_for env spec url rt = (case spec of
      None \<Rightarrow> (Inl (ErrorString ''external dependency is not declared by manifest''), rt, [])
    | Some spec \<Rightarrow> (case url_for spec url of
        Inl e \<Rightarrow> (Inl e, finish uni (he_start env) (he_end env) ''policy_denied'' (Some e) rt, [Trace ''http'' ''policy_denied''])
      | Inr target \<Rightarrow> (case beforeRequest (he_before env) rt of
          (rt, Some e) \<Rightarrow> (Inl e, finish uni (he_start env) (he_end env) ''circuit_open'' (Some e) rt, [Trace ''http'' ''circuit_open''])
        | (rt, None) \<Rightarrow> (case he_build env of
            Some e \<Rightarrow> (Inl e, leave (finish uni (he_start env) (he_end env) ''request_error'' (Some e) rt), [Trace ''http'' ''request_error''])
          | None \<Rightarrow> (case http_attempts (he_attempt env) 0 (attempt_count spec) (Inl (ErrorString [])) of
              (answer, closed, n) \<Rightarrow> (case http_outcome env (answer, closed) of
                (status, trace, result) \<Rightarrow>
                  (result, leave (finish uni (he_start env) (he_end env) status (error_of result) rt),
                   replicate n (Sent target) @ [Trace ''http'' trace])))))))"

text \<open>\<open>DialTCP\<close>; \<open>dial\<close> is the outcome of the dial.\<close>

definition DialTCP ::
  "(string \<Rightarrow> string) \<Rightarrow> (string \<Rightarrow> string \<Rightarrow> bool) \<Rightarrow> http_env \<Rightarrow> error option \<Rightarrow> ExternalSpec option \<Rightarrow> string \<Rightarrow> externalRuntime
    \<Rightarrow> error option \<times> externalRuntime \<times> ext_event list" where
  "DialTCP uni feq env dial spec address rt = (case spec of
      None \<Rightarrow> (Some (ErrorString ''external dependency is not declared by manifest''), rt, [])
    | Some spec \<Rightarrow> (case externalTCPAddressForSpec feq spec address of
        Inl e \<Rightarrow> (Some e, finish uni (he_start env) (he_end env) ''policy_denied'' (Some e) rt, [Trace ''tcp'' ''policy_denied''])
      | Inr target \<Rightarrow> (case beforeRequest (he_before env) rt of
          (rt, Some e) \<Rightarrow> (Some e, finish uni (he_start env) (he_end env) ''circuit_open'' (Some e) rt, [Trace ''tcp'' ''circuit_open''])
        | (rt, None) \<Rightarrow> (case dial of
            Some e \<Rightarrow> (Some e, leave (finish uni (he_start env) (he_end env) ''dial_error'' (Some e) rt), [Sent target, Trace ''tcp'' ''dial_error''])
          | None \<Rightarrow> (None, leave (finish uni (he_start env) (he_end env) ''ok'' None rt), [Sent target, Trace ''tcp'' ''ok''])))))"

definition HealthCheck ::
  "(string \<Rightarrow> string) \<Rightarrow> (string \<Rightarrow> string \<Rightarrow> bool) \<Rightarrow> (ExternalSpec \<Rightarrow> string \<Rightarrow> string result) \<Rightarrow> http_env \<Rightarrow> error option
    \<Rightarrow> ExternalSpec option \<Rightarrow> externalRuntime \<Rightarrow> error option \<times> externalRuntime \<times> ext_event list" where
  "HealthCheck uni feq url_for env dial spec rt = (case spec of
      None \<Rightarrow> (Some (ErrorString ''external dependency is not declared by manifest''), rt, [])
    | Some sp \<Rightarrow> (case CutPrefix (xs_Endpoint sp) ''tcp://'' of
        Some address \<Rightarrow> DialTCP uni feq env dial spec address rt
      | None \<Rightarrow> (case DoHTTP uni url_for env spec (xs_Endpoint sp) rt of
          (r, rt, ev) \<Rightarrow>
            (let err = (case r of Inl e \<Rightarrow> Some e
                 | Inr (status, _) \<Rightarrow> if status \<ge> 400 then Some (ErrorString (''health check status '' @ show_status status)) else None)
             in case err of
                  None \<Rightarrow> (None, rt, ev)
                | Some e \<Rightarrow> (Some e, rt\<lparr>er_lastStatus := ''health_failed'', er_recentError := redactSensitive uni (Error e)\<rparr>, ev)))))"

section \<open>The breaker\<close>

definition open_at :: "int \<Rightarrow> externalRuntime \<Rightarrow> bool" where
  "open_at t rt = (case er_circuitUntil rt of None \<Rightarrow> False | Some u \<Rightarrow> t < u)"

lemma beforeRequest_open: "open_at now rt \<Longrightarrow> beforeRequest now rt = (rt, Some (ErrorString ''external dependency circuit is open''))"
  by (simp add: beforeRequest_def open_at_def)

lemma unat_plus_one: "unat w + 1 < 2 ^ 64 \<Longrightarrow> unat (w + 1 :: 64 word) = unat w + 1"
  by (simp add: unat_word_ariths)

lemma finish_error:
  assumes "3 \<le> unat (er_consecutiveFailures rt)" "unat (er_consecutiveFailures rt) + 1 < 2 ^ 64"
  shows "er_circuitUntil (finish uni start now status (Some e) rt) = Some (now + 30 * Second)"
    "unat (er_consecutiveFailures (finish uni start now status (Some e) rt)) = unat (er_consecutiveFailures rt) + 1"
proof -
  have "unat (er_consecutiveFailures rt + 1) = unat (er_consecutiveFailures rt) + 1"
    by (rule unat_plus_one [OF assms(2)])
  moreover from this have "3 \<le> er_consecutiveFailures rt + 1" using assms(1) by (simp add: word_le_nat_alt)
  ultimately show "er_circuitUntil (finish uni start now status (Some e) rt) = Some (now + 30 * Second)"
    "unat (er_consecutiveFailures (finish uni start now status (Some e) rt)) = unat (er_consecutiveFailures rt) + 1"
    by (simp_all add: finish_def Let_def)
qed

lemma DoHTTP_open:
  assumes "open_at (he_before env) rt"
  shows "\<exists>e. DoHTTP uni url_for env (Some spec) url rt =
      (Inl e, finish uni (he_start env) (he_end env) (case url_for spec url of Inl _ \<Rightarrow> ''policy_denied'' | Inr _ \<Rightarrow> ''circuit_open'') (Some e) rt,
       [Trace ''http'' (case url_for spec url of Inl _ \<Rightarrow> ''policy_denied'' | Inr _ \<Rightarrow> ''circuit_open'')])"
  using assms by (simp add: DoHTTP_def beforeRequest_open split: sum.split)

text \<open>Requests one after the other, each with the answers of the outside.\<close>

fun run_requests ::
  "(string \<Rightarrow> string) \<Rightarrow> (ExternalSpec \<Rightarrow> string \<Rightarrow> string result) \<Rightarrow> ExternalSpec \<Rightarrow> (http_env \<times> string) list \<Rightarrow> externalRuntime
    \<Rightarrow> externalRuntime \<times> ext_event list" where
  "run_requests uni url_for spec [] rt = (rt, [])"
| "run_requests uni url_for spec ((env, url) # rs) rt =
    (case DoHTTP uni url_for env (Some spec) url rt of
       (_, rt, ev) \<Rightarrow> (case run_requests uni url_for spec rs rt of (rt, evs) \<Rightarrow> (rt, ev @ evs)))"

fun gaps_below :: "int \<Rightarrow> int \<Rightarrow> (http_env \<times> string) list \<Rightarrow> bool" where
  "gaps_below gap until [] = True"
| "gaps_below gap until ((env, url) # rs) = (he_before env < until \<and> gaps_below gap (he_end env + gap) rs)"

text \<open>
  the breaker does not close under steady demand.  A request that the open breaker turns away is counted as one more failure and
  opens it for another 30 seconds.  So when a plugin asks at least every 30 seconds, then once the breaker is
  open no request is sent any more, however long the service has been well again.
\<close>

theorem circuit_stuck:
  assumes "er_circuitUntil rt = Some u" "3 \<le> unat (er_consecutiveFailures rt)"
    and "unat (er_consecutiveFailures rt) + length rs < 2 ^ 64" "gaps_below (30 * Second) u rs"
  shows "\<forall>target. Sent target \<notin> set (snd (run_requests uni url_for spec rs rt))"
  using assms
proof (induction rs arbitrary: rt u)
  case (Cons r rs)
  obtain env url where r: "r = (env, url)" by fastforce
  have "open_at (he_before env) rt" using Cons.prems r by (simp add: open_at_def)
  then obtain e st where d: "DoHTTP uni url_for env (Some spec) url rt =
      (Inl e, finish uni (he_start env) (he_end env) st (Some e) rt, [Trace ''http'' st])"
    using DoHTTP_open by blast
  have f: "unat (er_consecutiveFailures rt) + 1 < 2 ^ 64" using Cons.prems(3) by simp
  have "\<forall>target. Sent target \<notin> set (snd (run_requests uni url_for spec rs (finish uni (he_start env) (he_end env) st (Some e) rt)))"
  proof (rule Cons.IH)
    show "er_circuitUntil (finish uni (he_start env) (he_end env) st (Some e) rt) = Some (he_end env + 30 * Second)"
      by (rule finish_error [OF Cons.prems(2) f])
    show "3 \<le> unat (er_consecutiveFailures (finish uni (he_start env) (he_end env) st (Some e) rt))"
      "unat (er_consecutiveFailures (finish uni (he_start env) (he_end env) st (Some e) rt)) + length rs < 2 ^ 64"
      using finish_error(2) [OF Cons.prems(2) f] Cons.prems(2,3) by simp_all
    show "gaps_below (30 * Second) (he_end env + 30 * Second) rs" using Cons.prems(4) r by simp
  qed
  then show ?case by (simp add: r d split_def)
qed simp

definition ext_spec :: ExternalSpec where
  "ext_spec = \<lparr>xs_Name = ''session'', xs_Endpoint = ''https://session.example/api'', xs_Retry = 0, xs_Purpose = [], xs_Required = False, xs_FailPolicy = []\<rparr>"

definition ext_env :: "int \<Rightarrow> int result \<Rightarrow> http_env" where
  "ext_env t answer = \<lparr>he_start = t, he_before = t, he_end = t, he_build = None, he_attempt = (\<lambda>_. answer),
     he_body = Inr ''ok'', he_closed = Inl (ErrorString ''http: read on closed response body'')\<rparr>"

definition ext_url_for :: "ExternalSpec \<Rightarrow> string \<Rightarrow> string result" where
  "ext_url_for spec url = Inr (xs_Endpoint spec)"

text \<open>Three failures open the breaker; the service answers again from second 10 on, with requests every 20 seconds.\<close>

definition ext_failed :: externalRuntime where
  "ext_failed = fst (run_requests id ext_url_for ext_spec
     (map (\<lambda>t. (ext_env (t * Second) (Inl (ErrorString ''refused'')), [])) [1, 2, 3]) new_runtime)"

definition ext_later :: "(http_env \<times> string) list" where
  "ext_later = map (\<lambda>t. (ext_env (t * Second) (Inr 200), [])) [20, 40, 60, 80, 100]"

theorem circuit_stuck_witness:
  "er_circuitUntil ext_failed = Some (33 * Second) \<and> he_attempt (fst (last ext_later)) 0 = Inr 200
    \<and> (\<forall>target. \<not> Sent target \<in> set (snd (run_requests id ext_url_for ext_spec ext_later ext_failed)))"
proof -
  have "er_circuitUntil ext_failed = Some (33 * Second)" "er_consecutiveFailures ext_failed = 3"
    by (code_simp)+
  moreover have "gaps_below (30 * Second) (33 * Second) ext_later" "length ext_later = 5" "he_attempt (fst (last ext_later)) 0 = Inr 200"
    by (simp_all add: ext_later_def ext_env_def Second_def)
  ultimately show ?thesis
    using circuit_stuck [of ext_failed "33 * Second" ext_later id ext_url_for ext_spec] by simp
qed

section \<open>Properties of requests\<close>

lemma finish_inflight [simp]: "er_inflight (finish uni start now status err rt) = er_inflight rt"
  by (simp add: finish_def Let_def split: option.split)

text \<open>The elements of a path.\<close>

abbreviation elems :: "string \<Rightarrow> string list" where
  "elems p \<equiv> SplitByte p CHR ''/''"

lemma in_scope_elems:
  assumes "externalHTTPPathInScope scope path"
  shows "cleanExternalHTTPPath scope = ''/'' \<or> prefix (elems (cleanExternalHTTPPath scope)) (elems (cleanExternalHTTPPath path))"
proof -
  consider "cleanExternalHTTPPath scope = ''/''" | "cleanExternalHTTPPath path = cleanExternalHTTPPath scope"
    | v where "cleanExternalHTTPPath path = cleanExternalHTTPPath scope @ CHR ''/'' # v"
    using assms by (auto simp: externalHTTPPathInScope_def Let_def prefix_def)
  then show ?thesis by cases (auto simp: SplitByte_append_sep)
qed

text \<open>The target of a request that is let through: the endpoint, the given URL, or the given reference resolved against the endpoint.\<close>

definition in_endpoint :: "(string \<Rightarrow> string \<Rightarrow> bool) \<Rightarrow> Url \<Rightarrow> Url \<Rightarrow> bool" where
  "in_endpoint feq endpoint target = (u_Scheme endpoint \<in> {''http'', ''https''} \<and> u_Scheme target = u_Scheme endpoint
     \<and> (target = endpoint \<or> EqualFold feq (u_Host target) (u_Host endpoint)
        \<and> (cleanExternalHTTPPath (u_Path endpoint) = ''/''
           \<or> prefix (elems (cleanExternalHTTPPath (u_Path endpoint))) (elems (cleanExternalHTTPPath (u_Path target))))))"

lemma externalHTTPURLForSpec_scope:
  assumes "externalHTTPURLForSpec parse resolve feq spec raw = Inr u"
  shows "\<exists>endpoint target. parse (TrimSpace (xs_Endpoint spec)) = Some endpoint \<and> u = u_String target \<and> in_endpoint feq endpoint target"
proof -
  obtain endpoint where ep: "parse (TrimSpace (xs_Endpoint spec)) = Some endpoint" "u_Scheme endpoint \<in> {''http'', ''https''}"
    using assms by (auto simp: externalHTTPURLForSpec_def split: option.splits if_splits)
  show ?thesis
  proof (cases "TrimSpace raw = []")
    case True
    then have "u = u_String endpoint" using assms ep by (auto simp: externalHTTPURLForSpec_def split: if_splits)
    then show ?thesis using ep by (auto simp: in_endpoint_def)
  next
    case False
    then obtain t where t: "parse (TrimSpace raw) = Some t"
      using assms ep by (auto simp: externalHTTPURLForSpec_def Let_def split: option.splits if_splits)
    define target where "target = (if u_Scheme t = [] then resolve endpoint t else t)"
    have "u = u_String target \<and> u_Scheme target = u_Scheme endpoint \<and> EqualFold feq (u_Host target) (u_Host endpoint)
        \<and> externalHTTPPathInScope (u_Path endpoint) (u_Path target)"
      using assms False unfolding externalHTTPURLForSpec_def ep(1) Let_def option.case t target_def [symmetric]
      by (auto split: if_splits)
    then show ?thesis using ep in_scope_elems [of "u_Path endpoint" "u_Path target"] unfolding in_endpoint_def by blast
  qed
qed

lemma http_attempts_count:
  "http_attempts attempt i n r = (r', c, k) \<Longrightarrow> k \<le> i + n"
  by (induction attempt i n r arbitrary: r' c k rule: http_attempts.induct) (fastforce split: sum.splits if_splits)+


text \<open>
  A service that answers with a server error to the end: the bodies have all been closed for the next attempt, so reading the
  last one fails and the error is reported as a read error, without the status.
\<close>

lemma server_error_hidden:
  assumes "\<forall>i. \<exists>status \<ge> 500. he_attempt env i = Inr status" "he_closed env = Inl e" "url_for spec url = Inr u"
    and "\<not> open_at (he_before env) rt" "he_build env = None"
  shows "fst (DoHTTP uni url_for env (Some spec) url rt) = Inl e
    \<and> er_lastStatus (fst (snd (DoHTTP uni url_for env (Some spec) url rt))) = ''read_error''"
proof -
  have all: "\<exists>status. http_attempts (he_attempt env) i (Suc n) r = (Inr status, True, i + Suc n)" for i n r
  proof (induction n arbitrary: i r)
    case 0
    then show ?case using assms(1) [rule_format, of i] by auto
  next
    case (Suc n)
    obtain status where "500 \<le> status" "he_attempt env i = Inr status" using assms(1) by blast
    then show ?case using Suc.IH [of "Suc i" "Inr status"] by (simp del: http_attempts.simps(2) add: http_attempts.simps(2) [of _ i "Suc n"])
  qed
  obtain k where k: "attempt_count spec = Suc k" by (cases "attempt_count spec") (auto simp: attempt_count_def Let_def split: if_splits)
  obtain status where h: "http_attempts (he_attempt env) 0 (attempt_count spec) (Inl (ErrorString [])) = (Inr status, True, attempt_count spec)"
    using all [of 0 k] k by auto
  have "beforeRequest (he_before env) rt = (rt\<lparr>er_requests := er_requests rt + 1, er_inflight := er_inflight rt + 1\<rparr>, None)"
    using assms(4) by (auto simp: beforeRequest_def open_at_def split: option.splits)
  then show ?thesis using assms(2,3,5) h
    by (simp add: DoHTTP_def http_outcome_def leave_def finish_def error_of_def Let_def)
qed

definition ext_parse :: "string \<Rightarrow> Url option" where
  "ext_parse s = (if s = ''https://session.example/api''
     then Some \<lparr>u_Scheme = ''https'', u_Host = ''session.example'', u_Path = ''/api'', u_String = s\<rparr>
     else if s = ''https://session.example/api/../admin''
     then Some \<lparr>u_Scheme = ''https'', u_Host = ''session.example'', u_Path = ''/api/../admin'', u_String = s\<rparr>
     else if s = ''https://session.example/api/join''
     then Some \<lparr>u_Scheme = ''https'', u_Host = ''session.example'', u_Path = ''/api/join'', u_String = s\<rparr> else None)"


end
