(* ===== verification/Plugin_Store.thy ===== *)
theory Plugin_Store
  imports Ops_Common Tables
begin

text \<open>
  What plugins keep: the key-value store and the files of \<open>src/internal/pluginmanager/operations.go\<close>, with their tables in
  \<open>repository.go\<close>.  The tables and the disk are states; which statement or system call fails, and the two
  clocks a call reads, are arguments.  \<open>uni\<close> is lower-casing outside ASCII.
\<close>

section \<open>Data\<close>

record DataStoreSpec =
  ds_SchemaVersion :: int
  ds_DataClass :: string
  ds_QuotaBytes :: int
  ds_Exportable :: bool

record FileStoreSpec =
  fs_Namespace :: string
  fs_DataClass :: string
  fs_QuotaBytes :: int
  fs_Readonly :: bool

record DataRecord =
  dr_Key :: string
  dr_Value :: bytes
  dr_SchemaVersion :: int
  dr_DataClass :: string
  dr_Exportable :: bool
  dr_Retention :: int

record PluginData =
  pd_PluginID :: string
  pd_Key :: string
  pd_Value :: bytes
  pd_SchemaVersion :: int
  pd_DataClass :: string
  pd_Exportable :: bool
  pd_SizeBytes :: int
  pd_ExpiresAt :: int
  pd_CreatedAt :: int
  pd_UpdatedAt :: int

record PluginFile =
  pf_PluginID :: string
  pf_Namespace :: string
  pf_Path :: string
  pf_DiskPath :: string
  pf_DataClass :: string
  pf_Exportable :: bool
  pf_Readonly :: bool
  pf_SizeBytes :: int
  pf_ExpiresAt :: int
  pf_CreatedAt :: int
  pf_UpdatedAt :: int

type_synonym data_rows = "PluginData list"
type_synonym file_rows = "PluginFile list"
type_synonym disk = "string \<Rightarrow> bytes option"

definition data_key :: "PluginData \<Rightarrow> string \<times> string" where
  "data_key r = (pd_PluginID r, pd_Key r)"

definition file_key :: "PluginFile \<Rightarrow> string \<times> string \<times> string" where
  "file_key r = (pf_PluginID r, pf_Namespace r, pf_Path r)"

text \<open>The part of \<open>PluginOperations\<close> the stores use; \<open>TempDir\<close> is what \<open>os.TempDir\<close> answers.\<close>

record store_ops =
  so_pluginID :: string
  so_artifactID :: string
  so_root :: string
  so_TempDir :: string
  so_dataQuota :: int
  so_dataSpec :: DataStoreSpec
  so_fileQuota :: int
  so_fileSpecs :: "string \<rightharpoonup> FileStoreSpec"

definition DefaultPluginDataQuota :: int where
  "DefaultPluginDataQuota = 16 * 1024 * 1024"

definition DefaultPluginDataKeyLimit :: int where
  "DefaultPluginDataKeyLimit = 256 * 1024"

definition DefaultPluginFileQuota :: int where
  "DefaultPluginFileQuota = 32 * 1024 * 1024"

section \<open>Quotas from the manifest\<close>

definition add_fileSpec :: "FileStoreSpec \<Rightarrow> int \<times> (string \<rightharpoonup> FileStoreSpec) \<Rightarrow> int \<times> (string \<rightharpoonup> FileStoreSpec)" where
  "add_fileSpec spec st = (case st of (quota, specs) \<Rightarrow>
    if fs_Namespace spec = [] then (quota, specs)
    else (if fs_QuotaBytes spec > 0 \<and> fs_QuotaBytes spec < quota then fs_QuotaBytes spec else quota,
          specs(fs_Namespace spec \<mapsto> spec)))"

definition default_fileSpec :: "string \<Rightarrow> FileStoreSpec" where
  "default_fileSpec namespace = \<lparr>fs_Namespace = namespace, fs_DataClass = [], fs_QuotaBytes = DefaultPluginFileQuota, fs_Readonly = False\<rparr>"

definition configure_stores :: "DataStoreSpec list \<Rightarrow> FileStoreSpec list \<Rightarrow> store_ops \<Rightarrow> store_ops" where
  "configure_stores DataStores FileStores po =
    (let dataSpec = (case DataStores of
           [] \<Rightarrow> \<lparr>ds_SchemaVersion = 0, ds_DataClass = [], ds_QuotaBytes = DefaultPluginDataQuota, ds_Exportable = False\<rparr>
         | spec # _ \<Rightarrow> spec);
         dataQuota = (if DataStores \<noteq> [] \<and> ds_QuotaBytes dataSpec > 0 then ds_QuotaBytes dataSpec else DefaultPluginDataQuota);
         (fileQuota, fileSpecs) = fold add_fileSpec FileStores (DefaultPluginFileQuota, Map.empty);
         fileSpecs = (if list_all (\<lambda>s. fs_Namespace s = []) FileStores
           then fold (\<lambda>n m. m(n \<mapsto> default_fileSpec n)) [''data'', ''cache'', ''tmp'', ''log'', ''diagnostic''] fileSpecs else fileSpecs)
     in po\<lparr>so_dataQuota := dataQuota, so_dataSpec := dataSpec, so_fileQuota := fileQuota, so_fileSpecs := fileSpecs\<rparr>)"

section \<open>Key-value store\<close>

record store_io =
  si_usage :: "error option"
  si_get :: "error option"
  si_exec :: "error option"
  si_clock :: int
  si_dbClock :: int

definition PluginDataUsage :: "string \<Rightarrow> data_rows \<Rightarrow> int" where
  "PluginDataUsage pluginID rows = (\<Sum>r\<leftarrow>filter (\<lambda>r. pd_PluginID r = pluginID) rows. pd_SizeBytes r)"

text \<open>\<open>PutPluginData\<close>; the size that is stored is that of the value.\<close>

definition PutPluginData :: "store_io \<Rightarrow> PluginData \<Rightarrow> data_rows \<Rightarrow> error option \<times> data_rows" where
  "PutPluginData io row rows = (case si_exec io of
      Some e \<Rightarrow> (Some e, rows)
    | None \<Rightarrow>
        (let now = Unix (si_dbClock io);
             new = row\<lparr>pd_SizeBytes := int (length (pd_Value row)), pd_CreatedAt := now, pd_UpdatedAt := now\<rparr>
         in (None, row_upsert data_key new (\<lambda>old. new\<lparr>pd_PluginID := pd_PluginID old, pd_Key := pd_Key old, pd_CreatedAt := pd_CreatedAt old\<rparr>) rows)))"

definition GetPluginData :: "store_io \<Rightarrow> string \<Rightarrow> string \<Rightarrow> data_rows \<Rightarrow> PluginData result" where
  "GetPluginData io pluginID key rows = (case si_get io of
      Some e \<Rightarrow> Inl e
    | None \<Rightarrow> (case row_select data_key (pluginID, key) rows of None \<Rightarrow> Inl Sql_ErrNoRows | Some r \<Rightarrow> Inr r))"

definition DeletePluginData :: "store_io \<Rightarrow> string \<Rightarrow> string \<Rightarrow> data_rows \<Rightarrow> error option \<times> data_rows" where
  "DeletePluginData io pluginID key rows = (case si_exec io of
      Some e \<Rightarrow> (Some e, rows)
    | None \<Rightarrow> (None, row_delete data_key (pluginID, key) rows))"

text \<open>The checks of \<open>Put\<close>: the key under which the record will be stored.\<close>

definition put_check :: "store_ops \<Rightarrow> store_io \<Rightarrow> DataRecord \<Rightarrow> data_rows \<Rightarrow> string result" where
  "put_check po io record rows = (case cleanStoreKey (dr_Key record) of
      Inl e \<Rightarrow> Inl e
    | Inr key \<Rightarrow>
        if int (length (dr_Value record)) > DefaultPluginDataKeyLimit then Inl (ErrorString ''plugin_data key size exceeds limit'')
        else
          (let current = (if si_usage io = None then PluginDataUsage (so_pluginID po) rows else 0);
               old = (case GetPluginData io (so_pluginID po) key rows of Inr r \<Rightarrow> pd_SizeBytes r | Inl _ \<Rightarrow> 0);
               nextUsage = current - old + int (length (dr_Value record))
           in if nextUsage > so_dataQuota po then Inl (ErrorString ''plugin_data quota exceeded'') else Inr key))"

definition put_row :: "(string \<Rightarrow> string) \<Rightarrow> store_ops \<Rightarrow> store_io \<Rightarrow> DataRecord \<Rightarrow> string \<Rightarrow> PluginData" where
  "put_row uni po io record key =
    \<lparr>pd_PluginID = so_pluginID po, pd_Key = key, pd_Value = dr_Value record,
     pd_SchemaVersion = (if dr_SchemaVersion record = 0 then ds_SchemaVersion (so_dataSpec po) else dr_SchemaVersion record),
     pd_DataClass = redactSensitive uni (if dr_DataClass record = [] then ds_DataClass (so_dataSpec po) else dr_DataClass record),
     pd_Exportable = (dr_Exportable record \<or> ds_Exportable (so_dataSpec po)),
     pd_SizeBytes = int (length (dr_Value record)), pd_ExpiresAt = retentionDeadline (si_clock io) (dr_Retention record),
     pd_CreatedAt = 0, pd_UpdatedAt = 0\<rparr>"

definition data_Put :: "(string \<Rightarrow> string) \<Rightarrow> store_ops \<Rightarrow> store_io \<Rightarrow> DataRecord \<Rightarrow> data_rows \<Rightarrow> error option \<times> data_rows" where
  "data_Put uni po io record rows = (case put_check po io record rows of
      Inl e \<Rightarrow> (Some e, rows)
    | Inr key \<Rightarrow> PutPluginData io (put_row uni po io record key) rows)"

definition data_Get :: "store_ops \<Rightarrow> store_io \<Rightarrow> string \<Rightarrow> data_rows \<Rightarrow> DataRecord result" where
  "data_Get po io key rows = (case cleanStoreKey key of
      Inl e \<Rightarrow> Inl e
    | Inr clean \<Rightarrow> (case GetPluginData io (so_pluginID po) clean rows of
        Inl e \<Rightarrow> Inl e
      | Inr r \<Rightarrow> Inr \<lparr>dr_Key = pd_Key r, dr_Value = pd_Value r, dr_SchemaVersion = pd_SchemaVersion r, dr_DataClass = pd_DataClass r,
                     dr_Exportable = pd_Exportable r, dr_Retention = 0\<rparr>))"

definition data_Delete :: "store_ops \<Rightarrow> store_io \<Rightarrow> string \<Rightarrow> data_rows \<Rightarrow> error option \<times> data_rows" where
  "data_Delete po io key rows = (case cleanStoreKey key of
      Inl e \<Rightarrow> (Some e, rows)
    | Inr clean \<Rightarrow> DeletePluginData io (so_pluginID po) clean rows)"

section \<open>Files\<close>

text \<open>
  The outcomes of the calls: \<open>fi_write\<close> says what is left at the path when the write fails, \<open>fi_read\<close> is an error other than the end of
  the file.
\<close>

record file_io =
  fi_usage :: "error option"
  fi_list :: "error option"
  fi_mkdir :: "error option"
  fi_write :: "(error \<times> bytes option) option"
  fi_exec :: "error option"
  fi_read :: "error option"
  fi_removed :: bool
  fi_clock :: int
  fi_dbClock :: int

definition isSubpath :: "string \<Rightarrow> string \<Rightarrow> bool" where
  "isSubpath root target = (case filepath_Rel (path_Clean root) (path_Clean target) of
      None \<Rightarrow> False
    | Some rel \<Rightarrow> rel \<noteq> ''..'' \<and> \<not> HasPrefix rel ''../'')"

definition runtimeRoot :: "store_ops \<Rightarrow> string \<Rightarrow> string" where
  "runtimeRoot po namespace =
    filepath_Join [if so_root po = [] then so_TempDir po else so_root po, ''_runtime'', so_pluginID po, namespace]"

definition namespaceSpec :: "store_ops \<Rightarrow> string \<Rightarrow> (string \<times> FileStoreSpec) result" where
  "namespaceSpec po namespace =
    (let trimmed = TrimSpace namespace;
         namespace = (if trimmed = [] then ''data'' else trimmed)
     in if \<not> metricName namespace then Inl (ErrorString ''invalid file namespace'')
        else (case so_fileSpecs po namespace of
            None \<Rightarrow> Inl (ErrorString ''file namespace is not declared'')
          | Some spec \<Rightarrow> if fs_Namespace spec = [] then Inl (ErrorString ''file namespace is not declared'') else Inr (namespace, spec)))"

text \<open>The path on disk that \<open>Write\<close>, \<open>Read\<close> and \<open>Delete\<close> work on.\<close>

definition file_target :: "store_ops \<Rightarrow> string \<Rightarrow> string \<Rightarrow> string result" where
  "file_target po namespace clean =
    (let root = runtimeRoot po namespace; target = filepath_Join [root, clean]
     in if \<not> isSubpath root target then Inl (ErrorString ''unsafe file path'') else Inr target)"

definition ResourcePath :: "store_ops \<Rightarrow> string \<Rightarrow> string result" where
  "ResourcePath po name = (case cleanStorePath name of
      Inl e \<Rightarrow> Inl e
    | Inr clean \<Rightarrow>
        (let artifactDir = filepath_Join [so_root po, so_pluginID po, so_artifactID po];
             resource = filepath_Join [artifactDir, ''resources'', clean]
         in if \<not> isSubpath (filepath_Join [artifactDir, ''resources'']) resource then Inl (ErrorString ''unsafe resource path'') else Inr resource))"

definition PluginFileUsage :: "string \<Rightarrow> file_rows \<Rightarrow> int" where
  "PluginFileUsage pluginID rows = (\<Sum>r\<leftarrow>filter (\<lambda>r. pf_PluginID r = pluginID) rows. pf_SizeBytes r)"

definition UpsertPluginFile :: "file_io \<Rightarrow> PluginFile \<Rightarrow> file_rows \<Rightarrow> error option \<times> file_rows" where
  "UpsertPluginFile io row rows = (case fi_exec io of
      Some e \<Rightarrow> (Some e, rows)
    | None \<Rightarrow>
        (let now = Unix (fi_dbClock io);
             new = row\<lparr>pf_Exportable := pf_Readonly row, pf_CreatedAt := now, pf_UpdatedAt := now\<rparr>
         in (None, row_upsert file_key new (\<lambda>old. new\<lparr>pf_PluginID := pf_PluginID old, pf_Namespace := pf_Namespace old, pf_Path := pf_Path old,
               pf_CreatedAt := pf_CreatedAt old\<rparr>) rows)))"

text \<open>The size of the file that is overwritten, as the table has it.\<close>

definition old_size :: "store_ops \<Rightarrow> file_io \<Rightarrow> string \<Rightarrow> string \<Rightarrow> file_rows \<Rightarrow> int" where
  "old_size po io namespace clean rows =
    (if fi_list io \<noteq> None then 0
     else case row_select file_key (so_pluginID po, namespace, clean) rows of None \<Rightarrow> 0 | Some r \<Rightarrow> pf_SizeBytes r)"

definition write_disk :: "file_io \<Rightarrow> string \<Rightarrow> bytes \<Rightarrow> disk \<Rightarrow> error option \<times> disk" where
  "write_disk io target data disk = (case fi_mkdir io of
      Some e \<Rightarrow> (Some e, disk)
    | None \<Rightarrow> (case fi_write io of
        Some (e, left) \<Rightarrow> (Some e, disk(target := left))
      | None \<Rightarrow> (None, disk(target := Some data))))"

definition file_Write ::
  "(string \<Rightarrow> string) \<Rightarrow> store_ops \<Rightarrow> file_io \<Rightarrow> string \<Rightarrow> string \<Rightarrow> bytes \<Rightarrow> string \<Rightarrow> int \<Rightarrow> disk \<Rightarrow> file_rows
    \<Rightarrow> error option \<times> disk \<times> file_rows" where
  "file_Write uni po io namespace name data dataClass retention disk rows = (case namespaceSpec po namespace of
      Inl e \<Rightarrow> (Some e, disk, rows)
    | Inr (namespace, spec) \<Rightarrow>
        if fs_Readonly spec then (Some (ErrorString ''file namespace is readonly''), disk, rows)
        else (case cleanStorePath name of
          Inl e \<Rightarrow> (Some e, disk, rows)
        | Inr clean \<Rightarrow>
            (let quota = (if fs_QuotaBytes spec \<le> 0 then so_fileQuota po else fs_QuotaBytes spec);
                 usage = (if fi_usage io = None then PluginFileUsage (so_pluginID po) rows else 0);
                 nextUsage = usage - old_size po io namespace clean rows + int (length data)
             in if nextUsage > quota then (Some (ErrorString ''plugin file quota exceeded''), disk, rows)
                else (case file_target po namespace clean of
                  Inl e \<Rightarrow> (Some e, disk, rows)
                | Inr target \<Rightarrow> (case write_disk io target data disk of
                    (Some e, disk) \<Rightarrow> (Some e, disk, rows)
                  | (None, disk) \<Rightarrow>
                      (case UpsertPluginFile io
                          \<lparr>pf_PluginID = so_pluginID po, pf_Namespace = namespace, pf_Path = clean, pf_DiskPath = target,
                           pf_DataClass = redactSensitive uni (if dataClass = [] then fs_DataClass spec else dataClass),
                           pf_Exportable = False, pf_Readonly = fs_Readonly spec, pf_SizeBytes = int (length data),
                           pf_ExpiresAt = retentionDeadline (fi_clock io) retention, pf_CreatedAt = 0, pf_UpdatedAt = 0\<rparr> rows of
                         (e, rows) \<Rightarrow> (e, disk, rows)))))))"

text \<open>\<open>Read\<close>; the limit is a 64-bit integer, and one more byte than the limit is asked for.\<close>

definition file_Read :: "store_ops \<Rightarrow> file_io \<Rightarrow> string \<Rightarrow> string \<Rightarrow> int \<Rightarrow> disk \<Rightarrow> bytes result" where
  "file_Read po io namespace name maxBytes disk = (case namespaceSpec po namespace of
      Inl e \<Rightarrow> Inl e
    | Inr (namespace, _) \<Rightarrow> (case cleanStorePath name of
        Inl e \<Rightarrow> Inl e
      | Inr clean \<Rightarrow> (case file_target po namespace clean of
          Inl e \<Rightarrow> Inl e
        | Inr target \<Rightarrow>
            (let maxBytes = (if maxBytes \<le> 0 then DefaultPluginDataKeyLimit else maxBytes) in
             case disk target of
               None \<Rightarrow> Inl (ErrorString ''no such file or directory'')
             | Some content \<Rightarrow> (case fi_read io of
                 Some e \<Rightarrow> Inl e
               | None \<Rightarrow>
                   (let buf = take (nat (signed_take_bit 63 (maxBytes + 1))) content in
                    if int (length buf) > maxBytes then Inl (ErrorString ''file exceeds max read size'') else Inr buf))))))"

definition file_Delete :: "store_ops \<Rightarrow> file_io \<Rightarrow> string \<Rightarrow> string \<Rightarrow> disk \<Rightarrow> file_rows \<Rightarrow> error option \<times> disk \<times> file_rows" where
  "file_Delete po io namespace name disk rows = (case namespaceSpec po namespace of
      Inl e \<Rightarrow> (Some e, disk, rows)
    | Inr (namespace, spec) \<Rightarrow>
        if fs_Readonly spec then (Some (ErrorString ''file namespace is readonly''), disk, rows)
        else (case cleanStorePath name of
          Inl e \<Rightarrow> (Some e, disk, rows)
        | Inr clean \<Rightarrow> (case file_target po namespace clean of
            Inl e \<Rightarrow> (Some e, disk, rows)
          | Inr target \<Rightarrow>
              (let disk = (if fi_removed io then disk(target := None) else disk) in
               case fi_exec io of
                 Some e \<Rightarrow> (Some e, disk, rows)
               | None \<Rightarrow> (None, disk, row_delete file_key (so_pluginID po, namespace, clean) rows)))))"

section \<open>The key-value store keeps its quota\<close>

definition data_merge :: "PluginData option \<Rightarrow> PluginData \<Rightarrow> PluginData" where
  "data_merge old new = (case old of None \<Rightarrow> new | Some o' \<Rightarrow> new\<lparr>pd_PluginID := pd_PluginID o', pd_Key := pd_Key o', pd_CreatedAt := pd_CreatedAt o'\<rparr>)"

definition data_upsert :: "PluginData \<Rightarrow> data_rows \<Rightarrow> data_rows" where
  "data_upsert new = row_upsert data_key new (\<lambda>old. new\<lparr>pd_PluginID := pd_PluginID old, pd_Key := pd_Key old, pd_CreatedAt := pd_CreatedAt old\<rparr>)"

lemma data_key_update [simp]:
  "data_key (new\<lparr>pd_PluginID := pd_PluginID old, pd_Key := pd_Key old, pd_CreatedAt := c\<rparr>) = data_key old"
  by (simp add: data_key_def)

interpretation data: keyed_store "\<lambda>rows k. row_select data_key k rows" data_upsert "row_delete data_key" data_key data_merge "unique_keys data_key"
  by unfold_locales
    (simp_all add: data_upsert_def table_simps data_merge_def unique_row_upsert unique_row_delete split: option.splits)

text \<open>The table: keys are unique and each size is that of its value.\<close>

definition data_wf :: "data_rows \<Rightarrow> bool" where
  "data_wf rows = (unique_keys data_key rows \<and> (\<forall>r \<in> set rows. pd_SizeBytes r = int (length (pd_Value r))))"

lemma PutPluginData_upsert:
  assumes "si_exec io = None"
  shows "PutPluginData io row rows = (None, data_upsert (row\<lparr>pd_SizeBytes := int (length (pd_Value row)),
    pd_CreatedAt := Unix (si_dbClock io), pd_UpdatedAt := Unix (si_dbClock io)\<rparr>) rows)"
  using assms by (simp add: PutPluginData_def data_upsert_def Let_def)

lemma data_upsert_wf:
  assumes "data_wf rows" "pd_SizeBytes new = int (length (pd_Value new))"
  shows "data_wf (data_upsert new rows)"
  using assms data.invar_update [of rows new] unfolding data_wf_def data_upsert_def by (auto dest!: set_row_upsert)

lemma data_usage_upsert:
  assumes "data_wf rows"
  shows "PluginDataUsage p (data_upsert new rows) = PluginDataUsage p rows
    + (if pd_PluginID new = p then pd_SizeBytes new - (case row_select data_key (data_key new) rows of None \<Rightarrow> 0 | Some r \<Rightarrow> pd_SizeBytes r) else 0)"
proof -
  have u: "unique_keys data_key rows" using assms by (simp add: data_wf_def)
  show ?thesis
    unfolding PluginDataUsage_def data_upsert_def
    by (rule sum_filter_upsert [OF u]) (auto simp: data_key_def)
qed

lemma data_Put_rows:
  assumes "data_Put uni po io record rows = (e, rows')"
  shows "rows' = rows \<or> (\<exists>key. put_check po io record rows = Inr key \<and> si_exec io = None
    \<and> rows' = data_upsert (put_row uni po io record key\<lparr>pd_CreatedAt := Unix (si_dbClock io), pd_UpdatedAt := Unix (si_dbClock io)\<rparr>) rows)"
proof (cases "put_check po io record rows")
  case (Inr key)
  show ?thesis
  proof (cases "si_exec io")
    case None
    have "put_row uni po io record key\<lparr>pd_SizeBytes := int (length (pd_Value (put_row uni po io record key))), pd_CreatedAt := a, pd_UpdatedAt := b\<rparr>
        = put_row uni po io record key\<lparr>pd_CreatedAt := a, pd_UpdatedAt := b\<rparr>" for a b
      by (simp add: put_row_def)
    then show ?thesis using assms Inr None by (auto simp: data_Put_def PutPluginData_upsert [OF None])
  next
    case (Some e)
    then show ?thesis using assms Inr by (simp add: data_Put_def PutPluginData_def)
  qed
qed (use assms in \<open>simp add: data_Put_def\<close>)

text \<open>The operations of plugins on the store, one after the other.\<close>

datatype data_op = Op_Put store_ops store_io DataRecord | Op_Delete store_ops store_io string

fun data_step :: "(string \<Rightarrow> string) \<Rightarrow> data_op \<Rightarrow> data_rows \<Rightarrow> data_rows" where
  "data_step uni (Op_Put po io record) rows = snd (data_Put uni po io record rows)"
| "data_step uni (Op_Delete po io key) rows = snd (data_Delete po io key rows)"

text \<open>A plugin's quota is the same in all its calls, and the queries of the quota check are answered.\<close>

fun metered :: "(string \<Rightarrow> int) \<Rightarrow> data_op \<Rightarrow> bool" where
  "metered quota (Op_Put po io record) = (so_dataQuota po = quota (so_pluginID po) \<and> si_usage io = None \<and> si_get io = None)"
| "metered quota (Op_Delete po io key) = True"

definition in_quota :: "(string \<Rightarrow> int) \<Rightarrow> data_rows \<Rightarrow> bool" where
  "in_quota quota rows = (data_wf rows \<and> (\<forall>p. PluginDataUsage p rows \<le> quota p))"

lemma data_Put_in_quota:
  assumes "in_quota quota rows" "metered quota (Op_Put po io record)"
  shows "in_quota quota (snd (data_Put uni po io record rows))"
proof -
  obtain e rows' where r: "data_Put uni po io record rows = (e, rows')" by fastforce
  have wf: "data_wf rows" and q: "PluginDataUsage p rows \<le> quota p" for p using assms(1) by (simp_all add: in_quota_def)
  from data_Put_rows [OF r] show ?thesis
  proof
    assume "rows' = rows"
    then show ?thesis using assms(1) r by simp
  next
    assume "\<exists>key. put_check po io record rows = Inr key \<and> si_exec io = None
      \<and> rows' = data_upsert (put_row uni po io record key\<lparr>pd_CreatedAt := Unix (si_dbClock io), pd_UpdatedAt := Unix (si_dbClock io)\<rparr>) rows"
    then obtain key new where key: "put_check po io record rows = Inr key" and rows': "rows' = data_upsert new rows"
      and new: "pd_PluginID new = so_pluginID po" "pd_Key new = key" "pd_SizeBytes new = int (length (dr_Value record))"
        "pd_Value new = dr_Value record" by (auto simp: put_row_def)
    let ?old = "case row_select data_key (so_pluginID po, key) rows of None \<Rightarrow> 0 | Some r \<Rightarrow> pd_SizeBytes r"
    have "PluginDataUsage (so_pluginID po) rows - ?old + int (length (dr_Value record)) \<le> quota (so_pluginID po)"
      using key assms(2) by (auto simp: put_check_def GetPluginData_def Let_def split: sum.splits if_splits option.splits)
    then have "PluginDataUsage p rows' \<le> quota p" for p
      using q [of p] unfolding rows' data_usage_upsert [OF wf] by (auto simp: data_key_def new)
    moreover have "data_wf rows'" unfolding rows' by (rule data_upsert_wf [OF wf]) (simp add: new)
    ultimately show ?thesis using r by (simp add: in_quota_def)
  qed
qed

lemma data_Delete_in_quota:
  assumes "in_quota quota rows"
  shows "in_quota quota (snd (data_Delete po io key rows))"
proof -
  have wf: "data_wf rows" and q: "PluginDataUsage p rows \<le> quota p" for p using assms by (simp_all add: in_quota_def)
  have "PluginDataUsage p (row_delete data_key k rows) \<le> quota p" for p k
    using q [of p] sum_filter_delete_le [of rows pd_SizeBytes "\<lambda>r. pd_PluginID r = p" data_key k] wf
    unfolding PluginDataUsage_def data_wf_def by fastforce
  moreover have "data_wf (row_delete data_key k rows)" for k
    using wf unique_row_delete [of data_key rows k] by (auto simp: data_wf_def row_delete_def)
  ultimately show ?thesis using assms
    by (auto simp: data_Delete_def DeletePluginData_def in_quota_def split: sum.splits option.splits)
qed

text \<open>
  C28: no sequence of writes and deletions takes a plugin over its quota, as long as one write ends before the next begins and the
  queries of the quota check are answered; sizes in the table stay those of the values.
\<close>

theorem data_quota_kept:
  assumes "in_quota quota rows" "list_all (metered quota) ops"
  shows "in_quota quota (fold (data_step uni) ops rows)"
  using assms
proof (induction ops arbitrary: rows)
  case (Cons op ops)
  have "in_quota quota (data_step uni op rows)"
    using Cons.prems data_Put_in_quota data_Delete_in_quota by (cases op) simp_all
  then show ?case using Cons by simp
qed simp

definition store_demo :: store_ops where
  "store_demo = configure_stores [\<lparr>ds_SchemaVersion = 1, ds_DataClass = ''player'', ds_QuotaBytes = 10, ds_Exportable = False\<rparr>] []
     \<lparr>so_pluginID = ''p'', so_artifactID = ''v1'', so_root = ''/srv/plugins'', so_TempDir = ''/tmp'', so_dataQuota = 0,
      so_dataSpec = \<lparr>ds_SchemaVersion = 0, ds_DataClass = [], ds_QuotaBytes = 0, ds_Exportable = False\<rparr>,
      so_fileQuota = 0, so_fileSpecs = Map.empty\<rparr>"

definition store_io_ok :: store_io where
  "store_io_ok = \<lparr>si_usage = None, si_get = None, si_exec = None, si_clock = 100 * Second, si_dbClock = 100 * Second\<rparr>"

definition demo_put :: "string \<Rightarrow> bytes \<Rightarrow> DataRecord" where
  "demo_put key value = \<lparr>dr_Key = key, dr_Value = value, dr_SchemaVersion = 0, dr_DataClass = [], dr_Exportable = False, dr_Retention = 0\<rparr>"

definition demo_puts :: "data_op list" where
  "demo_puts = [Op_Put store_demo store_io_ok (demo_put ''a'' ''123456''), Op_Put store_demo store_io_ok (demo_put ''b'' ''12345''),
     Op_Put store_demo store_io_ok (demo_put ''a'' ''1234567890'')]"

text \<open>The second write is refused, the third replaces the first value.\<close>

theorem data_quota_kept_witness:
  "in_quota (\<lambda>_. 10) (fold (data_step id) demo_puts []) \<and> PluginDataUsage ''p'' (fold (data_step id) demo_puts []) = 10"
proof -
  have "list_all (metered (\<lambda>_. 10)) demo_puts" by code_simp
  moreover have "in_quota (\<lambda>_. 10) []" by (simp add: in_quota_def data_wf_def PluginDataUsage_def)
  moreover have "PluginDataUsage ''p'' (fold (data_step id) demo_puts []) = 10" by code_simp
  ultimately show ?thesis using data_quota_kept [of "\<lambda>_. 10" "[]" demo_puts id] by simp
qed

text \<open>
  two writes of one plugin that overlap both pass the check and together exceed the quota: the check and the write are separate
  statements, without a transaction or lock around them.
\<close>

theorem data_quota_race:
  "\<exists>po io r1 r2 k1 k2. in_quota (\<lambda>_. so_dataQuota po) [] \<and> put_check po io r1 [] = Inr k1 \<and> put_check po io r2 [] = Inr k2
    \<and> (case PutPluginData io (put_row id po io r1 k1) [] of (e1, rows) \<Rightarrow>
         case PutPluginData io (put_row id po io r2 k2) rows of (e2, rows) \<Rightarrow>
           e1 = None \<and> e2 = None \<and> PluginDataUsage (so_pluginID po) rows > so_dataQuota po)"
proof (intro exI conjI)
  show "in_quota (\<lambda>_. so_dataQuota store_demo) []"
    by (simp add: in_quota_def data_wf_def PluginDataUsage_def store_demo_def configure_stores_def)
  show "put_check store_demo store_io_ok (demo_put ''a'' ''123456'') [] = Inr ''a''" by code_simp
  show "put_check store_demo store_io_ok (demo_put ''b'' ''12345'') [] = Inr ''b''" by code_simp
  show "case PutPluginData store_io_ok (put_row id store_demo store_io_ok (demo_put ''a'' ''123456'') ''a'') [] of (e1, rows) \<Rightarrow>
         case PutPluginData store_io_ok (put_row id store_demo store_io_ok (demo_put ''b'' ''12345'') ''b'') rows of (e2, rows) \<Rightarrow>
           e1 = None \<and> e2 = None \<and> PluginDataUsage (so_pluginID store_demo) rows > so_dataQuota store_demo" by code_simp
qed

section \<open>Files of plugins\<close>

lemma cleanStorePath_clean:
  assumes "cleanStorePath name = Inr clean"
  shows "clean = name" "list_all clean_elem (SplitByte name CHR ''/'')"
proof -
  have c: "path_Clean name = name" "name \<noteq> ''.''" "name \<noteq> ''..''" "\<not> HasPrefix name ''../''" "\<not> HasPrefix name ''/''" "clean = name"
    using assms by (auto simp: cleanStorePath_def Let_def split: if_splits)
  then show "clean = name" by simp
  obtain k cs where es: "path_elems name = replicate k ''..'' @ cs" "list_all clean_elem cs"
    using path_elems_dotted [of name] unfolding dotted_def by blast
  have ne: "path_elems name \<noteq> []" and n: "name = JoinWith ''/'' (path_elems name)"
    using c(1,2,5) by (auto simp: path_Clean_text path_text_def split: if_splits)
  have "k = 0"
  proof (rule ccontr)
    assume "k \<noteq> 0"
    then obtain rest where "path_elems name = ''..'' # rest" using es(1) by (cases k) auto
    then have "name = ''..'' \<or> HasPrefix name ''../''" using n by (cases rest) (auto simp: prefix_def)
    then show False using c(3,4) by blast
  qed
  moreover have "SplitByte name CHR ''/'' = path_elems name"
    by (subst n, rule SplitByte_JoinWith) (use ne dotted_elem [OF path_elems_dotted [of name]] in auto)
  ultimately show "list_all clean_elem (SplitByte name CHR ''/'')" using es by simp
qed

text \<open>The directory of all runtime files, and the elements below it of one plugin's file.\<close>

definition store_root :: "store_ops \<Rightarrow> string" where
  "store_root po = (if so_root po = [] then so_TempDir po else so_root po)"

definition file_path :: "string \<Rightarrow> string \<Rightarrow> string \<Rightarrow> string \<Rightarrow> string" where
  "file_path root pluginID namespace name =
    path_text (HasPrefix root ''/'') (path_elems root @ [''_runtime'', pluginID, namespace] @ SplitByte name CHR ''/'')"

lemma runtime_elem: "clean_elem ''_runtime''"
  by (simp add: clean_elem_def)

lemma file_path_dotted:
  assumes "clean_elem p" "clean_elem ns" "list_all clean_elem (SplitByte n CHR ''/'')"
  shows "dotted (HasPrefix root ''/'') (path_elems root @ [''_runtime'', p, ns] @ SplitByte n CHR ''/'')"
  using assms runtime_elem by (intro dotted_append [OF path_elems_dotted]) simp

lemma file_path_inj:
  assumes "clean_elem p" "clean_elem ns" "list_all clean_elem (SplitByte n CHR ''/'')"
    and "clean_elem p'" "clean_elem ns'" "list_all clean_elem (SplitByte n' CHR ''/'')"
  shows "file_path root p ns n = file_path root p' ns' n' \<longleftrightarrow> (p, ns, n) = (p', ns', n')"
proof -
  have "SplitByte n CHR ''/'' = SplitByte n' CHR ''/'' \<longleftrightarrow> n = n'" by (metis JoinWith_SplitByte)
  then show ?thesis
    unfolding file_path_def path_text_inj [OF file_path_dotted [OF assms(1-3)] file_path_dotted [OF assms(4-6)]] by simp
qed

text \<open>The last check of a path never refuses anything: the checks before it are enough.\<close>

lemma file_target_path:
  assumes "store_root po \<noteq> []" "clean_elem (so_pluginID po)" "clean_elem ns" "list_all clean_elem (SplitByte n CHR ''/'')"
  shows "file_target po ns n = Inr (file_path (store_root po) (so_pluginID po) ns n)"
proof -
  let ?r = "HasPrefix (store_root po) ''/''" and ?es = "SplitByte n CHR ''/''"
  let ?xs = "path_elems (store_root po) @ [''_runtime'', so_pluginID po, ns]"
  note split = clean_elem_split [OF assms(2)] clean_elem_split [OF assms(3)] clean_elem_split [OF runtime_elem]
  have d: "dotted ?r ?xs" using assms(2,3) runtime_elem by (intro dotted_append [OF path_elems_dotted]) simp
  have root: "runtimeRoot po ns = path_text ?r ?xs"
    using filepath_Join_below [OF assms(1), of "[''_runtime'', so_pluginID po, ns]"] assms(2,3) runtime_elem
    by (simp add: runtimeRoot_def store_root_def split)
  have "path_text ?r ?xs \<noteq> []" using JoinWith_ne [of ?xs] dotted_elem [OF d] by (auto simp: path_text_def)
  then have target: "filepath_Join [runtimeRoot po ns, n] = path_text ?r (?xs @ ?es)"
    unfolding root using filepath_Join_below [of "path_text ?r ?xs" "[n]"] assms(4) path_text_elems [OF d] by simp
  have ne: "\<forall>e \<in> set ?es. e \<noteq> []" using assms(4) by (auto simp: list_all_iff clean_elem_def)
  have "\<not> HasPrefix (JoinWith ''/'' ?es) ''../'' \<and> JoinWith ''/'' ?es \<noteq> ''..''"
  proof
    have "hd ?es \<noteq> ''..''" using assms(4) by (cases ?es) (auto simp: clean_elem_def)
    moreover have "hd (SplitByte (''../'' @ z) CHR ''/'') = ''..''" for z
      using SplitByte_append_sep [of "''..''" "CHR ''/''" z] by simp
    ultimately show "\<not> HasPrefix (JoinWith ''/'' ?es) ''../''" by (auto simp: JoinWith_SplitByte elim!: prefixE)
    show "JoinWith ''/'' ?es \<noteq> ''..''" using \<open>hd ?es \<noteq> ''..''\<close> by (auto simp: JoinWith_SplitByte)
  qed
  then have "isSubpath (runtimeRoot po ns) (filepath_Join [runtimeRoot po ns, n])"
    unfolding isSubpath_def target unfolding root
    using filepath_Rel_below [OF d assms(4)] path_text_elems [OF d] path_text_elems [OF dotted_append [OF d assms(4)]]
    by (simp add: path_Clean_text)
  then show ?thesis unfolding file_target_def Let_def target by (simp add: file_path_def)
qed

lemma namespaceSpec_metric: "namespaceSpec po namespace = Inr (ns, spec) \<Longrightarrow> clean_elem ns"
  by (auto simp: namespaceSpec_def Let_def metricName_elem split: if_splits option.splits)

definition store_ready :: "store_ops \<Rightarrow> bool" where
  "store_ready po = (store_root po \<noteq> [] \<and> clean_elem (so_pluginID po))"

lemma file_target_ready:
  assumes "store_ready po" "namespaceSpec po namespace = Inr (ns, spec)" "cleanStorePath name = Inr clean"
  shows "file_target po ns clean = Inr (file_path (store_root po) (so_pluginID po) ns name)"
  using file_target_path [of po ns name] namespaceSpec_metric [OF assms(2)] cleanStorePath_clean [OF assms(3)] assms(1)
  by (simp add: store_ready_def)

lemma write_disk_outcome:
  "write_disk io target data disk = (e, disk') \<Longrightarrow>
    (e \<noteq> None \<and> disk' = disk) \<or> (e \<noteq> None \<and> (\<exists>left. disk' = disk(target := left))) \<or> (e = None \<and> disk' = disk(target := Some data))"
  by (auto simp: write_disk_def split: option.splits)

lemma file_Write_disk:
  assumes "file_Write uni po io namespace name data dataClass retention disk rows = (e, disk', rows')" "store_ready po"
  shows "(e \<noteq> None \<and> disk' = disk) \<or> (\<exists>ns spec left. namespaceSpec po namespace = Inr (ns, spec) \<and> \<not> fs_Readonly spec
    \<and> cleanStorePath name = Inr name \<and> disk' = disk(file_path (store_root po) (so_pluginID po) ns name := left)
    \<and> (e = None \<longrightarrow> left = Some data))"
proof (cases "namespaceSpec po namespace")
  case (Inl e')
  then show ?thesis using assms(1) by (auto simp: file_Write_def)
next
  case ns: (Inr x)
  obtain ns spec where x: "x = (ns, spec)" by fastforce
  show ?thesis
  proof (cases "cleanStorePath name")
    case (Inl e')
    then show ?thesis using assms(1) ns x by (auto simp: file_Write_def split: if_splits)
  next
    case (Inr clean)
    note c = cleanStorePath_clean [OF Inr]
    let ?t = "file_path (store_root po) (so_pluginID po) ns name"
    have t: "file_target po ns clean = Inr ?t" by (rule file_target_ready [OF assms(2) ns [unfolded x] Inr])
    obtain e1 d1 where d1: "write_disk io ?t data disk = (e1, d1)" by fastforce
    from assms(1) ns x Inr t d1 have "(e \<noteq> None \<and> disk' = disk) \<or> \<not> fs_Readonly spec \<and> disk' = d1 \<and> (e = None \<longrightarrow> e1 = None)"
      unfolding file_Write_def Let_def by (auto split: if_splits option.splits prod.splits)
    then show ?thesis
    proof
      assume d: "\<not> fs_Readonly spec \<and> disk' = d1 \<and> (e = None \<longrightarrow> e1 = None)"
      then have "(e \<noteq> None \<and> disk' = disk) \<or> (\<exists>left. disk' = disk(?t := left) \<and> (e = None \<longrightarrow> left = Some data))"
        using write_disk_outcome [OF d1] by blast
      then show ?thesis using d ns x Inr c(1) by blast
    qed simp
  qed
qed

lemma file_Delete_disk:
  assumes "file_Delete po io namespace name disk rows = (e, disk', rows')" "store_ready po"
  shows "disk' = disk \<or> (\<exists>ns spec. namespaceSpec po namespace = Inr (ns, spec) \<and> \<not> fs_Readonly spec
    \<and> cleanStorePath name = Inr name \<and> disk' = disk(file_path (store_root po) (so_pluginID po) ns name := None))"
proof (cases "namespaceSpec po namespace")
  case (Inl e')
  then show ?thesis using assms(1) by (auto simp: file_Delete_def)
next
  case ns: (Inr x)
  obtain ns spec where x: "x = (ns, spec)" by fastforce
  show ?thesis
  proof (cases "cleanStorePath name")
    case (Inl e')
    then show ?thesis using assms(1) ns x by (auto simp: file_Delete_def split: if_splits)
  next
    case (Inr clean)
    have t: "file_target po ns clean = Inr (file_path (store_root po) (so_pluginID po) ns name)"
      by (rule file_target_ready [OF assms(2) ns [unfolded x] Inr])
    show ?thesis using assms(1) ns x Inr t cleanStorePath_clean(1) [OF Inr]
      by (auto simp: file_Delete_def Let_def split: if_splits option.splits)
  qed
qed

datatype file_op =
    Op_Write file_io string string bytes string int
  | Op_Remove file_io string string

fun file_step :: "(string \<Rightarrow> string) \<Rightarrow> store_ops \<Rightarrow> file_op \<Rightarrow> disk \<times> file_rows \<Rightarrow> disk \<times> file_rows" where
  "file_step uni po (Op_Write io namespace name data dataClass retention) (disk, rows) =
    snd (file_Write uni po io namespace name data dataClass retention disk rows)"
| "file_step uni po (Op_Remove io namespace name) (disk, rows) = snd (file_Delete po io namespace name disk rows)"

text \<open>
  C27: whatever a plugin asks its file store to write or delete, and whatever fails on the way, the only file on disk that changes is one below
  its own directory and a declared, writable namespace, at a path without steps up; the files of every
  other plugin and all files elsewhere stay as they are.
\<close>

theorem files_isolated:
  assumes "store_ready po" "file_step uni po op (disk, rows) = (disk', rows')" "disk' f \<noteq> disk f"
  shows "\<exists>ns spec name. f = file_path (store_root po) (so_pluginID po) ns name \<and> so_fileSpecs po ns = Some spec \<and> \<not> fs_Readonly spec
    \<and> list_all clean_elem (SplitByte name CHR ''/'')
    \<and> (\<forall>p' ns' name'. p' \<noteq> so_pluginID po \<and> clean_elem p' \<and> clean_elem ns' \<and> list_all clean_elem (SplitByte name' CHR ''/'')
        \<longrightarrow> f \<noteq> file_path (store_root po) p' ns' name')"
proof -
  obtain namespace ns spec name c where n: "namespaceSpec po namespace = Inr (ns, spec)" "\<not> fs_Readonly spec" "cleanStorePath name = Inr name"
    and d: "disk' = disk(file_path (store_root po) (so_pluginID po) ns name := c)"
  proof (cases op)
    case (Op_Write io namespace name data dataClass retention)
    then obtain e where "file_Write uni po io namespace name data dataClass retention disk rows = (e, disk', rows')"
      using assms(2) by (metis file_step.simps(1) prod.collapse)
    from file_Write_disk [OF this assms(1)] assms(3) show ?thesis using that by blast
  next
    case (Op_Remove io namespace name)
    then obtain e where "file_Delete po io namespace name disk rows = (e, disk', rows')"
      using assms(2) by (metis file_step.simps(2) prod.collapse)
    from file_Delete_disk [OF this assms(1)] assms(3) show ?thesis using that by blast
  qed
  have f: "f = file_path (store_root po) (so_pluginID po) ns name" using d assms(3) by (metis fun_upd_other)
  have p: "clean_elem (so_pluginID po)" using assms(1) by (simp add: store_ready_def)
  note ns = namespaceSpec_metric [OF n(1)] and c = cleanStorePath_clean(2) [OF n(3)]
  have "so_fileSpecs po ns = Some spec"
    using n(1) by (auto simp: namespaceSpec_def Let_def split: if_splits option.splits)
  moreover have "f \<noteq> file_path (store_root po) p' ns' name'"
    if "p' \<noteq> so_pluginID po" "clean_elem p'" "clean_elem ns'" "list_all clean_elem (SplitByte name' CHR ''/'')" for p' ns' name'
    unfolding f file_path_inj [OF p ns c that(2-4)] using that(1) by blast
  ultimately show ?thesis using f n(2) c by blast
qed

text \<open>
  a file that was written is read back as it was, through any spelling of the same namespace, when it fits the limit of the reader.
\<close>

theorem written_file_read:
  assumes "store_ready po" "file_Write uni po io namespace name data dataClass retention disk rows = (None, disk', rows')"
    and "fi_read io' = None" "int (length data) \<le> (if maxBytes \<le> 0 then DefaultPluginDataKeyLimit else maxBytes)" "maxBytes < 2 ^ 63 - 1"
    and "namespaceSpec po namespace' = namespaceSpec po namespace"
  shows "file_Read po io' namespace' name maxBytes disk' = Inr data"
proof -
  obtain ns spec where n: "namespaceSpec po namespace = Inr (ns, spec)" "cleanStorePath name = Inr name"
    and d: "disk' = disk(file_path (store_root po) (so_pluginID po) ns name := Some data)"
    using file_Write_disk [OF assms(2,1)] by blast
  let ?m = "if maxBytes \<le> 0 then DefaultPluginDataKeyLimit else maxBytes"
  have "0 < ?m" "?m < 2 ^ 63 - 1" using assms(5) by (simp_all add: DefaultPluginDataKeyLimit_def)
  then have "signed_take_bit 63 (?m + 1) = ?m + 1" by (intro signed_take_bit_int_eq_self) simp_all
  then have "take (nat (signed_take_bit 63 (?m + 1))) data = data" using assms(4) by simp
  then show ?thesis
    using n assms(3,4) d file_target_ready [OF assms(1) n] unfolding file_Read_def assms(6) n sum.case prod.case Let_def
    by simp
qed

text \<open>A reader that sets no limit by passing the largest integer is given nothing.\<close>

lemma read_unlimited_empty:
  assumes "store_ready po" "namespaceSpec po namespace = Inr (ns, spec)" "cleanStorePath name = Inr name" "fi_read io = None"
    and "disk (file_path (store_root po) (so_pluginID po) ns name) = Some content"
  shows "file_Read po io namespace name (2 ^ 63 - 1) disk = Inr []"
proof -
  have "nat (signed_take_bit 63 (2 ^ 63 - 1 + 1 :: int)) = 0" by code_simp
  then show ?thesis
    using assms(2-5) file_target_ready [OF assms(1-3)] unfolding file_Read_def Let_def by simp
qed

definition file_io_ok :: file_io where
  "file_io_ok = \<lparr>fi_usage = None, fi_list = None, fi_mkdir = None, fi_write = None, fi_exec = None, fi_read = None, fi_removed = True,
     fi_clock = 100 * Second, fi_dbClock = 100 * Second\<rparr>"

lemma store_demo_ready: "store_ready store_demo"
  by code_simp

theorem files_isolated_witness:
  "\<exists>disk' rows'. file_step id store_demo (Op_Write file_io_ok '' cache '' ''maps/a.png'' ''png'' [] 0) (Map.empty, []) = (disk', rows')
    \<and> disk' ''/srv/plugins/_runtime/p/cache/maps/a.png'' = Some ''png''
    \<and> (\<exists>ns name. ''/srv/plugins/_runtime/p/cache/maps/a.png'' = file_path ''/srv/plugins'' ''p'' ns name)
    \<and> fst (file_Write id store_demo file_io_ok ''cache'' ''../x'' ''png'' [] 0 Map.empty []) \<noteq> None"
proof -
  let ?f = "''/srv/plugins/_runtime/p/cache/maps/a.png''"
  let ?s = "file_step id store_demo (Op_Write file_io_ok '' cache '' ''maps/a.png'' ''png'' [] 0) (Map.empty, [])"
  obtain disk' rows' where s: "?s = (disk', rows')" by fastforce
  have "fst ?s ?f = Some ''png''" by code_simp
  then have d: "disk' ?f = Some ''png''" using s by simp
  have r: "store_root store_demo = ''/srv/plugins'' \<and> so_pluginID store_demo = ''p''" by code_simp
  have "\<exists>ns name. ?f = file_path ''/srv/plugins'' ''p'' ns name"
    using files_isolated [OF store_demo_ready s, of ?f] d r by auto
  moreover have "fst (file_Write id store_demo file_io_ok ''cache'' ''../x'' ''png'' [] 0 Map.empty []) \<noteq> None" by code_simp
  ultimately show ?thesis using s d by blast
qed

theorem written_file_read_witness:
  "\<exists>disk' rows'. file_Write id store_demo file_io_ok [] ''a.txt'' ''hello'' [] 0 Map.empty [] = (None, disk', rows')
    \<and> file_Read store_demo file_io_ok '' data'' ''a.txt'' 5 disk' = Inr ''hello''"
proof -
  let ?w = "file_Write id store_demo file_io_ok [] ''a.txt'' ''hello'' [] 0 Map.empty []"
  have "fst ?w = None" by code_simp
  then obtain disk' rows' where w: "?w = (None, disk', rows')" by (metis prod.collapse)
  have "namespaceSpec store_demo '' data'' = namespaceSpec store_demo []" "fi_read file_io_ok = None" by code_simp+
  then show ?thesis using written_file_read [OF store_demo_ready w, of file_io_ok 5 "'' data''"] w by simp
qed

end
