(* ===== verification/Plugin_Events.thy ===== *)
theory Plugin_Events
  imports Ops_Common "HOL-Library.Word" "HOL-Library.AList"
begin

text \<open>
  Events, metrics and logs of plugins in \<open>src/internal/pluginmanager/operations.go\<close> and \<open>repository.go\<close>: the checks on names and fields, the
  bounded event queue and the goroutine that saves events, the summaries shown to administrators and
  the exporters.  A Go map of fields is the list of its entries, in the order in which Go walks it; JSON encoding of string maps
  is left out.  \<open>uni\<close> is lower-casing outside ASCII.
\<close>

type_synonym labels = "(string \<times> string) list"
type_synonym float64 = "64 word" \<comment> \<open>the bits; no arithmetic is done on these values\<close>

section \<open>Fields\<close>

definition DefaultLabelValueMaxBytes :: nat where
  "DefaultLabelValueMaxBytes = 64"

fun sanitize_loop :: "(string \<Rightarrow> string) \<Rightarrow> string list \<Rightarrow> labels \<Rightarrow> labels \<Rightarrow> labels \<times> error option" where
  "sanitize_loop uni allowed [] clean = (clean, None)"
| "sanitize_loop uni allowed ((key, value) # given) clean =
    (if \<not> metricName key then (clean, Some (ErrorString ''invalid field''))
     else if allowed \<noteq> [] \<and> key \<notin> set allowed then (clean, Some (ErrorString ''field is not declared''))
     else if isSensitiveName uni key then (clean, Some (ErrorString ''field is sensitive''))
     else if length value > DefaultLabelValueMaxBytes then (clean, Some (ErrorString ''field value exceeds low-cardinality size limit''))
     else (let value = redactSensitive uni value in
       if value = [] then sanitize_loop uni allowed given clean
       else sanitize_loop uni allowed given (clean @ [(key, value)])))"

definition sanitizeLabels :: "(string \<Rightarrow> string) \<Rightarrow> labels \<Rightarrow> string list \<Rightarrow> labels \<times> error option" where
  "sanitizeLabels uni given allowed =
    (if given = [] then ([], None)
     else if length given > 12 then ([], Some (ErrorString ''too many fields''))
     else sanitize_loop uni allowed given [])"

section \<open>Events\<close>

record queuedEvent =
  qe_pluginID :: string
  qe_name :: string
  qe_fields :: labels
  qe_dropped :: bool
  qe_reason :: string
  qe_traceID :: string
  qe_connectionID :: string

record EventSummary =
  es_PluginID :: string
  es_Name :: string
  es_Count :: "64 word"
  es_Dropped :: "64 word"
  es_Fields :: labels
  es_LastSeenAt :: int

definition zero_EventSummary :: EventSummary where
  "zero_EventSummary = \<lparr>es_PluginID = [], es_Name = [], es_Count = 0, es_Dropped = 0, es_Fields = [], es_LastSeenAt = 0\<rparr>"

text \<open>A row of the event table.\<close>

record event_row =
  ev_event :: queuedEvent
  ev_created :: int

record CustomMetricSummary =
  cm_PluginID :: string
  cm_Name :: string
  cm_Type :: string
  cm_Count :: "64 word"
  cm_LastValue :: float64
  cm_Labels :: labels
  cm_LastSeenAt :: int

record MetricSpec =
  ms_Type :: string
  ms_Labels :: "string list"

text \<open>What a plugin's \<open>PluginOperations\<close> keeps of events and metrics.\<close>

record event_ops =
  ep_pluginID :: string
  ep_eventSchemas :: "string \<rightharpoonup> string list"
  ep_metricSchemas :: "string \<rightharpoonup> MetricSpec"
  ep_eventValues :: "string \<Rightarrow> string \<Rightarrow> string list"
  ep_eventSummaries :: "(string \<times> EventSummary) list"
  ep_metricSummaries :: "(string \<times> CustomMetricSummary) list"

text \<open>What \<open>Operations\<close> keeps: the two queues with their counters, and the event table.\<close>

record ops_state =
  os_closed :: bool
  os_eventQueue :: "queuedEvent list"
  os_queued :: "64 word"
  os_dropped :: "64 word"
  os_deadLetter :: "64 word"
  os_subscribers :: nat
  os_subscriberQueue :: "queuedEvent list"
  os_subscriberQueued :: "64 word"
  os_subscriberDropped :: "64 word"
  os_events :: "event_row list"

definition DefaultEventQueueLimit :: nat where
  "DefaultEventQueueLimit = 1000"

text \<open>The values of the fields of an event seen so far; the loop stops at the first field with more than 64.\<close>

fun cardinality_loop :: "labels \<Rightarrow> (string \<Rightarrow> string list) \<Rightarrow> (string \<Rightarrow> string list) \<times> bool" where
  "cardinality_loop [] values = (values, False)"
| "cardinality_loop ((field, value) # clean) values =
    (let values = values(field := List.insert value (values field)) in
     if length (values field) > 64 then (values, True) else cardinality_loop clean values)"

definition validateEvent :: "(string \<Rightarrow> string) \<Rightarrow> string \<Rightarrow> labels \<Rightarrow> event_ops \<Rightarrow> (labels \<times> string \<times> error option) \<times> event_ops" where
  "validateEvent uni name given po =
    (if \<not> metricName name then (([], ''invalid_event_name'', Some (ErrorString ''invalid event name'')), po)
     else case ep_eventSchemas po name of
       None \<Rightarrow> (([], ''undeclared_event'', Some (ErrorString ''event is not declared by manifest'')), po)
     | Some allowed \<Rightarrow> (case sanitizeLabels uni given allowed of
         (clean, Some e) \<Rightarrow> ((clean, ''invalid_fields'', Some e), po)
       | (clean, None) \<Rightarrow> (case cardinality_loop clean (ep_eventValues po name) of
           (values, exceeded) \<Rightarrow>
             (if exceeded then (clean, ''high_cardinality_field'', Some (ErrorString ''event field exceeded low-cardinality limit'')) else (clean, [], None),
              po\<lparr>ep_eventValues := (ep_eventValues po)(name := values)\<rparr>))))"

text \<open>\<open>SaveEvent\<close>; \<open>db\<close> is the failure of the insertion, if there is one.\<close>

definition SaveEvent :: "error option \<Rightarrow> int \<Rightarrow> queuedEvent \<Rightarrow> ops_state \<Rightarrow> error option \<times> ops_state" where
  "SaveEvent db now event st = (case db of
      Some e \<Rightarrow> (Some e, st)
    | None \<Rightarrow> (None, st\<lparr>os_events := os_events st @ [\<lparr>ev_event = event, ev_created = Unix now\<rparr>]\<rparr>))"

definition queueSubscriberEvent :: "queuedEvent \<Rightarrow> ops_state \<Rightarrow> ops_state" where
  "queueSubscriberEvent event st =
    (if os_closed st then st\<lparr>os_subscriberDropped := os_subscriberDropped st + 1\<rparr>
     else if os_subscribers st = 0 \<or> qe_dropped event then st
     else if length (os_subscriberQueue st) < DefaultEventQueueLimit
     then st\<lparr>os_subscriberQueue := os_subscriberQueue st @ [event], os_subscriberQueued := os_subscriberQueued st + 1\<rparr>
     else st\<lparr>os_subscriberDropped := os_subscriberDropped st + 1\<rparr>)"

definition queueEvent :: "error option \<Rightarrow> int \<Rightarrow> queuedEvent \<Rightarrow> ops_state \<Rightarrow> ops_state" where
  "queueEvent db now event st =
    (if os_closed st then st\<lparr>os_dropped := os_dropped st + 1\<rparr>
     else queueSubscriberEvent event
       (if length (os_eventQueue st) < DefaultEventQueueLimit
        then st\<lparr>os_eventQueue := os_eventQueue st @ [event]\<rparr>
        else snd (SaveEvent db now (event\<lparr>qe_dropped := True, qe_reason := ''event_queue_full''\<rparr>)
               (st\<lparr>os_dropped := os_dropped st + 1\<rparr>))))"

text \<open>One round of \<open>consumeEvents\<close>; it waits while the queue is empty and ends when the manager closes.\<close>

definition consume_event :: "error option \<Rightarrow> int \<Rightarrow> ops_state \<Rightarrow> ops_state" where
  "consume_event db now st =
    (if os_closed st then st
     else case os_eventQueue st of
       [] \<Rightarrow> st
     | event # rest \<Rightarrow>
         (case SaveEvent db now event (st\<lparr>os_eventQueue := rest, os_queued := os_queued st + 1\<rparr>) of
            (Some _, st) \<Rightarrow> st\<lparr>os_deadLetter := os_deadLetter st + 1\<rparr>
          | (None, st) \<Rightarrow> st))"

record traceContext =
  tc_TraceID :: string
  tc_ConnectionID :: string

definition EmitEvent ::
  "(string \<Rightarrow> string) \<Rightarrow> error option \<Rightarrow> int \<Rightarrow> traceContext \<Rightarrow> string \<Rightarrow> labels \<Rightarrow> event_ops \<Rightarrow> ops_state
    \<Rightarrow> error option \<times> event_ops \<times> ops_state" where
  "EmitEvent uni db now trace name given po st = (case validateEvent uni name given po of
      ((clean, reason, Some e), po) \<Rightarrow>
        (Some e, po, queueEvent db now \<lparr>qe_pluginID = ep_pluginID po, qe_name = name, qe_fields = clean, qe_dropped = True, qe_reason = reason,
           qe_traceID = tc_TraceID trace, qe_connectionID = tc_ConnectionID trace\<rparr> st)
    | ((clean, _, None), po) \<Rightarrow>
        (let summary = (case map_of (ep_eventSummaries po) name of Some s \<Rightarrow> s
               | None \<Rightarrow> zero_EventSummary\<lparr>es_PluginID := ep_pluginID po, es_Name := name\<rparr>);
             summary = summary\<lparr>es_Count := es_Count summary + 1, es_Fields := clean, es_LastSeenAt := Unix now\<rparr>
         in (None, po\<lparr>ep_eventSummaries := AList.update name summary (ep_eventSummaries po)\<rparr>,
             queueEvent db now \<lparr>qe_pluginID = ep_pluginID po, qe_name = name, qe_fields = clean, qe_dropped = False, qe_reason = [],
               qe_traceID = tc_TraceID trace, qe_connectionID = tc_ConnectionID trace\<rparr> st)))"

section \<open>Metrics and logs\<close>

definition validateMetric :: "(string \<Rightarrow> string) \<Rightarrow> string \<Rightarrow> labels \<Rightarrow> event_ops \<Rightarrow> labels \<times> string \<times> error option" where
  "validateMetric uni name given po =
    (if \<not> metricName name then ([], [], Some (ErrorString ''invalid metric name''))
     else case ep_metricSchemas po name of
       None \<Rightarrow> ([], [], Some (ErrorString ''custom metric is not declared by manifest''))
     | Some spec \<Rightarrow> (case sanitizeLabels uni given (ms_Labels spec) of (clean, err) \<Rightarrow> (clean, ms_Type spec, err)))"

definition ObserveMetric :: "(string \<Rightarrow> string) \<Rightarrow> int \<Rightarrow> string \<Rightarrow> float64 \<Rightarrow> labels \<Rightarrow> event_ops \<Rightarrow> error option \<times> event_ops" where
  "ObserveMetric uni now name value given po = (case validateMetric uni name given po of
      (_, _, Some e) \<Rightarrow> (Some e, po)
    | (clean, metricType, None) \<Rightarrow>
        (let summary = (case map_of (ep_metricSummaries po) name of Some s \<Rightarrow> s
               | None \<Rightarrow> \<lparr>cm_PluginID = ep_pluginID po, cm_Name = name, cm_Type = metricType, cm_Count = 0, cm_LastValue = 0, cm_Labels = [], cm_LastSeenAt = 0\<rparr>);
             summary = summary\<lparr>cm_Count := cm_Count summary + 1, cm_LastValue := value, cm_Labels := clean, cm_LastSeenAt := Unix now\<rparr>
         in (None, po\<lparr>ep_metricSummaries := AList.update name summary (ep_metricSummaries po)\<rparr>)))"

record LogSummary =
  lg_PluginID :: string
  lg_Level :: string
  lg_Message :: string
  lg_Fields :: labels
  lg_TraceID :: string
  lg_ConnectionID :: string
  lg_CreatedAt :: int

definition limitString :: "string \<Rightarrow> int \<Rightarrow> string" where
  "limitString value n = (if n \<le> 0 \<or> int (length value) \<le> n then value else take (nat n) value)"

text \<open>The entry that \<open>pluginLogger.write\<close> saves; its message is also printed.\<close>

definition log_entry :: "(string \<Rightarrow> string) \<Rightarrow> int \<Rightarrow> string \<Rightarrow> traceContext \<Rightarrow> string \<Rightarrow> string \<Rightarrow> labels \<Rightarrow> LogSummary" where
  "log_entry uni now pluginID trace level message given =
    \<lparr>lg_PluginID = pluginID, lg_Level = level, lg_Message = redactSensitive uni (limitString message 512),
     lg_Fields = fst (sanitizeLabels uni given []), lg_TraceID = tc_TraceID trace, lg_ConnectionID = tc_ConnectionID trace,
     lg_CreatedAt = Unix now\<rparr>"

section \<open>Summaries\<close>

definition event_of_row :: "event_row \<Rightarrow> EventSummary" where
  "event_of_row row = (let e = ev_event row in
     zero_EventSummary\<lparr>es_PluginID := qe_pluginID e, es_Name := qe_name e, es_LastSeenAt := ev_created row,
       es_Count := (if qe_dropped e then 0 else 1), es_Dropped := (if qe_dropped e then 1 else 0),
       es_Fields := (if qe_dropped e \<and> qe_reason e \<noteq> [] then AList.update ''drop_reason'' (qe_reason e) (qe_fields e) else qe_fields e)\<rparr>)"

text \<open>\<open>ORDER BY created_at DESC, id DESC LIMIT ?\<close>; ids grow with every insertion.\<close>

definition RecentEvents :: "string \<Rightarrow> int \<Rightarrow> event_row list \<Rightarrow> EventSummary list" where
  "RecentEvents pluginID limit rows =
    (let limit = (if limit \<le> 0 then 1000 else limit)
     in map event_of_row (take (nat limit) (sort_key (\<lambda>r. - ev_created r) (rev (filter (\<lambda>r. pluginID = [] \<or> qe_pluginID (ev_event r) = pluginID) rows)))))"

definition summary_key :: "EventSummary \<Rightarrow> string" where
  "summary_key e = es_PluginID e @ CHR 0x00 # es_Name e"

definition merge_event :: "EventSummary \<Rightarrow> (string \<times> EventSummary) list \<Rightarrow> (string \<times> EventSummary) list" where
  "merge_event event byKey =
    (let existing = (case map_of byKey (summary_key event) of Some x \<Rightarrow> x | None \<Rightarrow> zero_EventSummary);
         existing = existing\<lparr>es_PluginID := es_PluginID event, es_Name := es_Name event, es_Count := es_Count existing + es_Count event,
           es_Dropped := es_Dropped existing + es_Dropped event\<rparr>;
         existing = (if es_LastSeenAt event > es_LastSeenAt existing
           then existing\<lparr>es_LastSeenAt := es_LastSeenAt event, es_Fields := es_Fields event\<rparr> else existing)
     in AList.update (summary_key event) existing byKey)"

definition mergeEventSummaries :: "EventSummary list \<Rightarrow> EventSummary list \<Rightarrow> EventSummary list" where
  "mergeEventSummaries current recent =
    map snd (fold merge_event recent (fold (\<lambda>event byKey. AList.update (summary_key event) event byKey) current []))"

text \<open>The events of \<open>Snapshot\<close>.\<close>

definition snapshot_events :: "string \<Rightarrow> event_ops \<Rightarrow> ops_state \<Rightarrow> EventSummary list" where
  "snapshot_events pluginID po st =
    (let events = map snd (ep_eventSummaries po);
         recentEvents = RecentEvents pluginID 1000 (os_events st);
         events = (if recentEvents \<noteq> [] then mergeEventSummaries events recentEvents else events)
     in sort_key (\<lambda>e. - es_LastSeenAt e) events)"

section \<open>Exporters\<close>

record OperationsExportSample =
  xp_PluginID :: string
  xp_Kind :: string
  xp_Name :: string
  xp_Labels :: labels
  xp_Value :: float64
  xp_CreatedAt :: int

definition normalizeOperationsExporterType :: "(string \<Rightarrow> string) \<Rightarrow> string \<Rightarrow> string" where
  "normalizeOperationsExporterType uni value =
    (let v = ToLower uni (TrimSpace value) in
     if v = [] \<or> v = ''prometheus'' then ''prometheus''
     else if v = ''opentelemetry'' \<or> v = ''open-telemetry'' \<or> v = ''otel'' then ''otel''
     else v)"

fun exporter_labels_loop :: "(string \<Rightarrow> string) \<Rightarrow> labels \<Rightarrow> labels \<Rightarrow> labels result" where
  "exporter_labels_loop uni [] clean = Inr clean"
| "exporter_labels_loop uni ((key, value) # given) clean =
    (if \<not> metricName key then Inl (ErrorString ''invalid exporter label'')
     else if isSensitiveName uni key then Inl (ErrorString ''exporter label is sensitive'')
     else if length value > DefaultLabelValueMaxBytes then Inl (ErrorString ''exporter label value exceeds low-cardinality size limit'')
     else (let value = redactSensitive uni value in
       if value = ''[REDACTED]'' then Inl (ErrorString ''exporter label contains sensitive value'')
       else if value = [] then exporter_labels_loop uni given clean
       else exporter_labels_loop uni given (clean @ [(key, value)])))"

definition validateExporterLabelsWithLimit :: "(string \<Rightarrow> string) \<Rightarrow> labels \<Rightarrow> int \<Rightarrow> labels result" where
  "validateExporterLabelsWithLimit uni given maxLabels =
    (let maxLabels = (if maxLabels \<le> 0 then 12 else maxLabels) in
     if int (length given) > maxLabels then Inl (ErrorString ''too many exporter labels'') else exporter_labels_loop uni given [])"

text \<open>The labels of one sample, with the plugin's id.\<close>

definition sample_labels :: "(string \<Rightarrow> string) \<Rightarrow> string \<Rightarrow> labels \<Rightarrow> labels result" where
  "sample_labels uni pluginID given = (case validateExporterLabelsWithLimit uni given 12 of
      Inl e \<Rightarrow> Inl e
    | Inr clean \<Rightarrow>
        (let withID = AList.update ''plugin_id'' pluginID clean in
         case validateExporterLabelsWithLimit uni withID 13 of Inl e \<Rightarrow> Inl e | Inr _ \<Rightarrow> Inr withID))"

fun export_events :: "(string \<Rightarrow> string) \<Rightarrow> (64 word \<Rightarrow> float64) \<Rightarrow> EventSummary list \<Rightarrow> OperationsExportSample list result" where
  "export_events uni to_float [] = Inr []"
| "export_events uni to_float (event # events) = (case sample_labels uni (es_PluginID event) (es_Fields event) of
      Inl e \<Rightarrow> Inl e
    | Inr labels \<Rightarrow> (case export_events uni to_float events of Inl e \<Rightarrow> Inl e
        | Inr samples \<Rightarrow> Inr (\<lparr>xp_PluginID = es_PluginID event, xp_Kind = ''event'', xp_Name = es_Name event, xp_Labels = labels,
            xp_Value = to_float (es_Count event), xp_CreatedAt = es_LastSeenAt event\<rparr> # samples)))"

fun export_metrics :: "(string \<Rightarrow> string) \<Rightarrow> CustomMetricSummary list \<Rightarrow> OperationsExportSample list result" where
  "export_metrics uni [] = Inr []"
| "export_metrics uni (metric # metrics) = (case sample_labels uni (cm_PluginID metric) (cm_Labels metric) of
      Inl e \<Rightarrow> Inl e
    | Inr labels \<Rightarrow> (case export_metrics uni metrics of Inl e \<Rightarrow> Inl e
        | Inr samples \<Rightarrow> Inr (\<lparr>xp_PluginID = cm_PluginID metric, xp_Kind = ''metric'', xp_Name = cm_Name metric, xp_Labels = labels,
            xp_Value = cm_LastValue metric, xp_CreatedAt = cm_LastSeenAt metric\<rparr> # samples)))"

definition operationsExportBatch ::
  "(string \<Rightarrow> string) \<Rightarrow> (64 word \<Rightarrow> float64) \<Rightarrow> EventSummary list \<Rightarrow> CustomMetricSummary list \<Rightarrow> OperationsExportSample list result" where
  "operationsExportBatch uni to_float events metrics = (case export_events uni to_float events of
      Inl e \<Rightarrow> Inl e
    | Inr s \<Rightarrow> (case export_metrics uni metrics of Inl e \<Rightarrow> Inl e | Inr s' \<Rightarrow> Inr (s @ s')))"

text \<open>An exporter's state; \<open>xr_sink\<close> says whether a sink is configured.\<close>

record operationsExporterRuntime =
  xr_Type :: string
  xr_Enabled :: bool
  xr_Endpoint :: string
  xr_sink :: bool
  xr_lastError :: string
  xr_failureCount :: "64 word"
  xr_lastFailureAt :: int
  xr_lastSuccessAt :: int
  xr_rollbackCount :: "64 word"
  xr_lastRollbackAt :: int

definition new_exporter :: "string \<Rightarrow> operationsExporterRuntime" where
  "new_exporter typ = \<lparr>xr_Type = typ, xr_Enabled = False, xr_Endpoint = [], xr_sink = False, xr_lastError = [], xr_failureCount = 0,
     xr_lastFailureAt = 0, xr_lastSuccessAt = 0, xr_rollbackCount = 0, xr_lastRollbackAt = 0\<rparr>"

definition recordExporterFailure :: "(string \<Rightarrow> string) \<Rightarrow> int \<Rightarrow> error \<Rightarrow> operationsExporterRuntime \<Rightarrow> operationsExporterRuntime" where
  "recordExporterFailure uni now e rt = rt\<lparr>xr_failureCount := xr_failureCount rt + 1, xr_lastFailureAt := Unix now,
     xr_lastError := redactSensitive uni (Error e)\<rparr>"

text \<open>The samples that are sent, and the new state; \<open>sink\<close> is the answer of the sink.\<close>

definition exporter_export ::
  "(string \<Rightarrow> string) \<Rightarrow> (64 word \<Rightarrow> float64) \<Rightarrow> error option \<Rightarrow> int \<Rightarrow> EventSummary list \<Rightarrow> CustomMetricSummary list \<Rightarrow> operationsExporterRuntime
    \<Rightarrow> OperationsExportSample list \<times> operationsExporterRuntime" where
  "exporter_export uni to_float sink now events metrics rt =
    (if \<not> xr_Enabled rt then ([], rt)
     else if \<not> xr_sink rt then ([], recordExporterFailure uni now (ErrorString ''no external exporter sink is configured'') rt)
     else case operationsExportBatch uni to_float events metrics of
       Inl e \<Rightarrow> ([], recordExporterFailure uni now e rt)
     | Inr samples \<Rightarrow> (case sink of
         Some e \<Rightarrow> (samples, recordExporterFailure uni now e rt)
       | None \<Rightarrow> (samples, rt\<lparr>xr_lastError := [], xr_lastSuccessAt := Unix now\<rparr>)))"

definition ConfigureExporter ::
  "(string \<Rightarrow> string) \<Rightarrow> string \<Rightarrow> bool \<Rightarrow> string \<Rightarrow> bool \<Rightarrow> (string \<times> operationsExporterRuntime) list \<Rightarrow> (string \<times> operationsExporterRuntime) list" where
  "ConfigureExporter uni type enabled endpoint sink exporters =
    (let typ = normalizeOperationsExporterType uni type;
         rt = (case map_of exporters typ of Some rt \<Rightarrow> rt | None \<Rightarrow> new_exporter typ)
     in AList.update typ (rt\<lparr>xr_Type := typ, xr_Enabled := enabled, xr_Endpoint := endpoint, xr_sink := sink\<rparr>) exporters)"

definition RollbackExporter ::
  "(string \<Rightarrow> string) \<Rightarrow> int \<Rightarrow> string \<Rightarrow> (string \<times> operationsExporterRuntime) list \<Rightarrow> (string \<times> operationsExporterRuntime) list" where
  "RollbackExporter uni now type exporters =
    (let typ = normalizeOperationsExporterType uni type;
         rt = (case map_of exporters typ of Some rt \<Rightarrow> rt | None \<Rightarrow> new_exporter typ)
     in AList.update typ (rt\<lparr>xr_Enabled := False, xr_Endpoint := [], xr_sink := False, xr_rollbackCount := xr_rollbackCount rt + 1,
          xr_lastRollbackAt := Unix now\<rparr>) exporters)"

text \<open>The status an administrator sees.\<close>

definition exporter_status :: "operationsExporterRuntime \<Rightarrow> string \<times> bool" where
  "exporter_status rt =
    (if \<not> xr_Enabled rt then (''disabled'', False)
     else if \<not> xr_sink rt \<or> xr_lastError rt \<noteq> [] then (''degraded'', True)
     else (''enabled'', False))"

section \<open>What leaves through an exporter\<close>

text \<open>A label that may be shown: a declared kind of name, and a short value without a sensitive word.\<close>

definition label_clean :: "(string \<Rightarrow> string) \<Rightarrow> string \<times> string \<Rightarrow> bool" where
  "label_clean uni l = (case l of (k, v) \<Rightarrow> metricName k \<and> \<not> isSensitiveName uni k \<and> length v \<le> DefaultLabelValueMaxBytes
     \<and> (v = ''[REDACTED]'' \<or> \<not> list_ex (Contains (ToLower uni v)) sensitive_markers))"

lemma redactSensitive_clean:
  "redactSensitive uni v = ''[REDACTED]'' \<or> redactSensitive uni v = v \<and> (v = [] \<or> \<not> list_ex (Contains (ToLower uni v)) sensitive_markers)"
  by (simp add: redactSensitive_def)

lemma sanitize_loop_clean:
  assumes "sanitize_loop uni allowed given acc = (out, err)" "list_all (label_clean uni) acc"
  shows "list_all (label_clean uni) out \<and> length out \<le> length acc + length given"
  using assms
proof (induction uni allowed given acc rule: sanitize_loop.induct)
  case (2 uni allowed key "value" given acc)
  have "label_clean uni (key, redactSensitive uni value)"
    if "metricName key" "\<not> isSensitiveName uni key" "length value \<le> DefaultLabelValueMaxBytes" "redactSensitive uni value \<noteq> []"
    using that redactSensitive_clean [of uni "value"] by (auto simp: label_clean_def DefaultLabelValueMaxBytes_def)
  then show ?case using 2 by (auto simp: Let_def not_less split: if_splits)
qed simp

lemma sanitizeLabels_clean:
  "sanitizeLabels uni given allowed = (out, err) \<Longrightarrow> list_all (label_clean uni) out \<and> length out \<le> 12"
  using sanitize_loop_clean [of uni allowed given "[]" out err] by (auto simp: sanitizeLabels_def split: if_splits)

lemma exporter_labels_loop_clean:
  assumes "exporter_labels_loop uni given acc = Inr out"
  shows "\<forall>(k, v) \<in> set given. label_clean uni (k, v) \<and> v \<noteq> ''[REDACTED]'' \<or> v = [] \<and> metricName k \<and> \<not> isSensitiveName uni k"
  using assms
proof (induction uni given acc rule: exporter_labels_loop.induct)
  case (2 uni key "value" given acc)
  have "label_clean uni (key, value) \<and> value \<noteq> ''[REDACTED]'' \<or> value = [] \<and> metricName key \<and> \<not> isSensitiveName uni key"
    using 2(3) redactSensitive_clean [of uni "value"] by (auto simp: label_clean_def Let_def split: if_splits)
  moreover have "\<forall>(k, v) \<in> set given. label_clean uni (k, v) \<and> v \<noteq> ''[REDACTED]'' \<or> v = [] \<and> metricName k \<and> \<not> isSensitiveName uni k"
    using 2 by (auto simp: Let_def split: if_splits)
  ultimately show ?case by simp
qed simp

definition exportable :: "(string \<Rightarrow> string) \<Rightarrow> labels \<Rightarrow> bool" where
  "exportable uni ls = (length ls \<le> 13 \<and> (\<forall>(k, v) \<in> set ls. metricName k \<and> \<not> isSensitiveName uni k
     \<and> length v \<le> DefaultLabelValueMaxBytes \<and> \<not> (v \<noteq> [] \<and> list_ex (Contains (ToLower uni v)) sensitive_markers)))"

lemma sample_labels_exportable:
  assumes "sample_labels uni p given = Inr ls"
  shows "exportable uni ls \<and> map_of ls ''plugin_id'' = Some p"
proof -
  obtain acc where ls: "exporter_labels_loop uni ls [] = Inr acc" "length ls \<le> 13" "\<exists>c. ls = AList.update ''plugin_id'' p c"
    using assms by (auto simp: sample_labels_def validateExporterLabelsWithLimit_def Let_def split: sum.splits if_splits)
  have "metricName k \<and> \<not> isSensitiveName uni k \<and> length v \<le> DefaultLabelValueMaxBytes
      \<and> \<not> (v \<noteq> [] \<and> list_ex (Contains (ToLower uni v)) sensitive_markers)" if "(k, v) \<in> set ls" for k v
    using exporter_labels_loop_clean [OF ls(1)] that by (fastforce simp: label_clean_def)
  then show ?thesis using ls(2,3) by (auto simp: exportable_def update_conv)
qed

lemma export_events_samples:
  "export_events uni f es = Inr ss \<Longrightarrow> s \<in> set ss \<Longrightarrow> exportable uni (xp_Labels s) \<and> map_of (xp_Labels s) ''plugin_id'' = Some (xp_PluginID s)"
proof (induction es arbitrary: ss)
  case (Cons e es)
  obtain ls rest where ls: "sample_labels uni (es_PluginID e) (es_Fields e) = Inr ls" and r: "export_events uni f es = Inr rest"
    using Cons.prems(1) by (auto split: sum.splits)
  then show ?case using Cons.prems Cons.IH [OF r] sample_labels_exportable [OF ls] by auto
qed simp

lemma export_metrics_samples:
  "export_metrics uni ms = Inr ss \<Longrightarrow> s \<in> set ss \<Longrightarrow> exportable uni (xp_Labels s) \<and> map_of (xp_Labels s) ''plugin_id'' = Some (xp_PluginID s)"
proof (induction ms arbitrary: ss)
  case (Cons e ms)
  obtain ls rest where ls: "sample_labels uni (cm_PluginID e) (cm_Labels e) = Inr ls" and r: "export_metrics uni ms = Inr rest"
    using Cons.prems(1) by (auto split: sum.splits)
  then show ?case using Cons.prems Cons.IH [OF r] sample_labels_exportable [OF ls] by auto
qed simp

text \<open>
  every sample an exporter is given names its plugin and carries at most thirteen labels, with well-formed names and
  short values, none of which contains a sensitive word; whatever summaries are exported.
\<close>

theorem exported_clean:
  assumes "exporter_export uni f sink now events metrics rt = (samples, rt')" "s \<in> set samples"
  shows "exportable uni (xp_Labels s) \<and> map_of (xp_Labels s) ''plugin_id'' = Some (xp_PluginID s) \<and> xr_Enabled rt"
  using assms export_events_samples export_metrics_samples
  by (auto simp: exporter_export_def operationsExportBatch_def split: if_splits sum.splits option.splits)

lemma exporter_labels_redacted:
  "(k, ''[REDACTED]'') \<in> set given \<Longrightarrow> \<exists>e. exporter_labels_loop uni given acc = Inl e"
proof (induction given arbitrary: acc)
  case (Cons l given)
  obtain key "value" where l: "l = (key, value)" by fastforce
  have "redactSensitive uni ''[REDACTED]'' = ''[REDACTED]''" by (simp add: redactSensitive_def)
  then show ?case using Cons by (auto simp: l Let_def)
qed simp

lemma sample_labels_redacted:
  assumes "(k, ''[REDACTED]'') \<in> set given"
  shows "\<exists>e. sample_labels uni p given = Inl e"
  using exporter_labels_redacted [OF assms, of uni "[]"] by (auto simp: sample_labels_def validateExporterLabelsWithLimit_def Let_def)

lemma export_events_blocked: "e \<in> set es \<Longrightarrow> sample_labels uni (es_PluginID e) (es_Fields e) = Inl x \<Longrightarrow> \<exists>y. export_events uni f es = Inl y"
  by (induction es) (auto split: sum.splits)

text \<open>
  one redacted field stops the export of everything.  Recording an event replaces a sensitive value by a mark and accepts the
  event; the exporter refuses the mark, and with it the whole batch of all events and metrics, for as long as the
  summary of that event holds the mark.
\<close>

theorem export_blocked:
  assumes "e \<in> set events" "(k, ''[REDACTED]'') \<in> set (es_Fields e)" "xr_Enabled rt" "xr_sink rt"
  shows "\<exists>rt'. exporter_export uni f sink now events metrics rt = ([], rt') \<and> xr_failureCount rt' = xr_failureCount rt + 1"
proof -
  obtain x where "sample_labels uni (es_PluginID e) (es_Fields e) = Inl x" using sample_labels_redacted [OF assms(2)] by blast
  then obtain y where "operationsExportBatch uni f events metrics = Inl y"
    using export_events_blocked [OF assms(1)] by (metis operationsExportBatch_def sum.case(1))
  then show ?thesis using assms(3,4) by (simp add: exporter_export_def recordExporterFailure_def)
qed

section \<open>The event queue\<close>

datatype queue_op = Queue "error option" int queuedEvent | Consume "error option" int | Close_ops

fun queue_step :: "queue_op \<Rightarrow> ops_state \<Rightarrow> ops_state" where
  "queue_step (Queue db now event) st = queueEvent db now event st"
| "queue_step (Consume db now) st = consume_event db now st"
| "queue_step Close_ops st = st\<lparr>os_closed := True\<rparr>"

definition is_queue :: "queue_op \<Rightarrow> bool" where
  "is_queue op = (case op of Queue _ _ _ \<Rightarrow> True | _ \<Rightarrow> False)"

definition accounted :: "nat \<Rightarrow> ops_state \<Rightarrow> bool" where
  "accounted n st = (length (os_eventQueue st) \<le> DefaultEventQueueLimit \<and> length (os_subscriberQueue st) \<le> DefaultEventQueueLimit
     \<and> os_queued st + of_nat (length (os_eventQueue st)) + os_dropped st = of_nat n)"

lemma SaveEvent_frame:
  "SaveEvent db now e st = (r, st') \<Longrightarrow> os_eventQueue st' = os_eventQueue st \<and> os_subscriberQueue st' = os_subscriberQueue st
    \<and> os_queued st' = os_queued st \<and> os_dropped st' = os_dropped st"
  by (auto simp: SaveEvent_def split: option.splits)

lemma queueSubscriberEvent_accounted: "accounted n st \<Longrightarrow> accounted n (queueSubscriberEvent e st)"
  by (auto simp: accounted_def queueSubscriberEvent_def)

lemma queueEvent_accounted:
  assumes "accounted n st"
  shows "accounted (Suc n) (queueEvent db now e st)"
proof -
  obtain r st' where s: "SaveEvent db now (e\<lparr>qe_dropped := True, qe_reason := ''event_queue_full''\<rparr>) (st\<lparr>os_dropped := os_dropped st + 1\<rparr>) = (r, st')"
    by fastforce
  have "accounted (Suc n) (st\<lparr>os_dropped := os_dropped st + 1\<rparr>)" "accounted (Suc n) st'"
    using assms SaveEvent_frame [OF s] by (auto simp: accounted_def algebra_simps)
  moreover have "accounted (Suc n) (st\<lparr>os_eventQueue := os_eventQueue st @ [e]\<rparr>)" if "length (os_eventQueue st) < DefaultEventQueueLimit"
    using assms that by (auto simp: accounted_def algebra_simps)
  ultimately show ?thesis unfolding queueEvent_def s by (auto intro!: queueSubscriberEvent_accounted)
qed

lemma consume_event_accounted:
  assumes "accounted n st"
  shows "accounted n (consume_event db now st)"
proof (cases "os_closed st \<or> os_eventQueue st = []")
  case True
  then show ?thesis using assms by (auto simp: consume_event_def)
next
  case False
  then obtain e rest where q: "os_eventQueue st = e # rest" "\<not> os_closed st" by (cases "os_eventQueue st") auto
  obtain r st' where s: "SaveEvent db now e (st\<lparr>os_eventQueue := rest, os_queued := os_queued st + 1\<rparr>) = (r, st')" by fastforce
  have "accounted n st'" using assms SaveEvent_frame [OF s] q by (auto simp: accounted_def algebra_simps)
  then have "accounted n (st'\<lparr>os_deadLetter := os_deadLetter st' + 1\<rparr>)" by (simp add: accounted_def)
  with \<open>accounted n st'\<close> show ?thesis using q s by (auto simp: consume_event_def split: option.splits)
qed

text \<open>
  C29: however plugins emit events while the consumer saves them, with any failures of the database and also across the closing of the
  manager: neither queue grows beyond its limit, and every event is taken from the queue, still in it, or counted as dropped.
\<close>

theorem event_queue_accounts:
  assumes "accounted n st"
  shows "accounted (n + length (filter is_queue ops)) (fold queue_step ops st)"
  using assms
proof (induction ops arbitrary: n st)
  case (Cons op ops)
  have "accounted (n + (if is_queue op then 1 else 0)) (queue_step op st)"
    using queueEvent_accounted [OF Cons.prems] consume_event_accounted [OF Cons.prems] Cons.prems
    by (cases op) (simp_all add: is_queue_def accounted_def)
  from Cons.IH [OF this] show ?case by (simp split: if_splits)
qed simp

section \<open>Field values\<close>

lemma cardinality_mono:
  "cardinality_loop ls vs = (vs', b) \<Longrightarrow> length (vs f) \<le> length (vs' f)"
proof (induction ls vs rule: cardinality_loop.induct)
  case (2 field "value" ls vs)
  have "length (vs f) \<le> length ((vs(field := List.insert value (vs field))) f)" by (auto simp: List.insert_def)
  with 2 show ?case by (fastforce simp: Let_def simp del: fun_upd_apply split: if_splits)
qed simp

lemma cardinality_latched:
  "cardinality_loop ls vs = (vs', b) \<Longrightarrow> 64 < length (vs f) \<Longrightarrow> f \<in> fst ` set ls \<Longrightarrow> b"
proof (induction ls vs rule: cardinality_loop.induct)
  case (2 field "value" ls vs)
  let ?vs = "vs(field := List.insert value (vs field))"
  have g: "64 < length (?vs f)" using 2(3) by (auto simp: List.insert_def)
  show ?case
  proof (cases "length (?vs field) > 64")
    case True
    then show ?thesis using 2(2) by (simp add: Let_def)
  next
    case False
    then have "f \<noteq> field" using g by auto
    then show ?thesis using 2 False g by (auto simp: Let_def simp del: fun_upd_apply)
  qed
qed simp

text \<open>
  a field of an event that has had more than 64 values is refused for good: every later event with that field is dropped, also with a
  value that was accepted before, and the values go on being collected.
\<close>

theorem cardinality_latch:
  assumes "64 < length (ep_eventValues po name f)" "validateEvent uni name given po = ((out, reason, err), po')"
    and "f \<in> fst ` set out"
  shows "err \<noteq> None \<and> 64 < length (ep_eventValues po' name f)"
proof -
  have "err \<noteq> None \<and> po' = po \<or> (\<exists>vs b. cardinality_loop out (ep_eventValues po name) = (vs, b) \<and> (b \<longrightarrow> err \<noteq> None)
      \<and> ep_eventValues po' name = vs)"
    using assms(2) by (auto simp: validateEvent_def split: if_splits option.splits prod.splits)
  then show ?thesis
  proof
    assume "\<exists>vs b. cardinality_loop out (ep_eventValues po name) = (vs, b) \<and> (b \<longrightarrow> err \<noteq> None) \<and> ep_eventValues po' name = vs"
    then obtain vs b where c: "cardinality_loop out (ep_eventValues po name) = (vs, b)" "b \<longrightarrow> err \<noteq> None" "ep_eventValues po' name = vs" by blast
    have b by (rule cardinality_latched [OF c(1)]) (use assms in auto)
    then show ?thesis using c cardinality_mono [OF c(1), of f] assms(1) by simp
  qed (use assms(1) in simp)
qed

section \<open>Examples\<close>

definition ops_demo :: ops_state where
  "ops_demo = \<lparr>os_closed = False, os_eventQueue = [], os_queued = 0, os_dropped = 0, os_deadLetter = 0, os_subscribers = 0, os_subscriberQueue = [],
     os_subscriberQueued = 0, os_subscriberDropped = 0, os_events = []\<rparr>"

definition events_demo :: event_ops where
  "events_demo = \<lparr>ep_pluginID = ''p'', ep_eventSchemas = [''join'' \<mapsto> [''kind'']], ep_metricSchemas = Map.empty, ep_eventValues = (\<lambda>_ _. []),
     ep_eventSummaries = [], ep_metricSummaries = []\<rparr>"

definition trace_demo :: traceContext where
  "trace_demo = \<lparr>tc_TraceID = [], tc_ConnectionID = []\<rparr>"

definition event_demo :: queuedEvent where
  "event_demo = \<lparr>qe_pluginID = ''p'', qe_name = ''join'', qe_fields = [], qe_dropped = False, qe_reason = [], qe_traceID = [], qe_connectionID = []\<rparr>"

definition exporter_demo :: operationsExporterRuntime where
  "exporter_demo = (new_exporter ''otel'')\<lparr>xr_Enabled := True, xr_sink := True\<rparr>"

text \<open>The events as they are after one call of \<open>EmitEvent\<close> with the given field.\<close>

definition emitted_demo :: "string \<Rightarrow> EventSummary list" where
  "emitted_demo v = (case EmitEvent id None (100 * Second) trace_demo ''join'' [(''kind'', v)] events_demo ops_demo of
     (_, po, st) \<Rightarrow> snapshot_events ''p'' po st)"

theorem exported_clean_witness:
  "\<exists>s rt'. exporter_export id id None (200 * Second) (emitted_demo ''login'') [] exporter_demo = ([s], rt')
    \<and> exportable id (xp_Labels s) \<and> map_of (xp_Labels s) ''plugin_id'' = Some ''p'' \<and> map_of (xp_Labels s) ''kind'' = Some ''login''"
proof -
  let ?e = "exporter_export id id None (200 * Second) (emitted_demo ''login'') [] exporter_demo"
  have "length (fst ?e) = 1" "xp_PluginID (hd (fst ?e)) = ''p''" "map_of (xp_Labels (hd (fst ?e))) ''kind'' = Some ''login''"
    by code_simp+
  then obtain s rt' where e: "?e = ([s], rt')" and s: "xp_PluginID s = ''p''" "map_of (xp_Labels s) ''kind'' = Some ''login''"
    by (cases "fst ?e") (auto simp: prod_eq_iff)
  then show ?thesis using exported_clean [OF e, of s] by auto
qed

theorem export_blocked_witness:
  "\<exists>rt'. fst (EmitEvent id None (100 * Second) trace_demo ''join'' [(''kind'', ''session 7'')] events_demo ops_demo) = None
    \<and> exporter_export id id None (200 * Second) (emitted_demo ''session 7'') [] exporter_demo = ([], rt')"
proof -
  have "es_Fields (hd (emitted_demo ''session 7'')) = [(''kind'', ''[REDACTED]'')]" "emitted_demo ''session 7'' \<noteq> []" by code_simp+
  moreover have "xr_Enabled exporter_demo" "xr_sink exporter_demo" by code_simp+
  moreover have "fst (EmitEvent id None (100 * Second) trace_demo ''join'' [(''kind'', ''session 7'')] events_demo ops_demo) = None" by code_simp
  ultimately show ?thesis
    using export_blocked [of "hd (emitted_demo ''session 7'')" "emitted_demo ''session 7''" "''kind''" exporter_demo id id None "200 * Second" "[]"]
    by auto
qed

theorem event_queue_accounts_witness:
  "accounted 2 (fold queue_step [Queue None 0 event_demo, Consume None 0, Close_ops, Queue None 0 event_demo] ops_demo)"
  using event_queue_accounts [of 0 ops_demo "[Queue None 0 event_demo, Consume None 0, Close_ops, Queue None 0 event_demo]"]
  by (simp add: accounted_def ops_demo_def is_queue_def numeral_2_eq_2)

text \<open>The names \<open>a\<close>, \<open>aa\<close>, ... stand for 65 values; the first one is refused afterwards.\<close>

definition many_demo :: event_ops where
  "many_demo = events_demo\<lparr>ep_eventValues := (\<lambda>_ _. map (\<lambda>n. replicate n CHR ''a'') [0..<65])\<rparr>"

theorem cardinality_latch_witness:
  "\<exists>r po'. validateEvent id ''join'' [(''kind'', ''a'')] many_demo = ((fst r, fst (snd r), snd (snd r)), po') \<and> snd (snd r) \<noteq> None"
proof -
  obtain out reason err po' where v: "validateEvent id ''join'' [(''kind'', ''a'')] many_demo = ((out, reason, err), po')"
    by (metis prod.collapse)
  have "fst (fst (validateEvent id ''join'' [(''kind'', ''a'')] many_demo)) = [(''kind'', ''a'')]" by code_simp
  moreover have "64 < length (ep_eventValues many_demo ''join'' ''kind'')" by code_simp
  ultimately have "err \<noteq> None" using cardinality_latch [of many_demo "''join''" "''kind''" id _ out reason err po'] v by simp
  then show ?thesis using v by (intro exI [of _ "(out, reason, err)"] exI [of _ po']) simp
qed

text \<open>
  an event is shown twice.  The summary in memory counts every event of the running process, the table has a row for each event the consumer
  has saved, and the snapshot adds the two.
\<close>

theorem event_counted_twice:
  "case EmitEvent id None (100 * Second) trace_demo ''join'' [(''kind'', ''login'')] events_demo ops_demo of
     (err, po, st) \<Rightarrow> err = None
       \<and> map es_Count (snapshot_events ''p'' po st) = [1]
       \<and> map es_Count (snapshot_events ''p'' po (consume_event None (101 * Second) st)) = [2]"
  by code_simp

end
