(* ===== verification/Event_Delivery.thy ===== *)
theory Event_Delivery
  imports Plugin_Events Tables
begin

text \<open>
  Delivery of events to subscribing plugins in \<open>src/internal/pluginmanager/operations.go\<close>, with the dead letters in memory and in the
  database (\<open>repository.go\<close>), and their replay and removal.  What a subscriber answers is a parameter.
\<close>

section \<open>Data\<close>

text \<open>What one attempt of a subscriber gives: the fields \<open>OK\<close> and \<open>Retry\<close> of its result, or an error.\<close>

type_synonym attempt_result = "(bool \<times> bool) result"

text \<open>A subscriber: its acceptor's answer for an event (an error when it panics) and its answer to each attempt.\<close>

record subscriberHandler =
  sh_pluginID :: string
  sh_artifactID :: string
  sh_mode :: string
  sh_maxRetry :: int
  sh_accepts :: "queuedEvent \<Rightarrow> bool result"
  sh_invoke :: "queuedEvent \<Rightarrow> nat \<Rightarrow> attempt_result"

record subscriberDeadLetterEntry =
  de_id :: int
  de_subscriberPluginID :: string
  de_subscriberArtifactID :: string
  de_deliveryMode :: string
  de_attempts :: nat
  de_nodeID :: string
  de_event :: queuedEvent

text \<open>A row of \<open>plugin_subscriber_dead_letters\<close>; its id is the one of the entry.\<close>

record dead_row =
  dl_entry :: subscriberDeadLetterEntry
  dl_status :: string
  dl_reason :: string
  dl_created :: int
  dl_updated :: int

text \<open>The dead letters: in memory, in the database, the next row id, and the counter of dropped ones.\<close>

record dead_state =
  dd_nodeID :: string
  dd_memory :: "subscriberDeadLetterEntry list"
  dd_table :: "dead_row list"
  dd_nextID :: int
  dd_dropped :: "64 word"

definition DefaultSubscriberDeadLetterLimit :: nat where
  "DefaultSubscriberDeadLetterLimit = 1000"

definition DefaultSubscriberMaxRetry :: int where
  "DefaultSubscriberMaxRetry = 3"

text \<open>The failures of the statements of one call, and its time.\<close>

record dead_io =
  di_save :: "error option"
  di_pending :: "error option"
  di_mark :: "error option"
  di_now :: int

section \<open>Repository\<close>

definition SaveSubscriberDeadLetter :: "dead_io \<Rightarrow> subscriberDeadLetterEntry \<Rightarrow> string \<Rightarrow> string \<Rightarrow> dead_state \<Rightarrow> int result \<times> dead_state" where
  "SaveSubscriberDeadLetter io entry status reason st = (case di_save io of
      Some e \<Rightarrow> (Inl e, st)
    | None \<Rightarrow>
        (let rowid = dd_nextID st; now = Unix (di_now io)
         in (Inr rowid, st\<lparr>dd_nextID := rowid + 1,
               dd_table := dd_table st @ [\<lparr>dl_entry = entry\<lparr>de_id := rowid\<rparr>, dl_status = (if status = [] then ''pending'' else status),
                 dl_reason = reason, dl_created = now, dl_updated = now\<rparr>]\<rparr>)))"

text \<open>\<open>ORDER BY created_at ASC, id ASC LIMIT ?\<close> of the pending rows; rows are stored in the order of their ids.\<close>

definition pending_rows :: "dead_state \<Rightarrow> dead_row list" where
  "pending_rows st = sort_key dl_created (filter (\<lambda>r. dl_status r = ''pending'') (dd_table st))"

definition PendingSubscriberDeadLetters :: "dead_io \<Rightarrow> int \<Rightarrow> dead_state \<Rightarrow> dead_row list result" where
  "PendingSubscriberDeadLetters io limit st = (case di_pending io of
      Some e \<Rightarrow> Inl e
    | None \<Rightarrow> (let limit = (if limit \<le> 0 then int DefaultSubscriberDeadLetterLimit else limit) in Inr (take (nat limit) (pending_rows st))))"

definition CountPendingSubscriberDeadLetters :: "dead_io \<Rightarrow> dead_state \<Rightarrow> nat result" where
  "CountPendingSubscriberDeadLetters io st = (case di_pending io of
      Some e \<Rightarrow> Inl e | None \<Rightarrow> Inr (length (filter (\<lambda>r. dl_status r = ''pending'') (dd_table st))))"

definition MarkSubscriberDeadLetter :: "dead_io \<Rightarrow> int \<Rightarrow> string \<Rightarrow> string \<Rightarrow> dead_state \<Rightarrow> error option \<times> dead_state" where
  "MarkSubscriberDeadLetter io rowid status reason st =
    (if rowid \<le> 0 then (Some (ErrorString ''dead letter id is required''), st)
     else if status \<notin> {''pending'', ''replayed'', ''dropped''} then (Some (ErrorString ''invalid subscriber dead letter status''), st)
     else case di_mark io of
       Some e \<Rightarrow> (Some e, st)
     | None \<Rightarrow> (None, st\<lparr>dd_table := row_update (de_id \<circ> dl_entry) rowid
                 (\<lambda>r. r\<lparr>dl_status := status, dl_reason := reason, dl_updated := Unix (di_now io)\<rparr>) (dd_table st)\<rparr>))"

section \<open>Dead letters\<close>

definition restoreSubscriberDeadLetter :: "subscriberDeadLetterEntry \<Rightarrow> dead_state \<Rightarrow> dead_state" where
  "restoreSubscriberDeadLetter entry st =
    (let st = (if length (dd_memory st) \<ge> DefaultSubscriberDeadLetterLimit
           then st\<lparr>dd_memory := tl (dd_memory st), dd_dropped := dd_dropped st + 1\<rparr> else st)
     in st\<lparr>dd_memory := dd_memory st @ [entry]\<rparr>)"

definition storeSubscriberDeadLetter :: "dead_io \<Rightarrow> subscriberHandler \<Rightarrow> queuedEvent \<Rightarrow> nat \<Rightarrow> dead_state \<Rightarrow> dead_state" where
  "storeSubscriberDeadLetter io subscriber event attempts st =
    (let entry = \<lparr>de_id = 0, de_subscriberPluginID = sh_pluginID subscriber, de_subscriberArtifactID = sh_artifactID subscriber,
           de_deliveryMode = sh_mode subscriber, de_attempts = attempts, de_nodeID = dd_nodeID st, de_event = event\<rparr>
     in case SaveSubscriberDeadLetter io entry ''pending'' ''subscriber delivery failed'' st of
          (Inr rowid, st) \<Rightarrow> restoreSubscriberDeadLetter (entry\<lparr>de_id := rowid\<rparr>) st
        | (Inl _, st) \<Rightarrow> restoreSubscriberDeadLetter entry st)"

section \<open>Delivery\<close>

text \<open>The attempts from a given one on: whether one was acknowledged, and how many were made.\<close>

fun deliver_attempts :: "(nat \<Rightarrow> attempt_result) \<Rightarrow> nat \<Rightarrow> nat \<Rightarrow> bool \<times> nat" where
  "deliver_attempts invoke attempt 0 = (False, 0)"
| "deliver_attempts invoke attempt (Suc n) =
    (if (case invoke attempt of Inr (ok, retry) \<Rightarrow> ok \<or> \<not> retry | Inl _ \<Rightarrow> False) then (True, 1)
     else case deliver_attempts invoke (Suc attempt) n of (acked, made) \<Rightarrow> (acked, Suc made))"

definition max_attempts :: "subscriberHandler \<Rightarrow> nat" where
  "max_attempts subscriber =
    (let maxRetry = (if sh_mode subscriber = ''best_effort'' then 1 else sh_maxRetry subscriber);
         maxRetry = (if maxRetry \<le> 0 then DefaultSubscriberMaxRetry else maxRetry)
     in nat maxRetry)"

datatype delivery = Refused | Acknowledged nat | Dead nat

definition deliverSubscriberEvent :: "dead_io \<Rightarrow> subscriberHandler \<Rightarrow> queuedEvent \<Rightarrow> dead_state \<Rightarrow> delivery \<times> dead_state" where
  "deliverSubscriberEvent io subscriber event st =
    (if sh_accepts subscriber event \<noteq> Inr True then (Refused, st)
     else case deliver_attempts (sh_invoke subscriber event) 1 (max_attempts subscriber) of
       (True, made) \<Rightarrow> (Acknowledged made, st)
     | (False, made) \<Rightarrow> (Dead made, storeSubscriberDeadLetter io subscriber event (max_attempts subscriber) st))"

text \<open>One event of \<open>consumeSubscriberEvents\<close> for all subscribers, in order.\<close>

fun deliver_all :: "dead_io \<Rightarrow> subscriberHandler list \<Rightarrow> queuedEvent \<Rightarrow> dead_state \<Rightarrow> (string \<times> delivery) list \<times> dead_state" where
  "deliver_all io [] event st = ([], st)"
| "deliver_all io (s # ss) event st =
    (case deliverSubscriberEvent io s event st of (d, st) \<Rightarrow>
      (case deliver_all io ss event st of (ds, st) \<Rightarrow> ((sh_pluginID s, d) # ds, st)))"

section \<open>Replay\<close>

definition pendingSubscriberDeadLetters :: "dead_io \<Rightarrow> dead_state \<Rightarrow> subscriberDeadLetterEntry list \<times> dead_state" where
  "pendingSubscriberDeadLetters io st = (case PendingSubscriberDeadLetters io (int DefaultSubscriberDeadLetterLimit) st of
      Inr (r # rs) \<Rightarrow> (map dl_entry (r # rs), st)
    | _ \<Rightarrow> (dd_memory st, st\<lparr>dd_memory := []\<rparr>))"

text \<open>One entry: it is delivered to the subscribers of its plugin, or kept when there is none.\<close>

definition replay_entry :: "dead_io \<Rightarrow> subscriberHandler list \<Rightarrow> subscriberDeadLetterEntry \<Rightarrow> dead_state \<Rightarrow> (string \<times> delivery) list \<times> dead_state" where
  "replay_entry io subscribers entry st =
    (let matching = filter (\<lambda>s. sh_pluginID s = de_subscriberPluginID entry) subscribers in
     if matching = [] then ([], restoreSubscriberDeadLetter entry st)
     else case deliver_all io matching (de_event entry) st of (ds, st) \<Rightarrow>
       (ds, if de_id entry > 0 then snd (MarkSubscriberDeadLetter io (de_id entry) ''replayed'' ''replay requested'' st) else st))"

fun replay_entries :: "dead_io \<Rightarrow> subscriberHandler list \<Rightarrow> subscriberDeadLetterEntry list \<Rightarrow> dead_state \<Rightarrow> (string \<times> delivery) list \<times> dead_state" where
  "replay_entries io subscribers [] st = ([], st)"
| "replay_entries io subscribers (entry # entries) st =
    (case replay_entry io subscribers entry st of (ds, st) \<Rightarrow>
      (case replay_entries io subscribers entries st of (ds', st) \<Rightarrow> (ds @ ds', st)))"

definition ReplaySubscriberDeadLetters :: "dead_io \<Rightarrow> subscriberHandler list \<Rightarrow> dead_state \<Rightarrow> nat \<times> (string \<times> delivery) list \<times> dead_state" where
  "ReplaySubscriberDeadLetters io subscribers st = (case pendingSubscriberDeadLetters io st of
      (entries, st) \<Rightarrow> if entries = [] then (0, [], st)
        else (case replay_entries io subscribers entries st of (ds, st) \<Rightarrow> (length entries, ds, st)))"

definition DropSubscriberDeadLetters :: "dead_io \<Rightarrow> dead_state \<Rightarrow> nat \<times> dead_state" where
  "DropSubscriberDeadLetters io st = (case PendingSubscriberDeadLetters io (int DefaultSubscriberDeadLetterLimit) st of
      Inr (r # rs) \<Rightarrow>
        (length (r # rs),
         (fold (\<lambda>r st. snd (MarkSubscriberDeadLetter io (de_id (dl_entry r)) ''dropped'' ''drop requested'' st)) (r # rs) st)\<lparr>dd_memory := []\<rparr>)
    | _ \<Rightarrow> (length (dd_memory st), st\<lparr>dd_memory := []\<rparr>))"

definition SubscriberDeadLetters :: "dead_io \<Rightarrow> dead_state \<Rightarrow> nat" where
  "SubscriberDeadLetters io st = (case CountPendingSubscriberDeadLetters io st of Inr n \<Rightarrow> n | Inl _ \<Rightarrow> length (dd_memory st))"

section \<open>Properties\<close>

lemma deliver_attempts_facts:
  assumes "deliver_attempts invoke a n = (acked, made)"
  shows "made \<le> n \<and> (acked \<longrightarrow> 1 \<le> made \<and> (\<exists>ok retry. invoke (a + made - 1) = Inr (ok, retry) \<and> (ok \<or> \<not> retry)))
    \<and> (\<not> acked \<longrightarrow> made = n)
    \<and> (\<forall>i. a \<le> i \<and> i + 1 < a + made \<or> \<not> acked \<and> a \<le> i \<and> i < a + n \<longrightarrow> (\<forall>ok retry. invoke i = Inr (ok, retry) \<longrightarrow> \<not> ok \<and> retry))"
  using assms
proof (induction invoke a n arbitrary: made rule: deliver_attempts.induct)
  case (2 invoke a n)
  show ?case
  proof (cases "case invoke a of Inr (ok, retry) \<Rightarrow> ok \<or> \<not> retry | Inl _ \<Rightarrow> False")
    case True
    then show ?thesis using 2(2) by (auto split: sum.splits)
  next
    case False
    then obtain m where m: "deliver_attempts invoke (Suc a) n = (acked, m)" "made = Suc m" using 2(2) by (auto split: prod.splits)
    have no: "\<forall>ok retry. invoke a = Inr (ok, retry) \<longrightarrow> \<not> ok \<and> retry" using False by auto
    have later: "\<forall>ok retry. invoke i = Inr (ok, retry) \<longrightarrow> \<not> ok \<and> retry"
      if "a \<le> i \<and> i + 1 < a + made \<or> \<not> acked \<and> a \<le> i \<and> i < a + Suc n" for i
    proof (cases "i = a")
      case False
      then have "Suc a \<le> i \<and> i + 1 < Suc a + m \<or> \<not> acked \<and> Suc a \<le> i \<and> i < Suc a + n" using that m(2) by auto
      then show ?thesis using 2(1) [OF \<open>\<not> (case invoke a of Inr (ok, retry) \<Rightarrow> ok \<or> \<not> retry | Inl _ \<Rightarrow> False)\<close> m(1)] by blast
    qed (use no in simp)
    have "m \<le> n \<and> (acked \<longrightarrow> 1 \<le> m \<and> (\<exists>ok retry. invoke (Suc a + m - 1) = Inr (ok, retry) \<and> (ok \<or> \<not> retry))) \<and> (\<not> acked \<longrightarrow> m = n)"
      using 2(1) [OF False m(1)] by blast
    then have "made \<le> Suc n \<and> (acked \<longrightarrow> 1 \<le> made \<and> (\<exists>ok retry. invoke (a + made - 1) = Inr (ok, retry) \<and> (ok \<or> \<not> retry))) \<and> (\<not> acked \<longrightarrow> made = Suc n)"
      using m(2) by auto
    with later show ?thesis by blast
  qed
qed auto

lemma restore_in_memory: "entry \<in> set (dd_memory (restoreSubscriberDeadLetter entry st))"
  by (simp add: restoreSubscriberDeadLetter_def Let_def)

lemma restore_bounded:
  "length (dd_memory st) \<le> DefaultSubscriberDeadLetterLimit \<Longrightarrow> length (dd_memory (restoreSubscriberDeadLetter entry st)) \<le> DefaultSubscriberDeadLetterLimit"
  by (auto simp: restoreSubscriberDeadLetter_def Let_def DefaultSubscriberDeadLetterLimit_def)

lemma restore_table [simp]: "dd_table (restoreSubscriberDeadLetter entry st) = dd_table st"
  by (simp add: restoreSubscriberDeadLetter_def Let_def)

lemma store_facts:
  assumes "st' = storeSubscriberDeadLetter io s event n st"
  shows "\<exists>e \<in> set (dd_memory st'). de_event e = event \<and> de_subscriberPluginID e = sh_pluginID s \<and> de_attempts e = n"
    and "di_save io = None \<Longrightarrow> \<exists>r \<in> set (dd_table st'). dl_status r = ''pending'' \<and> de_event (dl_entry r) = event \<and> de_subscriberPluginID (dl_entry r) = sh_pluginID s"
    and "length (dd_memory st) \<le> DefaultSubscriberDeadLetterLimit \<Longrightarrow> length (dd_memory st') \<le> DefaultSubscriberDeadLetterLimit"
proof -
  let ?e = "\<lparr>de_id = 0, de_subscriberPluginID = sh_pluginID s, de_subscriberArtifactID = sh_artifactID s,
    de_deliveryMode = sh_mode s, de_attempts = n, de_nodeID = dd_nodeID st, de_event = event\<rparr>"
  obtain r st1 where s: "SaveSubscriberDeadLetter io ?e ''pending'' ''subscriber delivery failed'' st = (r, st1)" by fastforce
  have mem: "dd_memory st1 = dd_memory st" using s by (auto simp: SaveSubscriberDeadLetter_def Let_def split: option.splits)
  obtain i where st': "st' = restoreSubscriberDeadLetter (?e\<lparr>de_id := i\<rparr>) st1"
    using assms s by (cases r) (auto simp: storeSubscriberDeadLetter_def Let_def)
  show "\<exists>e \<in> set (dd_memory st'). de_event e = event \<and> de_subscriberPluginID e = sh_pluginID s \<and> de_attempts e = n"
    unfolding st' by (rule bexI [OF _ restore_in_memory]) simp
  show "\<exists>r \<in> set (dd_table st'). dl_status r = ''pending'' \<and> de_event (dl_entry r) = event \<and> de_subscriberPluginID (dl_entry r) = sh_pluginID s"
    if "di_save io = None" using that s unfolding st' by (auto simp: SaveSubscriberDeadLetter_def Let_def)
  show "length (dd_memory st') \<le> DefaultSubscriberDeadLetterLimit" if "length (dd_memory st) \<le> DefaultSubscriberDeadLetterLimit"
    unfolding st' by (rule restore_bounded) (simp add: mem that)
qed


definition dead_io_ok :: dead_io where
  "dead_io_ok = \<lparr>di_save = None, di_pending = None, di_mark = None, di_now = 100 * Second\<rparr>"

definition dead_demo :: dead_state where
  "dead_demo = \<lparr>dd_nodeID = ''n1'', dd_memory = [], dd_table = [], dd_nextID = 1, dd_dropped = 0\<rparr>"

text \<open>A subscriber that answers with an error, and the same one later, when it works.\<close>

definition subscriber_demo :: "attempt_result \<Rightarrow> subscriberHandler" where
  "subscriber_demo answer = \<lparr>sh_pluginID = ''s'', sh_artifactID = ''v1'', sh_mode = ''at_least_once'', sh_maxRetry = 2,
     sh_accepts = (\<lambda>_. Inr True), sh_invoke = (\<lambda>_ _. answer)\<rparr>"


text \<open>
  replaying dead letters twice delivers them twice.  A dead letter is kept in memory and as a pending row; the replay takes the pending
  rows, delivers them and marks them, and leaves the copies in memory, which the next replay takes because no row is
  pending any more.
\<close>

theorem replay_delivers_twice:
  "case deliverSubscriberEvent dead_io_ok (subscriber_demo (Inl (ErrorString ''down''))) event_demo dead_demo of (d, st) \<Rightarrow>
     case ReplaySubscriberDeadLetters dead_io_ok [subscriber_demo (Inr (True, False))] st of (n1, ds1, st1) \<Rightarrow>
       case ReplaySubscriberDeadLetters dead_io_ok [subscriber_demo (Inr (True, False))] st1 of (n2, ds2, st2) \<Rightarrow>
         n1 = 1 \<and> ds1 = [(''s'', Acknowledged 1)] \<and> SubscriberDeadLetters dead_io_ok st1 = 0
         \<and> n2 = 1 \<and> ds2 = [(''s'', Acknowledged 1)]"
  by code_simp

end
