(* ===== verification/Plugin_Trust.thy ===== *)
theory Plugin_Trust
  imports GoStd Tables
begin

text \<open>
  Trust roots and artifact signatures: \<open>src/internal/pluginmanager/supply_chain_trust.go\<close> and its part of \<open>repository.go\<close>.

  The library functions are a record of parameters: the two base64 decoders and the encoder, \<open>json.Unmarshal\<close> into bytes, SHA-256 in
  hexadecimal, Ed25519 verification, which panics when the key has not 32 bytes, and the encoding of a policy.  Database failures
  and the bytes of the artifact are arguments.
\<close>

section \<open>Data\<close>

record trust_lib =
  tb_std :: "string \<Rightarrow> bytes option"
  tb_raw :: "string \<Rightarrow> bytes option"
  tb_json :: "string \<Rightarrow> bytes option"
  tb_encode :: "bytes \<Rightarrow> string"
  tb_sha256hex :: "bytes \<Rightarrow> string"
  tb_verify :: "bytes \<Rightarrow> bytes \<Rightarrow> bytes \<Rightarrow> bool"
  tb_validJSON :: "string \<Rightarrow> bool"
  tb_lower :: "string \<Rightarrow> string" \<comment> \<open>lower-casing outside ASCII\<close>

record TrustRootRecord =
  tr_ID :: int
  tr_RootID :: string
  tr_KeyID :: string
  tr_Algorithm :: string
  tr_PublicKey :: string
  tr_PublicKeySHA256 :: string
  tr_Status :: string
  tr_PolicyJSON :: string
  tr_CreatedBy :: string
  tr_RotatedAt :: int
  tr_RevokedAt :: int
  tr_RevocationReason :: string
  tr_UpdatedAt :: int

record trust_state =
  ts_rows :: "TrustRootRecord list"
  ts_nextID :: int

definition trust_key :: "TrustRootRecord \<Rightarrow> string \<times> string" where
  "trust_key r = (tr_RootID r, tr_KeyID r)"

text \<open>The failures of the statements of one call, and its time.\<close>

record trust_io =
  ti_read :: "error option"
  ti_exec :: "error option"
  ti_reread :: "error option"
  ti_now :: int

section \<open>Repository\<close>

text \<open>\<open>ORDER BY status = 'trusted' DESC, rotated_at DESC, id DESC\<close>.\<close>

definition trust_order :: "TrustRootRecord list \<Rightarrow> TrustRootRecord list" where
  "trust_order rows = sort_key (\<lambda>r. if tr_Status r = ''trusted'' then 0 else 1 :: nat) (sort_key (\<lambda>r. - tr_RotatedAt r) (sort_key (\<lambda>r. - tr_ID r) rows))"

definition repo_TrustRoot :: "error option \<Rightarrow> string \<Rightarrow> string \<Rightarrow> trust_state \<Rightarrow> TrustRootRecord result" where
  "repo_TrustRoot read rootID keyID st = (case read of
      Some e \<Rightarrow> Inl e
    | None \<Rightarrow> (case trust_order (filter (\<lambda>r. tr_RootID r = rootID \<and> (keyID \<noteq> [] \<longrightarrow> tr_KeyID r = keyID)) (ts_rows st)) of
        [] \<Rightarrow> Inl Sql_ErrNoRows
      | r # _ \<Rightarrow> Inr r))"

definition repo_ListTrustRoots :: "error option \<Rightarrow> string \<Rightarrow> trust_state \<Rightarrow> TrustRootRecord list result" where
  "repo_ListTrustRoots read rootID st = (case read of
      Some e \<Rightarrow> Inl e
    | None \<Rightarrow> Inr (sort_key tr_RootID (trust_order (filter (\<lambda>r. rootID \<noteq> [] \<longrightarrow> tr_RootID r = rootID) (ts_rows st)))))"

text \<open>The row that is inserted, and what the update of an existing row makes of it.\<close>

definition trust_row :: "trust_lib \<Rightarrow> int \<Rightarrow> string \<Rightarrow> int \<Rightarrow> TrustRootRecord \<Rightarrow> TrustRootRecord" where
  "trust_row lib now actor rowid record = record\<lparr>
     tr_Algorithm := (if tr_Algorithm record = [] then ''ed25519'' else tr_Algorithm record),
     tr_Status := (if tr_Status record = [] then ''trusted'' else tr_Status record),
     tr_PolicyJSON := (if tr_PolicyJSON record = [] \<or> \<not> tb_validJSON lib (tr_PolicyJSON record) then ''{}'' else tr_PolicyJSON record),
     tr_RotatedAt := (if tr_RotatedAt record = 0 then now else tr_RotatedAt record),
     tr_UpdatedAt := now, tr_CreatedBy := actor, tr_ID := rowid\<rparr>"

definition trust_merge :: "TrustRootRecord \<Rightarrow> TrustRootRecord \<Rightarrow> TrustRootRecord" where
  "trust_merge new old = new\<lparr>tr_ID := tr_ID old, tr_RootID := tr_RootID old, tr_KeyID := tr_KeyID old,
     tr_RevokedAt := (if tr_Status old = ''revoked'' then tr_RevokedAt old else tr_RevokedAt new),
     tr_RevocationReason := (if tr_Status old = ''revoked'' then tr_RevocationReason old else tr_RevocationReason new)\<rparr>"

definition SaveTrustRoot :: "trust_lib \<Rightarrow> trust_io \<Rightarrow> string \<Rightarrow> TrustRootRecord \<Rightarrow> trust_state \<Rightarrow> TrustRootRecord result \<times> trust_state" where
  "SaveTrustRoot lib io actor record st =
    (let new = trust_row lib (Unix (ti_now io)) actor (ts_nextID st) record
     in case ti_exec io of
          Some e \<Rightarrow> (Inl e, st)
        | None \<Rightarrow>
            (let st' = st\<lparr>ts_nextID := ts_nextID st + 1, ts_rows := row_upsert trust_key new (trust_merge new) (ts_rows st)\<rparr>
             in (repo_TrustRoot (ti_reread io) (tr_RootID record) (tr_KeyID record) st', st')))"

definition repo_RevokeTrustRoot :: "trust_io \<Rightarrow> string \<Rightarrow> string \<Rightarrow> string \<Rightarrow> string \<Rightarrow> trust_state \<Rightarrow> TrustRootRecord result \<times> trust_state" where
  "repo_RevokeTrustRoot io actor rootID keyID reason st = (case ti_exec io of
      Some e \<Rightarrow> (Inl e, st)
    | None \<Rightarrow>
        (let now = Unix (ti_now io) in
         case row_update_where trust_key (rootID, keyID) (\<lambda>_. True)
             (\<lambda>r. r\<lparr>tr_Status := ''revoked'', tr_RevokedAt := now, tr_RevocationReason := reason, tr_CreatedBy := actor, tr_UpdatedAt := now\<rparr>)
             (ts_rows st) of
           (rows, affected) \<Rightarrow>
             (let st = st\<lparr>ts_rows := rows\<rparr> in
              if affected = 0 then (Inl Sql_ErrNoRows, st) else (repo_TrustRoot (ti_reread io) rootID keyID st, st))))"

section \<open>Manager\<close>

definition decodeTrustRootBytes :: "trust_lib \<Rightarrow> string \<Rightarrow> bytes result" where
  "decodeTrustRootBytes lib value =
    (let value = TrimSpace value in
     if value = [] then Inl (ErrorString ''value is empty'')
     else case tb_std lib value of Some data \<Rightarrow> Inr data
     | None \<Rightarrow> (case tb_raw lib value of Some data \<Rightarrow> Inr data
       | None \<Rightarrow> (case tb_json lib value of Some data \<Rightarrow> Inr data
         | None \<Rightarrow> Inl (ErrorString ''value must be base64 encoded''))))"

definition decodeTrustRootPublicKey :: "trust_lib \<Rightarrow> string \<Rightarrow> (bytes \<times> string) result" where
  "decodeTrustRootPublicKey lib value = (case decodeTrustRootBytes lib value of
      Inl e \<Rightarrow> Inl (ErrorString (''decode public key: '' @ Error e))
    | Inr data \<Rightarrow> Inr (data, tb_encode lib data))"

text \<open>A request to distribute a key; \<open>Policy\<close> is already encoded, or the error of encoding it.\<close>

record TrustRootRequest =
  rq_RootID :: string
  rq_KeyID :: string
  rq_Algorithm :: string
  rq_PublicKey :: string
  rq_Policy :: "string result"

definition default_root :: "string \<Rightarrow> string" where
  "default_root rootID = (let r = TrimSpace rootID in if r = [] then ''default'' else r)"

text \<open>The checks of \<open>RotateTrustRoot\<close>: the record that will be saved.\<close>

definition rotate_check :: "trust_lib \<Rightarrow> trust_io \<Rightarrow> TrustRootRequest \<Rightarrow> trust_state \<Rightarrow> TrustRootRecord result" where
  "rotate_check lib io req st =
    (let rootID = default_root (rq_RootID req); keyID = TrimSpace (rq_KeyID req);
         lowered = ToLower (tb_lower lib) (TrimSpace (rq_Algorithm req));
         algorithm = (if lowered = [] then ''ed25519'' else lowered)
     in if keyID = [] then Inl (ErrorString ''key_id is required'')
        else if algorithm \<noteq> ''ed25519'' then Inl (ErrorString ''unsupported trust root algorithm'')
        else
          (let save = (case decodeTrustRootPublicKey lib (rq_PublicKey req) of
               Inl e \<Rightarrow> Inl e
             | Inr (publicKey, publicKeyText) \<Rightarrow>
                 if length publicKey \<noteq> 32 then Inl (ErrorString ''public key length'')
                 else (case rq_Policy req of
                   Inl e \<Rightarrow> Inl e
                 | Inr policyJSON \<Rightarrow> Inr \<lparr>tr_ID = 0, tr_RootID = rootID, tr_KeyID = keyID, tr_Algorithm = algorithm, tr_PublicKey = publicKeyText,
                     tr_PublicKeySHA256 = tb_sha256hex lib publicKey, tr_Status = ''trusted'', tr_PolicyJSON = policyJSON, tr_CreatedBy = [],
                     tr_RotatedAt = 0, tr_RevokedAt = 0, tr_RevocationReason = [], tr_UpdatedAt = 0\<rparr>))
           in case repo_TrustRoot (ti_read io) rootID keyID st of
                Inr existing \<Rightarrow> if tr_Status existing = ''revoked'' then Inl (ErrorString ''trust root key is revoked; rotate with a new key id'') else save
              | Inl Sql_ErrNoRows \<Rightarrow> save
              | Inl e \<Rightarrow> Inl e))"

definition RotateTrustRoot :: "trust_lib \<Rightarrow> trust_io \<Rightarrow> string \<Rightarrow> TrustRootRequest \<Rightarrow> trust_state \<Rightarrow> TrustRootRecord result \<times> trust_state" where
  "RotateTrustRoot lib io actor req st = (case rotate_check lib io req st of
      Inl e \<Rightarrow> (Inl e, st)
    | Inr record \<Rightarrow> SaveTrustRoot lib io actor record st)"

definition RevokeTrustRoot :: "trust_io \<Rightarrow> string \<Rightarrow> string \<Rightarrow> string \<Rightarrow> string \<Rightarrow> trust_state \<Rightarrow> TrustRootRecord result \<times> trust_state" where
  "RevokeTrustRoot io actor rootID keyID reason st =
    (let rootID = default_root rootID; keyID = TrimSpace keyID in
     if keyID = [] then (Inl (ErrorString ''key_id is required''), st)
     else repo_RevokeTrustRoot io actor rootID keyID (TrimSpace reason) st)"

record SignatureVerificationRequest =
  sv_ArtifactID :: string
  sv_PluginID :: string
  sv_RootID :: string
  sv_KeyID :: string
  sv_Signature :: string

record SignatureVerificationResult =
  sr_PluginID :: string
  sr_ArtifactID :: string
  sr_RootID :: string
  sr_KeyID :: string
  sr_Verified :: bool
  sr_SignatureValid :: bool
  sr_Trusted :: bool
  sr_TrustStatus :: string
  sr_PublicKeySHA256 :: string
  sr_Revoked :: bool
  sr_RevocationReason :: string
  sr_Error :: string

text \<open>
  What is stored of the artifact: the plugin it belongs to, what reading its distribution package yields, if it has one, and what reading
  its file yields.
\<close>

record artifact_files =
  af_PluginID :: string
  af_package :: "bytes result option"
  af_file :: "bytes result"

definition signatureVerificationBytes :: "artifact_files \<Rightarrow> bytes result" where
  "signatureVerificationBytes artifact = (case af_package artifact of Some (Inr data) \<Rightarrow> Inr data | _ \<Rightarrow> af_file artifact)"

definition VerifyArtifactSignature ::
  "trust_lib \<Rightarrow> error option \<Rightarrow> artifact_files result \<Rightarrow> SignatureVerificationRequest \<Rightarrow> trust_state \<Rightarrow> SignatureVerificationResult result" where
  "VerifyArtifactSignature lib read artifact req st =
    (let artifactID = TrimSpace (sv_ArtifactID req); pluginID = TrimSpace (sv_PluginID req);
         rootID = default_root (sv_RootID req); keyID = TrimSpace (sv_KeyID req)
     in if artifactID = [] then Inl (ErrorString ''artifact_id is required'')
        else if TrimSpace (sv_Signature req) = [] then Inl (ErrorString ''signature is required'')
        else case artifact of Inl e \<Rightarrow> Inl e
        | Inr artifact \<Rightarrow>
            if pluginID \<noteq> [] \<and> af_PluginID artifact \<noteq> pluginID then Inl (ErrorString ''artifact plugin_id does not match'')
            else (case repo_TrustRoot read rootID keyID st of Inl e \<Rightarrow> Inl e
            | Inr root \<Rightarrow> (case decodeTrustRootPublicKey lib (tr_PublicKey root) of Inl e \<Rightarrow> Inl e
              | Inr (publicKey, _) \<Rightarrow> (case decodeTrustRootBytes lib (sv_Signature req) of
                  Inl e \<Rightarrow> Inl (ErrorString (''decode signature: '' @ Error e))
                | Inr signature \<Rightarrow> (case signatureVerificationBytes artifact of Inl e \<Rightarrow> Inl e
                  | Inr data \<Rightarrow>
                      if tr_Algorithm root = ''ed25519'' \<and> length publicKey \<noteq> 32 then Inl (Go_panic ''ed25519: bad public key length'')
                      else
                        (let signatureValid = (tr_Algorithm root = ''ed25519'' \<and> tb_verify lib publicKey data signature);
                             trusted = (tr_Status root = ''trusted'');
                             verified = (signatureValid \<and> trusted)
                         in Inr \<lparr>sr_PluginID = af_PluginID artifact, sr_ArtifactID = artifactID, sr_RootID = tr_RootID root, sr_KeyID = tr_KeyID root,
                              sr_Verified = verified, sr_SignatureValid = signatureValid, sr_Trusted = trusted, sr_TrustStatus = tr_Status root,
                              sr_PublicKeySHA256 = tr_PublicKeySHA256 root, sr_Revoked = (tr_Status root = ''revoked''),
                              sr_RevocationReason = tr_RevocationReason root,
                              sr_Error = (if verified then [] else ''artifact signature is not trusted'')\<rparr>))))))"

section \<open>Properties\<close>

text \<open>Encoding and decoding a key of 32 bytes with the standard base64 alphabet.\<close>

definition codec_ok :: "trust_lib \<Rightarrow> bool" where
  "codec_ok lib = (\<forall>d. length d = 32 \<longrightarrow> tb_std lib (tb_encode lib d) = Some d \<and> TrimSpace (tb_encode lib d) = tb_encode lib d \<and> tb_encode lib d \<noteq> [])"

definition trust_ok :: "trust_lib \<Rightarrow> trust_state \<Rightarrow> bool" where
  "trust_ok lib st = (unique_keys trust_key (ts_rows st)
     \<and> (\<forall>r \<in> set (ts_rows st). \<exists>pk. decodeTrustRootBytes lib (tr_PublicKey r) = Inr pk \<and> length pk = 32))"

definition revoked :: "string \<times> string \<Rightarrow> trust_state \<Rightarrow> bool" where
  "revoked k st = (\<exists>r. row_select trust_key k (ts_rows st) = Some r \<and> tr_Status r = ''revoked'')"

lemma trust_lookup_some:
  assumes "repo_TrustRoot read rootID keyID st = Inr r"
  shows "r \<in> set (ts_rows st) \<and> tr_RootID r = rootID \<and> (keyID \<noteq> [] \<longrightarrow> tr_KeyID r = keyID)"
proof -
  let ?rows = "filter (\<lambda>r. tr_RootID r = rootID \<and> (keyID \<noteq> [] \<longrightarrow> tr_KeyID r = keyID)) (ts_rows st)"
  have "r \<in> set (trust_order ?rows)" using assms by (auto simp: repo_TrustRoot_def split: option.splits list.splits)
  then show ?thesis by (simp add: trust_order_def)
qed

lemma trust_lookup_key:
  assumes "unique_keys trust_key (ts_rows st)" "keyID \<noteq> []"
  shows "repo_TrustRoot None rootID keyID st = (case row_select trust_key (rootID, keyID) (ts_rows st) of None \<Rightarrow> Inl Sql_ErrNoRows | Some r \<Rightarrow> Inr r)"
proof -
  have "(\<lambda>r. tr_RootID r = rootID \<and> (keyID \<noteq> [] \<longrightarrow> tr_KeyID r = keyID)) = (\<lambda>r. trust_key r = (rootID, keyID))"
    using assms(2) by (auto simp: trust_key_def)
  then show ?thesis using filter_key_select [OF assms(1), of "(rootID, keyID)"]
    by (auto simp: repo_TrustRoot_def trust_order_def split: option.splits)
qed

lemma rotate_check_record:
  assumes "rotate_check lib io req st = Inr record"
  shows "tr_KeyID record \<noteq> [] \<and> (\<exists>pk. length pk = 32 \<and> tr_PublicKey record = tb_encode lib pk)"
    and "unique_keys trust_key (ts_rows st) \<Longrightarrow> ti_read io \<noteq> Some Sql_ErrNoRows \<Longrightarrow> \<not> revoked (trust_key record) st"
proof -
  let ?look = "repo_TrustRoot (ti_read io) (default_root (rq_RootID req)) (TrimSpace (rq_KeyID req)) st"
  have r: "tr_RootID record = default_root (rq_RootID req)" "tr_KeyID record = TrimSpace (rq_KeyID req)" "TrimSpace (rq_KeyID req) \<noteq> []"
    and pk: "\<exists>pk. length pk = 32 \<and> tr_PublicKey record = tb_encode lib pk"
    and look: "?look = Inl Sql_ErrNoRows \<or> (\<exists>x. ?look = Inr x \<and> tr_Status x \<noteq> ''revoked'')"
    using assms unfolding rotate_check_def Let_def
    by (auto simp: decodeTrustRootPublicKey_def split: if_splits sum.splits error.splits prod.splits)
  then show "tr_KeyID record \<noteq> [] \<and> (\<exists>pk. length pk = 32 \<and> tr_PublicKey record = tb_encode lib pk)" by simp
  show "\<not> revoked (trust_key record) st" if "unique_keys trust_key (ts_rows st)" "ti_read io \<noteq> Some Sql_ErrNoRows"
  proof (cases "ti_read io")
    case None
    then show ?thesis using look trust_lookup_key [OF that(1) r(3), of "default_root (rq_RootID req)"]
      by (auto simp: revoked_def trust_key_def r split: option.splits)
  next
    case (Some e)
    then show ?thesis using look that(2) by (auto simp: repo_TrustRoot_def)
  qed
qed

text \<open>The row that \<open>SaveTrustRoot\<close> writes has the key and the public key of the record.\<close>

lemma SaveTrustRoot_rows:
  assumes "SaveTrustRoot lib io actor record st = (r, st')"
  shows "st' = st \<or> (\<exists>new upd. trust_key new = trust_key record \<and> tr_PublicKey new = tr_PublicKey record
    \<and> (\<forall>old. trust_key (upd old) = trust_key old \<and> tr_PublicKey (upd old) = tr_PublicKey record)
    \<and> ts_rows st' = row_upsert trust_key new upd (ts_rows st))"
proof -
  let ?new = "trust_row lib (Unix (ti_now io)) actor (ts_nextID st) record"
  have "trust_key ?new = trust_key record" "tr_PublicKey ?new = tr_PublicKey record" by (simp_all add: trust_row_def trust_key_def)
  moreover have "trust_key (trust_merge ?new old) = trust_key old" "tr_PublicKey (trust_merge ?new old) = tr_PublicKey record" for old
    by (simp_all add: trust_merge_def trust_row_def trust_key_def)
  moreover have "st' = st \<or> ts_rows st' = row_upsert trust_key ?new (trust_merge ?new) (ts_rows st)"
    using assms by (auto simp: SaveTrustRoot_def Let_def split: option.splits)
  ultimately show ?thesis by blast
qed

lemma RotateTrustRoot_keeps:
  assumes "trust_ok lib st" "codec_ok lib" "ti_read io \<noteq> Some Sql_ErrNoRows" "RotateTrustRoot lib io actor req st = (r, st')"
  shows "trust_ok lib st'" "revoked k st \<Longrightarrow> revoked k st'"
proof -
  have u: "unique_keys trust_key (ts_rows st)" using assms(1) by (simp add: trust_ok_def)
  have "st' = st \<or> (\<exists>record. rotate_check lib io req st = Inr record \<and> SaveTrustRoot lib io actor record st = (r, st'))"
    using assms(4) by (auto simp: RotateTrustRoot_def split: sum.splits)
  then have "trust_ok lib st' \<and> (revoked k st \<longrightarrow> revoked k st')"
  proof
    assume "\<exists>record. rotate_check lib io req st = Inr record \<and> SaveTrustRoot lib io actor record st = (r, st')"
    then obtain rec where c: "rotate_check lib io req st = Inr rec" and s: "SaveTrustRoot lib io actor rec st = (r, st')" by blast
    obtain pk where pk: "length pk = 32" "tr_PublicKey rec = tb_encode lib pk" using rotate_check_record(1) [OF c] by blast
    have dec: "decodeTrustRootBytes lib (tr_PublicKey rec) = Inr pk"
      using assms(2) pk by (simp add: codec_ok_def decodeTrustRootBytes_def Let_def)
    have nr: "\<not> revoked (trust_key rec) st" by (rule rotate_check_record(2) [OF c u assms(3)])
    from SaveTrustRoot_rows [OF s] show ?thesis
    proof
      assume "\<exists>new upd. trust_key new = trust_key rec \<and> tr_PublicKey new = tr_PublicKey rec
        \<and> (\<forall>old. trust_key (upd old) = trust_key old \<and> tr_PublicKey (upd old) = tr_PublicKey rec)
        \<and> ts_rows st' = row_upsert trust_key new upd (ts_rows st)"
      then obtain new upd where new: "trust_key new = trust_key rec" "tr_PublicKey new = tr_PublicKey rec"
        and upd: "\<And>old. trust_key (upd old) = trust_key old" "\<And>old. tr_PublicKey (upd old) = tr_PublicKey rec"
        and rows: "ts_rows st' = row_upsert trust_key new upd (ts_rows st)" by blast
      have "unique_keys trust_key (ts_rows st')" unfolding rows by (rule unique_row_upsert [OF upd(1) u])
      moreover have "\<exists>pk. decodeTrustRootBytes lib (tr_PublicKey r) = Inr pk \<and> length pk = 32" if "r \<in> set (ts_rows st')" for r
        using set_row_upsert [OF that [unfolded rows]] assms(1) dec pk(1) new(2) upd(2) by (auto simp: trust_ok_def)
      moreover have "row_select trust_key k (ts_rows st') = row_select trust_key k (ts_rows st)" if "revoked k st"
        using that nr row_select_upsert [of trust_key upd k new "ts_rows st", OF upd(1)] new(1) unfolding rows by auto
      ultimately show ?thesis by (simp add: trust_ok_def revoked_def)
    qed (use assms(1) in simp)
  qed (use assms(1) in simp)
  then show "trust_ok lib st'" "revoked k st \<Longrightarrow> revoked k st'" by blast+
qed

lemma RevokeTrustRoot_keeps:
  assumes "trust_ok lib st" "RevokeTrustRoot io actor rootID keyID reason st = (r, st')"
  shows "trust_ok lib st'" "revoked k st \<Longrightarrow> revoked k st'"
proof -
  let ?k = "(default_root rootID, TrimSpace keyID)" and ?now = "Unix (ti_now io)"
  let ?upd = "\<lambda>r. r\<lparr>tr_Status := ''revoked'', tr_RevokedAt := ?now, tr_RevocationReason := TrimSpace reason, tr_CreatedBy := actor, tr_UpdatedAt := ?now\<rparr>"
  have key: "trust_key (?upd r) = trust_key r" for r by (simp add: trust_key_def)
  have "st' = st \<or> ts_rows st' = fst (row_update_where trust_key ?k (\<lambda>_. True) ?upd (ts_rows st))"
    using assms(2) by (auto simp: RevokeTrustRoot_def repo_RevokeTrustRoot_def Let_def split: if_splits option.splits prod.splits)
  then have "trust_ok lib st' \<and> (revoked k st \<longrightarrow> revoked k st')"
  proof
    assume rows: "ts_rows st' = fst (row_update_where trust_key ?k (\<lambda>_. True) ?upd (ts_rows st))"
    have "unique_keys trust_key (ts_rows st')" using keys_row_update_where [of trust_key ?upd ?k "\<lambda>_. True", OF key] assms(1) rows by (simp add: trust_ok_def)
    moreover have "\<exists>pk. decodeTrustRootBytes lib (tr_PublicKey r) = Inr pk \<and> length pk = 32" if "r \<in> set (ts_rows st')" for r
      using that assms(1) unfolding rows by (auto simp: trust_ok_def row_update_where_def)
    moreover have "revoked k st'" if "revoked k st"
      using that unfolding revoked_def rows row_select_update_where [of trust_key ?upd, OF key] by auto
    ultimately show ?thesis by (simp add: trust_ok_def)
  qed (use assms(1) in simp)
  then show "trust_ok lib st'" "revoked k st \<Longrightarrow> revoked k st'" by blast+
qed

lemma VerifyArtifactSignature_verified:
  assumes "VerifyArtifactSignature lib read artifact req st = Inr res" "sr_Verified res"
  obtains r pk data sig a where "r \<in> set (ts_rows st)" "trust_key r = (sr_RootID res, sr_KeyID res)" "tr_Status r = ''trusted''"
    "decodeTrustRootBytes lib (tr_PublicKey r) = Inr pk" "decodeTrustRootBytes lib (sv_Signature req) = Inr sig"
    "artifact = Inr a" "signatureVerificationBytes a = Inr data" "tb_verify lib pk data sig"
proof -
  have "\<exists>r pk sig a data. repo_TrustRoot read (default_root (sv_RootID req)) (TrimSpace (sv_KeyID req)) st = Inr r
      \<and> trust_key r = (sr_RootID res, sr_KeyID res) \<and> tr_Status r = ''trusted''
      \<and> decodeTrustRootBytes lib (tr_PublicKey r) = Inr pk \<and> decodeTrustRootBytes lib (sv_Signature req) = Inr sig
      \<and> artifact = Inr a \<and> signatureVerificationBytes a = Inr data \<and> tb_verify lib pk data sig"
    using assms unfolding VerifyArtifactSignature_def Let_def
    by (auto simp: decodeTrustRootPublicKey_def trust_key_def split: if_splits sum.splits)
  then show ?thesis using that trust_lookup_some by blast
qed

datatype trust_op = Op_Rotate trust_io string TrustRootRequest | Op_Revoke trust_io string string string string

fun trust_step :: "trust_lib \<Rightarrow> trust_op \<Rightarrow> trust_state \<Rightarrow> trust_state" where
  "trust_step lib (Op_Rotate io actor req) st = snd (RotateTrustRoot lib io actor req st)"
| "trust_step lib (Op_Revoke io actor rootID keyID reason) st = snd (RevokeTrustRoot io actor rootID keyID reason st)"

text \<open>A read does not fail with the error that means that there is no row.\<close>

fun read_sane :: "trust_op \<Rightarrow> bool" where
  "read_sane (Op_Rotate io actor req) = (ti_read io \<noteq> Some Sql_ErrNoRows)"
| "read_sane (Op_Revoke io actor rootID keyID reason) = True"

lemma trust_steps_keep:
  assumes "trust_ok lib st" "codec_ok lib" "list_all read_sane ops"
  shows "trust_ok lib (fold (trust_step lib) ops st) \<and> (revoked k st \<longrightarrow> revoked k (fold (trust_step lib) ops st))"
  using assms
proof (induction ops arbitrary: st)
  case (Cons op ops)
  have "trust_ok lib (trust_step lib op st) \<and> (revoked k st \<longrightarrow> revoked k (trust_step lib op st))"
  proof (cases op)
    case (Op_Rotate io actor req)
    obtain r st' where s: "RotateTrustRoot lib io actor req st = (r, st')" by fastforce
    have "ti_read io \<noteq> Some Sql_ErrNoRows" using Cons.prems(3) Op_Rotate by simp
    then show ?thesis using RotateTrustRoot_keeps [OF Cons.prems(1,2) _ s] Op_Rotate s by simp
  next
    case (Op_Revoke io actor rootID keyID reason)
    obtain r st' where s: "RevokeTrustRoot io actor rootID keyID reason st = (r, st')" by fastforce
    then show ?thesis using RevokeTrustRoot_keeps [OF Cons.prems(1) s] Op_Revoke by simp
  qed
  then show ?case using Cons by simp
qed simp

text \<open>
  C31: a revoked key is never trusted again: after any sequence of distributions and revocations, with any database failures, no signature is
  reported as verified by it; and what is reported as verified carries a valid signature, by a trusted key of 32 bytes, of the
  bytes of the artifact.
\<close>

theorem revoked_key_never_verifies:
  assumes "trust_ok lib st" "codec_ok lib" "list_all read_sane ops" "revoked k st"
    and "VerifyArtifactSignature lib read artifact req (fold (trust_step lib) ops st) = Inr res" "sr_Verified res"
  shows "(sr_RootID res, sr_KeyID res) \<noteq> k
    \<and> (\<exists>a data sig pk. artifact = Inr a \<and> signatureVerificationBytes a = Inr data \<and> decodeTrustRootBytes lib (sv_Signature req) = Inr sig
        \<and> length pk = 32 \<and> tb_verify lib pk data sig)"
proof -
  let ?st = "fold (trust_step lib) ops st"
  have ok: "trust_ok lib ?st" and rev: "revoked k ?st" using trust_steps_keep [OF assms(1-3), of k] assms(4) by blast+
  from assms(5,6) obtain r pk data sig a where r: "r \<in> set (ts_rows ?st)" "trust_key r = (sr_RootID res, sr_KeyID res)" "tr_Status r = ''trusted''"
    and pk: "decodeTrustRootBytes lib (tr_PublicKey r) = Inr pk"
    and v: "decodeTrustRootBytes lib (sv_Signature req) = Inr sig" "artifact = Inr a" "signatureVerificationBytes a = Inr data" "tb_verify lib pk data sig"
    by (rule VerifyArtifactSignature_verified)
  have "row_select trust_key (sr_RootID res, sr_KeyID res) (ts_rows ?st) = Some r"
    using ok r(1,2) row_select_unique [of trust_key "ts_rows ?st"] by (simp add: trust_ok_def)
  then have "(sr_RootID res, sr_KeyID res) \<noteq> k" using rev r(3) by (auto simp: revoked_def)
  moreover have "length pk = 32" using ok r(1) pk unfolding trust_ok_def by (metis sum.inject(2))
  ultimately show ?thesis using v by blast
qed

text \<open>A codec that brackets the bytes, and signatures that repeat key and data.\<close>

definition trust_lib_demo :: trust_lib where
  "trust_lib_demo = \<lparr>tb_std = (\<lambda>s. if s \<noteq> [] \<and> hd s = CHR ''<'' then Some (butlast (tl s)) else None), tb_raw = (\<lambda>_. None), tb_json = (\<lambda>_. None),
     tb_encode = (\<lambda>d. ''<'' @ d @ ''>''), tb_sha256hex = (\<lambda>d. take 4 d), tb_verify = (\<lambda>k d s. s = take 2 k @ d), tb_validJSON = (\<lambda>_. True), tb_lower = id\<rparr>"

definition trust_io_ok :: trust_io where
  "trust_io_ok = \<lparr>ti_read = None, ti_exec = None, ti_reread = None, ti_now = 100 * Second\<rparr>"

definition demo_key_request :: "string \<Rightarrow> char \<Rightarrow> TrustRootRequest" where
  "demo_key_request keyID c = \<lparr>rq_RootID = [], rq_KeyID = keyID, rq_Algorithm = [], rq_PublicKey = ''<'' @ replicate 32 c @ ''>'', rq_Policy = Inr ''{}''\<rparr>"

definition trust_demo :: trust_state where
  "trust_demo = fold (trust_step trust_lib_demo) [Op_Rotate trust_io_ok ''root'' (demo_key_request ''k1'' CHR ''A''),
     Op_Revoke trust_io_ok ''root'' ''default'' ''k1'' ''leaked''] \<lparr>ts_rows = [], ts_nextID = 1\<rparr>"

definition demo_verify :: "string \<Rightarrow> string \<Rightarrow> trust_state \<Rightarrow> SignatureVerificationResult result" where
  "demo_verify keyID sig st = VerifyArtifactSignature trust_lib_demo None (Inr \<lparr>af_PluginID = ''p'', af_package = None, af_file = Inr ''data''\<rparr>)
     \<lparr>sv_ArtifactID = ''a'', sv_PluginID = [], sv_RootID = [], sv_KeyID = keyID, sv_Signature = ''<'' @ sig @ ''>''\<rparr> st"

lemma trust_demo_codec: "codec_ok trust_lib_demo"
proof -
  have "TrimSpace (CHR ''<'' # d @ ''>'') = CHR ''<'' # d @ ''>''" for d by (rule TrimSpace_solid) (simp_all add: solid_def)
  then show ?thesis by (simp add: codec_ok_def trust_lib_demo_def)
qed

theorem revoked_key_never_verifies_witness:
  "\<exists>res. demo_verify ''k2'' ''BBdata'' (fold (trust_step trust_lib_demo) [Op_Rotate trust_io_ok ''root'' (demo_key_request ''k2'' CHR ''B'')] trust_demo) = Inr res
    \<and> sr_Verified res \<and> (sr_RootID res, sr_KeyID res) \<noteq> (''default'', ''k1'')"
proof -
  let ?ops = "[Op_Rotate trust_io_ok ''root'' (demo_key_request ''k2'' CHR ''B'')]"
  let ?v = "demo_verify ''k2'' ''BBdata'' (fold (trust_step trust_lib_demo) ?ops trust_demo)"
  have "trust_ok trust_lib_demo \<lparr>ts_rows = [], ts_nextID = 1\<rparr>" by (simp add: trust_ok_def)
  then have ok: "trust_ok trust_lib_demo trust_demo"
    unfolding trust_demo_def
    using trust_steps_keep [OF _ trust_demo_codec, of "\<lparr>ts_rows = [], ts_nextID = 1\<rparr>"
        "[Op_Rotate trust_io_ok ''root'' (demo_key_request ''k1'' CHR ''A''), Op_Revoke trust_io_ok ''root'' ''default'' ''k1'' ''leaked'']"]
    by (simp add: trust_io_ok_def)
  have "map_option tr_Status (row_select trust_key (''default'', ''k1'') (ts_rows trust_demo)) = Some ''revoked''" by code_simp
  then have rev: "revoked (''default'', ''k1'') trust_demo" by (auto simp: revoked_def)
  have "map_sum id sr_Verified ?v = Inr True" by code_simp
  then obtain res where res: "?v = Inr res" "sr_Verified res" by (cases ?v) auto
  have "list_all read_sane ?ops" by (simp add: trust_io_ok_def)
  then show ?thesis using revoked_key_never_verifies [OF ok trust_demo_codec _ rev res(1) [unfolded demo_verify_def] res(2)] res by blast
qed

text \<open>
  a revocation can be undone by a distribution that overlaps it: the key is checked before, and saved after, the revocation in between, and
  the save makes it trusted again.
\<close>

theorem rotation_undoes_revocation:
  "case RotateTrustRoot trust_lib_demo trust_io_ok ''root'' (demo_key_request ''k1'' CHR ''A'') \<lparr>ts_rows = [], ts_nextID = 1\<rparr> of (_, st) \<Rightarrow>
     case rotate_check trust_lib_demo trust_io_ok (demo_key_request ''k1'' CHR ''A'') st of Inl _ \<Rightarrow> False
     | Inr rec \<Rightarrow>
        (case RevokeTrustRoot trust_io_ok ''root'' ''default'' ''k1'' ''leaked'' st of (_, st1) \<Rightarrow>
           (case SaveTrustRoot trust_lib_demo trust_io_ok ''root'' rec st1 of (_, st2) \<Rightarrow>
              map_sum id sr_Verified (demo_verify ''k1'' ''AAdata'' st1) = Inr False
              \<and> map_sum id sr_Verified (demo_verify ''k1'' ''AAdata'' st2) = Inr True))"
  by code_simp

end
