(* ===== verification/Plugin_Policy.thy ===== *)
theory Plugin_Policy
  imports Plugin_Config "HOL-Library.AList"
begin

text \<open>
  The pure rules behind the release gate, \<open>src/internal/pluginmanager/governance.go\<close>: versions and ranges, what a manifest
  declares, risk and policy, the order of issues, and the search for a cycle among ordering declarations.

  \<open>uni\<close> is lower-casing outside ASCII.  A manifest is what \<open>encoding/json\<close> has decoded.
\<close>

section \<open>Versions\<close>

definition version_sep :: "byte \<Rightarrow> bool" where
  "version_sep c = (c = CHR ''.'' \<or> c = CHR ''-'' \<or> c = CHR ''+'')"

text \<open>\<open>strings.FieldsFunc\<close>: maximal runs of bytes that do not separate.\<close>

fun fields_func :: "(byte \<Rightarrow> bool) \<Rightarrow> string \<Rightarrow> string \<Rightarrow> string list" where
  "fields_func sep cur [] = (if cur = [] then [] else [rev cur])"
| "fields_func sep cur (c # s) =
    (if sep c then (if cur = [] then [] else [rev cur]) @ fields_func sep [] s else fields_func sep (c # cur) s)"

fun leading_numbers :: "string list \<Rightarrow> int list" where
  "leading_numbers [] = []"
| "leading_numbers (f # fs) = (case Atoi f of None \<Rightarrow> [] | Some n \<Rightarrow> n # leading_numbers fs)"

definition versionParts :: "string \<Rightarrow> int list" where
  "versionParts version = leading_numbers (fields_func version_sep [] (TrimPrefix (TrimSpace version) ''v''))"

text \<open>The loop of \<open>compareVersion\<close>: a missing part counts as 0.\<close>

fun compare_parts :: "int list \<Rightarrow> int list \<Rightarrow> int" where
  "compare_parts [] [] = 0"
| "compare_parts (a # as) [] = (if a < 0 then - 1 else if a > 0 then 1 else compare_parts as [])"
| "compare_parts [] (b # bs) = (if 0 < b then - 1 else if 0 > b then 1 else compare_parts [] bs)"
| "compare_parts (a # as) (b # bs) = (if a < b then - 1 else if a > b then 1 else compare_parts as bs)"

definition compareVersion :: "string \<Rightarrow> string \<Rightarrow> int" where
  "compareVersion a b = compare_parts (versionParts a) (versionParts b)"

definition range_part :: "string \<Rightarrow> string \<Rightarrow> bool" where
  "range_part version part =
    (if HasPrefix part ''<='' then compareVersion version (TrimSpace (TrimPrefix part ''<='')) \<le> 0
     else if HasPrefix part ''>='' then compareVersion version (TrimSpace (TrimPrefix part ''>='')) \<ge> 0
     else if HasPrefix part ''<'' then compareVersion version (TrimSpace (TrimPrefix part ''<'')) < 0
     else if HasPrefix part ''>'' then compareVersion version (TrimSpace (TrimPrefix part ''>'')) > 0
     else version = part)"

definition versionInRange :: "string \<Rightarrow> string \<Rightarrow> bool" where
  "versionInRange version expr =
    (let expr = TrimSpace expr in
     if expr = [] \<or> expr = ''*'' then True else list_all (\<lambda>part. range_part version (TrimSpace part)) (SplitByte expr (CHR '','')))"

section \<open>Declarations of a manifest\<close>

type_synonym jobject = "(string \<times> jval) list"

definition uniqueSortedStrings :: "string list \<Rightarrow> string list" where
  "uniqueSortedStrings values = sort (remdups (filter (\<lambda>v. v \<noteq> []) (map TrimSpace values)))"

definition intersectStrings :: "string list \<Rightarrow> string list \<Rightarrow> string list" where
  "intersectStrings left right = uniqueSortedStrings (filter (\<lambda>v. v \<in> set left) right)"

definition stringSlice :: "jval option \<Rightarrow> string list" where
  "stringSlice v = (case v of
      Some (VArr items) \<Rightarrow> List.map_filter (\<lambda>item. case item of VStr t \<Rightarrow> (if t \<noteq> [] then Some t else None) | _ \<Rightarrow> None) items
    | Some (VStr t) \<Rightarrow> (if t \<noteq> [] then [t] else [])
    | _ \<Rightarrow> [])"

record scopeSpec =
  sc_Type :: string
  sc_Values :: "string list"

definition manifestScope :: "jobject \<Rightarrow> scopeSpec" where
  "manifestScope caps =
    (let raw = obj_member caps ''scope'' in
     \<lparr>sc_Type = (let t = str_member raw ''type'' in if t \<noteq> [] then t else ''global''),
      sc_Values = uniqueSortedStrings (concat (map (\<lambda>key. stringSlice (map_of raw key)) [''values'', ''hosts'', ''routes'', ''listeners''])
        @ (let v = str_member raw ''value'' in if v \<noteq> [] then [v] else []))\<rparr>)"

definition manifestRollout :: "jobject \<Rightarrow> string" where
  "manifestRollout caps = (let mode = str_member (obj_member caps ''rollout'') ''mode'' in if mode = [] then ''all'' else mode)"

definition scopesOverlap :: "scopeSpec \<Rightarrow> scopeSpec \<Rightarrow> bool" where
  "scopesOverlap a b =
    (if sc_Values a = [] \<or> sc_Values b = [] \<or> sc_Type a = ''global'' \<or> sc_Type b = ''global'' then True
     else list_ex (\<lambda>left. list_ex (\<lambda>right. left = right \<or> left = ''*'' \<or> right = ''*'') (sc_Values b)) (sc_Values a))"

definition supported_features :: "string list" where
  "supported_features = [[], ''upstream.connect/v2'', ''route.resolve/v1'', ''route.resolver/v1'', ''status.ping/v1'', ''connection.filter/v1'',
     ''handshake.filter/v1'', ''event.subscriber/v1'', ''provider/v1'', ''auth.provider/v1'', ''admin.auth.provider/v1'', ''upstream.connect'',
     ''minecraft'', ''config'', ''secret'', ''preflight'', ''self-test'']"

definition supportedFeature :: "string \<Rightarrow> bool" where
  "supportedFeature feature = (feature \<in> set supported_features)"

definition requiredFeatures :: "jobject \<Rightarrow> string list" where
  "requiredFeatures caps = uniqueSortedStrings (filter (\<lambda>f. \<not> supportedFeature f)
     (concat (map (\<lambda>key. stringSlice (map_of caps key)) [''required_features'', ''features''])))"

definition externalDependencies :: "jobject \<Rightarrow> string list" where
  "externalDependencies caps = uniqueSortedStrings
     (concat (map (\<lambda>key. stringSlice (map_of caps key)) [''external_dependencies'', ''external_deps'', ''dependencies'']))"

definition providerSingletons :: "jobject \<Rightarrow> string list" where
  "providerSingletons caps = uniqueSortedStrings (concat (map (\<lambda>key. stringSlice (map_of caps key)) [''provider_singletons'', ''providers'']))"

record dependencySpec =
  dp_Name :: string
  dp_Version :: string

text \<open>A dependency in the bill of materials: an item that is not an object has no members.\<close>

definition members_of :: "jval \<Rightarrow> jobject" where
  "members_of v = (case v of VObj m \<Rightarrow> m | _ \<Rightarrow> [])"

definition sbom_item :: "jval \<Rightarrow> dependencySpec option" where
  "sbom_item item =
    (let obj = members_of item; name = (let n = str_member obj ''name'' in if n = [] then str_member obj ''path'' else n) in
     if name = [] then None else Some \<lparr>dp_Name = name, dp_Version = str_member obj ''version''\<rparr>)"

definition sbomDependencies :: "jobject \<Rightarrow> dependencySpec list" where
  "sbomDependencies supplyChain =
    concat (map (\<lambda>key. List.map_filter sbom_item (arr_member supplyChain key)) [''dependencies'', ''sbom_dependencies'', ''modules''])"

section \<open>Risk and policy\<close>

definition normalizeProfile :: "string \<Rightarrow> string" where
  "normalizeProfile profile = (if profile \<in> {''dev'', ''staging'', ''prod''} then profile else ''prod'')"

text \<open>The thresholds are decimal: of the doubles, those at or above the double nearest to 0.2 are those at or above one fifth.\<close>

record PolicySnapshot =
  po_Profile :: string
  po_WarningOverrideTTLSeconds :: int
  po_ReviewRequiredRisk :: string
  po_WarnBenchmarkRegression :: rat
  po_BlockBenchmarkRegression :: rat
  po_RequireConformanceFixture :: bool
  po_CreatedAt :: int

definition policyForProfile :: "string \<Rightarrow> int \<Rightarrow> PolicySnapshot" where
  "policyForProfile profile now =
    (let profile = normalizeProfile profile in
     \<lparr>po_Profile = profile,
      po_WarningOverrideTTLSeconds = (if profile = ''dev'' then 7 * 24 * 3600 else if profile = ''staging'' then 72 * 3600 else 24 * 3600),
      po_ReviewRequiredRisk = (if profile = ''dev'' then [] else ''high''),
      po_WarnBenchmarkRegression = 1 / 5, po_BlockBenchmarkRegression = 1 / 2, po_RequireConformanceFixture = False, po_CreatedAt = Unix now\<rparr>)"

definition policySnapshot :: "bool \<Rightarrow> string \<Rightarrow> int \<Rightarrow> PolicySnapshot" where
  "policySnapshot requireConformanceFixture profile now = (policyForProfile profile now)\<lparr>po_RequireConformanceFixture := requireConformanceFixture\<rparr>"

definition riskRank :: "string \<Rightarrow> int" where
  "riskRank risk = (if risk = ''high'' then 3 else if risk = ''medium'' then 2 else if risk = ''low'' then 1 else 0)"

definition reviewRequired :: "string \<Rightarrow> string \<Rightarrow> PolicySnapshot \<Rightarrow> bool" where
  "reviewRequired profile risk policy =
    (if profile \<noteq> ''prod'' \<or> po_ReviewRequiredRisk policy = [] then False else riskRank risk \<ge> riskRank (po_ReviewRequiredRisk policy))"

definition highRiskSandboxRequiredCapabilities :: "(string \<Rightarrow> string) \<Rightarrow> string list \<Rightarrow> string list" where
  "highRiskSandboxRequiredCapabilities uni capabilities = uniqueSortedStrings
     (filter (\<lambda>c. ToLower uni (TrimSpace c) \<in> {''filesystem.write'', ''network.egress'', ''secret.handle'', ''process.restricted''}) capabilities)"

text \<open>\<open>sandboxed\<close>: the artifact is one of the sandbox runtime; \<open>required\<close>: the capabilities it needs of it.\<close>

definition riskLevel :: "(string \<Rightarrow> string) \<Rightarrow> bool \<Rightarrow> string list \<Rightarrow> SecretSpec list \<Rightarrow> jobject \<Rightarrow> string" where
  "riskLevel uni sandboxed required secrets caps =
    (let risk = str_member (obj_member caps ''governance'') ''risk_level'' in
     if risk \<in> {''low'', ''medium'', ''high''} then risk
     else if sandboxed \<and> highRiskSandboxRequiredCapabilities uni required \<noteq> [] then ''high''
     else if secrets \<noteq> [] \<or> externalDependencies caps \<noteq> [] then ''medium''
     else ''low'')"

section \<open>Issues\<close>

record GovernanceIssue =
  gi_Code :: string
  gi_Severity :: string
  gi_PluginID :: string
  gi_ArtifactID :: string

definition issue :: "string \<Rightarrow> string \<Rightarrow> string \<Rightarrow> string \<Rightarrow> GovernanceIssue" where
  "issue code severity pluginID artifactID = \<lparr>gi_Code = code, gi_Severity = severity, gi_PluginID = pluginID, gi_ArtifactID = artifactID\<rparr>"

definition issueRank :: "string \<Rightarrow> int" where
  "issueRank code = (if code = ''scope_overlap'' then 10
     else if code = ''review_required'' \<or> code = ''capability_enforcement_unavailable'' then 9
     else if code = ''feature_missing'' \<or> code = ''secret_missing'' then 8
     else if code = ''advisory_revoke'' then 7 else 0)"

definition severityRank :: "string \<Rightarrow> int" where
  "severityRank severity = (if severity = ''blocking'' then 3 else if severity = ''warning'' then 2 else if severity = ''info'' then 1 else 0)"

text \<open>
  \<open>sort.SliceStable\<close> by severity, rank, code and plugin, the first two descending.  The comparison is an order on the severities that
  the gate uses, of which each has its own rank.
\<close>

definition sortedIssues :: "GovernanceIssue list \<Rightarrow> GovernanceIssue list" where
  "sortedIssues issues = sort_key (\<lambda>i. - severityRank (gi_Severity i)) (sort_key (\<lambda>i. - issueRank (gi_Code i)) (sort_key gi_Code (sort_key gi_PluginID issues)))"

definition hasBlockingIssue :: "GovernanceIssue list \<Rightarrow> bool" where
  "hasBlockingIssue issues = list_ex (\<lambda>i. gi_Severity i = ''blocking'') issues"

definition hasWarningIssue :: "GovernanceIssue list \<Rightarrow> bool" where
  "hasWarningIssue issues = list_ex (\<lambda>i. gi_Severity i = ''warning'') issues"

section \<open>Ordering declarations\<close>

type_synonym graph = "(string \<times> string list) list"

definition succs :: "graph \<Rightarrow> string \<Rightarrow> string list" where
  "succs graph node = (case map_of graph node of None \<Rightarrow> [] | Some ns \<Rightarrow> ns)"

definition add_edge :: "jval \<Rightarrow> graph \<Rightarrow> graph" where
  "add_edge item graph =
    (let earlier = str_member (members_of item) ''before''; later = str_member (members_of item) ''after'' in
     if earlier \<noteq> [] \<and> later \<noteq> [] then AList.update earlier (succs graph earlier @ [later]) graph else graph)"

record visit_state =
  vs_visiting :: "string set"
  vs_visited :: "string set"

text \<open>
  \<open>visit\<close> on each node of a list, until one finds a cycle.  It is the loop over the successors of a node and the loop over the
  nodes of the graph.
\<close>

function (domintros) visit_each :: "graph \<Rightarrow> string list \<Rightarrow> visit_state \<Rightarrow> bool \<times> visit_state" where
  "visit_each graph [] st = (False, st)"
| "visit_each graph (node # nodes) st =
    (if node \<in> vs_visiting st then (True, st)
     else if node \<in> vs_visited st then visit_each graph nodes st
     else (case visit_each graph (succs graph node) (st\<lparr>vs_visiting := insert node (vs_visiting st)\<rparr>) of
         (True, st) \<Rightarrow> (True, st)
       | (False, st) \<Rightarrow> visit_each graph nodes (st\<lparr>vs_visiting := vs_visiting st - {node}, vs_visited := insert node (vs_visited st)\<rparr>)))"
  by pat_completeness auto

lemma visit_each_grows:
  assumes "visit_each_dom (graph, nodes, st)" "visit_each graph nodes st = (False, st')"
  shows "vs_visiting st' = vs_visiting st \<and> vs_visited st \<subseteq> vs_visited st'"
  using assms
proof (induction graph nodes st arbitrary: st' rule: visit_each.pinduct)
  case (2 graph node nodes st)
  obtain found st1 where inner: "visit_each graph (succs graph node) (st\<lparr>vs_visiting := insert node (vs_visiting st)\<rparr>) = (found, st1)" by fastforce
  note eq = 2(5) [unfolded visit_each.psimps(2) [OF 2(1)] inner prod.case]
  show ?case
  proof (cases "node \<in> vs_visiting st")
    case new: False
    show ?thesis
    proof (cases "node \<in> vs_visited st")
      case True
      with new eq show ?thesis using 2(2) [of st'] by simp
    next
      case False
      with new eq have r: "\<not> found" "visit_each graph nodes (st1\<lparr>vs_visiting := vs_visiting st1 - {node}, vs_visited := insert node (vs_visited st1)\<rparr>) = (False, st')"
        by (auto split: bool.splits)
      have "vs_visiting st1 = insert node (vs_visiting st) \<and> vs_visited st \<subseteq> vs_visited st1"
        using 2(3) [OF new False, of st1] inner r(1) by simp
      moreover have "vs_visiting st' = vs_visiting st1 - {node} \<and> insert node (vs_visited st1) \<subseteq> vs_visited st'"
        using 2(4) [OF new False inner [symmetric]] r by simp
      ultimately show ?thesis using new by auto
    qed
  qed (use eq in simp)
qed (simp add: visit_each.psimps)

definition seen :: "visit_state \<Rightarrow> string set" where
  "seen st = vs_visiting st \<union> vs_visited st"

definition unseen :: "graph \<Rightarrow> visit_state \<Rightarrow> string set" where
  "unseen graph st = fst ` set graph - seen st"

lemma unseen_enter: "node \<notin> seen st \<Longrightarrow> node \<in> fst ` set graph \<Longrightarrow> unseen graph (st\<lparr>vs_visiting := insert node (vs_visiting st)\<rparr>) \<subset> unseen graph st"
  by (auto simp: unseen_def seen_def)

lemma succs_outside: "node \<notin> fst ` set graph \<Longrightarrow> succs graph node = []"
  by (simp add: succs_def map_of_eq_None_iff [symmetric])

termination visit_each
proof (relation "inv_image (finite_psubset <*lex*> less_than) (\<lambda>(graph, nodes, st). (unseen graph st, length nodes))", goal_cases)
  case (3 graph node nodes st)
  have "finite (unseen graph st)" by (simp add: unseen_def)
  then show ?case
  proof (cases "node \<in> fst ` set graph")
    case True
    with 3 \<open>finite (unseen graph st)\<close> show ?thesis using unseen_enter [of node st graph] by (simp add: finite_psubset_def seen_def)
  next
    case False
    have "unseen graph (st\<lparr>vs_visiting := insert node (vs_visiting st)\<rparr>) \<subseteq> unseen graph st" by (auto simp: unseen_def seen_def)
    with False \<open>finite (unseen graph st)\<close> show ?thesis by (auto simp: succs_outside finite_psubset_def)
  qed
next
  case (4 graph node nodes st x y)
  have "finite (unseen graph st)" by (simp add: unseen_def)
  moreover have "unseen graph (y\<lparr>vs_visiting := vs_visiting y - {node}, vs_visited := insert node (vs_visited y)\<rparr>) \<subseteq> unseen graph st"
    using visit_each_grows [OF 4(5), of y] 4(1-4) by (auto simp: unseen_def seen_def)
  ultimately show ?case by (auto simp: finite_psubset_def)
qed (auto simp: wf_finite_psubset)

lemma visit_each_total: "visit_each_dom (graph, nodes, st)"
  by (induction graph nodes st rule: visit_each.induct) (rule visit_each.domintros; simp)+

lemmas visit_each_state = visit_each_grows [OF visit_each_total]

declare visit_each.simps(2) [simp del]

definition middlewareCycle :: "(string list \<Rightarrow> string list) \<Rightarrow> jobject \<Rightarrow> bool" where
  "middlewareCycle walk caps =
    (let graph = fold add_edge (arr_member caps ''middleware_order'') [] in
     fst (visit_each graph (walk (map fst graph)) \<lparr>vs_visiting = {}, vs_visited = {}\<rparr>))"

section \<open>The cycle search is exact\<close>

definition edges :: "graph \<Rightarrow> (string \<times> string) set" where
  "edges graph = {(a, b). b \<in> set (succs graph a)}"

text \<open>The two ways through \<open>visit\<close> on a new node.\<close>

lemma visit_new:
  assumes "visit_each graph (node # nodes) st = (r, st')" "node \<notin> vs_visiting st" "node \<notin> vs_visited st"
  obtains (found) "r" "visit_each graph (succs graph node) (st\<lparr>vs_visiting := insert node (vs_visiting st)\<rparr>) = (True, st')"
  | (left) st1 where "visit_each graph (succs graph node) (st\<lparr>vs_visiting := insert node (vs_visiting st)\<rparr>) = (False, st1)"
      "visit_each graph nodes (st1\<lparr>vs_visiting := vs_visiting st1 - {node}, vs_visited := insert node (vs_visited st1)\<rparr>) = (r, st')"
proof -
  obtain b st1 where i: "visit_each graph (succs graph node) (st\<lparr>vs_visiting := insert node (vs_visiting st)\<rparr>) = (b, st1)" by fastforce
  show ?thesis
  proof (cases b)
    case True
    then show ?thesis using assms i found by (simp add: visit_each.simps(2))
  next
    case False
    then show ?thesis using assms i left by (simp add: visit_each.simps(2))
  qed
qed

lemma visit_finds_cycle:
  assumes "visit_each graph nodes st = (True, st')" "\<forall>v \<in> vs_visiting st. \<forall>n \<in> set nodes. (v, n) \<in> (edges graph)\<^sup>+"
  shows "\<exists>x. (x, x) \<in> (edges graph)\<^sup>+"
  using assms
proof (induction graph nodes st arbitrary: st' rule: visit_each.induct)
  case (2 graph node nodes st)
  show ?case
  proof (cases "node \<in> vs_visiting st")
    case True
    with 2(5) show ?thesis by auto
  next
    case new: False
    show ?thesis
    proof (cases "node \<in> vs_visited st")
      case True
      with new 2(4) have "visit_each graph nodes st = (True, st')" by (simp add: visit_each.simps(2))
      with 2(1) [OF new True] 2(5) show ?thesis by simp
    next
      case False
      have enter: "\<forall>v \<in> insert node (vs_visiting st). \<forall>n \<in> set (succs graph node). (v, n) \<in> (edges graph)\<^sup>+"
        using 2(5) by (auto simp: edges_def intro: trancl_into_trancl)
      from 2(4) new False show ?thesis
      proof (cases rule: visit_new)
        case found
        then show ?thesis using 2(2) [OF new False] enter by simp
      next
        case (left st1)
        then have "vs_visiting st1 - {node} \<subseteq> vs_visiting st"
          using visit_each_state [OF left(1)] by simp
        then show ?thesis using 2(3) [OF new False left(1) [symmetric] refl] left(2) 2(5) by auto
      qed
    qed
  qed
qed simp

text \<open>What has been visited is closed and without cycles, and does not meet the path.\<close>

definition clean_visited :: "graph \<Rightarrow> visit_state \<Rightarrow> bool" where
  "clean_visited graph st = (edges graph `` vs_visited st \<subseteq> vs_visited st \<and> (\<forall>x \<in> vs_visited st. (x, x) \<notin> (edges graph)\<^sup>+)
     \<and> vs_visited st \<inter> vs_visiting st = {})"

lemma closed_trancl: "r `` X \<subseteq> X \<Longrightarrow> (a, b) \<in> r\<^sup>+ \<Longrightarrow> a \<in> X \<Longrightarrow> b \<in> X"
  by (erule trancl_induct) auto

lemma clean_leave:
  assumes "clean_visited graph st" "node \<in> vs_visiting st" "set (succs graph node) \<subseteq> vs_visited st"
  shows "clean_visited graph (st\<lparr>vs_visiting := vs_visiting st - {node}, vs_visited := insert node (vs_visited st)\<rparr>)"
proof -
  have closed: "edges graph `` vs_visited st \<subseteq> vs_visited st" using assms(1) by (simp add: clean_visited_def)
  have "node \<notin> vs_visited st" using assms(1,2) by (auto simp: clean_visited_def)
  have "(node, node) \<notin> (edges graph)\<^sup>+"
  proof
    assume "(node, node) \<in> (edges graph)\<^sup>+"
    then obtain n where "(node, n) \<in> edges graph" "n = node \<or> (n, node) \<in> (edges graph)\<^sup>+" by (metis converse_tranclE)
    then have "node \<in> vs_visited st" using assms(3) closed_trancl [OF closed] by (auto simp: edges_def)
    with \<open>node \<notin> vs_visited st\<close> show False by simp
  qed
  with assms closed show ?thesis by (auto simp: clean_visited_def edges_def)
qed

lemma visit_clean:
  assumes "visit_each graph nodes st = (False, st')" "clean_visited graph st"
  shows "clean_visited graph st' \<and> set nodes \<subseteq> vs_visited st'"
  using assms
proof (induction graph nodes st arbitrary: st' rule: visit_each.induct)
  case (2 graph node nodes st)
  have new: "node \<notin> vs_visiting st" using 2(4) by (auto simp: visit_each.simps(2))
  show ?case
  proof (cases "node \<in> vs_visited st")
    case True
    with new 2(4) have r: "visit_each graph nodes st = (False, st')" by (simp add: visit_each.simps(2))
    with 2(1) [OF new True] 2(5) have "clean_visited graph st' \<and> set nodes \<subseteq> vs_visited st'" by simp
    moreover have "vs_visited st \<subseteq> vs_visited st'" using visit_each_state [OF r] by auto
    ultimately show ?thesis using True by auto
  next
    case False
    from 2(4) new False show ?thesis
    proof (cases rule: visit_new)
      case (left st1)
      have "clean_visited graph (st\<lparr>vs_visiting := insert node (vs_visiting st)\<rparr>)"
        using 2(5) False by (auto simp: clean_visited_def)
      then have c: "clean_visited graph st1" "set (succs graph node) \<subseteq> vs_visited st1" using 2(2) [OF new False left(1)] by auto
      moreover have "node \<in> vs_visiting st1" using visit_each_state [OF left(1)] by auto
      ultimately have "clean_visited graph (st1\<lparr>vs_visiting := vs_visiting st1 - {node}, vs_visited := insert node (vs_visited st1)\<rparr>)"
        by (intro clean_leave) auto
      then have "clean_visited graph st' \<and> set nodes \<subseteq> vs_visited st'" using 2(3) [OF new False left(1) [symmetric] refl left(2)] by blast
      moreover have "node \<in> vs_visited st'" using visit_each_state [OF left(2)] by auto
      ultimately show ?thesis by simp
    qed simp
  qed
qed simp

definition declared_before :: "jobject \<Rightarrow> (string \<times> string) set" where
  "declared_before caps = {(before, after). before \<noteq> [] \<and> after \<noteq> [] \<and> (\<exists>item \<in> set (arr_member caps ''middleware_order'').
     str_member (members_of item) ''before'' = before \<and> str_member (members_of item) ''after'' = after)}"

lemma edges_add_edge:
  "edges (add_edge item graph) = edges graph \<union> {(before, after). before \<noteq> [] \<and> after \<noteq> []
     \<and> str_member (members_of item) ''before'' = before \<and> str_member (members_of item) ''after'' = after}"
proof -
  have "succs (AList.update k v graph) x = (if x = k then v else succs graph x)" for k v x
    by (simp add: succs_def update_conv')
  then show ?thesis by (auto simp: add_edge_def Let_def edges_def split: if_splits)
qed

lemma edges_build: "edges (fold add_edge items graph) = edges graph \<union> {(before, after). before \<noteq> [] \<and> after \<noteq> [] \<and> (\<exists>item \<in> set items.
     str_member (members_of item) ''before'' = before \<and> str_member (members_of item) ''after'' = after)}"
  by (induction items arbitrary: graph) (auto simp: edges_add_edge)

text \<open>C34: the gate reports a cycle among the declared orderings exactly when there is one, whatever the order in which the nodes are visited;
  the search always ends.\<close>

theorem middlewareCycle_iff:
  assumes "\<And>xs. set (walk xs) = set xs"
  shows "middlewareCycle walk caps \<longleftrightarrow> \<not> acyclic (declared_before caps)"
proof -
  define graph where "graph = fold add_edge (arr_member caps ''middleware_order'') []"
  let ?init = "\<lparr>vs_visiting = {}, vs_visited = {}\<rparr>"
  have edges: "edges graph = declared_before caps"
    by (simp add: graph_def edges_build declared_before_def) (simp add: edges_def succs_def)
  obtain r st where v: "visit_each graph (walk (map fst graph)) ?init = (r, st)" by fastforce
  show ?thesis
  proof (cases r)
    case True
    then have "\<exists>x. (x, x) \<in> (edges graph)\<^sup>+" using visit_finds_cycle v by force
    then show ?thesis using v True by (simp add: middlewareCycle_def acyclic_def edges flip: graph_def)
  next
    case False
    then have "clean_visited graph st \<and> set (walk (map fst graph)) \<subseteq> vs_visited st"
      using visit_clean v by (force simp: clean_visited_def)
    then have clean: "\<forall>x \<in> fst ` set graph. (x, x) \<notin> (edges graph)\<^sup>+" using assms by (auto simp: clean_visited_def)
    have "(x, x) \<notin> (edges graph)\<^sup>+" for x
      using clean succs_outside by (metis (no_types, lifting) edges_def case_prodD converse_tranclE empty_iff list.set(1) mem_Collect_eq)
    then show ?thesis using v False by (simp add: middlewareCycle_def acyclic_def edges flip: graph_def)
  qed
qed

definition order_demo :: "string \<Rightarrow> string \<Rightarrow> jval" where
  "order_demo earlier later = VObj [(''before'', VStr earlier), (''after'', VStr later)]"

theorem middlewareCycle_iff_witness:
  "(let caps = [(''middleware_order'', VArr [order_demo ''auth'' ''log'', order_demo ''log'' ''limit'', order_demo ''limit'' ''auth''])];
        line = [(''middleware_order'', VArr [order_demo ''auth'' ''log'', order_demo ''log'' ''limit''])]
    in middlewareCycle rev caps \<and> \<not> acyclic (declared_before caps) \<and> \<not> middlewareCycle rev line \<and> acyclic (declared_before line))"
proof -
  have "middlewareCycle rev [(''middleware_order'', VArr [order_demo ''auth'' ''log'', order_demo ''log'' ''limit'', order_demo ''limit'' ''auth''])]"
    "\<not> middlewareCycle rev [(''middleware_order'', VArr [order_demo ''auth'' ''log'', order_demo ''log'' ''limit''])]"
    by code_simp+
  then show ?thesis using middlewareCycle_iff [of rev] by (simp add: Let_def)
qed

section \<open>Versions are ordered\<close>

definition part_at :: "int list \<Rightarrow> nat \<Rightarrow> int" where
  "part_at ps i = (if i < length ps then ps ! i else 0)"

lemma part_at_simps [simp]:
  "part_at [] i = 0" "part_at (p # ps) 0 = p" "part_at (p # ps) (Suc i) = part_at ps i"
  by (simp_all add: part_at_def)

definition parts_less :: "int list \<Rightarrow> int list \<Rightarrow> bool" where
  "parts_less as bs = (\<exists>k. (\<forall>i < k. part_at as i = part_at bs i) \<and> part_at as k < part_at bs k)"

lemma ex_nat_split: "(\<exists>k. P k) \<longleftrightarrow> P 0 \<or> (\<exists>k. P (Suc k))"
  by (metis not0_implies_Suc)

lemma all_less_Suc: "(\<forall>i < Suc k. P i) \<longleftrightarrow> P 0 \<and> (\<forall>i < k. P (Suc i))"
  by (auto simp: less_Suc_eq_0_disj)

lemma parts_less_simps [simp]:
  "parts_less [] [] = False"
  "parts_less (a # as) [] = (a < 0 \<or> a = 0 \<and> parts_less as [])"
  "parts_less [] (b # bs) = (0 < b \<or> b = 0 \<and> parts_less [] bs)"
  "parts_less (a # as) (b # bs) = (a < b \<or> a = b \<and> parts_less as bs)"
proof -
  have step: "parts_less as bs = (part_at as 0 < part_at bs 0 \<or> part_at as 0 = part_at bs 0
      \<and> (\<exists>k. (\<forall>i < k. part_at as (Suc i) = part_at bs (Suc i)) \<and> part_at as (Suc k) < part_at bs (Suc k)))" for as bs
  proof -
    have "parts_less as bs \<longleftrightarrow> part_at as 0 < part_at bs 0 \<or> (\<exists>k. (\<forall>i < Suc k. part_at as i = part_at bs i) \<and> part_at as (Suc k) < part_at bs (Suc k))"
      unfolding parts_less_def using ex_nat_split [of "\<lambda>k. (\<forall>i < k. part_at as i = part_at bs i) \<and> part_at as k < part_at bs k"] by simp
    then show ?thesis unfolding all_less_Suc by (simp add: conj_assoc)
  qed
  show "parts_less [] [] = False" by (simp add: parts_less_def)
  show "parts_less (a # as) [] = (a < 0 \<or> a = 0 \<and> parts_less as [])" by (subst step) (simp add: parts_less_def)
  show "parts_less [] (b # bs) = (0 < b \<or> b = 0 \<and> parts_less [] bs)" by (subst step) (simp add: parts_less_def eq_commute [of 0])
  show "parts_less (a # as) (b # bs) = (a < b \<or> a = b \<and> parts_less as bs)" by (subst step) (simp add: parts_less_def)
qed

lemma compare_parts_less: "compare_parts as bs = (if parts_less as bs then - 1 else if parts_less bs as then 1 else 0)"
  by (induction as bs rule: compare_parts.induct) auto

lemma parts_less_irrefl: "\<not> parts_less as as"
  by (simp add: parts_less_def)

lemma parts_less_linear:
  assumes "\<not> parts_less as bs" "\<not> parts_less bs as"
  shows "part_at as = part_at bs"
proof (rule ccontr)
  assume "part_at as \<noteq> part_at bs"
  then have ex: "\<exists>k. part_at as k \<noteq> part_at bs k" by auto
  define k where "k = (LEAST k. part_at as k \<noteq> part_at bs k)"
  have "part_at as k \<noteq> part_at bs k" unfolding k_def by (rule LeastI_ex [OF ex])
  moreover have "\<forall>i < k. part_at as i = part_at bs i" unfolding k_def using not_less_Least by blast
  ultimately show False using assms by (metis linorder_neqE parts_less_def)
qed

lemma parts_less_trans:
  assumes "parts_less as bs" "parts_less bs cs"
  shows "parts_less as cs"
proof -
  obtain k where k: "\<forall>i < k. part_at as i = part_at bs i" "part_at as k < part_at bs k" using assms(1) by (auto simp: parts_less_def)
  obtain l where l: "\<forall>i < l. part_at bs i = part_at cs i" "part_at bs l < part_at cs l" using assms(2) by (auto simp: parts_less_def)
  have "part_at as (min k l) < part_at cs (min k l)" using k l by (cases k l rule: linorder_cases) (auto simp: min_def)
  moreover have "\<forall>i < min k l. part_at as i = part_at cs i" using k l by simp
  ultimately show ?thesis unfolding parts_less_def by blast
qed

lemma parts_less_asym: "parts_less as bs \<Longrightarrow> \<not> parts_less bs as"
  using parts_less_trans parts_less_irrefl by blast

definition version_le :: "string \<Rightarrow> string \<Rightarrow> bool" where
  "version_le a b = (\<not> parts_less (versionParts b) (versionParts a))"

lemma compareVersion_le:
  "compareVersion a b \<le> 0 \<longleftrightarrow> version_le a b" "compareVersion a b \<ge> 0 \<longleftrightarrow> version_le b a"
  "compareVersion a b < 0 \<longleftrightarrow> \<not> version_le b a" "compareVersion a b > 0 \<longleftrightarrow> \<not> version_le a b"
  using parts_less_asym by (auto simp: compareVersion_def compare_parts_less version_le_def)

lemma version_le_trans: "version_le a b \<Longrightarrow> version_le b c \<Longrightarrow> version_le a c"
  unfolding version_le_def by (metis parts_less_def parts_less_linear parts_less_trans)

lemma range_part_convex:
  assumes "range_part u p" "range_part w p" "version_le u v" "version_le v w" "HasPrefix p ''<'' \<or> HasPrefix p ''>''"
  shows "range_part v p"
  using assms by (auto simp: range_part_def compareVersion_le split: if_splits dest: version_le_trans)

text \<open>\<open>compareVersion\<close> is a total order on versions up to trailing zeros, and an advisory's range of comparisons covers every version between two
  versions it covers.\<close>

theorem versionInRange_convex:
  assumes "versionInRange u expr" "versionInRange w expr" "compareVersion u v \<le> 0" "compareVersion v w \<le> 0"
    and "\<forall>part \<in> set (SplitByte (TrimSpace expr) (CHR '','')). HasPrefix (TrimSpace part) ''<'' \<or> HasPrefix (TrimSpace part) ''>''"
  shows "versionInRange v expr \<and> compareVersion u w \<le> 0 \<and> compareVersion w u = - compareVersion u w"
proof -
  have le: "version_le u v" "version_le v w" using assms(3,4) by (simp_all add: compareVersion_le)
  then have "versionInRange v expr"
    using assms(1,2,5) range_part_convex [OF _ _ le] unfolding versionInRange_def Let_def list_all_iff by (metis (no_types, lifting))
  moreover have "compareVersion w u = - compareVersion u w"
    using parts_less_asym by (simp add: compareVersion_def compare_parts_less)
  ultimately show ?thesis using version_le_trans [OF le] by (simp add: compareVersion_le)
qed

theorem versionInRange_convex_witness:
  "versionInRange ''v1.3-rc2'' ''>=1.2, <2.0.0'' \<and> compareVersion ''1.2'' ''1.9.9'' \<le> 0 \<and> compareVersion ''1.9.9'' ''1.2'' = - compareVersion ''1.2'' ''1.9.9''"
proof -
  have a: "versionInRange ''1.2'' ''>=1.2, <2.0.0''" "versionInRange ''1.9.9'' ''>=1.2, <2.0.0''"
    "compareVersion ''1.2'' ''v1.3-rc2'' \<le> 0" "compareVersion ''v1.3-rc2'' ''1.9.9'' \<le> 0"
    by code_simp+
  have "list_all (\<lambda>part. HasPrefix (TrimSpace part) ''<'' \<or> HasPrefix (TrimSpace part) ''>'') (SplitByte (TrimSpace ''>=1.2, <2.0.0'') (CHR '',''))"
    by code_simp
  then show ?thesis using versionInRange_convex [OF a] by (simp add: list_all_iff)
qed

text \<open>A pre-release counts as its release: a range below the fixed version does not cover its pre-releases.\<close>

lemma prerelease_not_covered: "\<not> versionInRange ''2.0.0-rc1'' ''<2.0.0'' \<and> versionInRange ''1.9.9'' ''<2.0.0''"
  by code_simp

end
