(* ===== verification/Plugin_Ingress.thy ===== *)
theory Plugin_Ingress
  imports Ops_Common Net_IP Tables "HOL-Library.AList" "HOL-Library.Multiset"
begin

text \<open>
  Listeners that plugins open through the gateway: \<open>src/internal/pluginmanager/ingress_lifecycle.go\<close>, with the validation of the declared
  capability in \<open>artifact.go\<close> and the conflicts with the gateway's own listeners in \<open>governance.go\<close>.

  The sockets that are open are part of the state.  \<open>net.Listen\<close> opens stream sockets only and not one on an address that is in use;
  other failures are an argument, as is the time.  \<open>dur\<close> is \<open>time.ParseDuration\<close>, \<open>uni\<close> lower-casing outside ASCII.
\<close>

section \<open>Data\<close>

record IngressTLSCapability =
  it_Enabled :: bool
  it_CertSecret :: string
  it_KeySecret :: string

record IngressHealthCapability =
  ih_Path :: string
  ih_Interval :: string
  ih_Timeout :: string

record IngressCapability =
  ig_Protocol :: string
  ig_Bind :: string
  ig_Port :: int
  ig_TLS :: "IngressTLSCapability option"
  ig_Health :: "IngressHealthCapability option"
  ig_SecretRefs :: "string list"

record IngressReservedListener =
  rl_Name :: string
  rl_Network :: string
  rl_Bind :: string
  rl_Port :: int
  rl_Enabled :: bool

type_synonym socket = "string \<times> string \<times> int" \<comment> \<open>network, address, port\<close>

record IngressListener =
  il_PluginID :: string
  il_ArtifactID :: string
  il_Network :: string
  il_Bind :: string
  il_Port :: int
  il_State :: string
  il_Health :: string
  il_TLS :: "(bool \<times> string \<times> string) option"
  il_SecretRefs :: "string list"
  il_StartedAt :: int
  il_DisabledAt :: int
  il_DrainingAt :: int
  il_listener :: "socket option"
  il_wrapped :: bool \<comment> \<open>the listener is the one of \<open>tls.NewListener\<close>\<close>

record IngressLifecycleManager =
  im_reserved :: "IngressReservedListener list"
  im_listeners :: "(string \<times> IngressListener) list"
  im_open :: "socket multiset"

section \<open>Validation\<close>

text \<open>\<open>secretNamePattern\<close>.\<close>

definition secretName :: "string \<Rightarrow> bool" where
  "secretName s = (case s of
      [] \<Rightarrow> False
    | c # r \<Rightarrow> (is_letter c \<or> is_digit c) \<and> length r \<le> 127 \<and> list_all (\<lambda>c. is_letter c \<or> is_digit c \<or> c \<in> set ''._-'') r)"

definition tls_refs :: "IngressCapability \<Rightarrow> string list" where
  "tls_refs ingress = (case ig_TLS ingress of None \<Rightarrow> [] | Some tls \<Rightarrow> [it_CertSecret tls, it_KeySecret tls])"

definition ingressSecretRefs :: "IngressCapability \<Rightarrow> string list" where
  "ingressSecretRefs ingress = sort (remdups (filter (\<lambda>r. r \<noteq> []) (map TrimSpace (ig_SecretRefs ingress @ tls_refs ingress))))"

definition secret_problems :: "string set \<Rightarrow> string list \<Rightarrow> string list" where
  "secret_problems declared refs = concat (map (\<lambda>ref. let name = TrimSpace ref in
     if name = [] then []
     else if \<not> secretName name then [''ingress secret ref is invalid'']
     else if name \<notin> declared then [''ingress secret ref is not declared in manifest.secrets''] else []) refs)"

definition health_problems :: "(string \<Rightarrow> int option) \<Rightarrow> IngressCapability \<Rightarrow> string list" where
  "health_problems dur ingress = (case ig_Health ingress of
      None \<Rightarrow> []
    | Some h \<Rightarrow>
        (if TrimSpace (ih_Path h) \<noteq> [] \<and> \<not> HasPrefix (TrimSpace (ih_Path h)) ''/'' then [''ingress.health.path must start with /''] else [])
        @ (if ih_Interval h \<noteq> [] \<and> dur (ih_Interval h) = None then [''ingress.health.interval is invalid''] else [])
        @ (if ih_Timeout h \<noteq> [] \<and> dur (ih_Timeout h) = None then [''ingress.health.timeout is invalid''] else []))"

definition ValidateIngressCapability :: "(string \<Rightarrow> string) \<Rightarrow> (string \<Rightarrow> int option) \<Rightarrow> string set \<Rightarrow> IngressCapability \<Rightarrow> string list" where
  "ValidateIngressCapability uni dur declared ingress =
    (let protocol = ToLower uni (TrimSpace (ig_Protocol ingress));
         bind = TrimSpace (ig_Bind ingress);
         tlsRequired = (protocol = ''tls'' \<or> (case ig_TLS ingress of None \<Rightarrow> False | Some tls \<Rightarrow> it_Enabled tls))
     in (if protocol \<in> {''tcp'', ''udp'', ''tls'', ''proxy-protocol''} then []
         else if protocol = [] then [''ingress.protocol is required''] else [''ingress.protocol is not supported''])
        @ (if bind = [] then [''ingress.bind is required''] else if ParseIP bind = None then [''ingress.bind must be an IP address''] else [])
        @ (if ig_Port ingress \<le> 0 \<or> ig_Port ingress > 65535 then [''ingress.port must be between 1 and 65535''] else [])
        @ (if tlsRequired
           then (case ig_TLS ingress of
               None \<Rightarrow> [''ingress.tls is required for TLS ingress'']
             | Some tls \<Rightarrow> (if TrimSpace (it_CertSecret tls) = [] then [''ingress.tls.cert_secret is required for TLS ingress''] else [])
                 @ (if TrimSpace (it_KeySecret tls) = [] then [''ingress.tls.key_secret is required for TLS ingress''] else []))
           else [])
        @ secret_problems declared (ig_SecretRefs ingress @ tls_refs ingress)
        @ health_problems dur ingress)"

section \<open>Conflicts with the gateway's listeners\<close>

definition ingressListenerNetwork :: "(string \<Rightarrow> string) \<Rightarrow> string \<Rightarrow> string" where
  "ingressListenerNetwork uni protocol = (if ToLower uni (TrimSpace protocol) = ''udp'' then ''udp'' else ''tcp'')"

definition normalizedReservedListenerNetwork :: "(string \<Rightarrow> string) \<Rightarrow> string \<Rightarrow> string" where
  "normalizedReservedListenerNetwork uni network = (if ToLower uni (TrimSpace network) = ''udp'' then ''udp'' else ''tcp'')"

definition normalizedReservedListenerBind :: "string \<Rightarrow> string" where
  "normalizedReservedListenerBind bind = (if TrimSpace bind = [] then ''0.0.0.0'' else TrimSpace bind)"

text \<open>\<open>IP.IsUnspecified\<close>; addresses are parsed into sixteen bytes, on which \<open>IP.Equal\<close> is equality.\<close>

definition IsUnspecified :: "ip \<Rightarrow> bool" where
  "IsUnspecified a = (a = As16 [0, 0, 0, 0] \<or> a = replicate 16 0)"

definition ingressBindOverlaps :: "string \<Rightarrow> string \<Rightarrow> bool" where
  "ingressBindOverlaps a b = (case (ParseIP (TrimSpace a), ParseIP (TrimSpace b)) of
      (Some aIP, Some bIP) \<Rightarrow> IsUnspecified aIP \<or> IsUnspecified bIP \<or> aIP = bIP
    | _ \<Rightarrow> False)"

definition ingressReservedListenerConflict :: "(string \<Rightarrow> string) \<Rightarrow> IngressCapability \<Rightarrow> IngressReservedListener \<Rightarrow> bool" where
  "ingressReservedListenerConflict uni ingress listener =
    (if \<not> rl_Enabled listener \<or> ig_Port ingress \<le> 0 \<or> rl_Port listener \<le> 0 \<or> ig_Port ingress \<noteq> rl_Port listener then False
     else if ingressListenerNetwork uni (ig_Protocol ingress) \<noteq> normalizedReservedListenerNetwork uni (rl_Network listener) then False
     else ingressBindOverlaps (ig_Bind ingress) (normalizedReservedListenerBind (rl_Bind listener)))"

section \<open>Lifecycle\<close>

definition redactIngressSecretRef :: "string \<Rightarrow> string" where
  "redactIngressSecretRef ref = (if TrimSpace ref = [] then [] else ''plugin-secret://'' @ TrimSpace ref @ ''#redacted'')"

definition redactedIngressTLS :: "IngressCapability \<Rightarrow> (bool \<times> string \<times> string) option" where
  "redactedIngressTLS ingress = map_option (\<lambda>tls. (it_Enabled tls, redactIngressSecretRef (it_CertSecret tls), redactIngressSecretRef (it_KeySecret tls))) (ig_TLS ingress)"

definition net_Listen :: "error option \<Rightarrow> socket multiset \<Rightarrow> string \<Rightarrow> string \<Rightarrow> int \<Rightarrow> socket result" where
  "net_Listen ext opened network host port =
    (if network = ''udp'' then Inl (ErrorString ''listen udp: unknown network udp'')
     else if (network, host, port) \<in># opened then Inl (ErrorString ''bind: address already in use'')
     else case ext of Some e \<Rightarrow> Inl e | None \<Rightarrow> Inr (network, host, port))"

definition ingressKey :: "string \<Rightarrow> string" where
  "ingressKey pluginID = TrimSpace pluginID"

definition RefreshReservedListeners :: "IngressReservedListener list \<Rightarrow> IngressLifecycleManager \<Rightarrow> IngressLifecycleManager" where
  "RefreshReservedListeners listeners m = m\<lparr>im_reserved := sort_key rl_Name listeners\<rparr>"

text \<open>\<open>Start\<close> up to the socket: the checks, with the list of reserved listeners as it is then, and \<open>net.Listen\<close>.\<close>

definition start_listen ::
  "(string \<Rightarrow> string) \<Rightarrow> (string \<Rightarrow> int option) \<Rightarrow> error option \<Rightarrow> IngressCapability \<Rightarrow> IngressLifecycleManager \<Rightarrow> socket result \<times> IngressLifecycleManager" where
  "start_listen uni dur ext ingress m =
    (if ValidateIngressCapability uni dur (set (ingressSecretRefs ingress)) ingress \<noteq> [] then (Inl (ErrorString ''ingress capability is invalid''), m)
     else if list_ex (ingressReservedListenerConflict uni ingress) (im_reserved m)
     then (Inl (ErrorString ''ingress listener conflicts with reserved gateway listener''), m)
     else case net_Listen ext (im_open m) (ingressListenerNetwork uni (ig_Protocol ingress)) (TrimSpace (ig_Bind ingress)) (ig_Port ingress) of
       Inl e \<Rightarrow> (Inl e, m)
     | Inr s \<Rightarrow> (Inr s, m\<lparr>im_open := add_mset s (im_open m)\<rparr>))"

definition close_socket :: "IngressListener option \<Rightarrow> socket multiset \<Rightarrow> socket multiset" where
  "close_socket l opened = (case l of None \<Rightarrow> opened | Some l \<Rightarrow> (case il_listener l of None \<Rightarrow> opened | Some s \<Rightarrow> opened - {#s#}))"

text \<open>The rest of \<open>Start\<close>: the listener replaces the one the plugin had.\<close>

definition start_publish :: "int \<Rightarrow> string \<Rightarrow> string \<Rightarrow> IngressCapability \<Rightarrow> socket \<Rightarrow> IngressLifecycleManager \<Rightarrow> IngressListener \<times> IngressLifecycleManager" where
  "start_publish now pluginID artifactID ingress s m =
    (let state = \<lparr>il_PluginID = pluginID, il_ArtifactID = artifactID, il_Network = fst s, il_Bind = TrimSpace (ig_Bind ingress), il_Port = snd (snd s),
           il_State = ''enabled'', il_Health = ''healthy'', il_TLS = redactedIngressTLS ingress, il_SecretRefs = ingressSecretRefs ingress, il_StartedAt = Unix now, il_DisabledAt = 0,
           il_DrainingAt = 0, il_listener = Some s,
           il_wrapped = (case ig_TLS ingress of None \<Rightarrow> False | Some tls \<Rightarrow> it_Enabled tls)\<rparr>
     in (state, m\<lparr>im_open := close_socket (map_of (im_listeners m) (ingressKey pluginID)) (im_open m),
                  im_listeners := AList.update (ingressKey pluginID) state (im_listeners m)\<rparr>))"

definition ingress_Start ::
  "(string \<Rightarrow> string) \<Rightarrow> (string \<Rightarrow> int option) \<Rightarrow> error option \<Rightarrow> int \<Rightarrow> string \<Rightarrow> string \<Rightarrow> IngressCapability option \<Rightarrow> IngressLifecycleManager
    \<Rightarrow> IngressListener result \<times> IngressLifecycleManager" where
  "ingress_Start uni dur ext now pluginID artifactID ingress m = (case ingress of
      None \<Rightarrow> (Inl (ErrorString ''ingress capability is required''), m)
    | Some ingress \<Rightarrow> (case start_listen uni dur ext ingress m of
        (Inl e, m) \<Rightarrow> (Inl e, m)
      | (Inr s, m) \<Rightarrow> (case start_publish now pluginID artifactID ingress s m of (state, m) \<Rightarrow> (Inr state, m))))"

text \<open>What \<open>Disable\<close>, \<open>Drain\<close> and \<open>Close\<close> do to a listener.\<close>

definition disable_listener :: "int \<Rightarrow> IngressListener \<Rightarrow> IngressListener" where
  "disable_listener now l = l\<lparr>il_State := ''disabled'', il_Health := ''disabled'', il_DisabledAt := Unix now, il_DrainingAt := Unix now, il_listener := None\<rparr>"

definition drain_listener :: "int \<Rightarrow> IngressListener \<Rightarrow> IngressListener" where
  "drain_listener now l = l\<lparr>il_State := ''draining'', il_Health := ''draining'', il_DrainingAt := Unix now, il_listener := None\<rparr>"

definition stop_one :: "(IngressListener \<Rightarrow> IngressListener) \<Rightarrow> string \<Rightarrow> IngressLifecycleManager \<Rightarrow> IngressLifecycleManager" where
  "stop_one f pluginID m = (case map_of (im_listeners m) (ingressKey pluginID) of
      None \<Rightarrow> m
    | Some l \<Rightarrow> m\<lparr>im_open := close_socket (Some l) (im_open m), im_listeners := AList.update (ingressKey pluginID) (f l) (im_listeners m)\<rparr>)"

text \<open>\<open>ingressListenerSnapshot\<close>, of the listener the map has afterwards; without one, a listener that only names the plugin and a state.\<close>

definition ingressListenerSnapshot :: "IngressListener \<Rightarrow> IngressListener" where
  "ingressListenerSnapshot l = l\<lparr>il_listener := None\<rparr>"

definition no_listener :: "string \<Rightarrow> string \<Rightarrow> string \<Rightarrow> IngressListener" where
  "no_listener pluginID state health = \<lparr>il_PluginID = pluginID, il_ArtifactID = [], il_Network = [], il_Bind = [], il_Port = 0, il_State = state,
     il_Health = health, il_TLS = None, il_SecretRefs = [], il_StartedAt = 0, il_DisabledAt = 0, il_DrainingAt = 0, il_listener = None, il_wrapped = False\<rparr>"

definition snapshot_of :: "string \<Rightarrow> string \<Rightarrow> string \<Rightarrow> IngressLifecycleManager \<Rightarrow> IngressListener" where
  "snapshot_of pluginID state health m = (case map_of (im_listeners m) (ingressKey pluginID) of
      None \<Rightarrow> no_listener pluginID state health | Some l \<Rightarrow> ingressListenerSnapshot l)"

definition ingress_Disable :: "int \<Rightarrow> string \<Rightarrow> IngressLifecycleManager \<Rightarrow> IngressListener \<times> IngressLifecycleManager" where
  "ingress_Disable now pluginID m = (let m = stop_one (disable_listener now) pluginID m in (snapshot_of pluginID ''disabled'' [] m, m))"

definition ingress_Drain :: "int \<Rightarrow> string \<Rightarrow> IngressLifecycleManager \<Rightarrow> IngressListener \<times> IngressLifecycleManager" where
  "ingress_Drain now pluginID m = (let m = stop_one (drain_listener now) pluginID m in (snapshot_of pluginID ''draining'' [] m, m))"

definition ingress_Close :: "int \<Rightarrow> IngressLifecycleManager \<Rightarrow> IngressLifecycleManager" where
  "ingress_Close now m = m\<lparr>im_open := fold (\<lambda>(_, l). close_socket (Some l)) (im_listeners m) (im_open m),
     im_listeners := map (\<lambda>(k, l). (k, drain_listener now l)) (im_listeners m)\<rparr>"

definition ingress_Health :: "string \<Rightarrow> IngressLifecycleManager \<Rightarrow> IngressListener" where
  "ingress_Health pluginID m = snapshot_of pluginID ''not_loaded'' ''missing'' m"

text \<open>The manager's entry points.  \<open>cap\<close> is what \<open>artifactManifest\<close> and \<open>ingressCapabilityFromArtifact\<close> find.\<close>

definition StartIngressListener ::
  "(string \<Rightarrow> string) \<Rightarrow> (string \<Rightarrow> int option) \<Rightarrow> error option \<Rightarrow> int \<Rightarrow> bool \<Rightarrow> bool \<Rightarrow> IngressCapability option result \<Rightarrow> string \<Rightarrow> string
    \<Rightarrow> IngressLifecycleManager \<Rightarrow> IngressListener result \<times> IngressLifecycleManager" where
  "StartIngressListener uni dur ext now closing gate cap pluginID artifactID m =
    (if closing then (Inl (ErrorString ''plugin manager is closing''), m)
     else if \<not> gate then (Inl (ErrorString ''ingress.service/v1 data plane is disabled by feature gate''), m)
     else case cap of
       Inl e \<Rightarrow> (Inl e, m)
     | Inr None \<Rightarrow> (Inl (ErrorString ''ingress capability is required''), m)
     | Inr (Some ingress) \<Rightarrow> ingress_Start uni dur ext now pluginID artifactID (Some ingress) m)"

section \<open>Every socket has an owner\<close>

definition sockets :: "(string \<times> IngressListener) list \<Rightarrow> socket multiset" where
  "sockets ls = mset (List.map_filter (\<lambda>(_, l). il_listener l) ls)"

text \<open>The manager while starts are under way: \<open>P\<close> are the sockets that are open and not yet published.\<close>

definition ingress_inv :: "socket multiset \<Rightarrow> IngressLifecycleManager \<Rightarrow> bool" where
  "ingress_inv P m = (distinct (map fst (im_listeners m)) \<and> im_open m = sockets (im_listeners m) + P
     \<and> (\<forall>(k, l) \<in> set (im_listeners m). il_State l = ''enabled'' \<longleftrightarrow> il_listener l \<noteq> None))"

lemma sockets_simps [simp]:
  "sockets [] = {#}"
  "sockets ((k, l) # ls) = (case il_listener l of None \<Rightarrow> {#} | Some s \<Rightarrow> {#s#}) + sockets ls"
  by (simp_all add: sockets_def map_filter_simps split: option.splits)

lemma sockets_update:
  assumes "distinct (map fst ls)"
  shows "sockets (AList.update k l ls) = close_socket (map_of ls k) (sockets ls) + (case il_listener l of None \<Rightarrow> {#} | Some s \<Rightarrow> {#s#})"
  using assms
proof (induction ls)
  case (Cons a ls)
  obtain k' l' where a: "a = (k', l')" by fastforce
  show ?case
  proof (cases "k' = k")
    case False
    have "(case il_listener x of None \<Rightarrow> {#} | Some s \<Rightarrow> {#s#}) \<subseteq># sockets ls" if "map_of ls k = Some x" for x
      using map_of_SomeD [OF that] by (induction ls) (auto split: option.splits simp: subset_mset.add_increasing)
    then have "close_socket (map_of ls k) (M + sockets ls) = M + close_socket (map_of ls k) (sockets ls)" for M
      by (auto simp: close_socket_def split: option.splits)
    with False Cons show ?thesis by (simp add: a add.assoc)
  qed (auto simp: a close_socket_def split: option.splits)
qed (simp add: close_socket_def)

lemma sockets_member:
  assumes "map_of ls k = Some l"
  shows "(case il_listener l of None \<Rightarrow> {#} | Some s \<Rightarrow> {#s#}) \<subseteq># sockets ls"
  using map_of_SomeD [OF assms] by (induction ls) (auto split: option.splits simp: subset_mset.add_increasing)

lemma close_socket_union: "map_of ls k = x \<Longrightarrow> close_socket x (sockets ls + P) = close_socket x (sockets ls) + P"
  using sockets_member [of ls k] by (auto simp: close_socket_def split: option.splits)

lemma listeners_update:
  assumes "distinct (map fst ls)" and "\<forall>(k, l) \<in> set ls. Q l" and "Q l"
  shows "\<forall>(k, l) \<in> set (AList.update k l ls). Q l"
proof -
  have "Q l'" if "(k', l') \<in> set (AList.update k l ls)" for k' l'
  proof -
    have "map_of (AList.update k l ls) k' = Some l'"
      using assms(1) that by (intro map_of_is_SomeI distinct_update) auto
    then show ?thesis using assms(2,3) by (auto simp: update_conv' dest!: map_of_SomeD split: if_splits)
  qed
  then show ?thesis by blast
qed

text \<open>Any change of one listener keeps the account, given what it does to the socket.\<close>

lemma ingress_inv_update:
  assumes inv: "ingress_inv (P + (case il_listener l of None \<Rightarrow> {#} | Some s \<Rightarrow> {#s#})) m"
    and l: "il_State l = ''enabled'' \<longleftrightarrow> il_listener l \<noteq> None"
  shows "ingress_inv P (m\<lparr>im_open := close_socket (map_of (im_listeners m) k) (im_open m), im_listeners := AList.update k l (im_listeners m)\<rparr>)"
proof -
  let ?ls = "im_listeners m"
  have dist: "distinct (map fst ?ls)" and st: "\<forall>(k, l) \<in> set ?ls. il_State l = ''enabled'' \<longleftrightarrow> il_listener l \<noteq> None"
    and opened: "im_open m = sockets ?ls + (P + (case il_listener l of None \<Rightarrow> {#} | Some s \<Rightarrow> {#s#}))"
    using inv by (simp_all add: ingress_inv_def)
  have "close_socket (map_of ?ls k) (im_open m) = sockets (AList.update k l ?ls) + P"
    unfolding opened sockets_update [OF dist] close_socket_union [OF refl] by (simp add: ac_simps)
  moreover have "\<forall>(k, l) \<in> set (AList.update k l ?ls). il_State l = ''enabled'' \<longleftrightarrow> il_listener l \<noteq> None"
    using listeners_update [of ?ls "\<lambda>l. il_State l = ''enabled'' \<longleftrightarrow> il_listener l \<noteq> None", OF dist st l] .
  ultimately show ?thesis using dist by (simp add: ingress_inv_def distinct_update)
qed

lemma stop_one_inv:
  assumes "ingress_inv P m" and "\<And>l. il_listener (f l) = None \<and> il_State (f l) \<noteq> ''enabled''"
  shows "ingress_inv P (stop_one f pluginID m)"
proof (cases "map_of (im_listeners m) (ingressKey pluginID)")
  case (Some l)
  then show ?thesis using ingress_inv_update [of P "f l" m "ingressKey pluginID"] assms by (simp add: stop_one_def)
qed (use assms in \<open>simp add: stop_one_def\<close>)

lemma close_all: "fold (\<lambda>(_, l). close_socket (Some l)) ls (sockets ls + P) = P"
proof (induction ls)
  case (Cons a ls)
  obtain k l where "a = (k, l)" by fastforce
  then show ?case using Cons by (cases "il_listener l") (simp_all add: close_socket_def)
qed simp

lemma sockets_drained [simp]: "sockets (map (\<lambda>(k, l). (k, drain_listener now l)) ls) = {#}"
  by (induction ls) (auto simp: drain_listener_def)

lemma ingress_Close_inv:
  assumes "ingress_inv P m"
  shows "ingress_inv P (ingress_Close now m)" and "im_open (ingress_Close now m) = P"
proof -
  have "distinct (map fst (map (\<lambda>(k, l). (k, drain_listener now l)) (im_listeners m)))"
    using assms by (simp add: ingress_inv_def comp_def case_prod_beta')
  moreover have "\<forall>(k, l) \<in> set (map (\<lambda>(k, l). (k, drain_listener now l)) (im_listeners m)). il_State l = ''enabled'' \<longleftrightarrow> il_listener l \<noteq> None"
    by (auto simp: drain_listener_def)
  ultimately show "ingress_inv P (ingress_Close now m)"
    using assms by (simp add: ingress_inv_def ingress_Close_def close_all del: map_map list.set_map)
qed (use assms in \<open>simp add: ingress_inv_def ingress_Close_def close_all\<close>)

section \<open>Concurrent starts and stops\<close>

text \<open>
  The steps that the mutex and the kernel make atomic.  A start is two of them, with its socket open between: the list of reserved listeners is
  read under the mutex, \<open>net.Listen\<close> runs outside it, and the mutex is taken again to publish.
\<close>

inductive ingress_step :: "(string \<Rightarrow> string) \<Rightarrow> (string \<Rightarrow> int option) \<Rightarrow> socket multiset \<times> IngressLifecycleManager \<Rightarrow> socket multiset \<times> IngressLifecycleManager \<Rightarrow> bool"
  for uni dur where
  listen: "start_listen uni dur ext ingress m = (Inr s, m') \<Longrightarrow> ingress_step uni dur (P, m) (add_mset s P, m')"
| publish: "s \<in># P \<Longrightarrow> start_publish now pluginID artifactID ingress s m = (l, m') \<Longrightarrow> ingress_step uni dur (P, m) (P - {#s#}, m')"
| disable: "ingress_step uni dur (P, m) (P, snd (ingress_Disable now pluginID m))"
| drain: "ingress_step uni dur (P, m) (P, snd (ingress_Drain now pluginID m))"
| refresh: "ingress_step uni dur (P, m) (P, RefreshReservedListeners listeners m)"
| close: "ingress_step uni dur (P, m) (P, ingress_Close now m)"

definition new_ingress :: "IngressReservedListener list \<Rightarrow> IngressLifecycleManager" where
  "new_ingress reserved = \<lparr>im_reserved = reserved, im_listeners = [], im_open = {#}\<rparr>"

lemma start_listen_cases:
  assumes "start_listen uni dur ext ingress m = (Inr s, m')"
  shows "s \<notin># im_open m" "m' = m\<lparr>im_open := add_mset s (im_open m)\<rparr>"
    "\<not> list_ex (ingressReservedListenerConflict uni ingress) (im_reserved m)"
    "s = (''tcp'', TrimSpace (ig_Bind ingress), ig_Port ingress)" "ingressListenerNetwork uni (ig_Protocol ingress) = ''tcp''"
  using assms by (auto simp: start_listen_def net_Listen_def ingressListenerNetwork_def split: if_splits sum.splits option.splits)

lemma close_socket_sub: "close_socket x M \<subseteq># M"
  by (auto simp: close_socket_def split: option.splits)

definition single_open :: "socket multiset \<Rightarrow> bool" where
  "single_open M = (\<forall>s. count M s \<le> 1)"

lemma single_open_sub: "single_open M \<Longrightarrow> N \<subseteq># M \<Longrightarrow> single_open N"
  unfolding single_open_def using mset_subset_eq_count le_trans by metis

lemma single_open_add: "single_open M \<Longrightarrow> s \<notin># M \<Longrightarrow> single_open (add_mset s M)"
  by (auto simp: single_open_def not_in_iff)

lemma ingress_inv_sub: "ingress_inv P m \<Longrightarrow> P \<subseteq># im_open m"
  by (simp add: ingress_inv_def)

lemma ingress_step_inv:
  assumes "ingress_step uni dur (P, m) (P', m')" and "ingress_inv P m" and "single_open (im_open m)"
  shows "ingress_inv P' m' \<and> single_open (im_open m')"
  using assms(1)
proof cases
  case (listen ext ingress s)
  from start_listen_cases(1,2) [OF listen(2)] show ?thesis
    using assms(2) single_open_add [OF assms(3), of s] by (simp add: ingress_inv_def listen(1))
next
  case (publish s now pluginID artifactID ingress l)
  have m': "m' = m\<lparr>im_open := close_socket (map_of (im_listeners m) (ingressKey pluginID)) (im_open m), im_listeners := AList.update (ingressKey pluginID) l (im_listeners m)\<rparr>"
    and l: "il_listener l = Some s" "il_State l = ''enabled''"
    using publish(3) by (auto simp: start_publish_def Let_def)
  have "ingress_inv (P' + {#s#}) m" using publish(1,2) assms(2) by simp
  then show ?thesis using ingress_inv_update [of P' l m] l single_open_sub [OF assms(3) close_socket_sub] by (simp add: m')
next
  case (disable now pluginID)
  have "ingress_inv P (stop_one (disable_listener now) pluginID m)" by (rule stop_one_inv [OF assms(2)]) (simp add: disable_listener_def)
  with disable show ?thesis using single_open_sub [OF assms(3)] close_socket_sub assms(3)
    by (auto simp: ingress_Disable_def stop_one_def Let_def split: option.splits)
next
  case (drain now pluginID)
  have "ingress_inv P (stop_one (drain_listener now) pluginID m)" by (rule stop_one_inv [OF assms(2)]) (simp add: drain_listener_def)
  with drain show ?thesis using single_open_sub [OF assms(3)] close_socket_sub assms(3)
    by (auto simp: ingress_Drain_def stop_one_def Let_def split: option.splits)
next
  case (refresh listeners)
  with assms(2,3) show ?thesis by (simp add: RefreshReservedListeners_def ingress_inv_def)
next
  case (close now)
  with ingress_Close_inv [OF assms(2)] show ?thesis using single_open_sub [OF assms(3) ingress_inv_sub [OF assms(2)]] by simp
qed

text \<open>C32: the sockets of the process are those of the listeners that the manager calls enabled and of the starts that have not published yet,
  each open once, in every order in which starts, stops, refreshes and the shutdown of any number of plugins can run: replacing a listener
  closes the one before, and stopping one leaves no socket behind.\<close>

theorem ingress_sockets_owned:
  assumes "(ingress_step uni dur)\<^sup>*\<^sup>* ({#}, new_ingress reserved) (P, m)"
  shows "im_open m = mset (List.map_filter (\<lambda>(_, l). if il_State l = ''enabled'' then il_listener l else None) (im_listeners m)) + P
    \<and> (\<forall>s. count (im_open m) s \<le> 1) \<and> im_open (ingress_Close now m) = P"
proof -
  have inv: "ingress_inv P m \<and> single_open (im_open m)"
    using assms
  proof (induction rule: rtranclp_induct2)
    case refl
    show ?case by (simp add: ingress_inv_def new_ingress_def single_open_def)
  next
    case (step P m P' m')
    then show ?case using ingress_step_inv by blast
  qed
  have "List.map_filter (\<lambda>(_, l). if il_State l = ''enabled'' then il_listener l else None) ls = List.map_filter (\<lambda>(_, l). il_listener l) ls"
    if "\<forall>(k, l) \<in> set ls. il_State l = ''enabled'' \<longleftrightarrow> il_listener l \<noteq> None" for ls :: "(string \<times> IngressListener) list"
    using that by (induction ls) (auto simp: map_filter_simps split: option.splits)
  then have "im_open m = mset (List.map_filter (\<lambda>(_, l). if il_State l = ''enabled'' then il_listener l else None) (im_listeners m)) + P"
    using inv by (simp add: ingress_inv_def sockets_def)
  moreover have "\<forall>s. count (im_open m) s \<le> 1" using inv by (simp add: single_open_def)
  ultimately show ?thesis using inv ingress_Close_inv(2) by blast
qed

theorem ingress_sockets_owned_witness:
  "(let i = \<lparr>ig_Protocol = ''tcp'', ig_Bind = ''127.0.0.1'', ig_Port = 9000, ig_TLS = None, ig_Health = None, ig_SecretRefs = []\<rparr>;
        (r, m) = start_listen (\<lambda>s. s) (\<lambda>_. None) None i (new_ingress []);
        s = (''tcp'', ''127.0.0.1'', 9000)
    in r = Inr s \<and> im_open m = {#s#} \<and> im_open (ingress_Close 5 m) = {#s#} \<and> (\<forall>s. count (im_open m) s \<le> 1))"
proof -
  let ?i = "\<lparr>ig_Protocol = ''tcp'', ig_Bind = ''127.0.0.1'', ig_Port = 9000, ig_TLS = None, ig_Health = None, ig_SecretRefs = []\<rparr>"
  let ?s = "(''tcp'', ''127.0.0.1'', 9000) :: socket"
  let ?m = "(new_ingress [])\<lparr>im_open := {#?s#}\<rparr>"
  have l: "start_listen (\<lambda>s. s) (\<lambda>_. None) None ?i (new_ingress []) = (Inr ?s, ?m)"
    by code_simp
  have "(ingress_step (\<lambda>s. s) (\<lambda>_. None))\<^sup>*\<^sup>* ({#}, new_ingress []) ({#?s#}, ?m)"
    using ingress_step.listen [OF l, of "{#}"] by auto
  from ingress_sockets_owned [OF this] show ?thesis by (simp add: l)
qed

text \<open>a plugin that listens cannot be started again on the same address: the new socket is opened before the old one is closed,
  so \<open>Start\<close> fails with the address in use and the manager stays as it is, with the old artifact and the old capability.\<close>

theorem restart_in_place_refused:
  assumes "ingress_Start uni dur ext now pluginID artifactID (Some ingress) m = (Inr l, m')" and "map_of (im_listeners m) (ingressKey pluginID) = None"
    and "ig_Protocol again = ig_Protocol ingress" "ig_Bind again = ig_Bind ingress" "ig_Port again = ig_Port ingress"
  shows "\<exists>e. ingress_Start uni dur ext' now' pluginID artifactID' (Some again) m' = (Inl e, m')"
proof -
  obtain s m1 where l: "start_listen uni dur ext ingress m = (Inr s, m1)" and p: "start_publish now pluginID artifactID ingress s m1 = (l, m')"
    using assms(1) by (auto simp: ingress_Start_def split: prod.splits sum.splits)
  have "s \<in># im_open m'"
    using p assms(2) by (auto simp: start_publish_def Let_def start_listen_cases(2) [OF l] close_socket_def)
  then have "fst (start_listen uni dur ext' again m') = Inl e \<Longrightarrow> snd (start_listen uni dur ext' again m') = m'"
    and "\<exists>e. fst (start_listen uni dur ext' again m') = Inl e" for e
    using start_listen_cases(4,5) [OF l] assms(3-5) by (auto simp: start_listen_def net_Listen_def)
  then obtain e where "start_listen uni dur ext' again m' = (Inl e, m')" by (metis prod.collapse)
  then show ?thesis by (simp add: ingress_Start_def)
qed

theorem restart_in_place_refused_witness:
  "(let i = \<lparr>ig_Protocol = ''tcp'', ig_Bind = ''127.0.0.1'', ig_Port = 9000, ig_TLS = None, ig_Health = None, ig_SecretRefs = []\<rparr>;
        (r, m) = ingress_Start (\<lambda>s. s) (\<lambda>_. None) None 1 ''p'' ''v1'' (Some i) (new_ingress [])
    in isl r = False \<and> (\<exists>e. ingress_Start (\<lambda>s. s) (\<lambda>_. None) None 2 ''p'' ''v2'' (Some i) m = (Inl e, m)))"
proof -
  let ?i = "\<lparr>ig_Protocol = ''tcp'', ig_Bind = ''127.0.0.1'', ig_Port = 9000, ig_TLS = None, ig_Health = None, ig_SecretRefs = []\<rparr>"
  obtain r m where s: "ingress_Start (\<lambda>s. s) (\<lambda>_. None) None 1 ''p'' ''v1'' (Some ?i) (new_ingress []) = (r, m)" by fastforce
  have "isl (fst (ingress_Start (\<lambda>s. s) (\<lambda>_. None) None 1 ''p'' ''v1'' (Some ?i) (new_ingress []))) = False" by code_simp
  then obtain l where r: "r = Inr l" unfolding s by (cases r) auto
  have "\<exists>e. ingress_Start (\<lambda>s. s) (\<lambda>_. None) None 2 ''p'' ''v2'' (Some ?i) m = (Inl e, m)"
    by (rule restart_in_place_refused [OF s [unfolded r]]) (simp_all add: new_ingress_def)
  then show ?thesis by (simp add: s r)
qed

text \<open>A capability of protocol \<open>tls\<close> whose \<open>tls\<close> section is not marked enabled is valid, and its listener is a plain one.\<close>

lemma tls_ingress_plain:
  "(let i = \<lparr>ig_Protocol = ''tls'', ig_Bind = ''0.0.0.0'', ig_Port = 443,
            ig_TLS = Some \<lparr>it_Enabled = False, it_CertSecret = ''cert'', it_KeySecret = ''key''\<rparr>, ig_Health = None, ig_SecretRefs = []\<rparr>
    in case fst (ingress_Start (\<lambda>s. s) (\<lambda>_. None) None 1 ''p'' ''v1'' (Some i) (new_ingress [])) of
         Inl e \<Rightarrow> False | Inr l \<Rightarrow> il_State l = ''enabled'' \<and> \<not> il_wrapped l)"
  by code_simp

end
