(* ===== verification/Plugin_Preflight.thy ===== *)
theory Plugin_Preflight
  imports Plugin_Policy Plugin_Ingress External_Client
begin

text \<open>
  The checks an artifact has to pass before it is released, \<open>src/internal/pluginmanager/governance.go\<close> with its helpers in \<open>manager.go\<close>,
  \<open>conformance.go\<close> and \<open>future.go\<close>: conformance evidence, provenance of the build, capabilities, ingress, external dependencies.

  \<open>gov_lib\<close> holds the decoders and the case folding outside ASCII.  \<open>preflight_env\<close> holds what is looked up elsewhere: stored rows, the
  mode of the service, and the answers of the sandbox and WASM runtimes.  Messages and details of a check are left out.
\<close>

section \<open>Data\<close>

record Manifest =
  mf_ConfigSchema :: string
  mf_Secrets :: "SecretSpec list"
  mf_Capabilities :: jobject
  mf_SupplyChain :: jobject
  mf_ExtensionPoints :: "string list"
  mf_ExternalDeps :: "ExternalSpec list"
  mf_HandlerTimeoutMS :: int

record CapabilitySummary =
  cs_Ingress :: "IngressCapability option"
  cs_RequiredCapabilities :: "string list"

record ConformanceSummary =
  co_OK :: bool
  co_Coverage :: "string list"

record gov_lib =
  gl_json :: json_codec
  gl_manifest :: "string \<Rightarrow> Manifest result"
  gl_summary :: "string \<Rightarrow> CapabilitySummary result"
  gl_manifestSummary :: "Manifest \<Rightarrow> CapabilitySummary result"
  gl_conformance :: "string \<Rightarrow> ConformanceSummary option result" \<comment> \<open>\<open>conformanceSummaryFromMetadata\<close>\<close>
  gl_uni :: "string \<Rightarrow> string"
  gl_fold :: "string \<Rightarrow> string \<Rightarrow> bool"
  gl_wild :: "rat \<Rightarrow> bool"
  gl_dur :: "string \<Rightarrow> int option"

record ArtifactRecord =
  ar_ID :: string
  ar_PluginID :: string
  ar_Version :: string
  ar_SHA256 :: string
  ar_PackageSHA256 :: string
  ar_Status :: string
  ar_ArtifactType :: string
  ar_RuntimeType :: string
  ar_GoVersion :: string
  ar_GOOS :: string
  ar_GOARCH :: string
  ar_MetadataJSON :: string
  ar_CapabilitiesSummaryJSON :: string

record BuildRecord =
  bd_ArtifactID :: string
  bd_Status :: string
  bd_BuilderType :: string
  bd_BuilderImage :: string
  bd_SourceSHA256 :: string
  bd_ArtifactSHA256 :: string
  bd_GoVersion :: string
  bd_ModuleSummary :: string
  bd_ABIFingerprint :: string
  bd_MetadataJSON :: string

record SupplyChainAssessment =
  sa_PluginID :: string
  sa_ArtifactID :: string
  sa_Status :: string
  sa_Issues :: "GovernanceIssue list"
  sa_Metadata :: jobject
  sa_CreatedAt :: int
  sa_ID :: int

record PreflightCheck =
  pc_Code :: string
  pc_Severity :: string

definition pcheck :: "string \<Rightarrow> string \<Rightarrow> PreflightCheck" where
  "pcheck code severity = \<lparr>pc_Code = code, pc_Severity = severity\<rparr>"

record preflight_env =
  pe_secrets :: "secret_rows result"
  pe_sandboxMetadata :: "error option"
  pe_sandboxService :: bool
  pe_sandboxApply :: "string \<times> string"
  pe_wasmExtension :: "error option"
  pe_wasmBlocked :: "string list"
  pe_wasmABI :: "error option"
  pe_wasmSmoke :: PreflightCheck
  pe_egressEnforced :: bool
  pe_processEnforced :: bool
  pe_ingressEnabled :: bool
  pe_requireConformance :: bool
  pe_builds :: "BuildRecord list result"
  pe_assessments :: "SupplyChainAssessment list result"
  pe_external :: "string \<Rightarrow> (string \<times> string) option" \<comment> \<open>circuit state and last status\<close>
  pe_goVersion :: string
  pe_goos :: string
  pe_goarch :: string

section \<open>Conformance evidence\<close>

definition coverage_names :: "(string \<times> string list) list" where
  "coverage_names = [
     (''sandbox.handshake_init_register'', [''handshake'', ''init'', ''register'', ''handshake/init/register'', ''sandbox.handshake'', ''sandbox.init'', ''sandbox.register'']),
     (''sandbox.route_rule_config_request_response'', [''route/rule/config'', ''request-response'', ''request_response'', ''sandbox.request_response'', ''sandbox.route_rule_config'']),
     (''sandbox.secret_denial'', [''secret_denial'', ''secret-denial'', ''sandbox.secret'', ''sandbox.secret-denial'']),
     (''sandbox.file_denial'', [''file_denial'', ''file-denial'', ''sandbox.file'', ''sandbox.file-denial'']),
     (''sandbox.network_denial'', [''network_denial'', ''network-denial'', ''sandbox.network'', ''sandbox.network-denial'']),
     (''sandbox.cpu_memory_exceeded'', [''cpu_memory_exceeded'', ''cpu-memory-exceeded'', ''resource_exceeded'', ''sandbox.resource_exceeded'']),
     (''sandbox.crash_loop'', [''crash_loop'', ''crash-loop'', ''sandbox.crash'', ''sandbox.crash-loop'']),
     (''sandbox.stream_half_close'', [''stream_half_close'', ''stream-half-close'', ''half_close'', ''half-close'']),
     (''sandbox.stream_backpressure'', [''stream_backpressure'', ''stream-backpressure'', ''backpressure'']),
     (''sandbox.stream_cancel'', [''stream_cancel'', ''stream-cancel'', ''cancel''])]"

definition normalizeConformanceCoverage :: "string \<Rightarrow> string" where
  "normalizeConformanceCoverage value =
    (let value = TrimPrefix (TrimSpace value) ''coverage:'' in
     case find (\<lambda>(_, names). value \<in> set names) coverage_names of Some (n, _) \<Rightarrow> n | None \<Rightarrow> value)"

definition SandboxConformanceRequiredCoverage :: "string list" where
  "SandboxConformanceRequiredCoverage = map fst coverage_names"

definition missingConformanceCoverage :: "ConformanceSummary \<Rightarrow> string list \<Rightarrow> string list" where
  "missingConformanceCoverage summary required =
    (let covered = filter (\<lambda>c. c \<noteq> []) (map normalizeConformanceCoverage (co_Coverage summary)) in
     sort (filter (\<lambda>item. normalizeConformanceCoverage item \<notin> set covered) required))"

definition conformancePreflightCheck :: "gov_lib \<Rightarrow> string \<Rightarrow> PolicySnapshot \<Rightarrow> string list \<Rightarrow> PreflightCheck option" where
  "conformancePreflightCheck lib metadataJSON policy required = (case gl_conformance lib metadataJSON of
      Inl _ \<Rightarrow> Some (pcheck ''conformance_fixture_invalid'' ''blocking'')
    | Inr None \<Rightarrow> if po_RequireConformanceFixture policy then Some (pcheck ''conformance_fixture_missing'' ''blocking'') else None
    | Inr (Some summary) \<Rightarrow>
        if \<not> co_OK summary then Some (pcheck ''conformance_fixture_failed'' ''blocking'')
        else if missingConformanceCoverage summary required \<noteq> [] then Some (pcheck ''sandbox_conformance_fixture_missing'' ''blocking'')
        else Some (pcheck ''conformance_fixture_passed'' ''info''))"

section \<open>Provenance of a source build\<close>

text \<open>The text after the last occurrence of a marker.\<close>

fun after_last :: "string \<Rightarrow> string \<Rightarrow> string option" where
  "after_last m [] = None"
| "after_last m (c # s) = (case after_last m s of Some r \<Rightarrow> Some r | None \<Rightarrow> if HasPrefix (c # s) m then Some (drop (length m) (c # s)) else None)"

definition is_hex :: "byte \<Rightarrow> bool" where
  "is_hex c = (is_digit c \<or> c \<in> set ''abcdefABCDEF'')"

definition builderImageDigestPinned :: "string \<Rightarrow> bool" where
  "builderImageDigestPinned img = (case after_last ''@sha256:'' (TrimSpace img) of
      None \<Rightarrow> False | Some digest \<Rightarrow> length digest = 64 \<and> list_all is_hex digest)"

definition builderImageWithoutDigest :: "string \<Rightarrow> string" where
  "builderImageWithoutDigest img = takeWhile (\<lambda>c. c \<noteq> CHR ''@'') (TrimSpace img)"

definition lower_alnum :: "byte \<Rightarrow> bool" where
  "lower_alnum c = (is_digit c \<or> (let n = (of_char c :: nat) in 97 \<le> n \<and> n \<le> 122))"

fun dashes :: "bool \<Rightarrow> string \<Rightarrow> string" where
  "dashes lastDash [] = []"
| "dashes lastDash (c # s) = (if lower_alnum c then c # dashes False s else if lastDash then dashes True s else CHR ''-'' # dashes True s)"

definition trim_dashes :: "string \<Rightarrow> string" where
  "trim_dashes s = TrimRightByte (dropWhile (\<lambda>c. c = CHR ''-'') s) (CHR ''-'')"

definition builderImageToken :: "(string \<Rightarrow> string) \<Rightarrow> string \<Rightarrow> string" where
  "builderImageToken uni value = trim_dashes (dashes False (ToLower uni (TrimSpace value)))"

definition builderImageReferencesGoVersion :: "(string \<Rightarrow> string) \<Rightarrow> string \<Rightarrow> string \<Rightarrow> bool" where
  "builderImageReferencesGoVersion uni img goVersion =
    (let img = TrimSpace img; goVersion = TrimSpace goVersion in
     if img = [] \<or> goVersion = [] then False
     else let img = takeWhile (\<lambda>c. c \<noteq> CHR ''@'') img; normalized = TrimPrefix goVersion ''go'' in
       if normalized = [] then False
       else let lower = ToLower uni img in
         Contains lower (''go'' @ ToLower uni normalized) \<or> Contains lower ('':'' @ ToLower uni normalized) \<or> Contains lower (''-'' @ ToLower uni normalized)
         \<or> Contains (builderImageToken uni img) (builderImageToken uni (''go'' @ normalized)))"

definition image_mentions :: "(string \<Rightarrow> string) \<Rightarrow> string \<Rightarrow> string \<Rightarrow> bool" where
  "image_mentions uni img name =
    (let img = builderImageWithoutDigest img; token = builderImageToken uni name in
     img \<noteq> [] \<and> token \<noteq> [] \<and> Contains (builderImageToken uni img) token)"

definition builderImageReferencesAPIVersion :: "(string \<Rightarrow> string) \<Rightarrow> string \<Rightarrow> bool" where
  "builderImageReferencesAPIVersion uni img = image_mentions uni img ''plugin-api/v1''"

definition builderImageReferencesGatewayRelease :: "(string \<Rightarrow> string) \<Rightarrow> string \<Rightarrow> bool" where
  "builderImageReferencesGatewayRelease uni img = image_mentions uni img ''v0.1.0''"

definition builderImageReferencesTarget :: "(string \<Rightarrow> string) \<Rightarrow> string \<Rightarrow> string \<Rightarrow> string \<Rightarrow> bool" where
  "builderImageReferencesTarget uni img goos goarch =
    (let token = builderImageToken uni (builderImageWithoutDigest img) in
     token \<noteq> [] \<and> Contains token (builderImageToken uni goos) \<and> Contains token (builderImageToken uni goarch))"

definition builderImageReleaseBound :: "(string \<Rightarrow> string) \<Rightarrow> string \<Rightarrow> string \<Rightarrow> string \<Rightarrow> string \<Rightarrow> bool" where
  "builderImageReleaseBound uni goos goarch img goVersion =
    (builderImageDigestPinned img \<and> builderImageReferencesGatewayRelease uni img \<and> builderImageReferencesGoVersion uni img goVersion
     \<and> builderImageReferencesAPIVersion uni img \<and> builderImageReferencesTarget uni img goos goarch)"

definition metadataString :: "jval option \<Rightarrow> string" where
  "metadataString v = (case v of Some (VStr t) \<Rightarrow> TrimSpace t | _ \<Rightarrow> [])"

definition firstMetadataString :: "jobject \<Rightarrow> string list \<Rightarrow> string" where
  "firstMetadataString obj keys = (case find (\<lambda>k. metadataString (map_of obj k) \<noteq> []) keys of None \<Rightarrow> [] | Some k \<Rightarrow> metadataString (map_of obj k))"

definition metadataFieldPresent :: "jval option \<Rightarrow> bool" where
  "metadataFieldPresent v = (case v of
      None \<Rightarrow> False | Some VNull \<Rightarrow> False | Some (VStr t) \<Rightarrow> TrimSpace t \<noteq> [] | Some (VObj m) \<Rightarrow> m \<noteq> [] | Some (VArr a) \<Rightarrow> a \<noteq> [] | Some _ \<Rightarrow> True)"

definition jsonMap :: "gov_lib \<Rightarrow> string \<Rightarrow> jobject" where
  "jsonMap lib raw = (case Unmarshal_object (gl_json lib) (defaultJSONObject (gl_json lib) raw) of Inl _ \<Rightarrow> [] | Inr m \<Rightarrow> m)"

definition sourceBuildMetadata :: "gov_lib \<Rightarrow> BuildRecord \<Rightarrow> jobject" where
  "sourceBuildMetadata lib build = jsonMap lib (bd_MetadataJSON build)"

definition wasmSourceBuildModuleSHA :: "gov_lib \<Rightarrow> BuildRecord \<Rightarrow> string" where
  "wasmSourceBuildModuleSHA lib build =
    (let v = firstMetadataString (sourceBuildMetadata lib build) [''wasm_module_sha256'', ''module_sha256''] in
     if v \<noteq> [] then v else TrimSpace (bd_ArtifactSHA256 build))"

definition missingSourceBuildProvenanceFields :: "BuildRecord \<Rightarrow> string list" where
  "missingSourceBuildProvenanceFields build = map fst (filter (\<lambda>(_, v). TrimSpace v = [])
     [(''source_sha256'', bd_SourceSHA256 build), (''artifact_sha256'', bd_ArtifactSHA256 build), (''go_version'', bd_GoVersion build),
      (''module_summary'', bd_ModuleSummary build), (''abi_fingerprint'', bd_ABIFingerprint build)])"

definition toolchain_keys :: "string list" where
  "toolchain_keys = [''wasm_toolchain'', ''toolchain'', ''runtime_toolchain'']"

definition target_keys :: "string list" where
  "target_keys = [''wasm_target'', ''target'', ''runtime_target'']"

definition missingWASMSourceBuildProvenanceFields :: "gov_lib \<Rightarrow> ArtifactRecord \<Rightarrow> BuildRecord \<Rightarrow> string list" where
  "missingWASMSourceBuildProvenanceFields lib artifact build =
    (let metadata = sourceBuildMetadata lib build;
         noDeps = (case gl_manifest lib (defaultJSONObject (gl_json lib) (ar_MetadataJSON artifact)) of Inl _ \<Rightarrow> True | Inr mf \<Rightarrow> sbomDependencies (mf_SupplyChain mf) = [])
     in (if firstMetadataString metadata toolchain_keys = [] then [''wasm_toolchain''] else [])
        @ (if firstMetadataString metadata target_keys = [] then [''wasm_target''] else [])
        @ (if wasmSourceBuildModuleSHA lib build = [] then [''wasm_module_sha256''] else [])
        @ (if noDeps \<and> \<not> metadataFieldPresent (map_of metadata ''sbom'') \<and> \<not> metadataFieldPresent (map_of metadata ''sbom_dependencies'') then [''sbom''] else []))"

definition gl_EqualFold :: "gov_lib \<Rightarrow> string \<Rightarrow> string \<Rightarrow> bool" where
  "gl_EqualFold lib = EqualFold (gl_fold lib)"

definition sourceBuildForArtifact :: "BuildRecord list result \<Rightarrow> ArtifactRecord \<Rightarrow> BuildRecord option result" where
  "sourceBuildForArtifact builds artifact = (case builds of
      Inl e \<Rightarrow> Inl e
    | Inr builds \<Rightarrow> Inr (find (\<lambda>b. bd_ArtifactID b = ar_ID artifact \<and> bd_Status b = ''succeeded'') builds))"

definition builder_checks :: "gov_lib \<Rightarrow> preflight_env \<Rightarrow> BuildRecord \<Rightarrow> PreflightCheck list" where
  "builder_checks lib env build =
    (if bd_BuilderType build = ''local-process'' then [pcheck ''source_build_local_process_prod'' ''blocking'']
     else if bd_BuilderType build = ''container'' then
       (if TrimSpace (bd_BuilderImage build) = [] then [pcheck ''source_build_provenance_incomplete'' ''blocking''] else [])
       @ (if TrimSpace (str_member (sourceBuildMetadata lib build) ''builder_image_digest'') = [] then [pcheck ''source_build_builder_digest_missing'' ''warning''] else [])
       @ (if \<not> builderImageDigestPinned (bd_BuilderImage build) then [pcheck ''source_build_builder_image_not_pinned'' ''warning''] else [])
       @ (if \<not> builderImageReleaseBound (gl_uni lib) (pe_goos env) (pe_goarch env) (bd_BuilderImage build) (bd_GoVersion build)
          then [pcheck ''source_build_builder_image_release_unbound'' ''warning''] else [])
     else if bd_BuilderType build = [] then [pcheck ''source_build_provenance_incomplete'' ''blocking'']
     else [pcheck ''source_build_builder_unsupported'' ''blocking''])"

definition sourceBuildProvenancePreflightChecks :: "gov_lib \<Rightarrow> preflight_env \<Rightarrow> ArtifactRecord \<Rightarrow> PreflightCheck list" where
  "sourceBuildProvenancePreflightChecks lib env artifact = (case sourceBuildForArtifact (pe_builds env) artifact of
      Inl _ \<Rightarrow> [pcheck ''source_build_provenance_unavailable'' ''blocking'']
    | Inr None \<Rightarrow> []
    | Inr (Some build) \<Rightarrow>
        builder_checks lib env build
        @ (if missingSourceBuildProvenanceFields build \<noteq> [] then [pcheck ''source_build_provenance_incomplete'' ''blocking''] else [])
        @ (if ar_RuntimeType artifact = ''wasm'' then
             (if missingWASMSourceBuildProvenanceFields lib artifact build \<noteq> [] then [pcheck ''wasm_source_build_provenance_incomplete'' ''blocking''] else [])
             @ (let moduleSHA = wasmSourceBuildModuleSHA lib build in
                if moduleSHA \<noteq> [] \<and> ar_SHA256 artifact \<noteq> [] \<and> \<not> gl_EqualFold lib moduleSHA (ar_SHA256 artifact)
                then [pcheck ''wasm_source_build_module_hash_mismatch'' ''blocking''] else [])
           else [])
        @ (if bd_ArtifactSHA256 build \<noteq> [] \<and> ar_SHA256 artifact \<noteq> [] \<and> bd_ArtifactSHA256 build \<noteq> ar_SHA256 artifact
           then [pcheck ''source_build_artifact_hash_mismatch'' ''blocking''] else []))"

section \<open>Supply chain\<close>

text \<open>\<open>jsonMapFromAny\<close> of a decoded value: only an object becomes a map.\<close>

definition jsonMapFromAny :: "jval option \<Rightarrow> jobject option" where
  "jsonMapFromAny v = (case v of Some (VObj m) \<Rightarrow> Some m | _ \<Rightarrow> None)"

definition map_or_nil :: "jobject option \<Rightarrow> jobject" where
  "map_or_nil m = (case m of None \<Rightarrow> [] | Some m \<Rightarrow> m)"

definition requiredBool :: "jobject \<Rightarrow> string \<Rightarrow> bool" where
  "requiredBool values key = (map_of values key = Some (VBool True))"

definition externalCIRequired :: "jobject \<Rightarrow> bool" where
  "externalCIRequired externalCI = (if map_of externalCI ''required'' = None then True else requiredBool externalCI ''required'')"

definition missingExternalCIProvenanceFields :: "jobject \<Rightarrow> string list" where
  "missingExternalCIProvenanceFields externalCI = filter (\<lambda>f. \<not> metadataFieldPresent (map_of externalCI f))
     [''source_sha256'', ''artifact_sha256'', ''run_id'', ''builder_id'', ''attestation'', ''sbom'', ''release_provenance'']"

definition wasmExternalCIModuleSHA :: "jobject \<Rightarrow> string" where
  "wasmExternalCIModuleSHA externalCI = firstMetadataString externalCI [''wasm_module_sha256'', ''module_sha256'']"

text \<open>A map is present when it has members, so that nil counts as missing.\<close>

definition missingExternalCIProvenanceMetadataFieldsForArtifact :: "ArtifactRecord \<Rightarrow> jobject \<Rightarrow> jobject \<Rightarrow> jobject \<Rightarrow> string list" where
  "missingExternalCIProvenanceMetadataFieldsForArtifact artifact signature sbom externalCI =
    missingExternalCIProvenanceFields externalCI
    @ (if ar_RuntimeType artifact = ''wasm'' then
         (if firstMetadataString externalCI toolchain_keys = [] then [''wasm_toolchain''] else [])
         @ (if firstMetadataString externalCI target_keys = [] then [''wasm_target''] else [])
         @ (if wasmExternalCIModuleSHA externalCI = [] then [''wasm_module_sha256''] else [])
       else [])
    @ (if signature = [] then [''signature''] else [])
    @ (if sbom = [] then [''sbom_metadata''] else [])"

definition hash_differs :: "gov_lib \<Rightarrow> string \<Rightarrow> string \<Rightarrow> bool" where
  "hash_differs lib declared stored = (declared \<noteq> [] \<and> stored \<noteq> [] \<and> \<not> gl_EqualFold lib declared stored)"

definition blocking :: "ArtifactRecord \<Rightarrow> string \<Rightarrow> bool \<Rightarrow> GovernanceIssue list" where
  "blocking artifact code cond = (if cond then [issue code ''blocking'' (ar_PluginID artifact) (ar_ID artifact)] else [])"

definition externalCITrustIssues :: "gov_lib \<Rightarrow> ArtifactRecord \<Rightarrow> jobject \<Rightarrow> jobject \<Rightarrow> jobject option \<Rightarrow> GovernanceIssue list" where
  "externalCITrustIssues lib artifact signature sbom ci = (case ci of
      None \<Rightarrow> []
    | Some externalCI \<Rightarrow>
        blocking artifact ''external_ci_artifact_hash_mismatch'' (hash_differs lib (metadataString (map_of externalCI ''artifact_sha256'')) (ar_SHA256 artifact))
        @ blocking artifact ''external_ci_package_hash_mismatch'' (hash_differs lib (metadataString (map_of externalCI ''package_sha256'')) (ar_PackageSHA256 artifact))
        @ (if \<not> externalCIRequired externalCI then []
           else blocking artifact ''external_ci_provenance_incomplete'' (missingExternalCIProvenanceMetadataFieldsForArtifact artifact signature sbom externalCI \<noteq> [])
             @ blocking artifact ''external_ci_wasm_module_hash_mismatch''
                 (ar_RuntimeType artifact = ''wasm'' \<and> hash_differs lib (wasmExternalCIModuleSHA externalCI) (ar_SHA256 artifact))
             @ blocking artifact ''external_ci_signature_unverified'' (\<not> requiredBool signature ''verified'')
             @ blocking artifact ''external_ci_untrusted'' (\<not> requiredBool externalCI ''trusted'')))"

definition supplyChainIssues :: "gov_lib \<Rightarrow> ArtifactRecord \<Rightarrow> Manifest \<Rightarrow> jobject \<Rightarrow> GovernanceIssue list" where
  "supplyChainIssues lib artifact manifest metadata =
    (let signature = obj_member metadata ''signature''; sbom = obj_member metadata ''sbom''; license = obj_member metadata ''license'';
         advisory = obj_member metadata ''advisory''
     in sortedIssues (
        blocking artifact ''signature_unverified'' (requiredBool signature ''required'' \<and> \<not> requiredBool signature ''verified'')
        @ externalCITrustIssues lib artifact signature sbom (jsonMapFromAny (map_of metadata ''external_ci''))
        @ blocking artifact ''sbom_scan_blocked'' (requiredBool sbom ''required'' \<and> \<not> requiredBool sbom ''scan_ok'')
        @ blocking artifact ''license_denylist'' (stringSlice (map_of license ''denylist_matches'') \<noteq> [])
        @ blocking artifact ''license_allowlist_missing'' (stringSlice (map_of license ''allowlist_missing'') \<noteq> [])
        @ blocking artifact ''license_unknown'' (stringSlice (map_of license ''unknown'') \<noteq> [])
        @ (if stringSlice (map_of license ''review_required_matches'') \<noteq> []
           then [issue ''license_review_required'' ''warning'' (ar_PluginID artifact) (ar_ID artifact)] else [])
        @ blocking artifact ''advisory_feed_blocked'' (requiredBool advisory ''blocked'')
        @ blocking artifact ''sbom_missing_dependencies'' (sbomDependencies (mf_SupplyChain manifest) = [] \<and> requiredBool sbom ''required'')))"

definition preflightChecksFromGovernanceIssues :: "GovernanceIssue list \<Rightarrow> PreflightCheck list" where
  "preflightChecksFromGovernanceIssues issues = map (\<lambda>i. pcheck (gi_Code i) (gi_Severity i)) issues"

text \<open>A manifest that does not decode counts as an empty one; the gate has decoded it before.\<close>

definition manifest_or_zero :: "gov_lib \<Rightarrow> string \<Rightarrow> Manifest" where
  "manifest_or_zero lib raw = (case gl_manifest lib (defaultJSONObject (gl_json lib) raw) of
      Inr mf \<Rightarrow> mf
    | Inl _ \<Rightarrow> \<lparr>mf_ConfigSchema = [], mf_Secrets = [], mf_Capabilities = [], mf_SupplyChain = [], mf_ExtensionPoints = [], mf_ExternalDeps = [], mf_HandlerTimeoutMS = 0\<rparr>)"

definition ci_metadata :: "jobject \<Rightarrow> jobject \<Rightarrow> jobject" where
  "ci_metadata metadata externalCI =
    [(''signature'', VObj (obj_member metadata ''signature'')), (''sbom'', VObj (obj_member metadata ''sbom'')), (''external_ci'', VObj externalCI)]"

definition externalCIProvenancePreflightChecks :: "gov_lib \<Rightarrow> preflight_env \<Rightarrow> ArtifactRecord \<Rightarrow> PreflightCheck list" where
  "externalCIProvenancePreflightChecks lib env artifact = (case pe_assessments env of
      Inl _ \<Rightarrow> [pcheck ''external_ci_assessment_unavailable'' ''blocking'']
    | Inr assessments \<Rightarrow> (case find (\<lambda>a. jsonMapFromAny (map_of (sa_Metadata a) ''external_ci'') \<noteq> None) assessments of
        Some latest \<Rightarrow> preflightChecksFromGovernanceIssues (sa_Issues latest)
      | None \<Rightarrow>
          (let metadata = jsonMap lib (ar_MetadataJSON artifact) in
           case jsonMapFromAny (map_of metadata ''external_ci'') of
             None \<Rightarrow> []
           | Some externalCI \<Rightarrow> preflightChecksFromGovernanceIssues
               (supplyChainIssues lib artifact (manifest_or_zero lib (ar_MetadataJSON artifact)) (ci_metadata metadata externalCI)))))"

section \<open>Capabilities and the artifact gate\<close>

definition requiredRuntimeCapabilities :: "gov_lib \<Rightarrow> ArtifactRecord \<Rightarrow> string list" where
  "requiredRuntimeCapabilities lib artifact = (case gl_summary lib (ar_CapabilitiesSummaryJSON artifact) of
      Inl _ \<Rightarrow> [] | Inr summary \<Rightarrow> uniqueSortedStrings (cs_RequiredCapabilities summary))"

definition runtimeRequiredCapabilitiesUnsupported :: "string \<Rightarrow> bool" where
  "runtimeRequiredCapabilitiesUnsupported runtimeType = (runtimeType = ''wasm'')"

definition unsupportedSandboxRequiredCapabilities :: "gov_lib \<Rightarrow> preflight_env \<Rightarrow> string list \<Rightarrow> string list" where
  "unsupportedSandboxRequiredCapabilities lib env capabilities = uniqueSortedStrings (filter (\<lambda>capability.
     let c = ToLower (gl_uni lib) (TrimSpace capability) in
     \<not> (c \<in> {[], ''filesystem.read'', ''filesystem.write'', ''network.none'', ''env'', ''secret.handle'', ''cpu.memory''}
        \<or> c = ''network.egress'' \<and> pe_egressEnforced env \<or> c = ''process.restricted'' \<and> pe_processEnforced env))
     (uniqueSortedStrings capabilities))"

definition stringSliceContainsValue :: "(string \<Rightarrow> string) \<Rightarrow> string list \<Rightarrow> string \<Rightarrow> bool" where
  "stringSliceContainsValue uni values want = list_ex (\<lambda>v. ToLower uni (TrimSpace v) = ToLower uni (TrimSpace want)) values"

definition sandboxExternalDependencyCapabilityMissing :: "gov_lib \<Rightarrow> Manifest \<Rightarrow> string list \<Rightarrow> string list" where
  "sandboxExternalDependencyCapabilityMissing lib manifest capabilities =
    (if mf_ExternalDeps manifest = [] \<or> stringSliceContainsValue (gl_uni lib) capabilities ''network.egress'' then []
     else uniqueSortedStrings (filter (\<lambda>n. n \<noteq> []) (map (\<lambda>dep. let n = TrimSpace (xs_Name dep) in if n = [] then xs_Endpoint dep else n) (mf_ExternalDeps manifest))))"

definition first_error :: "error option list \<Rightarrow> error option" where
  "first_error es = (case filter (\<lambda>e. e \<noteq> None) es of [] \<Rightarrow> None | e # _ \<Rightarrow> e)"

definition fails :: "bool \<Rightarrow> string \<Rightarrow> error option" where
  "fails cond msg = (if cond then Some (ErrorString msg) else None)"

definition validateArtifactGate :: "gov_lib \<Rightarrow> preflight_env \<Rightarrow> ArtifactRecord \<Rightarrow> error option" where
  "validateArtifactGate lib env artifact =
    (if ar_Status artifact \<in> {''deleted'', ''rejected''} then Some (ErrorString ''artifact status is not loadable'')
     else if ar_ArtifactType artifact \<noteq> ''binary'' then Some (ErrorString ''desired artifact must be a binary artifact'')
     else if ar_RuntimeType artifact = ''builtin'' then None
     else if ar_RuntimeType artifact = ''sandbox-process'' then (case gl_manifest lib (ar_MetadataJSON artifact) of
         Inl _ \<Rightarrow> Some (ErrorString ''decode sandbox manifest'')
       | Inr manifest \<Rightarrow> first_error [pe_sandboxMetadata env,
           fails (\<not> pe_sandboxService env) ''sandbox-process runtime is disabled by plugin service mode'',
           fails (snd (pe_sandboxApply env) \<noteq> []) (snd (pe_sandboxApply env)),
           fails (sandboxExternalDependencyCapabilityMissing lib manifest (requiredRuntimeCapabilities lib artifact) \<noteq> [])
             ''sandbox-process external dependencies require runtime capability network.egress'',
           fails (unsupportedSandboxRequiredCapabilities lib env (requiredRuntimeCapabilities lib artifact) \<noteq> []) ''sandbox-process cannot enforce required capabilities''])
     else if ar_RuntimeType artifact = ''wasm'' then
       (if requiredRuntimeCapabilities lib artifact \<noteq> [] then Some (ErrorString ''wasm runtime cannot enforce required capabilities'')
        else (case gl_manifest lib (ar_MetadataJSON artifact) of
            Inl _ \<Rightarrow> Some (ErrorString ''decode wasm manifest'')
          | Inr manifest \<Rightarrow> first_error [fails (pe_wasmBlocked env \<noteq> []) ''wasm runtime does not support host capabilities'', pe_wasmExtension env, pe_wasmABI env]))
     else if ar_GoVersion artifact \<noteq> pe_goVersion env then Some (ErrorString ''artifact go_version does not match gateway'')
     else if ar_GOOS artifact \<noteq> pe_goos env \<or> ar_GOARCH artifact \<noteq> pe_goarch env then Some (ErrorString ''artifact target does not match gateway'')
     else None)"

section \<open>External dependencies\<close>

definition normalizeExternalFailPolicy :: "(string \<Rightarrow> string) \<Rightarrow> ExternalSpec \<Rightarrow> string" where
  "normalizeExternalFailPolicy uni spec =
    (let policy = TrimSpace (xs_FailPolicy spec); purpose = ToLower uni (TrimSpace (xs_Purpose spec)) in
     if policy \<noteq> [] then policy
     else if purpose \<in> {''auth'', ''authentication'', ''authorization'', ''entitlement'', ''security'', ''repository''} then ''fail_closed''
     else if purpose = ''route'' then ''fallback''
     else if purpose \<in> {''audit'', ''log'', ''logging'', ''metric'', ''metrics'', ''observability''} then ''fail_open''
     else if xs_Required spec then ''fail_closed'' else ''fail_open'')"

definition validExternalFailPolicy :: "string \<Rightarrow> bool" where
  "validExternalFailPolicy policy = (policy \<in> {''fail_open'', ''fail_closed'', ''degraded'', ''fallback''})"

definition dependency_checks :: "(string \<Rightarrow> string) \<Rightarrow> preflight_env \<Rightarrow> ExternalSpec \<Rightarrow> PreflightCheck list" where
  "dependency_checks uni env dep =
    (let policy = normalizeExternalFailPolicy uni dep in
     if \<not> validExternalFailPolicy policy then [pcheck ''external_dependency_policy_invalid'' ''blocking'']
     else (if xs_Required dep \<and> policy = ''fail_open'' then [pcheck ''external_dependency_fail_open_required'' ''warning''] else [])
       @ (if xs_Name dep = [] then []
          else case pe_external env (xs_Name dep) of
            None \<Rightarrow> []
          | Some (circuit, status) \<Rightarrow>
              if circuit = ''open'' \<or> status = ''health_failed'' then
                (if xs_Required dep \<and> policy = ''fail_closed'' then [pcheck ''external_dependency_fail_closed_unhealthy'' ''blocking'']
                 else [pcheck ''external_dependency_unhealthy'' ''warning''])
              else []))"

section \<open>Preflight\<close>

definition if_check :: "bool \<Rightarrow> string \<Rightarrow> string \<Rightarrow> PreflightCheck list" where
  "if_check cond code severity = (if cond then [pcheck code severity] else [])"

definition sandbox_checks :: "preflight_env \<Rightarrow> PreflightCheck list" where
  "sandbox_checks env = if_check (pe_sandboxMetadata env \<noteq> None) ''sandbox_artifact_metadata_invalid'' ''blocking''
     @ (if \<not> pe_sandboxService env then [pcheck ''sandbox_runtime_disabled'' ''blocking'']
        else if_check (fst (pe_sandboxApply env) \<noteq> []) ''sandbox_runtime_disabled'' ''blocking'')"

definition wasm_checks :: "preflight_env \<Rightarrow> PreflightCheck list" where
  "wasm_checks env = if_check (pe_wasmExtension env \<noteq> None) ''wasm_extension_point_unsupported'' ''blocking''
     @ if_check (pe_wasmBlocked env \<noteq> []) ''wasm_capability_blocked'' ''blocking''
     @ if_check (pe_wasmABI env \<noteq> None) ''wasm_abi_invalid'' ''blocking''
     @ (if pe_wasmExtension env = None \<and> pe_wasmBlocked env = [] \<and> pe_wasmABI env = None then [pe_wasmSmoke env] else [])"

definition capability_checks :: "gov_lib \<Rightarrow> preflight_env \<Rightarrow> ArtifactRecord \<Rightarrow> Manifest \<Rightarrow> PreflightCheck list" where
  "capability_checks lib env artifact manifest =
    (let caps = requiredRuntimeCapabilities lib artifact in
     if ar_RuntimeType artifact = ''sandbox-process'' then
       if_check (sandboxExternalDependencyCapabilityMissing lib manifest caps \<noteq> []) ''sandbox_external_dependency_capability_missing'' ''blocking''
       @ if_check (unsupportedSandboxRequiredCapabilities lib env caps \<noteq> []) ''capability_enforcement_unavailable'' ''blocking''
     else if_check (runtimeRequiredCapabilitiesUnsupported (ar_RuntimeType artifact) \<and> caps \<noteq> []) ''capability_enforcement_unavailable'' ''blocking'')"

definition ingress_checks :: "gov_lib \<Rightarrow> preflight_env \<Rightarrow> ArtifactRecord \<Rightarrow> Manifest \<Rightarrow> PreflightCheck list" where
  "ingress_checks lib env artifact manifest =
    (if ''ingress.service/v1'' \<notin> set (mf_ExtensionPoints manifest) then []
     else (case gl_summary lib (defaultJSONObject (gl_json lib) (ar_CapabilitiesSummaryJSON artifact)) of
         Inl _ \<Rightarrow> [pcheck ''ingress_service_invalid'' ''blocking'']
       | Inr summary \<Rightarrow> (case cs_Ingress summary of
           None \<Rightarrow> [pcheck ''ingress_service_invalid'' ''blocking'']
         | Some ingress \<Rightarrow>
             if ValidateIngressCapability (gl_uni lib) (gl_dur lib) (sp_Name ` set (mf_Secrets manifest)) ingress \<noteq> []
             then [pcheck ''ingress_service_invalid'' ''blocking''] else [pcheck ''ingress_service_schema_valid'' ''info'']))
       @ if_check (\<not> pe_ingressEnabled env) ''ingress_service_disabled'' ''blocking'')"

definition preflight_policy :: "preflight_env \<Rightarrow> ArtifactRecord \<Rightarrow> string \<Rightarrow> int \<Rightarrow> PolicySnapshot" where
  "preflight_policy env artifact profile now =
    (let policy = policySnapshot (pe_requireConformance env) profile now in
     if ar_RuntimeType artifact \<in> {''wasm'', ''sandbox-process''} \<and> normalizeProfile profile = ''prod''
     then policy\<lparr>po_RequireConformanceFixture := True\<rparr> else policy)"

definition preflightChecks :: "gov_lib \<Rightarrow> preflight_env \<Rightarrow> int \<Rightarrow> ArtifactRecord \<Rightarrow> Manifest \<Rightarrow> string \<Rightarrow> string \<Rightarrow> PreflightCheck list" where
  "preflightChecks lib env now artifact manifest profile configJSON =
    (let policy = preflight_policy env artifact profile now;
         required = (if ar_RuntimeType artifact = ''sandbox-process'' \<and> po_RequireConformanceFixture policy then SandboxConformanceRequiredCoverage else []);
         configJSON = (if configJSON = [] then ''{}'' else configJSON);
         caps = mf_Capabilities manifest
     in if \<not> jc_Valid (gl_json lib) configJSON then [pcheck ''config_invalid'' ''blocking'']
        else if_check (validateConfigSchema (gl_json lib) (gl_wild lib) (mf_ConfigSchema manifest) configJSON \<noteq> None) ''config_schema_failed'' ''blocking''
          @ if_check (validateSecretRefs (gl_uni lib) (gl_json lib) (pe_secrets env) (mf_Secrets manifest) configJSON \<noteq> None) ''secret_missing'' ''blocking''
          @ if_check (requiredFeatures caps \<noteq> []) ''feature_missing'' ''blocking''
          @ (case conformancePreflightCheck lib (ar_MetadataJSON artifact) policy required of None \<Rightarrow> [] | Some check \<Rightarrow> [check])
          @ (if ar_RuntimeType artifact = ''sandbox-process'' then sandbox_checks env else [])
          @ (if ar_RuntimeType artifact = ''wasm'' then wasm_checks env else [])
          @ capability_checks lib env artifact manifest
          @ ingress_checks lib env artifact manifest
          @ (if normalizeProfile profile = ''prod''
             then sourceBuildProvenancePreflightChecks lib env artifact @ externalCIProvenancePreflightChecks lib env artifact else [])
          @ if_check (mf_HandlerTimeoutMS manifest > 3000) ''runtime_limits_warning'' ''warning''
          @ if_check (externalDependencies caps \<noteq> []) ''external_dependencies_declared'' ''info''
          @ concat (map (dependency_checks (gl_uni lib) env) (mf_ExternalDeps manifest)))"

definition preflightHasBlocking :: "PreflightCheck list \<Rightarrow> bool" where
  "preflightHasBlocking checks = list_ex (\<lambda>c. pc_Severity c = ''blocking'') checks"

end
