(* ===== verification/Plugin_Governance.thy ===== *)
theory Plugin_Governance
  imports Plugin_Preflight
begin

text \<open>
  The release gate, \<open>src/internal/pluginmanager/governance.go\<close>, with its tables in \<open>repository.go\<close>: reviews, overrides of warnings,
  advisories, vulnerabilities, benchmarks and supply-chain assessments, and the quarantine of running plugins.

  A query that fails does so by \<open>gov_io\<close>; \<open>gov_hash\<close> holds the hashes of the fingerprint.  \<open>walk\<close> is the order in which Go visits the nodes
  of an ordering declaration.
\<close>

section \<open>Tables\<close>

record ReviewRecord =
  rv_ID :: int
  rv_PluginID :: string
  rv_ArtifactID :: string
  rv_Profile :: string
  rv_RiskLevel :: string
  rv_ArtifactHash :: string
  rv_ConfigHash :: string
  rv_ScopeHash :: string
  rv_RolloutHash :: string
  rv_RuntimeLimitsHash :: string
  rv_FeaturesHash :: string
  rv_PolicyHash :: string
  rv_Decision :: string
  rv_Notes :: string
  rv_ReviewedBy :: string
  rv_CreatedAt :: int

record WarningOverrideRecord =
  wo_ID :: int
  wo_PluginID :: string
  wo_ArtifactID :: string
  wo_Profile :: string
  wo_Action :: string
  wo_PolicyHash :: string
  wo_Reason :: string
  wo_CreatedBy :: string
  wo_ExpiresAt :: int
  wo_CreatedAt :: int

record AdvisoryRecord =
  ad_ID :: int
  ad_AdvisoryID :: string
  ad_Status :: string
  ad_Action :: string
  ad_ArtifactSHA256 :: string
  ad_PluginID :: string
  ad_VersionRange :: string
  ad_DependencyName :: string
  ad_DependencyRange :: string
  ad_CreatedBy :: string
  ad_CreatedAt :: int
  ad_UpdatedAt :: int

record VulnerabilityRecord =
  vu_ID :: int
  vu_VulnerabilityID :: string
  vu_Status :: string
  vu_PackageName :: string
  vu_VersionRange :: string
  vu_Action :: string
  vu_CreatedBy :: string
  vu_CreatedAt :: int
  vu_UpdatedAt :: int

record BenchmarkRecord =
  bm_ID :: int
  bm_PluginID :: string
  bm_ArtifactID :: string
  bm_Profile :: string
  bm_P99MS :: rat
  bm_ErrorRate :: rat
  bm_ActiveProxyCapacity :: int
  bm_BaselineDiff :: rat
  bm_CreatedAt :: int

record plugin_row =
  pw_ID :: string
  pw_DesiredArtifactID :: string
  pw_ConfigJSON :: string
  pw_RuntimeState :: string
  pw_ActiveArtifactID :: string

record gov_tables =
  gt_plugins :: "plugin_row list"
  gt_artifacts :: "ArtifactRecord list"
  gt_reviews :: "ReviewRecord list"
  gt_overrides :: "WarningOverrideRecord list"
  gt_advisories :: "AdvisoryRecord list"
  gt_vulnerabilities :: "VulnerabilityRecord list"
  gt_benchmarks :: "BenchmarkRecord list"
  gt_assessments :: "SupplyChainAssessment list"
  gt_nextID :: int

text \<open>Failures of the queries of one operation, its time, and the number of connections in the plugin.\<close>

record gov_io =
  gq_plugin :: "error option"
  gq_plugins :: "error option"
  gq_artifact :: "error option"
  gq_reviews :: "error option"
  gq_overrides :: "error option"
  gq_advisories :: "error option"
  gq_vulnerabilities :: "error option"
  gq_benchmarks :: "error option"
  gq_assessments :: "error option"
  gq_exec :: "error option"
  gq_lastID :: "error option"
  gq_now :: int
  gq_active :: int

definition query :: "error option \<Rightarrow> 'a \<Rightarrow> 'a result" where
  "query failure x = (case failure of Some e \<Rightarrow> Inl e | None \<Rightarrow> Inr x)"

text \<open>\<open>ORDER BY t DESC, id DESC\<close>.\<close>

definition latest_first :: "('r \<Rightarrow> int) \<Rightarrow> ('r \<Rightarrow> int) \<Rightarrow> 'r list \<Rightarrow> 'r list" where
  "latest_first t rowid rows = sort_key (\<lambda>r. - t r) (sort_key (\<lambda>r. - rowid r) rows)"

definition ErrPluginNotFound :: error where
  "ErrPluginNotFound = ErrorString ''plugin not found''"

definition repo_Plugin :: "gov_io \<Rightarrow> string \<Rightarrow> gov_tables \<Rightarrow> plugin_row result" where
  "repo_Plugin io pluginID t = (case query (gq_plugin io) (row_select pw_ID pluginID (gt_plugins t)) of
      Inl e \<Rightarrow> Inl e | Inr None \<Rightarrow> Inl ErrPluginNotFound | Inr (Some p) \<Rightarrow> Inr p)"

definition repo_Artifact :: "gov_io \<Rightarrow> string \<Rightarrow> gov_tables \<Rightarrow> ArtifactRecord result" where
  "repo_Artifact io artifactID t = (case query (gq_artifact io) (row_select ar_ID artifactID (gt_artifacts t)) of
      Inl e \<Rightarrow> Inl e | Inr None \<Rightarrow> Inl (ErrorString ''plugin artifact not found'') | Inr (Some a) \<Rightarrow> Inr a)"

definition ListReviews :: "gov_io \<Rightarrow> string \<Rightarrow> gov_tables \<Rightarrow> ReviewRecord list result" where
  "ListReviews io pluginID t = query (gq_reviews io)
     (latest_first rv_CreatedAt rv_ID (filter (\<lambda>r. pluginID \<noteq> [] \<longrightarrow> rv_PluginID r = pluginID) (gt_reviews t)))"

definition SaveReview :: "gov_io \<Rightarrow> ReviewRecord \<Rightarrow> gov_tables \<Rightarrow> ReviewRecord result \<times> gov_tables" where
  "SaveReview io review t =
    (let review = review\<lparr>rv_ID := gt_nextID t,
           rv_CreatedAt := (if rv_CreatedAt review = 0 then Unix (gq_now io) else rv_CreatedAt review),
           rv_Profile := (if rv_Profile review = [] then ''dev'' else rv_Profile review),
           rv_RiskLevel := (if rv_RiskLevel review = [] then ''low'' else rv_RiskLevel review),
           rv_Decision := (if rv_Decision review = [] then ''approved'' else rv_Decision review)\<rparr>
     in case gq_exec io of
          Some e \<Rightarrow> (Inl e, t)
        | None \<Rightarrow> (query (gq_lastID io) review, t\<lparr>gt_reviews := gt_reviews t @ [review], gt_nextID := gt_nextID t + 1\<rparr>))"

definition SaveWarningOverride :: "gov_io \<Rightarrow> WarningOverrideRecord \<Rightarrow> gov_tables \<Rightarrow> WarningOverrideRecord result \<times> gov_tables" where
  "SaveWarningOverride io override t =
    (let override = override\<lparr>wo_ID := gt_nextID t,
           wo_CreatedAt := (if wo_CreatedAt override = 0 then Unix (gq_now io) else wo_CreatedAt override),
           wo_Profile := (if wo_Profile override = [] then ''dev'' else wo_Profile override)\<rparr>
     in case gq_exec io of
          Some e \<Rightarrow> (Inl e, t)
        | None \<Rightarrow> (query (gq_lastID io) override, t\<lparr>gt_overrides := gt_overrides t @ [override], gt_nextID := gt_nextID t + 1\<rparr>))"

definition override_matches :: "int \<Rightarrow> string \<Rightarrow> string \<Rightarrow> string \<Rightarrow> string \<Rightarrow> string \<Rightarrow> WarningOverrideRecord \<Rightarrow> bool" where
  "override_matches now pluginID artifactID profile action policyHash o' =
    (wo_PluginID o' = pluginID \<and> wo_ArtifactID o' = artifactID \<and> wo_Profile o' = profile \<and> wo_Action o' = action
     \<and> wo_PolicyHash o' = policyHash \<and> wo_ExpiresAt o' > Unix now)"

definition ActiveWarningOverride :: "gov_io \<Rightarrow> string \<Rightarrow> string \<Rightarrow> string \<Rightarrow> string \<Rightarrow> string \<Rightarrow> gov_tables \<Rightarrow> WarningOverrideRecord option result" where
  "ActiveWarningOverride io pluginID artifactID profile action policyHash t = query (gq_overrides io)
     (case latest_first wo_ExpiresAt wo_ID (filter (override_matches (gq_now io) pluginID artifactID profile action policyHash) (gt_overrides t)) of
        [] \<Rightarrow> None | o' # _ \<Rightarrow> Some o')"

definition ListAdvisories :: "gov_io \<Rightarrow> string \<Rightarrow> gov_tables \<Rightarrow> AdvisoryRecord list result" where
  "ListAdvisories io pluginID t = query (gq_advisories io)
     (latest_first ad_UpdatedAt ad_ID (filter (\<lambda>a. pluginID \<noteq> [] \<longrightarrow> ad_PluginID a = pluginID \<or> ad_PluginID a = []) (gt_advisories t)))"

definition ListVulnerabilities :: "gov_io \<Rightarrow> string \<Rightarrow> gov_tables \<Rightarrow> VulnerabilityRecord list result" where
  "ListVulnerabilities io packageName t = query (gq_vulnerabilities io)
     (latest_first vu_UpdatedAt vu_ID (filter (\<lambda>v. TrimSpace packageName \<noteq> [] \<longrightarrow> vu_PackageName v = TrimSpace packageName) (gt_vulnerabilities t)))"

definition ListBenchmarks :: "gov_io \<Rightarrow> string \<Rightarrow> gov_tables \<Rightarrow> BenchmarkRecord list result" where
  "ListBenchmarks io pluginID t = query (gq_benchmarks io)
     (latest_first bm_CreatedAt bm_ID (filter (\<lambda>b. pluginID \<noteq> [] \<longrightarrow> bm_PluginID b = pluginID) (gt_benchmarks t)))"

definition ListSupplyChainAssessments :: "gov_io \<Rightarrow> string \<Rightarrow> string \<Rightarrow> gov_tables \<Rightarrow> SupplyChainAssessment list result" where
  "ListSupplyChainAssessments io pluginID artifactID t = query (gq_assessments io)
     (latest_first sa_CreatedAt sa_ID (filter (\<lambda>a. (pluginID \<noteq> [] \<longrightarrow> sa_PluginID a = pluginID) \<and> (artifactID \<noteq> [] \<longrightarrow> sa_ArtifactID a = artifactID)) (gt_assessments t)))"

section \<open>What speaks against an artifact\<close>

definition ignored :: "string \<Rightarrow> string \<Rightarrow> bool" where
  "ignored status action = (status = ''acknowledged'' \<or> status = [] \<and> action = ''mitigate'')"

definition gate_severity :: "string \<Rightarrow> string \<Rightarrow> string" where
  "gate_severity status action =
    (if status = ''revoked'' then ''blocking'' else if action \<in> {''denylist'', ''quarantine'', ''revoke''} then ''blocking'' else ''warning'')"

definition advisoryIgnored :: "AdvisoryRecord \<Rightarrow> bool" where
  "advisoryIgnored a = ignored (ad_Status a) (ad_Action a)"

definition advisorySeverity :: "AdvisoryRecord \<Rightarrow> string" where
  "advisorySeverity a = gate_severity (ad_Status a) (ad_Action a)"

definition vulnerabilityIgnored :: "VulnerabilityRecord \<Rightarrow> bool" where
  "vulnerabilityIgnored v = ignored (vu_Status v) (vu_Action v)"

definition vulnerabilityGateSeverity :: "VulnerabilityRecord \<Rightarrow> string" where
  "vulnerabilityGateSeverity v = gate_severity (vu_Status v) (vu_Action v)"

definition advisoryMatches :: "AdvisoryRecord \<Rightarrow> ArtifactRecord \<Rightarrow> Manifest \<Rightarrow> bool" where
  "advisoryMatches a artifact manifest =
    (if ad_ArtifactSHA256 a \<noteq> [] \<and> ad_ArtifactSHA256 a = ar_SHA256 artifact then True
     else if ad_PluginID a \<noteq> [] \<and> ad_PluginID a = ar_PluginID artifact then versionInRange (ar_Version artifact) (ad_VersionRange a)
     else ad_DependencyName a \<noteq> [] \<and> list_ex (\<lambda>dep. dp_Name dep = ad_DependencyName a \<and> versionInRange (dp_Version dep) (ad_DependencyRange a))
       (sbomDependencies (mf_SupplyChain manifest)))"

definition vulnerabilityMatchesDependency :: "VulnerabilityRecord \<Rightarrow> dependencySpec \<Rightarrow> bool" where
  "vulnerabilityMatchesDependency v dep = (vu_PackageName v = dp_Name dep \<and> versionInRange (dp_Version dep) (vu_VersionRange v))"

definition advisory_issue :: "ArtifactRecord \<Rightarrow> AdvisoryRecord \<Rightarrow> GovernanceIssue" where
  "advisory_issue artifact a =
    (let severity = advisorySeverity a in
     issue (if severity = ''blocking'' \<and> ad_Status a = ''revoked'' then ''advisory_revoke'' else ''advisory_'' @ ad_Action a) severity (ar_PluginID artifact) (ar_ID artifact))"

definition advisoryIssues :: "gov_io \<Rightarrow> gov_tables \<Rightarrow> ArtifactRecord \<Rightarrow> Manifest \<Rightarrow> GovernanceIssue list result" where
  "advisoryIssues io t artifact manifest = (case ListAdvisories io (ar_PluginID artifact) t of
      Inl e \<Rightarrow> Inl e
    | Inr advisories \<Rightarrow> Inr (map (advisory_issue artifact) (filter (\<lambda>a. \<not> advisoryIgnored a \<and> advisoryMatches a artifact manifest) advisories)))"

definition vulnerability_issue :: "ArtifactRecord \<Rightarrow> VulnerabilityRecord \<Rightarrow> GovernanceIssue" where
  "vulnerability_issue artifact v =
    (let severity = vulnerabilityGateSeverity v in
     issue (if severity = ''blocking'' \<and> vu_Status v = ''revoked'' then ''vulnerability_revoke''
            else if vu_Action v = [] then ''vulnerability_database'' else ''vulnerability_'' @ vu_Action v) severity (ar_PluginID artifact) (ar_ID artifact))"

definition vulnerabilityIssues :: "gov_io \<Rightarrow> gov_tables \<Rightarrow> ArtifactRecord \<Rightarrow> Manifest \<Rightarrow> GovernanceIssue list result" where
  "vulnerabilityIssues io t artifact manifest = (case ListVulnerabilities io [] t of
      Inl e \<Rightarrow> Inl e
    | Inr vs \<Rightarrow> Inr (concat (map (\<lambda>dep. map (vulnerability_issue artifact) (filter (\<lambda>v. \<not> vulnerabilityIgnored v \<and> vulnerabilityMatchesDependency v dep) vs))
        (sbomDependencies (mf_SupplyChain manifest)))))"

definition supplyChainGovernanceIssues :: "gov_io \<Rightarrow> gov_tables \<Rightarrow> ArtifactRecord \<Rightarrow> GovernanceIssue list result" where
  "supplyChainGovernanceIssues io t artifact = (case ListSupplyChainAssessments io (ar_PluginID artifact) (ar_ID artifact) t of
      Inl e \<Rightarrow> Inl e
    | Inr [] \<Rightarrow> Inr []
    | Inr (latest # _) \<Rightarrow>
        if sa_Status latest = ''allowed'' then Inr []
        else Inr (sortedIssues (sa_Issues latest @ blocking artifact ''supply_chain_blocked'' (sa_Status latest = ''blocked'' \<and> sa_Issues latest = []))))"

definition benchmark_row_issues :: "int \<Rightarrow> ArtifactRecord \<Rightarrow> Manifest \<Rightarrow> PolicySnapshot \<Rightarrow> BenchmarkRecord \<Rightarrow> GovernanceIssue list" where
  "benchmark_row_issues active artifact manifest policy b =
    (if bm_BaselineDiff b \<ge> po_BlockBenchmarkRegression policy then blocking artifact ''benchmark_regression_blocking'' True
     else if bm_BaselineDiff b \<ge> po_WarnBenchmarkRegression policy then [issue ''benchmark_regression_warning'' ''warning'' (ar_PluginID artifact) (ar_ID artifact)] else [])
    @ blocking artifact ''benchmark_runtime_limit_exceeded'' (mf_HandlerTimeoutMS manifest > 0 \<and> bm_P99MS b > of_int (mf_HandlerTimeoutMS manifest))
    @ blocking artifact ''active_proxy_capacity_exceeded'' (bm_ActiveProxyCapacity b > 0 \<and> active > bm_ActiveProxyCapacity b)
    @ (if bm_ErrorRate b \<ge> 1 / 20 then blocking artifact ''benchmark_error_rate_blocking'' True
       else if bm_ErrorRate b \<ge> 1 / 100 then [issue ''benchmark_error_rate_warning'' ''warning'' (ar_PluginID artifact) (ar_ID artifact)] else [])"

definition benchmarkIssues :: "gov_io \<Rightarrow> gov_tables \<Rightarrow> ArtifactRecord \<Rightarrow> Manifest \<Rightarrow> PolicySnapshot \<Rightarrow> GovernanceIssue list result" where
  "benchmarkIssues io t artifact manifest policy = (case ListBenchmarks io (ar_PluginID artifact) t of
      Inl e \<Rightarrow> Inl e
    | Inr bs \<Rightarrow> Inr (case find (\<lambda>b. bm_ArtifactID b = ar_ID artifact \<and> bm_Profile b = po_Profile policy) bs of
        None \<Rightarrow> [] | Some b \<Rightarrow> benchmark_row_issues (gq_active io) artifact manifest policy b))"

section \<open>Conflicts with other plugins\<close>

definition ingressCapabilityFromArtifact :: "gov_lib \<Rightarrow> ArtifactRecord \<Rightarrow> Manifest \<Rightarrow> IngressCapability option" where
  "ingressCapabilityFromArtifact lib artifact manifest =
    (let of_manifest = (case gl_manifestSummary lib manifest of Inl _ \<Rightarrow> None | Inr s \<Rightarrow> cs_Ingress s) in
     case gl_summary lib (defaultJSONObject (gl_json lib) (ar_CapabilitiesSummaryJSON artifact)) of
       Inl _ \<Rightarrow> of_manifest
     | Inr s \<Rightarrow> (case cs_Ingress s of None \<Rightarrow> of_manifest | Some i \<Rightarrow> Some i))"

definition ingressCapabilitiesConflict :: "(string \<Rightarrow> string) \<Rightarrow> IngressCapability option \<Rightarrow> IngressCapability option \<Rightarrow> bool" where
  "ingressCapabilitiesConflict uni a b = (case (a, b) of
      (Some a, Some b) \<Rightarrow> ig_Port a > 0 \<and> ig_Port b > 0 \<and> ig_Port a = ig_Port b
        \<and> ingressListenerNetwork uni (ig_Protocol a) = ingressListenerNetwork uni (ig_Protocol b) \<and> ingressBindOverlaps (ig_Bind a) (ig_Bind b)
    | _ \<Rightarrow> False)"

text \<open>The other enabled plugins, with the active artifacts that can be read.\<close>

definition enabled_others :: "gov_lib \<Rightarrow> gov_io \<Rightarrow> gov_tables \<Rightarrow> string \<Rightarrow> (ArtifactRecord \<times> Manifest) list" where
  "enabled_others lib io t pluginID = List.map_filter (\<lambda>p.
     if pw_ID p = pluginID \<or> pw_RuntimeState p \<noteq> ''enabled'' \<or> pw_ActiveArtifactID p = [] then None
     else case repo_Artifact io (pw_ActiveArtifactID p) t of
       Inl _ \<Rightarrow> None
     | Inr a \<Rightarrow> (case gl_manifest lib (ar_MetadataJSON a) of Inl _ \<Rightarrow> None | Inr mf \<Rightarrow> Some (a, mf))) (gt_plugins t)"

definition conflictAnalysis ::
  "gov_lib \<Rightarrow> (string list \<Rightarrow> string list) \<Rightarrow> IngressReservedListener list \<Rightarrow> gov_io \<Rightarrow> gov_tables \<Rightarrow> string \<Rightarrow> ArtifactRecord \<Rightarrow> Manifest \<Rightarrow> GovernanceIssue list result" where
  "conflictAnalysis lib walk reserved io t pluginID artifact manifest =
    (if ''ingress.service/v1'' \<notin> set (mf_ExtensionPoints manifest) then Inr []
     else case query (gq_plugins io) (enabled_others lib io t pluginID) of
       Inl e \<Rightarrow> Inl e
     | Inr others \<Rightarrow>
         (let target = ingressCapabilityFromArtifact lib artifact manifest;
              found = (\<lambda>code. issue code ''blocking'' pluginID (ar_ID artifact));
              providers = providerSingletons (mf_Capabilities manifest)
          in Inr (sortedIssues (
             map (\<lambda>_. found ''ingress_reserved_listener_conflict'')
               (filter (\<lambda>l. case target of None \<Rightarrow> False | Some i \<Rightarrow> ingressReservedListenerConflict (gl_uni lib) i l) reserved)
             @ map (\<lambda>_. found ''ingress_port_conflict'')
               (filter (\<lambda>(a, mf). ''ingress.service/v1'' \<in> set (mf_ExtensionPoints mf)
                  \<and> ingressCapabilitiesConflict (gl_uni lib) target (ingressCapabilityFromArtifact lib a mf)) others)
             @ concat (map (\<lambda>(a, mf). map (\<lambda>_. found ''provider_singleton'') (intersectStrings providers (providerSingletons (mf_Capabilities mf)))) others)
             @ (if middlewareCycle walk (mf_Capabilities manifest) then [found ''middleware_ordering_cycle''] else [])))))"

section \<open>Reviews\<close>

record gov_hash =
  gh_config :: "string \<Rightarrow> string" \<comment> \<open>\<open>stableHashJSONRaw\<close>\<close>
  gh_values :: "string list \<Rightarrow> string"
  gh_rollout :: "string \<Rightarrow> string"
  gh_limits :: "Manifest \<Rightarrow> string"
  gh_policy :: "PolicySnapshot \<Rightarrow> string"

definition policyHash :: "gov_hash \<Rightarrow> PolicySnapshot \<Rightarrow> string" where
  "policyHash h policy = gh_policy h (policy\<lparr>po_CreatedAt := 0\<rparr>)"

definition requiredFeatureInputs :: "jobject \<Rightarrow> string list" where
  "requiredFeatureInputs caps = uniqueSortedStrings (concat (map (\<lambda>key. stringSlice (map_of caps key)) [''required_features'', ''features''])
     @ map (\<lambda>c. ''runtime_capability:'' @ c) (stringSlice (map_of (obj_member caps ''runtime'') ''required_capabilities'')))"

record governanceFingerprintValue =
  fp_ArtifactHash :: string
  fp_ConfigHash :: string
  fp_ScopeHash :: string
  fp_RolloutHash :: string
  fp_RuntimeLimitsHash :: string
  fp_FeaturesHash :: string
  fp_PolicyHash :: string

definition governanceFingerprint :: "gov_hash \<Rightarrow> string \<Rightarrow> ArtifactRecord \<Rightarrow> Manifest \<Rightarrow> string \<Rightarrow> governanceFingerprintValue" where
  "governanceFingerprint h configJSON artifact manifest ph =
    \<lparr>fp_ArtifactHash = ar_SHA256 artifact, fp_ConfigHash = gh_config h configJSON,
     fp_ScopeHash = gh_values h (sc_Values (manifestScope (mf_Capabilities manifest))), fp_RolloutHash = gh_rollout h (manifestRollout (mf_Capabilities manifest)),
     fp_RuntimeLimitsHash = gh_limits h manifest, fp_FeaturesHash = gh_values h (requiredFeatureInputs (mf_Capabilities manifest)), fp_PolicyHash = ph\<rparr>"

definition review_fingerprint :: "ReviewRecord \<Rightarrow> governanceFingerprintValue" where
  "review_fingerprint r = \<lparr>fp_ArtifactHash = rv_ArtifactHash r, fp_ConfigHash = rv_ConfigHash r, fp_ScopeHash = rv_ScopeHash r, fp_RolloutHash = rv_RolloutHash r,
     fp_RuntimeLimitsHash = rv_RuntimeLimitsHash r, fp_FeaturesHash = rv_FeaturesHash r, fp_PolicyHash = rv_PolicyHash r\<rparr>"

definition review_approves :: "string \<Rightarrow> string \<Rightarrow> string \<Rightarrow> governanceFingerprintValue \<Rightarrow> ReviewRecord \<Rightarrow> bool" where
  "review_approves pluginID artifactID profile fp r =
    (rv_PluginID r = pluginID \<and> rv_ArtifactID r = artifactID \<and> rv_Profile r = profile \<and> rv_Decision r = ''approved'' \<and> review_fingerprint r = fp)"

definition hasMatchingReview :: "gov_io \<Rightarrow> string \<Rightarrow> string \<Rightarrow> string \<Rightarrow> governanceFingerprintValue \<Rightarrow> gov_tables \<Rightarrow> bool result" where
  "hasMatchingReview io pluginID artifactID profile fp t = (case ListReviews io pluginID t of
      Inl e \<Rightarrow> Inl e | Inr reviews \<Rightarrow> Inr (list_ex (review_approves pluginID artifactID profile fp) reviews))"

section \<open>The gate\<close>

record GovernanceDecision =
  gd_OK :: bool
  gd_Action :: string
  gd_Profile :: string
  gd_RiskLevel :: string
  gd_PolicyHash :: string
  gd_ReviewRequired :: bool
  gd_WarningOverrideUsed :: bool
  gd_Issues :: "GovernanceIssue list"
  gd_Checks :: "GovernanceIssue list"
  gd_CreatedAt :: int

definition artifactManifest :: "gov_lib \<Rightarrow> gov_io \<Rightarrow> string \<Rightarrow> string \<Rightarrow> gov_tables \<Rightarrow> (ArtifactRecord \<times> Manifest) result" where
  "artifactManifest lib io pluginID artifactID t = (case repo_Artifact io artifactID t of
      Inl e \<Rightarrow> Inl e
    | Inr artifact \<Rightarrow>
        if ar_PluginID artifact \<noteq> pluginID then Inl (ErrorString ''artifact plugin_id does not match'')
        else (case gl_manifest lib (ar_MetadataJSON artifact) of Inl e \<Rightarrow> Inl e | Inr manifest \<Rightarrow> Inr (artifact, manifest)))"

record gate =
  ga_lib :: gov_lib
  ga_hash :: gov_hash
  ga_env :: preflight_env
  ga_walk :: "string list \<Rightarrow> string list"
  ga_reserved :: "IngressReservedListener list"

definition gate_env :: "gate \<Rightarrow> gov_io \<Rightarrow> gov_tables \<Rightarrow> ArtifactRecord \<Rightarrow> preflight_env" where
  "gate_env g io t artifact = (ga_env g)\<lparr>pe_assessments := ListSupplyChainAssessments io (ar_PluginID artifact) (ar_ID artifact) t\<rparr>"

definition gate_policy :: "gate \<Rightarrow> string \<Rightarrow> gov_io \<Rightarrow> PolicySnapshot" where
  "gate_policy g profile io = policySnapshot (pe_requireConformance (ga_env g)) profile (gq_now io)"

definition append_issues :: "GovernanceIssue list result \<Rightarrow> GovernanceIssue list result \<Rightarrow> GovernanceIssue list result" where
  "append_issues a b = (case a of Inl e \<Rightarrow> Inl e | Inr xs \<Rightarrow> (case b of Inl e \<Rightarrow> Inl e | Inr ys \<Rightarrow> Inr (xs @ ys)))"

definition check_issues :: "string \<Rightarrow> string \<Rightarrow> PreflightCheck list \<Rightarrow> GovernanceIssue list" where
  "check_issues pluginID artifactID checks = map (\<lambda>c. issue (pc_Code c) (pc_Severity c) pluginID artifactID) checks"

text \<open>All issues but the one about a missing review.\<close>

definition gate_issues :: "gate \<Rightarrow> gov_io \<Rightarrow> gov_tables \<Rightarrow> string \<Rightarrow> string \<Rightarrow> string \<Rightarrow> ArtifactRecord \<Rightarrow> Manifest \<Rightarrow> GovernanceIssue list result" where
  "gate_issues g io t pluginID profile configJSON artifact manifest =
    (let lib = ga_lib g; env = gate_env g io t artifact in
     append_issues (Inr ((if validateArtifactGate lib env artifact \<noteq> None then [issue ''artifact_not_loadable'' ''blocking'' pluginID (ar_ID artifact)] else [])
         @ check_issues pluginID (ar_ID artifact) (preflightChecks lib env (gq_now io) artifact manifest profile configJSON)))
     (append_issues (advisoryIssues io t artifact manifest)
     (append_issues (vulnerabilityIssues io t artifact manifest)
     (append_issues (supplyChainGovernanceIssues io t artifact)
     (append_issues (benchmarkIssues io t artifact manifest (gate_policy g profile io))
       (conflictAnalysis lib (ga_walk g) (ga_reserved g) io t pluginID artifact manifest))))))"

text \<open>The desired artifact and configuration that are judged: given, or the stored ones; with \<open>preview\<close> also of a plugin that is not stored.\<close>

definition gate_subject :: "gov_io \<Rightarrow> gov_tables \<Rightarrow> bool \<Rightarrow> string \<Rightarrow> string \<Rightarrow> string \<Rightarrow> (string \<times> string) result" where
  "gate_subject io t preview pluginID artifactID configJSON = (case repo_Plugin io pluginID t of
      Inl e \<Rightarrow> if \<not> preview \<or> e \<noteq> ErrPluginNotFound then Inl e else Inr (artifactID, if configJSON = [] then ''{}'' else configJSON)
    | Inr p \<Rightarrow> Inr (if artifactID = [] then pw_DesiredArtifactID p else artifactID, if configJSON = [] then pw_ConfigJSON p else configJSON))"

definition risk_of :: "gov_lib \<Rightarrow> ArtifactRecord \<Rightarrow> Manifest \<Rightarrow> string" where
  "risk_of lib artifact manifest = riskLevel (gl_uni lib) (ar_RuntimeType artifact = ''sandbox-process'') (requiredRuntimeCapabilities lib artifact)
     (mf_Secrets manifest) (mf_Capabilities manifest)"

definition review_issues :: "gate \<Rightarrow> gov_io \<Rightarrow> gov_tables \<Rightarrow> string \<Rightarrow> string \<Rightarrow> string \<Rightarrow> ArtifactRecord \<Rightarrow> Manifest \<Rightarrow> GovernanceIssue list result" where
  "review_issues g io t pluginID profile configJSON artifact manifest =
    (let policy = gate_policy g profile io in
     if \<not> reviewRequired profile (risk_of (ga_lib g) artifact manifest) policy then Inr []
     else case hasMatchingReview io pluginID (ar_ID artifact) profile
         (governanceFingerprint (ga_hash g) configJSON artifact manifest (policyHash (ga_hash g) policy)) t of
       Inl e \<Rightarrow> Inl e
     | Inr ok \<Rightarrow> Inr (if ok then [] else [issue ''review_required'' ''blocking'' pluginID (ar_ID artifact)]))"

definition evaluateGovernance :: "gate \<Rightarrow> gov_io \<Rightarrow> gov_tables \<Rightarrow> bool \<Rightarrow> string \<Rightarrow> string \<Rightarrow> string \<Rightarrow> string \<Rightarrow> string \<Rightarrow> GovernanceDecision result" where
  "evaluateGovernance g io t preview pluginID artifactID action profile configJSON =
    (let action = (if action = [] then ''enable'' else action); profile = normalizeProfile profile; policy = gate_policy g profile io in
     case gate_subject io t preview pluginID artifactID configJSON of Inl e \<Rightarrow> Inl e
     | Inr (artifactID, configJSON) \<Rightarrow> (case artifactManifest (ga_lib g) io pluginID artifactID t of Inl e \<Rightarrow> Inl e
     | Inr (artifact, manifest) \<Rightarrow>
        (case append_issues (gate_issues g io t pluginID profile configJSON artifact manifest) (review_issues g io t pluginID profile configJSON artifact manifest) of
           Inl e \<Rightarrow> Inl e
         | Inr issues \<Rightarrow>
             (let decision = \<lparr>gd_OK = False, gd_Action = action, gd_Profile = profile, gd_RiskLevel = risk_of (ga_lib g) artifact manifest,
                    gd_PolicyHash = policyHash (ga_hash g) policy, gd_ReviewRequired = reviewRequired profile (risk_of (ga_lib g) artifact manifest) policy,
                    gd_WarningOverrideUsed = False, gd_Issues = sortedIssues issues,
                    gd_Checks = check_issues pluginID artifactID (preflightChecks (ga_lib g) (gate_env g io t artifact) (gq_now io) artifact manifest profile configJSON),
                    gd_CreatedAt = Unix (gq_now io)\<rparr>
              in if hasBlockingIssue (gd_Issues decision) then Inr decision
                 else if hasWarningIssue (gd_Issues decision) \<and> \<not> preview
                 then (case ActiveWarningOverride io pluginID artifactID profile action (gd_PolicyHash decision) t of
                     Inl e \<Rightarrow> Inl e
                   | Inr None \<Rightarrow> Inr decision
                   | Inr (Some _) \<Rightarrow> Inr (decision\<lparr>gd_WarningOverrideUsed := True, gd_OK := True\<rparr>))
                 else Inr (decision\<lparr>gd_OK := True\<rparr>)))))"

definition governanceBlockedError :: "GovernanceDecision \<Rightarrow> error" where
  "governanceBlockedError d = (case find (\<lambda>i. gi_Severity i = ''blocking'') (gd_Issues d) of
      Some i \<Rightarrow> ErrorString (''governance gate blocked: '' @ gi_Code i)
    | None \<Rightarrow> (case find (\<lambda>i. gi_Severity i = ''warning'') (gd_Issues d) of
        Some i \<Rightarrow> ErrorString (''governance warning requires override: '' @ gi_Code i)
      | None \<Rightarrow> ErrorString ''governance gate blocked''))"

definition EvaluateReleaseGate :: "gate \<Rightarrow> gov_io \<Rightarrow> gov_tables \<Rightarrow> string \<Rightarrow> string \<Rightarrow> string \<Rightarrow> string \<Rightarrow> string \<Rightarrow> error option \<times> GovernanceDecision option" where
  "EvaluateReleaseGate g io t pluginID artifactID action profile configJSON =
    (case evaluateGovernance g io t True pluginID artifactID action profile configJSON of
       Inl e \<Rightarrow> (Some e, None)
     | Inr d \<Rightarrow>
         if hasBlockingIssue (gd_Issues d) then (Some (governanceBlockedError d), Some (d\<lparr>gd_OK := False\<rparr>))
         else if hasWarningIssue (gd_Issues d) then
           (case ActiveWarningOverride io pluginID artifactID (normalizeProfile profile) action (gd_PolicyHash d) t of
              Inl e \<Rightarrow> (Some e, Some d)
            | Inr None \<Rightarrow> (Some (governanceBlockedError d), Some (d\<lparr>gd_OK := False\<rparr>))
            | Inr (Some _) \<Rightarrow> if \<not> gd_OK d then (Some (governanceBlockedError d), Some (d\<lparr>gd_WarningOverrideUsed := True\<rparr>))
                else (None, Some (d\<lparr>gd_WarningOverrideUsed := True\<rparr>)))
         else if \<not> gd_OK d then (Some (governanceBlockedError d), Some d)
         else (None, Some d))"

section \<open>Recording reviews, overrides and advisories\<close>

record GovernanceReviewRequest =
  rr_ArtifactID :: string
  rr_Profile :: string
  rr_Decision :: string
  rr_Notes :: string

definition CreateReview :: "gate \<Rightarrow> gov_io \<Rightarrow> string \<Rightarrow> string \<Rightarrow> string \<Rightarrow> GovernanceReviewRequest \<Rightarrow> gov_tables \<Rightarrow> ReviewRecord result \<times> gov_tables" where
  "CreateReview g io current actor pluginID req t = (case repo_Plugin io pluginID t of
      Inl e \<Rightarrow> (Inl e, t)
    | Inr p \<Rightarrow>
        (let artifactID = (if rr_ArtifactID req = [] then pw_DesiredArtifactID p else rr_ArtifactID req);
             profile = (if rr_Profile req = [] then current else rr_Profile req);
             decision = (if rr_Decision req = [] then ''approved'' else rr_Decision req)
         in if decision \<notin> {''approved'', ''rejected''} then (Inl (ErrorString ''invalid review decision''), t)
            else (case artifactManifest (ga_lib g) io pluginID artifactID t of
                Inl e \<Rightarrow> (Inl e, t)
              | Inr (artifact, manifest) \<Rightarrow>
                  (let fp = governanceFingerprint (ga_hash g) (pw_ConfigJSON p) artifact manifest (policyHash (ga_hash g) (gate_policy g profile io)) in
                   SaveReview io \<lparr>rv_ID = 0, rv_PluginID = pluginID, rv_ArtifactID = artifactID, rv_Profile = normalizeProfile profile,
                     rv_RiskLevel = risk_of (ga_lib g) artifact manifest, rv_ArtifactHash = fp_ArtifactHash fp, rv_ConfigHash = fp_ConfigHash fp,
                     rv_ScopeHash = fp_ScopeHash fp, rv_RolloutHash = fp_RolloutHash fp, rv_RuntimeLimitsHash = fp_RuntimeLimitsHash fp,
                     rv_FeaturesHash = fp_FeaturesHash fp, rv_PolicyHash = fp_PolicyHash fp, rv_Decision = decision, rv_Notes = rr_Notes req,
                     rv_ReviewedBy = actor, rv_CreatedAt = 0\<rparr> t))))"

record WarningOverrideRequest =
  wr_ArtifactID :: string
  wr_Profile :: string
  wr_Action :: string
  wr_Reason :: string
  wr_TTLSeconds :: int

definition override_ttl :: "PolicySnapshot \<Rightarrow> int \<Rightarrow> int" where
  "override_ttl policy ttl = (if ttl \<le> 0 \<or> ttl > po_WarningOverrideTTLSeconds policy then po_WarningOverrideTTLSeconds policy else ttl)"

definition CreateWarningOverride ::
  "gate \<Rightarrow> gov_io \<Rightarrow> string \<Rightarrow> string \<Rightarrow> string \<Rightarrow> WarningOverrideRequest \<Rightarrow> gov_tables \<Rightarrow> WarningOverrideRecord result \<times> gov_tables" where
  "CreateWarningOverride g io current actor pluginID req t = (case repo_Plugin io pluginID t of
      Inl e \<Rightarrow> (Inl e, t)
    | Inr p \<Rightarrow>
        (let artifactID = (if wr_ArtifactID req = [] then pw_DesiredArtifactID p else wr_ArtifactID req);
             profile = (if wr_Profile req = [] then current else wr_Profile req);
             action = (if wr_Action req = [] then ''enable'' else wr_Action req);
             now = Unix (gq_now io)
         in if TrimSpace (wr_Reason req) = [] then (Inl (ErrorString ''reason is required''), t)
            else (case evaluateGovernance g io t False pluginID artifactID action profile (pw_ConfigJSON p) of
                Inl e \<Rightarrow> (Inl e, t)
              | Inr decision \<Rightarrow>
                  if hasBlockingIssue (gd_Issues decision) then (Inl (ErrorString ''blocking governance issues cannot be overridden''), t)
                  else if \<not> hasWarningIssue (gd_Issues decision) then (Inl (ErrorString ''no warning governance issues require override''), t)
                  else SaveWarningOverride io \<lparr>wo_ID = 0, wo_PluginID = pluginID, wo_ArtifactID = artifactID, wo_Profile = normalizeProfile profile,
                     wo_Action = action, wo_PolicyHash = gd_PolicyHash decision, wo_Reason = wr_Reason req, wo_CreatedBy = actor,
                     wo_ExpiresAt = now + override_ttl (gate_policy g profile io) (wr_TTLSeconds req), wo_CreatedAt = now\<rparr> t)))"

definition advisory_row :: "gov_io \<Rightarrow> string \<Rightarrow> AdvisoryRecord \<Rightarrow> gov_tables \<Rightarrow> AdvisoryRecord" where
  "advisory_row io actor req t = req\<lparr>ad_ID := gt_nextID t, ad_Status := (if ad_Status req = [] then ''active'' else ad_Status req),
     ad_Action := (if ad_Action req = [] then ''denylist'' else ad_Action req), ad_CreatedBy := actor,
     ad_CreatedAt := Unix (gq_now io), ad_UpdatedAt := Unix (gq_now io)\<rparr>"

definition repo_UpsertAdvisory :: "gov_io \<Rightarrow> string \<Rightarrow> AdvisoryRecord \<Rightarrow> gov_tables \<Rightarrow> AdvisoryRecord result \<times> gov_tables" where
  "repo_UpsertAdvisory io actor req t =
    (if TrimSpace (ad_AdvisoryID req) = [] then (Inl (ErrorString ''advisory_id is required''), t)
     else case gq_exec io of
       Some e \<Rightarrow> (Inl e, t)
     | None \<Rightarrow>
         (let new = advisory_row io actor req t;
              rows = row_upsert ad_AdvisoryID new (\<lambda>old. new\<lparr>ad_ID := ad_ID old, ad_CreatedAt := ad_CreatedAt old\<rparr>) (gt_advisories t);
              t = t\<lparr>gt_advisories := rows, gt_nextID := gt_nextID t + 1\<rparr>
          in (case query (gq_advisories io) (row_select ad_AdvisoryID (ad_AdvisoryID req) rows) of
                Inl e \<Rightarrow> Inl e | Inr None \<Rightarrow> Inl Sql_ErrNoRows | Inr (Some a) \<Rightarrow> Inr a, t)))"

text \<open>
  The plugins that are taken out of dispatch, with their runtime state: enabled ones whose active artifact the advisory, or the
  vulnerability, concerns.  What taking out does to connections is in \<open>Plugin_Lifecycle\<close>.
\<close>

definition quarantine_row :: "gov_lib \<Rightarrow> gov_io \<Rightarrow> gov_tables \<Rightarrow> (ArtifactRecord \<Rightarrow> Manifest \<Rightarrow> bool) \<Rightarrow> plugin_row \<Rightarrow> plugin_row" where
  "quarantine_row lib io t concerns p =
    (if pw_RuntimeState p \<noteq> ''enabled'' \<or> pw_ActiveArtifactID p = [] then p
     else case repo_Artifact io (pw_ActiveArtifactID p) t of
       Inl _ \<Rightarrow> p
     | Inr artifact \<Rightarrow> if concerns artifact (manifest_or_zero lib (ar_MetadataJSON artifact)) then p\<lparr>pw_RuntimeState := ''draining''\<rparr> else p)"

definition quarantine_where :: "gov_lib \<Rightarrow> gov_io \<Rightarrow> (ArtifactRecord \<Rightarrow> Manifest \<Rightarrow> bool) \<Rightarrow> gov_tables \<Rightarrow> gov_tables" where
  "quarantine_where lib io concerns t =
    (if gq_plugins io \<noteq> None then t else t\<lparr>gt_plugins := map (quarantine_row lib io t concerns) (gt_plugins t)\<rparr>)"

definition quarantineAffected :: "gov_lib \<Rightarrow> gov_io \<Rightarrow> AdvisoryRecord \<Rightarrow> gov_tables \<Rightarrow> gov_tables" where
  "quarantineAffected lib io advisory = quarantine_where lib io (advisoryMatches advisory)"

definition quarantineAffectedByVulnerability :: "gov_lib \<Rightarrow> gov_io \<Rightarrow> VulnerabilityRecord \<Rightarrow> gov_tables \<Rightarrow> gov_tables" where
  "quarantineAffectedByVulnerability lib io v = quarantine_where lib io
     (\<lambda>_ manifest. list_ex (vulnerabilityMatchesDependency v) (sbomDependencies (mf_SupplyChain manifest)))"

definition UpsertAdvisory :: "gov_lib \<Rightarrow> gov_io \<Rightarrow> string \<Rightarrow> AdvisoryRecord \<Rightarrow> gov_tables \<Rightarrow> AdvisoryRecord result \<times> gov_tables" where
  "UpsertAdvisory lib io actor req t = (case repo_UpsertAdvisory io actor req t of
      (Inl e, t) \<Rightarrow> (Inl e, t)
    | (Inr a, t) \<Rightarrow> (Inr a, if ad_Action a \<in> {''quarantine'', ''revoke''} then quarantineAffected lib io a t else t))"

record AdvisoryRescanReport =
  rp_Scanned :: int
  rp_Blocking :: int
  rp_Warnings :: int
  rp_OK :: bool
  rp_Matches :: "(string \<times> string \<times> string) list"
  rp_QuarantineRuns :: int

text \<open>One advisory against one artifact; the last component is the set of advisories that have quarantined already.\<close>

definition rescan_one :: "gov_lib \<Rightarrow> gov_io \<Rightarrow> bool \<Rightarrow> ArtifactRecord \<Rightarrow> Manifest \<Rightarrow> AdvisoryRecord
    \<Rightarrow> AdvisoryRescanReport \<times> gov_tables \<times> string set \<Rightarrow> AdvisoryRescanReport \<times> gov_tables \<times> string set" where
  "rescan_one lib io active artifact manifest a = (\<lambda>(report, t, quarantined).
    if advisoryIgnored a \<or> \<not> advisoryMatches a artifact manifest then (report, t, quarantined)
    else let report = (if advisorySeverity a = ''blocking'' then report\<lparr>rp_Blocking := rp_Blocking report + 1, rp_OK := False\<rparr>
             else report\<lparr>rp_Warnings := rp_Warnings report + 1\<rparr>);
           report = report\<lparr>rp_Matches := rp_Matches report @ [(ar_PluginID artifact, ar_ID artifact, ad_AdvisoryID a)]\<rparr>
      in if active \<and> (ad_Action a \<in> {''quarantine'', ''revoke''} \<or> ad_Status a = ''revoked'') \<and> ad_AdvisoryID a \<notin> quarantined
         then (report\<lparr>rp_QuarantineRuns := rp_QuarantineRuns report + 1\<rparr>, quarantineAffected lib io a t, insert (ad_AdvisoryID a) quarantined)
         else (report, t, quarantined))"

definition rescan_artifact :: "gov_lib \<Rightarrow> gov_io \<Rightarrow> string \<Rightarrow> string set \<Rightarrow> AdvisoryRecord list \<Rightarrow> ArtifactRecord
    \<Rightarrow> AdvisoryRescanReport \<times> gov_tables \<times> string set \<Rightarrow> AdvisoryRescanReport \<times> gov_tables \<times> string set" where
  "rescan_artifact lib io artifactID active advisories artifact = (\<lambda>(report, t, quarantined).
    if artifactID \<noteq> [] \<and> ar_ID artifact \<noteq> artifactID then (report, t, quarantined)
    else (case gl_manifest lib (ar_MetadataJSON artifact) of
        Inl _ \<Rightarrow> (report, t, quarantined)
      | Inr manifest \<Rightarrow> fold (rescan_one lib io (ar_ID artifact \<in> active) artifact manifest) advisories
          (report\<lparr>rp_Scanned := rp_Scanned report + 1\<rparr>, t, quarantined)))"

definition RescanAdvisories :: "gov_lib \<Rightarrow> gov_io \<Rightarrow> string \<Rightarrow> string \<Rightarrow> gov_tables \<Rightarrow> AdvisoryRescanReport result \<times> gov_tables" where
  "RescanAdvisories lib io pluginID artifactID t = (case query (gq_artifact io) (filter (\<lambda>a. pluginID \<noteq> [] \<longrightarrow> ar_PluginID a = pluginID) (gt_artifacts t)) of
      Inl e \<Rightarrow> (Inl e, t)
    | Inr artifacts \<Rightarrow> (case ListAdvisories io pluginID t of
        Inl e \<Rightarrow> (Inl e, t)
      | Inr advisories \<Rightarrow> (case query (gq_plugins io) (gt_plugins t) of
          Inl e \<Rightarrow> (Inl e, t)
        | Inr plugins \<Rightarrow>
            (let active = pw_ActiveArtifactID ` set (filter (\<lambda>p. pw_ActiveArtifactID p \<noteq> []) plugins) in
             case fold (rescan_artifact lib io artifactID active advisories) artifacts
                 (\<lparr>rp_Scanned = 0, rp_Blocking = 0, rp_Warnings = 0, rp_OK = True, rp_Matches = [], rp_QuarantineRuns = 0\<rparr>, t, {}) of
               (report, t, _) \<Rightarrow> (Inr (report\<lparr>rp_Matches := sort_key fst (sort_key (fst \<circ> snd) (sort_key (snd \<circ> snd) (rp_Matches report)))\<rparr>), t)))))"

section \<open>What the gate lets through\<close>

lemma set_sortedIssues [simp]: "set (sortedIssues is) = set is"
  by (simp add: sortedIssues_def)

lemma set_latest_first [simp]: "set (latest_first t rowid rows) = set rows"
  by (simp add: latest_first_def)

lemma query_Inr [simp]: "query f x = Inr y \<longleftrightarrow> f = None \<and> x = y"
  by (cases f) (auto simp: query_def)

lemma append_issues_Inr: "append_issues a b = Inr zs \<longleftrightarrow> (\<exists>xs ys. a = Inr xs \<and> b = Inr ys \<and> zs = xs @ ys)"
  by (auto simp: append_issues_def split: sum.splits)

text \<open>A decision that was reached: what was judged, and from which issues.\<close>

definition judged :: "gate \<Rightarrow> gov_io \<Rightarrow> gov_tables \<Rightarrow> string \<Rightarrow> string \<Rightarrow> string \<Rightarrow> GovernanceDecision \<Rightarrow> ArtifactRecord \<Rightarrow> Manifest \<Rightarrow> GovernanceIssue list \<Rightarrow> GovernanceIssue list \<Rightarrow> bool" where
  "judged g io t pluginID profile cfg d artifact manifest is rs =
    (gate_issues g io t pluginID (normalizeProfile profile) cfg artifact manifest = Inr is
     \<and> review_issues g io t pluginID (normalizeProfile profile) cfg artifact manifest = Inr rs
     \<and> gd_Issues d = sortedIssues (is @ rs) \<and> gd_PolicyHash d = policyHash (ga_hash g) (gate_policy g (normalizeProfile profile) io))"

lemma evaluateGovernance_judged:
  assumes "evaluateGovernance g io t True pluginID artifactID action profile configJSON = Inr d"
  obtains aid cfg artifact manifest "is" rs where
    "gate_subject io t True pluginID artifactID configJSON = Inr (aid, cfg)" "artifactManifest (ga_lib g) io pluginID aid t = Inr (artifact, manifest)"
    "judged g io t pluginID profile cfg d artifact manifest is rs" "gd_OK d \<longleftrightarrow> \<not> hasBlockingIssue (gd_Issues d)"
proof -
  note eq = assms [unfolded evaluateGovernance_def Let_def]
  obtain aid cfg where s: "gate_subject io t True pluginID artifactID configJSON = Inr (aid, cfg)"
    using eq by (cases "gate_subject io t True pluginID artifactID configJSON") auto
  obtain artifact manifest where a: "artifactManifest (ga_lib g) io pluginID aid t = Inr (artifact, manifest)"
    using eq [unfolded s sum.case prod.case] by (cases "artifactManifest (ga_lib g) io pluginID aid t") auto
  obtain zs where z: "append_issues (gate_issues g io t pluginID (normalizeProfile profile) cfg artifact manifest)
      (review_issues g io t pluginID (normalizeProfile profile) cfg artifact manifest) = Inr zs"
    using eq [unfolded s a sum.case prod.case] by (cases "append_issues (gate_issues g io t pluginID (normalizeProfile profile) cfg artifact manifest)
      (review_issues g io t pluginID (normalizeProfile profile) cfg artifact manifest)") auto
  from z obtain "is" rs where ir: "gate_issues g io t pluginID (normalizeProfile profile) cfg artifact manifest = Inr is"
    "review_issues g io t pluginID (normalizeProfile profile) cfg artifact manifest = Inr rs" "zs = is @ rs"
    by (auto simp: append_issues_Inr)
  note d = eq [unfolded s a z sum.case prod.case]
  have "judged g io t pluginID profile cfg d artifact manifest is rs" "gd_OK d \<longleftrightarrow> \<not> hasBlockingIssue (gd_Issues d)"
    using d ir unfolding judged_def by (auto split: if_splits)
  with that s a show ?thesis by blast
qed

lemma gate_issues_parts:
  assumes "gate_issues g io t pluginID profile cfg artifact manifest = Inr is"
  shows "\<exists>adv vul rest. advisoryIssues io t artifact manifest = Inr adv \<and> vulnerabilityIssues io t artifact manifest = Inr vul
    \<and> is = (if validateArtifactGate (ga_lib g) (gate_env g io t artifact) artifact \<noteq> None then [issue ''artifact_not_loadable'' ''blocking'' pluginID (ar_ID artifact)] else [])
        @ check_issues pluginID (ar_ID artifact) (preflightChecks (ga_lib g) (gate_env g io t artifact) (gq_now io) artifact manifest profile cfg) @ adv @ vul @ rest"
  using assms unfolding gate_issues_def Let_def append_issues_Inr by (elim exE conjE) auto

lemma advisory_raised:
  assumes "advisoryIssues io t artifact manifest = Inr adv" "a \<in> set (gt_advisories t)" "ad_PluginID a \<in> {[], ar_PluginID artifact}"
    "advisoryMatches a artifact manifest" "\<not> advisoryIgnored a" "advisorySeverity a = ''blocking''"
  shows "\<exists>i \<in> set adv. gi_Severity i = ''blocking''"
proof -
  have "advisory_issue artifact a \<in> set adv"
    using assms by (auto simp: advisoryIssues_def ListAdvisories_def split: sum.splits)
  moreover have "gi_Severity (advisory_issue artifact a) = ''blocking''" using assms(6) by (simp add: advisory_issue_def issue_def Let_def)
  ultimately show ?thesis by blast
qed

lemma vulnerability_raised:
  assumes "vulnerabilityIssues io t artifact manifest = Inr vul" "v \<in> set (gt_vulnerabilities t)" "dep \<in> set (sbomDependencies (mf_SupplyChain manifest))"
    "vulnerabilityMatchesDependency v dep" "\<not> vulnerabilityIgnored v" "vulnerabilityGateSeverity v = ''blocking''"
  shows "\<exists>i \<in> set vul. gi_Severity i = ''blocking''"
proof -
  have empty: "TrimSpace [] = []" by code_simp
  have "vulnerability_issue artifact v \<in> set vul"
    using assms by (fastforce simp: vulnerabilityIssues_def ListVulnerabilities_def empty split: sum.splits)
  moreover have "gi_Severity (vulnerability_issue artifact v) = ''blocking''" using assms(6) by (simp add: vulnerability_issue_def issue_def Let_def)
  ultimately show ?thesis by blast
qed

lemma review_found:
  assumes "review_issues g io t pluginID profile cfg artifact manifest = Inr []"
    "reviewRequired profile (risk_of (ga_lib g) artifact manifest) (gate_policy g profile io)"
  shows "\<exists>r \<in> set (gt_reviews t). review_approves pluginID (ar_ID artifact) profile
    (governanceFingerprint (ga_hash g) cfg artifact manifest (policyHash (ga_hash g) (gate_policy g profile io))) r"
  using assms by (auto simp: review_issues_def Let_def hasMatchingReview_def ListReviews_def list_ex_iff split: sum.splits if_splits)

lemma review_issues_blocking: "review_issues g io t pluginID profile cfg artifact manifest = Inr rs \<Longrightarrow> rs \<noteq> [] \<Longrightarrow> \<exists>i \<in> set rs. gi_Severity i = ''blocking''"
  by (auto simp: review_issues_def Let_def issue_def split: sum.splits if_splits)

lemma ActiveWarningOverride_found:
  assumes "ActiveWarningOverride io pluginID artifactID profile action ph t = Inr (Some x)"
  shows "\<exists>o' \<in> set (gt_overrides t). override_matches (gq_now io) pluginID artifactID profile action ph o'"
proof -
  have "x \<in> set (latest_first wo_ExpiresAt wo_ID (filter (override_matches (gq_now io) pluginID artifactID profile action ph) (gt_overrides t)))"
    using assms by (auto simp: ActiveWarningOverride_def simp del: set_latest_first split: list.splits)
  then show ?thesis by auto
qed

lemma release_allowed:
  assumes "EvaluateReleaseGate g io t pluginID artifactID action profile configJSON = (None, d)"
  shows "\<exists>d'. evaluateGovernance g io t True pluginID artifactID action profile configJSON = Inr d' \<and> \<not> hasBlockingIssue (gd_Issues d')
    \<and> (hasWarningIssue (gd_Issues d') \<longrightarrow> (\<exists>o' \<in> set (gt_overrides t).
        override_matches (gq_now io) pluginID artifactID (normalizeProfile profile) action (gd_PolicyHash d') o'))"
  using assms ActiveWarningOverride_found
  by (auto simp: EvaluateReleaseGate_def split: sum.splits if_splits option.splits)

lemma check_issues_blocking: "preflightHasBlocking checks \<Longrightarrow> \<exists>i \<in> set (check_issues pluginID artifactID checks). gi_Severity i = ''blocking''"
  by (auto simp: preflightHasBlocking_def list_ex_iff check_issues_def issue_def)

lemma gate_issues_clean:
  assumes "gate_issues g io t (ar_PluginID artifact) profile cfg artifact manifest = Inr is" and none: "\<forall>i \<in> set is. gi_Severity i \<noteq> ''blocking''"
  shows "validateArtifactGate (ga_lib g) (gate_env g io t artifact) artifact = None"
    and "\<not> preflightHasBlocking (preflightChecks (ga_lib g) (gate_env g io t artifact) (gq_now io) artifact manifest profile cfg)"
    and "\<forall>a \<in> set (gt_advisories t). ad_PluginID a \<in> {[], ar_PluginID artifact} \<and> advisoryMatches a artifact manifest \<and> \<not> advisoryIgnored a
      \<longrightarrow> advisorySeverity a \<noteq> ''blocking''"
    and "\<forall>v \<in> set (gt_vulnerabilities t). \<forall>dep \<in> set (sbomDependencies (mf_SupplyChain manifest)).
      vulnerabilityMatchesDependency v dep \<and> \<not> vulnerabilityIgnored v \<longrightarrow> vulnerabilityGateSeverity v \<noteq> ''blocking''"
proof -
  let ?checks = "preflightChecks (ga_lib g) (gate_env g io t artifact) (gq_now io) artifact manifest profile cfg"
  obtain adv vul rest where parts: "advisoryIssues io t artifact manifest = Inr adv" "vulnerabilityIssues io t artifact manifest = Inr vul"
    "is = (if validateArtifactGate (ga_lib g) (gate_env g io t artifact) artifact \<noteq> None
        then [issue ''artifact_not_loadable'' ''blocking'' (ar_PluginID artifact) (ar_ID artifact)] else [])
      @ check_issues (ar_PluginID artifact) (ar_ID artifact) ?checks @ adv @ vul @ rest"
    using gate_issues_parts [OF assms(1)] by blast
  show "validateArtifactGate (ga_lib g) (gate_env g io t artifact) artifact = None" using none parts(3) by (auto simp: issue_def split: if_splits)
  have sub: "set (check_issues (ar_PluginID artifact) (ar_ID artifact) ?checks) \<subseteq> set is" "set adv \<subseteq> set is" "set vul \<subseteq> set is"
    unfolding parts(3) by auto
  show "\<not> preflightHasBlocking ?checks" using check_issues_blocking sub(1) none by blast
  show "\<forall>a \<in> set (gt_advisories t). ad_PluginID a \<in> {[], ar_PluginID artifact} \<and> advisoryMatches a artifact manifest \<and> \<not> advisoryIgnored a
      \<longrightarrow> advisorySeverity a \<noteq> ''blocking''"
    using advisory_raised [OF parts(1)] sub(2) none by blast
  show "\<forall>v \<in> set (gt_vulnerabilities t). \<forall>dep \<in> set (sbomDependencies (mf_SupplyChain manifest)).
      vulnerabilityMatchesDependency v dep \<and> \<not> vulnerabilityIgnored v \<longrightarrow> vulnerabilityGateSeverity v \<noteq> ''blocking''"
    using vulnerability_raised [OF parts(2)] sub(3) none by blast
qed

lemma prod_review_required: "risk_of lib artifact manifest = ''high'' \<Longrightarrow> reviewRequired ''prod'' (risk_of lib artifact manifest) (gate_policy g ''prod'' io)"
  by (simp add: reviewRequired_def gate_policy_def policySnapshot_def policyForProfile_def normalizeProfile_def riskRank_def Let_def)

text \<open>C33: what the release gate lets through: the artifact is loadable and no preflight check blocks it; no advisory or vulnerability on record that
  concerns it is blocking, unless it was acknowledged; where the policy asks for a review, one with an approval of exactly this artifact,
  configuration and policy is on record; and with any warning, an override of exactly this plugin, artifact, profile, action
  and policy that has not expired.\<close>

theorem release_gate_sound:
  assumes "EvaluateReleaseGate g io t pluginID artifactID action profile configJSON = (None, d)"
  shows "\<exists>aid cfg artifact manifest. gate_subject io t True pluginID artifactID configJSON = Inr (aid, cfg)
    \<and> artifactManifest (ga_lib g) io pluginID aid t = Inr (artifact, manifest)
    \<and> validateArtifactGate (ga_lib g) (gate_env g io t artifact) artifact = None
    \<and> \<not> preflightHasBlocking (preflightChecks (ga_lib g) (gate_env g io t artifact) (gq_now io) artifact manifest (normalizeProfile profile) cfg)
    \<and> (\<forall>a \<in> set (gt_advisories t). ad_PluginID a \<in> {[], pluginID} \<and> advisoryMatches a artifact manifest \<and> \<not> advisoryIgnored a \<longrightarrow> advisorySeverity a \<noteq> ''blocking'')
    \<and> (\<forall>v \<in> set (gt_vulnerabilities t). \<forall>dep \<in> set (sbomDependencies (mf_SupplyChain manifest)).
        vulnerabilityMatchesDependency v dep \<and> \<not> vulnerabilityIgnored v \<longrightarrow> vulnerabilityGateSeverity v \<noteq> ''blocking'')
    \<and> (normalizeProfile profile = ''prod'' \<and> risk_of (ga_lib g) artifact manifest = ''high'' \<longrightarrow> (\<exists>r \<in> set (gt_reviews t).
        review_approves pluginID (ar_ID artifact) ''prod'' (governanceFingerprint (ga_hash g) cfg artifact manifest (policyHash (ga_hash g) (gate_policy g ''prod'' io))) r))
    \<and> (\<forall>issues i. gate_issues g io t pluginID (normalizeProfile profile) cfg artifact manifest = Inr issues \<and> i \<in> set issues \<and> gi_Severity i = ''warning'' \<longrightarrow>
        (\<exists>o' \<in> set (gt_overrides t). override_matches (gq_now io) pluginID artifactID (normalizeProfile profile) action
           (policyHash (ga_hash g) (gate_policy g (normalizeProfile profile) io)) o'))"
proof -
  obtain d' where d': "evaluateGovernance g io t True pluginID artifactID action profile configJSON = Inr d'" "\<not> hasBlockingIssue (gd_Issues d')"
    "hasWarningIssue (gd_Issues d') \<longrightarrow> (\<exists>o' \<in> set (gt_overrides t).
        override_matches (gq_now io) pluginID artifactID (normalizeProfile profile) action (gd_PolicyHash d') o')"
    using release_allowed [OF assms] by blast
  obtain aid cfg artifact manifest "is" rs where j: "gate_subject io t True pluginID artifactID configJSON = Inr (aid, cfg)"
    "artifactManifest (ga_lib g) io pluginID aid t = Inr (artifact, manifest)" "judged g io t pluginID profile cfg d' artifact manifest is rs"
    using evaluateGovernance_judged [OF d'(1)] by metis
  have "is": "gate_issues g io t pluginID (normalizeProfile profile) cfg artifact manifest = Inr is"
    and rs: "review_issues g io t pluginID (normalizeProfile profile) cfg artifact manifest = Inr rs"
    and eq: "gd_Issues d' = sortedIssues (is @ rs)" "gd_PolicyHash d' = policyHash (ga_hash g) (gate_policy g (normalizeProfile profile) io)"
    using j(3) by (simp_all add: judged_def)
  have none: "\<forall>i \<in> set is \<union> set rs. gi_Severity i \<noteq> ''blocking''" using d'(2) eq(1) by (auto simp: hasBlockingIssue_def list_ex_iff)
  have warn: "i \<in> set is \<Longrightarrow> gi_Severity i = ''warning'' \<Longrightarrow> hasWarningIssue (gd_Issues d')" for i using eq(1) by (auto simp: hasWarningIssue_def list_ex_iff)
  have "ar_PluginID artifact = pluginID" using j(2) by (auto simp: artifactManifest_def split: sum.splits if_splits)
  note clean = gate_issues_clean [of g io t artifact "normalizeProfile profile" cfg manifest "is", unfolded this, OF "is"]
  have review: "\<exists>r \<in> set (gt_reviews t). review_approves pluginID (ar_ID artifact) ''prod''
      (governanceFingerprint (ga_hash g) cfg artifact manifest (policyHash (ga_hash g) (gate_policy g ''prod'' io))) r"
    if "normalizeProfile profile = ''prod''" "risk_of (ga_lib g) artifact manifest = ''high''"
  proof -
    have "rs = []" using review_issues_blocking [OF rs] none by blast
    then show ?thesis using review_found [of g io t pluginID "''prod''" cfg artifact manifest] rs that prod_review_required by simp
  qed
  have override: "\<exists>o' \<in> set (gt_overrides t). override_matches (gq_now io) pluginID artifactID (normalizeProfile profile) action
      (policyHash (ga_hash g) (gate_policy g (normalizeProfile profile) io)) o'" if "i \<in> set is" "gi_Severity i = ''warning''" for i
    using d'(3) warn [OF that] eq(2) by simp
  show ?thesis
    using j(1,2) clean none review override "is" by (intro exI [of _ aid] exI [of _ cfg] exI [of _ artifact] exI [of _ manifest] conjI) auto
qed

definition gov_lib_demo :: "Manifest \<Rightarrow> gov_lib" where
  "gov_lib_demo manifest = \<lparr>gl_json = \<lparr>jc_Valid = (\<lambda>_. True), jc_Unmarshal = (\<lambda>_. Inr (VObj [])), jc_Marshal = (\<lambda>_. Inr ''{}'')\<rparr>,
     gl_manifest = (\<lambda>_. Inr manifest), gl_summary = (\<lambda>_. Inr \<lparr>cs_Ingress = None, cs_RequiredCapabilities = []\<rparr>),
     gl_manifestSummary = (\<lambda>_. Inr \<lparr>cs_Ingress = None, cs_RequiredCapabilities = []\<rparr>), gl_conformance = (\<lambda>_. Inr None), gl_uni = (\<lambda>s. s),
     gl_fold = (=), gl_wild = (\<lambda>_. False), gl_dur = (\<lambda>_. None)\<rparr>"

definition preflight_demo :: preflight_env where
  "preflight_demo = \<lparr>pe_secrets = Inr [], pe_sandboxMetadata = None, pe_sandboxService = False, pe_sandboxApply = ([], []), pe_wasmExtension = None,
     pe_wasmBlocked = [], pe_wasmABI = None, pe_wasmSmoke = pcheck [] ''info'', pe_egressEnforced = False, pe_processEnforced = False,
     pe_ingressEnabled = False, pe_requireConformance = False, pe_builds = Inr [], pe_assessments = Inr [], pe_external = (\<lambda>_. None),
     pe_goVersion = ''go1.24'', pe_goos = ''linux'', pe_goarch = ''amd64''\<rparr>"

definition gate_demo :: "Manifest \<Rightarrow> gate" where
  "gate_demo manifest = \<lparr>ga_lib = gov_lib_demo manifest, ga_hash = \<lparr>gh_config = (\<lambda>s. s), gh_values = concat, gh_rollout = (\<lambda>s. s), gh_limits = (\<lambda>_. ''l''), gh_policy = po_Profile\<rparr>,
     ga_env = preflight_demo, ga_walk = (\<lambda>xs. xs), ga_reserved = []\<rparr>"

definition manifest_demo :: Manifest where
  "manifest_demo = \<lparr>mf_ConfigSchema = [], mf_Secrets = [], mf_Capabilities = [(''governance'', VObj [(''risk_level'', VStr ''high'')])],
     mf_SupplyChain = [(''modules'', VArr [VObj [(''path'', VStr ''lib/a''), (''version'', VStr ''v1.4.0'')]])], mf_ExtensionPoints = [''connection.filter/v1''],
     mf_ExternalDeps = [], mf_HandlerTimeoutMS = 4000\<rparr>"

definition artifact_demo :: ArtifactRecord where
  "artifact_demo = \<lparr>ar_ID = ''a1'', ar_PluginID = ''p'', ar_Version = ''1.0.0'', ar_SHA256 = ''aa'', ar_PackageSHA256 = [], ar_Status = ''loadable'',
     ar_ArtifactType = ''binary'', ar_RuntimeType = ''go-plugin'', ar_GoVersion = ''go1.24'', ar_GOOS = ''linux'', ar_GOARCH = ''amd64'', ar_MetadataJSON = ''{}'',
     ar_CapabilitiesSummaryJSON = ''{}''\<rparr>"

definition gov_io_ok :: "int \<Rightarrow> gov_io" where
  "gov_io_ok now = \<lparr>gq_plugin = None, gq_plugins = None, gq_artifact = None, gq_reviews = None, gq_overrides = None, gq_advisories = None, gq_vulnerabilities = None,
     gq_benchmarks = None, gq_assessments = None, gq_exec = None, gq_lastID = None, gq_now = now, gq_active = 0\<rparr>"

definition gov_demo :: gov_tables where
  "gov_demo = \<lparr>gt_plugins = [\<lparr>pw_ID = ''p'', pw_DesiredArtifactID = ''a1'', pw_ConfigJSON = ''{}'', pw_RuntimeState = ''enabled'', pw_ActiveArtifactID = ''a1''\<rparr>],
     gt_artifacts = [artifact_demo], gt_reviews = [], gt_overrides = [], gt_advisories = [], gt_vulnerabilities = [], gt_benchmarks = [], gt_assessments = [], gt_nextID = 1\<rparr>"

text \<open>A high-risk plugin with a warning, after a review and an override.\<close>

definition review_demo :: "string \<Rightarrow> ReviewRecord" where
  "review_demo decision = \<lparr>rv_ID = 1, rv_PluginID = ''p'', rv_ArtifactID = ''a1'', rv_Profile = ''prod'', rv_RiskLevel = ''high'', rv_ArtifactHash = ''aa'', rv_ConfigHash = ''{}'',
     rv_ScopeHash = [], rv_RolloutHash = ''all'', rv_RuntimeLimitsHash = ''l'', rv_FeaturesHash = [], rv_PolicyHash = ''prod'', rv_Decision = decision, rv_Notes = [],
     rv_ReviewedBy = ''alice'', rv_CreatedAt = 100\<rparr>"

definition override_demo :: WarningOverrideRecord where
  "override_demo = \<lparr>wo_ID = 2, wo_PluginID = ''p'', wo_ArtifactID = ''a1'', wo_Profile = ''prod'', wo_Action = ''enable'', wo_PolicyHash = ''prod'',
     wo_Reason = ''load test'', wo_CreatedBy = ''bob'', wo_ExpiresAt = 86500, wo_CreatedAt = 100\<rparr>"

definition gov_reviewed :: gov_tables where
  "gov_reviewed = gov_demo\<lparr>gt_reviews := [review_demo ''approved''], gt_overrides := [override_demo], gt_nextID := 3\<rparr>"

definition gate_demo_runs :: "gov_tables \<Rightarrow> int \<Rightarrow> error option \<times> GovernanceDecision option" where
  "gate_demo_runs t now = EvaluateReleaseGate (gate_demo manifest_demo) (gov_io_ok now) t ''p'' ''a1'' ''enable'' ''prod'' []"

definition demo_io :: gov_io where
  "demo_io = gov_io_ok (200 * Second)"

lemma demo_parts:
  "gate_subject demo_io gov_reviewed preview ''p'' ''a1'' [] = Inr (''a1'', ''{}'')" "gate_subject demo_io gov_reviewed preview ''p'' ''a1'' ''{}'' = Inr (''a1'', ''{}'')"
  "artifactManifest (ga_lib (gate_demo manifest_demo)) demo_io ''p'' ''a1'' gov_reviewed = Inr (artifact_demo, manifest_demo)"
  "gate_issues (gate_demo manifest_demo) demo_io gov_reviewed ''p'' ''prod'' ''{}'' artifact_demo manifest_demo = Inr [issue ''runtime_limits_warning'' ''warning'' ''p'' ''a1'']"
  "review_issues (gate_demo manifest_demo) demo_io gov_reviewed ''p'' ''prod'' ''{}'' artifact_demo manifest_demo = Inr []"
  "ActiveWarningOverride demo_io ''p'' ''a1'' ''prod'' ''enable'' ''prod'' gov_reviewed = Inr (Some override_demo)"
  "policyHash (ga_hash (gate_demo manifest_demo)) (gate_policy (gate_demo manifest_demo) ''prod'' demo_io) = ''prod''" "normalizeProfile ''prod'' = ''prod''"
  by code_simp+

lemma demo_decision:
  "\<exists>d. evaluateGovernance (gate_demo manifest_demo) demo_io gov_reviewed preview ''p'' ''a1'' ''enable'' ''prod'' cfg = Inr d
     \<and> gd_OK d \<and> gd_Issues d = [issue ''runtime_limits_warning'' ''warning'' ''p'' ''a1''] \<and> gd_PolicyHash d = ''prod''" if "cfg \<in> {[], ''{}''}"
  using that by (auto simp: evaluateGovernance_def demo_parts append_issues_def Let_def sortedIssues_def hasBlockingIssue_def hasWarningIssue_def issue_def)

lemma demo_gate_open: "fst (gate_demo_runs gov_reviewed (200 * Second)) = None"
proof -
  obtain d where "evaluateGovernance (gate_demo manifest_demo) demo_io gov_reviewed True ''p'' ''a1'' ''enable'' ''prod'' [] = Inr d"
    "gd_OK d" "gd_Issues d = [issue ''runtime_limits_warning'' ''warning'' ''p'' ''a1'']" "gd_PolicyHash d = ''prod''" using demo_decision by blast
  then show ?thesis
    by (simp add: gate_demo_runs_def EvaluateReleaseGate_def demo_parts hasBlockingIssue_def hasWarningIssue_def issue_def flip: demo_io_def)
qed

theorem release_gate_sound_witness:
  "fst (gate_demo_runs gov_reviewed (200 * Second)) = None
   \<and> (\<exists>aid cfg artifact manifest. gate_subject (gov_io_ok (200 * Second)) gov_reviewed True ''p'' ''a1'' [] = Inr (aid, cfg)
      \<and> validateArtifactGate (gov_lib_demo manifest_demo) (gate_env (gate_demo manifest_demo) (gov_io_ok (200 * Second)) gov_reviewed artifact) artifact = None
      \<and> artifactManifest (gov_lib_demo manifest_demo) (gov_io_ok (200 * Second)) ''p'' aid gov_reviewed = Inr (artifact, manifest))"
proof -
  note ok = demo_gate_open
  obtain d where "gate_demo_runs gov_reviewed (200 * Second) = (None, d)" using ok by (cases "gate_demo_runs gov_reviewed (200 * Second)") simp
  from release_gate_sound [OF this [unfolded gate_demo_runs_def]] ok show ?thesis by (simp add: gate_demo_def) blast
qed

text \<open>What does not depend on the reviews.\<close>

lemma reads_no_review:
  "repo_Plugin io p (t\<lparr>gt_reviews := rs\<rparr>) = repo_Plugin io p t" "repo_Artifact io a (t\<lparr>gt_reviews := rs\<rparr>) = repo_Artifact io a t"
  "ActiveWarningOverride io p a f c h (t\<lparr>gt_reviews := rs\<rparr>) = ActiveWarningOverride io p a f c h t"
  "ListAdvisories io p (t\<lparr>gt_reviews := rs\<rparr>) = ListAdvisories io p t" "ListVulnerabilities io n (t\<lparr>gt_reviews := rs\<rparr>) = ListVulnerabilities io n t"
  "ListBenchmarks io p (t\<lparr>gt_reviews := rs\<rparr>) = ListBenchmarks io p t" "ListSupplyChainAssessments io p a (t\<lparr>gt_reviews := rs\<rparr>) = ListSupplyChainAssessments io p a t"
  by (simp_all add: repo_Plugin_def repo_Artifact_def ActiveWarningOverride_def ListAdvisories_def ListVulnerabilities_def ListBenchmarks_def ListSupplyChainAssessments_def)

lemma gate_no_review:
  "gate_subject io (t\<lparr>gt_reviews := rs\<rparr>) preview p a c = gate_subject io t preview p a c"
  "artifactManifest lib io p a (t\<lparr>gt_reviews := rs\<rparr>) = artifactManifest lib io p a t"
  "gate_env g io (t\<lparr>gt_reviews := rs\<rparr>) artifact = gate_env g io t artifact"
  "gate_issues g io (t\<lparr>gt_reviews := rs\<rparr>) p f c artifact manifest = gate_issues g io t p f c artifact manifest"
  by (simp_all add: gate_subject_def artifactManifest_def gate_env_def gate_issues_def advisoryIssues_def vulnerabilityIssues_def
      supplyChainGovernanceIssues_def benchmarkIssues_def conflictAnalysis_def enabled_others_def reads_no_review cong: if_cong)

lemma rejection_unread:
  assumes "rv_Decision r = ''rejected''"
  shows "review_issues g io (t\<lparr>gt_reviews := gt_reviews t @ [r]\<rparr>) p f c artifact manifest = review_issues g io t p f c artifact manifest"
proof -
  have "hasMatchingReview io p a f fp (t\<lparr>gt_reviews := gt_reviews t @ [r]\<rparr>) = hasMatchingReview io p a f fp t" for a fp
    using assms by (cases "gq_reviews io") (auto simp: hasMatchingReview_def ListReviews_def list_ex_iff review_approves_def query_def)
  then show ?thesis by (simp add: review_issues_def Let_def)
qed

text \<open>a review that rejects an artifact has no effect on the gate: an approval that is on record stays in force after it.\<close>

theorem rejection_ignored:
  assumes "rv_Decision r = ''rejected''"
  shows "EvaluateReleaseGate g io (t\<lparr>gt_reviews := gt_reviews t @ [r]\<rparr>) pluginID artifactID action profile configJSON
    = EvaluateReleaseGate g io t pluginID artifactID action profile configJSON"
  unfolding EvaluateReleaseGate_def evaluateGovernance_def Let_def gate_no_review reads_no_review rejection_unread [OF assms] ..

theorem rejection_ignored_witness:
  "fst (CreateReview (gate_demo manifest_demo) (gov_io_ok (150 * Second)) ''prod'' ''carol'' ''p'' \<lparr>rr_ArtifactID = ''a1'', rr_Profile = [], rr_Decision = ''rejected'', rr_Notes = []\<rparr> gov_reviewed)
     = Inr ((review_demo ''rejected'')\<lparr>rv_ID := 3, rv_ReviewedBy := ''carol'', rv_CreatedAt := 150\<rparr>)
   \<and> fst (gate_demo_runs (gov_reviewed\<lparr>gt_reviews := gt_reviews gov_reviewed @ [(review_demo ''rejected'')\<lparr>rv_ID := 3, rv_ReviewedBy := ''carol'', rv_CreatedAt := 150\<rparr>]\<rparr>) (200 * Second)) = None"
proof -
  note demo_gate_open
  moreover have "fst (CreateReview (gate_demo manifest_demo) (gov_io_ok (150 * Second)) ''prod'' ''carol'' ''p''
      \<lparr>rr_ArtifactID = ''a1'', rr_Profile = [], rr_Decision = ''rejected'', rr_Notes = []\<rparr> gov_reviewed)
     = Inr ((review_demo ''rejected'')\<lparr>rv_ID := 3, rv_ReviewedBy := ''carol'', rv_CreatedAt := 150\<rparr>)" by code_simp
  ultimately show ?thesis
    using rejection_ignored [of "(review_demo ''rejected'')\<lparr>rv_ID := 3, rv_ReviewedBy := ''carol'', rv_CreatedAt := 150\<rparr>" "gate_demo manifest_demo" "gov_io_ok (200 * Second)" gov_reviewed]
    by (simp add: gate_demo_runs_def review_demo_def)
qed

text \<open>an override of warnings is granted only while nothing blocks the artifact, and ends within the time its policy allows, a day for production.\<close>

theorem override_bounded:
  assumes "CreateWarningOverride g io current actor pluginID req t = (Inr o', t')" "normalizeProfile (if wr_Profile req = [] then current else wr_Profile req) = ''prod''"
  shows "Unix (gq_now io) < wo_ExpiresAt o' \<and> wo_ExpiresAt o' \<le> Unix (gq_now io) + 24 * 3600
    \<and> (\<exists>d. evaluateGovernance g io t False pluginID (wo_ArtifactID o') (wo_Action o') (if wr_Profile req = [] then current else wr_Profile req)
         (case repo_Plugin io pluginID t of Inl _ \<Rightarrow> [] | Inr p \<Rightarrow> pw_ConfigJSON p) = Inr d \<and> \<not> hasBlockingIssue (gd_Issues d) \<and> wo_PolicyHash o' = gd_PolicyHash d)"
proof -
  have ttl: "0 < override_ttl (gate_policy g f io) n \<and> override_ttl (gate_policy g f io) n \<le> 24 * 3600" if "normalizeProfile f = ''prod''" for f n
    using that by (simp add: override_ttl_def gate_policy_def policySnapshot_def policyForProfile_def Let_def)
  obtain p where p: "repo_Plugin io pluginID t = Inr p" using assms(1) by (cases "repo_Plugin io pluginID t") (auto simp: CreateWarningOverride_def)
  note eq = assms(1) [unfolded CreateWarningOverride_def p sum.case Let_def]
  show ?thesis using eq ttl [OF assms(2), of "wr_TTLSeconds req"] unfolding p
    by (auto simp: SaveWarningOverride_def Let_def query_def split: if_splits sum.splits option.splits)
qed

definition override_request :: WarningOverrideRequest where
  "override_request = \<lparr>wr_ArtifactID = [], wr_Profile = [], wr_Action = [], wr_Reason = ''load test'', wr_TTLSeconds = 10 ^ 9\<rparr>"

theorem override_bounded_witness:
  "\<exists>o' t'. CreateWarningOverride (gate_demo manifest_demo) demo_io ''prod'' ''bob'' ''p'' override_request gov_reviewed = (Inr o', t')
    \<and> 200 < wo_ExpiresAt o' \<and> wo_ExpiresAt o' \<le> 86600"
proof -
  obtain d where d: "evaluateGovernance (gate_demo manifest_demo) demo_io gov_reviewed False ''p'' ''a1'' ''enable'' ''prod'' ''{}'' = Inr d"
    "gd_Issues d = [issue ''runtime_limits_warning'' ''warning'' ''p'' ''a1'']" using demo_decision by blast
  have r: "TrimSpace ''load test'' \<noteq> []" "Unix (gq_now demo_io) = 200"
    "repo_Plugin demo_io ''p'' gov_reviewed = Inr \<lparr>pw_ID = ''p'', pw_DesiredArtifactID = ''a1'', pw_ConfigJSON = ''{}'', pw_RuntimeState = ''enabled'', pw_ActiveArtifactID = ''a1''\<rparr>"
    by code_simp+
  obtain o' t' where c: "CreateWarningOverride (gate_demo manifest_demo) demo_io ''prod'' ''bob'' ''p'' override_request gov_reviewed = (Inr o', t')"
    using d r by (auto simp: CreateWarningOverride_def override_request_def Let_def hasBlockingIssue_def hasWarningIssue_def issue_def SaveWarningOverride_def
        query_def demo_io_def gov_io_ok_def)
  from override_bounded [OF c] c r(2) demo_parts(8) show ?thesis by (auto simp: override_request_def)
qed

text \<open>a plugin that does not listen itself is never checked for conflicts: neither a cycle among its ordering declarations nor a provider that
  another enabled plugin owns is reported, although both are blocking.\<close>

theorem conflicts_unchecked:
  assumes "''ingress.service/v1'' \<notin> set (mf_ExtensionPoints manifest)"
  shows "conflictAnalysis lib walk reserved io t pluginID artifact manifest = Inr []"
  using assms by (simp add: conflictAnalysis_def)

theorem conflicts_unchecked_witness:
  "(let m = manifest_demo\<lparr>mf_Capabilities := [(''middleware_order'', VArr [order_demo ''a'' ''b'', order_demo ''b'' ''a''])]\<rparr>
    in middlewareCycle (\<lambda>xs. xs) (mf_Capabilities m) \<and> conflictAnalysis (gov_lib_demo m) (\<lambda>xs. xs) [] demo_io gov_demo ''p'' artifact_demo m = Inr [])"
proof -
  have "middlewareCycle (\<lambda>xs. xs) [(''middleware_order'', VArr [order_demo ''a'' ''b'', order_demo ''b'' ''a''])]" by code_simp
  then show ?thesis by (simp add: Let_def conflicts_unchecked manifest_demo_def)
qed

text \<open>acknowledging an advisory, after which the gate ignores it, takes the plugin out of service all the same when its action is a quarantine.\<close>

definition advisory_demo :: AdvisoryRecord where
  "advisory_demo = \<lparr>ad_ID = 0, ad_AdvisoryID = ''ADV-1'', ad_Status = ''acknowledged'', ad_Action = ''quarantine'', ad_ArtifactSHA256 = ''aa'', ad_PluginID = [], ad_VersionRange = [],
     ad_DependencyName = [], ad_DependencyRange = [], ad_CreatedBy = [], ad_CreatedAt = 0, ad_UpdatedAt = 0\<rparr>"

lemma acknowledged_quarantines:
  "(let (r, t) = UpsertAdvisory (gov_lib_demo manifest_demo) demo_io ''alice'' advisory_demo gov_demo
    in list_all advisoryIgnored (gt_advisories t) \<and> map pw_RuntimeState (gt_plugins gov_demo) = [''enabled''] \<and> map pw_RuntimeState (gt_plugins t) = [''draining''])"
  by code_simp

end
