(* ===== verification/Wasm_Abi.thy ===== *)
theory Wasm_Abi
  imports Plugin_Preflight MC_Protocol Plugin_Api "HOL-Library.Word"
begin

text \<open>
  The contract between the gateway and a WASM plugin, \<open>src/internal/pluginmanager/wasm_abi.go\<close> with the limits and the module builder of
  \<open>wasm_runtime.go\<close>: the exports a module must have, the imports it may have, requests and responses as canonical JSON, and error codes.

  \<open>wasm_codec\<close> stands for \<open>encoding/json\<close> on the two structs.  A compiled module is what the engine reports of it: its exported and
  imported functions with their signatures.
\<close>

section \<open>Data\<close>

definition "wasmHostABIV1 = ''mc-gateway.wasm.host/v1''"
definition "ExtensionConfigValidate = ''config.validate/v1''"
definition "ExtensionRuleEvaluate = ''rule.evaluate/v1''"
definition "ExtensionRouteResolve = ''route.resolve/v1''"

lemmas extension_names = ExtensionConfigValidate_def ExtensionRuleEvaluate_def ExtensionRouteResolve_def

definition wasmABIMaxInputBytes :: nat where
  "wasmABIMaxInputBytes = 64 * 1024"

definition wasmABIMaxOutputBytes :: nat where
  "wasmABIMaxOutputBytes = 64 * 1024"

record WASMABIRequest =
  wq_ABI :: string
  wq_ExtensionPoint :: string
  wq_PluginID :: string
  wq_ArtifactID :: string
  wq_RequestID :: string
  wq_FailPolicy :: string
  wq_Config :: string
  wq_RuleContext :: string
  wq_RouteContext :: string
  wq_Host :: string
  wq_Source :: string

record WASMABIErrorPayload =
  wp_Code :: string
  wp_Message :: string

record WASMABIResponse =
  wr_ABI :: string
  wr_ExtensionPoint :: string
  wr_OK :: bool
  wr_Valid :: "bool option"
  wr_Decision :: string
  wr_Route :: string
  wr_Reason :: string
  wr_Error :: "WASMABIErrorPayload option"

record WASMABIError =
  we_Code :: string
  we_Message :: string
  we_ExtensionPoint :: string
  we_FailPolicy :: string

text \<open>An error of this component: one with a code, which \<open>errors.As\<close> finds, or any other.\<close>

datatype wasm_error = Abi WASMABIError | Plain error

type_synonym 'a wres = "wasm_error + 'a"

text \<open>The fields of the manifest and of the artifact that only this runtime reads.\<close>

record WasmManifest = Manifest +
  wm_ID :: string
  wm_RuntimeType :: string
  wm_RuntimeABI :: string
  wm_MemoryBytes :: int
  wm_FileStores :: "string list"

record WasmArtifact = ArtifactRecord +
  wa_FilePath :: string

record wasm_codec =
  wc_Valid :: "string \<Rightarrow> bool"
  wc_Marshal_request :: "WASMABIRequest \<Rightarrow> bytes result"
  wc_Marshal_response :: "WASMABIResponse \<Rightarrow> bytes result"
  wc_Decode_request :: "bytes \<Rightarrow> (WASMABIRequest \<times> bytes) result" \<comment> \<open>no unknown fields; with what follows the value\<close>
  wc_Decode_response :: "bytes \<Rightarrow> (WASMABIResponse \<times> bytes) result"
  wc_Decode_empty :: "bytes \<Rightarrow> error option" \<comment> \<open>a further value, into an empty struct\<close>
  wc_Decode_number :: "bytes \<Rightarrow> jval result" \<comment> \<open>into \<open>any\<close>, numbers kept as written\<close>
  wc_Marshal_any :: "jval \<Rightarrow> bytes result"

section \<open>Errors\<close>

definition wasmABIFailPolicy :: "string \<Rightarrow> string" where
  "wasmABIFailPolicy point = (if point = ExtensionRouteResolve then ''fail_open'' else ''fail_closed'')"

definition newWASMABIError :: "string \<Rightarrow> string \<Rightarrow> string \<Rightarrow> wasm_error" where
  "newWASMABIError code point message =
    Abi \<lparr>we_Code = code, we_Message = message, we_ExtensionPoint = point, we_FailPolicy = wasmABIFailPolicy point\<rparr>"

fun wasm_Error :: "wasm_error \<Rightarrow> string" where
  "wasm_Error (Abi e) = (if we_Message e = [] then ''wasm ABI '' @ we_Code e else ''wasm ABI '' @ we_Code e @ '': '' @ we_Message e)"
| "wasm_Error (Plain e) = Error e"

fun wasmABIErrorCode :: "wasm_error \<Rightarrow> string" where
  "wasmABIErrorCode (Abi e) = we_Code e"
| "wasmABIErrorCode (Plain _) = []"

definition knownWASMABIErrorCode :: "string \<Rightarrow> bool" where
  "knownWASMABIErrorCode code = (code \<in> {''bad_json'', ''unknown_field'', ''oversized_input'', ''oversized_output'', ''schema_invalid'',
     ''abi_mismatch'', ''export_missing'', ''import_denied'', ''bad_output'', ''timeout'', ''trap'', ''memory_exceeded''})"

text \<open>\<open>deadline\<close> is \<open>errors.Is(err, context.DeadlineExceeded)\<close>.\<close>

definition mapWASMInvocationError :: "(error \<Rightarrow> bool) \<Rightarrow> string \<Rightarrow> wasm_error \<Rightarrow> wasm_error" where
  "mapWASMInvocationError deadline point err = (case err of
      Abi _ \<Rightarrow> err
    | Plain e \<Rightarrow> (let message = Error e in
        if deadline e \<or> Contains message ''context deadline exceeded'' then newWASMABIError ''timeout'' point message
        else if Contains message ''memory'' \<and> (Contains message ''limit'' \<or> Contains message ''out of memory'')
        then newWASMABIError ''memory_exceeded'' point message
        else if Contains message ''unreachable'' \<or> Contains message ''wasm error'' \<or> Contains message ''trap''
        then newWASMABIError ''trap'' point message
        else newWASMABIError ''bad_output'' point message))"

definition classifyWASMJSONError :: "error \<Rightarrow> string \<Rightarrow> wasm_error" where
  "classifyWASMJSONError err point =
    newWASMABIError (if Contains (Error err) ''unknown field'' then ''unknown_field'' else ''bad_json'') point (Error err)"

section \<open>What a manifest requires of the module\<close>

definition WASMABIExportForExtension :: "string \<Rightarrow> string option" where
  "WASMABIExportForExtension point =
    (if point = ExtensionConfigValidate then Some ''mcgw_config_validate_v1''
     else if point = ExtensionRuleEvaluate then Some ''mcgw_rule_evaluate_v1''
     else if point = ExtensionRouteResolve then Some ''mcgw_route_resolve_v1''
     else None)"

fun collect_exports :: "string list \<Rightarrow> string list \<Rightarrow> string list wres" where
  "collect_exports [] exports = Inr exports"
| "collect_exports (point # points) exports = (case WASMABIExportForExtension point of
      None \<Rightarrow> Inl (Plain (ErrorString ''wasm extension point is not supported by host ABI''))
    | Some name \<Rightarrow> collect_exports points (if name \<in> set exports then exports else exports @ [name]))"

definition wasmRequiredExports :: "WasmManifest \<Rightarrow> string list wres" where
  "wasmRequiredExports manifest = (case collect_exports (mf_ExtensionPoints manifest) [] of Inl e \<Rightarrow> Inl e | Inr exports \<Rightarrow> Inr (sort exports))"

fun first_export :: "string list \<Rightarrow> string" where
  "first_export [] = ''mcgw_config_validate_v1''"
| "first_export (point # points) = (case WASMABIExportForExtension point of Some name \<Rightarrow> name | None \<Rightarrow> first_export points)"

definition wasmDefaultExport :: "WasmManifest \<Rightarrow> string" where
  "wasmDefaultExport manifest = first_export (mf_ExtensionPoints manifest)"

definition validateWASMManifestABI :: "WasmManifest \<Rightarrow> wasm_error option" where
  "validateWASMManifestABI manifest =
    (if wm_RuntimeType manifest \<noteq> ''wasm'' then None
     else if wm_RuntimeABI manifest \<noteq> wasmHostABIV1 then Some (newWASMABIError ''abi_mismatch'' [] ''runtime.abi does not match'')
     else (case wasmRequiredExports manifest of Inl e \<Rightarrow> Some e | Inr _ \<Rightarrow> None))"

definition validateWASMExtensionPoints :: "WasmManifest \<Rightarrow> wasm_error option" where
  "validateWASMExtensionPoints manifest =
    (if list_all (\<lambda>p. p \<in> {ExtensionRuleEvaluate, ExtensionRouteResolve, ExtensionConfigValidate}) (mf_ExtensionPoints manifest) then None
     else Some (Plain (ErrorString ''wasm extension point is not supported'')))"

definition wasmManifestHasExtension :: "WasmManifest \<Rightarrow> string \<Rightarrow> bool" where
  "wasmManifestHasExtension manifest point = list_ex (\<lambda>p. p = point) (mf_ExtensionPoints manifest)"

section \<open>Limits\<close>

definition validateWASMRuntimeLimits :: "WasmManifest \<Rightarrow> wasm_error option" where
  "validateWASMRuntimeLimits manifest =
    (if wm_RuntimeType manifest \<noteq> ''wasm'' then None
     else if mf_HandlerTimeoutMS manifest < 10 \<or> mf_HandlerTimeoutMS manifest > int_quot DefaultHandlerTimeout 1000000
     then Some (Plain (ErrorString ''wasm runtime limit handler_timeout_ms is outside supported range''))
     else if wm_MemoryBytes manifest < 64 * 1024 \<or> wm_MemoryBytes manifest > 64 * 1024 * 1024
     then Some (Plain (ErrorString ''wasm runtime limit memory_bytes is outside supported range''))
     else None)"

text \<open>Arithmetic on \<open>int\<close> and \<open>time.Duration\<close> has 64 bits and wraps around.\<close>

definition go_int64 :: "int \<Rightarrow> int" where
  "go_int64 v = signed_take_bit 63 v"

definition wasmTimeout :: "WasmManifest \<Rightarrow> int" where
  "wasmTimeout manifest =
    (let timeout = (if mf_HandlerTimeoutMS manifest > 0 then go_int64 (mf_HandlerTimeoutMS manifest * 1000000) else DefaultHandlerTimeout)
     in if timeout \<le> 0 then DefaultHandlerTimeout else timeout)"

definition wasmMemoryLimitPages :: "int \<Rightarrow> int" where
  "wasmMemoryLimitPages memoryBytes =
    (if memoryBytes \<le> 0 then 1
     else let pages = int_quot (go_int64 (memoryBytes + 65535)) 65536 in if pages \<le> 0 then 1 else uint32 pages)"

definition wasmUnpackPtrLen :: "64 word \<Rightarrow> 32 word \<times> 32 word" where
  "wasmUnpackPtrLen v = (ucast (drop_bit 32 v), ucast v)"

section \<open>Compiled modules\<close>

datatype ValueType = ValueTypeI32 | ValueTypeI64 | ValueTypeF64 | ValueTypeOther int

record FunctionDefinition =
  fd_ParamTypes :: "ValueType list"
  fd_ResultTypes :: "ValueType list"

record ImportedFunction = FunctionDefinition +
  if_Import :: "(string \<times> string) option"

record CompiledModule =
  cm_Exports :: "string \<rightharpoonup> FunctionDefinition"
  cm_Imports :: "ImportedFunction list"

fun sameValueTypes :: "ValueType list \<Rightarrow> ValueType list \<Rightarrow> bool" where
  "sameValueTypes [] [] = True"
| "sameValueTypes (a # as) (b # bs) = (a = b \<and> sameValueTypes as bs)"
| "sameValueTypes _ _ = False"

definition check_export :: "CompiledModule \<Rightarrow> string \<Rightarrow> wasm_error option" where
  "check_export compiled name = (case cm_Exports compiled name of
      None \<Rightarrow> Some (newWASMABIError ''export_missing'' [] ''required export not found'')
    | Some def \<Rightarrow>
        (if \<not> sameValueTypes (fd_ParamTypes def) [ValueTypeI32, ValueTypeI32] \<or> \<not> sameValueTypes (fd_ResultTypes def) [ValueTypeI64]
         then Some (newWASMABIError ''abi_mismatch'' [] ''export must use (request_ptr_i32, request_len_i32) -> response_ptr_len_i64'')
         else None))"

definition check_import :: "ImportedFunction \<Rightarrow> wasm_error option" where
  "check_import imported = (case if_Import imported of
      None \<Rightarrow> None
    | Some (moduleName, name) \<Rightarrow>
        (if moduleName \<noteq> ''mcgw_host'' then Some (newWASMABIError ''import_denied'' [] ''import module is not allowed'')
         else if name = ''log'' then
           (if \<not> sameValueTypes (fd_ParamTypes imported) [ValueTypeI32, ValueTypeI32, ValueTypeI32] \<or> fd_ResultTypes imported \<noteq> [ValueTypeI32]
            then Some (newWASMABIError ''abi_mismatch'' [] ''log import signature'') else None)
         else if name = ''metric'' then
           (if \<not> sameValueTypes (fd_ParamTypes imported) [ValueTypeI32, ValueTypeI32, ValueTypeI32, ValueTypeI32, ValueTypeF64] \<or> fd_ResultTypes imported \<noteq> [ValueTypeI32]
            then Some (newWASMABIError ''abi_mismatch'' [] ''metric import signature'') else None)
         else Some (newWASMABIError ''import_denied'' [] ''host import is not allowed'')))"

definition first_failure :: "'e option list \<Rightarrow> 'e option" where
  "first_failure es = (case filter (\<lambda>e. e \<noteq> None) es of [] \<Rightarrow> None | e # _ \<Rightarrow> e)"

definition validateWASMCompiledABI :: "CompiledModule \<Rightarrow> WasmManifest \<Rightarrow> wasm_error option" where
  "validateWASMCompiledABI compiled manifest = (case wasmRequiredExports manifest of
      Inl e \<Rightarrow> Some e
    | Inr required \<Rightarrow> first_failure (map (check_export compiled) required @ map check_import (cm_Imports compiled)))"

text \<open>The two functions the host offers to a module.\<close>

definition host_log :: "32 word \<Rightarrow> 32 word \<Rightarrow> 32 word \<Rightarrow> 32 word" where
  "host_log level messagePtr messageLen = (if unat level > 4 \<or> unat messageLen > wasmABIMaxInputBytes then 1 else 0)"

definition host_metric :: "32 word \<Rightarrow> 32 word \<Rightarrow> 32 word \<Rightarrow> 32 word \<Rightarrow> 32 word" where
  "host_metric namePtr nameLen labelsPtr labelsLen = (if nameLen = 0 \<or> unat nameLen > 128 \<or> unat labelsLen > 1024 then 1 else 0)"

section \<open>Requests and responses\<close>

definition validWASMFailPolicy :: "string \<Rightarrow> bool" where
  "validWASMFailPolicy policy = (policy \<in> {''fail_open'', ''fail_closed''})"

definition validateRawJSONField :: "wasm_codec \<Rightarrow> string \<Rightarrow> string \<Rightarrow> bool \<Rightarrow> string option" where
  "validateRawJSONField c name raw required =
    (if raw = [] then (if required then Some (name @ '' is required'') else None)
     else if \<not> wc_Valid c raw then Some (name @ '' must be valid JSON'') else None)"

text \<open>The part of a request that its extension point needs.\<close>

definition check_payload :: "wasm_codec \<Rightarrow> WASMABIRequest \<Rightarrow> string option" where
  "check_payload c req =
    (if wq_ExtensionPoint req = ExtensionConfigValidate then validateRawJSONField c ''config'' (wq_Config req) True
     else if wq_ExtensionPoint req = ExtensionRuleEvaluate then validateRawJSONField c ''rule_context'' (wq_RuleContext req) True
     else if wq_ExtensionPoint req = ExtensionRouteResolve then
       (if TrimSpace (wq_Host req) = [] then Some ''host is required'' else validateRawJSONField c ''route_context'' (wq_RouteContext req) True)
     else None)"

text \<open>The request is passed by pointer: a missing fail policy is filled in.\<close>

definition validateWASMABIRequest :: "wasm_codec \<Rightarrow> string \<Rightarrow> WASMABIRequest \<Rightarrow> WASMABIRequest wres" where
  "validateWASMABIRequest c point req =
    (if wq_ABI req \<noteq> wasmHostABIV1 then Inl (newWASMABIError ''abi_mismatch'' point ''request abi does not match'')
     else if point \<noteq> [] \<and> wq_ExtensionPoint req \<noteq> point then Inl (newWASMABIError ''schema_invalid'' point ''request extension_point does not match'')
     else if WASMABIExportForExtension (wq_ExtensionPoint req) = None then Inl (newWASMABIError ''schema_invalid'' point ''unsupported extension_point'')
     else let req = (if wq_FailPolicy req = [] then req\<lparr>wq_FailPolicy := wasmABIFailPolicy (wq_ExtensionPoint req)\<rparr> else req) in
       (if \<not> validWASMFailPolicy (wq_FailPolicy req) then Inl (newWASMABIError ''schema_invalid'' (wq_ExtensionPoint req) ''invalid fail_policy'')
        else (case check_payload c req of
            Some message \<Rightarrow> Inl (newWASMABIError ''schema_invalid'' (wq_ExtensionPoint req) message)
          | None \<Rightarrow> Inr req)))"

definition check_answer :: "WASMABIResponse \<Rightarrow> string option" where
  "check_answer resp =
    (if wr_ExtensionPoint resp = ExtensionConfigValidate then (if wr_Valid resp = None then Some ''valid is required'' else None)
     else if wr_ExtensionPoint resp = ExtensionRuleEvaluate then
       (if wr_Decision resp \<noteq> ''allow'' \<and> wr_Decision resp \<noteq> ''deny'' then Some ''decision must be allow or deny'' else None)
     else if wr_ExtensionPoint resp = ExtensionRouteResolve then
       (if wr_Decision resp \<in> {''use_default'', ''reject''} then None
        else if wr_Decision resp = ''override'' then (if TrimSpace (wr_Route resp) = [] then Some ''route is required for override'' else None)
        else Some ''decision must be use_default, override, or reject'')
     else None)"

definition validateWASMABIResponse :: "string \<Rightarrow> WASMABIResponse \<Rightarrow> wasm_error option" where
  "validateWASMABIResponse point resp =
    (if wr_ABI resp \<noteq> wasmHostABIV1 then Some (newWASMABIError ''abi_mismatch'' point ''response abi does not match'')
     else if point \<noteq> [] \<and> wr_ExtensionPoint resp \<noteq> point then Some (newWASMABIError ''bad_output'' point ''response extension_point does not match'')
     else if WASMABIExportForExtension (wr_ExtensionPoint resp) = None then Some (newWASMABIError ''bad_output'' point ''unsupported extension_point'')
     else (case wr_Error resp of
         Some payload \<Rightarrow> (if knownWASMABIErrorCode (wp_Code payload) then None
           else Some (newWASMABIError ''bad_output'' (wr_ExtensionPoint resp) ''unknown error code''))
       | None \<Rightarrow> (case check_answer resp of
           Some message \<Rightarrow> Some (newWASMABIError ''bad_output'' (wr_ExtensionPoint resp) message)
         | None \<Rightarrow> None)))"

definition decodeStrictJSON :: "(bytes \<Rightarrow> ('a \<times> bytes) result) \<Rightarrow> (bytes \<Rightarrow> error option) \<Rightarrow> bytes \<Rightarrow> 'a result" where
  "decodeStrictJSON decode further data = (case decode data of
      Inl e \<Rightarrow> Inl e
    | Inr (v, rest) \<Rightarrow> (if further rest \<noteq> Some Io_EOF then Inl (ErrorString ''multiple JSON values are not allowed'') else Inr v))"

definition canonicalJSON :: "wasm_codec \<Rightarrow> bytes result \<Rightarrow> nat \<Rightarrow> string \<Rightarrow> string \<Rightarrow> bytes wres" where
  "canonicalJSON c marshalled limit oversizedCode point = (case marshalled of
      Inl e \<Rightarrow> Inl (Plain e)
    | Inr data \<Rightarrow> (case wc_Decode_number c data of
        Inl e \<Rightarrow> Inl (Plain e)
      | Inr decoded \<Rightarrow> (case wc_Marshal_any c decoded of
          Inl e \<Rightarrow> Inl (Plain e)
        | Inr data \<Rightarrow> (if length data > limit then Inl (newWASMABIError oversizedCode point ''canonical JSON size exceeds limit'') else Inr data))))"

definition EncodeWASMABIRequest :: "wasm_codec \<Rightarrow> WASMABIRequest \<Rightarrow> bytes wres" where
  "EncodeWASMABIRequest c req =
    (let req = (if wq_ABI req = [] then req\<lparr>wq_ABI := wasmHostABIV1\<rparr> else req);
         req = (if wq_FailPolicy req = [] then req\<lparr>wq_FailPolicy := wasmABIFailPolicy (wq_ExtensionPoint req)\<rparr> else req)
     in case validateWASMABIRequest c (wq_ExtensionPoint req) req of
       Inl e \<Rightarrow> Inl e
     | Inr req \<Rightarrow> canonicalJSON c (wc_Marshal_request c req) wasmABIMaxInputBytes ''oversized_input'' (wq_ExtensionPoint req))"

definition DecodeWASMABIRequest :: "wasm_codec \<Rightarrow> string \<Rightarrow> bytes \<Rightarrow> (WASMABIRequest \<times> bytes) wres" where
  "DecodeWASMABIRequest c point data =
    (if length data > wasmABIMaxInputBytes then Inl (newWASMABIError ''oversized_input'' point ''request size exceeds limit'')
     else (case decodeStrictJSON (wc_Decode_request c) (wc_Decode_empty c) data of
         Inl e \<Rightarrow> Inl (classifyWASMJSONError e point)
       | Inr req \<Rightarrow> (case validateWASMABIRequest c point req of
           Inl e \<Rightarrow> Inl e
         | Inr req \<Rightarrow> (case canonicalJSON c (wc_Marshal_request c req) wasmABIMaxInputBytes ''oversized_input'' point of
             Inl e \<Rightarrow> Inl e | Inr canonical \<Rightarrow> Inr (req, canonical)))))"

definition EncodeWASMABIResponse :: "wasm_codec \<Rightarrow> WASMABIResponse \<Rightarrow> bytes wres" where
  "EncodeWASMABIResponse c resp =
    (let resp = (if wr_ABI resp = [] then resp\<lparr>wr_ABI := wasmHostABIV1\<rparr> else resp)
     in case validateWASMABIResponse (wr_ExtensionPoint resp) resp of
       Some e \<Rightarrow> Inl e
     | None \<Rightarrow> canonicalJSON c (wc_Marshal_response c resp) wasmABIMaxOutputBytes ''oversized_output'' (wr_ExtensionPoint resp))"

definition DecodeWASMABIResponse :: "wasm_codec \<Rightarrow> string \<Rightarrow> bytes \<Rightarrow> (WASMABIResponse \<times> bytes) wres" where
  "DecodeWASMABIResponse c point data =
    (if length data > wasmABIMaxOutputBytes then Inl (newWASMABIError ''oversized_output'' point ''response size exceeds limit'')
     else (case decodeStrictJSON (wc_Decode_response c) (wc_Decode_empty c) data of
         Inl e \<Rightarrow> Inl (classifyWASMJSONError e point)
       | Inr resp \<Rightarrow> (case validateWASMABIResponse point resp of
           Some e \<Rightarrow> Inl e
         | None \<Rightarrow> (case canonicalJSON c (wc_Marshal_response c resp) wasmABIMaxOutputBytes ''oversized_output'' point of
             Inl e \<Rightarrow> Inl e | Inr canonical \<Rightarrow> Inr (resp, canonical)))))"

section \<open>The module builder\<close>

lemma shifted_smaller:
  fixes v :: "32 word"
  assumes "drop_bit 7 v \<noteq> 0"
  shows "unat (drop_bit 7 v) < unat v"
proof -
  have "unat (drop_bit 7 v) = unat v div 128" by (simp add: drop_bit_eq_div unat_div)
  moreover have "unat (drop_bit 7 v) \<noteq> 0" using assms by (metis unat_eq_zero)
  ultimately show ?thesis by linarith
qed

function appendU32LEB :: "bytes \<Rightarrow> 32 word \<Rightarrow> bytes" where
  "appendU32LEB out v =
    (let b = v AND 0x7f; v' = drop_bit 7 v;
         b' = (if v' \<noteq> 0 then b OR 0x80 else b); out' = out @ [to_byte (uint b')]
     in if v' = 0 then out' else appendU32LEB out' v')"
  by pat_completeness auto
termination
  by (relation "measure (\<lambda>(out, v). unat v)") (use shifted_smaller in auto)

declare appendU32LEB.simps [simp del]

definition wasmSection :: "byte \<Rightarrow> bytes \<Rightarrow> bytes" where
  "wasmSection sec payload = appendU32LEB [sec] (of_nat (length payload)) @ payload"

definition wasmABIExportSection :: bytes where
  "wasmABIExportSection = fold (\<lambda>name payload. appendU32LEB payload (of_nat (length name)) @ name @ [CHR 0x00, CHR 0x00])
     [''mcgw_config_validate_v1'', ''mcgw_rule_evaluate_v1'', ''mcgw_route_resolve_v1''] (appendU32LEB [] 3)"

definition wasmABIExportModule :: "bytes \<Rightarrow> bool \<Rightarrow> bytes" where
  "wasmABIExportModule functionBody memory =
    [CHR 0x00, CHR 0x61, CHR 0x73, CHR 0x6d, CHR 0x01, CHR 0x00, CHR 0x00, CHR 0x00]
    @ wasmSection (CHR 0x01) [CHR 0x01, CHR 0x60, CHR 0x02, CHR 0x7f, CHR 0x7f, CHR 0x01, CHR 0x7e]
    @ wasmSection (CHR 0x03) [CHR 0x01, CHR 0x00]
    @ (if memory then wasmSection (CHR 0x05) [CHR 0x01, CHR 0x01, CHR 0x00, CHR 0x01] else [])
    @ wasmSection (CHR 0x07) wasmABIExportSection
    @ wasmSection (CHR 0x0a) (appendU32LEB [] 1 @ appendU32LEB [] (of_nat (length functionBody)) @ functionBody)"

definition wasmFixtureModule :: "string \<Rightarrow> bytes" where
  "wasmFixtureModule behavior =
    (if behavior = ''timeout'' then wasmABIExportModule [CHR 0x00, CHR 0x03, CHR 0x40, CHR 0x0c, CHR 0x00, CHR 0x0b, CHR 0x0b] False
     else if behavior \<in> {''panic'', ''trap''} then wasmABIExportModule [CHR 0x00, CHR 0x00, CHR 0x0b] False
     else if behavior = ''memory'' then wasmABIExportModule [CHR 0x00, CHR 0x41, CHR 0x02, CHR 0x40, CHR 0x00, CHR 0xad, CHR 0x0b] True
     else wasmABIExportModule [CHR 0x00, CHR 0x42, CHR 0x00, CHR 0x0b] False)"

section \<open>Facts\<close>

lemma append_LEB_loop: "encodeVarInt_loop (uint v) out = Some (appendU32LEB out v)"
proof (induction out v rule: appendU32LEB.induct)
  case (1 out v)
  have shift: "uint (drop_bit 7 v) = drop_bit 7 (uint v)" by (simp add: drop_bit_eq_div uint_div_distrib)
  have bits: "uint (v AND 0x7f) = uint v AND 0x7f" "uint (drop_bit 7 v) = drop_bit 7 (uint v)"
    "uint ((v AND 0x7f) OR 0x80) = (uint v AND 0x7f) OR 0x80"
    by (simp_all add: unsigned_and_eq unsigned_or_eq shift)
  have zero: "drop_bit 7 v = 0 \<longleftrightarrow> drop_bit 7 (uint v) = 0"
    by (metis bits(2) uint_0_iff)
  show ?case
    using 1 [OF refl refl refl refl]
    by (subst encodeVarInt_loop.simps, subst appendU32LEB.simps) (simp add: Let_def zero bits)
qed

lemma supported_points: "WASMABIExportForExtension p \<noteq> None \<longleftrightarrow> p \<in> {ExtensionConfigValidate, ExtensionRuleEvaluate, ExtensionRouteResolve}"
  by (simp add: WASMABIExportForExtension_def)

lemma first_failure_None [simp]: "first_failure es = None \<longleftrightarrow> (\<forall>e \<in> set es. e = None)"
  by (auto simp: first_failure_def filter_empty_conv split: list.splits dest: filter_eq_ConsD)

lemma sameValueTypes_eq [simp]: "sameValueTypes xs ys \<longleftrightarrow> xs = ys"
  by (induction xs ys rule: sameValueTypes.induct) auto

lemma collect_exports_all:
  "collect_exports points exports = Inr r \<Longrightarrow> set exports \<subseteq> set r \<and> (\<forall>p \<in> set points. \<exists>name. WASMABIExportForExtension p = Some name \<and> name \<in> set r)"
  by (induction points exports rule: collect_exports.induct) (fastforce split: option.splits if_splits)+

text \<open>A module that passes: every declared point has its export, and nothing else of the host than logging and metrics is imported.\<close>

definition host_only :: "CompiledModule \<Rightarrow> bool" where
  "host_only compiled = (\<forall>i \<in> set (cm_Imports compiled). if_Import i \<in> {None, Some (''mcgw_host'', ''log''), Some (''mcgw_host'', ''metric'')})"

definition has_entry :: "CompiledModule \<Rightarrow> string \<Rightarrow> bool" where
  "has_entry compiled point = (case WASMABIExportForExtension point of None \<Rightarrow> False
     | Some name \<Rightarrow> cm_Exports compiled name = Some \<lparr>fd_ParamTypes = [ValueTypeI32, ValueTypeI32], fd_ResultTypes = [ValueTypeI64]\<rparr>)"

lemma check_import_None: "check_import i = None \<Longrightarrow> if_Import i \<in> {None, Some (''mcgw_host'', ''log''), Some (''mcgw_host'', ''metric'')}"
  by (auto simp: check_import_def split: option.splits if_splits)

lemma check_export_None: "check_export m name = None \<Longrightarrow> cm_Exports m name = Some \<lparr>fd_ParamTypes = [ValueTypeI32, ValueTypeI32], fd_ResultTypes = [ValueTypeI64]\<rparr>"
  by (auto simp: check_export_def split: option.splits if_splits)

lemma compiled_ok:
  assumes "validateWASMCompiledABI m manifest = None"
  shows "host_only m \<and> (\<forall>p \<in> set (mf_ExtensionPoints manifest). has_entry m p)"
proof -
  obtain required where r: "wasmRequiredExports manifest = Inr required" and
    ok: "\<And>n. n \<in> set required \<Longrightarrow> check_export m n = None" "\<And>i. i \<in> set (cm_Imports m) \<Longrightarrow> check_import i = None"
    using assms by (auto simp: validateWASMCompiledABI_def split: sum.splits)
  then obtain names where n: "collect_exports (mf_ExtensionPoints manifest) [] = Inr names" "set required = set names"
    by (auto simp: wasmRequiredExports_def split: sum.splits)
  show ?thesis
    using ok n collect_exports_all [OF n(1)] check_import_None check_export_None by (fastforce simp: host_only_def has_entry_def)
qed

text \<open>The answers a caller may act upon.\<close>

definition answer_ok :: "string \<Rightarrow> WASMABIResponse \<Rightarrow> bool" where
  "answer_ok point resp = (wr_ExtensionPoint resp = point \<and> wr_ABI resp = wasmHostABIV1 \<and> wr_Error resp = None \<and>
     (point = ExtensionConfigValidate \<and> wr_Valid resp \<noteq> None
      \<or> point = ExtensionRuleEvaluate \<and> wr_Decision resp \<in> {''allow'', ''deny''}
      \<or> point = ExtensionRouteResolve \<and> (wr_Decision resp \<in> {''use_default'', ''reject''} \<or> wr_Decision resp = ''override'' \<and> TrimSpace (wr_Route resp) \<noteq> [])))"

lemma validated_response:
  assumes "validateWASMABIResponse point resp = None" "wr_Error resp = None" "point \<noteq> []"
  shows "answer_ok point resp"
proof -
  have base: "wr_ABI resp = wasmHostABIV1" "wr_ExtensionPoint resp = point" "WASMABIExportForExtension point \<noteq> None" "check_answer resp = None"
    using assms by (auto simp: validateWASMABIResponse_def split: if_splits option.splits)
  from base(3) have "point \<in> {ExtensionConfigValidate, ExtensionRuleEvaluate, ExtensionRouteResolve}"
    by (simp only: supported_points)
  with base assms(2) show ?thesis
    by (auto simp: answer_ok_def check_answer_def extension_names split: if_splits)
qed

lemma decoded_response:
  assumes "DecodeWASMABIResponse c point data = Inr (resp, canonical)"
  shows "validateWASMABIResponse point resp = None" "length data \<le> wasmABIMaxOutputBytes" "length canonical \<le> wasmABIMaxOutputBytes"
  using assms by (auto simp: DecodeWASMABIResponse_def canonicalJSON_def split: if_splits sum.splits option.splits)

lemma encoded_request: "EncodeWASMABIRequest c req = Inr data \<Longrightarrow> length data \<le> wasmABIMaxInputBytes"
  by (auto simp: EncodeWASMABIRequest_def canonicalJSON_def Let_def split: if_splits sum.splits option.splits)

lemma go_int64_small: "- (2 ^ 63) \<le> v \<Longrightarrow> v < 2 ^ 63 \<Longrightarrow> go_int64 v = v"
  by (simp add: go_int64_def signed_take_bit_int_eq_self)

lemma limits_ok:
  assumes "validateWASMRuntimeLimits manifest = None" "wm_RuntimeType manifest = ''wasm''"
  shows "10 \<le> mf_HandlerTimeoutMS manifest" "mf_HandlerTimeoutMS manifest \<le> 3000" "65536 \<le> wm_MemoryBytes manifest" "wm_MemoryBytes manifest \<le> 67108864"
  using assms by (auto simp: validateWASMRuntimeLimits_def DefaultHandlerTimeout_def int_quot_def Second_def split: if_splits)

text \<open>Within the limits neither conversion wraps around: the engine gets the pages that hold the declared memory, and no fewer or more.\<close>

lemma ceil_pages:
  fixes m :: int
  defines "q \<equiv> (m + 65535) div 65536"
  shows "(q - 1) * 65536 < m \<and> m \<le> q * 65536"
proof -
  define r where "r = (m + 65535) mod 65536"
  have "0 \<le> r" "r < 65536" by (simp_all add: r_def)
  moreover have "65536 * q + r = m + 65535" unfolding q_def r_def by (rule mult_div_mod_eq)
  ultimately show ?thesis by auto
qed

lemma pages_exact:
  assumes "validateWASMRuntimeLimits manifest = None" "wm_RuntimeType manifest = ''wasm''"
  shows "let p = wasmMemoryLimitPages (wm_MemoryBytes manifest) in 1 \<le> p \<and> p \<le> 1024 \<and> (p - 1) * 65536 < wm_MemoryBytes manifest \<and> wm_MemoryBytes manifest \<le> p * 65536"
proof -
  let ?m = "wm_MemoryBytes manifest"
  note b = limits_ok [OF assms]
  have q: "(?m + 65535) div 65536 \<le> 1024" "1 \<le> (?m + 65535) div 65536" using b by linarith+
  moreover have "go_int64 (?m + 65535) = ?m + 65535" using b by (intro go_int64_small) auto
  ultimately have "wasmMemoryLimitPages ?m = (?m + 65535) div 65536"
    using b by (simp add: wasmMemoryLimitPages_def int_quot_def uint32_def Let_def take_bit_int_eq_self)
  with q show ?thesis using b ceil_pages [of ?m] by (simp add: Let_def)
qed

lemma timeout_exact:
  assumes "validateWASMRuntimeLimits manifest = None" "wm_RuntimeType manifest = ''wasm''"
  shows "wasmTimeout manifest = mf_HandlerTimeoutMS manifest * 1000000"
  using limits_ok [OF assms] by (simp add: wasmTimeout_def go_int64_small Let_def)

section \<open>Properties\<close>

text \<open>
  The length prefixes of a generated module are the VarInts of the Minecraft protocol: on every 32-bit value the two encoders
  agree byte for byte, and this one always returns.
\<close>

theorem LEB_is_VarInt: "encodeVarInt (uint v) = Some (appendU32LEB [] v)"
  by (simp add: encodeVarInt_def append_LEB_loop)

text \<open>
  A response that is encoded is read back unchanged by the other side, and is the canonical text of it, if JSON
  itself reads back what it wrote.  A response that is read satisfies the contract of its extension point.
\<close>

theorem response_roundtrip:
  assumes "wr_ExtensionPoint resp = point" "wr_ABI resp = wasmHostABIV1"
    and encoded: "EncodeWASMABIResponse c resp = Inr data"
    and json: "wc_Decode_response c data = Inr (resp, [])" "wc_Decode_empty c [] = Some Io_EOF"
  shows "DecodeWASMABIResponse c point data = Inr (resp, data) \<and> length data \<le> 65536 \<and> (wr_Error resp = None \<longrightarrow> answer_ok point resp)"
proof -
  have abi: "wr_ABI resp \<noteq> []" using assms(2) by (simp add: wasmHostABIV1_def)
  have ok: "validateWASMABIResponse point resp = None"
    and canon: "canonicalJSON c (wc_Marshal_response c resp) wasmABIMaxOutputBytes ''oversized_output'' point = Inr data"
    using encoded assms(1) abi by (auto simp: EncodeWASMABIResponse_def Let_def split: option.splits)
  have small: "length data \<le> wasmABIMaxOutputBytes" using canon by (auto simp: canonicalJSON_def split: sum.splits if_splits)
  have "point \<noteq> []" using ok assms(1) by (auto simp: validateWASMABIResponse_def WASMABIExportForExtension_def extension_names split: if_splits)
  then show ?thesis
    using ok canon small json validated_response [OF ok]
    by (auto simp: DecodeWASMABIResponse_def decodeStrictJSON_def wasmABIMaxOutputBytes_def)
qed

end
