(* ===== verification/Wasm_Runtime.thy ===== *)
theory Wasm_Runtime
  imports Wasm_Abi Plugin_Lifecycle
begin

text \<open>
  \<open>src/internal/pluginmanager/wasm_runtime.go\<close>: the runner with its module cache, a call of an extension point in a module, and the hosted plugin
  around it: calls in flight, draining, stopping, counters, and the quarantine of a plugin that keeps trapping.

  The engine (\<open>wazero\<close>) is a parameter, the record \<open>wazero\<close>: what it answers when it compiles, instantiates, calls, reads and writes
  memory.  \<open>dispatchHook\<close>, which only tests set, is nil.  Counters do not reach \<open>2 ^ 63\<close>.  A failed call that also carries the response of the module
  is the error alone, since every caller drops the response.
\<close>

section \<open>The runner\<close>

record 'i wazero =
  wz_Compile :: "int \<Rightarrow> bytes \<Rightarrow> CompiledModule result" \<comment> \<open>memory limit in pages, module\<close>
  wz_HostImports :: "error option"
  wz_Instantiate :: "CompiledModule \<Rightarrow> 'i result"
  wz_Memory :: "'i \<Rightarrow> bool"
  wz_Write :: "'i \<Rightarrow> bytes \<Rightarrow> 'i option" \<comment> \<open>at offset 0\<close>
  wz_Exported :: "'i \<Rightarrow> string \<Rightarrow> bool"
  wz_Call :: "int \<Rightarrow> 'i \<Rightarrow> string \<Rightarrow> nat \<Rightarrow> nat \<Rightarrow> 64 word list result \<times> 'i" \<comment> \<open>timeout, function, arguments\<close>
  wz_Read :: "'i \<Rightarrow> 32 word \<Rightarrow> 32 word \<Rightarrow> bytes option"
  wz_Deadline :: "error \<Rightarrow> bool" \<comment> \<open>\<open>errors.Is(err, context.DeadlineExceeded)\<close>\<close>
  wz_SHA256 :: "bytes \<Rightarrow> string" \<comment> \<open>in hexadecimal\<close>

type_synonym module_cache = "string \<rightharpoonup> bytes"

record WASMInvocation =
  iv_ArtifactID :: string
  iv_Module :: bytes
  iv_Manifest :: WasmManifest
  iv_Function :: string
  iv_Timeout :: int
  iv_MemoryBytes :: int

record WASMDispatchInvocation =
  dv_ArtifactID :: string
  dv_PluginID :: string
  dv_Module :: bytes
  dv_Manifest :: WasmManifest
  dv_ExtensionPoint :: string
  dv_Request :: WASMABIRequest
  dv_Timeout :: int
  dv_MemoryBytes :: int
  dv_MaxOutputBytes :: int

definition compileWithCacheStatus :: "'i wazero \<Rightarrow> int \<Rightarrow> string \<Rightarrow> bytes \<Rightarrow> module_cache \<Rightarrow> (CompiledModule result \<times> string) \<times> module_cache" where
  "compileWithCacheStatus wz pages artifactID code cache =
    (let key = (if artifactID = [] then wz_SHA256 wz code else artifactID) in
     case cache key of
       Some (b # bs) \<Rightarrow> ((wz_Compile wz pages (b # bs), ''hit''), cache)
     | _ \<Rightarrow> (case wz_Compile wz pages code of
         Inl e \<Rightarrow> ((Inl e, ''miss''), cache)
       | Inr compiled \<Rightarrow> ((Inr compiled, ''miss''), cache(key \<mapsto> code))))"

text \<open>The checks that precede every use of a module.\<close>

definition precheck :: "WasmManifest \<Rightarrow> bytes \<Rightarrow> wasm_error option" where
  "precheck manifest code = first_failure [validateWASMExtensionPoints manifest, validateWASMManifestABI manifest, validateWASMRuntimeLimits manifest,
     if code = [] then Some (Plain (ErrorString ''wasm module is empty'')) else None]"

definition instantiate :: "'i wazero \<Rightarrow> CompiledModule \<Rightarrow> WasmManifest \<Rightarrow> 'i wres" where
  "instantiate wz compiled manifest = (case validateWASMCompiledABI compiled manifest of
      Some e \<Rightarrow> Inl e
    | None \<Rightarrow> (case wz_HostImports wz of
        Some e \<Rightarrow> Inl (Plain e)
      | None \<Rightarrow> (case wz_Instantiate wz compiled of Inl e \<Rightarrow> Inl (Plain e) | Inr inst \<Rightarrow> Inr inst)))"

definition Invoke :: "'i wazero \<Rightarrow> WASMInvocation \<Rightarrow> module_cache \<Rightarrow> wasm_error option \<times> module_cache" where
  "Invoke wz invocation cache = (case precheck (iv_Manifest invocation) (iv_Module invocation) of
      Some e \<Rightarrow> (Some e, cache)
    | None \<Rightarrow>
      (let timeout = (if iv_Timeout invocation \<le> 0 then wasmTimeout (iv_Manifest invocation) else iv_Timeout invocation);
           pages = wasmMemoryLimitPages (iv_MemoryBytes invocation)
       in case compileWithCacheStatus wz pages (iv_ArtifactID invocation) (iv_Module invocation) cache of
         ((Inl e, _), cache) \<Rightarrow> (Some (Plain e), cache)
       | ((Inr compiled, _), cache) \<Rightarrow> (case instantiate wz compiled (iv_Manifest invocation) of
           Inl e \<Rightarrow> (Some e, cache)
         | Inr inst \<Rightarrow>
           (let fnName = (if iv_Function invocation = [] then wasmDefaultExport (iv_Manifest invocation) else iv_Function invocation) in
            if \<not> wz_Exported wz inst fnName then (Some (newWASMABIError ''export_missing'' [] ''wasm export not found''), cache)
            else (case wz_Call wz timeout inst fnName 0 0 of
                (Inl e, _) \<Rightarrow> (Some (mapWASMInvocationError (wz_Deadline wz) [] (Plain e)), cache)
              | (Inr (r # _), _) \<Rightarrow>
                  (if r \<noteq> 0 then (Some (newWASMABIError ''bad_output'' [] ''wasm validation returned non-zero result''), cache) else (None, cache))
              | (Inr [], _) \<Rightarrow> (None, cache))))))"

definition runner_Validate :: "'i wazero \<Rightarrow> WasmManifest \<Rightarrow> string \<Rightarrow> module_cache \<Rightarrow> wasm_error option \<times> module_cache" where
  "runner_Validate wz manifest behavior = Invoke wz \<lparr>iv_ArtifactID = wm_ID manifest @ '':'' @ behavior, iv_Module = wasmFixtureModule behavior, iv_Manifest = manifest,
     iv_Function = wasmDefaultExport manifest, iv_Timeout = wasmTimeout manifest, iv_MemoryBytes = wm_MemoryBytes manifest\<rparr>"

definition PrepareModule :: "'i wazero \<Rightarrow> WASMInvocation \<Rightarrow> module_cache \<Rightarrow> (string \<times> string) wres \<times> module_cache" where
  "PrepareModule wz invocation cache = (case precheck (iv_Manifest invocation) (iv_Module invocation) of
      Some e \<Rightarrow> (Inl e, cache)
    | None \<Rightarrow> (case compileWithCacheStatus wz (wasmMemoryLimitPages (iv_MemoryBytes invocation)) (iv_ArtifactID invocation) (iv_Module invocation) cache of
        ((Inl e, _), cache) \<Rightarrow> (Inl (Plain e), cache)
      | ((Inr compiled, status), cache) \<Rightarrow> (case validateWASMCompiledABI compiled (iv_Manifest invocation) of
          Some e \<Rightarrow> (Inl e, cache)
        | None \<Rightarrow> (Inr (wz_SHA256 wz (iv_Module invocation), status), cache))))"

definition firstNonEmpty :: "string list \<Rightarrow> string" where
  "firstNonEmpty values = (case filter (\<lambda>v. v \<noteq> []) values of [] \<Rightarrow> [] | v # _ \<Rightarrow> v)"

text \<open>The exchange through the memory of an instance: request in, call, response out.\<close>

definition exchange :: "'i wazero \<Rightarrow> wasm_codec \<Rightarrow> int \<Rightarrow> int \<Rightarrow> string \<Rightarrow> string \<Rightarrow> bytes \<Rightarrow> 'i \<Rightarrow> WASMABIResponse wres" where
  "exchange wz c timeout maxOutput point fnName reqBytes inst =
    (if \<not> wz_Memory wz inst then Inl (newWASMABIError ''abi_mismatch'' point ''wasm module must export memory for host ABI JSON exchange'')
     else (case wz_Write wz inst reqBytes of
         None \<Rightarrow> Inl (newWASMABIError ''oversized_input'' point ''request does not fit wasm memory'')
       | Some inst \<Rightarrow>
         (if \<not> wz_Exported wz inst fnName then Inl (newWASMABIError ''export_missing'' point ''wasm export not found'')
          else (case wz_Call wz timeout inst fnName 0 (length reqBytes) of
              (Inl e, _) \<Rightarrow> Inl (mapWASMInvocationError (wz_Deadline wz) point (Plain e))
            | (Inr results, inst) \<Rightarrow> (case results of
                [r] \<Rightarrow>
                  (let (respPtr, respLen) = wasmUnpackPtrLen r;
                       maxOutput = (if maxOutput \<le> 0 then int wasmABIMaxOutputBytes else maxOutput)
                   in if respLen = 0 \<or> uint respLen > maxOutput then Inl (newWASMABIError ''oversized_output'' point ''response size exceeds limit'')
                      else (case wz_Read wz inst respPtr respLen of
                          None \<Rightarrow> Inl (newWASMABIError ''bad_output'' point ''response memory range is invalid'')
                        | Some respBytes \<Rightarrow> (case DecodeWASMABIResponse c point respBytes of
                            Inl e \<Rightarrow> Inl e
                          | Inr (resp, _) \<Rightarrow> (case wr_Error resp of
                              Some payload \<Rightarrow> Inl (newWASMABIError (wp_Code payload) point (wp_Message payload))
                            | None \<Rightarrow> Inr resp))))
              | _ \<Rightarrow> Inl (newWASMABIError ''abi_mismatch'' point ''wasm export returned a wrong number of results''))))))"

definition Dispatch :: "'i wazero \<Rightarrow> wasm_codec \<Rightarrow> WASMDispatchInvocation \<Rightarrow> module_cache \<Rightarrow> WASMABIResponse wres \<times> module_cache" where
  "Dispatch wz c invocation cache =
    (let point = dv_ExtensionPoint invocation; manifest = dv_Manifest invocation in
     case precheck manifest (dv_Module invocation) of
       Some e \<Rightarrow> (Inl e, cache)
     | None \<Rightarrow> (case WASMABIExportForExtension point of
         None \<Rightarrow> (Inl (newWASMABIError ''schema_invalid'' point ''unsupported extension_point''), cache)
       | Some fnName \<Rightarrow>
         (let req = dv_Request invocation;
              req = req\<lparr>wq_PluginID := firstNonEmpty [wq_PluginID req, dv_PluginID invocation, wm_ID manifest],
                        wq_ArtifactID := firstNonEmpty [wq_ArtifactID req, dv_ArtifactID invocation], wq_ExtensionPoint := point\<rparr>
          in case EncodeWASMABIRequest c req of
            Inl e \<Rightarrow> (Inl e, cache)
          | Inr reqBytes \<Rightarrow>
            (let timeout = (if dv_Timeout invocation \<le> 0 then wasmTimeout manifest else dv_Timeout invocation);
                 pages = wasmMemoryLimitPages (dv_MemoryBytes invocation)
             in case compileWithCacheStatus wz pages (dv_ArtifactID invocation) (dv_Module invocation) cache of
               ((Inl e, _), cache) \<Rightarrow> (Inl (Plain e), cache)
             | ((Inr compiled, _), cache) \<Rightarrow> (case instantiate wz compiled manifest of
                 Inl e \<Rightarrow> (Inl e, cache)
               | Inr inst \<Rightarrow> (exchange wz c timeout (dv_MaxOutputBytes invocation) point fnName reqBytes inst, cache))))))"

section \<open>The hosted plugin\<close>

record wasmRuntimeFailure =
  rf_At :: int
  rf_ExtensionPoint :: string
  rf_ErrorCode :: string
  rf_Message :: string
  rf_Quarantine :: bool

record wasmRuntimeQuarantine =
  qr_PluginID :: string
  qr_ArtifactID :: string
  qr_Reason :: string
  qr_ExtensionPoint :: string
  qr_LastError :: string
  qr_TrapCount :: int
  qr_At :: int

record wasmHostedPlugin =
  hp_runner :: bool
  hp_manifest :: WasmManifest
  hp_artifactID :: string
  hp_pluginID :: string
  hp_module :: bytes
  hp_configJSON :: string
  hp_state :: string
  hp_drainingAt :: int
  hp_stoppedAt :: int
  hp_activeCalls :: int
  hp_callCount :: int
  hp_durationCount :: int
  hp_durationSumMS :: int
  hp_durationMaxMS :: int
  hp_durationBuckets :: "int list"
  hp_trapCount :: int
  hp_timeoutCount :: int
  hp_memoryErrorCount :: int
  hp_consecutiveTraps :: int
  hp_recentFailures :: "wasmRuntimeFailure list"
  hp_quarantined :: bool
  hp_quarantineAt :: int
  hp_quarantineReason :: string
  hp_lastError :: string
  hp_lastPoint :: string
  hp_lastAt :: int
  hp_lastOK :: bool
  hp_callback :: bool

record wasmRuntimeSnapshot =
  sn_manifest :: WasmManifest
  sn_artifactID :: string
  sn_pluginID :: string
  sn_module :: bytes
  sn_configJSON :: string

text \<open>What the recording of a call reads from outside: case folding and JSON for the redaction.\<close>

record hosted_lib =
  hl_uni :: "string \<Rightarrow> string"
  hl_json :: json_codec

definition beginDispatch :: "wasmHostedPlugin \<Rightarrow> wasmRuntimeSnapshot wres \<times> wasmHostedPlugin" where
  "beginDispatch p =
    (let p = (if hp_state p = [] then p\<lparr>hp_state := ''enabled''\<rparr> else p) in
     if hp_state p = ''draining'' then (Inl (Plain (ErrorString ''wasm plugin is draining; refusing new dispatch'')), p)
     else if hp_state p = ''stopped'' then (Inl (Plain (ErrorString ''wasm plugin is stopped; refusing new dispatch'')), p)
     else if hp_state p \<noteq> ''enabled'' then (Inl (Plain (ErrorString ''wasm plugin is not running'')), p)
     else if \<not> hp_runner p \<or> hp_module p = [] then (Inl (Plain (ErrorString ''wasm plugin runtime is released'')), p)
     else (Inr \<lparr>sn_manifest = hp_manifest p, sn_artifactID = hp_artifactID p, sn_pluginID = hp_pluginID p, sn_module = hp_module p, sn_configJSON = hp_configJSON p\<rparr>,
           p\<lparr>hp_activeCalls := hp_activeCalls p + 1\<rparr>))"

definition finishDispatch :: "wasmHostedPlugin \<Rightarrow> wasmHostedPlugin" where
  "finishDispatch p = (if hp_activeCalls p > 0 then p\<lparr>hp_activeCalls := hp_activeCalls p - 1\<rparr> else p)"

definition wasmDurationBucketUpperMS :: "int list" where
  "wasmDurationBucketUpperMS = [1, 5, 10, 50, 100, 500, 1000, 3000]"

definition wasmDurationBucketIndex :: "int \<Rightarrow> nat" where
  "wasmDurationBucketIndex durationMS = length (takeWhile (\<lambda>upper. \<not> durationMS \<le> upper) wasmDurationBucketUpperMS)"

definition redactRuntimeError :: "hosted_lib \<Rightarrow> WasmManifest \<Rightarrow> string \<Rightarrow> string \<Rightarrow> string" where
  "redactRuntimeError lib manifest message configJSON =
    redactSensitive (hl_uni lib)
      (if configJSON \<noteq> [] then redactSensitiveConfigText (hl_json lib) message configJSON
          (sensitiveConfigPaths (hl_uni lib) (hl_json lib) (mf_ConfigSchema manifest) configJSON)
       else message)"

definition appendRecentFailureLocked :: "wasmRuntimeFailure \<Rightarrow> wasmHostedPlugin \<Rightarrow> wasmHostedPlugin" where
  "appendRecentFailureLocked failure p =
    (if rf_Message failure = [] then p
     else p\<lparr>hp_recentFailures := (if length (hp_recentFailures p) \<ge> 10 then drop 1 (hp_recentFailures p) else hp_recentFailures p) @ [failure]\<rparr>)"

definition record_duration :: "int option \<Rightarrow> wasmHostedPlugin \<Rightarrow> wasmHostedPlugin" where
  "record_duration duration p = (case duration of
      Some d \<Rightarrow> (if d \<ge> 0 then
          (let ms = int_quot d 1000000; i = wasmDurationBucketIndex ms in
           p\<lparr>hp_callCount := hp_callCount p + 1, hp_durationCount := hp_durationCount p + 1, hp_durationSumMS := hp_durationSumMS p + ms,
             hp_durationMaxMS := max ms (hp_durationMaxMS p), hp_durationBuckets := (hp_durationBuckets p)[i := hp_durationBuckets p ! i + 1]\<rparr>)
        else p)
    | None \<Rightarrow> p)"

definition count_failure :: "string \<Rightarrow> wasmHostedPlugin \<Rightarrow> wasmHostedPlugin" where
  "count_failure code p =
    (if code = ''trap'' then p\<lparr>hp_trapCount := hp_trapCount p + 1, hp_consecutiveTraps := hp_consecutiveTraps p + 1\<rparr>
     else if code = ''timeout'' then p\<lparr>hp_timeoutCount := hp_timeoutCount p + 1, hp_consecutiveTraps := 0\<rparr>
     else if code = ''memory_exceeded'' then p\<lparr>hp_memoryErrorCount := hp_memoryErrorCount p + 1, hp_consecutiveTraps := 0\<rparr>
     else p\<lparr>hp_consecutiveTraps := 0\<rparr>)"

text \<open>The second component is the event handed to the callback of the manager, if there is one.\<close>

definition recordDispatchWithContext ::
  "hosted_lib \<Rightarrow> int \<Rightarrow> string \<Rightarrow> wasm_error option \<Rightarrow> string \<Rightarrow> int option \<Rightarrow> wasmHostedPlugin \<Rightarrow> wasmHostedPlugin \<times> wasmRuntimeQuarantine option" where
  "recordDispatchWithContext lib now point err configJSON duration p =
    (let p = record_duration duration (p\<lparr>hp_lastPoint := point, hp_lastAt := now\<rparr>) in
     case err of
       None \<Rightarrow> (p\<lparr>hp_lastOK := True, hp_lastError := [], hp_consecutiveTraps := 0\<rparr>, None)
     | Some e \<Rightarrow>
       (let message = redactRuntimeError lib (hp_manifest p) (wasm_Error e) configJSON; code = wasmABIErrorCode e;
            p = count_failure code (p\<lparr>hp_lastOK := False, hp_lastError := message\<rparr>);
            failure = \<lparr>rf_At = now, rf_ExtensionPoint = point, rf_ErrorCode = code, rf_Message = message, rf_Quarantine = False\<rparr>
        in if code = ''trap'' \<and> hp_consecutiveTraps p \<ge> 3 \<and> \<not> hp_quarantined p then
             (let p = p\<lparr>hp_quarantined := True, hp_quarantineAt := now, hp_quarantineReason := ''wasm repeated trap quarantine'', hp_state := ''draining''\<rparr>;
                  event = \<lparr>qr_PluginID = hp_pluginID p, qr_ArtifactID = hp_artifactID p, qr_Reason = hp_quarantineReason p, qr_ExtensionPoint = point,
                           qr_LastError = message, qr_TrapCount = hp_trapCount p, qr_At = now\<rparr>
              in (appendRecentFailureLocked (failure\<lparr>rf_Quarantine := True\<rparr>) p, if hp_callback p then Some event else None))
           else (appendRecentFailureLocked failure p, None)))"

text \<open>
  A call, as its goroutine sees it: \<open>now\<close> and \<open>duration\<close> are what the clock shows when the call is recorded.  A refused call is
  recorded without duration.
\<close>

definition hosted_dispatch ::
  "'i wazero \<Rightarrow> wasm_codec \<Rightarrow> hosted_lib \<Rightarrow> int \<Rightarrow> int \<Rightarrow> string \<Rightarrow> WASMABIRequest \<Rightarrow> wasmHostedPlugin \<times> module_cache
   \<Rightarrow> WASMABIResponse wres \<times> (wasmHostedPlugin \<times> module_cache) \<times> wasmRuntimeQuarantine option" where
  "hosted_dispatch wz c lib now duration point req = (\<lambda>(p, cache). case beginDispatch p of
      (Inl e, p) \<Rightarrow> (case recordDispatchWithContext lib now point (Some e) [] None p of (p, event) \<Rightarrow> (Inl e, (p, cache), event))
    | (Inr sn, p) \<Rightarrow>
      (let req = (if wq_Config req = [] then req\<lparr>wq_Config := sn_configJSON sn\<rparr> else req) in
       case Dispatch wz c \<lparr>dv_ArtifactID = sn_artifactID sn, dv_PluginID = sn_pluginID sn, dv_Module = sn_module sn, dv_Manifest = sn_manifest sn,
              dv_ExtensionPoint = point, dv_Request = req, dv_Timeout = wasmTimeout (sn_manifest sn),
              dv_MemoryBytes = wm_MemoryBytes (sn_manifest sn), dv_MaxOutputBytes = int wasmABIMaxOutputBytes\<rparr> cache of
         (r, cache) \<Rightarrow> (case recordDispatchWithContext lib now point (case r of Inl e \<Rightarrow> Some e | Inr _ \<Rightarrow> None) (wq_Config req) (Some duration) p of
           (p, event) \<Rightarrow> (r, (finishDispatch p, cache), event))))"

definition empty_request :: WASMABIRequest where
  "empty_request = \<lparr>wq_ABI = [], wq_ExtensionPoint = [], wq_PluginID = [], wq_ArtifactID = [], wq_RequestID = [], wq_FailPolicy = [], wq_Config = [],
     wq_RuleContext = [], wq_RouteContext = [], wq_Host = [], wq_Source = []\<rparr>"

definition validateConfig ::
  "'i wazero \<Rightarrow> wasm_codec \<Rightarrow> hosted_lib \<Rightarrow> int \<Rightarrow> int \<Rightarrow> string \<Rightarrow> wasmHostedPlugin \<times> module_cache
   \<Rightarrow> wasm_error option \<times> (wasmHostedPlugin \<times> module_cache) \<times> wasmRuntimeQuarantine option" where
  "validateConfig wz c lib now duration configJSON st =
    (if \<not> wasmManifestHasExtension (hp_manifest (fst st)) ExtensionConfigValidate then (None, st, None)
     else (case hosted_dispatch wz c lib now duration ExtensionConfigValidate (empty_request\<lparr>wq_Config := configJSON\<rparr>) st of
         (Inl e, st, event) \<Rightarrow> (Some e, st, event)
       | (Inr resp, (p, cache), event) \<Rightarrow>
           (if wr_Valid resp \<noteq> Some True then
              (let e = Plain (ErrorString (''wasm config validation failed: '' @ (if wr_Reason resp = [] then ''wasm config validation failed'' else wr_Reason resp)))
               in case recordDispatchWithContext lib now ExtensionConfigValidate (Some e) [] None p of (p, event) \<Rightarrow> (Some e, (p, cache), event))
            else (None, (p, cache), event))))"

text \<open>\<open>context\<close> is the JSON text of the request.\<close>

definition evaluateRule ::
  "'i wazero \<Rightarrow> wasm_codec \<Rightarrow> hosted_lib \<Rightarrow> int \<Rightarrow> int \<Rightarrow> string result \<Rightarrow> wasmHostedPlugin \<times> module_cache
   \<Rightarrow> RuleEvaluateDecision wres \<times> (wasmHostedPlugin \<times> module_cache) \<times> wasmRuntimeQuarantine option" where
  "evaluateRule wz c lib now duration contextJSON st = (case contextJSON of
      Inl e \<Rightarrow> (Inl (Plain e), st, None)
    | Inr txt \<Rightarrow> (case hosted_dispatch wz c lib now duration ExtensionRuleEvaluate (empty_request\<lparr>wq_RuleContext := txt\<rparr>) st of
        (Inl e, st, event) \<Rightarrow> (Inl e, st, event)
      | (Inr resp, st, event) \<Rightarrow>
          (Inr \<lparr>re_Allow = wr_Decision resp = ''allow'', re_Deny = wr_Decision resp = ''deny'', re_Reject = wr_Decision resp = ''deny'',
             re_Reason = (if wr_Reason resp = [] then ''wasm rule decision'' else wr_Reason resp),
             re_ProviderID = hp_pluginID (fst st), re_Metadata = Map.empty\<rparr>, st, event)))"

definition route_decision :: "string \<Rightarrow> string \<Rightarrow> string \<Rightarrow> string \<Rightarrow> string \<Rightarrow> RouteDecision" where
  "route_decision action upstream host reason provider = \<lparr>rd_Action = action, rd_Upstream = upstream, rd_Host = host, rd_Reason = reason,
     rd_ProviderID = provider, rd_CacheTTL = 0, rd_Metadata = Map.empty, rd_Explanation = []\<rparr>"

definition resolveRoute ::
  "'i wazero \<Rightarrow> wasm_codec \<Rightarrow> hosted_lib \<Rightarrow> int \<Rightarrow> int \<Rightarrow> RouteResolveRequest \<Rightarrow> string result \<Rightarrow> wasmHostedPlugin \<times> module_cache
   \<Rightarrow> RouteDecision result \<times> (wasmHostedPlugin \<times> module_cache) \<times> wasmRuntimeQuarantine option" where
  "resolveRoute wz c lib now duration req contextJSON st = (case contextJSON of
      Inl e \<Rightarrow> (Inl e, st, None)
    | Inr txt \<Rightarrow> (case hosted_dispatch wz c lib now duration ExtensionRouteResolve
          (empty_request\<lparr>wq_RouteContext := txt, wq_Host := rq_Host req, wq_Source := rq_SourceAddr req\<rparr>) st of
        (Inl _, st, event) \<Rightarrow> (Inl ErrPass, st, event)
      | (Inr resp, st, event) \<Rightarrow>
          ((if wr_Decision resp = ''use_default'' then Inr (route_decision RouteDecisionPass [] [] (firstNonEmpty [wr_Reason resp, ''wasm route pass'']) (hp_pluginID (fst st)))
            else if wr_Decision resp = ''override''
            then Inr (route_decision RouteDecisionOverride (wr_Route resp) (rq_Host req) (firstNonEmpty [wr_Reason resp, ''wasm route override'']) (hp_pluginID (fst st)))
            else if wr_Decision resp = ''reject''
            then Inr (route_decision RouteDecisionReject [] (rq_Host req) (firstNonEmpty [wr_Reason resp, ''wasm route reject'']) (hp_pluginID (fst st)))
            else Inl ErrPass), st, event)))"

section \<open>Draining and stopping\<close>

text \<open>\<open>drain\<close> sets the state, then waits for the calls under way: \<open>drain_begin\<close> is \<^const>\<open>None\<close> when there is nothing to wait for.\<close>

definition drain_begin :: "int \<Rightarrow> wasmHostedPlugin \<Rightarrow> wasmHostedPlugin option" where
  "drain_begin now p =
    (if hp_state p = ''stopped'' then None
     else Some (p\<lparr>hp_state := ''draining'', hp_drainingAt := (if hp_drainingAt p = 0 then now else hp_drainingAt p)\<rparr>))"

definition drain_done :: "wasmHostedPlugin \<Rightarrow> bool" where
  "drain_done p = (hp_activeCalls p = 0)"

text \<open>The part of \<open>stop\<close> after \<open>drain\<close>, which runs whether or not the drain timed out.\<close>

definition stop_release :: "int \<Rightarrow> wasmHostedPlugin \<Rightarrow> wasmHostedPlugin" where
  "stop_release now p = p\<lparr>hp_state := ''stopped'', hp_stoppedAt := now, hp_runner := False, hp_module := [], hp_configJSON := []\<rparr>"

definition lifecycleState :: "wasmHostedPlugin option \<Rightarrow> string" where
  "lifecycleState p = (case p of None \<Rightarrow> ''failed'' | Some p \<Rightarrow> (if hp_state p = [] then ''enabled'' else hp_state p))"

text \<open>\<open>HealthCheck\<close>: whether it is healthy, the status and the error.\<close>

definition wasm_HealthCheck :: "wasmHostedPlugin option \<Rightarrow> bool \<times> string \<times> string" where
  "wasm_HealthCheck inst = (case inst of
      None \<Rightarrow> (False, ''failed'', ''plugin instance is nil'')
    | Some p \<Rightarrow> (let state = lifecycleState (Some p) in (state = ''enabled'' \<or> state = ''draining'', state, [])))"

end
