(* ===== verification/Wasm_Lifecycle.thy ===== *)
theory Wasm_Lifecycle
  imports Wasm_Runtime
begin

text \<open>
  A hosted WASM plugin among goroutines (\<open>wasm_runtime.go\<close>), its adapter, and its place in the manager (\<open>manager.go\<close>): the callback that takes a
  trapping plugin out of service and the reload of its configuration.

  Each critical section of \<open>p.mu\<close> is one step of \<open>hstep\<close>; the engine runs between the steps.
\<close>

section \<open>Facts on one call\<close>

lemma precheck_None:
  assumes "precheck manifest code = None"
  shows "validateWASMExtensionPoints manifest = None" "validateWASMManifestABI manifest = None" "validateWASMRuntimeLimits manifest = None" "code \<noteq> []"
  using assms by (auto simp: precheck_def split: if_splits)

lemma exchange_answer:
  assumes "exchange wz c timeout maxOutput point fnName reqBytes inst = Inr resp" "point \<noteq> []"
  shows "answer_ok point resp"
proof -
  obtain respBytes canonical where "DecodeWASMABIResponse c point respBytes = Inr (resp, canonical)" "wr_Error resp = None"
    using assms(1) by (auto simp: exchange_def Let_def split: if_splits option.splits sum.splits prod.splits list.splits)
  then show ?thesis using validated_response decoded_response(1) assms(2) by blast
qed

text \<open>What is known of the module that answered: it was compiled under this memory limit and passed the checks.\<close>

definition ran_checked :: "'i wazero \<Rightarrow> int \<Rightarrow> WasmManifest \<Rightarrow> bool" where
  "ran_checked wz pages manifest = (\<exists>code compiled. code \<noteq> [] \<and> wz_Compile wz pages code = Inr compiled \<and> host_only compiled
     \<and> (\<forall>p \<in> set (mf_ExtensionPoints manifest). has_entry compiled p))"

lemma compiled_from:
  assumes "compileWithCacheStatus wz pages artifactID code cache = ((Inr compiled, status), cache')" "code \<noteq> []"
  obtains code' where "code' \<noteq> []" "wz_Compile wz pages code' = Inr compiled"
  using assms by (auto simp: compileWithCacheStatus_def Let_def split: option.splits list.splits sum.splits)

lemma instantiate_checked: "instantiate wz compiled manifest = Inr inst \<Longrightarrow> validateWASMCompiledABI compiled manifest = None"
  by (auto simp: instantiate_def split: option.splits sum.splits)

lemma Dispatch_sound:
  assumes "Dispatch wz c invocation cache = (Inr resp, cache')"
  shows "answer_ok (dv_ExtensionPoint invocation) resp"
    and "ran_checked wz (wasmMemoryLimitPages (dv_MemoryBytes invocation)) (dv_Manifest invocation)"
    and "precheck (dv_Manifest invocation) (dv_Module invocation) = None"
proof -
  let ?point = "dv_ExtensionPoint invocation" and ?pages = "wasmMemoryLimitPages (dv_MemoryBytes invocation)"
  show pre: "precheck (dv_Manifest invocation) (dv_Module invocation) = None"
    using assms by (auto simp: Dispatch_def Let_def split: option.splits)
  obtain fnName reqBytes compiled status cache1 inst timeout where name: "WASMABIExportForExtension ?point = Some fnName"
    and comp: "compileWithCacheStatus wz ?pages (dv_ArtifactID invocation) (dv_Module invocation) cache = ((Inr compiled, status), cache1)"
    and inst: "instantiate wz compiled (dv_Manifest invocation) = Inr inst"
    and ex: "exchange wz c timeout (dv_MaxOutputBytes invocation) ?point fnName reqBytes inst = Inr resp"
    using assms by (auto simp: Dispatch_def Let_def split: option.splits sum.splits prod.splits)
  have "?point \<noteq> []" using name by (auto simp: WASMABIExportForExtension_def extension_names)
  with ex show "answer_ok ?point resp" by (rule exchange_answer)
  show "ran_checked wz ?pages (dv_Manifest invocation)"
    using compiled_from [OF comp precheck_None(4) [OF pre]] compiled_ok [OF instantiate_checked [OF inst]] unfolding ran_checked_def by metis
qed

text \<open>A cache that holds, under the key of a module, that module or nothing does not change what is compiled.\<close>

lemma cache_transparent:
  assumes "cache key = None \<or> cache key = Some code" "key = (if artifactID = [] then wz_SHA256 wz code else artifactID)" "code \<noteq> []"
  shows "fst (fst (compileWithCacheStatus wz pages artifactID code cache)) = wz_Compile wz pages code
    \<and> snd (compileWithCacheStatus wz pages artifactID code cache) key \<in> {cache key, Some code}"
  using assms by (cases code) (auto simp: compileWithCacheStatus_def Let_def split: sum.splits)

section \<open>Facts on the bookkeeping\<close>

lemma beginDispatch_Inr:
  assumes "beginDispatch p = (Inr sn, p')"
  shows "hp_state p \<in> {[], ''enabled''}" "hp_runner p" "hp_module p \<noteq> []" "p' = p\<lparr>hp_state := ''enabled'', hp_activeCalls := hp_activeCalls p + 1\<rparr>"
    "sn_manifest sn = hp_manifest p" "sn_pluginID sn = hp_pluginID p"
  using assms by (auto simp: beginDispatch_def Let_def split: if_splits)

lemma beginDispatch_Inl:
  assumes "beginDispatch p = (Inl e, p')"
  shows "p' = (if hp_state p = [] then p\<lparr>hp_state := ''enabled''\<rparr> else p)" "wasmABIErrorCode e = []"
  using assms by (auto simp: beginDispatch_def Let_def split: if_splits)

lemma record_duration_keeps [simp]:
  "hp_state (record_duration d p) = hp_state p" "hp_quarantined (record_duration d p) = hp_quarantined p"
  "hp_activeCalls (record_duration d p) = hp_activeCalls p" "hp_recentFailures (record_duration d p) = hp_recentFailures p"
  "hp_consecutiveTraps (record_duration d p) = hp_consecutiveTraps p" "hp_pluginID (record_duration d p) = hp_pluginID p"
  "hp_callback (record_duration d p) = hp_callback p" "hp_runner (record_duration d p) = hp_runner p" "hp_module (record_duration d p) = hp_module p"
  "hp_manifest (record_duration d p) = hp_manifest p"
  by (auto simp: record_duration_def Let_def split: option.splits)

lemma count_failure_keeps [simp]:
  "hp_state (count_failure k p) = hp_state p" "hp_quarantined (count_failure k p) = hp_quarantined p"
  "hp_activeCalls (count_failure k p) = hp_activeCalls p" "hp_recentFailures (count_failure k p) = hp_recentFailures p"
  "hp_pluginID (count_failure k p) = hp_pluginID p" "hp_callback (count_failure k p) = hp_callback p"
  "hp_runner (count_failure k p) = hp_runner p" "hp_module (count_failure k p) = hp_module p" "hp_manifest (count_failure k p) = hp_manifest p"
  "hp_callCount (count_failure k p) = hp_callCount p" "hp_durationCount (count_failure k p) = hp_durationCount p"
  "hp_durationBuckets (count_failure k p) = hp_durationBuckets p"
  by (simp_all add: count_failure_def)

lemma count_failure_traps [simp]: "hp_consecutiveTraps (count_failure k p) = (if k = ''trap'' then hp_consecutiveTraps p + 1 else 0)"
  by (simp add: count_failure_def)

lemma append_failure_keeps [simp]:
  "hp_state (appendRecentFailureLocked f p) = hp_state p" "hp_quarantined (appendRecentFailureLocked f p) = hp_quarantined p"
  "hp_activeCalls (appendRecentFailureLocked f p) = hp_activeCalls p" "hp_consecutiveTraps (appendRecentFailureLocked f p) = hp_consecutiveTraps p"
  "hp_pluginID (appendRecentFailureLocked f p) = hp_pluginID p" "hp_callback (appendRecentFailureLocked f p) = hp_callback p"
  "hp_runner (appendRecentFailureLocked f p) = hp_runner p" "hp_module (appendRecentFailureLocked f p) = hp_module p"
  "hp_manifest (appendRecentFailureLocked f p) = hp_manifest p"
  "hp_callCount (appendRecentFailureLocked f p) = hp_callCount p" "hp_durationCount (appendRecentFailureLocked f p) = hp_durationCount p"
  "hp_durationBuckets (appendRecentFailureLocked f p) = hp_durationBuckets p"
  by (simp_all add: appendRecentFailureLocked_def)

lemma append_failure_bound: "length (hp_recentFailures p) \<le> 10 \<Longrightarrow> length (hp_recentFailures (appendRecentFailureLocked f p)) \<le> 10"
  by (auto simp: appendRecentFailureLocked_def)

text \<open>The histogram counts every timed call once.\<close>

definition histogram_ok :: "wasmHostedPlugin \<Rightarrow> bool" where
  "histogram_ok p = (length (hp_durationBuckets p) = 9 \<and> sum_list (hp_durationBuckets p) = hp_durationCount p \<and> hp_callCount p = hp_durationCount p)"

lemma sum_list_bump: "i < length xs \<Longrightarrow> sum_list (xs[i := xs ! i + (1::int)]) = sum_list xs + 1"
  by (induction xs arbitrary: i) (auto split: nat.splits)

lemma bucket_index_bound: "wasmDurationBucketIndex ms < 9"
  unfolding wasmDurationBucketIndex_def using length_takeWhile_le [of _ wasmDurationBucketUpperMS] by (rule le_less_trans) (simp add: wasmDurationBucketUpperMS_def)

lemma record_duration_histogram: "histogram_ok p \<Longrightarrow> histogram_ok (record_duration d p)"
  using bucket_index_bound by (auto simp: histogram_ok_def record_duration_def Let_def sum_list_bump split: option.splits)

definition trips :: "wasm_error option \<Rightarrow> wasmHostedPlugin \<Rightarrow> bool" where
  "trips err p = (\<exists>e. err = Some e \<and> wasmABIErrorCode e = ''trap'' \<and> hp_consecutiveTraps p \<ge> 2 \<and> \<not> hp_quarantined p)"

lemma record_effect:
  assumes "recordDispatchWithContext lib now point err config d p = (p', event)"
  shows "hp_state p' = (if trips err p then ''draining'' else hp_state p)" "hp_quarantined p' = (hp_quarantined p \<or> trips err p)"
    "hp_activeCalls p' = hp_activeCalls p" "hp_runner p' = hp_runner p" "hp_module p' = hp_module p" "hp_manifest p' = hp_manifest p" "hp_pluginID p' = hp_pluginID p"
    "hp_callback p' = hp_callback p" "event \<noteq> None \<longleftrightarrow> trips err p \<and> hp_callback p"
    "hp_consecutiveTraps p' = (case err of Some e \<Rightarrow> (if wasmABIErrorCode e = ''trap'' then hp_consecutiveTraps p + 1 else 0) | None \<Rightarrow> 0)"
  using assms by (auto simp: recordDispatchWithContext_def trips_def Let_def split: option.splits if_splits)

lemma record_keeps:
  assumes "recordDispatchWithContext lib now point err config d p = (p', event)"
  shows "length (hp_recentFailures p) \<le> 10 \<Longrightarrow> length (hp_recentFailures p') \<le> 10" "histogram_ok p \<Longrightarrow> histogram_ok p'"
proof -
  assume h: "histogram_ok p"
  then have "histogram_ok (p\<lparr>hp_lastPoint := point, hp_lastAt := now\<rparr>)" by (simp add: histogram_ok_def)
  then have "histogram_ok (record_duration d (p\<lparr>hp_lastPoint := point, hp_lastAt := now\<rparr>))" by (rule record_duration_histogram)
  then show "histogram_ok p'"
    using assms by (auto simp: recordDispatchWithContext_def histogram_ok_def Let_def split: option.splits if_splits)
next
  assume "length (hp_recentFailures p) \<le> 10"
  then show "length (hp_recentFailures p') \<le> 10"
    using assms by (auto simp: recordDispatchWithContext_def Let_def split: option.splits if_splits intro!: append_failure_bound)
qed

section \<open>Calls and drains interleaved\<close>

datatype call_phase = Idle | Refused wasm_error | Running wasmRuntimeSnapshot | Recorded

text \<open>\<open>Waiting stop\<close> polls; a stop goes on to release the runtime, with \<^const>\<open>True\<close> if its drain was complete.\<close>

datatype drain_phase = NoDrain | Waiting bool | Drained | TimedOut | AlreadyStopped | Releasing bool | Released bool

record hsys =
  hs_p :: wasmHostedPlugin
  hs_call :: "nat \<Rightarrow> call_phase"
  hs_drain :: "nat \<Rightarrow> drain_phase"

text \<open>
  A call begins, is recorded with whatever the engine answered, and ends; a refused call is recorded as well, and so is a configuration the
  module finds invalid.  Any number of goroutines drain or stop.
\<close>

inductive hstep :: "hosted_lib \<Rightarrow> hsys \<Rightarrow> hsys \<Rightarrow> bool" for lib where
  begins: "hs_call s i = Idle \<Longrightarrow> beginDispatch (hs_p s) = (Inr sn, p')
    \<Longrightarrow> hstep lib s (s\<lparr>hs_p := p', hs_call := (hs_call s)(i := Running sn)\<rparr>)"
| refuse: "hs_call s i = Idle \<Longrightarrow> beginDispatch (hs_p s) = (Inl e, p')
    \<Longrightarrow> hstep lib s (s\<lparr>hs_p := p', hs_call := (hs_call s)(i := Refused e)\<rparr>)"
| record_refused: "hs_call s i = Refused e \<Longrightarrow> recordDispatchWithContext lib now point (Some e) [] None (hs_p s) = (p', event)
    \<Longrightarrow> hstep lib s (s\<lparr>hs_p := p', hs_call := (hs_call s)(i := Idle)\<rparr>)"
| recorded: "hs_call s i = Running sn \<Longrightarrow> recordDispatchWithContext lib now point err config (Some d) (hs_p s) = (p', event)
    \<Longrightarrow> hstep lib s (s\<lparr>hs_p := p', hs_call := (hs_call s)(i := Recorded)\<rparr>)"
| finish: "hs_call s i = Recorded \<Longrightarrow> hstep lib s (s\<lparr>hs_p := finishDispatch (hs_p s), hs_call := (hs_call s)(i := Idle)\<rparr>)"
| record_invalid: "recordDispatchWithContext lib now point (Some (Plain e)) [] None (hs_p s) = (p', event) \<Longrightarrow> hstep lib s (s\<lparr>hs_p := p'\<rparr>)"
| reload: "hstep lib s (s\<lparr>hs_p := (hs_p s)\<lparr>hp_configJSON := config\<rparr>\<rparr>)"
| drain: "hs_drain s j = NoDrain \<Longrightarrow> drain_begin now (hs_p s) = Some p'
    \<Longrightarrow> hstep lib s (s\<lparr>hs_p := p', hs_drain := (hs_drain s)(j := Waiting stop)\<rparr>)"
| drain_stopped: "hs_drain s j = NoDrain \<Longrightarrow> drain_begin now (hs_p s) = None
    \<Longrightarrow> hstep lib s (s\<lparr>hs_drain := (hs_drain s)(j := (if stop then Releasing False else AlreadyStopped))\<rparr>)"
| drained: "hs_drain s j = Waiting stop \<Longrightarrow> drain_done (hs_p s)
    \<Longrightarrow> hstep lib s (s\<lparr>hs_drain := (hs_drain s)(j := (if stop then Releasing True else Drained))\<rparr>)"
| drain_timeout: "hs_drain s j = Waiting stop \<Longrightarrow> \<not> drain_done (hs_p s)
    \<Longrightarrow> hstep lib s (s\<lparr>hs_drain := (hs_drain s)(j := (if stop then Releasing False else TimedOut))\<rparr>)"
| release: "hs_drain s j = Releasing whole
    \<Longrightarrow> hstep lib s (s\<lparr>hs_p := stop_release now (hs_p s), hs_drain := (hs_drain s)(j := Released whole)\<rparr>)"

text \<open>A plugin as \<open>Start\<close> makes it.\<close>

definition fresh_plugin :: "wasmHostedPlugin \<Rightarrow> bool" where
  "fresh_plugin p = (hp_state p \<in> {[], ''enabled''} \<and> hp_runner p \<and> hp_module p \<noteq> [] \<and> hp_activeCalls p = 0 \<and> \<not> hp_quarantined p \<and> hp_recentFailures p = []
     \<and> hp_callCount p = 0 \<and> hp_durationCount p = 0 \<and> hp_durationBuckets p = replicate 9 0)"

definition start_system :: "wasmHostedPlugin \<Rightarrow> hsys" where
  "start_system p = \<lparr>hs_p = p, hs_call = \<lambda>_. Idle, hs_drain = \<lambda>_. NoDrain\<rparr>"

inductive hreach :: "hosted_lib \<Rightarrow> wasmHostedPlugin \<Rightarrow> hsys \<Rightarrow> bool" for lib p where
  init: "hreach lib p (start_system p)"
| step: "hreach lib p s \<Longrightarrow> hstep lib s s' \<Longrightarrow> hreach lib p s'"

definition in_flight :: "hsys \<Rightarrow> nat set" where
  "in_flight s = {i. hs_call s i = Recorded \<or> (\<exists>sn. hs_call s i = Running sn)}"

definition complete_drain :: "drain_phase \<Rightarrow> bool" where
  "complete_drain d = (d \<in> {Drained, Releasing True, Released True})"

text \<open>A plugin that has left service, or never was in it.\<close>

definition out_of_service :: "wasmHostedPlugin \<Rightarrow> bool" where
  "out_of_service p = (hp_state p \<notin> {[], ''enabled''})"

definition hinv :: "hsys \<Rightarrow> bool" where
  "hinv s = (finite (in_flight s) \<and> hp_activeCalls (hs_p s) = int (card (in_flight s))
     \<and> (\<forall>j. hs_drain s j \<noteq> NoDrain \<longrightarrow> out_of_service (hs_p s)) \<and> (hp_quarantined (hs_p s) \<longrightarrow> out_of_service (hs_p s))
     \<and> (\<forall>j. complete_drain (hs_drain s j) \<longrightarrow> in_flight s = {})
     \<and> length (hp_recentFailures (hs_p s)) \<le> 10 \<and> histogram_ok (hs_p s))"

lemma in_flight_rest [simp]: "in_flight (s\<lparr>hs_p := p\<rparr>) = in_flight s" "in_flight (s\<lparr>hs_drain := d\<rparr>) = in_flight s"
  "in_flight (s\<lparr>hs_p := p, hs_drain := d\<rparr>) = in_flight s"
  by (simp_all add: in_flight_def)

lemma in_flight_add: "in_flight (s\<lparr>hs_p := p, hs_call := (hs_call s)(i := Running sn)\<rparr>) = insert i (in_flight s)"
  by (auto simp: in_flight_def)

lemma in_flight_same:
  assumes "hs_call s i \<in> range Running \<longleftrightarrow> c = Recorded" "hs_call s i \<noteq> Recorded" "c \<notin> range Running"
  shows "in_flight (s\<lparr>hs_p := p, hs_call := (hs_call s)(i := c)\<rparr>) = in_flight s"
  using assms by (auto simp: in_flight_def)

lemma in_flight_remove: "in_flight (s\<lparr>hs_p := p, hs_call := (hs_call s)(i := Idle)\<rparr>) = in_flight s - {i}"
  by (auto simp: in_flight_def)

lemma histogram_other [simp]:
  "histogram_ok (p\<lparr>hp_state := x\<rparr>) = histogram_ok p" "histogram_ok (p\<lparr>hp_activeCalls := y\<rparr>) = histogram_ok p"
  "histogram_ok (p\<lparr>hp_configJSON := t\<rparr>) = histogram_ok p" "histogram_ok (p\<lparr>hp_drainingAt := n\<rparr>) = histogram_ok p"
  "histogram_ok (p\<lparr>hp_stoppedAt := n\<rparr>) = histogram_ok p" "histogram_ok (p\<lparr>hp_runner := r\<rparr>) = histogram_ok p"
  "histogram_ok (p\<lparr>hp_module := m\<rparr>) = histogram_ok p"
  by (simp_all add: histogram_ok_def)

text \<open>Recording touches nothing that the invariant links to the phases, except that it may take the plugin out of service.\<close>

lemma hinv_record:
  assumes "hinv s" "recordDispatchWithContext lib now point err config d (hs_p s) = (p', event)"
    and "in_flight s' = in_flight s" "hs_p s' = p'" "hs_drain s' = hs_drain s"
  shows "hinv s'"
proof -
  note r = record_effect [OF assms(2)] record_keeps [OF assms(2)]
  have "out_of_service (hs_p s) \<Longrightarrow> out_of_service p'" "trips err (hs_p s) \<Longrightarrow> out_of_service p'"
    by (auto simp: out_of_service_def r(1))
  then show ?thesis using assms(1,3-5) r by (auto simp: hinv_def)
qed

lemma hinv_step:
  assumes "hstep lib s s'" "hinv s"
  shows "hinv s'"
  using assms
proof (induction rule: hstep.induct)
  case (begins s i sn p')
  note b = beginDispatch_Inr [OF begins(2)]
  have "\<And>j. hs_drain s j = NoDrain" "\<not> hp_quarantined (hs_p s)" using begins(3) b(1) by (auto simp: hinv_def out_of_service_def)
  moreover have "i \<notin> in_flight s" using begins(1) by (simp add: in_flight_def)
  ultimately show ?case using begins(3) by (auto simp: hinv_def b(4) in_flight_add complete_drain_def)
next
  case (refuse s i e p')
  have "in_flight (s\<lparr>hs_p := p', hs_call := (hs_call s)(i := Refused e)\<rparr>) = in_flight s"
    by (rule in_flight_same) (use refuse(1) in auto)
  with refuse(3) beginDispatch_Inl(1) [OF refuse(2)] show ?case
    by (auto simp: hinv_def out_of_service_def)
next
  case (record_refused s i e now point p' event)
  have "in_flight (s\<lparr>hs_p := p', hs_call := (hs_call s)(i := Idle)\<rparr>) = in_flight s"
    by (rule in_flight_same) (use record_refused(1) in auto)
  with hinv_record [OF record_refused(3,2)] show ?case by simp
next
  case (recorded s i sn now point err config d p' event)
  have "in_flight (s\<lparr>hs_p := p', hs_call := (hs_call s)(i := Recorded)\<rparr>) = in_flight s"
    by (rule in_flight_same) (use recorded(1) in auto)
  with hinv_record [OF recorded(3,2)] show ?case by simp
next
  case (finish s i)
  then have i: "i \<in> in_flight s" by (simp add: in_flight_def)
  with finish(2) have "0 < card (in_flight s)" by (auto simp: hinv_def card_gt_0_iff)
  then show ?case
    using finish(2) i by (auto simp: hinv_def in_flight_remove finishDispatch_def out_of_service_def card_Diff_singleton of_nat_diff)
next
  case (record_invalid now point e s p' event)
  with hinv_record [OF record_invalid(2,1)] show ?case by simp
next
  case (drain s j now p' stop)
  then have p': "p' = (hs_p s)\<lparr>hp_state := ''draining'', hp_drainingAt := hp_drainingAt p'\<rparr>"
    by (auto simp: drain_begin_def split: if_splits)
  have "out_of_service p'" "hp_quarantined p' = hp_quarantined (hs_p s)" "hp_activeCalls p' = hp_activeCalls (hs_p s)"
    "hp_recentFailures p' = hp_recentFailures (hs_p s)" "histogram_ok p' = histogram_ok (hs_p s)"
    by (subst p'; simp add: out_of_service_def)+
  with drain(3) show ?case by (auto simp: hinv_def complete_drain_def)
next
  case (drained s j stop)
  then show ?case by (auto simp: hinv_def drain_done_def complete_drain_def split: if_splits)
next
  case (release s j whole now)
  then show ?case by (auto simp: hinv_def stop_release_def out_of_service_def complete_drain_def)
qed (auto simp: hinv_def out_of_service_def complete_drain_def drain_begin_def split: if_splits)

lemma hinv_start: "fresh_plugin p \<Longrightarrow> hinv (start_system p)"
  by (auto simp: hinv_def start_system_def fresh_plugin_def in_flight_def complete_drain_def histogram_ok_def sum_list_replicate)

lemma hinv_reach: "hreach lib p s \<Longrightarrow> fresh_plugin p \<Longrightarrow> hinv s"
  by (induction rule: hreach.induct) (auto intro: hinv_start hinv_step)

lemma out_of_service_refuses: "out_of_service p \<Longrightarrow> \<exists>e. beginDispatch p = (Inl e, p)"
  by (auto simp: out_of_service_def beginDispatch_def Let_def)

section \<open>The adapter and the manager\<close>

definition validateWASMModuleABI :: "'i wazero \<Rightarrow> bytes \<Rightarrow> WasmManifest \<Rightarrow> int \<Rightarrow> wasm_error option" where
  "validateWASMModuleABI wz code manifest memoryBytes = (case validateWASMManifestABI manifest of
      Some e \<Rightarrow> Some e
    | None \<Rightarrow> (if code = [] then Some (Plain (ErrorString ''wasm module is empty''))
        else (case wz_Compile wz (wasmMemoryLimitPages memoryBytes) code of
            Inl e \<Rightarrow> Some (Plain e)
          | Inr compiled \<Rightarrow> validateWASMCompiledABI compiled manifest)))"

text \<open>\<open>files\<close> is \<open>os.ReadFile\<close>.\<close>

definition validateWASMArtifactABI :: "'i wazero \<Rightarrow> (string \<Rightarrow> bytes result) \<Rightarrow> WasmArtifact \<Rightarrow> WasmManifest \<Rightarrow> wasm_error option" where
  "validateWASMArtifactABI wz files artifact manifest = first_failure [validateWASMManifestABI manifest, validateWASMRuntimeLimits manifest,
     if wa_FilePath artifact = [] then None
     else (case files (wa_FilePath artifact) of Inl e \<Rightarrow> Some (Plain e) | Inr code \<Rightarrow> validateWASMModuleABI wz code manifest (wm_MemoryBytes manifest))]"

definition wasmArtifactModule :: "(string \<Rightarrow> bytes result) \<Rightarrow> WasmArtifact \<Rightarrow> bytes wres" where
  "wasmArtifactModule files artifact =
    (if wa_FilePath artifact = [] then Inl (Plain (ErrorString ''wasm artifact path is empty''))
     else (case files (wa_FilePath artifact) of Inl e \<Rightarrow> Inl (Plain e) | Inr code \<Rightarrow> Inr code))"

text \<open>\<open>manifest\<close> is what the metadata of the artifact decode to.\<close>

definition wasm_ValidateArtifact :: "'i wazero \<Rightarrow> (string \<Rightarrow> bytes result) \<Rightarrow> WasmManifest result \<Rightarrow> WasmArtifact \<Rightarrow> wasm_error option" where
  "wasm_ValidateArtifact wz files manifest artifact =
    (if ar_RuntimeType artifact \<noteq> ''wasm'' then Some (Plain (ErrorString ''wasm adapter does not support runtime''))
     else (case manifest of
         Inl e \<Rightarrow> Some (Plain e)
       | Inr manifest \<Rightarrow> first_failure [validateWASMExtensionPoints manifest, validateWASMArtifactABI wz files artifact manifest]))"

definition hosted_plugin :: "WasmManifest \<Rightarrow> string \<Rightarrow> string \<Rightarrow> bytes \<Rightarrow> string \<Rightarrow> wasmHostedPlugin" where
  "hosted_plugin manifest artifactID pluginID code config = \<lparr>hp_runner = True, hp_manifest = manifest, hp_artifactID = artifactID, hp_pluginID = pluginID, hp_module = code,
     hp_configJSON = config, hp_state = ''enabled'', hp_drainingAt = 0, hp_stoppedAt = 0, hp_activeCalls = 0, hp_callCount = 0, hp_durationCount = 0,
     hp_durationSumMS = 0, hp_durationMaxMS = 0, hp_durationBuckets = replicate 9 0, hp_trapCount = 0, hp_timeoutCount = 0, hp_memoryErrorCount = 0,
     hp_consecutiveTraps = 0, hp_recentFailures = [], hp_quarantined = False, hp_quarantineAt = 0, hp_quarantineReason = [], hp_lastError = [],
     hp_lastPoint = [], hp_lastAt = 0, hp_lastOK = False, hp_callback = False\<rparr>"

text \<open>\<open>Start\<close> up to the registration of the handlers, which is \<open>Init\<close>; the callback is set later, by the manager.\<close>

definition wasm_Start ::
  "'i wazero \<Rightarrow> wasm_codec \<Rightarrow> hosted_lib \<Rightarrow> int \<Rightarrow> int \<Rightarrow> (string \<Rightarrow> bytes result) \<Rightarrow> WasmManifest result \<Rightarrow> WasmArtifact \<Rightarrow> string \<Rightarrow> string \<Rightarrow> module_cache
   \<Rightarrow> wasmHostedPlugin wres \<times> module_cache" where
  "wasm_Start wz c lib now duration files manifest artifact pluginID config cache = (case manifest of
      Inl e \<Rightarrow> (Inl (Plain e), cache)
    | Inr manifest \<Rightarrow> (case validateWASMArtifactABI wz files artifact manifest of
        Some e \<Rightarrow> (Inl e, cache)
      | None \<Rightarrow> (case wasmArtifactModule files artifact of
          Inl e \<Rightarrow> (Inl e, cache)
        | Inr code \<Rightarrow> (case PrepareModule wz \<lparr>iv_ArtifactID = ar_ID artifact, iv_Module = code, iv_Manifest = manifest, iv_Function = wasmDefaultExport manifest,
              iv_Timeout = wasmTimeout manifest, iv_MemoryBytes = wm_MemoryBytes manifest\<rparr> cache of
            (Inl e, cache) \<Rightarrow> (Inl e, cache)
          | (Inr _, cache) \<Rightarrow>
            (let config = defaultJSONObject (hl_json lib) config in
             case validateConfig wz c lib now duration config (hosted_plugin manifest (ar_ID artifact) pluginID code config, cache) of
               (Some e, (_, cache), _) \<Rightarrow> (Inl e, cache)
             | (None, (p, cache), _) \<Rightarrow> (Inr p, cache))))))"

definition wasm_ReloadConfig ::
  "'i wazero \<Rightarrow> wasm_codec \<Rightarrow> hosted_lib \<Rightarrow> int \<Rightarrow> int \<Rightarrow> string \<Rightarrow> wasmHostedPlugin \<times> module_cache
   \<Rightarrow> wasm_error option \<times> (wasmHostedPlugin \<times> module_cache) \<times> wasmRuntimeQuarantine option" where
  "wasm_ReloadConfig wz c lib now duration configJSON st =
    (let config = defaultJSONObject (hl_json lib) configJSON in
     case validateConfig wz c lib now duration config st of
       (Some e, st, event) \<Rightarrow> (Some e, st, event)
     | (None, (p, cache), event) \<Rightarrow> (None, (p\<lparr>hp_configJSON := config\<rparr>, cache), event))"

text \<open>
  The callback of the manager takes \<open>m.mu\<close>.  \<open>held\<close>: the goroutine that calls it holds that mutex already, and a Go mutex is not
  reentrant, so that the call never returns; this is \<^const>\<open>None\<close>.  Otherwise: the manager, what connections see of it, and the runtime state that is stored.
\<close>

definition handleWASMRepeatedTrapQuarantine ::
  "bool \<Rightarrow> string \<Rightarrow> error option \<Rightarrow> wasmRuntimeQuarantine \<Rightarrow> manager \<Rightarrow> (manager \<times> action list \<times> string option) option" where
  "handleWASMRepeatedTrapQuarantine held runtimeType readErr event m =
    (if held then None
     else Some (case map_of (mg_loaded m) (qr_PluginID event) of
         None \<Rightarrow> (m, [], None)
       | Some loaded \<Rightarrow>
           (if rk_artifactID (lp_runtime loaded) \<noteq> qr_ArtifactID event \<or> runtimeType \<noteq> ''wasm'' then (m, [], None)
            else (case quarantinePluginLocked (qr_PluginID event) m of
              (m, acts) \<Rightarrow> (m, acts, if readErr = None then Some ''draining'' else None)))))"

datatype reload_outcome = ReloadSkipped | ReloadFailed wasm_error | ReloadSucceeded

record reload_env =
  rl_current :: "PluginRecord result"
  rl_mark :: "bool result" \<comment> \<open>storing the runtime state \<open>enabled\<close>\<close>
  rl_readErr :: "error option"

text \<open>\<open>reloadLoadedRuntime\<close> of a WASM plugin, which runs under \<open>m.mu\<close>.  With the runtime state it stored, if it did.\<close>

definition reloadLoadedRuntime ::
  "'i wazero \<Rightarrow> wasm_codec \<Rightarrow> hosted_lib \<Rightarrow> int \<Rightarrow> int \<Rightarrow> reload_env \<Rightarrow> PluginRecord \<Rightarrow> string \<Rightarrow> manager \<Rightarrow> wasmHostedPlugin \<times> module_cache
   \<Rightarrow> (reload_outcome \<times> string option \<times> wasmHostedPlugin \<times> module_cache) option" where
  "reloadLoadedRuntime wz c lib now duration env rec config m st =
    (if pr_ID rec = [] \<or> pr_DesiredArtifactID rec = [] then Some (ReloadSkipped, None, st)
     else (case map_of (mg_loaded m) (pr_ID rec) of
         None \<Rightarrow> Some (ReloadSkipped, None, st)
       | Some loaded \<Rightarrow>
           (if rk_artifactID (lp_runtime loaded) \<noteq> pr_DesiredArtifactID rec then Some (ReloadSkipped, None, st)
            else if (case rl_current env of Inl _ \<Rightarrow> False
                | Inr cur \<Rightarrow> pr_DesiredGeneration cur \<noteq> pr_DesiredGeneration rec \<or> pr_DesiredArtifactID cur \<noteq> pr_DesiredArtifactID rec)
            then Some (ReloadSkipped, None, st)
            else (case wasm_ReloadConfig wz c lib now duration config st of
              (err, st, event) \<Rightarrow>
                (if event \<noteq> None \<and> handleWASMRepeatedTrapQuarantine True ''wasm'' (rl_readErr env) (the event) m = None then None
                 else (case err of
                     Some e \<Rightarrow> Some (ReloadFailed e, None, st)
                   | None \<Rightarrow> (case rl_mark env of
                       Inl e \<Rightarrow> Some (ReloadFailed (Plain e), None, st)
                     | Inr False \<Rightarrow> Some (ReloadSkipped, None, st)
                     | Inr True \<Rightarrow> Some (ReloadSucceeded, Some ''enabled'', st))))))))"

section \<open>Properties\<close>

lemma hosted_dispatch_Inr:
  assumes "hosted_dispatch wz c lib now d point req (p, cache) = (Inr resp, (p', cache'), event)"
  obtains sn p1 invocation cache1 where "beginDispatch p = (Inr sn, p1)" "Dispatch wz c invocation cache = (Inr resp, cache1)"
    "dv_ExtensionPoint invocation = point" "dv_Manifest invocation = hp_manifest p" "dv_MemoryBytes invocation = wm_MemoryBytes (hp_manifest p)"
    "hp_pluginID p' = hp_pluginID p"
proof -
  obtain sn p1 where b: "beginDispatch p = (Inr sn, p1)"
    using assms by (auto simp: hosted_dispatch_def split: prod.splits sum.splits)
  note b' = beginDispatch_Inr [OF b]
  define q where "q = (if wq_Config req = [] then req\<lparr>wq_Config := sn_configJSON sn\<rparr> else req)"
  define inv where "inv = \<lparr>dv_ArtifactID = sn_artifactID sn, dv_PluginID = sn_pluginID sn, dv_Module = sn_module sn, dv_Manifest = sn_manifest sn,
    dv_ExtensionPoint = point, dv_Request = q, dv_Timeout = wasmTimeout (sn_manifest sn), dv_MemoryBytes = wm_MemoryBytes (sn_manifest sn),
    dv_MaxOutputBytes = int wasmABIMaxOutputBytes\<rparr>"
  obtain r cache1 where d: "Dispatch wz c inv cache = (r, cache1)" by fastforce
  obtain p2 ev where rec: "recordDispatchWithContext lib now point (case r of Inl e \<Rightarrow> Some e | Inr _ \<Rightarrow> None) (wq_Config q) (Some d) p1 = (p2, ev)" by fastforce
  have "r = Inr resp" "p' = finishDispatch p2"
    using assms by (simp_all add: hosted_dispatch_def b Let_def d [unfolded inv_def] rec flip: q_def)
  with d that [OF b] show ?thesis
    using b' record_effect(7) [OF rec] by (simp add: inv_def finishDispatch_def)
qed

lemma hosted_dispatch_event:
  assumes "hosted_dispatch wz c lib now d point req (p, cache) = (Inl e, st, event)"
  shows "event \<noteq> None \<longleftrightarrow> trips (Some e) p \<and> hp_callback p"
proof (cases "beginDispatch p")
  case (Pair r p1)
  show ?thesis
  proof (cases r)
    case (Inl e')
    note b = beginDispatch_Inl [OF Pair [unfolded Inl]]
    obtain p2 ev where rec: "recordDispatchWithContext lib now point (Some e') [] None p1 = (p2, ev)" by fastforce
    have "e = e'" "event = ev" using assms by (simp_all add: hosted_dispatch_def Pair Inl rec)
    then show ?thesis using record_effect(9) [OF rec] b by (auto simp: trips_def)
  next
    case (Inr sn)
    note b = beginDispatch_Inr(4) [OF Pair [unfolded Inr]]
    have "trips (Some e) p1 = trips (Some e) p" "hp_callback p1 = hp_callback p" by (simp_all add: b trips_def)
    moreover obtain config d' p2 where "recordDispatchWithContext lib now point (Some e) config d' p1 = (p2, event)"
      using assms by (auto simp: hosted_dispatch_def Pair Inr Let_def split: prod.splits sum.splits)
    ultimately show ?thesis using record_effect(9) by blast
  qed
qed


text \<open>
  A rule is allowed or denied, never both or neither; a route is passed on, rejected, or overridden with an upstream that is not blank.  If the
  call fails the rule has no decision, and the route is passed on.
\<close>

theorem wasm_decisions:
  "(case evaluateRule wz c lib now d ctx (p, cache) of (r, _, _) \<Rightarrow>
      \<forall>dec. r = Inr dec \<longrightarrow> re_Allow dec \<noteq> re_Deny dec \<and> re_Reject dec = re_Deny dec \<and> re_ProviderID dec = hp_pluginID p)
   \<and> (case resolveRoute wz c lib now d req ctx (p, cache) of (r, _, _) \<Rightarrow>
      (\<forall>e. r = Inl e \<longrightarrow> e = ErrPass \<or> ctx = Inl e)
      \<and> (\<forall>dec. r = Inr dec \<longrightarrow> rd_Action dec = RouteDecisionPass \<or> rd_Action dec = RouteDecisionReject
           \<or> rd_Action dec = RouteDecisionOverride \<and> TrimSpace (rd_Upstream dec) \<noteq> [] \<and> rd_Host dec = rq_Host req))"
proof -
  have answer: "answer_ok point resp \<and> hp_pluginID p' = hp_pluginID p" if "hosted_dispatch wz c lib now d point q (p, cache) = (Inr resp, (p', cache'), event)"
    for point q resp p' cache' event
    using that by (rule hosted_dispatch_Inr) (use Dispatch_sound(1) in metis)
  show ?thesis
    by (auto simp: evaluateRule_def resolveRoute_def route_decision_def RouteDecisionPass_def RouteDecisionReject_def RouteDecisionOverride_def
          split: prod.splits sum.splits if_splits dest!: answer) (auto simp: answer_ok_def extension_names)
qed

text \<open>
  C36: However calls, drains, stops and reloads of a hosted plugin interleave: the plugin counts exactly the calls under way; once a drain has begun, or the plugin is quarantined, no
  further call gets in; and after a drain that completed, be it of a stop or not, no call is under way then or ever after.  The list of failures stays
  within ten, and the histogram counts each timed call once.
\<close>

theorem drained_plugin_idle:
  assumes "hreach lib p s" "fresh_plugin p"
  shows "finite (in_flight s) \<and> hp_activeCalls (hs_p s) = int (card (in_flight s))
    \<and> ((\<exists>j. hs_drain s j \<noteq> NoDrain) \<or> hp_quarantined (hs_p s) \<longrightarrow> (\<exists>e. beginDispatch (hs_p s) = (Inl e, hs_p s)))
    \<and> (\<forall>j. hs_drain s j \<in> {Drained, Releasing True, Released True} \<longrightarrow> in_flight s = {})
    \<and> length (hp_recentFailures (hs_p s)) \<le> 10 \<and> sum_list (hp_durationBuckets (hs_p s)) = hp_callCount (hs_p s)"
  using hinv_reach [OF assms] out_of_service_refuses unfolding hinv_def complete_drain_def histogram_ok_def by (intro conjI) auto

text \<open>
  C37: A reload of the configuration runs under the lock of the manager.  If the module traps while it validates the new configuration, the reload never
  returns, with the lock held, exactly when this is the third trap in a row: the plugin is quarantined, and the callback asks for the same lock.
\<close>

theorem reload_blocks_iff:
  assumes "map_of (mg_loaded m) (pr_ID rec) = Some loaded" "rk_artifactID (lp_runtime loaded) = pr_DesiredArtifactID rec"
    "pr_ID rec \<noteq> []" "pr_DesiredArtifactID rec \<noteq> []" "rl_current env = Inr rec"
    and declared: "wasmManifestHasExtension (hp_manifest p) ExtensionConfigValidate"
    and failed: "fst (hosted_dispatch wz c lib now d ExtensionConfigValidate (empty_request\<lparr>wq_Config := defaultJSONObject (hl_json lib) config\<rparr>) (p, cache)) = Inl e"
  shows "reloadLoadedRuntime wz c lib now d env rec config m (p, cache) = None
    \<longleftrightarrow> wasmABIErrorCode e = ''trap'' \<and> 2 \<le> hp_consecutiveTraps p \<and> \<not> hp_quarantined p \<and> hp_callback p"
proof -
  let ?req = "empty_request\<lparr>wq_Config := defaultJSONObject (hl_json lib) config\<rparr>"
  obtain st event where h: "hosted_dispatch wz c lib now d ExtensionConfigValidate ?req (p, cache) = (Inl e, st, event)"
    using failed by (metis prod.exhaust_sel)
  have "event \<noteq> None \<longleftrightarrow> trips (Some e) p \<and> hp_callback p"
    by (rule hosted_dispatch_event [OF h])
  moreover have "wasm_ReloadConfig wz c lib now d config (p, cache) = (Some e, st, event)"
    using h declared by (simp add: wasm_ReloadConfig_def validateConfig_def Let_def)
  ultimately show ?thesis
    using assms(1-5) by (auto simp: reloadLoadedRuntime_def handleWASMRepeatedTrapQuarantine_def trips_def)
qed

section \<open>Examples\<close>

definition demo_wasm_manifest :: "string list \<Rightarrow> WasmManifest" where
  "demo_wasm_manifest points = \<lparr>mf_ConfigSchema = [], mf_Secrets = [], mf_Capabilities = [], mf_SupplyChain = [], mf_ExtensionPoints = points, mf_ExternalDeps = [],
     mf_HandlerTimeoutMS = 100, wm_ID = ''geo'', wm_RuntimeType = ''wasm'', wm_RuntimeABI = ''mc-gateway.wasm.host/v1'', wm_MemoryBytes = 131073, wm_FileStores = []\<rparr>"

definition demo_response :: WASMABIResponse where
  "demo_response = \<lparr>wr_ABI = ''mc-gateway.wasm.host/v1'', wr_ExtensionPoint = ''rule.evaluate/v1'', wr_OK = True, wr_Valid = None, wr_Decision = ''allow'',
     wr_Route = [], wr_Reason = [], wr_Error = None\<rparr>"

text \<open>A codec that knows one request and one response text.\<close>

definition demo_wasm_codec :: wasm_codec where
  "demo_wasm_codec = \<lparr>wc_Valid = (\<lambda>s. s = ''{}''), wc_Marshal_request = (\<lambda>_. Inr ''q''), wc_Marshal_response = (\<lambda>_. Inr ''r''),
     wc_Decode_request = (\<lambda>_. Inr (empty_request, [])), wc_Decode_response = (\<lambda>s. if s = ''r'' then Inr (demo_response, []) else Inl (ErrorString ''bad'')),
     wc_Decode_empty = (\<lambda>s. if s = [] then Some Io_EOF else None), wc_Decode_number = (\<lambda>s. Inr (VStr s)),
     wc_Marshal_any = (\<lambda>v. case v of VStr s \<Rightarrow> Inr s | _ \<Rightarrow> Inl (ErrorString ''bad''))\<rparr>"

definition demo_module :: CompiledModule where
  "demo_module = \<lparr>cm_Exports = (\<lambda>_. Some \<lparr>fd_ParamTypes = [ValueTypeI32, ValueTypeI32], fd_ResultTypes = [ValueTypeI64]\<rparr>), cm_Imports = []\<rparr>"

text \<open>An engine whose instances are their memory: every call answers \<open>r\<close>, or traps.\<close>

definition demo_engine :: "bool \<Rightarrow> string wazero" where
  "demo_engine traps = \<lparr>wz_Compile = (\<lambda>_ code. if code = [] then Inl (ErrorString ''empty'') else Inr demo_module),
     wz_HostImports = None, wz_Instantiate = (\<lambda>_. Inr []), wz_Memory = (\<lambda>_. True), wz_Write = (\<lambda>_ bs. Some bs), wz_Exported = (\<lambda>_ _. True),
     wz_Call = (\<lambda>_ i _ _ _. (if traps then Inl (ErrorString ''wasm error: unreachable'') else Inr [1], i)),
     wz_Read = (\<lambda>_ _ len. if len = 1 then Some ''r'' else None), wz_Deadline = (\<lambda>_. False), wz_SHA256 = (\<lambda>_. ''00'')\<rparr>"

definition demo_lib :: hosted_lib where
  "demo_lib = \<lparr>hl_uni = (\<lambda>s. s), hl_json = \<lparr>jc_Valid = (\<lambda>_. True), jc_Unmarshal = (\<lambda>_. Inr (VObj [])), jc_Marshal = (\<lambda>_. Inr ''{}'')\<rparr>\<rparr>"

definition demo_wasm_plugin :: "string list \<Rightarrow> wasmHostedPlugin" where
  "demo_wasm_plugin points = hosted_plugin (demo_wasm_manifest points) ''geo-1'' ''geo'' ''wasm'' ''{}''"

lemma demo_precheck:
  assumes "point \<in> {ExtensionConfigValidate, ExtensionRuleEvaluate}"
  shows "precheck (demo_wasm_manifest [point]) ''wasm'' = None"
  using assms by (auto simp: precheck_def demo_wasm_manifest_def validateWASMExtensionPoints_def validateWASMManifestABI_def wasmRequiredExports_def wasmHostABIV1_def
      WASMABIExportForExtension_def validateWASMRuntimeLimits_def DefaultHandlerTimeout_def int_quot_def Second_def extension_names)

lemma demo_compile: "compileWithCacheStatus (demo_engine traps) pages ''geo-1'' ''wasm'' Map.empty = ((Inr demo_module, ''miss''), [''geo-1'' \<mapsto> ''wasm''])"
  by (simp add: compileWithCacheStatus_def demo_engine_def)

lemma demo_abi: "validateWASMCompiledABI demo_module (demo_wasm_manifest [ExtensionRuleEvaluate]) = None"
  "validateWASMCompiledABI demo_module (demo_wasm_manifest [ExtensionConfigValidate]) = None"
  by (simp_all add: validateWASMCompiledABI_def wasmRequiredExports_def demo_wasm_manifest_def WASMABIExportForExtension_def extension_names check_export_def demo_module_def)

lemma demo_instantiate: "instantiate (demo_engine traps) demo_module (demo_wasm_manifest [ExtensionRuleEvaluate]) = Inr []"
  "instantiate (demo_engine traps) demo_module (demo_wasm_manifest [ExtensionConfigValidate]) = Inr []"
  by (simp_all add: instantiate_def demo_abi demo_engine_def)

lemma demo_encode:
  assumes "wq_ABI req = []" "wq_FailPolicy req = []"
    "wq_ExtensionPoint req = ExtensionRuleEvaluate \<and> wq_RuleContext req = ''{}'' \<or> wq_ExtensionPoint req = ExtensionConfigValidate \<and> wq_Config req = ''{}''"
  shows "EncodeWASMABIRequest demo_wasm_codec req = Inr ''q''"
  using assms by (elim disjE) (simp_all add: EncodeWASMABIRequest_def validateWASMABIRequest_def wasmHostABIV1_def WASMABIExportForExtension_def wasmABIFailPolicy_def
      validWASMFailPolicy_def check_payload_def validateRawJSONField_def canonicalJSON_def demo_wasm_codec_def wasmABIMaxInputBytes_def extension_names)

lemma demo_decode: "DecodeWASMABIResponse demo_wasm_codec ExtensionRuleEvaluate ''r'' = Inr (demo_response, ''r'')"
  by (simp add: DecodeWASMABIResponse_def decodeStrictJSON_def demo_wasm_codec_def wasmABIMaxOutputBytes_def validateWASMABIResponse_def demo_response_def
      wasmHostABIV1_def WASMABIExportForExtension_def check_answer_def canonicalJSON_def extension_names)

lemma demo_unpack: "wasmUnpackPtrLen 1 = (0, 1)"
  by (simp add: wasmUnpackPtrLen_def drop_bit_eq_div)

lemma demo_exchange: "exchange (demo_engine False) demo_wasm_codec t (int wasmABIMaxOutputBytes) ExtensionRuleEvaluate f ''q'' [] = Inr demo_response"
  by (simp add: exchange_def demo_engine_def demo_unpack demo_decode wasmABIMaxOutputBytes_def) (simp add: demo_response_def)

lemma demo_exchange_trap: "exchange (demo_engine True) demo_wasm_codec t limit ExtensionConfigValidate f ''q'' []
    = Inl (newWASMABIError ''trap'' ExtensionConfigValidate ''wasm error: unreachable'')"
  by (simp add: exchange_def demo_engine_def mapWASMInvocationError_def)

lemma demo_begin: "beginDispatch ((demo_wasm_plugin points)\<lparr>hp_consecutiveTraps := n, hp_callback := b\<rparr>) =
   (Inr \<lparr>sn_manifest = demo_wasm_manifest points, sn_artifactID = ''geo-1'', sn_pluginID = ''geo'', sn_module = ''wasm'', sn_configJSON = ''{}''\<rparr>,
    (demo_wasm_plugin points)\<lparr>hp_activeCalls := 1, hp_consecutiveTraps := n, hp_callback := b\<rparr>)"
  by (simp add: beginDispatch_def demo_wasm_plugin_def hosted_plugin_def)

lemma demo_Dispatch:
  assumes "point \<in> {ExtensionConfigValidate, ExtensionRuleEvaluate}" "wq_ABI req = []" "wq_FailPolicy req = []"
    "point = ExtensionRuleEvaluate \<and> wq_RuleContext req = ''{}'' \<or> point = ExtensionConfigValidate \<and> wq_Config req = ''{}''"
  shows "fst (Dispatch (demo_engine traps) demo_wasm_codec \<lparr>dv_ArtifactID = ''geo-1'', dv_PluginID = ''geo'', dv_Module = ''wasm'', dv_Manifest = demo_wasm_manifest [point],
       dv_ExtensionPoint = point, dv_Request = req, dv_Timeout = t, dv_MemoryBytes = mem, dv_MaxOutputBytes = int wasmABIMaxOutputBytes\<rparr> Map.empty)
    = exchange (demo_engine traps) demo_wasm_codec (if t \<le> 0 then wasmTimeout (demo_wasm_manifest [point]) else t) (int wasmABIMaxOutputBytes) point
        (the (WASMABIExportForExtension point)) ''q'' []"
proof -
  obtain name where name: "WASMABIExportForExtension point = Some name" using assms(1) supported_points [of point] by auto
  have inst: "instantiate (demo_engine traps) demo_module (demo_wasm_manifest [point]) = Inr []" using assms(1) demo_instantiate by blast
  have enc: "EncodeWASMABIRequest demo_wasm_codec (req\<lparr>wq_PluginID := a, wq_ArtifactID := b, wq_ExtensionPoint := point\<rparr>) = Inr ''q''" for a b
    using assms by (intro demo_encode) simp_all
  show ?thesis
    by (simp add: Dispatch_def Let_def demo_precheck [OF assms(1)] name demo_compile inst enc)
qed

lemma hosted_dispatch_result:
  assumes "beginDispatch p = (Inr sn, p1)"
  shows "fst (hosted_dispatch wz c lib now d point req (p, cache)) = fst (Dispatch wz c \<lparr>dv_ArtifactID = sn_artifactID sn, dv_PluginID = sn_pluginID sn, dv_Module = sn_module sn,
     dv_Manifest = sn_manifest sn, dv_ExtensionPoint = point, dv_Request = (if wq_Config req = [] then req\<lparr>wq_Config := sn_configJSON sn\<rparr> else req),
     dv_Timeout = wasmTimeout (sn_manifest sn), dv_MemoryBytes = wm_MemoryBytes (sn_manifest sn), dv_MaxOutputBytes = int wasmABIMaxOutputBytes\<rparr> cache)"
  by (simp add: hosted_dispatch_def assms Let_def split: prod.splits)

lemma demo_answer:
  "fst (hosted_dispatch (demo_engine False) demo_wasm_codec demo_lib 7 5000000 ExtensionRuleEvaluate (empty_request\<lparr>wq_RuleContext := ''{}''\<rparr>)
     ((demo_wasm_plugin [ExtensionRuleEvaluate])\<lparr>hp_consecutiveTraps := 2, hp_callback := True\<rparr>, Map.empty)) = Inr demo_response"
  by (simp add: hosted_dispatch_result [OF demo_begin] demo_Dispatch demo_exchange empty_request_def)

lemma demo_trap:
  "fst (hosted_dispatch (demo_engine True) demo_wasm_codec demo_lib 7 5000000 ExtensionConfigValidate (empty_request\<lparr>wq_Config := defaultJSONObject (hl_json demo_lib) ''{}''\<rparr>)
     ((demo_wasm_plugin [ExtensionConfigValidate])\<lparr>hp_consecutiveTraps := 2, hp_callback := True\<rparr>, Map.empty))
   = Inl (newWASMABIError ''trap'' ExtensionConfigValidate ''wasm error: unreachable'')"
proof -
  have "defaultJSONObject (hl_json demo_lib) ''{}'' = ''{}''" by (simp add: defaultJSONObject_def)
  then show ?thesis
    by (simp add: hosted_dispatch_result [OF demo_begin] demo_Dispatch demo_exchange_trap empty_request_def)
qed

definition demo_wasm_loaded :: loadedPlugin where
  "demo_wasm_loaded = \<lparr>lp_ref = 0, lp_runtime = \<lparr>rk_pluginID = ''geo'', rk_artifactID = ''geo-1'', rk_desiredGeneration = 1, rk_runtimeInstanceID = ''i''\<rparr>,
     lp_handlers = [], lp_extensions = True\<rparr>"

definition demo_wasm_manager :: manager where
  "demo_wasm_manager = demo_idle\<lparr>mg_loaded := [(''geo'', demo_wasm_loaded)], mg_extensions := [''geo'']\<rparr>"

definition demo_wasm_record :: PluginRecord where
  "demo_wasm_record = \<lparr>pr_ID = ''geo'', pr_DesiredArtifactID = ''geo-1'', pr_DesiredGeneration = 1\<rparr>"


theorem reload_blocks_iff_witness:
  "reloadLoadedRuntime (demo_engine True) demo_wasm_codec demo_lib 7 5000000 \<lparr>rl_current = Inr demo_wasm_record, rl_mark = Inr True, rl_readErr = None\<rparr>
     demo_wasm_record ''{}'' demo_wasm_manager ((demo_wasm_plugin [ExtensionConfigValidate])\<lparr>hp_consecutiveTraps := 2, hp_callback := True\<rparr>, Map.empty) = None"
proof -
  let ?p = "(demo_wasm_plugin [ExtensionConfigValidate])\<lparr>hp_consecutiveTraps := 2, hp_callback := True\<rparr>"
  have "wasmManifestHasExtension (hp_manifest ?p) ExtensionConfigValidate"
    by (simp add: wasmManifestHasExtension_def demo_wasm_plugin_def hosted_plugin_def demo_wasm_manifest_def)
  then have "reloadLoadedRuntime (demo_engine True) demo_wasm_codec demo_lib 7 5000000 \<lparr>rl_current = Inr demo_wasm_record, rl_mark = Inr True, rl_readErr = None\<rparr>
      demo_wasm_record ''{}'' demo_wasm_manager (?p, Map.empty) = None
    \<longleftrightarrow> wasmABIErrorCode (newWASMABIError ''trap'' ExtensionConfigValidate ''wasm error: unreachable'') = ''trap'' \<and> 2 \<le> hp_consecutiveTraps ?p
        \<and> \<not> hp_quarantined ?p \<and> hp_callback ?p"
    by (intro reload_blocks_iff [where loaded = demo_wasm_loaded] demo_trap) (simp_all add: demo_wasm_manager_def demo_wasm_record_def demo_wasm_loaded_def)
  then show ?thesis by (simp add: newWASMABIError_def demo_wasm_plugin_def hosted_plugin_def)
qed

lemma demo_wasm_fresh: "fresh_plugin (demo_wasm_plugin points)"
  by (simp add: fresh_plugin_def demo_wasm_plugin_def hosted_plugin_def)

lemma begin_enabled:
  "hp_state p = ''enabled'' \<Longrightarrow> hp_runner p \<Longrightarrow> hp_module p \<noteq> [] \<Longrightarrow> \<exists>sn. beginDispatch p = (Inr sn, p\<lparr>hp_activeCalls := hp_activeCalls p + 1\<rparr>)"
  by (simp add: beginDispatch_def)

text \<open>Any number of calls can be under way at once.\<close>

lemma begin_calls:
  assumes "hp_state p = ''enabled''" "hp_runner p" "hp_module p \<noteq> []"
  shows "\<exists>s. hreach lib p s \<and> hs_p s = p\<lparr>hp_activeCalls := hp_activeCalls p + int n\<rparr>
    \<and> (\<forall>i < n. \<exists>sn. hs_call s i = Running sn) \<and> (\<forall>i \<ge> n. hs_call s i = Idle) \<and> hs_drain s = (\<lambda>_. NoDrain)"
proof (induction n)
  case 0
  have "hreach lib p (start_system p)" by (rule hreach.init)
  then show ?case by (auto simp: start_system_def)
next
  case (Suc n)
  then obtain s where s: "hreach lib p s" "hs_p s = p\<lparr>hp_activeCalls := hp_activeCalls p + int n\<rparr>"
    "\<forall>i < n. \<exists>sn. hs_call s i = Running sn" "\<forall>i \<ge> n. hs_call s i = Idle" "hs_drain s = (\<lambda>_. NoDrain)" by blast
  then obtain sn where "beginDispatch (hs_p s) = (Inr sn, p\<lparr>hp_activeCalls := hp_activeCalls p + int (Suc n)\<rparr>)"
    using begin_enabled [of "hs_p s"] assms by (auto simp: algebra_simps)
  moreover have "hs_call s n = Idle" using s(4) by simp
  moreover define s' where "s' = s\<lparr>hs_p := p\<lparr>hp_activeCalls := hp_activeCalls p + int (Suc n)\<rparr>, hs_call := (hs_call s)(n := Running sn)\<rparr>"
  ultimately have "hreach lib p s'"
    using hreach.step [OF s(1) hstep.begins] by simp
  moreover have "\<forall>i < Suc n. \<exists>sn. hs_call s' i = Running sn" "\<forall>i \<ge> Suc n. hs_call s' i = Idle"
    using s(3,4) by (simp_all add: s'_def less_Suc_eq)
  ultimately show ?case using s(5) by (intro exI [of _ s']) (simp add: s'_def)
qed

text \<open>A run of calls that all trap: the third takes the plugin out of service, whatever its state was.\<close>

definition trap_error :: wasm_error where
  "trap_error = newWASMABIError ''trap'' ExtensionRuleEvaluate ''unreachable''"

lemma record_trap:
  obtains p' event where "recordDispatchWithContext lib now point (Some trap_error) config d p = (p', event)"
    "hp_consecutiveTraps p' = hp_consecutiveTraps p + 1" "hp_runner p' = hp_runner p" "hp_module p' = hp_module p" "hp_quarantined p' = (hp_quarantined p \<or> 2 \<le> hp_consecutiveTraps p)"
    "hp_state p' = (if 2 \<le> hp_consecutiveTraps p \<and> \<not> hp_quarantined p then ''draining'' else hp_state p)"
proof -
  obtain p' event where r: "recordDispatchWithContext lib now point (Some trap_error) config d p = (p', event)" by fastforce
  have "trips (Some trap_error) p \<longleftrightarrow> 2 \<le> hp_consecutiveTraps p \<and> \<not> hp_quarantined p" by (simp add: trips_def trap_error_def newWASMABIError_def)
  with that [OF r] record_effect [OF r] show ?thesis by (auto simp: trap_error_def newWASMABIError_def)
qed

lemma record_trap_step:
  assumes "hreach lib p s" "hs_call s i = Running sn"
  obtains s' where "hreach lib p s'" "hs_call s' = (hs_call s)(i := Recorded)" "hs_drain s' = hs_drain s" "hp_consecutiveTraps (hs_p s') = hp_consecutiveTraps (hs_p s) + 1"
    "hp_runner (hs_p s') = hp_runner (hs_p s)" "hp_module (hs_p s') = hp_module (hs_p s)" "hp_quarantined (hs_p s') = (hp_quarantined (hs_p s) \<or> 2 \<le> hp_consecutiveTraps (hs_p s))"
    "hp_state (hs_p s') = (if 2 \<le> hp_consecutiveTraps (hs_p s) \<and> \<not> hp_quarantined (hs_p s) then ''draining'' else hp_state (hs_p s))"
proof -
  obtain p' event where r: "recordDispatchWithContext lib 0 [] (Some trap_error) [] (Some 0) (hs_p s) = (p', event)"
    "hp_consecutiveTraps p' = hp_consecutiveTraps (hs_p s) + 1" "hp_runner p' = hp_runner (hs_p s)" "hp_module p' = hp_module (hs_p s)"
    "hp_quarantined p' = (hp_quarantined (hs_p s) \<or> 2 \<le> hp_consecutiveTraps (hs_p s))"
    "hp_state p' = (if 2 \<le> hp_consecutiveTraps (hs_p s) \<and> \<not> hp_quarantined (hs_p s) then ''draining'' else hp_state (hs_p s))"
    by (rule record_trap)
  with assms have "hreach lib p (s\<lparr>hs_p := p', hs_call := (hs_call s)(i := Recorded)\<rparr>)"
    by (blast intro: hreach.step hstep.recorded)
  from that [OF this] r show ?thesis by simp
qed

text \<open>
  C38: Counterexample: a stopped plugin comes back to life in its reports.  Three calls are under way; a stop waits for them in vain, releases the module and marks the plugin
  stopped; then the three calls trap, and the third sets the state back to draining, which the health check takes for healthy, although nothing is loaded any more.
\<close>

theorem stopped_plugin_revived:
  "\<exists>s. hreach lib (demo_wasm_plugin points) s \<and> hs_drain s 0 = Released False \<and> \<not> hp_runner (hs_p s) \<and> hp_module (hs_p s) = []
    \<and> wasm_HealthCheck (Some (hs_p s)) = (True, ''draining'', [])"
proof -
  let ?p = "demo_wasm_plugin points"
  have p: "hp_state ?p = ''enabled''" "hp_runner ?p" "hp_module ?p \<noteq> []" "hp_consecutiveTraps ?p = 0" "\<not> hp_quarantined ?p" "hp_activeCalls ?p = 0"
    by (simp_all add: demo_wasm_plugin_def hosted_plugin_def)
  obtain s where s: "hreach lib ?p s" "hs_p s = ?p\<lparr>hp_activeCalls := 3\<rparr>" "\<forall>i < 3. \<exists>sn. hs_call s i = Running sn" "hs_drain s = (\<lambda>_. NoDrain)"
    using begin_calls [OF p(1-3), of lib 3] p(6) by auto
  define s1 where "s1 = s\<lparr>hs_p := (hs_p s)\<lparr>hp_state := ''draining'', hp_drainingAt := (if hp_drainingAt (hs_p s) = 0 then 1 else hp_drainingAt (hs_p s))\<rparr>, hs_drain := (hs_drain s)(0 := Waiting True)\<rparr>"
  have "hstep lib s s1" unfolding s1_def by (rule hstep.drain [where now = 1]) (simp_all add: s drain_begin_def p)
  with s(1) have r1: "hreach lib ?p s1" by (rule hreach.step)
  define s2 where "s2 = s1\<lparr>hs_drain := (hs_drain s1)(0 := Releasing False)\<rparr>"
  have "hstep lib s1 s2" unfolding s2_def using hstep.drain_timeout [of s1 0 True lib] by (simp add: s1_def s drain_done_def)
  with r1 have r2: "hreach lib ?p s2" by (rule hreach.step)
  define s3 where "s3 = s2\<lparr>hs_p := stop_release 2 (hs_p s2), hs_drain := (hs_drain s2)(0 := Released False)\<rparr>"
  have "hstep lib s2 s3" unfolding s3_def by (rule hstep.release) (simp add: s2_def)
  with r2 have r3: "hreach lib ?p s3" by (rule hreach.step)
  have s3: "hs_drain s3 0 = Released False" "\<not> hp_runner (hs_p s3)" "hp_module (hs_p s3) = []" "hp_consecutiveTraps (hs_p s3) = 0" "\<not> hp_quarantined (hs_p s3)" "hs_call s3 = hs_call s"
    by (simp_all add: s3_def s2_def s1_def stop_release_def s p)
  from s(3) obtain sn0 sn1 sn2 where c: "hs_call s 0 = Running sn0" "hs_call s 1 = Running sn1" "hs_call s 2 = Running sn2" by fastforce
  obtain s4 where s4: "hreach lib ?p s4" "hs_call s4 = (hs_call s3)(0 := Recorded)" "hs_drain s4 = hs_drain s3" "hp_consecutiveTraps (hs_p s4) = 1"
    "\<not> hp_runner (hs_p s4)" "hp_module (hs_p s4) = []" "\<not> hp_quarantined (hs_p s4)"
    by (rule record_trap_step [OF r3, of 0 sn0]) (use s3 c in auto)
  obtain s5 where s5: "hreach lib ?p s5" "hs_call s5 = (hs_call s4)(1 := Recorded)" "hs_drain s5 = hs_drain s3" "hp_consecutiveTraps (hs_p s5) = 2"
    "\<not> hp_runner (hs_p s5)" "hp_module (hs_p s5) = []" "\<not> hp_quarantined (hs_p s5)"
    by (rule record_trap_step [OF s4(1), of 1 sn1]) (use s4 s3(6) c in auto)
  obtain s6 where "hreach lib ?p s6" "hs_drain s6 = hs_drain s3" "\<not> hp_runner (hs_p s6)" "hp_module (hs_p s6) = []" "hp_state (hs_p s6) = ''draining''"
    by (rule record_trap_step [OF s5(1), of 2 sn2]) (use s5 s4(2) s3(6) c in auto)
  with s3(1) show ?thesis by (intro exI [of _ s6]) (simp add: wasm_HealthCheck_def lifecycleState_def)
qed

theorem drained_plugin_idle_witness:
  "\<exists>s. hreach demo_lib (demo_wasm_plugin []) s \<and> hs_drain s 0 = Drained \<and> in_flight s = {} \<and> hp_activeCalls (hs_p s) = 0
    \<and> (\<exists>e. beginDispatch (hs_p s) = (Inl e, hs_p s))"
proof -
  let ?p = "demo_wasm_plugin []"
  define p' where "p' = ?p\<lparr>hp_state := ''draining'', hp_drainingAt := 1\<rparr>"
  define s1 where "s1 = (start_system ?p)\<lparr>hs_p := p', hs_drain := (hs_drain (start_system ?p))(0 := Waiting False)\<rparr>"
  define s2 where "s2 = s1\<lparr>hs_drain := (hs_drain s1)(0 := Drained)\<rparr>"
  have "hstep demo_lib (start_system ?p) s1" unfolding s1_def
    by (rule hstep.drain [where now = 1]) (simp_all add: start_system_def drain_begin_def p'_def demo_wasm_plugin_def hosted_plugin_def)
  moreover have "hstep demo_lib s1 s2" unfolding s2_def using hstep.drained [of s1 0 False demo_lib]
    by (simp add: s1_def p'_def drain_done_def demo_wasm_plugin_def hosted_plugin_def)
  ultimately have r: "hreach demo_lib ?p s2" by (blast intro: hreach.intros)
  have d: "hs_drain s2 0 = Drained" by (simp add: s2_def)
  from drained_plugin_idle [OF r demo_wasm_fresh] d have "in_flight s2 = {}" "hp_activeCalls (hs_p s2) = 0" "\<exists>e. beginDispatch (hs_p s2) = (Inl e, hs_p s2)"
    by fastforce+
  with r d show ?thesis by blast
qed

text \<open>
  A plugin that trapped three times in a row is out of service.  But a plugin without a validator of its own accepts every configuration, and the reload then stores
  the runtime as enabled, while the plugin stays quarantined and refuses every call.
\<close>

theorem reload_hides_quarantine:
  assumes "map_of (mg_loaded m) (pr_ID rec) = Some loaded" "rk_artifactID (lp_runtime loaded) = pr_DesiredArtifactID rec"
    "pr_ID rec \<noteq> []" "pr_DesiredArtifactID rec \<noteq> []" "rl_current env = Inr rec" "rl_mark env = Inr True"
    and "\<not> wasmManifestHasExtension (hp_manifest p) ExtensionConfigValidate" "hp_quarantined p" "hp_state p = ''draining''"
  shows "\<exists>p'. reloadLoadedRuntime wz c lib now d env rec config m (p, cache) = Some (ReloadSucceeded, Some ''enabled'', p', cache)
    \<and> hp_quarantined p' \<and> (\<exists>e. beginDispatch p' = (Inl e, p'))"
  using assms by (simp add: reloadLoadedRuntime_def wasm_ReloadConfig_def validateConfig_def beginDispatch_def Let_def)

end
