(* ===== verification/Wasm_Admission.thy ===== *)
theory Wasm_Admission
  imports Wasm_Lifecycle Plugin_Governance
begin

text \<open>
  What admission asks of the WASM runtime (\<open>wasm_runtime.go\<close>, \<open>governance.go\<close>): the capabilities a module may not have, and the trial compilation.  \<open>wasm_answers\<close> puts
  these answers in the place of the parameters of \<open>Plugin_Preflight\<close>, so that the artifact gate and the preflight checks rest on the modelled runtime.
\<close>

definition wasmHostCapabilityNameBlocked :: "(string \<Rightarrow> string) \<Rightarrow> string \<Rightarrow> bool" where
  "wasmHostCapabilityNameBlocked uni capability =
    (let normalized = ReplaceAll (ToLower uni (TrimSpace capability)) ''_'' ''.'' in
     normalized \<noteq> [] \<and> (Contains normalized ''secret.env'' \<or> Contains normalized ''secret'' \<or> Contains normalized ''env''
       \<or> Contains normalized ''network'' \<or> Contains normalized ''net.'' \<or> Contains normalized ''.net''
       \<or> Contains normalized ''file'' \<or> Contains normalized ''filesystem'' \<or> Contains normalized ''fs.''))"

definition blocked_keys :: "string list" where
  "blocked_keys = [''env'', ''environment'', ''secret_env'', ''secret_envs'', ''secret'', ''secrets'', ''file'', ''files'', ''filesystem'', ''file_stores'', ''network'', ''net'',
     ''external_dependencies'', ''external_deps'', ''upstream_connect'', ''status'', ''providers'', ''provider'', ''event_subscriber'', ''ingress'']"

definition blocked_runtime_keys :: "string list" where
  "blocked_runtime_keys = [''env'', ''environment'', ''secret_env'', ''secret'', ''file'', ''filesystem'', ''network'']"

text \<open>The keys of a set of trimmed, non-empty names, sorted, are those \<^const>\<open>uniqueSortedStrings\<close> yields.\<close>

definition wasmBlockedHostCapabilities :: "gov_lib \<Rightarrow> WasmManifest \<Rightarrow> ArtifactRecord \<Rightarrow> string list" where
  "wasmBlockedHostCapabilities lib manifest artifact = uniqueSortedStrings
    (map (\<lambda>cap. ''runtime.required_capabilities:'' @ cap) (filter (wasmHostCapabilityNameBlocked (gl_uni lib)) (requiredRuntimeCapabilities lib artifact))
     @ (if mf_Secrets manifest \<noteq> [] then [''secrets''] else [])
     @ (if mf_ExternalDeps manifest \<noteq> [] then [''external_dependencies''] else [])
     @ (if wm_FileStores manifest \<noteq> [] then [''file_stores''] else [])
     @ map (\<lambda>key. ''capabilities.'' @ key) (filter (\<lambda>key. metadataFieldPresent (map_of (mf_Capabilities manifest) key)) blocked_keys)
     @ (case jsonMapFromAny (map_of (mf_Capabilities manifest) ''runtime'') of
          None \<Rightarrow> []
        | Some runtimeCaps \<Rightarrow> map (\<lambda>key. ''capabilities.runtime.'' @ key) (filter (\<lambda>key. metadataFieldPresent (map_of runtimeCaps key)) blocked_runtime_keys)))"

definition wasmResourceLimitSmokePreflightCheck ::
  "'i wazero \<Rightarrow> (string \<Rightarrow> bytes result) \<Rightarrow> module_cache \<Rightarrow> WasmArtifact \<Rightarrow> WasmManifest \<Rightarrow> PreflightCheck" where
  "wasmResourceLimitSmokePreflightCheck wz files cache artifact manifest = (case wasmArtifactModule files artifact of
      Inl _ \<Rightarrow> pcheck ''wasm_resource_limit_smoke_failed'' ''blocking''
    | Inr code \<Rightarrow> (case fst (PrepareModule wz \<lparr>iv_ArtifactID = ar_ID artifact, iv_Module = code, iv_Manifest = manifest, iv_Function = wasmDefaultExport manifest,
          iv_Timeout = wasmTimeout manifest, iv_MemoryBytes = wm_MemoryBytes manifest\<rparr> cache) of
        Inl _ \<Rightarrow> pcheck ''wasm_resource_limit_smoke_failed'' ''blocking''
      | Inr _ \<Rightarrow> pcheck ''wasm_resource_limit_smoke_passed'' ''info''))"

text \<open>The answers as the artifact gate and the preflight checks get them.\<close>

definition wasm_answers ::
  "'i wazero \<Rightarrow> (string \<Rightarrow> bytes result) \<Rightarrow> module_cache \<Rightarrow> gov_lib \<Rightarrow> WasmArtifact \<Rightarrow> WasmManifest \<Rightarrow> preflight_env \<Rightarrow> preflight_env" where
  "wasm_answers wz files cache lib artifact manifest env = env\<lparr>
     pe_wasmExtension := map_option (\<lambda>e. ErrorString (wasm_Error e)) (validateWASMExtensionPoints manifest),
     pe_wasmBlocked := wasmBlockedHostCapabilities lib manifest (ArtifactRecord.truncate artifact),
     pe_wasmABI := map_option (\<lambda>e. ErrorString (wasm_Error e)) (validateWASMArtifactABI wz files artifact manifest),
     pe_wasmSmoke := wasmResourceLimitSmokePreflightCheck wz files cache artifact manifest\<rparr>"

text \<open>A module whose manifest asks the host for nothing.\<close>

definition contained :: "WasmManifest \<Rightarrow> bool" where
  "contained manifest = (mf_Secrets manifest = [] \<and> mf_ExternalDeps manifest = [] \<and> wm_FileStores manifest = []
     \<and> (\<forall>key \<in> set blocked_keys. \<not> metadataFieldPresent (map_of (mf_Capabilities manifest) key))
     \<and> set (mf_ExtensionPoints manifest) \<subseteq> {ExtensionConfigValidate, ExtensionRuleEvaluate, ExtensionRouteResolve})"

lemma uniqueSortedStrings_member: "x \<in> set xs \<Longrightarrow> TrimSpace x \<noteq> [] \<Longrightarrow> uniqueSortedStrings xs \<noteq> []"
  by (force simp: uniqueSortedStrings_def filter_empty_conv dest: arg_cong [where f = set])

lemma blocked_key_name: "key \<in> set blocked_keys \<Longrightarrow> TrimSpace (''capabilities.'' @ key) \<noteq> []"
proof -
  assume "key \<in> set blocked_keys"
  then have "key \<noteq> [] \<and> solid (last key)" by (auto simp: blocked_keys_def solid_def)
  then show ?thesis by (subst TrimSpace_solid) (auto simp: solid_def)
qed

lemma section_names: "TrimSpace ''secrets'' \<noteq> []" "TrimSpace ''external_dependencies'' \<noteq> []" "TrimSpace ''file_stores'' \<noteq> []"
  by (subst TrimSpace_solid; simp add: solid_def)+

lemma unblocked:
  assumes "wasmBlockedHostCapabilities lib manifest artifact = []"
  shows "mf_Secrets manifest = []" "mf_ExternalDeps manifest = []" "wm_FileStores manifest = []"
    "\<forall>key \<in> set blocked_keys. \<not> metadataFieldPresent (map_of (mf_Capabilities manifest) key)"
proof -
  note member = uniqueSortedStrings_member [of _ "_ @ _"]
  show "mf_Secrets manifest = []"
    using assms member [of "''secrets''"] section_names(1) by (fastforce simp: wasmBlockedHostCapabilities_def split: if_splits)
  show "mf_ExternalDeps manifest = []"
    using assms member [of "''external_dependencies''"] section_names(2) by (fastforce simp: wasmBlockedHostCapabilities_def split: if_splits)
  show "wm_FileStores manifest = []"
    using assms member [of "''file_stores''"] section_names(3) by (fastforce simp: wasmBlockedHostCapabilities_def split: if_splits)
  show "\<forall>key \<in> set blocked_keys. \<not> metadataFieldPresent (map_of (mf_Capabilities manifest) key)"
  proof (rule ballI, rule notI)
    fix key assume "key \<in> set blocked_keys" "metadataFieldPresent (map_of (mf_Capabilities manifest) key)"
    then show False using assms member [of "''capabilities.'' @ key"] blocked_key_name [of key] by (force simp: wasmBlockedHostCapabilities_def)
  qed
qed

lemma first_error_None: "first_error es = None \<longleftrightarrow> (\<forall>e \<in> set es. e = None)"
  by (auto simp: first_error_def filter_empty_conv split: list.splits dest: filter_eq_ConsD)

lemma artifact_abi_ok:
  assumes "validateWASMArtifactABI wz files artifact manifest = None" "wa_FilePath artifact \<noteq> []" "wm_RuntimeType manifest = ''wasm''"
  shows "\<exists>code. files (wa_FilePath artifact) = Inr code \<and> ran_checked wz (wasmMemoryLimitPages (wm_MemoryBytes manifest)) manifest"
    "validateWASMRuntimeLimits manifest = None"
proof -
  show "validateWASMRuntimeLimits manifest = None" using assms(1) by (simp add: validateWASMArtifactABI_def)
  obtain code where code: "files (wa_FilePath artifact) = Inr code" "validateWASMModuleABI wz code manifest (wm_MemoryBytes manifest) = None"
    using assms(1,2) by (auto simp: validateWASMArtifactABI_def split: sum.splits)
  then obtain compiled where "code \<noteq> []" "wz_Compile wz (wasmMemoryLimitPages (wm_MemoryBytes manifest)) code = Inr compiled" "validateWASMCompiledABI compiled manifest = None"
    by (auto simp: validateWASMModuleABI_def split: option.splits if_splits sum.splits)
  with code(1) compiled_ok show "\<exists>code. files (wa_FilePath artifact) = Inr code \<and> ran_checked wz (wasmMemoryLimitPages (wm_MemoryBytes manifest)) manifest"
    unfolding ran_checked_def by blast
qed


definition demo_wasm_artifact :: WasmArtifact where
  "demo_wasm_artifact = ArtifactRecord.extend (artifact_demo\<lparr>ar_RuntimeType := ''wasm''\<rparr>) \<lparr>wa_FilePath = ''/plugins/geo.wasm''\<rparr>"

definition demo_files :: "string \<Rightarrow> bytes result" where
  "demo_files path = (if path = ''/plugins/geo.wasm'' then Inr ''wasm'' else Inl (ErrorString ''no such file''))"

lemma demo_wasm_abi: "validateWASMArtifactABI (demo_engine False) demo_files demo_wasm_artifact (demo_wasm_manifest [ExtensionRuleEvaluate]) = None"
proof -
  note ok = precheck_None [OF demo_precheck [of ExtensionRuleEvaluate, simplified]]
  have "wa_FilePath demo_wasm_artifact = ''/plugins/geo.wasm''" by (simp add: demo_wasm_artifact_def ArtifactRecord.defs)
  moreover have "validateWASMModuleABI (demo_engine False) ''wasm'' (demo_wasm_manifest [ExtensionRuleEvaluate]) mem = None" for mem
    using ok(2) demo_abi(1) by (simp add: validateWASMModuleABI_def) (simp add: demo_engine_def)
  ultimately show ?thesis using ok by (simp add: validateWASMArtifactABI_def demo_files_def)
qed

lemma demo_unblocked: "wasmBlockedHostCapabilities lib (demo_wasm_manifest points) artifact = []" if "requiredRuntimeCapabilities lib artifact = []"
  using that by (simp add: wasmBlockedHostCapabilities_def demo_wasm_manifest_def uniqueSortedStrings_def metadataFieldPresent_def jsonMapFromAny_def)


end
