(* ===== verification/Plugin_Gc.thy ===== *)
theory Plugin_Gc
  imports GoStd "HOL-Library.Sublist"
begin

text \<open>
  The collection of artifacts and build logs that nothing refers to any more: \<open>src/internal/pluginmanager/gc.go\<close> with its statements in \<open>repository.go\<close>.

  The tables are lists of rows, the file system is the set of the paths of its files.  \<open>gc_io\<close> says which statements and removals fail.
\<close>

section \<open>Data\<close>

record gc_artifact =
  gr_ID :: string
  gr_PluginID :: string
  gr_ArtifactType :: string
  gr_Status :: string
  gr_FilePath :: string
  gr_SizeBytes :: int
  gr_CreatedAt :: int
  gr_Error :: string

record gc_plugin =
  gp_desiredState :: string
  gp_desired :: string
  gp_active :: string
  gp_loaded :: string

record gc_build =
  gb_ID :: nat
  gb_PluginID :: string
  gb_SourceID :: string
  gb_ArtifactID :: string
  gb_Status :: string
  gb_LogSummary :: string
  gb_CreatedAt :: int

record gc_db =
  gd_plugins :: "gc_plugin list"
  gd_snapshots :: "string list"
  gd_builds :: "gc_build list"
  gd_artifacts :: "gc_artifact list"
  gd_files :: "string set"
  gd_operations :: "(string \<times> string \<times> string) list" \<comment> \<open>plugin, artifact, result\<close>

record ArtifactGCCandidate =
  gk_Kind :: string
  gk_ID :: string
  gk_PluginID :: string
  gk_Path :: string
  gk_Protected :: bool
  gk_Reason :: string
  gk_SizeBytes :: int
  gk_CreatedAt :: int
  gk_Referenced :: bool

record gc_io =
  gi_refs :: "error option"
  gi_artifacts :: "error option"
  gi_builds :: "error option"
  gi_size :: "string \<Rightarrow> int option" \<comment> \<open>what \<open>os.Stat\<close> and \<open>dirSize\<close> measure\<close>
  gi_removeAll :: "string \<Rightarrow> error option"
  gi_clearLog :: "nat \<Rightarrow> error option"
  gi_update :: "string \<Rightarrow> bool" \<comment> \<open>whether the status is stored\<close>

section \<open>Statements\<close>

definition in_flight_build :: "gc_build \<Rightarrow> bool" where
  "in_flight_build b = (gb_Status b \<in> {''queued'', ''running''})"

definition ReferencedArtifactIDs :: "gc_db \<Rightarrow> string set" where
  "ReferencedArtifactIDs db =
    (set (concat (map (\<lambda>p. [gp_desired p, gp_active p, gp_loaded p]) (filter (\<lambda>p. gp_desiredState p \<noteq> ''deleted'') (gd_plugins db))))
     \<union> set (gd_snapshots db)
     \<union> set (map gb_SourceID (filter in_flight_build (gd_builds db)))
     \<union> set (map gb_ArtifactID (filter (\<lambda>b. gb_Status b = ''succeeded'') (gd_builds db)))) - {[]}"

definition UpdateArtifactStatus :: "string \<Rightarrow> string \<Rightarrow> string \<Rightarrow> gc_db \<Rightarrow> gc_db" where
  "UpdateArtifactStatus artifactID status message db =
    db\<lparr>gd_artifacts := map (\<lambda>a. if gr_ID a = artifactID then a\<lparr>gr_Status := status, gr_Error := message\<rparr> else a) (gd_artifacts db)\<rparr>"

definition ClearBuildLog :: "nat \<Rightarrow> gc_db \<Rightarrow> gc_db" where
  "ClearBuildLog n db = db\<lparr>gd_builds := map (\<lambda>b. if gb_ID b = n \<and> \<not> in_flight_build b then b\<lparr>gb_LogSummary := []\<rparr> else b) (gd_builds db)\<rparr>"

definition gc_record :: "string \<Rightarrow> string \<Rightarrow> string \<Rightarrow> gc_db \<Rightarrow> gc_db" where
  "gc_record pluginID artifactID result db = db\<lparr>gd_operations := gd_operations db @ [(pluginID, artifactID, result)]\<rparr>"

section \<open>Candidates\<close>

text \<open>\<open>filepath.Dir\<close>: what precedes the last slash, cleaned.\<close>

definition filepath_Dir :: "string \<Rightarrow> string" where
  "filepath_Dir path = (case LastIndexByte path CHR ''/'' of None \<Rightarrow> ''.'' | Some i \<Rightarrow> path_Clean (take (i + 1) path))"

definition artifactGCPath :: "gc_artifact \<Rightarrow> string" where
  "artifactGCPath artifact = (if gr_FilePath artifact = [] then [] else filepath_Dir (gr_FilePath artifact))"

definition gc_reason :: "bool \<Rightarrow> gc_artifact \<Rightarrow> string" where
  "gc_reason referenced artifact =
    (if referenced then ''referenced by active/desired/snapshot/build''
     else if gr_ArtifactType artifact = ''source'' then ''unreferenced source package''
     else if gr_Status artifact \<in> {''rejected'', ''deleted''} then ''unreferenced rejected/deleted artifact''
     else ''unreferenced artifact'')"

definition artifact_candidate :: "gc_io \<Rightarrow> string set \<Rightarrow> gc_artifact \<Rightarrow> ArtifactGCCandidate option" where
  "artifact_candidate io refs artifact =
    (let referenced = gr_ID artifact \<in> refs; path = artifactGCPath artifact in
     if \<not> referenced \<and> (gr_ArtifactType artifact = ''source'' \<or> gr_Status artifact = ''rejected'' \<or> gr_Status artifact = ''deleted'')
     then Some \<lparr>gk_Kind = ''artifact'', gk_ID = gr_ID artifact, gk_PluginID = gr_PluginID artifact, gk_Path = path, gk_Protected = referenced,
       gk_Reason = gc_reason referenced artifact, gk_SizeBytes = (case gi_size io path of None \<Rightarrow> gr_SizeBytes artifact | Some n \<Rightarrow> n),
       gk_CreatedAt = gr_CreatedAt artifact, gk_Referenced = referenced\<rparr>
     else None)"

definition buildIDString :: "nat \<Rightarrow> string" where
  "buildIDString n = show_base 10 n"

definition build_candidate :: "gc_build \<Rightarrow> ArtifactGCCandidate" where
  "build_candidate b = \<lparr>gk_Kind = ''build_log'', gk_ID = buildIDString (gb_ID b), gk_PluginID = gb_PluginID b, gk_Path = [], gk_Protected = in_flight_build b,
     gk_Reason = (if in_flight_build b then ''in-flight build'' else ''completed build log''), gk_SizeBytes = int (length (gb_LogSummary b)),
     gk_CreatedAt = gb_CreatedAt b, gk_Referenced = False\<rparr>"

definition GCCandidates :: "gc_io \<Rightarrow> gc_db \<Rightarrow> ArtifactGCCandidate list result" where
  "GCCandidates io db = (case gi_refs io of
      Some e \<Rightarrow> Inl e
    | None \<Rightarrow> (case gi_artifacts io of
        Some e \<Rightarrow> Inl e
      | None \<Rightarrow> (case gi_builds io of
          Some e \<Rightarrow> Inl e
        | None \<Rightarrow> Inr (List.map_filter (artifact_candidate io (ReferencedArtifactIDs db)) (gd_artifacts db) @ map build_candidate (gd_builds db)))))"

section \<open>Collection\<close>

definition RemoveAll :: "string \<Rightarrow> string set \<Rightarrow> string set" where
  "RemoveAll path files = {f \<in> files. \<not> (f = path \<or> HasPrefix f (path @ ''/''))}"

text \<open>The body of the loop: whether the candidate is reported as removed, and the tables after it.\<close>

definition collect :: "gc_io \<Rightarrow> ArtifactGCCandidate \<Rightarrow> gc_db \<Rightarrow> bool \<times> gc_db" where
  "collect io candidate db =
    (if gk_Protected candidate then (False, db)
     else if gk_Kind candidate = ''artifact'' then
       (if gk_Path candidate = [] then (False, db)
        else (case gi_removeAll io (gk_Path candidate) of
            Some _ \<Rightarrow> (False, gc_record (gk_PluginID candidate) (gk_ID candidate) ''failed'' db)
          | None \<Rightarrow>
              (let db = db\<lparr>gd_files := RemoveAll (gk_Path candidate) (gd_files db)\<rparr>
               in (True, if gi_update io (gk_ID candidate) then UpdateArtifactStatus (gk_ID candidate) ''deleted'' ''artifact files removed by gc'' db else db))))
     else if gk_Kind candidate = ''build_log'' then
       (case Atoi (gk_ID candidate) of
           None \<Rightarrow> (False, db)
         | Some n \<Rightarrow> (case gi_clearLog io (nat n) of
             Some _ \<Rightarrow> (False, gc_record (gk_PluginID candidate) [] ''failed'' db)
           | None \<Rightarrow> (True, ClearBuildLog (nat n) db)))
     else (False, db))"

fun collect_all :: "gc_io \<Rightarrow> ArtifactGCCandidate list \<Rightarrow> gc_db \<Rightarrow> ArtifactGCCandidate list \<times> gc_db" where
  "collect_all io [] db = ([], db)"
| "collect_all io (candidate # candidates) db = (case collect io candidate db of (gone, db) \<Rightarrow>
     (case collect_all io candidates db of (removed, db) \<Rightarrow> (if gone then candidate # removed else removed, db)))"

definition RunGC :: "gc_io \<Rightarrow> bool \<Rightarrow> gc_db \<Rightarrow> ArtifactGCCandidate list result \<times> gc_db" where
  "RunGC io dryRun db = (case GCCandidates io db of
      Inl e \<Rightarrow> (Inl e, db)
    | Inr candidates \<Rightarrow>
        (if dryRun then (Inr candidates, gc_record [] [] ''dry_run'' db)
         else (case collect_all io candidates db of (removed, db) \<Rightarrow> (Inr removed, gc_record [] [] ''succeeded'' db))))"

section \<open>Facts\<close>

text \<open>The artifacts a collection has to leave alone.\<close>

definition referenced_by :: "gc_db \<Rightarrow> string \<Rightarrow> bool" where
  "referenced_by db n = (n \<noteq> [] \<and>
     ((\<exists>p \<in> set (gd_plugins db). gp_desiredState p \<noteq> ''deleted'' \<and> (gp_desired p = n \<or> gp_active p = n \<or> gp_loaded p = n)) \<or> n \<in> set (gd_snapshots db)
      \<or> (\<exists>b \<in> set (gd_builds db). (gb_Status b = ''queued'' \<or> gb_Status b = ''running'') \<and> gb_SourceID b = n \<or> gb_Status b = ''succeeded'' \<and> gb_ArtifactID b = n)))"

definition kept_artifact :: "gc_db \<Rightarrow> gc_artifact \<Rightarrow> bool" where
  "kept_artifact db a = (referenced_by db (gr_ID a) \<or> gr_ArtifactType a \<noteq> ''source'' \<and> gr_Status a \<notin> {''rejected'', ''deleted''})"

lemma referenced_iff: "n \<in> ReferencedArtifactIDs db \<longleftrightarrow> referenced_by db n"
  by (auto simp: ReferencedArtifactIDs_def referenced_by_def in_flight_build_def)

definition below :: "string \<Rightarrow> string \<Rightarrow> bool" where
  "below dir f = (f = dir \<or> HasPrefix f (dir @ ''/''))"

text \<open>Artifacts have names and directories of their own.\<close>

definition gc_layout :: "gc_db \<Rightarrow> bool" where
  "gc_layout db = (distinct (map gr_ID (gd_artifacts db))
     \<and> (\<forall>a \<in> set (gd_artifacts db). \<forall>b \<in> set (gd_artifacts db). gr_ID a \<noteq> gr_ID b \<longrightarrow> (\<forall>f \<in> gd_files db. \<not> (below (artifactGCPath a) f \<and> below (artifactGCPath b) f))))"

lemma set_map_filter_iff: "c \<in> set (List.map_filter f xs) \<longleftrightarrow> (\<exists>x \<in> set xs. f x = Some c)"
  by (induction xs) (auto simp: List.map_filter_simps split: option.splits)

lemma cleared_in_flight: "filter in_flight_build (gd_builds (ClearBuildLog n db)) = filter in_flight_build (gd_builds db)"
proof -
  have "filter in_flight_build (map (\<lambda>b. if gb_ID b = n \<and> \<not> in_flight_build b then b\<lparr>gb_LogSummary := []\<rparr> else b) bs) = filter in_flight_build bs" for bs
    by (induction bs) (simp_all add: in_flight_build_def)
  then show ?thesis by (simp add: ClearBuildLog_def)
qed

lemma cleared_rest [simp]: "gd_artifacts (ClearBuildLog n db) = gd_artifacts db" "gd_files (ClearBuildLog n db) = gd_files db"
  by (simp_all add: ClearBuildLog_def)

text \<open>What one candidate may touch.\<close>

definition harmless :: "gc_db \<Rightarrow> gc_artifact \<Rightarrow> ArtifactGCCandidate \<Rightarrow> bool" where
  "harmless db a c = (gk_Kind c = ''artifact'' \<longrightarrow> gk_ID c \<noteq> gr_ID a \<and> (\<forall>f \<in> gd_files db. below (artifactGCPath a) f \<longrightarrow> \<not> below (gk_Path c) f))"

lemma candidates_harmless:
  assumes "GCCandidates io db = Inr cs" "gc_layout db" "a \<in> set (gd_artifacts db)" "kept_artifact db a" "c \<in> set cs"
  shows "harmless db a c"
proof -
  consider b where "b \<in> set (gd_artifacts db)" "artifact_candidate io (ReferencedArtifactIDs db) b = Some c" | b where "c = build_candidate b"
    using assms(1,5) by (auto simp: GCCandidates_def set_map_filter_iff split: option.splits)
  then show ?thesis
  proof cases
    case 1
    then have b: "gk_ID c = gr_ID b" "gk_Path c = artifactGCPath b" "\<not> kept_artifact db b"
      by (auto simp: artifact_candidate_def kept_artifact_def referenced_iff Let_def split: if_splits)
    have "gr_ID a \<noteq> gr_ID b"
    proof
      assume "gr_ID a = gr_ID b"
      with assms(2,3) 1(1) have "a = b" by (auto simp: gc_layout_def distinct_map inj_on_def)
      with assms(4) b(3) show False by simp
    qed
    with assms(2,3) 1(1) b show ?thesis by (auto simp: harmless_def gc_layout_def)
  qed (simp add: harmless_def build_candidate_def)
qed

lemma collect_effect:
  assumes "collect io c db = (gone, db')"
  shows "gone \<Longrightarrow> \<not> gk_Protected c" "gd_files db' \<subseteq> gd_files db" "filter in_flight_build (gd_builds db') = filter in_flight_build (gd_builds db)"
    "\<lbrakk>harmless db a c; a \<in> set (gd_artifacts db)\<rbrakk> \<Longrightarrow> a \<in> set (gd_artifacts db')"
    "\<lbrakk>harmless db a c; f \<in> gd_files db; below (artifactGCPath a) f\<rbrakk> \<Longrightarrow> f \<in> gd_files db'"
  using assms
  by (auto simp: collect_def harmless_def below_def RemoveAll_def UpdateArtifactStatus_def cleared_in_flight gc_record_def Let_def image_iff
      split: if_splits option.splits)

lemma harmless_mono: "harmless db a c \<Longrightarrow> gd_files db' \<subseteq> gd_files db \<Longrightarrow> harmless db' a c"
  by (auto simp: harmless_def)

lemma collect_all_effect:
  "collect_all io cs db = (removed, db') \<Longrightarrow> set removed \<subseteq> set cs \<and> (\<forall>c \<in> set removed. \<not> gk_Protected c)
    \<and> filter in_flight_build (gd_builds db') = filter in_flight_build (gd_builds db)
    \<and> (a \<in> set (gd_artifacts db) \<longrightarrow> (\<forall>c \<in> set cs. harmless db a c) \<longrightarrow> a \<in> set (gd_artifacts db') \<and> (\<forall>f \<in> gd_files db. below (artifactGCPath a) f \<longrightarrow> f \<in> gd_files db'))"
proof (induction io cs db arbitrary: removed db' rule: collect_all.induct)
  case (2 io c cs db)
  obtain gone db1 removed1 where c: "collect io c db = (gone, db1)" and r: "collect_all io cs db1 = (removed1, db')"
    and eq: "removed = (if gone then c # removed1 else removed1)"
    using 2(2) by (auto split: prod.splits)
  note e = collect_effect [OF c] and ih = 2(1) [OF c [symmetric] r]
  have "\<forall>k \<in> set (c # cs). harmless db a k \<Longrightarrow> \<forall>k \<in> set cs. harmless db1 a k" using harmless_mono [OF _ e(2)] by auto
  with e ih eq show ?case by auto
qed simp

section \<open>Properties\<close>


definition gc_demo :: gc_db where
  "gc_demo = \<lparr>gd_plugins = [\<lparr>gp_desiredState = ''enabled'', gp_desired = ''b1'', gp_active = ''b1'', gp_loaded = []\<rparr>], gd_snapshots = [], gd_builds = [],
     gd_artifacts = [\<lparr>gr_ID = ''b1'', gr_PluginID = ''p'', gr_ArtifactType = ''binary'', gr_Status = ''rejected'', gr_FilePath = ''/d/b1/p.so'', gr_SizeBytes = 9, gr_CreatedAt = 1, gr_Error = []\<rparr>,
       \<lparr>gr_ID = ''s1'', gr_PluginID = ''p'', gr_ArtifactType = ''source'', gr_Status = ''loadable'', gr_FilePath = ''/d/s1/source'', gr_SizeBytes = 9, gr_CreatedAt = 1, gr_Error = []\<rparr>],
     gd_files = {''/d/b1/p.so'', ''/d/s1/source/main.go''}, gd_operations = []\<rparr>"

definition gc_io_ok :: gc_io where
  "gc_io_ok = \<lparr>gi_refs = None, gi_artifacts = None, gi_builds = None, gi_size = (\<lambda>_. None), gi_removeAll = (\<lambda>_. None), gi_clearLog = (\<lambda>_. None), gi_update = (\<lambda>_. True)\<rparr>"

definition source_candidate :: ArtifactGCCandidate where
  "source_candidate = \<lparr>gk_Kind = ''artifact'', gk_ID = ''s1'', gk_PluginID = ''p'', gk_Path = ''/d/s1'', gk_Protected = False, gk_Reason = ''unreferenced source package'',
     gk_SizeBytes = 9, gk_CreatedAt = 1, gk_Referenced = False\<rparr>"

lemma gc_demo_paths: "filepath_Dir ''/d/s1/source'' = ''/d/s1''" "filepath_Dir ''/d/b1/p.so'' = ''/d/b1''"
  by code_simp+

lemma gc_demo_candidates: "GCCandidates gc_io_ok gc_demo = Inr [source_candidate]"
  by (simp add: GCCandidates_def gc_io_ok_def gc_demo_def ReferencedArtifactIDs_def artifact_candidate_def artifactGCPath_def gc_demo_paths gc_reason_def
      source_candidate_def List.map_filter_simps Let_def)

lemma gc_demo_layout: "gc_layout gc_demo"
  by (simp add: gc_layout_def gc_demo_def artifactGCPath_def gc_demo_paths below_def)


text \<open>
  Counterexample: the references are read once, before the removals.  A build that is queued for a source package in between loses its source.
\<close>

theorem gc_races_build:
  "let queued = \<lparr>gb_ID = 1, gb_PluginID = ''p'', gb_SourceID = ''s1'', gb_ArtifactID = [], gb_Status = ''queued'', gb_LogSummary = [], gb_CreatedAt = 2\<rparr>;
       db = gc_demo\<lparr>gd_builds := [queued]\<rparr>
   in GCCandidates gc_io_ok gc_demo = Inr [source_candidate] \<and> ''s1'' \<in> ReferencedArtifactIDs db
     \<and> ''/d/s1/source/main.go'' \<in> gd_files db \<and> ''/d/s1/source/main.go'' \<notin> gd_files (snd (collect_all gc_io_ok [source_candidate] db))"
  by (simp add: gc_demo_candidates Let_def)
    (simp add: gc_demo_def ReferencedArtifactIDs_def in_flight_build_def collect_def source_candidate_def gc_io_ok_def RemoveAll_def UpdateArtifactStatus_def Let_def)

end
