(* ===== verification/Spec2Isabelle.thy ===== *)
theory Spec2Isabelle
  imports Tcp_Http_Mux Gateway Extensions Admin_Handlers Trusted_Real_IP Plugin_Reconcile Plugin_Config
    Background_Task External_Client Plugin_Store Event_Delivery
    Plugin_Trust Plugin_Governance Wasm_Admission Plugin_Gc
begin

text \<open>
  Verification of the Minecraft gateway.

  \<^bold>\<open>The program.\<close>  The gateway accepts Minecraft connections over TCP, WebSocket, KCP and QUIC, reads the first packet,
  finds the host the player asked for, and relays the connection to the upstream server that the routes
  or a plugin name.  An administrator manages routes, listeners, accounts and plugins over an HTTP API
  that shares the TCP port.  Plugins hook into each stage of a connection, or take it over as a whole;
  they are loaded, upgraded and removed while connections are open.  Accounts, routes, services, audit
  entries, plugin states and task leases live in a SQLite database that several gateway nodes may share.

  \<^bold>\<open>Theories, in the order of a connection.\<close>

    \<^item> \<open>Prelude\<close>, \<open>GoStd\<close>, \<open>Go_IO\<close>, \<open>Net_IP\<close>, \<open>Tables\<close>: bytes, errors, Go's \<open>strings\<close>, \<open>strconv\<close>, \<open>net\<close> and \<open>path\<close>
      functions, byte streams, SQL tables and the interface \<open>keyed_store\<close>.
    \<^item> \<open>Tcp_Http_Mux\<close> (\<open>internal/tcphttpmux\<close>): detection of HTTP on the shared port, replay of the bytes read,
      the HTTP accept queue as a bounded FIFO.
    \<^item> \<open>MC_Protocol\<close> (\<open>protocol/mc.go\<close>, \<open>protocol/smoke\<close>): VarInt codec, handshake, status reply.
    \<^item> \<open>Upstream_Target\<close>, \<open>Route\<close> (\<open>internal/upstreamtarget\<close>, \<open>internal/adminroute\<close>, \<open>cmd/gateway/admin_routes.go\<close>): routes in
      the database and the published snapshot, with writers interleaved.
    \<^item> \<open>Plugin_Api\<close>, \<open>Extensions\<close>, \<open>Takeover\<close> (\<open>plugin/api\<close>, \<open>internal/pluginmanager/extensions.go\<close>, \<open>manager.go\<close>): the chains of
      plugin handlers and the takeover dispatch with its one-shot continuation.
    \<^item> \<open>Gateway\<close>, \<open>Relay\<close>, \<open>Metrics\<close> (\<open>cmd/gateway/main.go\<close>, \<open>tcp.go\<close>, \<open>kcp.go\<close>, \<open>quic.go\<close>, \<open>haproxy.go\<close>, \<open>relay.go\<close>,
      \<open>internal/gatewaymetrics\<close>): the pipeline from the first byte to the two copy loops.
    \<^item> \<open>Rule_Policy\<close>, \<open>Trusted_Real_IP\<close> (\<open>plugin/official\<close>): the built-in plugins.

  \<^bold>\<open>Theories of the control plane.\<close>

    \<^item> \<open>Admin_User\<close>, \<open>Admin_Session\<close>, \<open>Admin_Audit\<close>, \<open>Admin_Service\<close>, \<open>Admin_Config\<close>, \<open>Admin_Http\<close>, \<open>Admin_Handlers\<close>: accounts,
      bearer tokens, audit log, listener services, start-up configuration, request routing and static
      files, and the handlers of every API endpoint but those of plugins.
    \<^item> \<open>Plugin_Sessions\<close>, \<open>Plugin_Retirement\<close>, \<open>Plugin_Lifecycle\<close>, \<open>Plugin_Reconcile\<close> (\<open>manager.go\<close>, \<open>manager_close.go\<close>): which connection uses
      which runtime, the deferred stop of replaced runtimes, and \<open>Load\<close>, \<open>Enable\<close>, \<open>Disable\<close>, \<open>Delete\<close> and \<open>Reconcile\<close> on top.
    \<^item> \<open>Plugin_Config\<close> (\<open>manager.go\<close>): schema validation, secrets and redaction of plugin configurations.
    \<^item> \<open>Task_Lease\<close>, \<open>Background_Task\<close> (\<open>repository.go\<close>, \<open>operations.go\<close>): leases of background tasks among several nodes, and the
      tasks: registration, schedulers, runs with their attempts and renewals.

  \<^bold>\<open>What plugins are given\<close> (\<open>operations.go\<close>, \<open>repository.go\<close>).

    \<^item> \<open>Ops_Common\<close>: names, redaction, store keys and paths.
    \<^item> \<open>External_Client\<close>: requests to declared services with retries and a circuit breaker.
    \<^item> \<open>Plugin_Store\<close>: the key-value store and the files, with quotas.
    \<^item> \<open>Plugin_Events\<close>, \<open>Event_Delivery\<close>: events, metrics, logs and exporters; delivery to subscribers and dead letters.
    \<^item> \<open>Plugin_Ingress\<close> (\<open>ingress_lifecycle.go\<close>): listeners that plugins open through the gateway.

  \<^bold>\<open>Supply chain.\<close>  \<open>Plugin_Trust\<close> (\<open>supply_chain_trust.go\<close>): the keys that sign artifacts, their rotation and revocation, and verification.
  \<open>Plugin_Policy\<close>, \<open>Plugin_Preflight\<close>, \<open>Plugin_Governance\<close> (\<open>governance.go\<close>): the rules on versions, risk and ordering, the checks of an artifact, and the
  release gate with its reviews, overrides, advisories and quarantine.

  \<^bold>\<open>WASM plugins.\<close>  \<open>Wasm_Abi\<close> (\<open>wasm_abi.go\<close>): exports, imports, requests, responses and error codes.  \<open>Wasm_Runtime\<close> (\<open>wasm_runtime.go\<close>): the runner with
  its module cache, one call through the memory of an instance, the hosted plugin and its counters.  \<open>Wasm_Lifecycle\<close>: calls, drains and stops interleaved, the adapter,
  the quarantine callback and the reload in \<open>manager.go\<close>.  \<open>Wasm_Admission\<close>: the answers this runtime gives to the checks of \<open>Plugin_Preflight\<close>.  \<open>Plugin_Gc\<close>
  (\<open>gc.go\<close>): which artifacts and build logs are collected.

  \<^bold>\<open>How the code is modelled.\<close>  A Go struct is a record, a string or byte slice a \<^typ>\<open>string\<close>, an error the left
  side of a sum.  A method takes the state and returns it.  What the program does not contain (the
  network, SQLite, bcrypt, random tokens, the clock, loaded plugins, runtime adapters, JSON encoding) is an
  argument: the result of each such call, failures included.  A critical section is one step; where
  goroutines or nodes meet, a step relation interleaves them (\<open>Route\<close>, \<open>Takeover\<close>, \<open>Tcp_Http_Mux\<close>,
  \<open>Plugin_Retirement\<close>, \<open>Task_Lease\<close>, \<open>Wasm_Lifecycle\<close>).

  \<^bold>\<open>Interfaces.\<close>  \<open>keyed_store\<close> (what a client relies on in a table, interpreted by the route table and by the plugins' data), \<open>deferred_retirement\<close>
  (stopping a resource when its last user has left, interpreted by the plugin sessions), and the
  locales of the single theories are each interpreted on the definitions of the model.

  \<^bold>\<open>Loops.\<close>  \<open>encodeVarInt\<close> does not end on negative values and is a \<open>partial_function (option)\<close>; the theorem says exactly
  when it returns.  All other loops are total functions: reads consume a finite list of results of the network,
  the VarInt loop ends after five bytes, handler chains are finite lists.

  \<^bold>\<open>What the properties show.\<close>  Data path: the upstream gets the client's bytes exactly once and in order, whatever
  the reads, plugins and failures; a handshake round-trips; HTTP detection does not depend on how bytes arrive.
  Plugins: the core runs at most once per connection, a continuation starts at most once, no runtime is
  stopped under a connection while plugins are upgraded or disabled.  Control plane: changes need a
  live session with the role, the last administrator stays, sessions follow accounts, changes are
  audited, routes are published as stored.  Configurations: validation is characterised by paths,
  secrets do not leave through a dry run of new values.  Leases: one holder at a time, a task runs under
  its lease only, and renewals keep it.
  What plugins are given: requests stay in the declared endpoint, files in the plugin's directory, data in the quota; exported
  labels are clean; event queues are bounded and account for every event; an accepted event is acknowledged or kept;
  no ingress socket is without an owner.  Supply chain: a revoked key verifies nothing; the gate lets
  through only what was checked, reviewed and not warned against.  WASM: an answer that is acted upon keeps the contract of its extension point and comes from checked code
  within its limits; a drained plugin is idle for good; collections leave alone what is referenced.
  Theorems that are counterexamples state where the code falls short of this.

  \<^bold>\<open>Not modelled.\<close>  Operating-system and third-party layers: listeners of KCP, QUIC and WebSocket, sandbox and process
  runtimes, the WASM engine, container builds, log and PID files.  The plugin command line and the TypeScript
  frontend are clients of the API.  Reports, advisory feeds, promotion bundles, diagnostics and the other
  sections of the operations snapshot only summarise stored data.
\<close>

end
